(* ===== verification/Prelude.thy ===== *)
theory Prelude
  imports Main "HOL-Library.Word" "HOL-Library.List_Lexorder"
begin

text \<open>
  Shared base of the Monomer development: byte strings and fixed-width integers, the
  big-endian encodings and their order, Go's error values and the three outcomes a Go
  call can have (a result, an error value, a panic), and the combinators with which
  the component theories write the source's \<^verbatim>\<open>if err != nil { return ... }\<close> chains.
\<close>

section \<open>Types that name the program's data\<close>

type_synonym byte = "8 word"
type_synonym bytes = "byte list"
type_synonym u16 = "16 word"
type_synonym u32 = "32 word"
type_synonym u64 = "64 word"
type_synonym hash = "256 word"
type_synonym address = "160 word"

named_theorems go_simps \<open>unfolding of the outcome and error combinators\<close>
named_theorems codec_simps \<open>round trips of the byte encodings\<close>

section \<open>Go errors\<close>

text \<open>
  An error is an identity that \<^verbatim>\<open>errors.Is\<close> can see (a sentinel, reached through
  \<^verbatim>\<open>%w\<close> wrapping and multierrors) under layers of context. \<open>Errorf_v\<close> is
  \<^verbatim>\<open>fmt.Errorf("...: %v", err)\<close>, which hides the wrapped identity; \<open>Errorf_w\<close> is the
  \<^verbatim>\<open>%w\<close> form. Only the fixed text of a message is kept. \<open>External\<close> errors are
  made by code outside the repository. \<open>ApiErr\<close> is an engine API error with its
  JSON-RPC kind; \<open>SdkErr\<close> is an error registered with the Cosmos SDK, by its code.
\<close>

datatype api_code =
    InvalidForkChoiceState | InvalidPayloadAttributes | GenericServerError | InvalidParams

datatype goerr =
    ErrNotFound
  | PebbleErrNotFound
  | EthereumNotFound
  | ErrorNew string
  | Errorf_v string goerr
  | Errorf_w string goerr
  | MultiErr "goerr list"
  | ApiErr api_code goerr
  | SdkErr nat string
  | External string

fun errors_Is :: "goerr \<Rightarrow> goerr \<Rightarrow> bool" where
  "errors_Is (Errorf_w m e) t = (Errorf_w m e = t \<or> errors_Is e t)"
| "errors_Is (MultiErr es) t = (MultiErr es = t \<or> list_ex (\<lambda>e. errors_Is e t) es)"
| "errors_Is e t = (e = t)"

datatype 'a res = Ok 'a | Err goerr | Panic goerr

text \<open>
  \<open>check m w k\<close> is the Go statement \<^verbatim>\<open>x, err := m; if err != nil { return w(err) }; k\<close>.
  \<open>pass\<close> returns the error as it is.
\<close>

definition check :: "'a res \<Rightarrow> (goerr \<Rightarrow> goerr) \<Rightarrow> ('a \<Rightarrow> 'b res) \<Rightarrow> 'b res" where
  "check m w k = (case m of Ok x \<Rightarrow> k x | Err e \<Rightarrow> Err (w e) | Panic p \<Rightarrow> Panic p)"

definition pass :: "goerr \<Rightarrow> goerr" where
  "pass e = e"

text \<open>
  The same for operations on a state, which keep the effects of what ran before the
  error: \<open>scheck\<close> sequences two such operations, \<open>slift\<close> makes one of a pure outcome.
\<close>

type_synonym ('s, 'a) op = "'s \<Rightarrow> 'a res \<times> 's"

definition scheck :: "('s, 'a) op \<Rightarrow> (goerr \<Rightarrow> goerr) \<Rightarrow> ('a \<Rightarrow> ('s, 'b) op) \<Rightarrow> ('s, 'b) op" where
  "scheck m w k s = (case m s of
       (Ok x, s') \<Rightarrow> k x s'
     | (Err e, s') \<Rightarrow> (Err (w e), s')
     | (Panic p, s') \<Rightarrow> (Panic p, s'))"

definition slift :: "('s \<Rightarrow> 'a res) \<Rightarrow> ('s, 'a) op" where
  "slift f s = (f s, s)"

definition sret :: "'a \<Rightarrow> ('s, 'a) op" where
  "sret x s = (Ok x, s)"

definition sfail :: "goerr \<Rightarrow> ('s, 'a) op" where
  "sfail e s = (Err e, s)"

text \<open>
  An operation that may not return is \<open>None\<close> where it does not. \<open>total\<close> makes one of an
  operation that always returns.
\<close>

type_synonym ('s, 'a) pop = "'s \<Rightarrow> ('a res \<times> 's) option"

definition pcheck :: "('s, 'a) pop \<Rightarrow> (goerr \<Rightarrow> goerr) \<Rightarrow> ('a \<Rightarrow> ('s, 'b) pop) \<Rightarrow> ('s, 'b) pop" where
  "pcheck m w k s = (case m s of
       None \<Rightarrow> None
     | Some (Ok x, s') \<Rightarrow> k x s'
     | Some (Err e, s') \<Rightarrow> Some (Err (w e), s')
     | Some (Panic p, s') \<Rightarrow> Some (Panic p, s'))"

definition total :: "('s, 'a) op \<Rightarrow> ('s, 'a) pop" where
  "total m s = Some (m s)"

lemma total_eq [simp]: "total m s = Some (m s)"
  by (simp add: total_def)

lemma pcheck_Ok [simp]: "m s = Some (Ok x, s') \<Longrightarrow> pcheck m w k s = k x s'"
  and pcheck_Err [simp]: "m s = Some (Err e, s') \<Longrightarrow> pcheck m w k s = Some (Err (w e), s')"
  and pcheck_Panic [simp]: "m s = Some (Panic p, s') \<Longrightarrow> pcheck m w k s = Some (Panic p, s')"
  by (simp_all add: pcheck_def)

lemma pcheck_OkE:
  assumes "pcheck m w k s = Some (Ok y, t)"
  obtains x s' where "m s = Some (Ok x, s')" and "k x s' = Some (Ok y, t)"
  using assms by (auto simp: pcheck_def split: option.splits prod.splits res.splits)

lemma check_simps [simp]:
  "check (Ok x) w k = k x"
  "check (Err e) w k = Err (w e)"
  "check (Panic p) w k = Panic p"
  by (simp_all add: check_def)

lemma pass_eq [simp]: "pass e = e"
  by (simp add: pass_def)

lemma slift_eq [simp]: "slift f s = (f s, s)"
  and sret_eq [simp]: "sret x s = (Ok x, s)"
  and sfail_eq [simp]: "sfail e s = (Err e, s)"
  by (simp_all add: slift_def sret_def sfail_def)

lemma scheck_Ok [simp]: "m s = (Ok x, s') \<Longrightarrow> scheck m w k s = k x s'"
  and scheck_Err [simp]: "m s = (Err e, s') \<Longrightarrow> scheck m w k s = (Err (w e), s')"
  and scheck_Panic [simp]: "m s = (Panic p, s') \<Longrightarrow> scheck m w k s = (Panic p, s')"
  by (simp_all add: scheck_def)

lemma check_Ok_iff: "check m w k = Ok y \<longleftrightarrow> (\<exists>x. m = Ok x \<and> k x = Ok y)"
  by (cases m) simp_all

lemma check_OkE:
  assumes "check m w k = Ok y"
  obtains x where "m = Ok x" and "k x = Ok y"
  using assms by (auto simp: check_Ok_iff)

lemma scheck_OkE:
  assumes "scheck m w k s = (Ok y, t)"
  obtains x s' where "m s = (Ok x, s')" and "k x s' = (Ok y, t)"
  using assms by (auto simp: scheck_def split: prod.splits res.splits)

section \<open>Big-endian encodings\<close>

primrec be_enc :: "nat \<Rightarrow> nat \<Rightarrow> bytes" where
  "be_enc 0 x = []"
| "be_enc (Suc n) x = word_of_nat (x div 256 ^ n) # be_enc n x"

primrec be_dec :: "bytes \<Rightarrow> nat" where
  "be_dec [] = 0"
| "be_dec (b # bs) = unat b * 256 ^ length bs + be_dec bs"

lemma length_be_enc [simp]: "length (be_enc n x) = n"
  by (induction n) simp_all

lemma be_enc_numeral [simp]:
  "be_enc (numeral k) x =
   word_of_nat (x div 256 ^ pred_numeral k) # be_enc (pred_numeral k) x"
  by (simp add: numeral_eq_Suc)

lemma unat_byte_of_nat: "unat (word_of_nat x :: byte) = x mod 256"
  by (simp add: unat_of_nat)

lemma be_dec_enc_mod: "be_dec (be_enc n x) = x mod 256 ^ n"
proof (induction n)
  case 0
  then show ?case by simp
next
  case (Suc n)
  have "x mod (256 ^ n * 256) = 256 ^ n * (x div 256 ^ n mod 256) + x mod 256 ^ n"
    by (rule mod_mult2_eq)
  with Suc show ?case
    by (simp add: unat_byte_of_nat mult.commute)
qed

lemma be_dec_enc [codec_simps]: "x < 256 ^ n \<Longrightarrow> be_dec (be_enc n x) = x"
  by (simp add: be_dec_enc_mod)

lemma unat_byte_less: "unat (b :: byte) < 256"
  using unsigned_less [of b, where ?'a = nat] by simp

lemma be_dec_less: "be_dec bs < 256 ^ length bs"
proof (induction bs)
  case Nil
  then show ?case by simp
next
  case (Cons b bs)
  have "unat b + 1 \<le> 256" using unat_byte_less [of b] by simp
  then have "(unat b + 1) * 256 ^ length bs \<le> 256 * 256 ^ length bs"
    by (rule mult_le_mono1)
  moreover have "be_dec (b # bs) < (unat b + 1) * 256 ^ length bs"
    using Cons by (simp add: distrib_right)
  ultimately show ?case by (simp only: length_Cons power_Suc)
qed

lemma be_enc_add_mult: "be_enc n (x + k * 256 ^ n) = be_enc n x"
proof (induction n arbitrary: k)
  case 0
  then show ?case by simp
next
  case (Suc n)
  have "(x + k * 256 ^ Suc n) div 256 ^ n = x div 256 ^ n + k * 256"
    by (simp add: div_mult_self1 mult.assoc [symmetric])
  moreover have "(word_of_nat (y + k * 256) :: byte) = word_of_nat y" for y
    by (rule word_unat_eq_iff [THEN iffD2]) (simp only: unat_byte_of_nat mod_mult_self1)
  moreover have "be_enc n (x + (k * 256) * 256 ^ n) = be_enc n x"
    by (rule Suc)
  ultimately show ?case by (simp add: mult.assoc)
qed

lemma be_enc_dec: "be_enc (length bs) (be_dec bs) = bs"
proof (induction bs)
  case Nil
  then show ?case by simp
next
  case (Cons b bs)
  have "(unat b * 256 ^ length bs + be_dec bs) div 256 ^ length bs = unat b"
    using be_dec_less [of bs] by simp
  moreover have "be_enc (length bs) (be_dec bs + unat b * 256 ^ length bs) = bs"
    by (simp only: be_enc_add_mult Cons)
  ultimately show ?case by (simp add: add.commute)
qed

lemma be_dec_inj: "length xs = length ys \<Longrightarrow> be_dec xs = be_dec ys \<Longrightarrow> xs = ys"
  by (metis be_enc_dec)

lemma be_enc_inj: "x < 256 ^ n \<Longrightarrow> y < 256 ^ n \<Longrightarrow> be_enc n x = be_enc n y \<longleftrightarrow> x = y"
  by (metis be_dec_enc)

lemma be_dec_order:
  "length xs = length ys \<Longrightarrow> xs < ys \<longleftrightarrow> be_dec xs < be_dec ys"
proof (induction xs ys rule: list_induct2)
  case Nil
  then show ?case by simp
next
  case (Cons x xs y ys)
  let ?B = "256 ^ length ys :: nat"
  have bx: "be_dec xs < ?B" and bys: "be_dec ys < ?B"
    using be_dec_less [of xs] be_dec_less [of ys] Cons.hyps by simp_all
  consider (lt) "unat x < unat y" | (eq) "x = y" | (gt) "unat y < unat x"
    by (metis linorder_neqE_nat word_unat_eq_iff)
  then show ?case
  proof cases
    case lt
    then have "(unat x + 1) * ?B \<le> unat y * ?B"
      by (intro mult_le_mono1) simp
    with lt bx Cons.hyps show ?thesis
      by (simp add: word_less_nat_alt algebra_simps)
  next
    case eq
    with Cons show ?thesis by simp
  next
    case gt
    then have "(unat y + 1) * ?B \<le> unat x * ?B"
      by (intro mult_le_mono1) simp
    with gt bys Cons.hyps show ?thesis
      by (auto simp: word_less_nat_alt algebra_simps)
  qed
qed

lemma be_enc_less_iff:
  "x < 256 ^ n \<Longrightarrow> y < 256 ^ n \<Longrightarrow> be_enc n x < be_enc n y \<longleftrightarrow> x < y"
  by (simp add: be_dec_order be_dec_enc)

section \<open>Fixed-size words as bytes\<close>

text \<open>
  \<^verbatim>\<open>binary.BigEndian.PutUint64\<close> and \<^verbatim>\<open>Uint64\<close> (which panics on a slice shorter than
  eight bytes), and the byte views of \<^verbatim>\<open>common.Hash\<close> and \<^verbatim>\<open>common.Address\<close>. The
  conversion of a slice to the array type panics when the slice is too short.
\<close>

definition put_uint64 :: "u64 \<Rightarrow> bytes" where
  "put_uint64 x = be_enc 8 (unat x)"

definition get_uint64 :: "bytes \<Rightarrow> u64 res" where
  "get_uint64 bs = (if length bs < 8 then Panic (External ''index out of range'')
     else Ok (word_of_nat (be_dec (take 8 bs))))"

definition hash_Bytes :: "hash \<Rightarrow> bytes" where
  "hash_Bytes h = be_enc 32 (unat h)"

definition address_Bytes :: "address \<Rightarrow> bytes" where
  "address_Bytes a = be_enc 20 (unat a)"

definition hash_of_slice :: "bytes \<Rightarrow> hash res" where
  "hash_of_slice bs = (if length bs < 32 then Panic (External ''slice to array'')
     else Ok (word_of_nat (be_dec (take 32 bs))))"

lemma unat_u64_less: "unat (x :: u64) < 256 ^ 8"
  using unsigned_less [of x, where ?'a = nat] by simp

lemma unat_hash_less: "unat (x :: hash) < 256 ^ 32"
  using unsigned_less [of x, where ?'a = nat] by simp

lemma unat_address_less: "unat (x :: address) < 256 ^ 20"
  using unsigned_less [of x, where ?'a = nat] by simp

lemma length_put_uint64 [simp]: "length (put_uint64 x) = 8"
  and length_hash_Bytes [simp]: "length (hash_Bytes h) = 32"
  and length_address_Bytes [simp]: "length (address_Bytes a) = 20"
  by (simp_all only: put_uint64_def hash_Bytes_def address_Bytes_def length_be_enc)

lemma get_put_uint64 [simp, codec_simps]: "get_uint64 (put_uint64 x) = Ok x"
  using be_dec_enc [OF unat_u64_less [of x]]
  by (simp add: get_uint64_def put_uint64_def)

lemma hash_of_slice_Bytes [simp, codec_simps]: "hash_of_slice (hash_Bytes h) = Ok h"
  using be_dec_enc [OF unat_hash_less [of h]]
  by (simp add: hash_of_slice_def hash_Bytes_def)

lemma put_uint64_inj [simp]: "put_uint64 x = put_uint64 y \<longleftrightarrow> x = y"
  by (metis get_put_uint64 res.inject(1))

lemma hash_Bytes_inj [simp]: "hash_Bytes x = hash_Bytes y \<longleftrightarrow> x = y"
  by (metis hash_of_slice_Bytes res.inject(1))

lemma put_uint64_less_iff [simp]: "put_uint64 x < put_uint64 y \<longleftrightarrow> x < y"
  unfolding put_uint64_def
  by (subst be_enc_less_iff [OF unat_u64_less unat_u64_less]) (simp add: word_less_nat_alt)

lemma put_uint64_le_iff [simp]: "put_uint64 x \<le> put_uint64 y \<longleftrightarrow> x \<le> y"
  by (simp add: linorder_not_less [symmetric])

text \<open>The successor of a 64-bit height that is not the last one.\<close>

lemma unat_u64_Suc: "(h :: u64) \<noteq> - 1 \<Longrightarrow> unat (h + 1) = unat h + 1"
  using unatSuc [of h] by (metis add.commute eq_neg_iff_add_eq_0 plus_1_eq_Suc)

lemma u64_less_Suc: "(h :: u64) \<noteq> - 1 \<Longrightarrow> x < h + 1 \<longleftrightarrow> x \<le> h"
  by (simp add: word_less_nat_alt word_le_nat_alt unat_u64_Suc less_Suc_eq_le)

lemma Suc_le_iff_less: "(n :: u64) \<noteq> - 1 \<Longrightarrow> n + 1 \<le> g \<longleftrightarrow> n < g"
  by (metis linorder_not_less u64_less_Suc)

section \<open>Strings as bytes, and list facts\<close>

definition str :: "string \<Rightarrow> bytes" where
  "str s = map of_char s"

lemma list_less_same_prefix [simp]:
  fixes xs ys zs :: "'a::linorder list"
  shows "xs @ ys < xs @ zs \<longleftrightarrow> ys < zs" and "xs @ ys \<le> xs @ zs \<longleftrightarrow> ys \<le> zs"
  by (induction xs) simp_all

lemma append_less_by_prefix:
  fixes xs ys :: "'a::linorder list"
  shows "length xs = length ys \<Longrightarrow> xs < ys \<Longrightarrow> xs @ us < ys @ vs"
  by (induction xs ys rule: list_induct2) auto

lemma append_le_self:
  fixes xs ys :: "'a::linorder list"
  shows "xs \<le> xs @ ys"
  by (induction xs) simp_all

lemma append_between_iff:
  fixes k u :: bytes
  assumes "length k = length lo" and "length lo = length hi"
  shows "lo \<le> k @ u \<and> k @ u < hi \<longleftrightarrow> lo \<le> k \<and> k < hi"
proof
  assume lo_hi: "lo \<le> k @ u \<and> k @ u < hi"
  have "lo \<le> k"
  proof (rule ccontr)
    assume "\<not> lo \<le> k"
    then have "k @ u < lo @ []" using assms by (intro append_less_by_prefix) simp_all
    with lo_hi show False by (simp add: leD)
  qed
  moreover have "k < hi"
  proof (rule ccontr)
    assume "\<not> k < hi"
    then have "hi \<le> k" by simp
    also have "k \<le> k @ u" by (rule append_le_self)
    finally show False using lo_hi by (simp add: leD)
  qed
  ultimately show "lo \<le> k \<and> k < hi" ..
next
  assume lo_hi: "lo \<le> k \<and> k < hi"
  then have "lo \<le> k @ u" using append_le_self [of k u] by (meson order_trans)
  moreover have "k @ u < hi @ []" using lo_hi assms by (intro append_less_by_prefix) simp_all
  ultimately show "lo \<le> k @ u \<and> k @ u < hi" by simp
qed

lemma strict_sorted_unique:
  fixes xs ys :: "'a::linorder list"
  assumes "sorted_wrt (<) xs" and "sorted_wrt (<) ys" and "set xs = set ys"
  shows "xs = ys"
  using assms by (simp add: strict_sorted_equal)

end
