(* ===== verification/Stores.thy ===== *)
theory Stores
  imports Prelude
begin

text \<open>
  The key-value stores the node is built on are third-party packages (pebble for blocks,
  cosmos-db for the mempool, cometbft-db for the transaction index). They are parameters
  of the model: records of the operations the source calls. What the source relies on is
  stated by \<open>pebble_ok\<close> and \<open>dbm_ok\<close>, relative to a view of a store state as a map from
  byte strings to byte strings: reads return the map's value, iterators list a half-open
  key range in byte order, a committed batch applies its operations in order. The
  association-list stores at the end satisfy both, so the hypotheses can hold.
\<close>

section \<open>Batches\<close>

datatype batch_op = BSet bytes bytes | BDelete bytes | BDeleteRange bytes bytes

type_synonym batch = "batch_op list"

fun apply_batch_op :: "batch_op \<Rightarrow> (bytes \<rightharpoonup> bytes) \<Rightarrow> (bytes \<rightharpoonup> bytes)" where
  "apply_batch_op (BSet k v) m = m(k \<mapsto> v)"
| "apply_batch_op (BDelete k) m = m(k := None)"
| "apply_batch_op (BDeleteRange lo hi) m = (\<lambda>k. if lo \<le> k \<and> k < hi then None else m k)"

definition apply_batch :: "batch \<Rightarrow> (bytes \<rightharpoonup> bytes) \<Rightarrow> (bytes \<rightharpoonup> bytes)" where
  "apply_batch b m = fold apply_batch_op b m"

lemma apply_batch_Nil [simp]: "apply_batch [] m = m"
  and apply_batch_Cons [simp]: "apply_batch (x # b) m = apply_batch b (apply_batch_op x m)"
  and apply_batch_append [simp]: "apply_batch (a @ b) m = apply_batch b (apply_batch a m)"
  by (simp_all add: apply_batch_def)

text \<open>What a map holds in a key range, listed in byte order.\<close>

definition lists_range :: "(bytes \<rightharpoonup> bytes) \<Rightarrow> bytes \<Rightarrow> bytes \<Rightarrow> (bytes \<times> bytes) list \<Rightarrow> bool" where
  "lists_range m lo hi kvs \<longleftrightarrow>
     sorted_wrt (<) (map fst kvs) \<and>
     (\<forall>k v. (k, v) \<in> set kvs \<longleftrightarrow> m k = Some v \<and> lo \<le> k \<and> k < hi)"

lemma sorted_keys_unique:
  fixes xs ys :: "('k::linorder \<times> 'v) list"
  assumes "sorted_wrt (<) (map fst xs)" and "sorted_wrt (<) (map fst ys)" and "set xs = set ys"
  shows "xs = ys"
proof -
  have fs: "map fst xs = map fst ys"
    by (rule strict_sorted_unique [OF assms(1,2)]) (simp add: assms(3))
  have "distinct (map fst ys)" using assms(2) by (simp add: strict_sorted_iff)
  then have inj: "inj_on fst (set ys)" by (simp add: distinct_map)
  show ?thesis
  proof (rule nth_equalityI)
    show "length xs = length ys" using fs by (metis length_map)
    fix i assume i: "i < length xs"
    then have iy: "i < length ys" using fs by (metis length_map)
    have "fst (xs ! i) = fst (ys ! i)" using fs i iy by (metis nth_map)
    moreover have "xs ! i \<in> set ys" using i assms(3) by (metis nth_mem)
    ultimately show "xs ! i = ys ! i" using inj iy by (meson inj_onD nth_mem)
  qed
qed

lemma lists_range_unique:
  assumes "lists_range m lo hi xs" and "lists_range m lo hi ys"
  shows "xs = ys"
proof (rule sorted_keys_unique)
  show "set xs = set ys"
    using assms by (auto simp: lists_range_def)
qed (use assms in \<open>simp_all add: lists_range_def\<close>)

section \<open>Pebble\<close>

text \<open>
  A snapshot is a store state. \<open>peb_BatchOp\<close> is the error, if any, of adding an operation
  to a batch; \<open>peb_BatchGet\<close> and \<open>peb_BatchNewIter\<close> read an indexed batch over a state (an
  iterator does not see operations added after it was made); \<open>peb_Close\<close> is the error, if
  any, of closing a snapshot, batch, iterator or value.
\<close>

record 's pebble =
  peb_Get :: "'s \<Rightarrow> bytes \<Rightarrow> bytes res"
  peb_NewIter :: "'s \<Rightarrow> bytes \<Rightarrow> bytes \<Rightarrow> (bytes \<times> bytes res) list res"
  peb_BatchGet :: "'s \<Rightarrow> batch \<Rightarrow> bytes \<Rightarrow> bytes res"
  peb_BatchNewIter :: "'s \<Rightarrow> batch \<Rightarrow> bytes \<Rightarrow> bytes \<Rightarrow> (bytes \<times> bytes res) list res"
  peb_BatchOp :: "'s \<Rightarrow> batch \<Rightarrow> batch_op \<Rightarrow> goerr option"
  peb_Commit :: "'s \<Rightarrow> batch \<Rightarrow> unit res \<times> 's"
  peb_Close :: "'s \<Rightarrow> goerr option"

definition map_get :: "(bytes \<rightharpoonup> bytes) \<Rightarrow> bytes \<Rightarrow> bytes res" where
  "map_get m k = (case m k of None \<Rightarrow> Err PebbleErrNotFound | Some v \<Rightarrow> Ok v)"

definition map_iter :: "(bytes \<rightharpoonup> bytes) \<Rightarrow> bytes \<Rightarrow> bytes \<Rightarrow> (bytes \<times> bytes res) list res \<Rightarrow> bool" where
  "map_iter m lo hi r \<longleftrightarrow>
     (\<exists>kvs. lists_range m lo hi kvs \<and> r = Ok (map (\<lambda>(k, v). (k, Ok v)) kvs))"

definition pebble_ok :: "'s pebble \<Rightarrow> ('s \<Rightarrow> bytes \<rightharpoonup> bytes) \<Rightarrow> bool" where
  "pebble_ok pb view \<longleftrightarrow>
     (\<forall>s k. peb_Get pb s k = map_get (view s) k) \<and>
     (\<forall>s lo hi. map_iter (view s) lo hi (peb_NewIter pb s lo hi)) \<and>
     (\<forall>s b k. peb_BatchGet pb s b k = map_get (apply_batch b (view s)) k) \<and>
     (\<forall>s b lo hi. map_iter (apply_batch b (view s)) lo hi (peb_BatchNewIter pb s b lo hi)) \<and>
     (\<forall>s b x. peb_BatchOp pb s b x = None) \<and>
     (\<forall>s b. \<exists>s'. peb_Commit pb s b = (Ok (), s') \<and> view s' = apply_batch b (view s)) \<and>
     (\<forall>s. peb_Close pb s = None)"

lemma pebble_okD:
  assumes "pebble_ok pb view"
  shows pebble_Get: "peb_Get pb s k = map_get (view s) k"
    and pebble_NewIter: "map_iter (view s) lo hi (peb_NewIter pb s lo hi)"
    and pebble_BatchGet: "peb_BatchGet pb s b k = map_get (apply_batch b (view s)) k"
    and pebble_BatchNewIter:
      "map_iter (apply_batch b (view s)) lo hi (peb_BatchNewIter pb s b lo hi)"
    and pebble_BatchOp: "peb_BatchOp pb s b x = None"
    and pebble_Commit: "\<exists>s'. peb_Commit pb s b = (Ok (), s') \<and> view s' = apply_batch b (view s)"
    and pebble_Close: "peb_Close pb s = None"
  using assms unfolding pebble_ok_def by blast+

lemma map_get_Some [simp]: "m k = Some v \<Longrightarrow> map_get m k = Ok v"
  and map_get_None [simp]: "m k = None \<Longrightarrow> map_get m k = Err PebbleErrNotFound"
  by (simp_all add: map_get_def)

section \<open>cosmos-db and cometbft-db\<close>

text \<open>
  Both packages have the same interface; a missing key reads as nil (\<open>None\<close>). Only the
  transaction store iterates.
\<close>

record 's dbm =
  dbm_Get :: "'s \<Rightarrow> bytes \<Rightarrow> bytes option res"
  dbm_Iterator :: "'s \<Rightarrow> bytes \<Rightarrow> bytes \<Rightarrow> (bytes \<times> bytes) list res"
  dbm_BatchOp :: "'s \<Rightarrow> batch \<Rightarrow> batch_op \<Rightarrow> goerr option"
  dbm_WriteSync :: "'s \<Rightarrow> batch \<Rightarrow> unit res \<times> 's"
  dbm_Close :: "'s \<Rightarrow> goerr option"

definition dbm_ok :: "'s dbm \<Rightarrow> ('s \<Rightarrow> bytes \<rightharpoonup> bytes) \<Rightarrow> bool" where
  "dbm_ok db view \<longleftrightarrow>
     (\<forall>s k. dbm_Get db s k = Ok (view s k)) \<and>
     (\<forall>s lo hi. \<exists>kvs. dbm_Iterator db s lo hi = Ok kvs \<and> lists_range (view s) lo hi kvs) \<and>
     (\<forall>s b x. dbm_BatchOp db s b x = None) \<and>
     (\<forall>s b. \<exists>s'. dbm_WriteSync db s b = (Ok (), s') \<and> view s' = apply_batch b (view s)) \<and>
     (\<forall>s. dbm_Close db s = None)"

lemma dbm_okD:
  assumes "dbm_ok db view"
  shows dbm_Get_ok: "dbm_Get db s k = Ok (view s k)"
    and dbm_Iterator_ok: "\<exists>kvs. dbm_Iterator db s lo hi = Ok kvs \<and> lists_range (view s) lo hi kvs"
    and dbm_BatchOp_ok: "dbm_BatchOp db s b x = None"
    and dbm_WriteSync_ok: "\<exists>s'. dbm_WriteSync db s b = (Ok (), s') \<and> view s' = apply_batch b (view s)"
    and dbm_Close_ok: "dbm_Close db s = None"
  using assms unfolding dbm_ok_def by blast+

section \<open>utils.WrapCloseErr\<close>

text \<open>
  A nil error is \<open>None\<close>. \<^verbatim>\<open>multierror.Append\<close> keeps the non-nil ones, in order, and
  appends to an error that is a multierror already.
\<close>

fun multierror_Append :: "goerr option \<Rightarrow> goerr option \<Rightarrow> goerr" where
  "multierror_Append None None = MultiErr []"
| "multierror_Append None (Some c) = MultiErr [c]"
| "multierror_Append (Some (MultiErr es)) None = MultiErr es"
| "multierror_Append (Some (MultiErr es)) (Some c) = MultiErr (es @ [c])"
| "multierror_Append (Some e) None = MultiErr [e]"
| "multierror_Append (Some e) (Some c) = MultiErr [e, c]"

definition WrapCloseErr :: "goerr option \<Rightarrow> goerr option \<Rightarrow> goerr option" where
  "WrapCloseErr err closeRes =
     (let closeErr = map_option (Errorf_v ''close'') closeRes
      in if err \<noteq> None \<or> closeErr \<noteq> None then Some (multierror_Append err closeErr) else None)"

text \<open>
  The deferred \<^verbatim>\<open>err = utils.WrapCloseErr(err, closer)\<close> of a function that returns a value
  and an error: a panic is not caught.
\<close>

definition deferClose :: "goerr option \<Rightarrow> 'a res \<Rightarrow> 'a res" where
  "deferClose c r = (case r of
       Ok x \<Rightarrow> (case WrapCloseErr None c of None \<Rightarrow> Ok x | Some e \<Rightarrow> Err e)
     | Err e \<Rightarrow> (case WrapCloseErr (Some e) c of None \<Rightarrow> Err e | Some e' \<Rightarrow> Err e')
     | Panic p \<Rightarrow> Panic p)"

lemma WrapCloseErr_None [simp]: "WrapCloseErr None None = None"
  by (simp add: WrapCloseErr_def)

lemma deferClose_Ok [simp]: "deferClose None (Ok x) = Ok x"
  and deferClose_Panic [simp]: "deferClose c (Panic p) = Panic p"
  by (simp_all add: deferClose_def)

lemma multierror_Append_Is:
  "errors_Is (multierror_Append (Some e) None) ErrNotFound = errors_Is e ErrNotFound"
  by (cases e) simp_all

lemma deferClose_Err: "deferClose None (Err e) = Err (multierror_Append (Some e) None)"
  by (simp add: deferClose_def WrapCloseErr_def)

text \<open>Closing without an error changes neither a result nor what \<open>errors.Is\<close> sees.\<close>

definition is_NotFound :: "'a res \<Rightarrow> bool" where
  "is_NotFound r = (case r of Err e \<Rightarrow> errors_Is e ErrNotFound | _ \<Rightarrow> False)"

lemma is_NotFound_simps [simp]:
  "is_NotFound (Ok x) = False"
  "is_NotFound (Err e) = errors_Is e ErrNotFound"
  "is_NotFound (Panic p) = False"
  by (simp_all add: is_NotFound_def)

lemma is_NotFound_deferClose [simp]: "is_NotFound (deferClose None r) = is_NotFound r"
  by (cases r) (simp_all add: deferClose_Err multierror_Append_Is)

lemma deferClose_Ok_iff [simp]: "deferClose None r = Ok x \<longleftrightarrow> r = Ok x"
  by (cases r) (simp_all add: deferClose_Err)

section \<open>Association-list stores\<close>

type_synonym kv = "(bytes \<times> bytes) list"

fun kv_op :: "batch_op \<Rightarrow> kv \<Rightarrow> kv" where
  "kv_op (BSet k v) s = (k, v) # s"
| "kv_op (BDelete k) s = filter (\<lambda>p. fst p \<noteq> k) s"
| "kv_op (BDeleteRange lo hi) s = filter (\<lambda>p. \<not> (lo \<le> fst p \<and> fst p < hi)) s"

definition kv_range :: "kv \<Rightarrow> bytes \<Rightarrow> bytes \<Rightarrow> kv" where
  "kv_range s lo hi =
     map (\<lambda>k. (k, the (map_of s k)))
       (filter (\<lambda>k. lo \<le> k \<and> k < hi) (sort (remdups (map fst s))))"

definition kv_get :: "kv \<Rightarrow> bytes \<Rightarrow> bytes res" where
  "kv_get s k = (case map_of s k of None \<Rightarrow> Err PebbleErrNotFound | Some v \<Rightarrow> Ok v)"

definition mem_pebble :: "kv pebble" where
  "mem_pebble = \<lparr>
     peb_Get = kv_get,
     peb_NewIter = (\<lambda>s lo hi. Ok (map (\<lambda>(k, v). (k, Ok v)) (kv_range s lo hi))),
     peb_BatchGet = (\<lambda>s b. kv_get (fold kv_op b s)),
     peb_BatchNewIter = (\<lambda>s b lo hi. Ok (map (\<lambda>(k, v). (k, Ok v)) (kv_range (fold kv_op b s) lo hi))),
     peb_BatchOp = (\<lambda>s b x. None),
     peb_Commit = (\<lambda>s b. (Ok (), fold kv_op b s)),
     peb_Close = (\<lambda>s. None)\<rparr>"

definition mem_dbm :: "kv dbm" where
  "mem_dbm = \<lparr>
     dbm_Get = (\<lambda>s k. Ok (map_of s k)),
     dbm_Iterator = (\<lambda>s lo hi. Ok (kv_range s lo hi)),
     dbm_BatchOp = (\<lambda>s b x. None),
     dbm_WriteSync = (\<lambda>s b. (Ok (), fold kv_op b s)),
     dbm_Close = (\<lambda>s. None)\<rparr>"

lemma map_of_filter_fst: "map_of (filter (\<lambda>p. P (fst p)) s) k = (if P k then map_of s k else None)"
  by (induction s) auto

lemma map_of_kv_op: "map_of (kv_op x s) = apply_batch_op x (map_of s)"
proof (cases x)
  case (BDelete k)
  then show ?thesis
    using map_of_filter_fst [where P = "\<lambda>j. j \<noteq> k" and s = s] by (simp add: fun_eq_iff)
next
  case (BDeleteRange lo hi)
  then show ?thesis
    using map_of_filter_fst [where P = "\<lambda>j. \<not> (lo \<le> j \<and> j < hi)" and s = s]
    by (simp add: fun_eq_iff)
qed simp

lemma map_of_kv_ops: "map_of (fold kv_op b s) = apply_batch b (map_of s)"
  by (induction b arbitrary: s) (simp_all add: map_of_kv_op)

lemma lists_range_kv: "lists_range (map_of s) lo hi (kv_range s lo hi)"
proof -
  let ?ks = "filter (\<lambda>k. lo \<le> k \<and> k < hi) (sort (remdups (map fst s)))"
  have ks: "map fst (kv_range s lo hi) = ?ks"
    by (simp add: kv_range_def comp_def)
  have "sorted_wrt (<) ?ks"
    by (simp add: sorted_wrt_filter strict_sorted_iff)
  moreover have "(k, v) \<in> set (kv_range s lo hi) \<longleftrightarrow> map_of s k = Some v \<and> lo \<le> k \<and> k < hi" for k v
  proof -
    have dom: "k \<in> set (map fst s) \<longleftrightarrow> map_of s k \<noteq> None"
      by (simp add: map_of_eq_None_iff)
    have "(k, v) \<in> set (kv_range s lo hi) \<longleftrightarrow>
        k \<in> set (map fst s) \<and> lo \<le> k \<and> k < hi \<and> v = the (map_of s k)"
      by (auto simp: kv_range_def)
    then show ?thesis unfolding dom by (cases "map_of s k") auto
  qed
  ultimately show ?thesis by (simp add: lists_range_def ks)
qed

lemma map_iter_kv:
  "map_iter (map_of s) lo hi (Ok (map (\<lambda>(k, v). (k, Ok v)) (kv_range s lo hi)))"
  using lists_range_kv unfolding map_iter_def by blast

lemma pebble_ok_mem: "pebble_ok mem_pebble map_of"
  unfolding pebble_ok_def mem_pebble_def
  by (simp add: kv_get_def map_get_def map_iter_kv flip: map_of_kv_ops)

lemma dbm_ok_mem: "dbm_ok mem_dbm map_of"
  unfolding dbm_ok_def mem_dbm_def
  by (auto simp: map_of_kv_ops lists_range_kv)

end
