(* ===== verification/Chain.thy ===== *)
theory Chain
  imports Stores
begin

text \<open>
  The chain's data (\<^verbatim>\<open>monomer.go\<close>): headers and blocks, their CometBFT view, payload
  attributes with their identifier, and the packing of public keys into addresses.
  SHA-256, RIPEMD-160, key compression and bech32 are parameters.
\<close>

section \<open>Headers and blocks\<close>

text \<open>Decimal digits, as \<^verbatim>\<open>strconv.FormatUint(x, 10)\<close> and \<^verbatim>\<open>%d\<close> print them.\<close>

fun dec_string :: "nat \<Rightarrow> string" where
  "dec_string n = (if n < 10 then [char_of (48 + n)]
     else dec_string (n div 10) @ [char_of (48 + n mod 10)])"

declare dec_string.simps [simp del]

definition ChainID_String :: "u64 \<Rightarrow> string" where
  "ChainID_String i = dec_string (unat i)"

definition ChainID_Big :: "u64 \<Rightarrow> nat" where
  "ChainID_Big i = unat i"

definition ChainID_HexBig :: "u64 \<Rightarrow> nat" where
  "ChainID_HexBig i = ChainID_Big i"

record header =
  h_ChainID :: u64
  h_Height :: u64
  h_Time :: u64
  h_ParentHash :: hash
  h_StateRoot :: hash
  h_ParentBeaconRoot :: "hash option"
  h_GasLimit :: u64
  h_Hash :: hash
  h_Coinbase :: address

definition zero_header :: header where
  "zero_header = \<lparr>h_ChainID = 0, h_Height = 0, h_Time = 0, h_ParentHash = 0, h_StateRoot = 0,
     h_ParentBeaconRoot = None, h_GasLimit = 0, h_Hash = 0, h_Coinbase = 0\<rparr>"

text \<open>The fields of CometBFT's header that the node fills in; times are Unix seconds.\<close>

record comet_header =
  ch_ChainID :: string
  ch_Height :: int
  ch_Time :: int
  ch_LastBlockID :: bytes
  ch_AppHash :: bytes
  ch_NextValidatorsHash :: bytes
  ch_ProposerAddress :: bytes

definition Header_ToComet :: "header \<Rightarrow> comet_header" where
  "Header_ToComet h = \<lparr>
     ch_ChainID = ChainID_String (h_ChainID h),
     ch_Height = sint (h_Height h),
     ch_Time = sint (h_Time h),
     ch_LastBlockID = hash_Bytes (h_ParentHash h),
     ch_AppHash = hash_Bytes (h_StateRoot h),
     ch_NextValidatorsHash = [],
     ch_ProposerAddress = []\<rparr>"

record block =
  b_Header :: header
  b_Txs :: "bytes list"

text \<open>A nil header or nil transaction slice (\<open>None\<close>) panics.\<close>

definition NewBlock :: "header option \<Rightarrow> bytes list option \<Rightarrow> block res" where
  "NewBlock h txs = (case (h, txs) of
       (Some h', Some txs') \<Rightarrow> Ok \<lparr>b_Header = h', b_Txs = txs'\<rparr>
     | _ \<Rightarrow> Panic (ErrorNew ''header or txs is nil''))"

record comet_block =
  cb_Header :: comet_header
  cb_Txs :: "bytes list"

definition Block_ToCometLikeBlock :: "block \<Rightarrow> comet_block" where
  "Block_ToCometLikeBlock b = \<lparr>cb_Header = Header_ToComet (b_Header b), cb_Txs = b_Txs b\<rparr>"

lemma NewBlock_Some [simp]: "NewBlock (Some h) (Some txs) = Ok \<lparr>b_Header = h, b_Txs = txs\<rparr>"
  by (simp add: NewBlock_def)

section \<open>Payload attributes and their identifier\<close>

record 'w payload_attributes =
  pa_Timestamp :: u64
  pa_PrevRandao :: hash
  pa_SuggestedFeeRecipient :: address
  pa_Withdrawals :: "'w option"
  pa_NoTxPool :: bool
  pa_GasLimit :: u64
  pa_ParentBeaconBlockRoot :: "hash option"
  pa_ParentHash :: hash
  pa_Height :: int
  pa_CosmosTxs :: "bytes list"
  pa_id :: "bytes option"

text \<open>
  The hasher is the byte stream written to it so far. \<^verbatim>\<open>binary.Write\<close> writes a uint64
  big-endian and a bool as one byte.
\<close>

definition hashData :: "bytes \<Rightarrow> bytes \<Rightarrow> bytes" where
  "hashData h data = h @ data"

datatype bin_value = BinU64 u64 | BinBool bool

definition hashDataAsBinary :: "bytes \<Rightarrow> bin_value \<Rightarrow> bytes" where
  "hashDataAsBinary h v =
     h @ (case v of BinU64 x \<Rightarrow> put_uint64 x | BinBool b \<Rightarrow> [if b then 1 else 0])"

definition PayloadAttributes_stream :: "'w payload_attributes \<Rightarrow> bytes" where
  "PayloadAttributes_stream p =
     (let h1 = hashData [] (hash_Bytes (pa_ParentHash p));
          h2 = hashDataAsBinary h1 (BinU64 (pa_Timestamp p));
          h3 = hashData h2 (hash_Bytes (pa_PrevRandao p));
          h4 = hashData h3 (address_Bytes (pa_SuggestedFeeRecipient p));
          h5 = hashDataAsBinary h4 (BinU64 (pa_GasLimit p))
      in if pa_NoTxPool p \<or> length (pa_CosmosTxs p) = 0
         then let h6 = hashDataAsBinary h5 (BinBool (pa_NoTxPool p));
                  h7 = hashDataAsBinary h6 (BinU64 (of_nat (length (pa_CosmosTxs p))))
              in fold (\<lambda>txData h. hashData h txData) (pa_CosmosTxs p) h7
         else h5)"

definition PayloadAttributes_ID ::
    "(bytes \<Rightarrow> bytes) \<Rightarrow> 'w payload_attributes \<Rightarrow> bytes \<times> 'w payload_attributes" where
  "PayloadAttributes_ID sha256 p = (case pa_id p of
       Some i \<Rightarrow> (i, p)
     | None \<Rightarrow> (let out = take 8 (sha256 (PayloadAttributes_stream p))
                in (out, p\<lparr>pa_id := Some out\<rparr>)))"

lemma ID_stable:
  "PayloadAttributes_ID sha p = (i, p') \<Longrightarrow> PayloadAttributes_ID sha p' = (i, p')"
  by (auto simp: PayloadAttributes_ID_def Let_def split: option.splits)

lemma ID_unchanged:
  "PayloadAttributes_ID sha p = (i, p') \<Longrightarrow> p' = p\<lparr>pa_id := Some i\<rparr>"
  by (cases p) (auto simp: PayloadAttributes_ID_def Let_def split: option.splits)

text \<open>The block-level result of a fork choice update.\<close>

datatype exec_status = ExecutionValid | ExecutionInvalid | ExecutionInvalidBlockHash

record payload_status =
  ps_Status :: exec_status
  ps_LatestValidHash :: "hash option"
  ps_ValidationError :: "string option"

record fcu_result =
  fr_PayloadStatus :: payload_status
  fr_PayloadID :: "bytes option"

definition ValidForkchoiceUpdateResult :: "hash option \<Rightarrow> bytes option \<Rightarrow> fcu_result" where
  "ValidForkchoiceUpdateResult headBlockHash i = \<lparr>
     fr_PayloadStatus = \<lparr>ps_Status = ExecutionValid, ps_LatestValidHash = headBlockHash,
                         ps_ValidationError = None\<rparr>,
     fr_PayloadID = i\<rparr>"

section \<open>Cosmos addresses in Ethereum addresses\<close>

definition address_of_slice :: "bytes \<Rightarrow> address res" where
  "address_of_slice bs = (if length bs < 20 then Panic (External ''slice to array'')
     else Ok (word_of_nat (be_dec (take 20 bs))))"

definition PubkeyToCosmosETHAddress ::
    "(bytes \<Rightarrow> bytes) \<Rightarrow> (bytes \<Rightarrow> bytes) \<Rightarrow> ('k \<Rightarrow> bytes) \<Rightarrow> 'k \<Rightarrow> address res" where
  "PubkeyToCosmosETHAddress sha256 ripemd160 compress pubKey =
     address_of_slice (ripemd160 (sha256 (compress pubKey)))"

definition CosmosETHAddress_Encode ::
    "(string \<Rightarrow> bytes \<Rightarrow> string res) \<Rightarrow> string \<Rightarrow> address \<Rightarrow> string res" where
  "CosmosETHAddress_Encode ConvertAndEncode hrp a = ConvertAndEncode hrp (address_Bytes a)"

lemma address_of_slice_Bytes [simp, codec_simps]: "address_of_slice (address_Bytes a) = Ok a"
  using be_dec_enc [OF unat_address_less [of a]]
  by (simp add: address_of_slice_def address_Bytes_def)

lemma address_Bytes_inj [simp]: "address_Bytes x = address_Bytes y \<longleftrightarrow> x = y"
  by (metis address_of_slice_Bytes res.inject(1))

section \<open>What the payload identifier depends on\<close>

lemma fold_hashData: "fold (\<lambda>txData h. hashData h txData) txs h = h @ concat txs"
  by (induction txs arbitrary: h) (simp_all add: hashData_def)

text \<open>
  The identifier of payload attributes that use the transaction pool and carry
  transactions is a function of parent, timestamp, randao, fee recipient and gas limit
  only: any other non-empty transaction list gives the same identifier.
\<close>

theorem payload_id_ignores_transactions:
  fixes p q :: "'w payload_attributes"
  assumes "pa_id p = None"
    and "\<not> pa_NoTxPool p" and "pa_CosmosTxs p \<noteq> []"
    and "q = p\<lparr>pa_CosmosTxs := txs\<rparr>" and "txs \<noteq> []"
  shows "fst (PayloadAttributes_ID sha256 q) = fst (PayloadAttributes_ID sha256 p)"
  using assms by (simp add: PayloadAttributes_ID_def PayloadAttributes_stream_def Let_def)

definition example_attributes :: "unit payload_attributes" where
  "example_attributes = \<lparr>pa_Timestamp = 7, pa_PrevRandao = 0, pa_SuggestedFeeRecipient = 0,
     pa_Withdrawals = None, pa_NoTxPool = False, pa_GasLimit = 30000000,
     pa_ParentBeaconBlockRoot = None, pa_ParentHash = 5, pa_Height = 2,
     pa_CosmosTxs = [[1], [2]], pa_id = None\<rparr>"

theorem payload_id_ignores_transactions_witness:
  "pa_CosmosTxs example_attributes = [[1], [2]] \<and>
   fst (PayloadAttributes_ID (\<lambda>b. b) (example_attributes\<lparr>pa_CosmosTxs := [[3]]\<rparr>)) =
   fst (PayloadAttributes_ID (\<lambda>b. b) example_attributes)"
proof
  show "fst (PayloadAttributes_ID (\<lambda>b. b) (example_attributes\<lparr>pa_CosmosTxs := [[3]]\<rparr>)) =
      fst (PayloadAttributes_ID (\<lambda>b. b) example_attributes)"
    by (rule payload_id_ignores_transactions [where txs = "[[3]]"])
       (simp_all add: example_attributes_def)
qed (simp add: example_attributes_def)

end
