(* ===== verification/LocalDB.thy ===== *)
theory LocalDB
  imports Chain
begin

text \<open>
  The block store (\<^verbatim>\<open>monomerdb/localdb\<close>) over pebble: key buckets, appending and rolling
  back blocks, labels, and the lookups. An operation takes the environment (the pebble
  operations, the CBOR codec of headers, the transaction hash, and the label names, all
  third-party) and the store state.
\<close>

section \<open>Buckets\<close>

definition bucketHeaderByHeight :: byte where "bucketHeaderByHeight = 1"
definition bucketHeightByHash :: byte where "bucketHeightByHash = 2"
definition bucketHashByLabel :: byte where "bucketHashByLabel = 3"
definition bucketTxByHeightAndIndex :: byte where "bucketTxByHeightAndIndex = 4"
definition bucketTxHeightAndIndexByHash :: byte where "bucketTxHeightAndIndexByHash = 5"
definition bucketHeight :: byte where "bucketHeight = 6"

lemmas bucket_defs = bucketHeaderByHeight_def bucketHeightByHash_def bucketHashByLabel_def
  bucketTxByHeightAndIndex_def bucketTxHeightAndIndexByHash_def bucketHeight_def

definition Key :: "byte \<Rightarrow> bytes list \<Rightarrow> bytes" where
  "Key b key = [b] @ concat key"

definition marshalUint64 :: "u64 \<Rightarrow> bytes" where
  "marshalUint64 x = put_uint64 x"

record 's localdb_env =
  ldb_pebble :: "'s pebble"
  ldb_cbor_Marshal :: "header \<Rightarrow> bytes res"
  ldb_cbor_Unmarshal :: "bytes \<Rightarrow> header \<Rightarrow> header res"
  ldb_TxHash :: "bytes \<Rightarrow> bytes"
  ldb_Unsafe :: string
  ldb_Safe :: string
  ldb_Finalized :: string

definition unsafeLabelKey :: "'s localdb_env \<Rightarrow> bytes" where
  "unsafeLabelKey E = Key bucketHashByLabel [str (ldb_Unsafe E)]"

definition safeLabelKey :: "'s localdb_env \<Rightarrow> bytes" where
  "safeLabelKey E = Key bucketHashByLabel [str (ldb_Safe E)]"

definition finalizedLabelKey :: "'s localdb_env \<Rightarrow> bytes" where
  "finalizedLabelKey E = Key bucketHashByLabel [str (ldb_Finalized E)]"

definition heightKey :: bytes where
  "heightKey = Key bucketHeight []"

section \<open>Transactions on the store\<close>

text \<open>
  \<open>batchOp\<close> is \<^verbatim>\<open>b.Set\<close>, \<^verbatim>\<open>b.Delete\<close> or \<^verbatim>\<open>b.DeleteRange\<close>. \<open>db_update\<close> is \<^verbatim>\<open>update\<close> and
  \<^verbatim>\<open>updateIndexed\<close>: run the callback on a new batch, commit it when it returns no error,
  close the batch. \<open>db_view\<close> runs a callback on a snapshot.
\<close>

definition batchOp :: "'s localdb_env \<Rightarrow> 's \<Rightarrow> batch \<Rightarrow> batch_op \<Rightarrow> batch res" where
  "batchOp E s b x = (case peb_BatchOp (ldb_pebble E) s b x of
       None \<Rightarrow> Ok (b @ [x])
     | Some e \<Rightarrow> Err e)"

definition db_update :: "'s localdb_env \<Rightarrow> ('s \<Rightarrow> batch \<Rightarrow> batch res) \<Rightarrow> ('s, unit) op" where
  "db_update E cb s = (case cb s [] of
       Ok b \<Rightarrow> (case peb_Commit (ldb_pebble E) s b of
           (Ok u, s') \<Rightarrow> (deferClose (peb_Close (ldb_pebble E) s') (Ok ()), s')
         | (Err e, s') \<Rightarrow>
             (deferClose (peb_Close (ldb_pebble E) s') (Err (Errorf_v ''commit'' e)), s')
         | (Panic p, s') \<Rightarrow> (Panic p, s'))
     | Err e \<Rightarrow> (deferClose (peb_Close (ldb_pebble E) s) (Err e), s)
     | Panic p \<Rightarrow> (Panic p, s))"

definition db_view :: "'s localdb_env \<Rightarrow> ('s \<Rightarrow> 'a res) \<Rightarrow> 's \<Rightarrow> 'a res" where
  "db_view E cb s = deferClose (peb_Close (ldb_pebble E) s) (cb s)"

definition db_get :: "(bytes \<Rightarrow> bytes res) \<Rightarrow> bytes \<Rightarrow> bytes res" where
  "db_get g key = (case g key of
       Ok v \<Rightarrow> Ok v
     | Err e \<Rightarrow> (if errors_Is e PebbleErrNotFound then Err ErrNotFound
                 else Err (Errorf_v '''' e))
     | Panic p \<Rightarrow> Panic p)"

section \<open>Writing blocks and labels\<close>

fun appendTxs ::
    "'s localdb_env \<Rightarrow> 's \<Rightarrow> bytes \<Rightarrow> nat \<Rightarrow> bytes list \<Rightarrow> batch \<Rightarrow> batch res" where
  "appendTxs E s heightBytes i [] b = Ok b"
| "appendTxs E s heightBytes i (tx # txs) b =
     (let heightAndIndexBytes = heightBytes @ marshalUint64 (of_nat i) in
      check (batchOp E s b (BSet (Key bucketTxByHeightAndIndex [heightAndIndexBytes]) tx))
        (Errorf_v ''set tx by height and index'') (\<lambda>b.
      check (batchOp E s b (BSet (Key bucketTxHeightAndIndexByHash [ldb_TxHash E tx])
               heightAndIndexBytes))
        (Errorf_v ''set tx height and index by hash'') (\<lambda>b.
      appendTxs E s heightBytes (Suc i) txs b)))"

text \<open>The callbacks of \<^verbatim>\<open>AppendBlock\<close> and \<^verbatim>\<open>Rollback\<close> are definitions of their own.\<close>

definition appendBlockOps ::
    "'s localdb_env \<Rightarrow> block \<Rightarrow> bytes \<Rightarrow> 's \<Rightarrow> batch \<Rightarrow> batch res" where
  "appendBlockOps E block headerBytes s b =
     (let heightBytes = marshalUint64 (h_Height (b_Header block)) in
      check (batchOp E s b (BSet (Key bucketHeaderByHeight [heightBytes]) headerBytes))
        (Errorf_v ''set block by height'') (\<lambda>b.
      check (batchOp E s b
          (BSet (Key bucketHeightByHash [hash_Bytes (h_Hash (b_Header block))]) heightBytes))
        (Errorf_v ''set height by hash'') (\<lambda>b.
      check (batchOp E s b (BSet heightKey heightBytes))
        (Errorf_v ''set height'') (\<lambda>b.
      appendTxs E s heightBytes 0 (b_Txs block) b))))"

definition AppendBlock :: "'s localdb_env \<Rightarrow> block \<Rightarrow> ('s, unit) op" where
  "AppendBlock E block =
     scheck (slift (\<lambda>_. ldb_cbor_Marshal E (b_Header block)))
       (Errorf_v ''marshal header into cbor'') (\<lambda>headerBytes.
     db_update E (appendBlockOps E block headerBytes))"

definition updateLabels ::
    "'s localdb_env \<Rightarrow> 's \<Rightarrow> hash \<Rightarrow> hash \<Rightarrow> hash \<Rightarrow> batch \<Rightarrow> batch res" where
  "updateLabels E s unsafe safe finalized b =
     check (batchOp E s b (BSet (unsafeLabelKey E) (hash_Bytes unsafe)))
       (Errorf_v ''set unsafe hash by label'') (\<lambda>b.
     check (batchOp E s b (BSet (safeLabelKey E) (hash_Bytes safe)))
       (Errorf_v ''set safe hash by label'') (\<lambda>b.
     check (batchOp E s b (BSet (finalizedLabelKey E) (hash_Bytes finalized)))
       (Errorf_v ''set finalized hash by label'') (\<lambda>b.
     Ok b)))"

definition UpdateLabels :: "'s localdb_env \<Rightarrow> hash \<Rightarrow> hash \<Rightarrow> hash \<Rightarrow> ('s, unit) op" where
  "UpdateLabels E unsafe safe finalized =
     db_update E (\<lambda>s b. updateLabels E s unsafe safe finalized b)"

section \<open>Rolling back\<close>

text \<open>The two loops of \<^verbatim>\<open>Rollback\<close>, over what the iterators list.\<close>

fun rollbackHeaders ::
    "'s localdb_env \<Rightarrow> 's \<Rightarrow> (bytes \<times> bytes res) list \<Rightarrow> header \<Rightarrow> batch \<Rightarrow> batch res" where
  "rollbackHeaders E s [] header b = Ok b"
| "rollbackHeaders E s ((k, v) # kvs) header b =
     check v (Errorf_v ''get header value from iterator'') (\<lambda>value.
     check (ldb_cbor_Unmarshal E value header) (Errorf_v ''unmarshal header from cbor'') (\<lambda>header.
     check (batchOp E s b (BDelete (Key bucketHeightByHash [hash_Bytes (h_Hash header)])))
       (Errorf_v ''delete height by hash'') (\<lambda>b.
     rollbackHeaders E s kvs header b)))"

fun rollbackTxs ::
    "'s localdb_env \<Rightarrow> 's \<Rightarrow> (bytes \<times> bytes res) list \<Rightarrow> batch \<Rightarrow> batch res" where
  "rollbackTxs E s [] b = Ok b"
| "rollbackTxs E s ((k, v) # kvs) b =
     check v (Errorf_v ''get tx value from iterator'') (\<lambda>value.
     check (batchOp E s b (BDelete (Key bucketTxHeightAndIndexByHash [ldb_TxHash E value])))
       (Errorf_v ''delete tx height and index by hash'') (\<lambda>b.
     rollbackTxs E s kvs b))"

definition rollbackOps ::
    "'s localdb_env \<Rightarrow> hash \<Rightarrow> hash \<Rightarrow> hash \<Rightarrow> 's \<Rightarrow> batch \<Rightarrow> batch res" where
  "rollbackOps E unsafe safe finalized s b =
     check (db_get (peb_BatchGet (ldb_pebble E) s b)
         (Key bucketHeightByHash [hash_Bytes unsafe]))
       (Errorf_w ''get height by hash'') (\<lambda>unsafeHeightBytesValue.
     deferClose (peb_Close (ldb_pebble E) s) (
     check (get_uint64 unsafeHeightBytesValue) pass (\<lambda>unsafeHeight.
     let firstHeightBytesToDelete = marshalUint64 (unsafeHeight + 1) in
     \<comment> \<open>Set the new height.\<close>
     check (batchOp E s b (BSet heightKey unsafeHeightBytesValue))
       (Errorf_v ''set height'') (\<lambda>b.
     \<comment> \<open>Delete headers.\<close>
     let firstHeaderToDelete = Key bucketHeaderByHeight [firstHeightBytesToDelete];
         nextBucket = Key (bucketHeaderByHeight + 1) [] in
     check (peb_BatchNewIter (ldb_pebble E) s b firstHeaderToDelete nextBucket)
       (Errorf_v ''new bucketHeaderByHeight iterator'') (\<lambda>headerIter.
     deferClose (peb_Close (ldb_pebble E) s) (
     check (rollbackHeaders E s headerIter zero_header b) pass (\<lambda>b.
     check (batchOp E s b (BDeleteRange firstHeaderToDelete nextBucket))
       (Errorf_v ''delete range of headers'') (\<lambda>b.
     \<comment> \<open>Delete transactions.\<close>
     let firstTxToDelete = Key bucketTxByHeightAndIndex [firstHeightBytesToDelete];
         nextBucket = Key (bucketTxByHeightAndIndex + 1) [] in
     check (peb_BatchNewIter (ldb_pebble E) s b firstTxToDelete nextBucket)
       (Errorf_v ''new bucketTxByHeightAndIndex iterator'') (\<lambda>txIter.
     deferClose (peb_Close (ldb_pebble E) s) (
     check (rollbackTxs E s txIter b) pass (\<lambda>b.
     check (batchOp E s b (BDeleteRange
         (Key bucketTxHeightAndIndexByHash [firstHeightBytesToDelete])
         (marshalUint64 (ucast bucketTxHeightAndIndexByHash + 1))))
       (Errorf_v ''delete range of txs'') (\<lambda>b.
     check (updateLabels E s unsafe safe finalized b) (Errorf_v ''update labels'') (\<lambda>b.
     Ok b)))))))))))))"

definition Rollback :: "'s localdb_env \<Rightarrow> hash \<Rightarrow> hash \<Rightarrow> hash \<Rightarrow> ('s, unit) op" where
  "Rollback E unsafe safe finalized = db_update E (rollbackOps E unsafe safe finalized)"

section \<open>Lookups\<close>

definition headerByHeight ::
    "'s localdb_env \<Rightarrow> 's \<Rightarrow> (bytes \<Rightarrow> bytes res) \<Rightarrow> bytes \<Rightarrow> header res" where
  "headerByHeight E s g heightBytes =
     check (db_get g (Key bucketHeaderByHeight [heightBytes])) pass (\<lambda>headerBytes.
     deferClose (peb_Close (ldb_pebble E) s) (
     check (ldb_cbor_Unmarshal E headerBytes zero_header) (Errorf_v ''unmarshal cbor'') Ok))"

definition headerByHash :: "'s localdb_env \<Rightarrow> 's \<Rightarrow> hash \<Rightarrow> header res" where
  "headerByHash E s x =
     check (db_get (peb_Get (ldb_pebble E) s) (Key bucketHeightByHash [hash_Bytes x]))
       (Errorf_w ''get height by hash'') (\<lambda>heightBytes.
     deferClose (peb_Close (ldb_pebble E) s) (
     check (headerByHeight E s (peb_Get (ldb_pebble E) s) heightBytes)
       (Errorf_w ''get header by height'') Ok))"

definition headerByLabel :: "'s localdb_env \<Rightarrow> 's \<Rightarrow> string \<Rightarrow> header res" where
  "headerByLabel E s label =
     check (db_get (peb_Get (ldb_pebble E) s) (Key bucketHashByLabel [str label]))
       (Errorf_w ''get label hash'') (\<lambda>hashBytes.
     deferClose (peb_Close (ldb_pebble E) s) (
     check (hash_of_slice hashBytes) pass (\<lambda>x.
     check (headerByHash E s x) (Errorf_w ''header by hash'') Ok)))"

fun collectTxs :: "(bytes \<times> bytes res) list \<Rightarrow> bytes list \<Rightarrow> bytes list res" where
  "collectTxs [] txs = Ok txs"
| "collectTxs ((k, v) # kvs) txs =
     check v (Errorf_v ''get value from iterator'') (\<lambda>tx. collectTxs kvs (txs @ [tx]))"

definition txsInRange :: "'s localdb_env \<Rightarrow> 's \<Rightarrow> bytes \<Rightarrow> bytes \<Rightarrow> bytes list res" where
  "txsInRange E s startHeightBytes endHeightBytes =
     check (peb_NewIter (ldb_pebble E) s
         (Key bucketTxByHeightAndIndex [startHeightBytes])
         (Key bucketTxByHeightAndIndex [endHeightBytes]))
       (Errorf_v ''new iterator'') (\<lambda>iter.
     deferClose (peb_Close (ldb_pebble E) s) (collectTxs iter []))"

definition getHeight :: "'s localdb_env \<Rightarrow> 's \<Rightarrow> bytes res" where
  "getHeight E s =
     check (db_get (peb_Get (ldb_pebble E) s) heightKey) pass (\<lambda>heightBytesValue.
     case peb_Close (ldb_pebble E) s of
       Some e \<Rightarrow> Err (Errorf_v ''close'' e)
     | None \<Rightarrow> Ok heightBytesValue)"

definition DB_Height :: "'s localdb_env \<Rightarrow> 's \<Rightarrow> u64 res" where
  "DB_Height E s =
     check (db_get (peb_Get (ldb_pebble E) s) heightKey) pass (\<lambda>heightBytesValue.
     check (get_uint64 heightBytesValue) pass (\<lambda>height.
     case peb_Close (ldb_pebble E) s of
       Some e \<Rightarrow> Err (Errorf_v ''close'' e)
     | None \<Rightarrow> Ok height))"

definition blockByHeight :: "'s localdb_env \<Rightarrow> 's \<Rightarrow> bytes \<Rightarrow> block res" where
  "blockByHeight E s heightBytes =
     check (headerByHeight E s (peb_Get (ldb_pebble E) s) heightBytes)
       (Errorf_w ''get header by height'') (\<lambda>header.
     check (get_uint64 heightBytes) pass (\<lambda>height.
     check (txsInRange E s heightBytes (marshalUint64 (height + 1))) pass (\<lambda>txs.
     NewBlock (Some header) (Some txs))))"

definition HeadHeader :: "'s localdb_env \<Rightarrow> 's \<Rightarrow> header res" where
  "HeadHeader E = db_view E (\<lambda>s.
     check (getHeight E s) (Errorf_w ''get height'') (\<lambda>heightBytes.
     check (headerByHeight E s (peb_Get (ldb_pebble E) s) heightBytes)
       (Errorf_w ''get header by height'') Ok))"

definition HeadBlock :: "'s localdb_env \<Rightarrow> 's \<Rightarrow> block res" where
  "HeadBlock E = db_view E (\<lambda>s.
     check (getHeight E s) (Errorf_w ''get height'') (\<lambda>heightBytes.
     check (blockByHeight E s heightBytes) (Errorf_w ''get block by height'') Ok))"

definition BlockByHeight :: "'s localdb_env \<Rightarrow> u64 \<Rightarrow> 's \<Rightarrow> block res" where
  "BlockByHeight E height = db_view E (\<lambda>s. blockByHeight E s (marshalUint64 height))"

definition headerAndTxs :: "'s localdb_env \<Rightarrow> 's \<Rightarrow> header \<Rightarrow> (header \<times> bytes list) res" where
  "headerAndTxs E s header =
     check (txsInRange E s (marshalUint64 (h_Height header)) (marshalUint64 (h_Height header + 1)))
       pass (\<lambda>txs. Ok (header, txs))"

definition BlockByHash :: "'s localdb_env \<Rightarrow> hash \<Rightarrow> 's \<Rightarrow> block res" where
  "BlockByHash E x s =
     check (db_view E (\<lambda>s.
         check (headerByHash E s x) (Errorf_w ''get header by hash'') (headerAndTxs E s)) s)
       pass (\<lambda>(header, txs). NewBlock (Some header) (Some txs))"

definition BlockByLabel :: "'s localdb_env \<Rightarrow> string \<Rightarrow> 's \<Rightarrow> block res" where
  "BlockByLabel E label s =
     check (db_view E (\<lambda>s.
         check (headerByLabel E s label) (Errorf_w ''get header by label'') (headerAndTxs E s)) s)
       pass (\<lambda>(header, txs). NewBlock (Some header) (Some txs))"

definition HeaderByHash :: "'s localdb_env \<Rightarrow> hash \<Rightarrow> 's \<Rightarrow> header res" where
  "HeaderByHash E x = db_view E (\<lambda>s. headerByHash E s x)"

definition HeaderByLabel :: "'s localdb_env \<Rightarrow> string \<Rightarrow> 's \<Rightarrow> header res" where
  "HeaderByLabel E label = db_view E (\<lambda>s. headerByLabel E s label)"

definition HeaderByHeight :: "'s localdb_env \<Rightarrow> u64 \<Rightarrow> 's \<Rightarrow> header res" where
  "HeaderByHeight E height s = headerByHeight E s (peb_Get (ldb_pebble E) s) (marshalUint64 height)"

end
