(* ===== verification/BlockStore.thy ===== *)
theory BlockStore
  imports LocalDB
begin

text \<open>
  The abstract block store: what the byte-level store of \<open>LocalDB\<close> represents. \<open>astore\<close>
  holds the tables as maps, \<open>enc\<close> lays them out as the bucketed keys of the source, and
  every write of the source commutes with the corresponding update of the tables.
\<close>

record astore =
  a_header :: "u64 \<rightharpoonup> header"
  a_heightOf :: "hash \<rightharpoonup> u64"
  a_label :: "bytes \<rightharpoonup> hash"
  a_tx :: "u64 \<times> u64 \<rightharpoonup> bytes"
  a_txPos :: "bytes \<rightharpoonup> u64 \<times> u64"
  a_top :: "u64 option"

definition dec64 :: "bytes \<Rightarrow> u64" where
  "dec64 bs = word_of_nat (be_dec bs)"

definition dec256 :: "bytes \<Rightarrow> hash" where
  "dec256 bs = word_of_nat (be_dec bs)"

definition cborM :: "'s localdb_env \<Rightarrow> header \<Rightarrow> bytes" where
  "cborM E h = (case ldb_cbor_Marshal E h of Ok b \<Rightarrow> b | _ \<Rightarrow> [])"

definition put_pos :: "u64 \<times> u64 \<Rightarrow> bytes" where
  "put_pos p = put_uint64 (fst p) @ put_uint64 (snd p)"

definition enc :: "'s localdb_env \<Rightarrow> astore \<Rightarrow> bytes \<rightharpoonup> bytes" where
  "enc E a k = (case k of [] \<Rightarrow> None | b # r \<Rightarrow>
     (if b = 1 then (if length r = 8 then map_option (cborM E) (a_header a (dec64 r)) else None)
      else if b = 2 then (if length r = 32 then map_option put_uint64 (a_heightOf a (dec256 r)) else None)
      else if b = 3 then map_option hash_Bytes (a_label a r)
      else if b = 4 then (if length r = 16 then a_tx a (dec64 (take 8 r), dec64 (drop 8 r)) else None)
      else if b = 5 then map_option put_pos (a_txPos a r)
      else if b = 6 then (if r = [] then map_option put_uint64 (a_top a) else None)
      else None))"

section \<open>Keys\<close>

lemma dec64_put [simp]: "dec64 (put_uint64 x) = x"
  using get_put_uint64 [of x] by (simp add: get_uint64_def dec64_def)

lemma dec256_Bytes [simp]: "dec256 (hash_Bytes x) = x"
  using hash_of_slice_Bytes [of x] by (simp add: hash_of_slice_def dec256_def)

lemma put_dec64: "length r = 8 \<Longrightarrow> put_uint64 (dec64 r) = r"
  using be_dec_less [of r] be_enc_dec [of r]
  by (simp add: put_uint64_def dec64_def unat_of_nat)

lemma Bytes_dec256: "length r = 32 \<Longrightarrow> hash_Bytes (dec256 r) = r"
  using be_dec_less [of r] be_enc_dec [of r]
  by (simp add: hash_Bytes_def dec256_def unat_of_nat)

lemma eq_put_iff: "r = put_uint64 x \<longleftrightarrow> length r = 8 \<and> dec64 r = x"
  by (metis dec64_put length_put_uint64 put_dec64)

lemma eq_Bytes_iff: "r = hash_Bytes x \<longleftrightarrow> length r = 32 \<and> dec256 r = x"
  by (metis dec256_Bytes length_hash_Bytes Bytes_dec256)

lemma eq_pos_iff:
  "r = put_uint64 x @ put_uint64 y \<longleftrightarrow>
   length r = 16 \<and> dec64 (take 8 r) = x \<and> dec64 (drop 8 r) = y"
proof
  assume "r = put_uint64 x @ put_uint64 y"
  then show "length r = 16 \<and> dec64 (take 8 r) = x \<and> dec64 (drop 8 r) = y" by simp
next
  assume r: "length r = 16 \<and> dec64 (take 8 r) = x \<and> dec64 (drop 8 r) = y"
  then have "put_uint64 x = take 8 r" and "put_uint64 y = drop 8 r"
    using put_dec64 [of "take 8 r"] put_dec64 [of "drop 8 r"] by simp_all
  then show "r = put_uint64 x @ put_uint64 y" by simp
qed

lemma put_pos_inj [simp]: "put_pos p = put_pos q \<longleftrightarrow> p = q"
  by (cases p, cases q) (auto simp: put_pos_def)

lemma Key_simps:
  "Key bucketHeaderByHeight [r] = 1 # r" "Key bucketHeightByHash [r] = 2 # r"
  "Key bucketHashByLabel [r] = 3 # r" "Key bucketTxByHeightAndIndex [r] = 4 # r"
  "Key bucketTxHeightAndIndexByHash [r] = 5 # r" "heightKey = [6]"
  by (simp_all add: Key_def bucket_defs heightKey_def)

lemma next_bucket_simps:
  "Key (bucketHeaderByHeight + 1) [] = [2]" "Key (bucketTxByHeightAndIndex + 1) [] = [5]"
  by (simp_all add: Key_def bucket_defs)

section \<open>Writes on the encoding\<close>

lemma enc_set_header:
  "(enc E a)(1 # put_uint64 h \<mapsto> cborM E x) = enc E (a\<lparr>a_header := (a_header a)(h \<mapsto> x)\<rparr>)"
proof
  fix k
  show "((enc E a)(1 # put_uint64 h \<mapsto> cborM E x)) k =
      enc E (a\<lparr>a_header := (a_header a)(h \<mapsto> x)\<rparr>) k"
    by (cases k) (auto simp: enc_def eq_put_iff)
qed

lemma enc_set_heightOf:
  "(enc E a)(2 # hash_Bytes x \<mapsto> put_uint64 h) =
   enc E (a\<lparr>a_heightOf := (a_heightOf a)(x \<mapsto> h)\<rparr>)"
proof
  fix k
  show "((enc E a)(2 # hash_Bytes x \<mapsto> put_uint64 h)) k =
      enc E (a\<lparr>a_heightOf := (a_heightOf a)(x \<mapsto> h)\<rparr>) k"
    by (cases k) (auto simp: enc_def eq_Bytes_iff)
qed

lemma enc_del_heightOf:
  "(enc E a)(2 # hash_Bytes x := None) = enc E (a\<lparr>a_heightOf := (a_heightOf a)(x := None)\<rparr>)"
proof
  fix k
  show "((enc E a)(2 # hash_Bytes x := None)) k =
      enc E (a\<lparr>a_heightOf := (a_heightOf a)(x := None)\<rparr>) k"
    by (cases k) (auto simp: enc_def eq_Bytes_iff)
qed

lemma enc_set_label:
  "(enc E a)(3 # l \<mapsto> hash_Bytes x) = enc E (a\<lparr>a_label := (a_label a)(l \<mapsto> x)\<rparr>)"
proof
  fix k
  show "((enc E a)(3 # l \<mapsto> hash_Bytes x)) k = enc E (a\<lparr>a_label := (a_label a)(l \<mapsto> x)\<rparr>) k"
    by (cases k) (auto simp: enc_def)
qed

lemma enc_set_tx:
  "(enc E a)(4 # put_uint64 h @ put_uint64 i \<mapsto> tx) =
   enc E (a\<lparr>a_tx := (a_tx a)((h, i) \<mapsto> tx)\<rparr>)"
proof
  fix k
  show "((enc E a)(4 # put_uint64 h @ put_uint64 i \<mapsto> tx)) k =
      enc E (a\<lparr>a_tx := (a_tx a)((h, i) \<mapsto> tx)\<rparr>) k"
    by (cases k) (auto simp: enc_def eq_pos_iff)
qed

lemma enc_set_txPos:
  "(enc E a)(5 # t \<mapsto> put_uint64 h @ put_uint64 i) =
   enc E (a\<lparr>a_txPos := (a_txPos a)(t \<mapsto> (h, i))\<rparr>)"
proof
  fix k
  show "((enc E a)(5 # t \<mapsto> put_uint64 h @ put_uint64 i)) k =
      enc E (a\<lparr>a_txPos := (a_txPos a)(t \<mapsto> (h, i))\<rparr>) k"
    by (cases k) (auto simp: enc_def put_pos_def)
qed

lemma enc_del_txPos:
  "(enc E a)(5 # t := None) = enc E (a\<lparr>a_txPos := (a_txPos a)(t := None)\<rparr>)"
proof
  fix k
  show "((enc E a)(5 # t := None)) k = enc E (a\<lparr>a_txPos := (a_txPos a)(t := None)\<rparr>) k"
    by (cases k) (auto simp: enc_def)
qed

lemma enc_set_top:
  "(enc E a)([6] \<mapsto> put_uint64 h) = enc E (a\<lparr>a_top := Some h\<rparr>)"
proof
  fix k
  show "((enc E a)([6] \<mapsto> put_uint64 h)) k = enc E (a\<lparr>a_top := Some h\<rparr>) k"
    by (cases k) (auto simp: enc_def)
qed

lemmas enc_writes = enc_set_header enc_set_heightOf enc_del_heightOf enc_set_label enc_set_tx
  enc_set_txPos enc_del_txPos enc_set_top

text \<open>
  The header range \<^verbatim>\<open>[firstHeaderToDelete, nextBucket)\<close> is exactly the headers above a
  height; the range the source deletes in the transaction bucket is empty.
\<close>

lemma header_range_iff:
  "1 # put_uint64 f \<le> 1 # r \<and> 1 # r < [2 :: byte] \<longleftrightarrow> put_uint64 f \<le> r"
  by simp

lemma byte_between: "(1 :: byte) < b \<Longrightarrow> b < 2 \<Longrightarrow> False"
  by (simp add: word_less_nat_alt)

lemma enc_del_headers:
  "apply_batch_op (BDeleteRange (1 # put_uint64 f) [2]) (enc E a) =
   enc E (a\<lparr>a_header := (\<lambda>h. if f \<le> h then None else a_header a h)\<rparr>)"
proof
  fix k
  show "apply_batch_op (BDeleteRange (1 # put_uint64 f) [2]) (enc E a) k =
      enc E (a\<lparr>a_header := (\<lambda>h. if f \<le> h then None else a_header a h)\<rparr>) k"
  proof (cases k)
    case Nil
    then show ?thesis by (simp add: enc_def)
  next
    case (Cons b r)
    have range: "length r = 8 \<Longrightarrow> put_uint64 f \<le> r \<longleftrightarrow> f \<le> dec64 r"
      by (metis put_dec64 put_uint64_le_iff)
    show ?thesis
    proof (cases "b = 1")
      case True
      with Cons show ?thesis by (cases "length r = 8") (simp_all add: enc_def range)
    next
      case False
      have "\<not> (1 # put_uint64 f \<le> k \<and> k < [2])"
        using False Cons byte_between by auto
      with Cons False show ?thesis by (simp add: enc_def)
    qed
  qed
qed

lemma put_uint64_6: "put_uint64 6 = [0, 0, 0, 0, 0, 0, 0, 6]"
  by (simp add: put_uint64_def)

lemma tx_hash_range_empty:
  "apply_batch_op (BDeleteRange (5 # r) (put_uint64 6)) m = m"
proof
  fix k
  have "\<not> (5 # r \<le> k \<and> k < put_uint64 6)"
    by (cases k) (auto simp: put_uint64_6)
  then show "apply_batch_op (BDeleteRange (5 # r) (put_uint64 6)) m k = m k" by auto
qed

section \<open>The abstract operations\<close>

fun a_appendTxs :: "(bytes \<Rightarrow> bytes) \<Rightarrow> u64 \<Rightarrow> nat \<Rightarrow> bytes list \<Rightarrow> astore \<Rightarrow> astore" where
  "a_appendTxs H h i [] a = a"
| "a_appendTxs H h i (tx # txs) a = a_appendTxs H h (Suc i) txs
     (a\<lparr>a_tx := (a_tx a)((h, of_nat i) \<mapsto> tx),
        a_txPos := (a_txPos a)(H tx \<mapsto> (h, of_nat i))\<rparr>)"

definition a_append :: "(bytes \<Rightarrow> bytes) \<Rightarrow> block \<Rightarrow> astore \<Rightarrow> astore" where
  "a_append H b a = (let h = b_Header b; n = h_Height h in
     a_appendTxs H n 0 (b_Txs b)
       (a\<lparr>a_header := (a_header a)(n \<mapsto> h),
          a_heightOf := (a_heightOf a)(h_Hash h \<mapsto> n),
          a_top := Some n\<rparr>))"

definition a_setLabels :: "'s localdb_env \<Rightarrow> hash \<Rightarrow> hash \<Rightarrow> hash \<Rightarrow> astore \<Rightarrow> astore" where
  "a_setLabels E unsafe safe finalized a =
     a\<lparr>a_label := (a_label a)(str (ldb_Unsafe E) \<mapsto> unsafe, str (ldb_Safe E) \<mapsto> safe,
        str (ldb_Finalized E) \<mapsto> finalized)\<rparr>"

text \<open>
  \<open>a_cut n\<close> forgets what the source forgets when it rolls back to height \<open>n\<close>: headers above
  \<open>n\<close>, the heights of their hashes, and the positions of the transactions stored above
  \<open>n\<close>. It keeps the transactions themselves, as the source does.
\<close>

definition a_cut :: "(bytes \<Rightarrow> bytes) \<Rightarrow> u64 \<Rightarrow> astore \<Rightarrow> astore" where
  "a_cut H n a = a\<lparr>
     a_top := Some n,
     a_header := (\<lambda>h. if n < h then None else a_header a h),
     a_heightOf := (\<lambda>x. if \<exists>h hdr. n < h \<and> a_header a h = Some hdr \<and> h_Hash hdr = x then None
                        else a_heightOf a x),
     a_txPos := (\<lambda>t. if \<exists>h i tx. n < h \<and> a_tx a (h, i) = Some tx \<and> H tx = t then None
                     else a_txPos a t)\<rparr>"

text \<open>The transactions stored for a height, in index order.\<close>

definition a_txs :: "astore \<Rightarrow> u64 \<Rightarrow> bytes list" where
  "a_txs a h = map (\<lambda>i. the (a_tx a (h, i))) (sorted_list_of_set {i. a_tx a (h, i) \<noteq> None})"

lemma a_appendTxs_frame [simp]:
  "a_header (a_appendTxs H h i txs a) = a_header a"
  "a_heightOf (a_appendTxs H h i txs a) = a_heightOf a"
  "a_label (a_appendTxs H h i txs a) = a_label a"
  "a_top (a_appendTxs H h i txs a) = a_top a"
  by (induction txs arbitrary: i a) simp_all

end
