(* ===== verification/LocalDBCorrect.thy ===== *)
theory LocalDBCorrect
  imports BlockStore
begin

text \<open>
  The byte-level block store refines the abstract one: under \<open>env_ok\<close> (pebble behaves as
  documented, CBOR decodes what it encoded, the three labels differ) a state that encodes
  an \<open>astore\<close> is taken by each write to a state that encodes the updated \<open>astore\<close>, and
  each lookup finds what the \<open>astore\<close> holds.
\<close>

definition env_ok :: "'s localdb_env \<Rightarrow> ('s \<Rightarrow> bytes \<rightharpoonup> bytes) \<Rightarrow> bool" where
  "env_ok E view \<longleftrightarrow> pebble_ok (ldb_pebble E) view \<and>
     (\<forall>h. \<exists>b. ldb_cbor_Marshal E h = Ok b \<and> (\<forall>h0. ldb_cbor_Unmarshal E b h0 = Ok h)) \<and>
     distinct [str (ldb_Unsafe E), str (ldb_Safe E), str (ldb_Finalized E)]"

definition rep :: "'s localdb_env \<Rightarrow> ('s \<Rightarrow> bytes \<rightharpoonup> bytes) \<Rightarrow> 's \<Rightarrow> astore \<Rightarrow> bool" where
  "rep E view s a \<longleftrightarrow> env_ok E view \<and> view s = enc E a"

lemma rep_env: "rep E view s a \<Longrightarrow> env_ok E view"
  by (simp add: rep_def)

text \<open>A lookup agrees with an optional value: it returns it, or reports not-found.\<close>

definition finds :: "'a res \<Rightarrow> 'a option \<Rightarrow> bool" where
  "finds r x = (case x of None \<Rightarrow> is_NotFound r | Some y \<Rightarrow> r = Ok y)"

lemma finds_simps [simp]:
  "finds r None = is_NotFound r" "finds r (Some y) = (r = Ok y)"
  by (simp_all add: finds_def)

section \<open>Generic steps\<close>

lemma env_okD:
  assumes "env_ok E view"
  shows env_pebble: "pebble_ok (ldb_pebble E) view"
    and env_Marshal: "ldb_cbor_Marshal E h = Ok (cborM E h)"
    and env_Unmarshal: "ldb_cbor_Unmarshal E (cborM E h) h0 = Ok h"
proof -
  show "pebble_ok (ldb_pebble E) view" using assms by (simp add: env_ok_def)
  obtain b where b: "ldb_cbor_Marshal E h = Ok b" "\<And>h0. ldb_cbor_Unmarshal E b h0 = Ok h"
    using assms unfolding env_ok_def by blast
  then show "ldb_cbor_Marshal E h = Ok (cborM E h)"
    and "ldb_cbor_Unmarshal E (cborM E h) h0 = Ok h"
    by (simp_all add: cborM_def)
qed

lemma batchOp_ok [simp]: "env_ok E view \<Longrightarrow> batchOp E s b x = Ok (b @ [x])"
  by (simp add: batchOp_def pebble_BatchOp [OF env_pebble])

lemma close_ok [simp]: "env_ok E view \<Longrightarrow> peb_Close (ldb_pebble E) s = None"
  by (simp add: pebble_Close [OF env_pebble])

lemma db_update_ok:
  assumes "env_ok E view" and "cb s [] = Ok b"
  shows "\<exists>s'. db_update E cb s = (Ok (), s') \<and> view s' = apply_batch b (view s)"
  using pebble_Commit [OF env_pebble [OF assms(1)], of s b] assms
  by (auto simp: db_update_def)

lemma db_view_finds: "env_ok E view \<Longrightarrow> finds (db_view E cb s) x = finds (cb s) x"
  by (cases x) (simp_all add: db_view_def)

lemma db_get_ok:
  "env_ok E view \<Longrightarrow> db_get (peb_Get (ldb_pebble E) s) k =
     (case view s k of None \<Rightarrow> Err ErrNotFound | Some v \<Rightarrow> Ok v)"
  by (auto simp: db_get_def pebble_Get [OF env_pebble] map_get_def split: option.splits)

lemma db_get_batch_ok:
  "env_ok E view \<Longrightarrow> db_get (peb_BatchGet (ldb_pebble E) s b) k =
     (case apply_batch b (view s) k of None \<Rightarrow> Err ErrNotFound | Some v \<Rightarrow> Ok v)"
  by (auto simp: db_get_def pebble_BatchGet [OF env_pebble] map_get_def split: option.splits)

lemma finds_check:
  assumes "finds m x" and "\<And>e. errors_Is (w e) ErrNotFound = errors_Is e ErrNotFound"
    and "\<And>y. x = Some y \<Longrightarrow> finds (k y) (f y)"
  shows "finds (check m w k) (Option.bind x f)"
proof (cases x)
  case None
  with assms(1,2) show ?thesis by (cases m) simp_all
qed (use assms in simp)

lemma finds_check_map:
  assumes "finds m x" and "\<And>e. errors_Is (w e) ErrNotFound = errors_Is e ErrNotFound"
    and "\<And>y. x = Some y \<Longrightarrow> k y = Ok (f y)"
  shows "finds (check m w k) (map_option f x)"
  using finds_check [OF assms(1,2), of k "\<lambda>y. Some (f y)"] assms(3)
  by (simp add: map_conv_bind_option comp_def)

lemma finds_wrapped [simp]:
  assumes "finds m x" and "\<And>e. errors_Is (w e) ErrNotFound = errors_Is e ErrNotFound"
  shows "finds (check m w Ok) x"
  using finds_check [OF assms, of Ok Some] by simp

section \<open>Writes\<close>

lemma appendTxs_ok:
  assumes ok: "env_ok E view"
  shows "\<exists>b'. appendTxs E s (put_uint64 h) i txs b = Ok (b @ b') \<and>
     (\<forall>a. apply_batch b' (enc E a) = enc E (a_appendTxs (ldb_TxHash E) h i txs a))"
proof (induction txs arbitrary: i b)
  case Nil
  show ?case by simp
next
  case (Cons tx txs)
  let ?x = "BSet (4 # put_uint64 h @ put_uint64 (of_nat i)) tx"
  let ?y = "BSet (5 # ldb_TxHash E tx) (put_uint64 h @ put_uint64 (of_nat i))"
  obtain b' where b': "appendTxs E s (put_uint64 h) (Suc i) txs (b @ [?x, ?y]) = Ok ((b @ [?x, ?y]) @ b')"
    "\<And>a. apply_batch b' (enc E a) = enc E (a_appendTxs (ldb_TxHash E) h (Suc i) txs a)"
    using Cons.IH [of "Suc i" "b @ [?x, ?y]"] by blast
  have "appendTxs E s (put_uint64 h) i (tx # txs) b = Ok (b @ [?x, ?y] @ b')"
    using b'(1) ok by (simp add: Key_simps marshalUint64_def Let_def)
  moreover have "apply_batch ([?x, ?y] @ b') (enc E a) =
      enc E (a_appendTxs (ldb_TxHash E) h i (tx # txs) a)" for a
    by (simp add: enc_writes b'(2))
  ultimately show ?case by blast
qed

lemma AppendBlock_refines:
  assumes rep: "rep E view s a"
  shows "\<exists>s'. AppendBlock E blk s = (Ok (), s') \<and> rep E view s' (a_append (ldb_TxHash E) blk a)"
proof -
  have ok: "env_ok E view" and v: "view s = enc E a" using rep by (simp_all add: rep_def)
  let ?h = "b_Header blk"
  let ?b = "[BSet (1 # put_uint64 (h_Height ?h)) (cborM E ?h),
    BSet (2 # hash_Bytes (h_Hash ?h)) (put_uint64 (h_Height ?h)), BSet [6] (put_uint64 (h_Height ?h))]"
  obtain b' where b': "appendTxs E s (put_uint64 (h_Height ?h)) 0 (b_Txs blk) ?b = Ok (?b @ b')"
    "\<And>a. apply_batch b' (enc E a) = enc E (a_appendTxs (ldb_TxHash E) (h_Height ?h) 0 (b_Txs blk) a)"
    using appendTxs_ok [OF ok] by blast
  have "appendBlockOps E blk (cborM E ?h) s [] = Ok (?b @ b')"
    using b'(1) ok by (simp add: appendBlockOps_def Key_simps marshalUint64_def Let_def)
  then obtain s' where s': "db_update E (appendBlockOps E blk (cborM E ?h)) s = (Ok (), s')"
    "view s' = apply_batch (?b @ b') (enc E a)"
    using db_update_ok [OF ok] v by metis
  have "AppendBlock E blk s = (Ok (), s')"
    using s'(1) by (simp add: AppendBlock_def env_Marshal [OF ok])
  moreover have "view s' = enc E (a_append (ldb_TxHash E) blk a)"
    by (simp add: s'(2) enc_writes b'(2) a_append_def Let_def)
  ultimately show ?thesis using ok by (auto simp: rep_def)
qed

definition labelOps :: "'s localdb_env \<Rightarrow> hash \<Rightarrow> hash \<Rightarrow> hash \<Rightarrow> batch" where
  "labelOps E unsafe safe finalized =
     [BSet (3 # str (ldb_Unsafe E)) (hash_Bytes unsafe), BSet (3 # str (ldb_Safe E)) (hash_Bytes safe),
      BSet (3 # str (ldb_Finalized E)) (hash_Bytes finalized)]"

lemma updateLabels_ok:
  "env_ok E view \<Longrightarrow> updateLabels E s u f g b = Ok (b @ labelOps E u f g)"
  by (simp add: updateLabels_def labelOps_def unsafeLabelKey_def safeLabelKey_def
      finalizedLabelKey_def Key_simps)

lemma apply_labelOps: "apply_batch (labelOps E u f g) (enc E a) = enc E (a_setLabels E u f g a)"
  by (simp add: labelOps_def enc_writes a_setLabels_def)

lemma UpdateLabels_refines:
  assumes rep: "rep E view s a"
  shows "\<exists>s'. UpdateLabels E u f g s = (Ok (), s') \<and> rep E view s' (a_setLabels E u f g a)"
proof -
  have ok: "env_ok E view" and v: "view s = enc E a" using rep by (simp_all add: rep_def)
  have "updateLabels E s u f g [] = Ok (labelOps E u f g)"
    by (simp add: updateLabels_ok [OF ok])
  then obtain s' where "db_update E (\<lambda>s b. updateLabels E s u f g b) s = (Ok (), s')"
    "view s' = apply_batch (labelOps E u f g) (enc E a)"
    using db_update_ok [OF ok, of "\<lambda>s b. updateLabels E s u f g b" s] v by metis
  then show ?thesis using ok by (auto simp: UpdateLabels_def rep_def apply_labelOps)
qed

section \<open>Lookups\<close>

lemma headerByHeight_finds:
  "rep E view s a \<Longrightarrow>
   finds (headerByHeight E s (peb_Get (ldb_pebble E) s) (put_uint64 h)) (a_header a h)"
  by (cases "a_header a h")
     (auto simp: headerByHeight_def rep_def db_get_ok Key_simps enc_def env_Unmarshal)

definition a_headerByHash :: "astore \<Rightarrow> hash \<Rightarrow> header option" where
  "a_headerByHash a x = Option.bind (a_heightOf a x) (a_header a)"

lemma headerByHash_finds:
  assumes rep: "rep E view s a"
  shows "finds (headerByHash E s x) (a_headerByHash a x)"
proof -
  have ok: "env_ok E view" and v: "view s = enc E a" using rep by (simp_all add: rep_def)
  show ?thesis
  proof (cases "a_heightOf a x")
    case None
    then show ?thesis
      by (simp add: headerByHash_def a_headerByHash_def db_get_ok [OF ok] v Key_simps enc_def)
  next
    case (Some h)
    have "finds (headerByHeight E s (peb_Get (ldb_pebble E) s) (put_uint64 h)) (a_header a h)"
      by (rule headerByHeight_finds [OF rep])
    then have "finds (check (headerByHeight E s (peb_Get (ldb_pebble E) s) (put_uint64 h))
        (Errorf_w ''get header by height'') Ok) (a_header a h)"
      by (rule finds_wrapped) simp
    with Some ok show ?thesis
      by (cases "a_header a h")
         (simp_all add: headerByHash_def a_headerByHash_def db_get_ok v Key_simps enc_def)
  qed
qed

lemma HeaderByHash_finds: "rep E view s a \<Longrightarrow> finds (HeaderByHash E x s) (a_headerByHash a x)"
  by (simp add: HeaderByHash_def headerByHash_finds db_view_finds [OF rep_env])

lemma HeaderByHeight_finds: "rep E view s a \<Longrightarrow> finds (HeaderByHeight E h s) (a_header a h)"
  by (simp add: HeaderByHeight_def headerByHeight_finds marshalUint64_def)

lemma DB_Height_finds: "rep E view s a \<Longrightarrow> finds (DB_Height E s) (a_top a)"
  by (cases "a_top a") (auto simp: DB_Height_def rep_def db_get_ok Key_simps enc_def)

lemma getHeight_finds: "rep E view s a \<Longrightarrow> finds (getHeight E s) (map_option put_uint64 (a_top a))"
  by (cases "a_top a") (auto simp: getHeight_def rep_def db_get_ok Key_simps enc_def)

lemma HeadHeader_finds:
  assumes rep: "rep E view s a"
  shows "finds (HeadHeader E s) (Option.bind (a_top a) (a_header a))"
proof -
  have ok: "env_ok E view" using rep by (simp add: rep_def)
  have "finds (check (getHeight E s) (Errorf_w ''get height'') (\<lambda>hb.
      check (headerByHeight E s (peb_Get (ldb_pebble E) s) hb) (Errorf_w ''get header by height'') Ok))
      (Option.bind (map_option put_uint64 (a_top a)) (\<lambda>hb. a_header a (dec64 hb)))"
    by (rule finds_check [OF getHeight_finds [OF rep]])
       (auto intro!: finds_wrapped headerByHeight_finds [OF rep])
  moreover have "Option.bind (map_option put_uint64 (a_top a)) (\<lambda>hb. a_header a (dec64 hb)) =
      Option.bind (a_top a) (a_header a)"
    by (cases "a_top a") simp_all
  ultimately show ?thesis by (simp add: HeadHeader_def db_view_finds [OF ok])
qed

lemma headerByLabel_finds:
  assumes rep: "rep E view s a"
  shows "finds (headerByLabel E s l) (Option.bind (a_label a (str l)) (a_headerByHash a))"
proof -
  have ok: "env_ok E view" and v: "view s = enc E a" using rep by (simp_all add: rep_def)
  show ?thesis
  proof (cases "a_label a (str l)")
    case None
    then show ?thesis by (simp add: headerByLabel_def db_get_ok [OF ok] v Key_simps enc_def)
  next
    case (Some x)
    have "finds (check (headerByHash E s x) (Errorf_w ''header by hash'') Ok) (a_headerByHash a x)"
      by (rule finds_wrapped [OF headerByHash_finds [OF rep]]) simp
    with Some ok show ?thesis
      by (cases "a_headerByHash a x")
         (simp_all add: headerByLabel_def db_get_ok v Key_simps enc_def)
  qed
qed

lemma HeaderByLabel_finds:
  "rep E view s a \<Longrightarrow>
   finds (HeaderByLabel E l s) (Option.bind (a_label a (str l)) (a_headerByHash a))"
  by (simp add: HeaderByLabel_def headerByLabel_finds db_view_finds [OF rep_env])

section \<open>Transactions of a block\<close>

text \<open>
  The rows of a key range of the transaction bucket. At the last height the end key wraps
  around and the range is empty.
\<close>

definition a_txsAt :: "astore \<Rightarrow> u64 \<Rightarrow> bytes list" where
  "a_txsAt a h = (if h = - 1 then [] else a_txs a h)"

lemma enc_tx_row:
  assumes "enc E a k = Some v" and "4 # r1 \<le> k" and "k < 4 # r2"
  obtains x y where "k = 4 # put_uint64 x @ put_uint64 y" and "a_tx a (x, y) = Some v"
proof (cases k)
  case Nil
  with assms show ?thesis by simp
next
  case (Cons b r)
  with assms(2,3) have b: "b = 4" by auto
  with Cons assms(1) have r: "length r = 16" "a_tx a (dec64 (take 8 r), dec64 (drop 8 r)) = Some v"
    by (auto simp: enc_def split: if_splits)
  then have "r = put_uint64 (dec64 (take 8 r)) @ put_uint64 (dec64 (drop 8 r))"
    by (simp add: eq_pos_iff)
  with r(2) b Cons that show ?thesis by metis
qed

lemma put_between: "put_uint64 f \<le> put_uint64 x @ u \<and> put_uint64 x @ u < put_uint64 g \<longleftrightarrow> f \<le> x \<and> x < g"
  using append_between_iff [of "put_uint64 x" "put_uint64 f" "put_uint64 g" u] by simp

lemma lists_range_txs:
  assumes "h \<noteq> - 1"
  shows "lists_range (enc E a) (4 # put_uint64 h) (4 # put_uint64 (h + 1))
    (map (\<lambda>i. (4 # put_uint64 h @ put_uint64 i, the (a_tx a (h, i))))
       (sorted_list_of_set {i. a_tx a (h, i) \<noteq> None}))"
    (is "lists_range _ ?lo ?hi (map ?f ?is)")
proof -
  have "sorted_wrt (<) (map fst (map ?f ?is))"
    by (simp add: comp_def sorted_wrt_map)
  moreover have "(k, v) \<in> set (map ?f ?is) \<longleftrightarrow> enc E a k = Some v \<and> ?lo \<le> k \<and> k < ?hi" for k v
  proof
    assume "(k, v) \<in> set (map ?f ?is)"
    then obtain i where "k = 4 # put_uint64 h @ put_uint64 i" "a_tx a (h, i) = Some v" by auto
    then show "enc E a k = Some v \<and> ?lo \<le> k \<and> k < ?hi"
      using put_between [of h h "put_uint64 i" "h + 1"] u64_less_Suc [OF assms, of h]
      by (simp add: enc_def)
  next
    assume k: "enc E a k = Some v \<and> ?lo \<le> k \<and> k < ?hi"
    then obtain x y where xy: "k = 4 # put_uint64 x @ put_uint64 y" "a_tx a (x, y) = Some v"
      using enc_tx_row by metis
    with k have "h \<le> x \<and> x < h + 1"
      using put_between [of h x "put_uint64 y" "h + 1"] by simp
    then have "x = h" using u64_less_Suc [OF assms, of x] by (simp add: antisym)
    with xy show "(k, v) \<in> set (map ?f ?is)" by (auto simp: image_iff)
  qed
  ultimately show ?thesis by (simp add: lists_range_def)
qed

lemma collectTxs_ok: "collectTxs (map (\<lambda>(k, v). (k, Ok v)) kvs) txs = Ok (txs @ map snd kvs)"
  by (induction kvs arbitrary: txs) auto

lemma txsInRange_ok:
  assumes rep: "rep E view s a"
  shows "txsInRange E s (put_uint64 h) (put_uint64 (h + 1)) = Ok (a_txsAt a h)"
proof -
  have ok: "env_ok E view" and v: "view s = enc E a" using rep by (simp_all add: rep_def)
  obtain kvs where kvs: "lists_range (enc E a) (4 # put_uint64 h) (4 # put_uint64 (h + 1)) kvs"
    "peb_NewIter (ldb_pebble E) s (4 # put_uint64 h) (4 # put_uint64 (h + 1)) =
       Ok (map (\<lambda>(k, v). (k, Ok v)) kvs)"
    using pebble_NewIter [OF env_pebble [OF ok], of s] unfolding map_iter_def v by blast
  have "map snd kvs = a_txsAt a h"
  proof (cases "h = - 1")
    case True
    have "kvs = []"
    proof (cases kvs)
      case (Cons p ps)
      then have "4 # put_uint64 h \<le> fst p \<and> fst p < 4 # put_uint64 (h + 1)"
        using kvs(1) by (cases p) (auto simp: lists_range_def)
      then have "4 # put_uint64 h < 4 # put_uint64 (h + 1)" by (meson order_le_less_trans)
      with True show ?thesis by simp
    qed
    with True show ?thesis by (simp add: a_txsAt_def)
  next
    case False
    then show ?thesis
      using lists_range_unique [OF kvs(1) lists_range_txs [OF False]]
      by (simp add: a_txsAt_def a_txs_def comp_def)
  qed
  with kvs(2) ok show ?thesis
    by (simp add: txsInRange_def Key_simps collectTxs_ok)
qed

section \<open>Blocks\<close>

definition a_blockOf :: "astore \<Rightarrow> header \<Rightarrow> block" where
  "a_blockOf a h = \<lparr>b_Header = h, b_Txs = a_txsAt a (h_Height h)\<rparr>"

lemma blockByHeight_finds:
  assumes rep: "rep E view s a"
  shows "finds (blockByHeight E s (put_uint64 h))
    (map_option (\<lambda>hdr. \<lparr>b_Header = hdr, b_Txs = a_txsAt a h\<rparr>) (a_header a h))"
  unfolding blockByHeight_def
  by (rule finds_check_map [OF headerByHeight_finds [OF rep]])
     (simp_all add: marshalUint64_def txsInRange_ok [OF rep])

lemma BlockByHeight_finds:
  "rep E view s a \<Longrightarrow> finds (BlockByHeight E h s)
    (map_option (\<lambda>hdr. \<lparr>b_Header = hdr, b_Txs = a_txsAt a h\<rparr>) (a_header a h))"
  by (simp only: BlockByHeight_def db_view_finds [OF rep_env] marshalUint64_def blockByHeight_finds)

lemma headerAndTxs_ok: "rep E view s a \<Longrightarrow> headerAndTxs E s hdr = Ok (hdr, a_txsAt a (h_Height hdr))"
  by (simp add: headerAndTxs_def marshalUint64_def txsInRange_ok)

lemma block_of_header_finds:
  assumes rep: "rep E view s a" and m: "finds m x"
  shows "finds (check (db_view E (\<lambda>s. check m (Errorf_w msg) (headerAndTxs E s)) s) pass
       (\<lambda>(header, txs). NewBlock (Some header) (Some txs)))
     (map_option (a_blockOf a) x)"
proof -
  have "finds (check m (Errorf_w msg) (headerAndTxs E s))
      (map_option (\<lambda>hdr. (hdr, a_txsAt a (h_Height hdr))) x)"
    by (rule finds_check_map [OF m]) (simp_all add: headerAndTxs_ok [OF rep])
  then have "finds (db_view E (\<lambda>s. check m (Errorf_w msg) (headerAndTxs E s)) s)
      (map_option (\<lambda>hdr. (hdr, a_txsAt a (h_Height hdr))) x)"
    by (simp only: db_view_finds [OF rep_env [OF rep]])
  then show ?thesis
    by (cases x) (auto simp: a_blockOf_def is_NotFound_def split: res.splits)
qed

lemma BlockByHash_finds:
  assumes rep: "rep E view s a"
  shows "finds (BlockByHash E x s) (map_option (a_blockOf a) (a_headerByHash a x))"
proof -
  have "finds (check (db_view E (\<lambda>t. check (headerByHash E s x) (Errorf_w ''get header by hash'')
      (headerAndTxs E t)) s) pass (\<lambda>(header, txs). NewBlock (Some header) (Some txs)))
     (map_option (a_blockOf a) (a_headerByHash a x))"
    by (rule block_of_header_finds [OF rep headerByHash_finds [OF rep]])
  then show ?thesis by (simp add: BlockByHash_def db_view_def)
qed

lemma BlockByLabel_finds:
  assumes rep: "rep E view s a"
  shows "finds (BlockByLabel E l s)
    (map_option (a_blockOf a) (Option.bind (a_label a (str l)) (a_headerByHash a)))"
proof -
  have "finds (check (db_view E (\<lambda>t. check (headerByLabel E s l) (Errorf_w ''get header by label'')
      (headerAndTxs E t)) s) pass (\<lambda>(header, txs). NewBlock (Some header) (Some txs)))
     (map_option (a_blockOf a) (Option.bind (a_label a (str l)) (a_headerByHash a)))"
    by (rule block_of_header_finds [OF rep headerByLabel_finds [OF rep]])
  then show ?thesis by (simp add: BlockByLabel_def db_view_def)
qed

lemma HeadBlock_finds:
  assumes rep: "rep E view s a"
  shows "finds (HeadBlock E s) (Option.bind (a_top a)
    (\<lambda>h. map_option (\<lambda>hdr. \<lparr>b_Header = hdr, b_Txs = a_txsAt a h\<rparr>) (a_header a h)))"
proof -
  let ?f = "\<lambda>h. map_option (\<lambda>hdr. \<lparr>b_Header = hdr, b_Txs = a_txsAt a h\<rparr>) (a_header a h)"
  have "finds (check (getHeight E s) (Errorf_w ''get height'') (\<lambda>hb.
      check (blockByHeight E s hb) (Errorf_w ''get block by height'') Ok))
      (Option.bind (map_option put_uint64 (a_top a)) (\<lambda>hb. ?f (dec64 hb)))"
    by (rule finds_check [OF getHeight_finds [OF rep]])
       (auto intro!: finds_wrapped blockByHeight_finds [OF rep])
  moreover have "Option.bind (map_option put_uint64 (a_top a)) (\<lambda>hb. ?f (dec64 hb)) =
      Option.bind (a_top a) ?f"
    by (cases "a_top a") simp_all
  ultimately show ?thesis by (simp add: HeadBlock_def db_view_finds [OF rep_env [OF rep]])
qed

end
