(* ===== verification/LocalDBRollback.thy ===== *)
theory LocalDBRollback
  imports LocalDBCorrect
begin

text \<open>
  \<^verbatim>\<open>Rollback\<close> refines \<open>a_cut\<close> followed by the new labels: it forgets the headers above the
  target and their hashes, and leaves every transaction row where it was.
\<close>

section \<open>The header loop\<close>

text \<open>What a list of header rows decodes to.\<close>

definition hdrOf :: "'s localdb_env \<Rightarrow> bytes \<Rightarrow> header" where
  "hdrOf E v = (case ldb_cbor_Unmarshal E v zero_header of Ok h \<Rightarrow> h | _ \<Rightarrow> zero_header)"

lemma hdrOf_cborM [simp]: "env_ok E view \<Longrightarrow> hdrOf E (cborM E h) = h"
  by (simp add: hdrOf_def env_Unmarshal)

lemma rollbackHeaders_ok:
  assumes ok: "env_ok E view" and "\<forall>v \<in> snd ` set kvs. \<exists>h. v = cborM E h"
  shows "rollbackHeaders E s (map (\<lambda>(k, v). (k, Ok v)) kvs) h0 b =
    Ok (b @ map (\<lambda>(k, v). BDelete (2 # hash_Bytes (h_Hash (hdrOf E v)))) kvs)"
  using assms(2)
proof (induction kvs arbitrary: h0 b)
  case Nil
  then show ?case by simp
next
  case (Cons p kvs)
  obtain k v where p: "p = (k, v)" by (cases p)
  with Cons.prems obtain h where "v = cborM E h" by auto
  with Cons p ok show ?case by (simp add: env_Unmarshal [OF ok] Key_simps)
qed

lemma apply_delete_hashes:
  "apply_batch (map (\<lambda>(k, v). BDelete (2 # hash_Bytes (f v))) kvs) (enc E a) =
   enc E (a\<lparr>a_heightOf := (\<lambda>x. if x \<in> f ` snd ` set kvs then None else a_heightOf a x)\<rparr>)"
proof (induction kvs arbitrary: a)
  case Nil
  then show ?case by simp
next
  case (Cons p kvs)
  obtain k v where p: "p = (k, v)" by (cases p)
  let ?m = "map (\<lambda>(k, v). BDelete (2 # hash_Bytes (f v))) kvs"
  have "apply_batch (map (\<lambda>(k, v). BDelete (2 # hash_Bytes (f v))) (p # kvs)) (enc E a) =
      apply_batch ?m (enc E (a\<lparr>a_heightOf := (a_heightOf a)(f v := None)\<rparr>))"
    by (simp add: p enc_writes)
  also have "\<dots> = enc E (a\<lparr>a_heightOf := (\<lambda>x. if x \<in> f ` snd ` set kvs then None
      else ((a_heightOf a)(f v := None)) x)\<rparr>)"
    by (subst Cons.IH) (simp cong: if_cong)
  also have "(\<lambda>x. if x \<in> f ` snd ` set kvs then None else ((a_heightOf a)(f v := None)) x) =
      (\<lambda>x. if x \<in> f ` snd ` set (p # kvs) then None else a_heightOf a x)"
    by (auto simp: p fun_eq_iff)
  finally show ?case .
qed

lemma enc_header_row:
  assumes "1 # put_uint64 f \<le> k" and "k < [2]" and "enc E a k = Some v"
  obtains g h where "k = 1 # put_uint64 g" and "f \<le> g" and "a_header a g = Some h" and "v = cborM E h"
proof (cases k)
  case Nil
  with assms show ?thesis by simp
next
  case (Cons b r)
  with assms(1,2) byte_between have b: "b = 1" by auto
  with Cons assms(3) have r: "length r = 8" "map_option (cborM E) (a_header a (dec64 r)) = Some v"
    by (auto simp: enc_def split: if_splits)
  have e: "put_uint64 (dec64 r) = r" by (rule put_dec64 [OF r(1)])
  have "put_uint64 f \<le> put_uint64 (dec64 r)" using assms(1) Cons b by (simp add: e)
  then have "f \<le> dec64 r" by simp
  moreover obtain h where "a_header a (dec64 r) = Some h" "v = cborM E h" using r(2) by auto
  ultimately show ?thesis using that [of "dec64 r" h] Cons b e by simp
qed

lemma header_rows:
  assumes "lists_range (enc E a) (1 # put_uint64 f) [2] kvs"
  shows "snd ` set kvs = {cborM E h |h. \<exists>g. f \<le> g \<and> a_header a g = Some h}"
proof
  show "snd ` set kvs \<subseteq> {cborM E h |h. \<exists>g. f \<le> g \<and> a_header a g = Some h}"
  proof
    fix v assume "v \<in> snd ` set kvs"
    then obtain k where k: "enc E a k = Some v" "1 # put_uint64 f \<le> k" "k < [2]"
      using assms by (auto simp: lists_range_def)
    obtain g h where "f \<le> g" "a_header a g = Some h" "v = cborM E h"
      by (rule enc_header_row [OF k(2,3,1)])
    then show "v \<in> {cborM E h |h. \<exists>g. f \<le> g \<and> a_header a g = Some h}" by blast
  qed
  show "{cborM E h |h. \<exists>g. f \<le> g \<and> a_header a g = Some h} \<subseteq> snd ` set kvs"
  proof
    fix v assume "v \<in> {cborM E h |h. \<exists>g. f \<le> g \<and> a_header a g = Some h}"
    then obtain g h where "v = cborM E h" "f \<le> g" "a_header a g = Some h" by blast
    then have "(1 # put_uint64 g, v) \<in> set kvs"
      using assms by (simp add: lists_range_def enc_def)
    then show "v \<in> snd ` set kvs" by force
  qed
qed

section \<open>The transaction loop\<close>

lemma rollbackTxs_ok:
  "env_ok E view \<Longrightarrow> rollbackTxs E s (map (\<lambda>(k, v). (k, Ok v)) kvs) b =
    Ok (b @ map (\<lambda>(k, v). BDelete (5 # ldb_TxHash E v)) kvs)"
  by (induction kvs arbitrary: b) (auto simp: Key_simps)

lemma apply_delete_positions:
  "apply_batch (map (\<lambda>(k, v). BDelete (5 # H v)) kvs) (enc E a) =
   enc E (a\<lparr>a_txPos := (\<lambda>t. if t \<in> H ` snd ` set kvs then None else a_txPos a t)\<rparr>)"
proof (induction kvs arbitrary: a)
  case Nil
  then show ?case by simp
next
  case (Cons p kvs)
  obtain k v where p: "p = (k, v)" by (cases p)
  let ?m = "map (\<lambda>(k, v). BDelete (5 # H v)) kvs"
  have "apply_batch (map (\<lambda>(k, v). BDelete (5 # H v)) (p # kvs)) (enc E a) =
      apply_batch ?m (enc E (a\<lparr>a_txPos := (a_txPos a)(H v := None)\<rparr>))"
    by (simp add: p enc_writes)
  also have "\<dots> = enc E (a\<lparr>a_txPos := (\<lambda>t. if t \<in> H ` snd ` set kvs then None
      else ((a_txPos a)(H v := None)) t)\<rparr>)"
    by (subst Cons.IH) (simp cong: if_cong)
  also have "(\<lambda>t. if t \<in> H ` snd ` set kvs then None else ((a_txPos a)(H v := None)) t) =
      (\<lambda>t. if t \<in> H ` snd ` set (p # kvs) then None else a_txPos a t)"
    by (auto simp: p fun_eq_iff)
  finally show ?case .
qed

lemma put_le_append: "put_uint64 f \<le> put_uint64 x @ u \<longleftrightarrow> f \<le> x"
proof
  assume le: "put_uint64 f \<le> put_uint64 x @ u"
  show "f \<le> x"
  proof (rule ccontr)
    assume "\<not> f \<le> x"
    then have "put_uint64 x @ u < put_uint64 f @ []"
      by (intro append_less_by_prefix) simp_all
    with le show False by (simp add: leD)
  qed
next
  assume "f \<le> x"
  then have "put_uint64 f \<le> put_uint64 x" by simp
  also have "\<dots> \<le> put_uint64 x @ u" by (rule append_le_self)
  finally show "put_uint64 f \<le> put_uint64 x @ u" .
qed

lemma byte_4_5: "(4 :: byte) < b \<Longrightarrow> b < 5 \<Longrightarrow> False"
  by (simp add: word_less_nat_alt)

lemma tx_rows:
  assumes "lists_range (enc E a) (4 # put_uint64 f) [5] kvs"
  shows "snd ` set kvs = {tx. \<exists>g i. f \<le> g \<and> a_tx a (g, i) = Some tx}"
proof
  show "snd ` set kvs \<subseteq> {tx. \<exists>g i. f \<le> g \<and> a_tx a (g, i) = Some tx}"
  proof
    fix v assume "v \<in> snd ` set kvs"
    then obtain k where k: "enc E a k = Some v" "4 # put_uint64 f \<le> k" "k < [5]"
      using assms by (auto simp: lists_range_def)
    then obtain r where kr: "k = 4 # r" using byte_4_5 by (cases k) auto
    then have r: "length r = 16" "a_tx a (dec64 (take 8 r), dec64 (drop 8 r)) = Some v"
      using k(1) by (auto simp: enc_def split: if_splits)
    then have "r = put_uint64 (dec64 (take 8 r)) @ put_uint64 (dec64 (drop 8 r))"
      by (simp add: eq_pos_iff)
    then have "f \<le> dec64 (take 8 r)" using k(2) kr put_le_append [of f "dec64 (take 8 r)" "put_uint64 (dec64 (drop 8 r))"]
      by simp
    with r(2) show "v \<in> {tx. \<exists>g i. f \<le> g \<and> a_tx a (g, i) = Some tx}" by blast
  qed
  show "{tx. \<exists>g i. f \<le> g \<and> a_tx a (g, i) = Some tx} \<subseteq> snd ` set kvs"
  proof
    fix v assume "v \<in> {tx. \<exists>g i. f \<le> g \<and> a_tx a (g, i) = Some tx}"
    then obtain g i where "f \<le> g" "a_tx a (g, i) = Some v" by blast
    then have "(4 # put_uint64 g @ put_uint64 i, v) \<in> set kvs"
      using assms by (simp add: lists_range_def enc_def put_le_append)
    then show "v \<in> snd ` set kvs" by force
  qed
qed

section \<open>Rollback\<close>

lemma ucast_bucket5: "(ucast bucketTxHeightAndIndexByHash + 1 :: u64) = 6"
  by (simp add: bucket_defs)

text \<open>The state after each group of operations, as tables.\<close>

lemma cut_headers:
  assumes n: "n \<noteq> - 1" and ok: "env_ok E view"
    and kvs: "lists_range (enc E a) (1 # put_uint64 (n + 1)) [2] kvs"
  shows "(\<lambda>v. h_Hash (hdrOf E v)) ` snd ` set kvs =
     {x. \<exists>h hdr. n < h \<and> a_header a h = Some hdr \<and> h_Hash hdr = x}"
  unfolding header_rows [OF kvs] Suc_le_iff_less [OF n] using ok by force

lemma cut_txs:
  assumes n: "n \<noteq> - 1" and kvs: "lists_range (enc E a) (4 # put_uint64 (n + 1)) [5] kvs"
  shows "H ` snd ` set kvs = {t. \<exists>h i tx. n < h \<and> a_tx a (h, i) = Some tx \<and> H tx = t}"
  unfolding tx_rows [OF kvs] Suc_le_iff_less [OF n] by blast

lemma rollbackOps_ok:
  assumes rep: "rep E view s a" and n: "a_heightOf a u = Some n" "n \<noteq> - 1"
  shows "\<exists>b. rollbackOps E u f g s [] = Ok b \<and>
    apply_batch b (view s) = enc E (a_setLabels E u f g (a_cut (ldb_TxHash E) n a))"
proof -
  have ok: "env_ok E view" and v: "view s = enc E a" using rep by (simp_all add: rep_def)
  let ?H = "ldb_TxHash E"
  let ?b1 = "[BSet [6] (put_uint64 n)]"
  let ?a1 = "a\<lparr>a_top := Some n\<rparr>"
  have v1: "apply_batch ?b1 (view s) = enc E ?a1" by (simp add: v enc_writes)
  obtain kvs where kvs: "lists_range (enc E ?a1) (1 # put_uint64 (n + 1)) [2] kvs"
    "peb_BatchNewIter (ldb_pebble E) s ?b1 (1 # put_uint64 (n + 1)) [2] =
      Ok (map (\<lambda>(k, v). (k, Ok v)) kvs)"
    using pebble_BatchNewIter [OF env_pebble [OF ok], of ?b1 s] unfolding map_iter_def v1 by blast
  let ?d2 = "map (\<lambda>(k, v). BDelete (2 # hash_Bytes (h_Hash (hdrOf E v)))) kvs"
  let ?b2 = "?b1 @ ?d2 @ [BDeleteRange (1 # put_uint64 (n + 1)) [2]]"
  let ?a2 = "a\<lparr>a_top := Some n,
     a_header := (\<lambda>h. if n < h then None else a_header a h),
     a_heightOf := (\<lambda>x. if \<exists>h hdr. n < h \<and> a_header a h = Some hdr \<and> h_Hash hdr = x then None
                        else a_heightOf a x)\<rparr>"
  have "apply_batch ?b2 (view s) = apply_batch_op (BDeleteRange (1 # put_uint64 (n + 1)) [2])
      (apply_batch ?d2 (apply_batch ?b1 (view s)))"
    by (simp del: apply_batch_op.simps)
  also have "\<dots> = enc E ?a2"
    unfolding v1 apply_delete_hashes enc_del_headers
    using cut_headers [OF n(2) ok kvs(1)]
    by (intro arg_cong [where f = "enc E"] astore.equality)
       (simp_all add: Suc_le_iff_less [OF n(2)] image_image cong: if_cong)
  finally have v2: "apply_batch ?b2 (view s) = enc E ?a2" .
  obtain kvt where kvt: "lists_range (enc E ?a2) (4 # put_uint64 (n + 1)) [5] kvt"
    "peb_BatchNewIter (ldb_pebble E) s ?b2 (4 # put_uint64 (n + 1)) [5] =
      Ok (map (\<lambda>(k, v). (k, Ok v)) kvt)"
    using pebble_BatchNewIter [OF env_pebble [OF ok], of ?b2 s] unfolding map_iter_def v2 by blast
  let ?d3 = "map (\<lambda>(k, v). BDelete (5 # ?H v)) kvt"
  let ?b3 = "?b2 @ ?d3 @ [BDeleteRange (5 # put_uint64 (n + 1)) (put_uint64 6)] @ labelOps E u f g"
  have "\<forall>v \<in> snd ` set kvs. \<exists>h. v = cborM E h" unfolding header_rows [OF kvs(1)] by blast
  note hdrs = rollbackHeaders_ok [OF ok this]
  have "rollbackOps E u f g s [] = Ok ?b3"
    using kvs(2) kvt(2) n(1) ok
    by (simp add: rollbackOps_def db_get_batch_ok v Key_simps next_bucket_simps enc_def Let_def
        marshalUint64_def hdrs rollbackTxs_ok [OF ok] updateLabels_ok ucast_bucket5)
  moreover have "apply_batch ?b3 (view s) = enc E (a_setLabels E u f g (a_cut ?H n a))"
  proof -
    have "apply_batch ?b3 (view s) = apply_batch (labelOps E u f g) (apply_batch ?d3 (enc E ?a2))"
      using v2 by (simp add: tx_hash_range_empty del: apply_batch_op.simps)
    also have "apply_batch ?d3 (enc E ?a2) = enc E (a_cut ?H n a)"
      unfolding apply_delete_positions using cut_txs [OF n(2) kvt(1), of ?H]
      by (intro arg_cong [where f = "enc E"] astore.equality)
         (simp_all add: a_cut_def image_image cong: if_cong)
    finally show ?thesis by (simp add: apply_labelOps)
  qed
  ultimately show ?thesis by blast
qed

lemma Rollback_refines:
  assumes rep: "rep E view s a" and n: "a_heightOf a u = Some n" "n \<noteq> - 1"
  shows "\<exists>s'. Rollback E u f g s = (Ok (), s') \<and>
    rep E view s' (a_setLabels E u f g (a_cut (ldb_TxHash E) n a))"
proof -
  have ok: "env_ok E view" using rep by (simp add: rep_def)
  obtain b where "rollbackOps E u f g s [] = Ok b"
    "apply_batch b (view s) = enc E (a_setLabels E u f g (a_cut (ldb_TxHash E) n a))"
    using rollbackOps_ok [OF assms] by blast
  then show ?thesis
    using db_update_ok [OF ok, of "rollbackOps E u f g" s b] ok
    by (auto simp: Rollback_def rep_def)
qed

lemma Rollback_unknown:
  assumes rep: "rep E view s a" and "a_heightOf a u = None"
  shows "snd (Rollback E u f g s) = s" and "is_NotFound (fst (Rollback E u f g s))"
proof -
  have ok: "env_ok E view" and v: "view s = enc E a" using rep by (simp_all add: rep_def)
  have "rollbackOps E u f g s [] = Err (Errorf_w ''get height by hash'' ErrNotFound)"
    using assms(2) by (simp add: rollbackOps_def db_get_batch_ok [OF ok] v Key_simps enc_def)
  then show "snd (Rollback E u f g s) = s" and "is_NotFound (fst (Rollback E u f g s))"
    using ok by (simp_all add: Rollback_def db_update_def)
qed

end
