(* ===== verification/ChainStore.thy ===== *)
theory ChainStore
  imports LocalDBRollback
begin

text \<open>
  What a client of the block store (the builder, the engine, the RPC servers) relies on,
  as the locale \<open>block_store\<close>: every operation simulates the one on the abstract store. The
  client's lemmas (append/lookup round trips, the chain invariant, the labels) are proved
  in the locale and hold for \<^verbatim>\<open>localdb.DB\<close> by its interpretation.
\<close>

section \<open>Transaction rows of the abstract store\<close>

definition rows :: "astore \<Rightarrow> u64 \<Rightarrow> bytes list \<Rightarrow> bool" where
  "rows a n xs \<longleftrightarrow> length xs \<le> 2 ^ 64 \<and>
     (\<forall>i. a_tx a (n, i) = (if unat i < length xs then Some (xs ! unat i) else None))"

lemma unat_of_nat_u64: "i < 2 ^ 64 \<Longrightarrow> unat (word_of_nat i :: u64) = i"
  by (simp add: unat_of_nat)

lemma strict_sorted_of_nat:
  "k \<le> 2 ^ 64 \<Longrightarrow> sorted_wrt (<) (map (word_of_nat :: nat \<Rightarrow> u64) [0..<k])"
  by (simp add: sorted_wrt_iff_nth_less word_less_nat_alt unat_of_nat_u64)

lemma a_txs_rows:
  assumes "rows a n xs"
  shows "a_txs a n = xs"
proof -
  let ?k = "length xs"
  have k: "?k \<le> 2 ^ 64" and tx: "\<And>i. a_tx a (n, i) = (if unat i < ?k then Some (xs ! unat i) else None)"
    using assms by (simp_all add: rows_def)
  have "{i. a_tx a (n, i) \<noteq> None} = set (map word_of_nat [0..<?k])"
  proof -
    have "(i :: u64) \<in> word_of_nat ` {0..<?k} \<longleftrightarrow> unat i < ?k" for i
    proof
      assume "i \<in> word_of_nat ` {0..<?k}"
      then show "unat i < ?k" using k by (auto simp: unat_of_nat_u64)
    next
      assume "unat i < ?k"
      then show "i \<in> word_of_nat ` {0..<?k}" by (intro image_eqI [of _ _ "unat i"]) simp_all
    qed
    then show ?thesis by (auto simp: tx)
  qed
  moreover have "sorted_list_of_set (set (map word_of_nat [0..<?k])) = map (word_of_nat :: nat \<Rightarrow> u64) [0..<?k]"
    by (rule strict_sorted_unique) (simp_all only: strict_sorted_of_nat [OF k]
        strict_sorted_list_of_set set_sorted_list_of_set List.finite_set)
  ultimately have "a_txs a n = map (\<lambda>i. the (a_tx a (n, word_of_nat i))) [0..<?k]"
    by (simp only: a_txs_def) simp
  also have "\<dots> = map (\<lambda>i. xs ! i) [0..<?k]"
    using k by (intro map_cong [OF refl]) (simp add: tx unat_of_nat_u64)
  finally show ?thesis by (simp add: map_nth)
qed

lemma a_appendTxs_tx:
  "i0 + length txs \<le> 2 ^ 64 \<Longrightarrow>
   a_tx (a_appendTxs H n i0 txs a) (m, i) =
     (if m = n \<and> i0 \<le> unat i \<and> unat i < i0 + length txs then Some (txs ! (unat i - i0))
      else a_tx a (m, i))"
proof (induction txs arbitrary: i0 a)
  case Nil
  then show ?case by auto
next
  case (Cons tx txs)
  have "(i = word_of_nat i0) \<longleftrightarrow> unat i = i0"
    using Cons.prems by (auto simp: unat_of_nat_u64)
  with Cons show ?case by (auto simp: nth_Cons' not_less_eq_eq)
qed

lemma a_tx_append:
  assumes "length (b_Txs b) \<le> 2 ^ 64"
  shows "a_tx (a_append H b a) (m, i) =
    (if m = h_Height (b_Header b) \<and> unat i < length (b_Txs b) then Some (b_Txs b ! unat i)
     else a_tx a (m, i))"
  using assms by (simp add: a_append_def Let_def a_appendTxs_tx)

text \<open>
  A block appended over the rows of an earlier block at the same height keeps that block's
  transactions from its own length on.
\<close>

lemma rows_append_same:
  assumes "rows a (h_Height (b_Header b)) xs" and "length (b_Txs b) \<le> 2 ^ 64"
  shows "rows (a_append H b a) (h_Height (b_Header b)) (b_Txs b @ drop (length (b_Txs b)) xs)"
  using assms by (auto simp: rows_def a_tx_append nth_append)

lemma rows_append_other:
  "length (b_Txs b) \<le> 2 ^ 64 \<Longrightarrow> m \<noteq> h_Height (b_Header b) \<Longrightarrow>
   rows (a_append H b a) m xs = rows a m xs"
  by (simp add: rows_def a_tx_append)

lemma rows_empty: "(\<And>i. a_tx a (n, i) = None) \<Longrightarrow> rows a n []"
  by (simp add: rows_def)

lemma rows_frame [simp]:
  "rows (a_setLabels E u f g a) = rows a" "rows (a_cut H n a) = rows a"
  by (simp_all add: rows_def a_setLabels_def a_cut_def fun_eq_iff)

lemma a_append_frame [simp]:
  "a_header (a_append H b a) = (a_header a)(h_Height (b_Header b) \<mapsto> b_Header b)"
  "a_heightOf (a_append H b a) = (a_heightOf a)(h_Hash (b_Header b) \<mapsto> h_Height (b_Header b))"
  "a_label (a_append H b a) = a_label a"
  "a_top (a_append H b a) = Some (h_Height (b_Header b))"
  by (simp_all add: a_append_def Let_def)

section \<open>The chain invariant\<close>

text \<open>
  Headers sit at their own height, the hash table is the inverse of the header table, the
  headers are a gapless run up to the recorded height linked by parent hashes, and a
  recorded transaction position holds a transaction with that hash.
\<close>

definition chain_ok :: "astore \<Rightarrow> bool" where
  "chain_ok a \<longleftrightarrow>
     (\<forall>h hdr. a_header a h = Some hdr \<longrightarrow> h_Height hdr = h \<and> a_heightOf a (h_Hash hdr) = Some h) \<and>
     (\<forall>x h. a_heightOf a x = Some h \<longrightarrow> (\<exists>hdr. a_header a h = Some hdr \<and> h_Hash hdr = x)) \<and>
     (\<forall>h hdr. a_header a h = Some hdr \<longrightarrow> (\<exists>t. a_top a = Some t \<and> h \<le> t \<and> t \<noteq> - 1)) \<and>
     (\<forall>t. a_top a = Some t \<longrightarrow> a_header a t \<noteq> None) \<and>
     (\<forall>h m t. a_header a h \<noteq> None \<and> h \<le> m \<and> a_top a = Some t \<and> m \<le> t \<longrightarrow> a_header a m \<noteq> None) \<and>
     (\<forall>h p c. h \<noteq> - 1 \<and> a_header a h = Some p \<and> a_header a (h + 1) = Some c \<longrightarrow>
        h_ParentHash c = h_Hash p)"

lemma chain_okD:
  assumes "chain_ok a"
  shows chain_height: "a_header a h = Some hdr \<Longrightarrow> h_Height hdr = h"
    and chain_hash: "a_header a h = Some hdr \<Longrightarrow> a_heightOf a (h_Hash hdr) = Some h"
    and chain_inverse: "a_heightOf a x = Some h \<Longrightarrow> \<exists>hdr. a_header a h = Some hdr \<and> h_Hash hdr = x"
    and chain_below: "a_header a h = Some hdr \<Longrightarrow> \<exists>t. a_top a = Some t \<and> h \<le> t \<and> t \<noteq> - 1"
    and chain_top: "a_top a = Some t \<Longrightarrow> a_header a t \<noteq> None"
    and chain_gapless: "a_header a h \<noteq> None \<Longrightarrow> h \<le> m \<Longrightarrow> a_top a = Some t \<Longrightarrow> m \<le> t \<Longrightarrow>
      a_header a m \<noteq> None"
    and chain_parent: "h \<noteq> - 1 \<Longrightarrow> a_header a h = Some p \<Longrightarrow> a_header a (h + 1) = Some c \<Longrightarrow>
      h_ParentHash c = h_Hash p"
  using assms unfolding chain_ok_def by blast+

lemma chain_okI:
  assumes "\<And>h hdr. a_header a h = Some hdr \<Longrightarrow> h_Height hdr = h \<and> a_heightOf a (h_Hash hdr) = Some h"
    and "\<And>x h. a_heightOf a x = Some h \<Longrightarrow> \<exists>hdr. a_header a h = Some hdr \<and> h_Hash hdr = x"
    and "\<And>h hdr. a_header a h = Some hdr \<Longrightarrow> \<exists>t. a_top a = Some t \<and> h \<le> t \<and> t \<noteq> - 1"
    and "\<And>t. a_top a = Some t \<Longrightarrow> a_header a t \<noteq> None"
    and "\<And>h m t. a_header a h \<noteq> None \<Longrightarrow> h \<le> m \<Longrightarrow> a_top a = Some t \<Longrightarrow> m \<le> t \<Longrightarrow>
      a_header a m \<noteq> None"
    and "\<And>h p c. h \<noteq> - 1 \<Longrightarrow> a_header a h = Some p \<Longrightarrow> a_header a (h + 1) = Some c \<Longrightarrow>
      h_ParentHash c = h_Hash p"
  shows "chain_ok a"
  unfolding chain_ok_def using assms by blast

text \<open>A header that may follow the head: the first one, or the head's child.\<close>

definition follows :: "header \<Rightarrow> astore \<Rightarrow> bool" where
  "follows hdr a \<longleftrightarrow> h_Height hdr \<noteq> - 1 \<and> a_heightOf a (h_Hash hdr) = None \<and>
     (case a_top a of
        None \<Rightarrow> True
      | Some t \<Rightarrow> h_Height hdr = t + 1 \<and> t \<noteq> - 1 \<and>
          (\<forall>p. a_header a t = Some p \<longrightarrow> h_ParentHash hdr = h_Hash p))"

lemma chain_ok_frame:
  "chain_ok (a_setLabels E u f g a) = chain_ok a"
  "chain_ok (a\<lparr>a_tx := x\<rparr>) = chain_ok a" "chain_ok (a\<lparr>a_txPos := y\<rparr>) = chain_ok a"
  by (simp_all add: chain_ok_def a_setLabels_def)

lemma label_frame [simp]:
  "chain_ok (a\<lparr>a_label := l\<rparr>) = chain_ok a" "rows (a\<lparr>a_label := l\<rparr>) = rows a"
  by (simp_all add: chain_ok_def rows_def fun_eq_iff)

lemma Suc_not_le: "(t :: u64) \<noteq> - 1 \<Longrightarrow> \<not> t + 1 \<le> t"
  by (metis Suc_le_iff_less order_less_irrefl)

lemma Suc_eq_iff_u64: "(h :: u64) + 1 = t + 1 \<longleftrightarrow> h = t"
  by simp

lemma chain_ok_empty: "chain_ok a \<Longrightarrow> a_top a = None \<Longrightarrow> a_header a h = None"
  using chain_below [of a h] by (cases "a_header a h") auto

lemma chain_append_height:
  assumes ok: "chain_ok a" and fol: "follows (b_Header b) a"
  shows "a_header a (h_Height (b_Header b)) = None"
proof (cases "a_top a")
  case None
  then show ?thesis by (rule chain_ok_empty [OF ok])
next
  case (Some t)
  then have "h_Height (b_Header b) = t + 1" "t \<noteq> - 1" using fol by (simp_all add: follows_def)
  then show ?thesis using chain_below [OF ok] Some Suc_not_le
    by (cases "a_header a (h_Height (b_Header b))") auto
qed

lemma chain_ok_append_tables:
  assumes ok: "chain_ok a" and fol: "follows (b_Header b) a"
  defines "n \<equiv> h_Height (b_Header b)" and "hdn \<equiv> b_Header b"
  shows "a_header (a_append H b a) h = Some hdr \<Longrightarrow>
      h_Height hdr = h \<and> a_heightOf (a_append H b a) (h_Hash hdr) = Some h"
    and "a_heightOf (a_append H b a) x = Some h \<Longrightarrow>
      \<exists>hdr. a_header (a_append H b a) h = Some hdr \<and> h_Hash hdr = x"
proof -
  have fresh: "a_heightOf a (h_Hash hdn) = None" and nh: "a_header a n = None"
    using fol chain_append_height [OF ok fol] by (simp_all add: follows_def hdn_def n_def)
  show "h_Height hdr = h \<and> a_heightOf (a_append H b a) (h_Hash hdr) = Some h"
    if "a_header (a_append H b a) h = Some hdr"
  proof (cases "h = n")
    case True
    with that show ?thesis by (simp add: n_def hdn_def split: if_splits)
  next
    case False
    then have old: "a_header a h = Some hdr" using that by (simp add: n_def hdn_def)
    then have "a_heightOf a (h_Hash hdr) = Some h" by (rule chain_hash [OF ok])
    moreover from this have "h_Hash hdr \<noteq> h_Hash hdn" using fresh by auto
    ultimately show ?thesis using chain_height [OF ok old] by (simp add: hdn_def)
  qed
  show "\<exists>hdr. a_header (a_append H b a) h = Some hdr \<and> h_Hash hdr = x"
    if "a_heightOf (a_append H b a) x = Some h"
  proof (cases "x = h_Hash hdn")
    case True
    with that show ?thesis by (simp add: hdn_def)
  next
    case False
    then have "a_heightOf a x = Some h" using that by (simp add: hdn_def)
    from chain_inverse [OF ok this] nh show ?thesis by (auto simp: n_def hdn_def)
  qed
qed

lemma chain_ok_append:
  assumes ok: "chain_ok a" and fol: "follows (b_Header b) a"
  shows "chain_ok (a_append H b a)"
proof -
  let ?n = "h_Height (b_Header b)"
  have n: "?n \<noteq> - 1" using fol by (simp add: follows_def)
  have below: "h \<le> ?n" if h1: "a_header a h = Some hdr" for h hdr
  proof -
    obtain t where t: "a_top a = Some t" "h \<le> t" "t \<noteq> - 1" using chain_below [OF ok h1] by blast
    then show ?thesis using fol Suc_le_iff_less [of t h] by (auto simp: follows_def u64_less_Suc less_imp_le)
  qed
  have gap: "a_header a m \<noteq> None" if h1: "a_header a h = Some hdr" "h \<le> m" "m \<le> ?n" "m \<noteq> ?n" for h hdr m
  proof -
    obtain t where t: "a_top a = Some t" "h \<le> t" "t \<noteq> - 1" using chain_below [OF ok h1(1)] by blast
    then have "m < t + 1" using fol h1(3,4) by (auto simp: follows_def)
    then have "m \<le> t" using t(3) by (simp add: u64_less_Suc)
    then show ?thesis using chain_gapless [OF ok _ h1(2) t(1)] h1(1) by simp
  qed
  have link: "h_ParentHash (b_Header b) = h_Hash p" if h1: "h + 1 = ?n" "a_header a h = Some p" for h p
  proof -
    obtain t where "a_top a = Some t" using chain_below [OF ok h1(2)] by blast
    then show ?thesis using fol h1 by (auto simp: follows_def Suc_eq_iff_u64)
  qed
  have above: "a_header a (?n + 1) = None"
  proof (cases "a_header a (?n + 1)")
    case (Some hdr)
    then have "?n + 1 \<le> ?n" by (rule below)
    with n Suc_not_le show ?thesis by blast
  qed simp
  show ?thesis
  proof (rule chain_okI)
    fix h m t
    assume "a_header (a_append H b a) h \<noteq> None" "h \<le> m" "a_top (a_append H b a) = Some t" "m \<le> t"
    then show "a_header (a_append H b a) m \<noteq> None"
      using gap [of h _ m] by (cases "h = ?n") auto
  next
    fix h p c
    assume h: "h \<noteq> - 1" "a_header (a_append H b a) h = Some p" "a_header (a_append H b a) (h + 1) = Some c"
    consider "h = ?n" | "h \<noteq> ?n" "h + 1 = ?n" | "h \<noteq> ?n" "h + 1 \<noteq> ?n" by blast
    then show "h_ParentHash c = h_Hash p"
    proof cases
      case 1
      with h above show ?thesis by simp
    next
      case 2
      with h link show ?thesis by simp
    next
      case 3
      with h have "a_header a h = Some p" "a_header a (h + 1) = Some c" by simp_all
      then show ?thesis by (rule chain_parent [OF ok h(1)])
    qed
  next
    fix h hdr
    assume "a_header (a_append H b a) h = Some hdr"
    then show "\<exists>t. a_top (a_append H b a) = Some t \<and> h \<le> t \<and> t \<noteq> - 1"
      using n below [of h] by (cases "h = ?n") simp_all
  next
    fix h hdr
    assume "a_header (a_append H b a) h = Some hdr"
    then show "h_Height hdr = h \<and> a_heightOf (a_append H b a) (h_Hash hdr) = Some h"
      by (rule chain_ok_append_tables(1) [OF ok fol])
  next
    fix x h
    assume "a_heightOf (a_append H b a) x = Some h"
    then show "\<exists>hdr. a_header (a_append H b a) h = Some hdr \<and> h_Hash hdr = x"
      by (rule chain_ok_append_tables(2) [OF ok fol])
  qed simp
qed

lemma a_cut_frame [simp]:
  "a_top (a_cut H n a) = Some n"
  "a_header (a_cut H n a) h = (if n < h then None else a_header a h)"
  "a_label (a_cut H n a) = a_label a" "a_tx (a_cut H n a) = a_tx a"
  by (simp_all add: a_cut_def)

lemma a_cut_heightOf:
  assumes ok: "chain_ok a"
  shows "a_heightOf (a_cut H n a) x = (case a_heightOf a x of
     None \<Rightarrow> None | Some h \<Rightarrow> if n < h then None else Some h)"
proof (cases "a_heightOf a x")
  case None
  then show ?thesis by (simp add: a_cut_def)
next
  case (Some h)
  then obtain hdr where hdr: "a_header a h = Some hdr" "h_Hash hdr = x"
    using chain_inverse [OF ok] by blast
  have "(\<exists>m k. n < m \<and> a_header a m = Some k \<and> h_Hash k = x) \<longleftrightarrow> n < h"
    using hdr Some chain_hash [OF ok] by (metis option.inject)
  with Some show ?thesis by (simp add: a_cut_def)
qed

lemma chain_ok_cut:
  assumes ok: "chain_ok a" and n: "a_heightOf a u = Some n"
  shows "chain_ok (a_cut H n a)"
proof -
  obtain hn where hn: "a_header a n = Some hn" using chain_inverse [OF ok n] by blast
  obtain t where t: "a_top a = Some t" "n \<le> t" "t \<noteq> - 1" using chain_below [OF ok hn] by blast
  have n1: "n \<noteq> - 1" using t by (metis word_order.extremum_uniqueI)
  show ?thesis
  proof (rule chain_okI)
    fix h hdr
    assume "a_header (a_cut H n a) h = Some hdr"
    then have h: "a_header a h = Some hdr" "\<not> n < h" by (simp_all split: if_splits)
    then show "h_Height hdr = h \<and> a_heightOf (a_cut H n a) (h_Hash hdr) = Some h"
      using chain_height [OF ok h(1)] chain_hash [OF ok h(1)] by (simp add: a_cut_heightOf [OF ok])
    show "\<exists>t. a_top (a_cut H n a) = Some t \<and> h \<le> t \<and> t \<noteq> - 1" using h(2) n1 by simp
  next
    fix x h
    assume "a_heightOf (a_cut H n a) x = Some h"
    then have "a_heightOf a x = Some h" "\<not> n < h"
      by (auto simp: a_cut_heightOf [OF ok] split: option.splits if_splits)
    with chain_inverse [OF ok this(1)]
    show "\<exists>hdr. a_header (a_cut H n a) h = Some hdr \<and> h_Hash hdr = x" by simp
  next
    fix h m k
    assume h: "a_header (a_cut H n a) h \<noteq> None" "h \<le> m" "a_top (a_cut H n a) = Some k" "m \<le> k"
    then have "a_header a h \<noteq> None" "m \<le> t" using t(2) by (auto split: if_splits)
    from chain_gapless [OF ok this(1) h(2) t(1) this(2)] h show "a_header (a_cut H n a) m \<noteq> None"
      by (simp add: leD)
  next
    fix h p c
    assume "h \<noteq> - 1" "a_header (a_cut H n a) h = Some p" "a_header (a_cut H n a) (h + 1) = Some c"
    then show "h_ParentHash c = h_Hash p"
      by (intro chain_parent [OF ok]) (simp_all split: if_splits)
  qed (simp add: hn)
qed

section \<open>The interface of the block store\<close>

locale block_store =
  fixes H :: "bytes \<Rightarrow> bytes"
    and lu ls lf :: string
    and rp :: "'s \<Rightarrow> astore \<Rightarrow> bool"
    and append :: "block \<Rightarrow> ('s, unit) op"
    and labels :: "hash \<Rightarrow> hash \<Rightarrow> hash \<Rightarrow> ('s, unit) op"
    and rollback :: "hash \<Rightarrow> hash \<Rightarrow> hash \<Rightarrow> ('s, unit) op"
    and height :: "'s \<Rightarrow> u64 res"
    and byHeight :: "u64 \<Rightarrow> 's \<Rightarrow> header res"
    and byHash :: "hash \<Rightarrow> 's \<Rightarrow> header res"
    and byLabel :: "string \<Rightarrow> 's \<Rightarrow> header res"
    and blockAt :: "u64 \<Rightarrow> 's \<Rightarrow> block res"
    and blockWith :: "hash \<Rightarrow> 's \<Rightarrow> block res"
  assumes labels_distinct: "rp s a \<Longrightarrow> distinct [str lu, str ls, str lf]"
    and append_sim: "rp s a \<Longrightarrow> \<exists>s'. append b s = (Ok (), s') \<and> rp s' (a_append H b a)"
    and labels_sim: "rp s a \<Longrightarrow> \<exists>s'. labels u f g s = (Ok (), s') \<and>
      rp s' (a\<lparr>a_label := (a_label a)(str lu \<mapsto> u, str ls \<mapsto> f, str lf \<mapsto> g)\<rparr>)"
    and rollback_sim: "rp s a \<Longrightarrow> a_heightOf a u = Some n \<Longrightarrow> n \<noteq> - 1 \<Longrightarrow>
      \<exists>s'. rollback u f g s = (Ok (), s') \<and>
        rp s' ((a_cut H n a)\<lparr>a_label := (a_label a)(str lu \<mapsto> u, str ls \<mapsto> f, str lf \<mapsto> g)\<rparr>)"
    and height_sim: "rp s a \<Longrightarrow> finds (height s) (a_top a)"
    and byHeight_sim: "rp s a \<Longrightarrow> finds (byHeight h s) (a_header a h)"
    and byHash_sim: "rp s a \<Longrightarrow> finds (byHash x s) (a_headerByHash a x)"
    and byLabel_sim: "rp s a \<Longrightarrow>
      finds (byLabel l s) (Option.bind (a_label a (str l)) (a_headerByHash a))"
    and blockAt_sim: "rp s a \<Longrightarrow> finds (blockAt h s)
      (map_option (\<lambda>hdr. \<lparr>b_Header = hdr, b_Txs = a_txsAt a h\<rparr>) (a_header a h))"
    and blockWith_sim: "rp s a \<Longrightarrow> finds (blockWith x s)
      (map_option (a_blockOf a) (a_headerByHash a x))"
begin

text \<open>A block reads back as it was appended when its height held no transactions before.\<close>

lemma append_lookup:
  assumes "rp s a" and "rows a (h_Height (b_Header b)) []"
    and "h_Height (b_Header b) \<noteq> - 1" and "length (b_Txs b) \<le> 2 ^ 64"
  shows "\<exists>s'. append b s = (Ok (), s') \<and> blockAt (h_Height (b_Header b)) s' = Ok b \<and>
    blockWith (h_Hash (b_Header b)) s' = Ok b \<and> height s' = Ok (h_Height (b_Header b))"
proof -
  let ?n = "h_Height (b_Header b)" and ?a = "a_append H b a"
  obtain s' where s': "append b s = (Ok (), s')" "rp s' ?a" using append_sim [OF assms(1)] by blast
  have "a_txs ?a ?n = b_Txs b" using rows_append_same [OF assms(2,4), of H] by (simp add: a_txs_rows)
  then show ?thesis
    using s' assms(3) height_sim [OF s'(2)] blockAt_sim [OF s'(2), of ?n]
      blockWith_sim [OF s'(2), of "h_Hash (b_Header b)"]
    by (simp add: a_txsAt_def a_blockOf_def a_headerByHash_def)
qed

text \<open>Appending a block leaves every block at another height as it was.\<close>

lemma append_frame:
  assumes "rp s a" and "m \<noteq> h_Height (b_Header b)" and "length (b_Txs b) \<le> 2 ^ 64"
    and "blockAt m s = Ok c"
  shows "\<exists>s'. append b s = (Ok (), s') \<and> blockAt m s' = Ok c"
proof -
  obtain s' where s': "append b s = (Ok (), s')" "rp s' (a_append H b a)"
    using append_sim [OF assms(1)] by blast
  have "a_txsAt (a_append H b a) m = a_txsAt a m"
    using assms(2,3) by (simp add: a_txsAt_def a_txs_def a_tx_append)
  then show ?thesis
    using s' blockAt_sim [OF assms(1), of m] blockAt_sim [OF s'(2), of m] assms(2,4)
    by (cases "a_header a m") simp_all
qed

text \<open>
  After a rollback the heights up to the target read as before, and nothing is found above
  it, neither by height nor by hash.
\<close>

lemma rollback_lookup:
  assumes rp: "rp s a" and ok: "chain_ok a" and n: "a_heightOf a u = Some n"
  shows "\<exists>s'. rollback u f g s = (Ok (), s') \<and> height s' = Ok n \<and>
    (\<forall>m \<le> n. finds (blockAt m s') (map_option (\<lambda>hdr. \<lparr>b_Header = hdr, b_Txs = a_txsAt a m\<rparr>) (a_header a m))) \<and>
    (\<forall>m > n. is_NotFound (blockAt m s')) \<and>
    (\<forall>x h. a_heightOf a x = Some h \<and> n < h \<longrightarrow> is_NotFound (byHash x s'))"
proof -
  have n1: "n \<noteq> - 1"
    using chain_inverse [OF ok n] chain_below [OF ok] by (metis word_order.extremum_uniqueI)
  obtain s' where s': "rollback u f g s = (Ok (), s')"
    "rp s' ((a_cut H n a)\<lparr>a_label := (a_label a)(str lu \<mapsto> u, str ls \<mapsto> f, str lf \<mapsto> g)\<rparr>)"
    (is "rp s' ?a") using rollback_sim [OF rp n n1] by blast
  have tx: "a_txsAt ?a m = a_txsAt a m" for m by (simp add: a_txsAt_def a_txs_def)
  have at: "finds (blockAt m s') (map_option (\<lambda>hdr. \<lparr>b_Header = hdr, b_Txs = a_txsAt a m\<rparr>)
      (if n < m then None else a_header a m))" for m
    using blockAt_sim [OF s'(2), of m] by (simp add: tx)
  have "finds (blockAt m s') (map_option (\<lambda>hdr. \<lparr>b_Header = hdr, b_Txs = a_txsAt a m\<rparr>) (a_header a m))"
    if "m \<le> n" for m using at [of m] that by (simp add: leD)
  moreover have "is_NotFound (blockAt m s')" if "n < m" for m using at [of m] that by simp
  moreover have "is_NotFound (byHash x s')" if "a_heightOf a x = Some h" "n < h" for x h
    using byHash_sim [OF s'(2), of x] that a_cut_heightOf [OF ok, of H n x]
    by (simp add: a_headerByHash_def)
  ultimately show ?thesis using s' height_sim [OF s'(2)] by auto
qed

text \<open>The invariant of a store that is used as the node uses it.\<close>

definition good :: "astore \<Rightarrow> bool" where
  "good a \<longleftrightarrow> chain_ok a \<and> (\<forall>n. \<exists>xs. rows a n xs) \<and>
     (\<forall>l x. a_label a l = Some x \<longrightarrow> l \<in> {str lu, str ls, str lf} \<and> a_heightOf a x \<noteq> None)"

lemma goodD:
  assumes "good a"
  shows good_chain: "chain_ok a" and good_rows: "\<exists>xs. rows a n xs"
    and good_label: "a_label a l = Some x \<Longrightarrow> l \<in> {str lu, str ls, str lf} \<and> a_heightOf a x \<noteq> None"
  using assms unfolding good_def by blast+

lemma good_relabel:
  assumes ch: "chain_ok a" and "\<And>n. \<exists>xs. rows a n xs" and "{u, f, g} \<subseteq> dom (a_heightOf a)"
    and dom: "\<And>l x. a_label a l = Some x \<Longrightarrow> l \<in> {str lu, str ls, str lf}"
  shows "good (a\<lparr>a_label := (a_label a)(str lu \<mapsto> u, str ls \<mapsto> f, str lf \<mapsto> g)\<rparr>)"
proof -
  have "l \<in> {str lu, str ls, str lf} \<and> x \<in> {u, f, g}"
    if "((a_label a)(str lu \<mapsto> u, str ls \<mapsto> f, str lf \<mapsto> g)) l = Some x" for l x
    using that dom [of l x] by (auto split: if_splits)
  then have "l \<in> {str lu, str ls, str lf} \<and> a_heightOf a x \<noteq> None"
    if "((a_label a)(str lu \<mapsto> u, str ls \<mapsto> f, str lf \<mapsto> g)) l = Some x" for l x
    using that assms(3) by blast
  then show ?thesis using assms(1,2) by (simp add: good_def del: fun_upd_apply insert_iff)
qed

lemma good_append:
  assumes "good a" and "follows (b_Header b) a" and len: "length (b_Txs b) \<le> 2 ^ 64"
  shows "good (a_append H b a)"
proof -
  have "\<exists>xs. rows (a_append H b a) n xs" for n
  proof (cases "n = h_Height (b_Header b)")
    case True
    obtain xs where "rows a n xs" using good_rows [OF assms(1)] by blast
    then show ?thesis using rows_append_same [OF _ len, of a xs H] True by auto
  next
    case False
    then show ?thesis using assms(1) by (simp add: good_def rows_append_other [OF len])
  qed
  then show ?thesis using assms chain_ok_append by (simp add: good_def)
qed

lemma good_labels:
  assumes "good a" and "{u, f, g} \<subseteq> dom (a_heightOf a)"
  shows "good (a\<lparr>a_label := (a_label a)(str lu \<mapsto> u, str ls \<mapsto> f, str lf \<mapsto> g)\<rparr>)"
  using good_chain [OF assms(1)] good_rows [OF assms(1)] assms(2) good_label [OF assms(1)]
  by (intro good_relabel) blast+

lemma good_cut:
  assumes ok: "good a" and n: "a_heightOf a u = Some n" "a_heightOf a f = Some i" "a_heightOf a g = Some j"
    and le: "i \<le> n" "j \<le> n"
  shows "good ((a_cut H n a)\<lparr>a_label := (a_label a)(str lu \<mapsto> u, str ls \<mapsto> f, str lf \<mapsto> g)\<rparr>)"
proof -
  have "{u, f, g} \<subseteq> dom (a_heightOf (a_cut H n a))"
    using n le by (auto simp: a_cut_heightOf [OF good_chain [OF ok]] leD)
  then have "good ((a_cut H n a)\<lparr>a_label := (a_label (a_cut H n a))
      (str lu \<mapsto> u, str ls \<mapsto> f, str lf \<mapsto> g)\<rparr>)"
    using good_rows [OF ok] good_label [OF ok]
    by (intro good_relabel chain_ok_cut [OF good_chain [OF ok] n(1)]) auto
  then show ?thesis by simp
qed

end

interpretation ldb: block_store "ldb_TxHash E" "ldb_Unsafe E" "ldb_Safe E" "ldb_Finalized E"
    "rep E view" "AppendBlock E" "UpdateLabels E" "Rollback E" "DB_Height E"
    "HeaderByHeight E" "HeaderByHash E" "HeaderByLabel E" "BlockByHeight E" "BlockByHash E"
  for E :: "'s localdb_env" and view
proof unfold_locales
  show "distinct [str (ldb_Unsafe E), str (ldb_Safe E), str (ldb_Finalized E)]"
    if "rep E view s a" for s a
    using rep_env [OF that] by (simp add: env_ok_def)
  show "\<exists>s'. UpdateLabels E u f g s = (Ok (), s') \<and> rep E view s' (a\<lparr>a_label := (a_label a)
      (str (ldb_Unsafe E) \<mapsto> u, str (ldb_Safe E) \<mapsto> f, str (ldb_Finalized E) \<mapsto> g)\<rparr>)"
    if "rep E view s a" for s a u f g
    using UpdateLabels_refines [OF that] by (simp add: a_setLabels_def)
  show "\<exists>s'. Rollback E u f g s = (Ok (), s') \<and> rep E view s' ((a_cut (ldb_TxHash E) n a)\<lparr>a_label :=
      (a_label a)(str (ldb_Unsafe E) \<mapsto> u, str (ldb_Safe E) \<mapsto> f, str (ldb_Finalized E) \<mapsto> g)\<rparr>)"
    if "rep E view s a" "a_heightOf a u = Some n" "n \<noteq> - 1" for s a u n f g
    using Rollback_refines [OF that] by (simp add: a_setLabels_def)
qed (blast intro: AppendBlock_refines DB_Height_finds HeaderByHeight_finds HeaderByHash_finds
      HeaderByLabel_finds BlockByHeight_finds BlockByHash_finds)+

end
