(* ===== verification/BlockStoreProps.thy ===== *)
theory BlockStoreProps
  imports ChainStore
begin

text \<open>
  The properties of the block store: refinement, round trips, the invariant of every state
  the node can reach, rollback, and the transactions a rollback leaves behind. The store
  in memory at the end instantiates the third-party parameters for the witnesses.
\<close>

section \<open>States the node reaches\<close>

text \<open>
  The writes the node makes, each under what its caller has checked: the builder appends the
  head's child under a new hash, and labels and rollbacks name stored blocks, none above
  the new head.
\<close>

inductive store_reach :: "'s localdb_env \<Rightarrow> 's \<Rightarrow> 's \<Rightarrow> bool" for E s0 where
  start: "store_reach E s0 s0"
| first: "store_reach E s0 s \<Longrightarrow> is_NotFound (DB_Height E s) \<Longrightarrow>
    h_Height (b_Header b) \<noteq> - 1 \<Longrightarrow> length (b_Txs b) \<le> 2 ^ 64 \<Longrightarrow>
    AppendBlock E b s = (r, s') \<Longrightarrow> store_reach E s0 s'"
| child: "store_reach E s0 s \<Longrightarrow> HeadHeader E s = Ok p \<Longrightarrow>
    h_Height (b_Header b) = h_Height p + 1 \<Longrightarrow> h_ParentHash (b_Header b) = h_Hash p \<Longrightarrow>
    is_NotFound (HeaderByHash E (h_Hash (b_Header b)) s) \<Longrightarrow>
    h_Height (b_Header b) \<noteq> - 1 \<Longrightarrow> length (b_Txs b) \<le> 2 ^ 64 \<Longrightarrow>
    AppendBlock E b s = (r, s') \<Longrightarrow> store_reach E s0 s'"
| labels: "store_reach E s0 s \<Longrightarrow> HeaderByHash E u s = Ok hu \<Longrightarrow> HeaderByHash E f s = Ok hf \<Longrightarrow>
    HeaderByHash E g s = Ok hg \<Longrightarrow> UpdateLabels E u f g s = (r, s') \<Longrightarrow> store_reach E s0 s'"
| rollback: "store_reach E s0 s \<Longrightarrow> HeaderByHash E u s = Ok hu \<Longrightarrow> HeaderByHash E f s = Ok hf \<Longrightarrow>
    HeaderByHash E g s = Ok hg \<Longrightarrow> h_Height hf \<le> h_Height hu \<Longrightarrow> h_Height hg \<le> h_Height hu \<Longrightarrow>
    Rollback E u f g s = (r, s') \<Longrightarrow> store_reach E s0 s'"

abbreviation ldb_good :: "'s localdb_env \<Rightarrow> astore \<Rightarrow> bool" where
  "ldb_good E \<equiv> block_store.good (ldb_Unsafe E) (ldb_Safe E) (ldb_Finalized E)"

lemma finds_Ok: "finds r x \<Longrightarrow> r = Ok y \<Longrightarrow> x = Some y"
  by (cases x) simp_all

lemma finds_NotFound: "finds r x \<Longrightarrow> is_NotFound r \<Longrightarrow> x = None"
  by (cases x) auto

lemma headerByHash_Some:
  assumes "chain_ok a" and "a_headerByHash a x = Some hdr"
  shows "a_heightOf a x = Some (h_Height hdr)" and "a_header a (h_Height hdr) = Some hdr"
    and "h_Hash hdr = x"
proof -
  obtain h where h: "a_heightOf a x = Some h" "a_header a h = Some hdr"
    using assms(2) by (auto simp: a_headerByHash_def bind_eq_Some_conv)
  then show "h_Hash hdr = x" using chain_inverse [OF assms(1) h(1)] by auto
  have "h_Height hdr = h" by (rule chain_height [OF assms(1) h(2)])
  with h show "a_heightOf a x = Some (h_Height hdr)" and "a_header a (h_Height hdr) = Some hdr" by simp_all
qed

lemma headerByHash_None:
  assumes "chain_ok a" and "a_headerByHash a x = None"
  shows "a_heightOf a x = None"
  using assms chain_inverse [OF assms(1), of x]
  by (cases "a_heightOf a x") (auto simp: a_headerByHash_def)

lemma reach_known:
  assumes "rep E view s a" and "chain_ok a" and "HeaderByHash E x s = Ok hdr"
  shows "a_heightOf a x = Some (h_Height hdr)"
  using headerByHash_Some(1) [OF assms(2)] finds_Ok [OF HeaderByHash_finds [OF assms(1)] assms(3)]
  by blast

lemma store_reach_good:
  assumes "store_reach E s0 s" and s0: "rep E view s0 a0" "ldb_good E a0"
  shows "\<exists>a. rep E view s a \<and> ldb_good E a"
  using assms(1)
proof induction
  case start
  show ?case using s0 by blast
next
  case (first s b r s')
  then obtain a where a: "rep E view s a" "ldb_good E a" by blast
  have "a_top a = None" by (rule finds_NotFound [OF DB_Height_finds [OF a(1)] first.hyps(2)])
  then have "follows (b_Header b) a"
    using first.hyps(3) chain_ok_empty [OF ldb.good_chain [OF a(2)]]
      chain_inverse [OF ldb.good_chain [OF a(2)]]
    by (cases "a_heightOf a (h_Hash (b_Header b))") (auto simp: follows_def)
  from ldb.good_append [OF a(2) this first.hyps(4)] AppendBlock_refines [OF a(1), of b] first.hyps(5)
  show ?case by auto
next
  case (child s p b r s')
  then obtain a where a: "rep E view s a" "ldb_good E a" by blast
  note ch = ldb.good_chain [OF a(2)]
  obtain t where t: "a_top a = Some t" "a_header a t = Some p"
    using finds_Ok [OF HeadHeader_finds [OF a(1)] child.hyps(2)] by (auto simp: bind_eq_Some_conv)
  have "a_heightOf a (h_Hash (b_Header b)) = None"
    by (rule headerByHash_None [OF ch finds_NotFound [OF HeaderByHash_finds [OF a(1)] child.hyps(5)]])
  moreover have "t \<noteq> - 1" using chain_below [OF ch t(2)] t(1) by auto
  ultimately have "follows (b_Header b) a"
    using t chain_height [OF ch t(2)] child.hyps(3,4,6) by (simp add: follows_def)
  from ldb.good_append [OF a(2) this child.hyps(7)] AppendBlock_refines [OF a(1), of b] child.hyps(8)
  show ?case by auto
next
  case (labels s u hu f hf g hg r s')
  then obtain a where a: "rep E view s a" "ldb_good E a" by blast
  note known = reach_known [OF a(1) ldb.good_chain [OF a(2)]]
  have "{u, f, g} \<subseteq> dom (a_heightOf a)" using known labels.hyps by (simp add: domIff)
  from ldb.good_labels [OF a(2) this] ldb.labels_sim [OF a(1), of u f g] labels.hyps(5)
  show ?case by auto
next
  case (rollback s u hu f hf g hg r s')
  then obtain a where a: "rep E view s a" "ldb_good E a" by blast
  note ch = ldb.good_chain [OF a(2)]
  note known = reach_known [OF a(1) ch]
  have n: "a_heightOf a u = Some (h_Height hu)" by (rule known [OF rollback.hyps(2)])
  have "h_Height hu \<noteq> - 1"
    using chain_inverse [OF ch n] chain_below [OF ch] by (metis word_order.extremum_uniqueI)
  from ldb.good_cut [OF a(2) n known [OF rollback.hyps(3)] known [OF rollback.hyps(4)] rollback.hyps(5,6)]
    ldb.rollback_sim [OF a(1) n this, of f g] rollback.hyps(7)
  show ?case by auto
qed

section \<open>A store in memory\<close>

text \<open>
  A header codec and the label names for the association-list store: the third-party
  parameters at which the properties are instantiated below.
\<close>

definition mem_marshal :: "header \<Rightarrow> bytes res" where
  "mem_marshal h = Ok (put_uint64 (h_ChainID h) @ put_uint64 (h_Height h) @ put_uint64 (h_Time h) @
     put_uint64 (h_GasLimit h) @ hash_Bytes (h_ParentHash h) @ hash_Bytes (h_StateRoot h) @
     hash_Bytes (h_Hash h) @ address_Bytes (h_Coinbase h) @
     (case h_ParentBeaconRoot h of None \<Rightarrow> [] | Some x \<Rightarrow> hash_Bytes x))"

definition dec160 :: "bytes \<Rightarrow> address" where
  "dec160 bs = word_of_nat (be_dec bs)"

definition mem_unmarshal :: "bytes \<Rightarrow> header \<Rightarrow> header res" where
  "mem_unmarshal b h0 = Ok \<lparr>
     h_ChainID = dec64 (take 8 b), h_Height = dec64 (take 8 (drop 8 b)),
     h_Time = dec64 (take 8 (drop 16 b)),
     h_ParentHash = dec256 (take 32 (drop 32 b)), h_StateRoot = dec256 (take 32 (drop 64 b)),
     h_ParentBeaconRoot = (if drop 148 b = [] then None else Some (dec256 (drop 148 b))),
     h_GasLimit = dec64 (take 8 (drop 24 b)), h_Hash = dec256 (take 32 (drop 96 b)),
     h_Coinbase = dec160 (take 20 (drop 128 b))\<rparr>"

definition mem_env :: "kv localdb_env" where
  "mem_env = \<lparr>ldb_pebble = mem_pebble, ldb_cbor_Marshal = mem_marshal,
     ldb_cbor_Unmarshal = mem_unmarshal, ldb_TxHash = (\<lambda>tx. tx),
     ldb_Unsafe = ''latest'', ldb_Safe = ''safe'', ldb_Finalized = ''finalized''\<rparr>"

definition empty_store :: astore where
  "empty_store = \<lparr>a_header = Map.empty, a_heightOf = Map.empty, a_label = Map.empty,
     a_tx = Map.empty, a_txPos = Map.empty, a_top = None\<rparr>"

lemma dec160_Bytes [simp]: "dec160 (address_Bytes x) = x"
  using address_of_slice_Bytes [of x] by (simp add: address_of_slice_def dec160_def)

lemma hash_Bytes_not_Nil [simp]: "hash_Bytes x \<noteq> []"
  using length_hash_Bytes [of x] by (metis length_0_conv zero_neq_numeral)

lemma mem_codec: "mem_marshal h = Ok b \<Longrightarrow> mem_unmarshal b h0 = Ok h"
  by (cases h, cases "h_ParentBeaconRoot h") (auto simp: mem_marshal_def mem_unmarshal_def)

lemma mem_env_ok: "env_ok mem_env map_of"
proof -
  have "\<exists>b. mem_marshal h = Ok b \<and> (\<forall>h0. mem_unmarshal b h0 = Ok h)" for h
    using mem_codec [of h] by (simp add: mem_marshal_def)
  then show ?thesis by (simp add: env_ok_def mem_env_def pebble_ok_mem str_def)
qed

lemma enc_empty_store: "enc E empty_store = Map.empty"
  by (simp add: enc_def empty_store_def fun_eq_iff split: list.splits)

lemma mem_rep_empty: "rep mem_env map_of [] empty_store"
  by (simp add: rep_def mem_env_ok enc_empty_store)

lemma rows_empty_store: "rows empty_store n []"
  by (simp add: rows_def empty_store_def)

lemma good_empty_store: "ldb_good E empty_store"
proof -
  have "chain_ok empty_store" by (simp add: chain_ok_def empty_store_def)
  moreover have "a_label empty_store l = None" for l by (simp add: empty_store_def)
  moreover have "\<forall>n. \<exists>xs. rows empty_store n xs" using rows_empty_store by blast
  ultimately show ?thesis by (simp add: ldb.good_def)
qed

lemma reach_good:
  "rep E view s0 empty_store \<Longrightarrow> store_reach E s0 s \<Longrightarrow> \<exists>a. rep E view s a \<and> ldb_good E a"
  by (rule store_reach_good [OF _ _ good_empty_store])

definition hdr1 :: header where
  "hdr1 = zero_header\<lparr>h_Height := 1, h_Hash := 101, h_Time := 7\<rparr>"

definition hdr2 :: header where
  "hdr2 = zero_header\<lparr>h_Height := 2, h_Hash := 102, h_ParentHash := 101, h_Time := 9\<rparr>"

definition blk1 :: block where
  "blk1 = \<lparr>b_Header = hdr1, b_Txs = [[1, 2], [3]]\<rparr>"

definition blk2 :: block where
  "blk2 = \<lparr>b_Header = hdr2, b_Txs = [[4], [5]]\<rparr>"

lemma u64_small: "(1 :: u64) \<noteq> - 1" "(2 :: u64) \<noteq> - 1"
  by simp_all

section \<open>Properties\<close>

text \<open>
  C3: the byte-level store implements the abstract one. From a state that encodes the tables
  \<open>a\<close>, \<^verbatim>\<open>AppendBlock\<close> and \<^verbatim>\<open>UpdateLabels\<close> succeed and reach a state that encodes the
  updated tables; \<^verbatim>\<open>Rollback\<close> to a stored block does too, and to an unknown hash it
  reports not-found and changes nothing.
\<close>

theorem localdb_refines_tables:
  assumes "rep E view s a"
  shows "(\<exists>s'. AppendBlock E b s = (Ok (), s') \<and> rep E view s' (a_append (ldb_TxHash E) b a)) \<and>
    (\<exists>s'. UpdateLabels E u f g s = (Ok (), s') \<and> rep E view s' (a_setLabels E u f g a)) \<and>
    (case a_heightOf a u of
       None \<Rightarrow> is_NotFound (fst (Rollback E u f g s)) \<and> snd (Rollback E u f g s) = s
     | Some n \<Rightarrow> n \<noteq> - 1 \<longrightarrow> (\<exists>s'. Rollback E u f g s = (Ok (), s') \<and>
         rep E view s' (a_setLabels E u f g (a_cut (ldb_TxHash E) n a))))"
  using AppendBlock_refines [OF assms] UpdateLabels_refines [OF assms] Rollback_refines [OF assms]
    Rollback_unknown [OF assms] by (auto split: option.splits)

theorem localdb_refines_tables_witness:
  "\<exists>s'. AppendBlock mem_env blk1 [] = (Ok (), s') \<and>
     rep mem_env map_of s' (a_append (\<lambda>tx. tx) blk1 empty_store)"
  using localdb_refines_tables [OF mem_rep_empty, of blk1 0 0 0] by (simp add: mem_env_def)

text \<open>
  C6: a block reads back. After \<^verbatim>\<open>AppendBlock\<close> of a block at a height that holds no
  transaction rows, \<^verbatim>\<open>BlockByHeight\<close> and \<^verbatim>\<open>BlockByHash\<close> return exactly that block,
  its transactions in order, and \<^verbatim>\<open>Height\<close> is its height.
\<close>

theorem append_block_round_trip:
  assumes "rep E view s a" and "rows a (h_Height (b_Header b)) []"
    and "h_Height (b_Header b) \<noteq> - 1" and "length (b_Txs b) \<le> 2 ^ 64"
  shows "\<exists>s'. AppendBlock E b s = (Ok (), s') \<and> BlockByHeight E (h_Height (b_Header b)) s' = Ok b \<and>
    BlockByHash E (h_Hash (b_Header b)) s' = Ok b \<and> DB_Height E s' = Ok (h_Height (b_Header b))"
  by (rule ldb.append_lookup [OF assms])

theorem append_block_round_trip_witness:
  "\<exists>s'. AppendBlock mem_env blk1 [] = (Ok (), s') \<and> BlockByHeight mem_env 1 s' = Ok blk1 \<and>
     BlockByHash mem_env 101 s' = Ok blk1 \<and> DB_Height mem_env s' = Ok 1"
  using append_block_round_trip [OF mem_rep_empty rows_empty_store, of blk1]
  by (simp add: blk1_def hdr1_def)

text \<open>
  C4: in every state the node reaches from an empty store, headers are stored at their own
  height and found under their own hash and the other way round, consecutive headers are
  linked by parent hash, no height between a stored header and the head is missing, and no
  label dangles: a stored label row holds the hash of a stored header, which a lookup by
  that label returns; a lookup reports not-found only where there is no row.
\<close>

theorem reachable_store_is_a_chain:
  assumes "rep E view s0 empty_store" and "store_reach E s0 s"
  shows "(HeaderByHeight E h s = Ok hdr \<longrightarrow>
        h_Height hdr = h \<and> HeaderByHash E (h_Hash hdr) s = Ok hdr) \<and>
    (HeaderByHash E x s = Ok hdr \<longrightarrow> h_Hash hdr = x \<and> HeaderByHeight E (h_Height hdr) s = Ok hdr) \<and>
    (HeaderByHeight E h s = Ok hdr \<and> HeaderByHeight E (h + 1) s = Ok c \<and> h \<noteq> - 1 \<longrightarrow>
        h_ParentHash c = h_Hash hdr) \<and>
    (HeaderByHeight E h s = Ok hdr \<and> DB_Height E s = Ok t \<and> h \<le> m \<and> m \<le> t \<longrightarrow>
        (\<exists>k. HeaderByHeight E m s = Ok k)) \<and>
    (HeaderByHeight E h s = Ok hdr \<longrightarrow> (\<exists>t p. DB_Height E s = Ok t \<and> h \<le> t \<and> HeadHeader E s = Ok p)) \<and>
    (view s (Key bucketHashByLabel [str l]) = Some v \<longrightarrow>
        (\<exists>p. v = hash_Bytes (h_Hash p) \<and> HeaderByLabel E l s = Ok p \<and> HeaderByHash E (h_Hash p) s = Ok p)) \<and>
    (view s (Key bucketHashByLabel [str l]) = None \<longrightarrow> is_NotFound (HeaderByLabel E l s))"
    (is "?height \<and> ?hash \<and> ?parent \<and> ?gap \<and> ?head \<and> ?label \<and> ?unset")
proof -
  obtain a where a: "rep E view s a" "ldb_good E a" using reach_good [OF assms] by blast
  note ch = ldb.good_chain [OF a(2)]
  have at: "HeaderByHeight E m s = Ok k \<longleftrightarrow> a_header a m = Some k" for m k
    using HeaderByHeight_finds [OF a(1), of m] by (cases "a_header a m") auto
  have wh: "HeaderByHash E y s = Ok k \<longleftrightarrow> a_headerByHash a y = Some k" for y k
    using HeaderByHash_finds [OF a(1), of y] by (cases "a_headerByHash a y") auto
  have top: "DB_Height E s = Ok k \<longleftrightarrow> a_top a = Some k" for k
    using DB_Height_finds [OF a(1)] by (cases "a_top a") auto
  have bk: "a_headerByHash a (h_Hash k) = Some k" if "a_header a m = Some k" for m k
    using that chain_hash [OF ch that] by (simp add: a_headerByHash_def)
  have ?height using at wh chain_height [OF ch] bk by simp
  moreover have ?hash using at wh headerByHash_Some [OF ch] by simp
  moreover have ?parent unfolding at using chain_parent [OF ch] by blast
  moreover have ?gap unfolding at top using chain_gapless [OF ch, of h m t] by auto
  moreover have ?head
    unfolding at top using chain_below [OF ch, of h hdr] chain_top [OF ch] HeadHeader_finds [OF a(1)]
    by fastforce
  moreover have row: "view s (Key bucketHashByLabel [str l]) = map_option hash_Bytes (a_label a (str l))"
    using a(1) by (simp add: rep_def enc_def Key_def bucket_defs)
  have ?label
  proof
    assume "view s (Key bucketHashByLabel [str l]) = Some v"
    then obtain x where x: "a_label a (str l) = Some x" "v = hash_Bytes x" using row by auto
    then obtain p where p: "a_headerByHash a x = Some p"
      using ldb.good_label [OF a(2)] headerByHash_None [OF ch] by fastforce
    then show "\<exists>p. v = hash_Bytes (h_Hash p) \<and> HeaderByLabel E l s = Ok p \<and> HeaderByHash E (h_Hash p) s = Ok p"
      using x HeaderByLabel_finds [OF a(1), of l] headerByHash_Some(3) [OF ch p] by (simp add: wh)
  qed
  moreover have ?unset using row HeaderByLabel_finds [OF a(1), of l] by (cases "a_label a (str l)") simp_all
  ultimately show ?thesis by blast
qed

lemma mem_reach_blk1: "\<exists>s. store_reach mem_env [] s \<and> BlockByHeight mem_env 1 s = Ok blk1 \<and>
    HeaderByHeight mem_env 1 s = Ok hdr1 \<and> HeaderByHash mem_env 101 s = Ok hdr1 \<and>
    rep mem_env map_of s (a_append (\<lambda>tx. tx) blk1 empty_store)"
proof -
  have h: "b_Header blk1 = hdr1" "h_Height hdr1 = 1" "h_Hash hdr1 = 101" "length (b_Txs blk1) = 2"
    by (simp_all add: blk1_def hdr1_def)
  obtain s where s: "AppendBlock mem_env blk1 [] = (Ok (), s)" "BlockByHeight mem_env 1 s = Ok blk1"
    using ldb.append_lookup [OF mem_rep_empty rows_empty_store, of blk1] h by auto
  have r: "rep mem_env map_of s (a_append (\<lambda>tx. tx) blk1 empty_store)"
    using AppendBlock_refines [OF mem_rep_empty, of blk1] s(1) by (auto simp: mem_env_def)
  have "store_reach mem_env [] s"
    using store_reach.first [OF store_reach.start, of mem_env "[]" blk1 "Ok ()" s] s(1) h
      DB_Height_finds [OF mem_rep_empty] by (simp add: empty_store_def)
  then show ?thesis
    using s(2) r HeaderByHeight_finds [OF r, of 1] HeaderByHash_finds [OF r, of 101] h
    by (auto simp: a_headerByHash_def)
qed

lemma mem_reach_labelled: "\<exists>s. store_reach mem_env [] s \<and> HeaderByHeight mem_env 1 s = Ok hdr1 \<and>
    map_of s (Key bucketHashByLabel [str ''latest'']) = Some (hash_Bytes 101)"
proof -
  obtain s where s: "store_reach mem_env [] s" "HeaderByHash mem_env 101 s = Ok hdr1"
      "rep mem_env map_of s (a_append (\<lambda>tx. tx) blk1 empty_store)" (is "rep _ _ _ ?a")
    using mem_reach_blk1 by blast
  obtain s' where s': "UpdateLabels mem_env 101 101 101 s = (Ok (), s')"
      "rep mem_env map_of s' (?a\<lparr>a_label := (a_label ?a)
        (str ''latest'' \<mapsto> 101, str ''safe'' \<mapsto> 101, str ''finalized'' \<mapsto> 101)\<rparr>)"
    using ldb.labels_sim [OF s(3), of 101 101 101] by (auto simp: mem_env_def)
  have "store_reach mem_env [] s'" by (rule store_reach.labels [OF s(1) s(2) s(2) s(2) s'(1)])
  moreover have "HeaderByHeight mem_env 1 s' = Ok hdr1"
    using HeaderByHeight_finds [OF s'(2), of 1] by (simp add: blk1_def hdr1_def)
  moreover have "map_of s' (Key bucketHashByLabel [str ''latest'']) = Some (hash_Bytes 101)"
    using s'(2) by (simp add: rep_def enc_def Key_def bucket_defs str_def)
  ultimately show ?thesis by blast
qed

theorem reachable_store_is_a_chain_witness:
  "\<exists>s. store_reach mem_env [] s \<and> HeaderByHeight mem_env 1 s = Ok hdr1 \<and>
     HeaderByHash mem_env (h_Hash hdr1) s = Ok hdr1 \<and>
     (\<exists>p. hash_Bytes 101 = hash_Bytes (h_Hash p) \<and> HeaderByLabel mem_env ''latest'' s = Ok p)"
proof -
  obtain s where s: "store_reach mem_env [] s" "HeaderByHeight mem_env 1 s = Ok hdr1"
      "map_of s (Key bucketHashByLabel [str ''latest'']) = Some (hash_Bytes 101)"
    using mem_reach_labelled by blast
  then show ?thesis
    using reachable_store_is_a_chain [OF mem_rep_empty s(1), of 1 hdr1 _ _ _ _ "''latest''"] by blast
qed

text \<open>
  The type of a row: the bucket byte gives the length of the key, and what the value decodes
  to. A header is under its own height, a label is one of the three.
\<close>

definition typed_row :: "'s localdb_env \<Rightarrow> bytes \<Rightarrow> bytes \<Rightarrow> bool" where
  "typed_row E k v = (case k of [] \<Rightarrow> False | b # r \<Rightarrow>
     if b = bucketHeaderByHeight then
       (case ldb_cbor_Unmarshal E v zero_header of Ok h \<Rightarrow> r = marshalUint64 (h_Height h) | _ \<Rightarrow> False)
     else if b = bucketHeightByHash then length r = 32 \<and> length v = 8
     else if b = bucketHashByLabel then r \<in> {str (ldb_Unsafe E), str (ldb_Safe E), str (ldb_Finalized E)} \<and> length v = 32
     else if b = bucketTxByHeightAndIndex then length r = 16
     else if b = bucketTxHeightAndIndexByHash then length v = 16
     else b = bucketHeight \<and> r = [] \<and> length v = 8)"

lemma enc_typed:
  assumes "env_ok E view" and "ldb_good E a" and "enc E a k = Some v"
  shows "typed_row E k v"
proof (cases k)
  case (Cons b r)
  have "typed_row E k v" if "b = 1"
  proof -
    from that Cons assms(3) obtain h where r: "length r = 8" "a_header a (dec64 r) = Some h" "v = cborM E h"
      by (auto simp: enc_def split: if_splits)
    have "r = put_uint64 (h_Height h)" using r chain_height [OF ldb.good_chain [OF assms(2)]] by (metis put_dec64)
    then show ?thesis using that Cons r env_Unmarshal [OF assms(1)] by (simp add: typed_row_def bucket_defs marshalUint64_def)
  qed
  moreover have "typed_row E k v" if "b = 3"
    using that Cons assms(3) ldb.good_label [OF assms(2)] by (auto simp: enc_def typed_row_def bucket_defs split: if_splits)
  moreover have "typed_row E k v" if "b \<noteq> 1" "b \<noteq> 3"
    using that Cons assms(3) by (auto simp: enc_def typed_row_def bucket_defs put_pos_def split: if_splits)
  ultimately show ?thesis by blast
qed (use assms in \<open>simp add: enc_def\<close>)

lemma finds_or_not: "finds r x \<Longrightarrow> is_NotFound r \<or> (\<exists>y. r = Ok y)"
  by (cases x) auto

text \<open>
  C5: every row the store holds is well typed, so that reading never goes wrong. In every state
  the node reaches from an empty store, each key is a bucket byte followed by a key of that
  bucket's length, and its value is what the bucket holds: a header that decodes and has the
  height of its key, a height, a hash, a position. Every read of a header, a block or the
  height therefore returns a value or not-found, never a decoding error and never a panic.
\<close>

theorem reachable_store_is_well_typed:
  assumes "rep E view s0 empty_store" and "store_reach E s0 s"
  shows "(\<forall>k v. view s k = Some v \<longrightarrow> typed_row E k v) \<and>
    (\<forall>r \<in> {HeaderByHeight E h s, HeaderByHash E x s, HeaderByLabel E l s, HeadHeader E s}. is_NotFound r \<or> (\<exists>y. r = Ok y)) \<and>
    (\<forall>r \<in> {BlockByHeight E h s, BlockByHash E x s, BlockByLabel E l s, HeadBlock E s}. is_NotFound r \<or> (\<exists>y. r = Ok y)) \<and>
    (is_NotFound (DB_Height E s) \<or> (\<exists>y. DB_Height E s = Ok y))"
proof -
  obtain a where a: "rep E view s a" "ldb_good E a" using reach_good [OF assms] by blast
  have "typed_row E k v" if "view s k = Some v" for k v
    using enc_typed [OF rep_env [OF a(1)] a(2)] a(1) that by (simp add: rep_def)
  moreover note finds = HeaderByHeight_finds [OF a(1)] HeaderByHash_finds [OF a(1)] HeaderByLabel_finds [OF a(1)]
    HeadHeader_finds [OF a(1)] BlockByHeight_finds [OF a(1)] BlockByHash_finds [OF a(1)] BlockByLabel_finds [OF a(1)]
    HeadBlock_finds [OF a(1)] DB_Height_finds [OF a(1)]
  ultimately show ?thesis using finds [THEN finds_or_not] by simp
qed

theorem reachable_store_is_well_typed_witness:
  "\<exists>s. store_reach mem_env [] s \<and> HeaderByHeight mem_env 1 s = Ok hdr1 \<and>
     (\<forall>k v. map_of s k = Some v \<longrightarrow> typed_row mem_env k v)"
proof -
  obtain s where s: "store_reach mem_env [] s" "HeaderByHeight mem_env 1 s = Ok hdr1"
    using mem_reach_blk1 by blast
  then show ?thesis using reachable_store_is_well_typed [OF mem_rep_empty s(1)] by blast
qed

text \<open>
  Rolling back to a stored block succeeds in every reachable state. Afterwards the height
  is that block's, every block up to it reads as before, no block above it is found by
  height, and no header above it is found by hash.
\<close>

theorem rollback_forgets_above:
  assumes "rep E view s0 empty_store" and "store_reach E s0 s" and "HeaderByHash E u s = Ok hu"
  shows "\<exists>s'. Rollback E u f g s = (Ok (), s') \<and> DB_Height E s' = Ok (h_Height hu) \<and>
    (\<forall>m b. m \<le> h_Height hu \<and> BlockByHeight E m s = Ok b \<longrightarrow> BlockByHeight E m s' = Ok b) \<and>
    (\<forall>m. h_Height hu < m \<longrightarrow> is_NotFound (BlockByHeight E m s')) \<and>
    (\<forall>x hx. HeaderByHash E x s = Ok hx \<and> h_Height hu < h_Height hx \<longrightarrow>
       is_NotFound (HeaderByHash E x s'))"
proof -
  obtain a where a: "rep E view s a" "ldb_good E a" using reach_good [OF assms(1,2)] by blast
  note ch = ldb.good_chain [OF a(2)]
  note known = reach_known [OF a(1) ch]
  obtain s' where s': "Rollback E u f g s = (Ok (), s')" "DB_Height E s' = Ok (h_Height hu)"
    and low: "\<And>m. m \<le> h_Height hu \<Longrightarrow> finds (BlockByHeight E m s')
      (map_option (\<lambda>hdr. \<lparr>b_Header = hdr, b_Txs = a_txsAt a m\<rparr>) (a_header a m))"
    and high: "\<And>m. h_Height hu < m \<Longrightarrow> is_NotFound (BlockByHeight E m s')"
    and hashes: "\<And>x h. a_heightOf a x = Some h \<Longrightarrow> h_Height hu < h \<Longrightarrow> is_NotFound (HeaderByHash E x s')"
    using ldb.rollback_lookup [OF a(1) ch known [OF assms(3)], of f g] by blast
  have "BlockByHeight E m s' = Ok b" if "m \<le> h_Height hu" "BlockByHeight E m s = Ok b" for m b
    using low [OF that(1)] finds_Ok [OF BlockByHeight_finds [OF a(1)] that(2)] by simp
  then show ?thesis using s' high hashes known by blast
qed

theorem rollback_forgets_above_witness:
  "\<exists>s s'. store_reach mem_env [] s \<and> Rollback mem_env 101 101 101 s = (Ok (), s') \<and>
     DB_Height mem_env s' = Ok 1 \<and> BlockByHeight mem_env 1 s' = Ok blk1"
proof -
  obtain s where s: "store_reach mem_env [] s" "BlockByHeight mem_env 1 s = Ok blk1"
    "HeaderByHash mem_env 101 s = Ok hdr1"
    using mem_reach_blk1 by blast
  have h: "h_Height hdr1 = 1" by (simp add: hdr1_def)
  show ?thesis
    using rollback_forgets_above [OF mem_rep_empty s(1,3), of 101 101] s(1,2) unfolding h by auto
qed

text \<open>
  C7: a rollback does not delete the transactions of the blocks it drops, because the range it
  deletes is empty. Whatever block is then appended at the height of a dropped block reads
  back with that block's transactions after its own: all those of the old block from
  the new block's length on.
\<close>

theorem rollback_leaves_transactions:
  assumes "rep E view s0 empty_store" and "store_reach E s0 s" and "HeaderByHash E u s = Ok hu"
    and "BlockByHeight E (h_Height hu + 1) s = Ok old"
    and "h_Height (b_Header new) = h_Height hu + 1" and "length (b_Txs new) \<le> 2 ^ 64"
  shows "\<exists>s1 s2. Rollback E u f g s = (Ok (), s1) \<and> AppendBlock E new s1 = (Ok (), s2) \<and>
    BlockByHeight E (h_Height hu + 1) s2 =
      Ok \<lparr>b_Header = b_Header new, b_Txs = b_Txs new @ drop (length (b_Txs new)) (b_Txs old)\<rparr>"
proof -
  obtain a where a: "rep E view s a" "ldb_good E a" using reach_good [OF assms(1,2)] by blast
  note ch = ldb.good_chain [OF a(2)]
  let ?n = "h_Height hu"
  have n: "a_heightOf a u = Some ?n" by (rule reach_known [OF a(1) ch assms(3)])
  obtain hdr where hdr: "a_header a (?n + 1) = Some hdr" "b_Txs old = a_txsAt a (?n + 1)"
    using finds_Ok [OF BlockByHeight_finds [OF a(1)] assms(4)] by auto
  have n1: "?n \<noteq> - 1" and n2: "?n + 1 \<noteq> - 1"
    using chain_inverse [OF ch n] chain_below [OF ch] hdr(1) by (metis word_order.extremum_uniqueI)+
  obtain s1 where s1: "Rollback E u f g s = (Ok (), s1)"
    "rep E view s1 (a_setLabels E u f g (a_cut (ldb_TxHash E) ?n a))"
    using Rollback_refines [OF a(1) n n1] by blast
  obtain s2 where s2: "AppendBlock E new s1 = (Ok (), s2)"
    "rep E view s2 (a_append (ldb_TxHash E) new (a_setLabels E u f g (a_cut (ldb_TxHash E) ?n a)))"
    (is "rep E view s2 ?a2") using AppendBlock_refines [OF s1(2)] by blast
  obtain xs where xs: "rows a (?n + 1) xs" using ldb.good_rows [OF a(2)] by blast
  then have "b_Txs old = xs" using hdr(2) n2 by (simp add: a_txsAt_def a_txs_rows)
  moreover have "a_txs ?a2 (?n + 1) = b_Txs new @ drop (length (b_Txs new)) xs"
    using rows_append_same [OF _ assms(6)] xs assms(5) by (intro a_txs_rows) simp
  ultimately show ?thesis
    using s1 s2 BlockByHeight_finds [OF s2(2), of "?n + 1"] n2 assms(5) by (simp add: a_txsAt_def)
qed

lemma mem_reach_blk2: "\<exists>s. store_reach mem_env [] s \<and> BlockByHeight mem_env 2 s = Ok blk2 \<and>
    HeaderByHash mem_env 101 s = Ok hdr1"
proof -
  have h: "b_Header blk1 = hdr1" "h_Height hdr1 = 1" "h_Hash hdr1 = 101" "length (b_Txs blk1) = 2"
    "b_Header blk2 = hdr2" "h_Height hdr2 = 2" "h_Hash hdr2 = 102" "length (b_Txs blk2) = 2"
    "h_ParentHash hdr2 = 101"
    by (simp_all add: blk1_def hdr1_def blk2_def hdr2_def)
  let ?a = "a_append (\<lambda>tx. tx) blk1 empty_store"
  have H: "ldb_TxHash mem_env = (\<lambda>tx. tx)" by (simp add: mem_env_def)
  obtain s where s: "AppendBlock mem_env blk1 [] = (Ok (), s)" "rep mem_env map_of s ?a"
    using AppendBlock_refines [OF mem_rep_empty, of blk1] by (auto simp: H)
  have "store_reach mem_env [] s"
    using store_reach.first [OF store_reach.start, of mem_env "[]" blk1 "Ok ()" s] s(1) h
      DB_Height_finds [OF mem_rep_empty] by (simp add: empty_store_def)
  moreover have "rows ?a (h_Height (b_Header blk2)) []"
    using h rows_empty_store by (simp add: rows_append_other)
  from ldb.append_lookup [OF s(2) this] h obtain t where
    t: "AppendBlock mem_env blk2 s = (Ok (), t)" "BlockByHeight mem_env 2 t = Ok blk2" by auto
  moreover have "is_NotFound (HeaderByHash mem_env 102 s)" "HeadHeader mem_env s = Ok hdr1"
    using HeaderByHash_finds [OF s(2), of 102] HeadHeader_finds [OF s(2)] h
    by (simp_all add: a_headerByHash_def empty_store_def)
  ultimately have "store_reach mem_env [] t"
    using store_reach.child [of mem_env "[]" s hdr1 blk2 "Ok ()" t] h by simp
  moreover have "rep mem_env map_of t (a_append (\<lambda>tx. tx) blk2 ?a)"
    using AppendBlock_refines [OF s(2), of blk2] t(1) by (auto simp: H)
  from HeaderByHash_finds [OF this, of 101] have "HeaderByHash mem_env 101 t = Ok hdr1"
    using h by (simp add: a_headerByHash_def)
  ultimately show ?thesis using t(2) by blast
qed

theorem rollback_leaves_transactions_witness:
  "\<exists>s s1 s2. BlockByHeight mem_env 2 s = Ok blk2 \<and> Rollback mem_env 101 101 101 s = (Ok (), s1) \<and>
     AppendBlock mem_env \<lparr>b_Header = hdr2\<lparr>h_Hash := 103\<rparr>, b_Txs = [[9]]\<rparr> s1 = (Ok (), s2) \<and>
     BlockByHeight mem_env 2 s2 = Ok \<lparr>b_Header = hdr2\<lparr>h_Hash := 103\<rparr>, b_Txs = [[9], [5]]\<rparr>"
proof -
  let ?new = "\<lparr>b_Header = hdr2\<lparr>h_Hash := 103\<rparr>, b_Txs = [[9]]\<rparr>"
  obtain s where s: "store_reach mem_env [] s" "BlockByHeight mem_env 2 s = Ok blk2"
    "HeaderByHash mem_env 101 s = Ok hdr1"
    using mem_reach_blk2 by blast
  have h: "h_Height hdr1 + 1 = 2" "h_Height hdr2 = 2" "b_Txs blk2 = [[4], [5]]"
    by (simp_all add: hdr1_def hdr2_def blk2_def)
  show ?thesis
    using rollback_leaves_transactions [OF mem_rep_empty s(1,3), of blk2 ?new 101 101] s(2) h by auto
qed

end
