(* ===== verification/Mempool.thy ===== *)
theory Mempool
  imports Stores
begin

text \<open>
  The transaction pool (\<^verbatim>\<open>mempool/mempool.go\<close>): a linked list laid out in a cosmos-db
  store, with its head, its tail and its length under fixed keys and each element under
  the hash of its transaction. The store, the JSON codec of an element and the
  transaction hash are parameters.
\<close>

definition poolLengthKey :: bytes where "poolLengthKey = str ''poolLength''"
definition headKey :: bytes where "headKey = str ''headKey''"
definition tailKey :: bytes where "tailKey = str ''tailKey''"

record storageElem =
  se_Txn :: bytes
  se_NextHash :: "bytes option"

record 's pool_env =
  pl_db :: "'s dbm"
  pl_Hash :: "bytes \<Rightarrow> bytes"
  pl_Marshal :: "storageElem \<Rightarrow> bytes res"
  pl_Unmarshal :: "bytes \<Rightarrow> storageElem res"

section \<open>Operations\<close>

definition poolBatchOp :: "'s pool_env \<Rightarrow> 's \<Rightarrow> batch \<Rightarrow> batch_op \<Rightarrow> batch res" where
  "poolBatchOp E s b x = (case dbm_BatchOp (pl_db E) s b x of
       None \<Rightarrow> Ok (b @ [x])
     | Some e \<Rightarrow> Err e)"

text \<open>A read error of the length counts as length zero.\<close>

definition Pool_Len :: "'s pool_env \<Rightarrow> 's \<Rightarrow> u64 res" where
  "Pool_Len E s = (case dbm_Get (pl_db E) s poolLengthKey of
       Ok None \<Rightarrow> Ok 0
     | Ok (Some lengthBytes) \<Rightarrow> get_uint64 lengthBytes
     | Err e \<Rightarrow> Ok 0
     | Panic p \<Rightarrow> Panic p)"

definition updateLen :: "'s pool_env \<Rightarrow> 's \<Rightarrow> batch \<Rightarrow> u64 \<Rightarrow> batch res" where
  "updateLen E s b l = poolBatchOp E s b (BSet poolLengthKey (put_uint64 l))"

definition pool_elem :: "'s pool_env \<Rightarrow> 's \<Rightarrow> bytes \<Rightarrow> storageElem res" where
  "pool_elem E s itemKey =
     check (dbm_Get (pl_db E) s itemKey) pass (\<lambda>value.
     case value of
       None \<Rightarrow> Err (ErrorNew ''value not found'')
     | Some v \<Rightarrow> check (pl_Unmarshal E v) pass Ok)"

definition putElem :: "'s pool_env \<Rightarrow> 's \<Rightarrow> batch \<Rightarrow> bytes \<Rightarrow> storageElem \<Rightarrow> batch res" where
  "putElem E s b itemKey item =
     check (pl_Marshal E item) pass (\<lambda>itemBytes. poolBatchOp E s b (BSet itemKey itemBytes))"

text \<open>
  The body of \<^verbatim>\<open>Enqueue\<close> up to the write: the batch to write, or \<open>None\<close> where the source
  returns nil without writing (when the new element cannot be put into the batch).
\<close>

definition enqueueOps :: "'s pool_env \<Rightarrow> bytes \<Rightarrow> 's \<Rightarrow> batch option res" where
  "enqueueOps E userTxn s =
     check (dbm_Get (pl_db E) s tailKey) pass (\<lambda>tail.
     case putElem E s [] (pl_Hash E userTxn) \<lparr>se_Txn = userTxn, se_NextHash = None\<rparr> of
       Err e \<Rightarrow> Ok None
     | Panic p \<Rightarrow> Panic p
     | Ok b \<Rightarrow>
         check (case tail of
             Some t \<Rightarrow>
               check (pool_elem E s t) (Errorf_v ''get tail'') (\<lambda>oldTail.
               putElem E s b t (oldTail\<lparr>se_NextHash := Some (pl_Hash E userTxn)\<rparr>))
           | None \<Rightarrow> poolBatchOp E s b (BSet headKey (pl_Hash E userTxn))) pass (\<lambda>b.
         check (poolBatchOp E s b (BSet tailKey (pl_Hash E userTxn))) pass (\<lambda>b.
         check (Pool_Len E s) pass (\<lambda>pLen.
         check (updateLen E s b (pLen + 1)) pass (\<lambda>b. Ok (Some b))))))"

definition Enqueue :: "'s pool_env \<Rightarrow> bytes \<Rightarrow> ('s, unit) op" where
  "Enqueue E userTxn s = (case enqueueOps E userTxn s of
       Ok None \<Rightarrow> (deferClose (dbm_Close (pl_db E) s) (Ok ()), s)
     | Ok (Some b) \<Rightarrow> (case dbm_WriteSync (pl_db E) s b of
         (r, s') \<Rightarrow> (deferClose (dbm_Close (pl_db E) s') r, s'))
     | Err e \<Rightarrow> (deferClose (dbm_Close (pl_db E) s) (Err e), s)
     | Panic p \<Rightarrow> (Panic p, s))"

definition dequeueOps :: "'s pool_env \<Rightarrow> bytes \<Rightarrow> storageElem \<Rightarrow> u64 \<Rightarrow> 's \<Rightarrow> batch res" where
  "dequeueOps E headHash headElem pLen s =
     check (poolBatchOp E s [] (BDelete headHash)) pass (\<lambda>b.
     check (case se_NextHash headElem of
         None \<Rightarrow>
           check (poolBatchOp E s b (BDelete headKey)) pass (\<lambda>b.
           poolBatchOp E s b (BDelete tailKey))
       | Some next \<Rightarrow> poolBatchOp E s b (BSet headKey next)) pass (\<lambda>b.
     updateLen E s b (pLen - 1)))"

definition Dequeue :: "'s pool_env \<Rightarrow> ('s, bytes) op" where
  "Dequeue E s =
     scheck (slift (Pool_Len E)) pass (\<lambda>pLen.
     scheck (slift (\<lambda>s. dbm_Get (pl_db E) s headKey)) pass (\<lambda>headHash.
     case headHash of
       None \<Rightarrow> sfail (ErrorNew ''head hash not found'')
     | Some hh \<Rightarrow>
         scheck (slift (\<lambda>s. pool_elem E s hh)) (Errorf_v ''get head element'') (\<lambda>headElem s.
         case dequeueOps E hh headElem pLen s of
           Ok b \<Rightarrow> (case dbm_WriteSync (pl_db E) s b of
               (Ok u, s') \<Rightarrow> (deferClose (dbm_Close (pl_db E) s') (Ok (se_Txn headElem)), s')
             | (Err e, s') \<Rightarrow> (deferClose (dbm_Close (pl_db E) s') (Err e), s')
             | (Panic p, s') \<Rightarrow> (Panic p, s'))
         | Err e \<Rightarrow> (deferClose (dbm_Close (pl_db E) s) (Err e), s)
         | Panic p \<Rightarrow> (Panic p, s)))) s"

section \<open>The queue a store holds\<close>

definition pool_env_ok :: "'s pool_env \<Rightarrow> ('s \<Rightarrow> bytes \<rightharpoonup> bytes) \<Rightarrow> bool" where
  "pool_env_ok E view \<longleftrightarrow> dbm_ok (pl_db E) view \<and> (\<forall>tx. length (pl_Hash E tx) = 32) \<and>
     (\<forall>e. \<exists>b. pl_Marshal E e = Ok b \<and> pl_Unmarshal E b = Ok e)"

definition elemBytes :: "'s pool_env \<Rightarrow> storageElem \<Rightarrow> bytes" where
  "elemBytes E e = (case pl_Marshal E e of Ok b \<Rightarrow> b | _ \<Rightarrow> [])"

text \<open>The elements of a linked list, each with the hash of the next.\<close>

fun linked :: "'s pool_env \<Rightarrow> (bytes \<rightharpoonup> bytes) \<Rightarrow> bytes list \<Rightarrow> bool" where
  "linked E m [] \<longleftrightarrow> True"
| "linked E m [tx] \<longleftrightarrow>
     m (pl_Hash E tx) = Some (elemBytes E \<lparr>se_Txn = tx, se_NextHash = None\<rparr>)"
| "linked E m (tx # tx' # q) \<longleftrightarrow>
     m (pl_Hash E tx) = Some (elemBytes E \<lparr>se_Txn = tx, se_NextHash = Some (pl_Hash E tx')\<rparr>) \<and>
     linked E m (tx' # q)"

definition pool_rep :: "'s pool_env \<Rightarrow> ('s \<Rightarrow> bytes \<rightharpoonup> bytes) \<Rightarrow> 's \<Rightarrow> bytes list \<Rightarrow> bool" where
  "pool_rep E view s q \<longleftrightarrow> pool_env_ok E view \<and> distinct (map (pl_Hash E) q) \<and>
     linked E (view s) q \<and>
     view s headKey = (if q = [] then None else Some (pl_Hash E (hd q))) \<and>
     view s tailKey = (if q = [] then None else Some (pl_Hash E (last q))) \<and>
     (view s poolLengthKey = Some (put_uint64 (of_nat (length q))) \<or>
      view s poolLengthKey = None \<and> q = [])"

lemma key_lengths: "length poolLengthKey = 10" "length headKey = 7" "length tailKey = 7"
  and keys_differ [simp]: "headKey \<noteq> tailKey" "tailKey \<noteq> headKey"
    "headKey \<noteq> poolLengthKey" "poolLengthKey \<noteq> headKey"
    "tailKey \<noteq> poolLengthKey" "poolLengthKey \<noteq> tailKey"
  by (simp_all add: poolLengthKey_def headKey_def tailKey_def str_def)

lemma pool_env_okD:
  assumes "pool_env_ok E view"
  shows pool_dbm: "dbm_ok (pl_db E) view"
    and pool_Marshal: "pl_Marshal E e = Ok (elemBytes E e)"
    and pool_Unmarshal: "pl_Unmarshal E (elemBytes E e) = Ok e"
    and pool_hash_keys: "pl_Hash E tx \<noteq> headKey" "pl_Hash E tx \<noteq> tailKey"
      "pl_Hash E tx \<noteq> poolLengthKey"
proof -
  show "dbm_ok (pl_db E) view" using assms by (simp add: pool_env_ok_def)
  obtain b where "pl_Marshal E e = Ok b" "pl_Unmarshal E b = Ok e"
    using assms unfolding pool_env_ok_def by blast
  then show "pl_Marshal E e = Ok (elemBytes E e)" and "pl_Unmarshal E (elemBytes E e) = Ok e"
    by (simp_all add: elemBytes_def)
  have "length (pl_Hash E tx) = 32" using assms by (simp add: pool_env_ok_def)
  then show "pl_Hash E tx \<noteq> headKey" "pl_Hash E tx \<noteq> tailKey" "pl_Hash E tx \<noteq> poolLengthKey"
    using key_lengths by (metis numeral_eq_iff semiring_norm(89) num.distinct(1) num.inject
      eval_nat_numeral)+
qed

lemma linked_cong:
  "(\<And>tx. tx \<in> set q \<Longrightarrow> m (pl_Hash E tx) = m' (pl_Hash E tx)) \<Longrightarrow> linked E m q = linked E m' q"
  by (induction E m q rule: linked.induct) simp_all

lemma linked_Cons: "linked E m (tx # q) \<longleftrightarrow> m (pl_Hash E tx) = Some (elemBytes E \<lparr>se_Txn = tx,
     se_NextHash = (case q of [] \<Rightarrow> None | tx' # _ \<Rightarrow> Some (pl_Hash E tx'))\<rparr>) \<and> linked E m q"
  by (cases q) simp_all

lemma linked_snoc:
  assumes "linked E m (q @ [tx])" and "distinct (map (pl_Hash E) (q @ [tx]))"
    and "pl_Hash E tx' \<notin> pl_Hash E ` set (q @ [tx])"
  shows "linked E (m(pl_Hash E tx' \<mapsto> elemBytes E \<lparr>se_Txn = tx', se_NextHash = None\<rparr>,
      pl_Hash E tx \<mapsto> elemBytes E \<lparr>se_Txn = tx, se_NextHash = Some (pl_Hash E tx')\<rparr>))
    ((q @ [tx]) @ [tx'])"
  using assms
proof (induction q)
  case Nil
  then show ?case by simp
next
  case (Cons a q)
  then show ?case by (cases q) (auto simp: linked_Cons)
qed

lemma linked_last: "linked E m (q @ [tx]) \<Longrightarrow>
   m (pl_Hash E tx) = Some (elemBytes E \<lparr>se_Txn = tx, se_NextHash = None\<rparr>)"
  by (induction q) (simp_all add: linked_Cons)

section \<open>Single steps\<close>

lemma poolBatchOp_ok [simp]: "pool_env_ok E view \<Longrightarrow> poolBatchOp E s b x = Ok (b @ [x])"
  by (simp add: poolBatchOp_def dbm_BatchOp_ok [OF pool_dbm])

lemma pool_close_ok [simp]: "pool_env_ok E view \<Longrightarrow> dbm_Close (pl_db E) s = None"
  by (simp add: dbm_Close_ok [OF pool_dbm])

lemma pool_get_ok [simp]: "pool_env_ok E view \<Longrightarrow> dbm_Get (pl_db E) s k = Ok (view s k)"
  by (simp add: dbm_Get_ok [OF pool_dbm])

lemma putElem_ok [simp]:
  "pool_env_ok E view \<Longrightarrow> putElem E s b k e = Ok (b @ [BSet k (elemBytes E e)])"
  by (simp add: putElem_def pool_Marshal)

lemma pool_elem_ok [simp]:
  "pool_env_ok E view \<Longrightarrow> view s k = Some (elemBytes E e) \<Longrightarrow> pool_elem E s k = Ok e"
  by (simp add: pool_elem_def pool_Unmarshal)

lemma pool_elem_missing [simp]:
  "pool_env_ok E view \<Longrightarrow> view s k = None \<Longrightarrow> pool_elem E s k = Err (ErrorNew ''value not found'')"
  by (simp add: pool_elem_def)

lemma pool_repD:
  assumes "pool_rep E view s q"
  shows pool_rep_env: "pool_env_ok E view" and pool_rep_distinct: "distinct (map (pl_Hash E) q)"
    and pool_rep_linked: "linked E (view s) q"
    and pool_rep_head: "view s headKey = (if q = [] then None else Some (pl_Hash E (hd q)))"
    and pool_rep_tail: "view s tailKey = (if q = [] then None else Some (pl_Hash E (last q)))"
    and pool_rep_len: "view s poolLengthKey = Some (put_uint64 (of_nat (length q))) \<or>
      view s poolLengthKey = None \<and> q = []"
  using assms by (simp_all add: pool_rep_def)

lemma Pool_Len_ok: "pool_rep E view s q \<Longrightarrow> Pool_Len E s = Ok (of_nat (length q))"
  using pool_rep_len [of E view s q] pool_rep_env [of E view s q] by (auto simp: Pool_Len_def)

lemma pool_write:
  assumes "pool_env_ok E view" and "enqueueOps E tx s = Ok (Some b)"
  shows "\<exists>s'. Enqueue E tx s = (Ok (), s') \<and> view s' = apply_batch b (view s)"
  using dbm_WriteSync_ok [OF pool_dbm [OF assms(1)], of s b] assms by (auto simp: Enqueue_def)

section \<open>First in, first out\<close>

lemma Enqueue_first:
  assumes rep: "pool_rep E view s []"
  shows "\<exists>s'. Enqueue E tx s = (Ok (), s') \<and> pool_rep E view s' [tx]"
proof -
  note ok = pool_rep_env [OF rep]
  let ?h = "pl_Hash E tx"
  let ?b = "[BSet ?h (elemBytes E \<lparr>se_Txn = tx, se_NextHash = None\<rparr>), BSet headKey ?h,
    BSet tailKey ?h, BSet poolLengthKey (put_uint64 1)]"
  have "enqueueOps E tx s = Ok (Some ?b)"
    using pool_rep_tail [OF rep] Pool_Len_ok [OF rep] ok by (simp add: enqueueOps_def updateLen_def)
  from pool_write [OF ok this] obtain s' where
    s': "Enqueue E tx s = (Ok (), s')" "view s' = apply_batch ?b (view s)" by blast
  have "pool_rep E view s' [tx]"
    using ok pool_hash_keys [OF ok, of tx] by (simp add: pool_rep_def s'(2))
  with s'(1) show ?thesis by blast
qed

lemma Enqueue_next:
  assumes rep: "pool_rep E view s (q @ [t])" and new: "pl_Hash E tx \<notin> pl_Hash E ` set (q @ [t])"
  shows "\<exists>s'. Enqueue E tx s = (Ok (), s') \<and> pool_rep E view s' ((q @ [t]) @ [tx])"
proof -
  note ok = pool_rep_env [OF rep]
  let ?h = "pl_Hash E tx" and ?t = "pl_Hash E t"
  let ?b = "[BSet ?h (elemBytes E \<lparr>se_Txn = tx, se_NextHash = None\<rparr>),
    BSet ?t (elemBytes E \<lparr>se_Txn = t, se_NextHash = Some ?h\<rparr>),
    BSet tailKey ?h, BSet poolLengthKey (put_uint64 (of_nat (length (q @ [t])) + 1))]"
  have "enqueueOps E tx s = Ok (Some ?b)"
    using pool_rep_tail [OF rep] Pool_Len_ok [OF rep] ok linked_last [OF pool_rep_linked [OF rep]]
    by (simp add: enqueueOps_def updateLen_def)
  from pool_write [OF ok this] obtain s' where
    s': "Enqueue E tx s = (Ok (), s')" "view s' = apply_batch ?b (view s)" by blast
  note keys = pool_hash_keys [OF ok]
  have "linked E (view s') ((q @ [t]) @ [tx])"
    using linked_snoc [OF pool_rep_linked [OF rep] pool_rep_distinct [OF rep] new]
    by (subst linked_cong [where m' = "(view s)(?h \<mapsto> elemBytes E \<lparr>se_Txn = tx, se_NextHash = None\<rparr>,
        ?t \<mapsto> elemBytes E \<lparr>se_Txn = t, se_NextHash = Some ?h\<rparr>)"]) (simp_all add: s'(2) keys)
  moreover have "view s' headKey = Some (pl_Hash E (hd (q @ [t])))" "view s' tailKey = Some ?h"
    "view s' poolLengthKey = Some (put_uint64 (of_nat (length ((q @ [t]) @ [tx]))))"
    using pool_rep_head [OF rep] keys by (simp_all add: s'(2) keys [symmetric] ac_simps)
  ultimately have "pool_rep E view s' ((q @ [t]) @ [tx])"
    using ok pool_rep_distinct [OF rep] new by (auto simp: pool_rep_def hd_append)
  with s'(1) show ?thesis by blast
qed

lemma Enqueue_ok:
  assumes "pool_rep E view s q" and "pl_Hash E tx \<notin> pl_Hash E ` set q"
  shows "\<exists>s'. Enqueue E tx s = (Ok (), s') \<and> pool_rep E view s' (q @ [tx])"
  using Enqueue_first [of E view s tx] Enqueue_next [of E view s _ _ tx] assms
  by (cases q rule: rev_cases) simp_all

lemma Dequeue_empty:
  "pool_rep E view s [] \<Longrightarrow> Dequeue E s = (Err (ErrorNew ''head hash not found''), s)"
  using Pool_Len_ok [of E view s "[]"] pool_rep_head [of E view s "[]"] pool_rep_env [of E view s "[]"]
  by (simp add: Dequeue_def)

lemma Dequeue_write:
  assumes ok: "pool_env_ok E view" and "Pool_Len E s = Ok n" and "view s headKey = Some hh"
    and "pool_elem E s hh = Ok e" and "dequeueOps E hh e n s = Ok b"
  shows "\<exists>s'. Dequeue E s = (Ok (se_Txn e), s') \<and> view s' = apply_batch b (view s)"
  using dbm_WriteSync_ok [OF pool_dbm [OF ok], of s b] assms by (auto simp: Dequeue_def)

lemma Dequeue_ok:
  assumes rep: "pool_rep E view s (tx # q)"
  shows "\<exists>s'. Dequeue E s = (Ok tx, s') \<and> pool_rep E view s' q"
proof -
  note ok = pool_rep_env [OF rep]
  let ?h = "pl_Hash E tx" and ?n = "of_nat (length (tx # q)) :: u64"
  let ?e = "\<lparr>se_Txn = tx, se_NextHash = (case q of [] \<Rightarrow> None | tx' # _ \<Rightarrow> Some (pl_Hash E tx'))\<rparr>"
  let ?b = "BDelete ?h # (case q of [] \<Rightarrow> [BDelete headKey, BDelete tailKey]
      | tx' # _ \<Rightarrow> [BSet headKey (pl_Hash E tx')]) @ [BSet poolLengthKey (put_uint64 (?n - 1))]"
  have head: "view s headKey = Some ?h" using pool_rep_head [OF rep] by simp
  have elem: "pool_elem E s ?h = Ok ?e"
    using pool_rep_linked [OF rep] ok by (simp add: linked_Cons)
  have "dequeueOps E ?h ?e ?n s = Ok ?b"
    using ok by (cases q) (simp_all add: dequeueOps_def updateLen_def)
  from Dequeue_write [OF ok Pool_Len_ok [OF rep] head elem this] obtain s' where
    s': "Dequeue E s = (Ok tx, s')" "view s' = apply_batch ?b (view s)" by auto
  note keys = pool_hash_keys [OF ok]
  have new: "?h \<notin> pl_Hash E ` set q" and dist: "distinct (map (pl_Hash E) q)"
    using pool_rep_distinct [OF rep] by auto
  have "view s' (pl_Hash E t) = view s (pl_Hash E t)" if "t \<in> set q" for t
  proof -
    have "pl_Hash E t \<noteq> ?h" using new that by (metis imageI)
    then show ?thesis using keys [of t] by (cases q) (simp_all add: s'(2))
  qed
  then have "linked E (view s') q = linked E (view s) q" by (rule linked_cong)
  then have "linked E (view s') q" using pool_rep_linked [OF rep] by (simp add: linked_Cons)
  moreover have "view s' tailKey = (if q = [] then None else Some (pl_Hash E (last q)))"
    using pool_rep_tail [OF rep] keys [symmetric] by (cases q) (auto simp: s'(2))
  moreover have "view s' headKey = (if q = [] then None else Some (pl_Hash E (hd q)))"
    using keys [symmetric] by (cases q) (auto simp: s'(2))
  moreover have "view s' poolLengthKey = Some (put_uint64 (of_nat (length q)))"
    by (cases q) (simp_all add: s'(2))
  ultimately have "pool_rep E view s' q" using ok dist by (simp add: pool_rep_def)
  with s'(1) show ?thesis by blast
qed

section \<open>The interface of the pool\<close>

text \<open>
  What the block builder relies on. \<open>drain\<close> dequeues a given number of times, as the
  builder does with the length it reads first.
\<close>

locale fifo =
  fixes rp :: "'s \<Rightarrow> 'a list \<Rightarrow> bool"
    and enq :: "'a \<Rightarrow> ('s, unit) op"
    and deq :: "('s, 'a) op"
    and len :: "'s \<Rightarrow> u64 res"
    and key :: "'a \<Rightarrow> 'k"
  assumes enq_sim: "rp s q \<Longrightarrow> key x \<notin> key ` set q \<Longrightarrow> \<exists>s'. enq x s = (Ok (), s') \<and> rp s' (q @ [x])"
    and deq_sim: "rp s (x # q) \<Longrightarrow> \<exists>s'. deq s = (Ok x, s') \<and> rp s' q"
    and len_sim: "rp s q \<Longrightarrow> len s = Ok (of_nat (length q))"
begin

fun enqueue_all :: "'a list \<Rightarrow> ('s, unit) op" where
  "enqueue_all [] = sret ()"
| "enqueue_all (x # xs) = scheck (enq x) pass (\<lambda>_. enqueue_all xs)"

fun drain :: "nat \<Rightarrow> ('s, 'a list) op" where
  "drain 0 = sret []"
| "drain (Suc n) = scheck deq pass (\<lambda>x. scheck (drain n) pass (\<lambda>xs. sret (x # xs)))"

lemma enqueue_all_sim:
  "rp s q \<Longrightarrow> distinct (map key (q @ xs)) \<Longrightarrow>
   \<exists>s'. enqueue_all xs s = (Ok (), s') \<and> rp s' (q @ xs)"
proof (induction xs arbitrary: s q)
  case Nil
  then show ?case by simp
next
  case (Cons x xs)
  have "key x \<notin> key ` set q" using Cons.prems(2) by auto
  then obtain s1 where s1: "enq x s = (Ok (), s1)" "rp s1 (q @ [x])"
    using enq_sim [OF Cons.prems(1)] by blast
  from Cons.IH [OF s1(2)] Cons.prems(2) s1(1) show ?case by simp
qed

lemma drain_sim: "rp s (xs @ q) \<Longrightarrow> \<exists>s'. drain (length xs) s = (Ok xs, s') \<and> rp s' q"
proof (induction xs arbitrary: s)
  case Nil
  then show ?case by simp
next
  case (Cons x xs)
  obtain s1 where s1: "deq s = (Ok x, s1)" "rp s1 (xs @ q)" using deq_sim Cons.prems by fastforce
  from Cons.IH [OF s1(2)] obtain s2 where "drain (length xs) s1 = (Ok xs, s2)" "rp s2 q" by blast
  with s1(1) show ?case by simp
qed

lemma enqueue_drain:
  assumes "rp s []" and "distinct (map key xs)"
  shows "\<exists>s1 s2. enqueue_all xs s = (Ok (), s1) \<and> len s1 = Ok (of_nat (length xs)) \<and>
    drain (length xs) s1 = (Ok xs, s2) \<and> rp s2 []"
proof -
  obtain s1 where s1: "enqueue_all xs s = (Ok (), s1)" "rp s1 xs"
    using enqueue_all_sim [OF assms(1)] assms(2) by auto
  moreover obtain s2 where "drain (length xs) s1 = (Ok xs, s2)" "rp s2 []"
    using drain_sim [of s1 xs "[]"] s1(2) by auto
  ultimately show ?thesis using len_sim by blast
qed

end

interpretation pool: fifo "pool_rep E view" "Enqueue E" "Dequeue E" "Pool_Len E" "pl_Hash E"
  for E :: "'s pool_env" and view
  by unfold_locales (blast intro: Enqueue_ok Dequeue_ok Pool_Len_ok)+

text \<open>The operations of a caller that fills and empties the pool, over the source's own.\<close>

fun EnqueueAll :: "'s pool_env \<Rightarrow> bytes list \<Rightarrow> ('s, unit) op" where
  "EnqueueAll E [] = sret ()"
| "EnqueueAll E (tx # txs) = scheck (Enqueue E tx) pass (\<lambda>_. EnqueueAll E txs)"

fun DequeueN :: "'s pool_env \<Rightarrow> nat \<Rightarrow> ('s, bytes list) op" where
  "DequeueN E 0 = sret []"
| "DequeueN E (Suc n) = scheck (Dequeue E) pass (\<lambda>tx. scheck (DequeueN E n) pass (\<lambda>txs. sret (tx # txs)))"

lemma EnqueueAll_eq: "EnqueueAll E txs = fifo.enqueue_all (Enqueue E) txs"
  by (induction txs) (simp_all add: pool.enqueue_all.simps)

lemma DequeueN_eq: "DequeueN E n = fifo.drain (Dequeue E) n"
  by (induction n) (simp_all add: pool.drain.simps)

section \<open>A pool in memory\<close>

text \<open>A codec with a length-prefixed transaction, and the identity, padded, as the hash.\<close>

definition mem_pool_hash :: "bytes \<Rightarrow> bytes" where
  "mem_pool_hash tx = take 32 (tx @ replicate 32 0)"

definition mem_pool_marshal :: "storageElem \<Rightarrow> bytes res" where
  "mem_pool_marshal e = Ok (case se_NextHash e of
       None \<Rightarrow> 0 # se_Txn e
     | Some n \<Rightarrow> replicate (Suc (length n)) 1 @ [0] @ n @ se_Txn e)"

definition mem_pool_unmarshal :: "bytes \<Rightarrow> storageElem res" where
  "mem_pool_unmarshal b = (let k = length (takeWhile (\<lambda>x. x = 1) b); r = drop (Suc k) b in
     if k = 0 then Ok \<lparr>se_Txn = r, se_NextHash = None\<rparr>
     else Ok \<lparr>se_Txn = drop (k - 1) r, se_NextHash = Some (take (k - 1) r)\<rparr>)"

definition mem_pool :: "kv pool_env" where
  "mem_pool = \<lparr>pl_db = mem_dbm, pl_Hash = mem_pool_hash, pl_Marshal = mem_pool_marshal,
     pl_Unmarshal = mem_pool_unmarshal\<rparr>"

lemma mem_pool_codec: "\<exists>b. mem_pool_marshal e = Ok b \<and> mem_pool_unmarshal b = Ok e"
proof (cases "se_NextHash e")
  case None
  then show ?thesis by (cases e) (simp add: mem_pool_marshal_def mem_pool_unmarshal_def Let_def)
next
  case (Some n)
  have "takeWhile (\<lambda>x. x = 1) (replicate k (1 :: byte) @ 0 # r) = replicate k 1" for k r
    by (induction k) simp_all
  with Some show ?thesis
    by (cases e) (simp add: mem_pool_marshal_def mem_pool_unmarshal_def Let_def del: replicate_Suc)
qed

lemma mem_pool_ok: "pool_env_ok mem_pool map_of"
  using mem_pool_codec by (auto simp: pool_env_ok_def mem_pool_def dbm_ok_mem mem_pool_hash_def)

lemma mem_pool_rep_empty: "pool_rep mem_pool map_of [] []"
  by (simp add: pool_rep_def mem_pool_ok)

section \<open>Submitting a transaction that is already the tail\<close>

text \<open>What a store holds after the pool lost its only element but not its head and tail.\<close>

definition wedged :: "'s pool_env \<Rightarrow> ('s \<Rightarrow> bytes \<rightharpoonup> bytes) \<Rightarrow> 's \<Rightarrow> bytes \<Rightarrow> bool" where
  "wedged E view s tx \<longleftrightarrow> view s headKey = Some (pl_Hash E tx) \<and> view s tailKey = Some (pl_Hash E tx) \<and>
     view s (pl_Hash E tx) = None \<and> view s poolLengthKey = Some (put_uint64 1)"

lemma duplicate_reaches_wedged:
  assumes rep: "pool_rep E view s [tx]"
  shows "\<exists>s1 s2. Enqueue E tx s = (Ok (), s1) \<and> Dequeue E s1 = (Ok tx, s2) \<and> wedged E view s2 tx"
proof -
  note ok = pool_rep_env [OF rep]
  note keys = pool_hash_keys [OF ok, of tx]
  let ?h = "pl_Hash E tx" and ?e = "\<lparr>se_Txn = tx, se_NextHash = Some (pl_Hash E tx)\<rparr>"
  let ?b = "[BSet ?h (elemBytes E \<lparr>se_Txn = tx, se_NextHash = None\<rparr>), BSet ?h (elemBytes E ?e),
    BSet tailKey ?h, BSet poolLengthKey (put_uint64 2)]"
  have "enqueueOps E tx s = Ok (Some ?b)"
    using pool_rep_tail [OF rep] Pool_Len_ok [OF rep] ok pool_rep_linked [OF rep]
    by (simp add: enqueueOps_def updateLen_def)
  from pool_write [OF ok this] obtain s1 where
    s1: "Enqueue E tx s = (Ok (), s1)" "view s1 = apply_batch ?b (view s)" by blast
  have v1: "view s1 headKey = Some ?h" "view s1 tailKey = Some ?h" "view s1 ?h = Some (elemBytes E ?e)"
    "view s1 poolLengthKey = Some (put_uint64 2)"
    using pool_rep_head [OF rep] keys keys [symmetric] by (simp_all add: s1(2))
  have "Pool_Len E s1 = Ok 2" using v1 ok by (simp add: Pool_Len_def)
  moreover have "dequeueOps E ?h ?e 2 s1 = Ok [BDelete ?h, BSet headKey ?h, BSet poolLengthKey (put_uint64 1)]"
    using ok by (simp add: dequeueOps_def updateLen_def)
  ultimately obtain s2 where s2: "Dequeue E s1 = (Ok tx, s2)"
    "view s2 = apply_batch [BDelete ?h, BSet headKey ?h, BSet poolLengthKey (put_uint64 1)] (view s1)"
    using Dequeue_write [OF ok, of s1 2 ?h ?e] v1 ok by auto
  have "wedged E view s2 tx"
    using v1 keys keys [symmetric] by (simp add: wedged_def s2(2))
  with s1(1) s2(1) show ?thesis by blast
qed

lemma wedged_stuck:
  assumes ok: "pool_env_ok E view" and w: "wedged E view s tx"
  shows "Pool_Len E s = Ok 1"
    and "Dequeue E s = (Err (Errorf_v ''get head element'' (ErrorNew ''value not found'')), s)"
    and "\<exists>e. Enqueue E t s = (Err e, s)"
  using ok w by (simp_all add: wedged_def Pool_Len_def Dequeue_def Enqueue_def enqueueOps_def deferClose_Err)

section \<open>Properties\<close>

text \<open>
  C8: the pool is first-in first-out. Transactions with different hashes enqueued into an
  empty pool are counted by \<^verbatim>\<open>Len\<close> and dequeued in order, after which the pool is empty
  again and a further \<^verbatim>\<open>Dequeue\<close> fails and changes nothing.
\<close>

theorem mempool_is_fifo:
  assumes "pool_rep E view s []" and "distinct (map (pl_Hash E) txs)"
  shows "\<exists>s1 s2. EnqueueAll E txs s = (Ok (), s1) \<and> Pool_Len E s1 = Ok (of_nat (length txs)) \<and>
    DequeueN E (length txs) s1 = (Ok txs, s2) \<and> Pool_Len E s2 = Ok 0 \<and>
    Dequeue E s2 = (Err (ErrorNew ''head hash not found''), s2)"
  using pool.enqueue_drain [OF assms] Dequeue_empty Pool_Len_ok [of E view _ "[]"]
  unfolding EnqueueAll_eq DequeueN_eq by fastforce

theorem mempool_is_fifo_witness:
  "\<exists>s1 s2. EnqueueAll mem_pool [[7], [8, 9]] [] = (Ok (), s1) \<and> Pool_Len mem_pool s1 = Ok 2 \<and>
     DequeueN mem_pool 2 s1 = (Ok [[7], [8, 9]], s2)"
  using mempool_is_fifo [OF mem_pool_rep_empty, of "[[7], [8, 9]]"]
  by (auto simp: mem_pool_def mem_pool_hash_def numeral_2_eq_2)

text \<open>
  C9: enqueueing the transaction that is the pool's only element succeeds, and the element
  then points to itself. The first \<^verbatim>\<open>Dequeue\<close> returns it and leaves a pool of length one
  whose head is gone: from then on every \<^verbatim>\<open>Dequeue\<close> and every \<^verbatim>\<open>Enqueue\<close> fails
  without changing the store.
\<close>

theorem duplicate_wedges_the_pool:
  assumes "pool_rep E view s []"
  shows "\<exists>s1 s2 s3. Enqueue E tx s = (Ok (), s1) \<and> Enqueue E tx s1 = (Ok (), s2) \<and>
    Dequeue E s2 = (Ok tx, s3) \<and> Pool_Len E s3 = Ok 1 \<and>
    (\<exists>e. Dequeue E s3 = (Err e, s3)) \<and> (\<forall>t. \<exists>e. Enqueue E t s3 = (Err e, s3))"
proof -
  obtain s1 where s1: "Enqueue E tx s = (Ok (), s1)" "pool_rep E view s1 [tx]"
    using Enqueue_first [OF assms] by blast
  obtain s2 s3 where "Enqueue E tx s1 = (Ok (), s2)" "Dequeue E s2 = (Ok tx, s3)" "wedged E view s3 tx"
    using duplicate_reaches_wedged [OF s1(2)] by blast
  then show ?thesis using s1(1) wedged_stuck [OF pool_rep_env [OF assms]] by blast
qed

theorem duplicate_wedges_the_pool_witness:
  "\<exists>s1 s2 s3. Enqueue mem_pool [7] [] = (Ok (), s1) \<and> Enqueue mem_pool [7] s1 = (Ok (), s2) \<and>
     Dequeue mem_pool s2 = (Ok [7], s3) \<and> Pool_Len mem_pool s3 = Ok 1 \<and>
     (\<exists>e. Dequeue mem_pool s3 = (Err e, s3))"
  using duplicate_wedges_the_pool [OF mem_pool_rep_empty, of "[7]"] by blast

end
