(* ===== verification/ProtoWire.thy ===== *)
theory ProtoWire
  imports Prelude
begin

text \<open>
  The protobuf wire format as the generated code of \<^verbatim>\<open>x/rollup/types\<close> reads and writes
  it: varints and their size, length-delimited fields, skipping of unknown fields, and the
  loop every \<^verbatim>\<open>Unmarshal\<close> runs over tag and value. Buffers are written from the end, so
  a write is a prefix to the bytes already written. Indexes are 64-bit ints; a sum of
  \<open>2 ^ 63\<close> or more is negative in the source, and rejected as such here.
\<close>

unbundle bit_operations_syntax

definition ErrIntOverflow :: goerr where "ErrIntOverflow = ErrorNew ''proto: integer overflow''"
definition ErrInvalidLength :: goerr where
  "ErrInvalidLength = ErrorNew ''proto: negative length found during unmarshaling''"
definition ErrUnexpectedEndOfGroup :: goerr where
  "ErrUnexpectedEndOfGroup = ErrorNew ''proto: unexpected end of group''"
definition ErrUnexpectedEOF :: goerr where "ErrUnexpectedEOF = External ''unexpected EOF''"

section \<open>Varints\<close>

fun len64 :: "nat \<Rightarrow> nat" where
  "len64 n = (if n = 0 then 0 else Suc (len64 (n div 2)))"

declare len64.simps [simp del]

definition sov :: "u64 \<Rightarrow> nat" where
  "sov x = (len64 (unat (x OR 1)) + 6) div 7"

function encodeVarint :: "u64 \<Rightarrow> bytes" where
  "encodeVarint v =
     (if v \<ge> 128 then ucast (v AND 127 OR 128) # encodeVarint (drop_bit 7 v) else [ucast v])"
  by auto
termination
proof (relation "measure unat")
  fix v :: u64 assume "128 \<le> v"
  then have "128 \<le> unat v" by (simp add: word_le_nat_alt)
  then have "unat v div 128 < unat v" by simp
  then show "(drop_bit 7 v, v) \<in> measure unat" by (simp add: drop_bit_eq_div unat_div)
qed simp

declare encodeVarint.simps [simp del]

function readVarint :: "bytes \<Rightarrow> nat \<Rightarrow> nat \<Rightarrow> u64 \<Rightarrow> (u64 \<times> nat) res" where
  "readVarint dAtA iNdEx shift v =
     (if shift \<ge> 64 then Err ErrIntOverflow
      else if iNdEx \<ge> length dAtA then Err ErrUnexpectedEOF
      else let b = dAtA ! iNdEx; v' = v OR push_bit shift (ucast (b AND 127)) in
        if b < 128 then Ok (v', iNdEx + 1) else readVarint dAtA (iNdEx + 1) (shift + 7) v')"
  by auto
termination by (relation "measure (\<lambda>(d, i, shift, v). 64 - shift)") auto

declare readVarint.simps [simp del]

lemma readVarint_index:
  "readVarint d i sh v = Ok (w, j) \<Longrightarrow> i < j \<and> j \<le> length d"
proof (induction d i sh v rule: readVarint.induct)
  case (1 d i sh v)
  show ?case
    using 1(2) 1(1) [OF _ _ refl refl]
    by (subst (asm) readVarint.simps) (auto simp: Let_def split: if_splits)
qed

text \<open>Reading back an encoded varint.\<close>

lemma bit_127: "bit (127 :: int) n \<longleftrightarrow> n < 7"
proof -
  have "(127 :: int) = mask 7" by (simp add: mask_eq_exp_minus_1)
  then show ?thesis by (simp only: bit_mask_iff) simp
qed

lemma bit_128: "bit (128 :: int) n \<longleftrightarrow> n = 7"
proof -
  have "(128 :: int) = 2 ^ 7" by simp
  then show ?thesis by (simp only: bit_exp_iff) auto
qed

lemma byte_less_128: "(b :: byte) < 128 \<longleftrightarrow> \<not> bit b 7"
proof -
  have "bit (unat b) 7 = bit b 7" by (simp add: bit_unsigned_iff)
  moreover have "bit (unat b) 7 \<longleftrightarrow> odd (unat b div 128)" by (simp add: bit_iff_odd)
  moreover have "b < 128 \<longleftrightarrow> unat b < 128" by (simp add: word_less_nat_alt)
  moreover have "unat b div 128 = (if unat b < 128 then 0 else 1)"
    using unat_byte_less [of b] by (simp add: div_nat_eqI)
  ultimately show ?thesis by (cases "unat b < 128") simp_all
qed

lemma varint_byte:
  fixes v :: u64
  shows "\<not> (ucast (v AND 127 OR 128) :: byte) < 128"
    and "ucast ((ucast (v AND 127 OR 128) :: byte) AND 127) = v AND 127"
proof -
  show "\<not> (ucast (v AND 127 OR 128) :: byte) < 128"
    by (simp add: byte_less_128 bit_simps bit_128)
  show "ucast ((ucast (v AND 127 OR 128) :: byte) AND 127) = v AND 127"
    by (rule bit_word_eqI) (auto simp: bit_simps bit_127 bit_128)
qed

lemma varint_last:
  fixes v :: u64
  assumes "\<not> 128 \<le> v"
  shows "(ucast v :: byte) < 128" and "ucast ((ucast v :: byte) AND 127) = v"
proof -
  have v: "unat v < 128" using assms by (simp add: word_le_nat_alt)
  have hi: "\<not> bit v n" if "7 \<le> n" for n
  proof
    assume "bit v n"
    then have "bit (unat v) n" by (simp add: bit_unsigned_iff bit_imp_le_length)
    moreover have "unat v < 2 ^ n"
      using v that power_increasing [of 7 n "2 :: nat"] by simp
    ultimately show False by (simp add: bit_iff_odd)
  qed
  show "(ucast v :: byte) < 128" by (simp add: byte_less_128 bit_simps hi)
  show "ucast ((ucast v :: byte) AND 127) = v"
    using hi by (intro bit_word_eqI) (auto simp: bit_simps bit_127 not_le [symmetric])
qed

lemma varint_step:
  fixes v acc :: u64
  shows "(acc OR push_bit sh (v AND 127)) OR push_bit (sh + 7) (drop_bit 7 v) = acc OR push_bit sh v"
proof (rule bit_word_eqI)
  fix n assume "n < LENGTH(64)"
  then show "bit ((acc OR push_bit sh (v AND 127)) OR push_bit (sh + 7) (drop_bit 7 v)) n =
      bit (acc OR push_bit sh v) n"
    by (cases "n < sh + 7") (auto simp: bit_simps bit_127)
qed

lemma readVarint_encode:
  "unat v < 2 ^ (64 - sh) \<Longrightarrow> sh < 64 \<Longrightarrow>
   readVarint (pre @ encodeVarint v @ post) (length pre) sh acc =
     Ok (acc OR push_bit sh v, length pre + length (encodeVarint v))"
proof (induction v arbitrary: pre sh acc rule: encodeVarint.induct)
  case (1 v)
  show ?case
  proof (cases "128 \<le> v")
    case False
    then have "encodeVarint v = [ucast v]" by (simp add: encodeVarint.simps)
    then show ?thesis
      using 1(3) varint_last [OF False] by (subst readVarint.simps) (simp add: nth_append Let_def)
  next
    case True
    let ?b = "ucast (v AND 127 OR 128) :: byte" and ?w = "drop_bit 7 v"
    have e: "encodeVarint v = ?b # encodeVarint ?w" by (subst encodeVarint.simps) (simp add: True)
    have v128: "128 \<le> unat v" using True by (simp add: word_le_nat_alt)
    have sh7: "7 < 64 - sh"
    proof (rule ccontr)
      assume "\<not> 7 < 64 - sh"
      then have "(2 :: nat) ^ (64 - sh) \<le> 2 ^ 7" by (intro power_increasing) simp_all
      with 1(2) v128 show False by simp
    qed
    then have "(2 :: nat) ^ (64 - sh) = 2 ^ (64 - (sh + 7)) * 128"
      using power_add [of "2 :: nat" "64 - (sh + 7)" 7] by simp
    then have w: "unat ?w < 2 ^ (64 - (sh + 7))"
      using 1(2) by (simp add: drop_bit_eq_div unat_div less_mult_imp_div_less)
    have "readVarint (pre @ encodeVarint v @ post) (length pre) sh acc =
        readVarint ((pre @ [?b]) @ encodeVarint ?w @ post) (length (pre @ [?b])) (sh + 7)
          (acc OR push_bit sh (v AND 127))"
      using 1(3) by (subst readVarint.simps) (simp add: e nth_append Let_def varint_byte)
    also have "\<dots> = Ok ((acc OR push_bit sh (v AND 127)) OR push_bit (sh + 7) ?w,
        length (pre @ [?b]) + length (encodeVarint ?w))"
      by (rule 1(1) [OF True w]) (use sh7 in simp)
    finally show ?thesis unfolding varint_step by (simp add: e)
  qed
qed

text \<open>\<open>sov\<close> is the length of the encoding.\<close>

lemma len64_le: "n < 2 ^ k \<Longrightarrow> len64 n \<le> k"
proof (induction k arbitrary: n)
  case 0
  then show ?case by (simp add: len64.simps)
next
  case (Suc k)
  then have "len64 (n div 2) \<le> k" by simp
  then show ?case by (subst len64.simps) simp
qed

lemma len64_pos: "0 < n \<Longrightarrow> len64 n = Suc (len64 (n div 2))"
  by (subst len64.simps) simp

lemma len64_shift: "2 ^ k \<le> n \<Longrightarrow> len64 n = k + len64 (n div 2 ^ k)"
proof (induction k arbitrary: n)
  case 0
  then show ?case by simp
next
  case (Suc k)
  have "0 < n" using Suc.prems by (metis gr0I not_le zero_less_numeral zero_less_power)
  moreover have "2 ^ k \<le> n div 2" using Suc.prems by simp
  ultimately show ?case using Suc.IH [of "n div 2"] by (simp add: len64_pos flip: div_mult2_eq)
qed

definition odd1 :: "nat \<Rightarrow> nat" where
  "odd1 n = n + of_bool (even n)"

lemma unat_or_1: "unat ((v :: u64) OR 1) = odd1 (unat v)"
proof -
  have "unat (v OR 1) = unat v OR unat (1 :: u64)" by (rule unsigned_or_eq)
  also have "\<dots> = unat v OR 1" by (simp only: unsigned_1)
  finally show ?thesis unfolding odd1_def by (simp only: or_one_eq)
qed

lemma odd1_div: "odd1 n div 2 = n div 2"
  by (auto simp: odd1_def elim: evenE)

lemma odd1_pos: "0 < odd1 n"
  by (cases "even n") (auto simp: odd1_def intro: odd_pos)

lemma len64_odd1: "0 < n \<Longrightarrow> len64 (odd1 n) = len64 n"
  by (simp add: len64_pos odd1_pos odd1_div)

lemma odd1_less: "n < 128 \<Longrightarrow> odd1 n < 128"
  by (cases "n = 127") (auto simp: odd1_def)

lemma sov_small: "\<not> 128 \<le> v \<Longrightarrow> sov v = 1"
proof -
  assume "\<not> 128 \<le> v"
  then have "odd1 (unat v) < 2 ^ 7" using odd1_less by (simp add: word_le_nat_alt)
  then have "len64 (odd1 (unat v)) \<le> 7" by (rule len64_le)
  moreover have "0 < len64 (odd1 (unat v))" by (simp add: len64_pos odd1_pos)
  ultimately show ?thesis unfolding sov_def unat_or_1 by (intro div_nat_eqI) simp_all
qed

lemma sov_large: "128 \<le> v \<Longrightarrow> sov v = Suc (sov (drop_bit 7 v))"
proof -
  assume "128 \<le> v"
  then have v: "2 ^ 7 \<le> unat v" by (simp add: word_le_nat_alt)
  then have "len64 (odd1 (unat v)) = 7 + len64 (odd1 (unat v div 128))"
    using len64_shift [OF v] by (simp add: len64_odd1 div_greater_zero_iff)
  then show ?thesis unfolding sov_def unat_or_1 by (simp add: drop_bit_eq_div unat_div)
qed

lemma length_encodeVarint [simp]: "length (encodeVarint v) = sov v"
proof (induction v rule: encodeVarint.induct)
  case (1 v)
  then show ?case by (subst encodeVarint.simps) (simp add: sov_small sov_large)
qed

lemma sov_pos: "0 < sov v"
  by (cases "128 \<le> v") (simp_all add: sov_small sov_large)

lemma readVarint_at:
  "readVarint (pre @ encodeVarint v @ post) (length pre) 0 0 = Ok (v, length pre + sov v)"
  using readVarint_encode [of v 0 pre post 0] unat_u64_less [of v] by simp

section \<open>Writing fields\<close>

text \<open>
  The three shapes of a field in a generated \<^verbatim>\<open>MarshalToSizedBuffer\<close>, before the bytes \<open>d\<close>
  already written: a varint unless it is zero, bytes unless they are empty, a message.
\<close>

definition putVarintField :: "byte \<Rightarrow> u64 \<Rightarrow> bytes \<Rightarrow> bytes" where
  "putVarintField tag v d = (if v \<noteq> 0 then [tag] @ encodeVarint v @ d else d)"

definition putMsgField :: "byte \<Rightarrow> bytes \<Rightarrow> bytes \<Rightarrow> bytes" where
  "putMsgField tag bs d = [tag] @ encodeVarint (of_nat (length bs)) @ bs @ d"

definition putBytesField :: "byte \<Rightarrow> bytes \<Rightarrow> bytes \<Rightarrow> bytes" where
  "putBytesField tag bs d = (if length bs > 0 then putMsgField tag bs d else d)"

definition sizeVarintField :: "u64 \<Rightarrow> nat" where
  "sizeVarintField v = (if v \<noteq> 0 then 1 + sov v else 0)"

definition sizeMsgField :: "nat \<Rightarrow> nat" where
  "sizeMsgField l = 1 + l + sov (of_nat l)"

definition sizeBytesField :: "nat \<Rightarrow> nat" where
  "sizeBytesField l = (if l > 0 then sizeMsgField l else 0)"

lemma length_put [simp]:
  "length (putVarintField t v d) = sizeVarintField v + length d"
  "length (putMsgField t bs d) = sizeMsgField (length bs) + length d"
  "length (putBytesField t bs d) = sizeBytesField (length bs) + length d"
  by (simp_all add: putVarintField_def putMsgField_def putBytesField_def sizeVarintField_def
      sizeMsgField_def sizeBytesField_def)

text \<open>
  \<^verbatim>\<open>Marshal\<close> writes into a buffer of \<^verbatim>\<open>Size\<close> bytes from its end and returns its first
  \<open>n\<close> bytes, \<open>n\<close> the number written; a write before the buffer's start panics.
\<close>

definition marshalSized :: "nat \<Rightarrow> bytes \<Rightarrow> bytes res" where
  "marshalSized sz w = (if sz < length w then Panic (External ''index out of range'')
     else Ok (take (length w) (replicate (sz - length w) 0 @ w)))"

lemma marshalSized_exact [simp]: "length w = sz \<Longrightarrow> marshalSized sz w = Ok w"
  by (simp add: marshalSized_def)

section \<open>Reading fields\<close>

lemma check_cong [fundef_cong]:
  "m = m' \<Longrightarrow> (\<And>x. m' = Ok x \<Longrightarrow> k x = k' x) \<Longrightarrow> check m w k = check m' w k'"
  by (cases m') simp_all

definition readLen :: "bytes \<Rightarrow> nat \<Rightarrow> (nat \<times> nat) res" where
  "readLen dAtA iNdEx =
     check (readVarint dAtA iNdEx 0 0) pass (\<lambda>(len, iNdEx).
     if sint len < 0 then Err ErrInvalidLength
     else let postIndex = iNdEx + unat len in
       if postIndex \<ge> 2 ^ 63 then Err ErrInvalidLength
       else if postIndex > length dAtA then Err ErrUnexpectedEOF
       else Ok (iNdEx, postIndex))"

definition skipValue :: "bytes \<Rightarrow> nat \<Rightarrow> nat \<Rightarrow> nat \<Rightarrow> (nat \<times> nat) res" where
  "skipValue dAtA iNdEx depth wireType =
     (if wireType = 0 then check (readVarint dAtA iNdEx 0 0) pass (\<lambda>(_, j). Ok (j, depth))
      else if wireType = 1 then Ok (iNdEx + 8, depth)
      else if wireType = 2 then
        check (readVarint dAtA iNdEx 0 0) pass (\<lambda>(len, j).
        if sint len < 0 then Err ErrInvalidLength else Ok (j + unat len, depth))
      else if wireType = 3 then Ok (iNdEx, depth + 1)
      else if wireType = 4 then
        (if depth = 0 then Err ErrUnexpectedEndOfGroup else Ok (iNdEx, depth - 1))
      else if wireType = 5 then Ok (iNdEx + 4, depth)
      else Err (ErrorNew ''proto: illegal wireType''))"

lemma skipValue_index: "skipValue d i n wt = Ok (j, n') \<Longrightarrow> i \<le> j"
  by (auto simp: skipValue_def check_Ok_iff split: if_splits dest!: readVarint_index)

function skipFrom :: "bytes \<Rightarrow> nat \<Rightarrow> nat \<Rightarrow> nat res" where
  "skipFrom dAtA iNdEx depth =
     (if iNdEx < length dAtA then
        check (readVarint dAtA iNdEx 0 0) pass (\<lambda>(wire, j).
        check (skipValue dAtA j depth (unat (wire AND 7))) pass (\<lambda>(k, depth').
        if k \<ge> 2 ^ 63 then Err ErrInvalidLength
        else if depth' = 0 then Ok k
        else skipFrom dAtA k depth'))
      else Err ErrUnexpectedEOF)"
  by auto
termination
  by (relation "measure (\<lambda>(d, i, n). length d - i)")
     (auto dest!: readVarint_index skipValue_index)

declare skipFrom.simps [simp del]

definition skip :: "bytes \<Rightarrow> nat res" where
  "skip dAtA = skipFrom dAtA 0 0"

lemma skipFrom_index: "skipFrom d i n = Ok j \<Longrightarrow> i < j"
proof (induction d i n rule: skipFrom.induct)
  case (1 d i n)
  from 1(2) obtain w k l n' where w: "i < length d" "readVarint d i 0 0 = Ok (w, k)"
    "skipValue d k n (unat (w AND 7)) = Ok (l, n')" "\<not> 2 ^ 63 \<le> l"
    "(if n' = 0 then Ok l else skipFrom d l n') = Ok j"
    by (subst (asm) skipFrom.simps) (auto simp: check_Ok_iff split: if_splits)
  have "i < l" using readVarint_index [OF w(2)] skipValue_index [OF w(3)] by simp
  moreover have "n' \<noteq> 0 \<Longrightarrow> l < j" using 1(1) [OF w(1,2) refl w(3) refl w(4)] w(5) by simp
  ultimately show ?case using w(5) by (cases "n' = 0") simp_all
qed

text \<open>
  What a generated \<^verbatim>\<open>Unmarshal\<close> does with the value of a field it knows: a varint is
  stored, the bytes of a length-delimited field are stored or decoded further.
\<close>

datatype 'm fld = FVarint "u64 \<Rightarrow> 'm \<Rightarrow> 'm" | FMsg "bytes \<Rightarrow> 'm \<Rightarrow> 'm res"

abbreviation FBytes :: "(bytes \<Rightarrow> 'm \<Rightarrow> 'm) \<Rightarrow> 'm fld" where
  "FBytes put \<equiv> FMsg (\<lambda>bs m. Ok (put bs m))"

definition readField :: "(nat \<Rightarrow> 'm fld option) \<Rightarrow> bytes \<Rightarrow> nat \<Rightarrow> 'm \<Rightarrow> ('m \<times> nat) res" where
  "readField fields dAtA preIndex m =
     check (readVarint dAtA preIndex 0 0) pass (\<lambda>(wire, iNdEx).
     let fieldNum = sint (ucast (drop_bit 3 wire) :: 32 word); wireType = unat (wire AND 7) in
     if wireType = 4 then Err (ErrorNew ''proto: wiretype end group for non-group'')
     else if fieldNum \<le> 0 then Err (ErrorNew ''proto: illegal tag'')
     else case fields (nat fieldNum) of
       Some (FVarint put) \<Rightarrow>
         if wireType \<noteq> 0 then Err (ErrorNew ''proto: wrong wireType'')
         else check (readVarint dAtA iNdEx 0 0) pass (\<lambda>(v, j). Ok (put v m, j))
     | Some (FMsg decode) \<Rightarrow>
         if wireType \<noteq> 2 then Err (ErrorNew ''proto: wrong wireType'')
         else check (readLen dAtA iNdEx) pass (\<lambda>(iNdEx, postIndex).
           check (decode (take (postIndex - iNdEx) (drop iNdEx dAtA)) m) pass (\<lambda>m.
           Ok (m, postIndex)))
     | None \<Rightarrow>
         check (skip (drop preIndex dAtA)) pass (\<lambda>skippy.
         if preIndex + skippy \<ge> 2 ^ 63 then Err ErrInvalidLength
         else if preIndex + skippy > length dAtA then Err ErrUnexpectedEOF
         else Ok (m, preIndex + skippy)))"

lemma readLen_index: "readLen d i = Ok (a, b) \<Longrightarrow> i < a \<and> a \<le> b"
  by (auto simp: readLen_def check_Ok_iff Let_def split: if_splits dest!: readVarint_index)

lemma readField_index: "readField fs d i m = Ok (m', j) \<Longrightarrow> i < j"
  by (fastforce simp: readField_def check_Ok_iff Let_def skip_def
      split: if_splits option.splits fld.splits
      dest!: readVarint_index readLen_index skipFrom_index)

function unmarshalFrom :: "(nat \<Rightarrow> 'm fld option) \<Rightarrow> bytes \<Rightarrow> nat \<Rightarrow> 'm \<Rightarrow> 'm res" where
  "unmarshalFrom fields dAtA iNdEx m =
     (if iNdEx < length dAtA then
        check (readField fields dAtA iNdEx m) pass (\<lambda>(m', j). unmarshalFrom fields dAtA j m')
      else if iNdEx > length dAtA then Err ErrUnexpectedEOF
      else Ok m)"
  by auto
termination
  by (relation "measure (\<lambda>(fs, d, i, m). length d - i)") (auto dest!: readField_index)

declare unmarshalFrom.simps [simp del]

section \<open>Reading back what was written\<close>

text \<open>\<open>decodes fs bs m m'\<close>: wherever \<open>bs\<close> stands in a buffer, reading it takes \<open>m\<close> to \<open>m'\<close>.\<close>

definition decodes :: "(nat \<Rightarrow> 'm fld option) \<Rightarrow> bytes \<Rightarrow> 'm \<Rightarrow> 'm \<Rightarrow> bool" where
  "decodes fs bs m m' \<longleftrightarrow> (\<forall>pre post. length (pre @ bs @ post) < 2 ^ 63 \<longrightarrow>
     unmarshalFrom fs (pre @ bs @ post) (length pre) m =
     unmarshalFrom fs (pre @ bs @ post) (length pre + length bs) m')"

lemma decodes_Nil: "decodes fs [] m m"
  by (simp add: decodes_def)

lemma decodes_append:
  assumes "decodes fs xs m m'" and "decodes fs ys m' m''"
  shows "decodes fs (xs @ ys) m m''"
  unfolding decodes_def
proof (intro allI impI)
  fix pre post :: bytes
  assume l: "length (pre @ (xs @ ys) @ post) < 2 ^ 63"
  have "unmarshalFrom fs (pre @ xs @ (ys @ post)) (length pre) m =
      unmarshalFrom fs ((pre @ xs) @ ys @ post) (length (pre @ xs)) m'"
    using assms(1) l unfolding decodes_def by simp
  also have "\<dots> = unmarshalFrom fs ((pre @ xs) @ ys @ post) (length (pre @ xs) + length ys) m''"
    using assms(2) l unfolding decodes_def by (metis append.assoc)
  finally show "unmarshalFrom fs (pre @ (xs @ ys) @ post) (length pre) m =
      unmarshalFrom fs (pre @ (xs @ ys) @ post) (length pre + length (xs @ ys)) m''"
    by (simp add: add.assoc)
qed

lemma decodes_all:
  assumes "decodes fs bs m m'" and "length bs < 2 ^ 63"
  shows "unmarshalFrom fs bs 0 m = Ok m'"
proof -
  have "unmarshalFrom fs ([] @ bs @ []) (length ([] :: bytes)) m =
      unmarshalFrom fs ([] @ bs @ []) (length ([] :: bytes) + length bs) m'"
    using assms unfolding decodes_def by (metis append.left_neutral append.right_neutral)
  then show ?thesis by (simp add: unmarshalFrom.simps)
qed

lemma decodes_step:
  assumes "bs \<noteq> []"
    and "\<And>pre post. length (pre @ bs @ post) < 2 ^ 63 \<Longrightarrow>
      readField fs (pre @ bs @ post) (length pre) m = Ok (m', length pre + length bs)"
  shows "decodes fs bs m m'"
  unfolding decodes_def
proof (intro allI impI)
  fix pre post :: bytes
  assume "length (pre @ bs @ post) < 2 ^ 63"
  from assms(2) [OF this] assms(1)
  show "unmarshalFrom fs (pre @ bs @ post) (length pre) m =
      unmarshalFrom fs (pre @ bs @ post) (length pre + length bs) m'"
    by (subst unmarshalFrom.simps) simp
qed

text \<open>A one-byte tag with its field number and wire type.\<close>

definition tag_is :: "byte \<Rightarrow> nat \<Rightarrow> nat \<Rightarrow> bool" where
  "tag_is t n wt \<longleftrightarrow> t < 128 \<and> 0 < n \<and> wt \<noteq> 4 \<and>
     sint (ucast (drop_bit 3 (ucast t :: u64)) :: 32 word) = int n \<and> unat ((ucast t :: u64) AND 7) = wt"

lemma encodeVarint_tag: "t < 128 \<Longrightarrow> encodeVarint (ucast (t :: byte)) = [t]"
proof -
  assume "t < 128"
  then have "\<not> 128 \<le> (ucast t :: u64)"
    by (simp add: word_le_nat_alt word_less_nat_alt unsigned_ucast_eq take_bit_nat_eq_self)
  moreover have "ucast (ucast t :: u64) = t" by (rule bit_word_eqI) (simp add: bit_simps)
  ultimately show ?thesis by (subst encodeVarint.simps) simp
qed

lemma readVarint_tag:
  assumes "t < 128"
  shows "readVarint (pre @ t # post) (length pre) 0 0 = Ok (ucast t, length pre + 1)"
  using readVarint_at [of pre "ucast t" post] assms encodeVarint_tag [OF assms]
    length_encodeVarint [of "ucast t"] by simp

lemma decodes_varint:
  assumes t: "tag_is t n 0" and f: "fs n = Some (FVarint put)"
  shows "decodes fs ([t] @ encodeVarint v) m (put v m)"
proof (rule decodes_step)
  fix pre post :: bytes
  have "readVarint (pre @ ([t] @ encodeVarint v) @ post) (length pre) 0 0 = Ok (ucast t, length pre + 1)"
    using readVarint_tag [of t pre "encodeVarint v @ post"] t by (simp add: tag_is_def)
  moreover have "readVarint (pre @ ([t] @ encodeVarint v) @ post) (length pre + 1) 0 0 =
      Ok (v, length pre + 1 + sov v)"
    using readVarint_at [of "pre @ [t]" v post] by simp
  ultimately show "readField fs (pre @ ([t] @ encodeVarint v) @ post) (length pre) m =
      Ok (put v m, length pre + length ([t] @ encodeVarint v))"
    using t f by (simp add: readField_def tag_is_def Let_def)
qed simp

lemma readLen_at:
  assumes "length (pre @ encodeVarint (of_nat (length bs)) @ bs @ post) < 2 ^ 63"
  shows "readLen (pre @ encodeVarint (of_nat (length bs)) @ bs @ post) (length pre) =
    Ok (length pre + sov (of_nat (length bs)), length pre + sov (of_nat (length bs)) + length bs)"
proof -
  have "length bs < 2 ^ 63" using assms by simp
  then have u: "unat (of_nat (length bs) :: u64) = length bs"
    and s: "\<not> sint (of_nat (length bs) :: u64) < 0"
    by (simp_all add: unat_of_nat signed_of_nat signed_take_bit_int_eq_self)
  show ?thesis using assms u s
    by (simp add: readLen_def readVarint_at Let_def)
qed

lemma decodes_msg:
  assumes t: "tag_is t n 2" and f: "fs n = Some (FMsg dec)" and d: "dec bs m = Ok m'"
  shows "decodes fs ([t] @ encodeVarint (of_nat (length bs)) @ bs) m m'"
proof (rule decodes_step)
  fix pre post :: bytes
  let ?v = "encodeVarint (of_nat (length bs))"
  let ?d = "pre @ ([t] @ ?v @ bs) @ post"
  assume l: "length ?d < 2 ^ 63"
  have "readVarint ?d (length pre) 0 0 = Ok (ucast t, length pre + 1)"
    using readVarint_tag [of t pre "?v @ bs @ post"] t by (simp add: tag_is_def)
  moreover have "readLen ?d (length pre + 1) = Ok (length pre + 1 + sov (of_nat (length bs)),
      length pre + 1 + sov (of_nat (length bs)) + length bs)"
    using readLen_at [of "pre @ [t]" bs post] l by simp
  moreover have "take (length bs) (drop (length pre + 1 + sov (of_nat (length bs))) ?d) = bs"
    by (simp add: drop_Cons')
  ultimately show "readField fs ?d (length pre) m = Ok (m', length pre + length ([t] @ ?v @ bs))"
    using t f d by (simp add: readField_def tag_is_def Let_def)
qed simp

lemma decodes_putVarint:
  assumes "tag_is t n 0" and "fs n = Some (FVarint put)" and "v = 0 \<Longrightarrow> put v m = m"
    and "decodes fs d (put v m) m'"
  shows "decodes fs (putVarintField t v d) m m'"
  using decodes_append [OF decodes_varint [where fs = fs and n = n, OF assms(1,2)] assms(4)] assms(3,4)
  by (auto simp: putVarintField_def)

lemma decodes_putMsg:
  assumes "tag_is t n 2" and "fs n = Some (FMsg dec)" and "dec bs m = Ok m1"
    and "decodes fs d m1 m'"
  shows "decodes fs (putMsgField t bs d) m m'"
  using decodes_append [OF decodes_msg [where fs = fs and n = n and dec = dec, OF assms(1,2,3)] assms(4)] by (simp add: putMsgField_def)

lemma decodes_putBytes:
  assumes "tag_is t n 2" and "fs n = Some (FBytes put)" and "bs = [] \<Longrightarrow> put bs m = m"
    and "decodes fs d (put bs m) m'"
  shows "decodes fs (putBytesField t bs d) m m'"
  using decodes_putMsg [where fs = fs and n = n, OF assms(1,2) refl assms(4)] assms(3,4) by (auto simp: putBytesField_def)

end
