(* ===== verification/RollupProto.thy ===== *)
theory RollupProto
  imports ProtoWire
begin

text \<open>
  The messages of the rollup module that travel inside blocks (\<^verbatim>\<open>x/rollup/types/tx.pb.go\<close>
  and \<^verbatim>\<open>rollup.pb.go\<close>): \<open>L1BlockInfo\<close>, \<open>MsgSetL1Attributes\<close>, \<open>MsgApplyUserDeposit\<close>,
  \<open>DepositsTx\<close> and the module's \<open>Params\<close>, with \<^verbatim>\<open>Size\<close>, \<^verbatim>\<open>MarshalToSizedBuffer\<close>,
  \<^verbatim>\<open>Marshal\<close> and \<^verbatim>\<open>Unmarshal\<close>. A nil byte slice is an empty list.
\<close>

section \<open>L1BlockInfo\<close>

record L1BlockInfo =
  l1_Number :: u64
  l1_Time :: u64
  l1_BaseFee :: bytes
  l1_BlockHash :: bytes
  l1_SequenceNumber :: u64
  l1_BatcherAddr :: bytes
  l1_L1FeeOverhead :: bytes
  l1_L1FeeScalar :: bytes
  l1_BlobBaseFee :: bytes
  l1_BaseFeeScalar :: u32
  l1_BlobBaseFeeScalar :: u32

definition zero_L1BlockInfo :: L1BlockInfo where
  "zero_L1BlockInfo = \<lparr>l1_Number = 0, l1_Time = 0, l1_BaseFee = [], l1_BlockHash = [],
     l1_SequenceNumber = 0, l1_BatcherAddr = [], l1_L1FeeOverhead = [], l1_L1FeeScalar = [],
     l1_BlobBaseFee = [], l1_BaseFeeScalar = 0, l1_BlobBaseFeeScalar = 0\<rparr>"

definition L1BlockInfo_MarshalToSizedBuffer :: "L1BlockInfo \<Rightarrow> bytes" where
  "L1BlockInfo_MarshalToSizedBuffer m =
     putVarintField 0x08 (l1_Number m) (
     putVarintField 0x10 (l1_Time m) (
     putBytesField 0x1a (l1_BaseFee m) (
     putBytesField 0x22 (l1_BlockHash m) (
     putVarintField 0x28 (l1_SequenceNumber m) (
     putBytesField 0x32 (l1_BatcherAddr m) (
     putBytesField 0x3a (l1_L1FeeOverhead m) (
     putBytesField 0x42 (l1_L1FeeScalar m) (
     putBytesField 0x4a (l1_BlobBaseFee m) (
     putVarintField 0x50 (ucast (l1_BaseFeeScalar m)) (
     putVarintField 0x58 (ucast (l1_BlobBaseFeeScalar m)) []))))))))))"

definition L1BlockInfo_Size :: "L1BlockInfo \<Rightarrow> nat" where
  "L1BlockInfo_Size m =
     sizeVarintField (l1_Number m) + sizeVarintField (l1_Time m) +
     sizeBytesField (length (l1_BaseFee m)) + sizeBytesField (length (l1_BlockHash m)) +
     sizeVarintField (l1_SequenceNumber m) + sizeBytesField (length (l1_BatcherAddr m)) +
     sizeBytesField (length (l1_L1FeeOverhead m)) + sizeBytesField (length (l1_L1FeeScalar m)) +
     sizeBytesField (length (l1_BlobBaseFee m)) + sizeVarintField (ucast (l1_BaseFeeScalar m)) +
     sizeVarintField (ucast (l1_BlobBaseFeeScalar m))"

definition L1BlockInfo_Marshal :: "L1BlockInfo \<Rightarrow> bytes res" where
  "L1BlockInfo_Marshal m = marshalSized (L1BlockInfo_Size m) (L1BlockInfo_MarshalToSizedBuffer m)"

fun L1BlockInfo_fields :: "nat \<Rightarrow> L1BlockInfo fld option" where
  "L1BlockInfo_fields n =
     (if n = 1 then Some (FVarint (\<lambda>v m. m\<lparr>l1_Number := v\<rparr>))
      else if n = 2 then Some (FVarint (\<lambda>v m. m\<lparr>l1_Time := v\<rparr>))
      else if n = 3 then Some (FBytes (\<lambda>b m. m\<lparr>l1_BaseFee := b\<rparr>))
      else if n = 4 then Some (FBytes (\<lambda>b m. m\<lparr>l1_BlockHash := b\<rparr>))
      else if n = 5 then Some (FVarint (\<lambda>v m. m\<lparr>l1_SequenceNumber := v\<rparr>))
      else if n = 6 then Some (FBytes (\<lambda>b m. m\<lparr>l1_BatcherAddr := b\<rparr>))
      else if n = 7 then Some (FBytes (\<lambda>b m. m\<lparr>l1_L1FeeOverhead := b\<rparr>))
      else if n = 8 then Some (FBytes (\<lambda>b m. m\<lparr>l1_L1FeeScalar := b\<rparr>))
      else if n = 9 then Some (FBytes (\<lambda>b m. m\<lparr>l1_BlobBaseFee := b\<rparr>))
      else if n = 10 then Some (FVarint (\<lambda>v m. m\<lparr>l1_BaseFeeScalar := ucast v\<rparr>))
      else if n = 11 then Some (FVarint (\<lambda>v m. m\<lparr>l1_BlobBaseFeeScalar := ucast v\<rparr>))
      else None)"

definition L1BlockInfo_Unmarshal :: "bytes \<Rightarrow> L1BlockInfo \<Rightarrow> L1BlockInfo res" where
  "L1BlockInfo_Unmarshal dAtA m = unmarshalFrom L1BlockInfo_fields dAtA 0 m"

section \<open>MsgSetL1Attributes\<close>

record MsgSetL1Attributes =
  sa_L1BlockInfo :: "L1BlockInfo option"
  sa_EthTx :: bytes

definition zero_MsgSetL1Attributes :: MsgSetL1Attributes where
  "zero_MsgSetL1Attributes = \<lparr>sa_L1BlockInfo = None, sa_EthTx = []\<rparr>"

definition MsgSetL1Attributes_MarshalToSizedBuffer :: "MsgSetL1Attributes \<Rightarrow> bytes" where
  "MsgSetL1Attributes_MarshalToSizedBuffer m =
     (let d = putBytesField 0x12 (sa_EthTx m) [] in
      case sa_L1BlockInfo m of
        Some b \<Rightarrow> putMsgField 0x0a (L1BlockInfo_MarshalToSizedBuffer b) d
      | None \<Rightarrow> d)"

definition MsgSetL1Attributes_Size :: "MsgSetL1Attributes \<Rightarrow> nat" where
  "MsgSetL1Attributes_Size m =
     (case sa_L1BlockInfo m of Some b \<Rightarrow> sizeMsgField (L1BlockInfo_Size b) | None \<Rightarrow> 0) +
     sizeBytesField (length (sa_EthTx m))"

definition MsgSetL1Attributes_Marshal :: "MsgSetL1Attributes \<Rightarrow> bytes res" where
  "MsgSetL1Attributes_Marshal m =
     marshalSized (MsgSetL1Attributes_Size m) (MsgSetL1Attributes_MarshalToSizedBuffer m)"

fun MsgSetL1Attributes_fields :: "nat \<Rightarrow> MsgSetL1Attributes fld option" where
  "MsgSetL1Attributes_fields n =
     (if n = 1 then Some (FMsg (\<lambda>b m.
        check (L1BlockInfo_Unmarshal b
            (case sa_L1BlockInfo m of None \<Rightarrow> zero_L1BlockInfo | Some i \<Rightarrow> i)) pass (\<lambda>i.
        Ok (m\<lparr>sa_L1BlockInfo := Some i\<rparr>))))
      else if n = 2 then Some (FBytes (\<lambda>b m. m\<lparr>sa_EthTx := b\<rparr>))
      else None)"

definition MsgSetL1Attributes_Unmarshal :: "bytes \<Rightarrow> MsgSetL1Attributes \<Rightarrow> MsgSetL1Attributes res" where
  "MsgSetL1Attributes_Unmarshal dAtA m = unmarshalFrom MsgSetL1Attributes_fields dAtA 0 m"

section \<open>MsgApplyUserDeposit\<close>

record MsgApplyUserDeposit =
  ud_Tx :: bytes

definition MsgApplyUserDeposit_MarshalToSizedBuffer :: "MsgApplyUserDeposit \<Rightarrow> bytes" where
  "MsgApplyUserDeposit_MarshalToSizedBuffer m = putBytesField 0x0a (ud_Tx m) []"

definition MsgApplyUserDeposit_Size :: "MsgApplyUserDeposit \<Rightarrow> nat" where
  "MsgApplyUserDeposit_Size m = sizeBytesField (length (ud_Tx m))"

definition MsgApplyUserDeposit_Marshal :: "MsgApplyUserDeposit \<Rightarrow> bytes res" where
  "MsgApplyUserDeposit_Marshal m =
     marshalSized (MsgApplyUserDeposit_Size m) (MsgApplyUserDeposit_MarshalToSizedBuffer m)"

fun MsgApplyUserDeposit_fields :: "nat \<Rightarrow> MsgApplyUserDeposit fld option" where
  "MsgApplyUserDeposit_fields n =
     (if n = 1 then Some (FBytes (\<lambda>b m. m\<lparr>ud_Tx := b\<rparr>)) else None)"

definition MsgApplyUserDeposit_Unmarshal ::
    "bytes \<Rightarrow> MsgApplyUserDeposit \<Rightarrow> MsgApplyUserDeposit res" where
  "MsgApplyUserDeposit_Unmarshal dAtA m = unmarshalFrom MsgApplyUserDeposit_fields dAtA 0 m"

section \<open>DepositsTx\<close>

record DepositsTx =
  dt_L1Attributes :: "MsgSetL1Attributes option"
  dt_UserDeposits :: "MsgApplyUserDeposit list"

definition zero_DepositsTx :: DepositsTx where
  "zero_DepositsTx = \<lparr>dt_L1Attributes = None, dt_UserDeposits = []\<rparr>"

text \<open>The user deposits are written from the last to the first.\<close>

definition putUserDeposits :: "MsgApplyUserDeposit list \<Rightarrow> bytes \<Rightarrow> bytes" where
  "putUserDeposits us d =
     foldr (\<lambda>u d. putMsgField 0x12 (MsgApplyUserDeposit_MarshalToSizedBuffer u) d) us d"

definition DepositsTx_MarshalToSizedBuffer :: "DepositsTx \<Rightarrow> bytes" where
  "DepositsTx_MarshalToSizedBuffer m =
     (let d = putUserDeposits (dt_UserDeposits m) [] in
      case dt_L1Attributes m of
        Some a \<Rightarrow> putMsgField 0x0a (MsgSetL1Attributes_MarshalToSizedBuffer a) d
      | None \<Rightarrow> d)"

definition DepositsTx_Size :: "DepositsTx \<Rightarrow> nat" where
  "DepositsTx_Size m =
     (case dt_L1Attributes m of Some a \<Rightarrow> sizeMsgField (MsgSetL1Attributes_Size a) | None \<Rightarrow> 0) +
     sum_list (map (\<lambda>u. sizeMsgField (MsgApplyUserDeposit_Size u)) (dt_UserDeposits m))"

definition DepositsTx_Marshal :: "DepositsTx \<Rightarrow> bytes res" where
  "DepositsTx_Marshal m = marshalSized (DepositsTx_Size m) (DepositsTx_MarshalToSizedBuffer m)"

fun DepositsTx_fields :: "nat \<Rightarrow> DepositsTx fld option" where
  "DepositsTx_fields n =
     (if n = 1 then Some (FMsg (\<lambda>b m.
        check (MsgSetL1Attributes_Unmarshal b
            (case dt_L1Attributes m of None \<Rightarrow> zero_MsgSetL1Attributes | Some a \<Rightarrow> a)) pass (\<lambda>a.
        Ok (m\<lparr>dt_L1Attributes := Some a\<rparr>))))
      else if n = 2 then Some (FMsg (\<lambda>b m.
        check (MsgApplyUserDeposit_Unmarshal b \<lparr>ud_Tx = []\<rparr>) pass (\<lambda>u.
        Ok (m\<lparr>dt_UserDeposits := dt_UserDeposits m @ [u]\<rparr>))))
      else None)"

definition DepositsTx_Unmarshal :: "bytes \<Rightarrow> DepositsTx \<Rightarrow> DepositsTx res" where
  "DepositsTx_Unmarshal dAtA m = unmarshalFrom DepositsTx_fields dAtA 0 m"

section \<open>Params\<close>

record Params =
  p_L1FeeRecipient :: bytes
  p_L1CrossDomainMessenger :: bytes
  p_L1StandardBridge :: bytes
  p_MinFeeWithdrawalAmount :: u64
  p_FeeWithdrawalGasLimit :: u64

definition zero_Params :: Params where
  "zero_Params = \<lparr>p_L1FeeRecipient = [], p_L1CrossDomainMessenger = [], p_L1StandardBridge = [],
     p_MinFeeWithdrawalAmount = 0, p_FeeWithdrawalGasLimit = 0\<rparr>"

definition Params_MarshalToSizedBuffer :: "Params \<Rightarrow> bytes" where
  "Params_MarshalToSizedBuffer m =
     putBytesField 0x0a (p_L1FeeRecipient m) (
     putBytesField 0x12 (p_L1CrossDomainMessenger m) (
     putBytesField 0x1a (p_L1StandardBridge m) (
     putVarintField 0x20 (p_MinFeeWithdrawalAmount m) (
     putVarintField 0x28 (p_FeeWithdrawalGasLimit m) []))))"

definition Params_Size :: "Params \<Rightarrow> nat" where
  "Params_Size m =
     sizeBytesField (length (p_L1FeeRecipient m)) + sizeBytesField (length (p_L1CrossDomainMessenger m)) +
     sizeBytesField (length (p_L1StandardBridge m)) + sizeVarintField (p_MinFeeWithdrawalAmount m) +
     sizeVarintField (p_FeeWithdrawalGasLimit m)"

definition Params_Marshal :: "Params \<Rightarrow> bytes res" where
  "Params_Marshal m = marshalSized (Params_Size m) (Params_MarshalToSizedBuffer m)"

fun Params_fields :: "nat \<Rightarrow> Params fld option" where
  "Params_fields n =
     (if n = 1 then Some (FBytes (\<lambda>b m. m\<lparr>p_L1FeeRecipient := b\<rparr>))
      else if n = 2 then Some (FBytes (\<lambda>b m. m\<lparr>p_L1CrossDomainMessenger := b\<rparr>))
      else if n = 3 then Some (FBytes (\<lambda>b m. m\<lparr>p_L1StandardBridge := b\<rparr>))
      else if n = 4 then Some (FVarint (\<lambda>v m. m\<lparr>p_MinFeeWithdrawalAmount := v\<rparr>))
      else if n = 5 then Some (FVarint (\<lambda>v m. m\<lparr>p_FeeWithdrawalGasLimit := v\<rparr>))
      else None)"

definition Params_Unmarshal :: "bytes \<Rightarrow> Params \<Rightarrow> Params res" where
  "Params_Unmarshal dAtA m = unmarshalFrom Params_fields dAtA 0 m"

section \<open>Sizes\<close>

lemma L1BlockInfo_size [simp]: "length (L1BlockInfo_MarshalToSizedBuffer m) = L1BlockInfo_Size m"
  by (simp add: L1BlockInfo_MarshalToSizedBuffer_def L1BlockInfo_Size_def)

lemma MsgSetL1Attributes_size [simp]:
  "length (MsgSetL1Attributes_MarshalToSizedBuffer m) = MsgSetL1Attributes_Size m"
  by (simp add: MsgSetL1Attributes_MarshalToSizedBuffer_def MsgSetL1Attributes_Size_def Let_def
      split: option.splits)

lemma MsgApplyUserDeposit_size [simp]:
  "length (MsgApplyUserDeposit_MarshalToSizedBuffer m) = MsgApplyUserDeposit_Size m"
  by (simp add: MsgApplyUserDeposit_MarshalToSizedBuffer_def MsgApplyUserDeposit_Size_def)

lemma putUserDeposits_size: "length (putUserDeposits us d) =
   sum_list (map (\<lambda>u. sizeMsgField (MsgApplyUserDeposit_Size u)) us) + length d"
  by (induction us) (simp_all add: putUserDeposits_def)

lemma DepositsTx_size [simp]: "length (DepositsTx_MarshalToSizedBuffer m) = DepositsTx_Size m"
  by (simp add: DepositsTx_MarshalToSizedBuffer_def DepositsTx_Size_def Let_def putUserDeposits_size
      split: option.splits)

lemma Params_size [simp]: "length (Params_MarshalToSizedBuffer m) = Params_Size m"
  by (simp add: Params_MarshalToSizedBuffer_def Params_Size_def)

section \<open>Round trips\<close>

lemma tags:
  "tag_is 0x08 1 0" "tag_is 0x10 2 0" "tag_is 0x28 5 0" "tag_is 0x50 10 0" "tag_is 0x58 11 0"
  "tag_is 0x20 4 0"
  "tag_is 0x0a 1 2" "tag_is 0x12 2 2" "tag_is 0x1a 3 2" "tag_is 0x22 4 2" "tag_is 0x32 6 2"
  "tag_is 0x3a 7 2" "tag_is 0x42 8 2" "tag_is 0x4a 9 2"
  by (simp_all add: tag_is_def)

lemma L1BlockInfo_table:
  "L1BlockInfo_fields 1 = Some (FVarint (\<lambda>v m. m\<lparr>l1_Number := v\<rparr>))"
  "L1BlockInfo_fields 2 = Some (FVarint (\<lambda>v m. m\<lparr>l1_Time := v\<rparr>))"
  "L1BlockInfo_fields 3 = Some (FBytes (\<lambda>b m. m\<lparr>l1_BaseFee := b\<rparr>))"
  "L1BlockInfo_fields 4 = Some (FBytes (\<lambda>b m. m\<lparr>l1_BlockHash := b\<rparr>))"
  "L1BlockInfo_fields 5 = Some (FVarint (\<lambda>v m. m\<lparr>l1_SequenceNumber := v\<rparr>))"
  "L1BlockInfo_fields 6 = Some (FBytes (\<lambda>b m. m\<lparr>l1_BatcherAddr := b\<rparr>))"
  "L1BlockInfo_fields 7 = Some (FBytes (\<lambda>b m. m\<lparr>l1_L1FeeOverhead := b\<rparr>))"
  "L1BlockInfo_fields 8 = Some (FBytes (\<lambda>b m. m\<lparr>l1_L1FeeScalar := b\<rparr>))"
  "L1BlockInfo_fields 9 = Some (FBytes (\<lambda>b m. m\<lparr>l1_BlobBaseFee := b\<rparr>))"
  "L1BlockInfo_fields 10 = Some (FVarint (\<lambda>v m. m\<lparr>l1_BaseFeeScalar := ucast v\<rparr>))"
  "L1BlockInfo_fields 11 = Some (FVarint (\<lambda>v m. m\<lparr>l1_BlobBaseFeeScalar := ucast v\<rparr>))"
  by simp_all

lemma ucast_32_64: "(ucast (ucast (x :: u32) :: u64) :: u32) = x"
  by (rule bit_word_eqI) (simp add: bit_simps)

lemma ucast_64_0: "(ucast (x :: u32) :: u64) = 0 \<longleftrightarrow> x = 0"
  by (metis ucast_32_64 unsigned_0)

lemmas L1BlockInfo_rules =
  decodes_putVarint [where fs = L1BlockInfo_fields, OF tags(1) L1BlockInfo_table(1)] decodes_putVarint [where fs = L1BlockInfo_fields, OF tags(2) L1BlockInfo_table(2)]
  decodes_putBytes [where fs = L1BlockInfo_fields, OF tags(9) L1BlockInfo_table(3)] decodes_putBytes [where fs = L1BlockInfo_fields, OF tags(10) L1BlockInfo_table(4)]
  decodes_putVarint [where fs = L1BlockInfo_fields, OF tags(3) L1BlockInfo_table(5)] decodes_putBytes [where fs = L1BlockInfo_fields, OF tags(11) L1BlockInfo_table(6)]
  decodes_putBytes [where fs = L1BlockInfo_fields, OF tags(12) L1BlockInfo_table(7)] decodes_putBytes [where fs = L1BlockInfo_fields, OF tags(13) L1BlockInfo_table(8)]
  decodes_putBytes [where fs = L1BlockInfo_fields, OF tags(14) L1BlockInfo_table(9)]
  decodes_putVarint [where fs = L1BlockInfo_fields, OF tags(4) L1BlockInfo_table(10)] decodes_putVarint [where fs = L1BlockInfo_fields, OF tags(5) L1BlockInfo_table(11)]

lemma L1BlockInfo_decodes:
  "decodes L1BlockInfo_fields (L1BlockInfo_MarshalToSizedBuffer m) zero_L1BlockInfo m"
proof -
  have "decodes L1BlockInfo_fields [] m m" by (rule decodes_Nil)
  then show ?thesis
    unfolding L1BlockInfo_MarshalToSizedBuffer_def
    by (intro L1BlockInfo_rules, simp_all add: zero_L1BlockInfo_def ucast_32_64) (cases m, simp)
qed

lemma L1BlockInfo_round_trip:
  "L1BlockInfo_Size m < 2 ^ 63 \<Longrightarrow>
   L1BlockInfo_Unmarshal (L1BlockInfo_MarshalToSizedBuffer m) zero_L1BlockInfo = Ok m"
  unfolding L1BlockInfo_Unmarshal_def by (rule decodes_all [OF L1BlockInfo_decodes]) simp

lemma MsgApplyUserDeposit_round_trip:
  assumes "MsgApplyUserDeposit_Size m < 2 ^ 63"
  shows "MsgApplyUserDeposit_Unmarshal (MsgApplyUserDeposit_MarshalToSizedBuffer m) \<lparr>ud_Tx = []\<rparr> = Ok m"
proof -
  have "decodes MsgApplyUserDeposit_fields (MsgApplyUserDeposit_MarshalToSizedBuffer m) \<lparr>ud_Tx = []\<rparr> m"
    unfolding MsgApplyUserDeposit_MarshalToSizedBuffer_def
    by (rule decodes_putBytes [OF tags(7), where put = "\<lambda>b m. m\<lparr>ud_Tx := b\<rparr>"], simp_all)
       (cases m, simp add: decodes_Nil)
  then show ?thesis unfolding MsgApplyUserDeposit_Unmarshal_def
    by (rule decodes_all) (use assms in simp)
qed

lemma sizeMsgField_less: "sizeMsgField k + j < n \<Longrightarrow> k < n"
  by (simp add: sizeMsgField_def)

lemma MsgSetL1Attributes_round_trip:
  assumes "MsgSetL1Attributes_Size m < 2 ^ 63"
  shows "MsgSetL1Attributes_Unmarshal (MsgSetL1Attributes_MarshalToSizedBuffer m)
    zero_MsgSetL1Attributes = Ok m"
proof -
  have tx: "decodes MsgSetL1Attributes_fields (putBytesField 0x12 (sa_EthTx m) []) (m\<lparr>sa_EthTx := []\<rparr>) m"
    by (rule decodes_putBytes [OF tags(8), where put = "\<lambda>b m. m\<lparr>sa_EthTx := b\<rparr>"]) (simp_all add: decodes_Nil)
  have "decodes MsgSetL1Attributes_fields (MsgSetL1Attributes_MarshalToSizedBuffer m)
      zero_MsgSetL1Attributes m"
  proof (cases "sa_L1BlockInfo m")
    case None
    then have "zero_MsgSetL1Attributes = m\<lparr>sa_EthTx := []\<rparr>" by (simp add: zero_MsgSetL1Attributes_def)
    with tx None show ?thesis by (simp add: MsgSetL1Attributes_MarshalToSizedBuffer_def)
  next
    case (Some b)
    then have "L1BlockInfo_Size b < 2 ^ 63"
      using assms sizeMsgField_less [of "L1BlockInfo_Size b"] by (simp add: MsgSetL1Attributes_Size_def)
    note rt = L1BlockInfo_round_trip [OF this]
    have "m\<lparr>sa_EthTx := []\<rparr> = zero_MsgSetL1Attributes\<lparr>sa_L1BlockInfo := Some b\<rparr>"
      using Some by (simp add: zero_MsgSetL1Attributes_def)
    with tx Some rt show ?thesis
      unfolding MsgSetL1Attributes_MarshalToSizedBuffer_def Let_def
      by (auto intro!: decodes_putMsg [OF tags(7), where fs = MsgSetL1Attributes_fields]
          simp: zero_MsgSetL1Attributes_def)
  qed
  then show ?thesis
    unfolding MsgSetL1Attributes_Unmarshal_def by (rule decodes_all) (use assms in simp)
qed

lemma DepositsTx_table:
  "DepositsTx_fields 2 = Some (FMsg (\<lambda>b m. check (MsgApplyUserDeposit_Unmarshal b \<lparr>ud_Tx = []\<rparr>) pass
     (\<lambda>u. Ok (m\<lparr>dt_UserDeposits := dt_UserDeposits m @ [u]\<rparr>))))"
  by simp

lemma putUserDeposits_decodes:
  assumes "\<And>u. u \<in> set us \<Longrightarrow> MsgApplyUserDeposit_Size u < 2 ^ 63"
  shows "decodes DepositsTx_fields (putUserDeposits us []) m
    (m\<lparr>dt_UserDeposits := dt_UserDeposits m @ us\<rparr>)"
  using assms
proof (induction us arbitrary: m)
  case Nil
  then show ?case by (simp add: putUserDeposits_def decodes_Nil)
next
  case (Cons u us)
  let ?m = "m\<lparr>dt_UserDeposits := dt_UserDeposits m @ [u]\<rparr>"
  have "MsgApplyUserDeposit_Unmarshal (MsgApplyUserDeposit_MarshalToSizedBuffer u) \<lparr>ud_Tx = []\<rparr> = Ok u"
    by (rule MsgApplyUserDeposit_round_trip) (use Cons.prems [of u] in simp)
  moreover have "decodes DepositsTx_fields (putUserDeposits us []) ?m
      (?m\<lparr>dt_UserDeposits := dt_UserDeposits ?m @ us\<rparr>)"
    by (intro Cons.IH Cons.prems) simp
  ultimately have "decodes DepositsTx_fields
      (putMsgField 0x12 (MsgApplyUserDeposit_MarshalToSizedBuffer u) (putUserDeposits us [])) m
      (?m\<lparr>dt_UserDeposits := dt_UserDeposits ?m @ us\<rparr>)"
    by (intro decodes_putMsg [where fs = DepositsTx_fields and ?m1.0 = ?m, OF tags(8) DepositsTx_table])
       simp_all
  then show ?case by (simp add: putUserDeposits_def del: DepositsTx_fields.simps)
qed

lemma DepositsTx_decodes:
  assumes "DepositsTx_Size m < 2 ^ 63"
  shows "decodes DepositsTx_fields (DepositsTx_MarshalToSizedBuffer m) zero_DepositsTx m"
proof -
  have "MsgApplyUserDeposit_Size u < 2 ^ 63" if "u \<in> set (dt_UserDeposits m)" for u
  proof -
    have "sizeMsgField (MsgApplyUserDeposit_Size u) \<le> DepositsTx_Size m"
      using that member_le_sum_list [of "sizeMsgField (MsgApplyUserDeposit_Size u)"
        "map (\<lambda>u. sizeMsgField (MsgApplyUserDeposit_Size u)) (dt_UserDeposits m)"]
      by (simp add: DepositsTx_Size_def)
    with assms show ?thesis by (simp add: sizeMsgField_def)
  qed
  then have us: "decodes DepositsTx_fields (putUserDeposits (dt_UserDeposits m) [])
      (m\<lparr>dt_UserDeposits := []\<rparr>) m"
    using putUserDeposits_decodes [of "dt_UserDeposits m" "m\<lparr>dt_UserDeposits := []\<rparr>"] by simp
  show ?thesis
  proof (cases "dt_L1Attributes m")
    case None
    then have "zero_DepositsTx = m\<lparr>dt_UserDeposits := []\<rparr>" by (simp add: zero_DepositsTx_def)
    with us None show ?thesis by (simp add: DepositsTx_MarshalToSizedBuffer_def)
  next
    case (Some a)
    then have "MsgSetL1Attributes_Size a < 2 ^ 63"
      using assms sizeMsgField_less [of "MsgSetL1Attributes_Size a"] by (simp add: DepositsTx_Size_def)
    note rt = MsgSetL1Attributes_round_trip [OF this]
    have "m\<lparr>dt_UserDeposits := []\<rparr> = zero_DepositsTx\<lparr>dt_L1Attributes := Some a\<rparr>"
      using Some by (simp add: zero_DepositsTx_def)
    with us Some rt show ?thesis
      unfolding DepositsTx_MarshalToSizedBuffer_def Let_def
      by (auto intro!: decodes_putMsg [OF tags(7), where fs = DepositsTx_fields] simp: zero_DepositsTx_def)
  qed
qed

lemma DepositsTx_round_trip:
  assumes "DepositsTx_Size m < 2 ^ 63"
  shows "DepositsTx_Marshal m = Ok (DepositsTx_MarshalToSizedBuffer m)"
    and "DepositsTx_Unmarshal (DepositsTx_MarshalToSizedBuffer m) zero_DepositsTx = Ok m"
proof -
  show "DepositsTx_Marshal m = Ok (DepositsTx_MarshalToSizedBuffer m)" by (simp add: DepositsTx_Marshal_def)
  show "DepositsTx_Unmarshal (DepositsTx_MarshalToSizedBuffer m) zero_DepositsTx = Ok m"
    unfolding DepositsTx_Unmarshal_def
    by (rule decodes_all [OF DepositsTx_decodes [OF assms]]) (use assms in simp)
qed

lemma Params_table:
  "Params_fields 1 = Some (FBytes (\<lambda>b m. m\<lparr>p_L1FeeRecipient := b\<rparr>))"
  "Params_fields 2 = Some (FBytes (\<lambda>b m. m\<lparr>p_L1CrossDomainMessenger := b\<rparr>))"
  "Params_fields 3 = Some (FBytes (\<lambda>b m. m\<lparr>p_L1StandardBridge := b\<rparr>))"
  "Params_fields 4 = Some (FVarint (\<lambda>v m. m\<lparr>p_MinFeeWithdrawalAmount := v\<rparr>))"
  "Params_fields 5 = Some (FVarint (\<lambda>v m. m\<lparr>p_FeeWithdrawalGasLimit := v\<rparr>))"
  by simp_all

lemmas Params_rules =
  decodes_putBytes [where fs = Params_fields, OF tags(7) Params_table(1)]
  decodes_putBytes [where fs = Params_fields, OF tags(8) Params_table(2)]
  decodes_putBytes [where fs = Params_fields, OF tags(9) Params_table(3)]
  decodes_putVarint [where fs = Params_fields, OF tags(6) Params_table(4)]
  decodes_putVarint [where fs = Params_fields, OF tags(3) Params_table(5)]

lemma Params_decodes: "decodes Params_fields (Params_MarshalToSizedBuffer m) zero_Params m"
proof -
  have "decodes Params_fields [] m m" by (rule decodes_Nil)
  then show ?thesis
    unfolding Params_MarshalToSizedBuffer_def
    by (intro Params_rules, simp_all add: zero_Params_def) (cases m, simp)
qed

lemma Params_round_trip:
  assumes "Params_Size m < 2 ^ 63"
  shows "Params_Unmarshal (Params_MarshalToSizedBuffer m) zero_Params = Ok m"
  unfolding Params_Unmarshal_def by (rule decodes_all [OF Params_decodes]) (use assms in simp)

section \<open>Properties\<close>

text \<open>
  A deposits transaction, as it is written into every block, decodes to what was encoded:
  \<^verbatim>\<open>Marshal\<close> fills its buffer exactly, and \<^verbatim>\<open>Unmarshal\<close> of the result into a fresh
  message restores the L1 attributes, all their L1 block fields, and the user deposits in
  order. The only bound is that the encoding is shorter than the largest slice.
\<close>

theorem deposits_tx_round_trip:
  assumes "DepositsTx_Size m < 2 ^ 63"
  shows "\<exists>d. DepositsTx_Marshal m = Ok d \<and> length d = DepositsTx_Size m \<and>
    DepositsTx_Unmarshal d zero_DepositsTx = Ok m"
  using DepositsTx_round_trip [OF assms] by simp

definition example_deposits :: DepositsTx where
  "example_deposits = \<lparr>
     dt_L1Attributes = Some \<lparr>
       sa_L1BlockInfo = Some (zero_L1BlockInfo\<lparr>l1_Number := 300, l1_BaseFee := [1, 2]\<rparr>),
       sa_EthTx = [0x7e, 1]\<rparr>,
     dt_UserDeposits = [\<lparr>ud_Tx = [0x7e, 2]\<rparr>, \<lparr>ud_Tx = []\<rparr>]\<rparr>"

lemma sov_le: "sov v \<le> 10"
proof -
  have "odd1 (unat v) < 2 ^ 65" using unat_u64_less [of v] by (simp add: odd1_def)
  then have "len64 (odd1 (unat v)) \<le> 65" by (rule len64_le)
  then have "(len64 (odd1 (unat v)) + 6) div 7 \<le> (65 + 6) div 7" by (intro div_le_mono) simp
  then show ?thesis unfolding sov_def unat_or_1 by simp
qed

lemma sizeField_le: "sizeVarintField v \<le> 11" "sizeMsgField k \<le> 11 + k" "sizeBytesField k \<le> 11 + k"
  using sov_le [of v] sov_le [of "of_nat k"]
  by (simp_all add: sizeVarintField_def sizeMsgField_def sizeBytesField_def)

lemma example_deposits_size: "DepositsTx_Size example_deposits < 2 ^ 63"
proof -
  have i: "L1BlockInfo_Size (zero_L1BlockInfo\<lparr>l1_Number := 300, l1_BaseFee := [1, 2]\<rparr>) \<le> 200"
    using sizeField_le(1) [of 300] sizeField_le(2) [of "Suc (Suc 0)"]
    by (simp add: L1BlockInfo_Size_def zero_L1BlockInfo_def sizeVarintField_def sizeBytesField_def)
  then show ?thesis
    using sizeField_le(2) [of "L1BlockInfo_Size (zero_L1BlockInfo\<lparr>l1_Number := 300, l1_BaseFee := [1, 2]\<rparr>)"]
      sizeField_le(3) [of 2] sizeField_le(2) [of "MsgSetL1Attributes_Size (the (dt_L1Attributes example_deposits))"]
      sizeField_le(2) [of "Suc (Suc 0)"] sizeField_le(2) [of "sizeMsgField (Suc (Suc 0))"] sizeField_le(2) [of 0]
    by (simp add: DepositsTx_Size_def example_deposits_def MsgSetL1Attributes_Size_def
        MsgApplyUserDeposit_Size_def sizeBytesField_def)
qed

theorem deposits_tx_round_trip_witness:
  "\<exists>d. DepositsTx_Marshal example_deposits = Ok d \<and>
     DepositsTx_Unmarshal d zero_DepositsTx = Ok example_deposits"
  using deposits_tx_round_trip [OF example_deposits_size] by blast

text \<open>
  The rollup module's parameters, stored under one key, decode to what was encoded.
\<close>

theorem params_round_trip:
  assumes "Params_Size m < 2 ^ 63"
  shows "\<exists>d. Params_Marshal m = Ok d \<and> length d = Params_Size m \<and> Params_Unmarshal d zero_Params = Ok m"
  using Params_round_trip [OF assms] by (simp add: Params_Marshal_def)

theorem params_round_trip_witness:
  "\<exists>d. Params_Marshal (zero_Params\<lparr>p_FeeWithdrawalGasLimit := 400000\<rparr>) = Ok d \<and>
     Params_Unmarshal d zero_Params = Ok (zero_Params\<lparr>p_FeeWithdrawalGasLimit := 400000\<rparr>)"
proof -
  have "Params_Size (zero_Params\<lparr>p_FeeWithdrawalGasLimit := 400000\<rparr>) < 2 ^ 63"
    using sizeField_le(1) [of 400000]
    by (simp add: Params_Size_def zero_Params_def sizeBytesField_def sizeVarintField_def)
  from params_round_trip [OF this] show ?thesis by blast
qed

end
