(* ===== verification/Adapters.thy ===== *)
theory Adapters
  imports Chain RollupProto
begin

text \<open>
  Between Ethereum and Cosmos transactions (\<^verbatim>\<open>adapters.go\<close>) and from blocks to Ethereum
  blocks (\<^verbatim>\<open>monomer.go\<close>). go-ethereum's transactions and blocks and op-node's L1 block
  info decoder are parameters: a record of the functions the source calls.
\<close>

section \<open>go-ethereum and op-node\<close>

text \<open>What \<^verbatim>\<open>derive.L1BlockInfoFromBytes\<close> returns; a nil \<^verbatim>\<open>*big.Int\<close> is \<open>None\<close>.\<close>

record l1info =
  li_Number :: u64
  li_Time :: u64
  li_BaseFee :: "nat option"
  li_BlockHash :: hash
  li_SequenceNumber :: u64
  li_BatcherAddr :: address
  li_L1FeeOverhead :: hash
  li_L1FeeScalar :: hash
  li_BlobBaseFee :: "nat option"
  li_BaseFeeScalar :: u32
  li_BlobBaseFeeScalar :: u32

record eth_header =
  eh_ParentHash :: hash
  eh_Root :: hash
  eh_Number :: nat
  eh_GasLimit :: u64
  eh_MixDigest :: hash
  eh_Time :: u64
  eh_UncleHash :: hash
  eh_ReceiptHash :: hash
  eh_BaseFee :: nat
  eh_WithdrawalsHash :: "hash option"
  eh_Difficulty :: nat
  eh_Coinbase :: address
  eh_ParentBeaconRoot :: "hash option"

record ('tx, 'blk) ethlib =
  el_UnmarshalBinary :: "bytes \<Rightarrow> 'tx res"
  el_MarshalBinary :: "'tx \<Rightarrow> bytes"
  el_MarshalErr :: "'tx \<Rightarrow> goerr option"
  el_Type :: "'tx \<Rightarrow> byte"
  el_IsDepositTx :: "'tx \<Rightarrow> bool"
  el_Data :: "'tx \<Rightarrow> bytes"
  el_NewDynamicFeeTx :: "bytes \<Rightarrow> 'tx"
  el_L1BlockInfoFromBytes :: "u64 \<Rightarrow> bytes \<Rightarrow> l1info res"
  el_NewBlock :: "eth_header \<Rightarrow> 'tx list \<Rightarrow> 'blk"
  el_BlockHash :: "'blk \<Rightarrow> hash"
  el_EmptyUncleHash :: hash
  el_EmptyReceiptsHash :: hash
  el_EmptyWithdrawalsHash :: hash

text \<open>
  \<^verbatim>\<open>tx.MarshalBinary()\<close> has two results: the bytes (\<open>el_MarshalBinary\<close>) and the error
  (\<open>el_MarshalErr\<close>). The loop stops at the first error, which its caller wraps.
\<close>

fun marshalTxs :: "('tx, 'blk) ethlib \<Rightarrow> (goerr \<Rightarrow> goerr) \<Rightarrow> 'tx list \<Rightarrow> bytes list res" where
  "marshalTxs L wrap [] = Ok []"
| "marshalTxs L wrap (tx # txs) = (case el_MarshalErr L tx of
       Some e \<Rightarrow> Err (wrap e)
     | None \<Rightarrow> check (marshalTxs L wrap txs) pass (\<lambda>bs. Ok (el_MarshalBinary L tx # bs)))"

lemma marshalTxs_Ok: "marshalTxs L wrap txs = Ok bs \<Longrightarrow> bs = map (el_MarshalBinary L) txs"
  by (induction txs arbitrary: bs) (auto elim!: check_OkE split: option.splits)

lemma marshalTxs_total: "(\<And>tx. tx \<in> set txs \<Longrightarrow> el_MarshalErr L tx = None) \<Longrightarrow> marshalTxs L wrap txs = Ok (map (el_MarshalBinary L) txs)"
  by (induction txs) simp_all

definition DepositTxType :: byte where "DepositTxType = 0x7e"

text \<open>
  What the source relies on: the two tests for deposits agree, decoding is canonical (only
  the encoding of a transaction decodes to it), a transaction made from data is not a
  deposit, carries that data and survives encoding.
\<close>

definition ethlib_ok :: "('tx, 'blk) ethlib \<Rightarrow> bool" where
  "ethlib_ok L \<longleftrightarrow>
     (\<forall>t. el_IsDepositTx L t = (el_Type L t = DepositTxType)) \<and>
     (\<forall>b t. el_UnmarshalBinary L b = Ok t \<longrightarrow> el_MarshalBinary L t = b) \<and>
     (\<forall>d. el_UnmarshalBinary L (el_MarshalBinary L (el_NewDynamicFeeTx L d)) = Ok (el_NewDynamicFeeTx L d)) \<and>
     (\<forall>d. \<not> el_IsDepositTx L (el_NewDynamicFeeTx L d)) \<and>
     (\<forall>d. el_Data L (el_NewDynamicFeeTx L d) = d)"

text \<open>\<^verbatim>\<open>big.Int.Bytes\<close>: the big-endian digits without leading zeros.\<close>

fun big_Bytes :: "nat \<Rightarrow> bytes" where
  "big_Bytes n = (if n = 0 then [] else big_Bytes (n div 256) @ [of_nat n])"

declare big_Bytes.simps [simp del]

section \<open>From payload to Cosmos transactions\<close>

fun userDeposits :: "('tx, 'blk) ethlib \<Rightarrow> bytes list \<Rightarrow> MsgApplyUserDeposit list res" where
  "userDeposits L [] = Ok []"
| "userDeposits L (ethDepositTxBytes # ethTxs) =
     check (el_UnmarshalBinary L ethDepositTxBytes)
       (Errorf_v ''unmarshal binary eth deposit tx bytes'') (\<lambda>ethDepositTx.
     if \<not> el_IsDepositTx L ethDepositTx then Ok []
     else check (userDeposits L ethTxs) pass (\<lambda>ds. Ok (\<lparr>ud_Tx = ethDepositTxBytes\<rparr> # ds)))"

fun nonDepositTxs :: "('tx, 'blk) ethlib \<Rightarrow> bytes list \<Rightarrow> bytes list res" where
  "nonDepositTxs L [] = Ok []"
| "nonDepositTxs L (cosmosTx # ethTxs) =
     check (el_UnmarshalBinary L cosmosTx) (Errorf_v ''unmarshal binary tx'') (\<lambda>tx.
     if el_IsDepositTx L tx then Err (ErrorNew ''found a deposit tx after a non-deposit tx'')
     else check (nonDepositTxs L ethTxs) pass (\<lambda>ts. Ok (el_Data L tx # ts)))"

definition l1AttributesMsg :: "l1info \<Rightarrow> bytes \<Rightarrow> MsgSetL1Attributes" where
  "l1AttributesMsg i l1AttributesTxBytes = \<lparr>
     sa_L1BlockInfo = Some \<lparr>
       l1_Number = li_Number i,
       l1_Time = li_Time i,
       l1_BaseFee = (case li_BaseFee i of None \<Rightarrow> [] | Some f \<Rightarrow> big_Bytes f),
       l1_BlockHash = hash_Bytes (li_BlockHash i),
       l1_SequenceNumber = li_SequenceNumber i,
       l1_BatcherAddr = address_Bytes (li_BatcherAddr i),
       l1_L1FeeOverhead = hash_Bytes (li_L1FeeOverhead i),
       l1_L1FeeScalar = hash_Bytes (li_L1FeeScalar i),
       l1_BlobBaseFee = (case li_BlobBaseFee i of None \<Rightarrow> [] | Some f \<Rightarrow> big_Bytes f),
       l1_BaseFeeScalar = li_BaseFeeScalar i,
       l1_BlobBaseFeeScalar = li_BlobBaseFeeScalar i\<rparr>,
     sa_EthTx = l1AttributesTxBytes\<rparr>"

text \<open>\<open>now\<close> is the clock's reading, \<^verbatim>\<open>uint64(time.Now().Unix())\<close>.\<close>

definition AdaptPayloadTxsToCosmosTxs ::
    "('tx, 'blk) ethlib \<Rightarrow> u64 \<Rightarrow> bytes list \<Rightarrow> bytes list res" where
  "AdaptPayloadTxsToCosmosTxs L now ethTxs = (case ethTxs of
       [] \<Rightarrow> Err (ErrorNew ''l1 attributes transaction not found'')
     | l1AttributesTxBytes # ethTxs \<Rightarrow>
         check (el_UnmarshalBinary L l1AttributesTxBytes) (Errorf_v ''unmarshal binary'')
           (\<lambda>ethL1AttributesTx.
         if el_Type L ethL1AttributesTx \<noteq> DepositTxType
         then Err (ErrorNew ''first transaction is not a deposit transaction'')
         else
         check (el_L1BlockInfoFromBytes L now (el_Data L ethL1AttributesTx))
           (Errorf_v ''l1 block info from bytes'') (\<lambda>l1BlockInfo.
         check (userDeposits L ethTxs) pass (\<lambda>depositTxs.
         let ethTxs = drop (length depositTxs) ethTxs in
         check (DepositsTx_Marshal \<lparr>
             dt_L1Attributes = Some (l1AttributesMsg l1BlockInfo l1AttributesTxBytes),
             dt_UserDeposits = depositTxs\<rparr>) (Errorf_v ''marshal tx'') (\<lambda>depositTxBytes.
         check (nonDepositTxs L ethTxs) pass (\<lambda>ts.
         Ok (depositTxBytes # ts)))))))"

section \<open>From Cosmos to Ethereum transactions\<close>

fun userDepositTxs :: "('tx, 'blk) ethlib \<Rightarrow> MsgApplyUserDeposit list \<Rightarrow> 'tx list res" where
  "userDepositTxs L [] = Ok []"
| "userDepositTxs L (u # us) =
     check (el_UnmarshalBinary L (ud_Tx u)) (Errorf_v ''unmarshal binary user deposit tx'') (\<lambda>tx.
     if \<not> el_IsDepositTx L tx then Err (ErrorNew ''cosmos deposit tx contains non-deposit tx'')
     else check (userDepositTxs L us) pass (\<lambda>ts. Ok (tx # ts)))"

definition AdaptNonDepositCosmosTxToEthTx :: "('tx, 'blk) ethlib \<Rightarrow> bytes \<Rightarrow> 'tx" where
  "AdaptNonDepositCosmosTxToEthTx L cosmosTx = el_NewDynamicFeeTx L cosmosTx"

text \<open>A deposits transaction without L1 attributes is a nil dereference.\<close>

definition AdaptCosmosTxsToEthTxs :: "('tx, 'blk) ethlib \<Rightarrow> bytes list \<Rightarrow> 'tx list res" where
  "AdaptCosmosTxsToEthTxs L cosmosTxs = (case cosmosTxs of
       [] \<Rightarrow> Ok []
     | cosmosDepositTxBytes # txsBytes \<Rightarrow>
         check (DepositsTx_Unmarshal cosmosDepositTxBytes zero_DepositsTx)
           (Errorf_v ''unmarshal MsgL1Txs msg'') (\<lambda>cosmosDepositTx.
         case dt_L1Attributes cosmosDepositTx of
           None \<Rightarrow> Panic (External ''nil pointer dereference'')
         | Some l1Attributes \<Rightarrow>
         check (el_UnmarshalBinary L (sa_EthTx l1Attributes))
           (Errorf_v ''unmarshal binary l1 attributes tx'') (\<lambda>ethL1AttributesTx.
         check (userDepositTxs L (dt_UserDeposits cosmosDepositTx)) pass (\<lambda>userTxs.
         Ok (ethL1AttributesTx # userTxs @ map (AdaptNonDepositCosmosTxToEthTx L) txsBytes)))))"

section \<open>Blocks as Ethereum blocks\<close>

definition Header_ToEth :: "('tx, 'blk) ethlib \<Rightarrow> header \<Rightarrow> eth_header" where
  "Header_ToEth L h = \<lparr>
     eh_ParentHash = h_ParentHash h,
     eh_Root = h_StateRoot h,
     eh_Number = unat (h_Height h),
     eh_GasLimit = h_GasLimit h,
     eh_MixDigest = 0,
     eh_Time = h_Time h,
     eh_UncleHash = el_EmptyUncleHash L,
     eh_ReceiptHash = el_EmptyReceiptsHash L,
     eh_BaseFee = 0,
     eh_WithdrawalsHash = Some (el_EmptyWithdrawalsHash L),
     eh_Difficulty = 0,
     eh_Coinbase = h_Coinbase h,
     eh_ParentBeaconRoot = h_ParentBeaconRoot h\<rparr>"

definition Block_ToEth :: "('tx, 'blk) ethlib \<Rightarrow> block option \<Rightarrow> 'blk res" where
  "Block_ToEth L b = (case b of
       None \<Rightarrow> Err (ErrorNew ''converted a nil block'')
     | Some b \<Rightarrow>
         check (AdaptCosmosTxsToEthTxs L (b_Txs b)) (Errorf_v ''adapt txs'') (\<lambda>txs.
         Ok (el_NewBlock L (Header_ToEth L (b_Header b)) txs)))"

definition SetHeader :: "('tx, 'blk) ethlib \<Rightarrow> block \<Rightarrow> block res" where
  "SetHeader L blk =
     check (Block_ToEth L (Some blk)) (Errorf_v ''convert block to Ethereum representation'')
       (\<lambda>ethBlock. Ok (blk\<lparr>b_Header := (b_Header blk)\<lparr>h_Hash := el_BlockHash L ethBlock\<rparr>\<rparr>))"

definition MakeBlock :: "('tx, 'blk) ethlib \<Rightarrow> header \<Rightarrow> bytes list option \<Rightarrow> block res" where
  "MakeBlock L h txs = check (NewBlock (Some h) txs) pass (SetHeader L)"

record chain_config =
  cc_ChainID :: nat
  cc_zeroBlocks :: "string list"
  cc_zeroTimes :: "string list"

text \<open>A chain configuration is its chain id and the forks that are active from the start.\<close>

definition NewChainConfig :: "nat \<Rightarrow> chain_config" where
  "NewChainConfig chainID = \<lparr>
     cc_ChainID = chainID,
     cc_zeroBlocks = [''Byzantium'', ''Constantinople'', ''Petersburg'', ''Istanbul'', ''MuirGlacier'',
       ''Berlin'', ''London'', ''ArrowGlacier'', ''GrayGlacier'', ''MergeNetsplit'', ''Bedrock''],
     cc_zeroTimes = [''Regolith'', ''Canyon'']\<rparr>"

section \<open>Both directions\<close>

lemma ethlib_okD:
  assumes "ethlib_ok L"
  shows eth_deposit: "el_IsDepositTx L t = (el_Type L t = DepositTxType)"
    and eth_canonical: "el_UnmarshalBinary L b = Ok t \<Longrightarrow> el_MarshalBinary L t = b"
    and eth_new: "el_UnmarshalBinary L (el_MarshalBinary L (el_NewDynamicFeeTx L d)) = Ok (el_NewDynamicFeeTx L d)"
    and eth_new_deposit: "\<not> el_IsDepositTx L (el_NewDynamicFeeTx L d)"
    and eth_new_data: "el_Data L (el_NewDynamicFeeTx L d) = d"
  using assms unfolding ethlib_ok_def by blast+

definition depositTx :: "('tx, 'blk) ethlib \<Rightarrow> bytes \<Rightarrow> 'tx \<Rightarrow> bool" where
  "depositTx L p t \<longleftrightarrow> el_UnmarshalBinary L p = Ok t \<and> el_IsDepositTx L t"

definition cosmosTxOf :: "('tx, 'blk) ethlib \<Rightarrow> bytes \<Rightarrow> bytes \<Rightarrow> bool" where
  "cosmosTxOf L p d \<longleftrightarrow>
     (\<exists>t. el_UnmarshalBinary L p = Ok t \<and> \<not> el_IsDepositTx L t \<and> el_Data L t = d)"

lemma userDeposits_Ok:
  "userDeposits L ps = Ok ds \<Longrightarrow>
   map ud_Tx ds = take (length ds) ps \<and> (\<exists>ts. list_all2 (depositTx L) (take (length ds) ps) ts)"
proof (induction ps arbitrary: ds)
  case Nil
  then show ?case by simp
next
  case (Cons p ps)
  from Cons.prems obtain t where t: "el_UnmarshalBinary L p = Ok t" by (auto elim!: check_OkE)
  show ?case
  proof (cases "el_IsDepositTx L t")
    case False
    with Cons.prems t show ?thesis by simp
  next
    case True
    with Cons.prems t obtain ds' where ds': "userDeposits L ps = Ok ds'" "ds = \<lparr>ud_Tx = p\<rparr> # ds'"
      by (auto elim!: check_OkE)
    from Cons.IH [OF ds'(1)] obtain ts where
      "map ud_Tx ds' = take (length ds') ps" "list_all2 (depositTx L) (take (length ds') ps) ts" by blast
    moreover have "depositTx L p t" using t True by (simp add: depositTx_def)
    ultimately show ?thesis using ds'(2) by (auto intro!: exI [of _ "t # ts"])
  qed
qed

lemma nonDepositTxs_Ok: "nonDepositTxs L ps = Ok cs \<Longrightarrow> list_all2 (cosmosTxOf L) ps cs"
  by (induction ps arbitrary: cs) (auto simp: cosmosTxOf_def elim!: check_OkE split: if_splits)

lemma userDepositTxs_Ok:
  "list_all2 (depositTx L) (map ud_Tx ds) ts \<Longrightarrow> userDepositTxs L ds = Ok ts"
  by (induction ds arbitrary: ts) (auto simp: list_all2_Cons1 depositTx_def)

lemma userDeposits_again:
  assumes ok: "ethlib_ok L" and "list_all2 (depositTx L) (map ud_Tx ds) ts"
  shows "userDeposits L (map ud_Tx ds @ map (\<lambda>c. el_MarshalBinary L (el_NewDynamicFeeTx L c)) cs) = Ok ds"
  using assms(2)
proof (induction ds arbitrary: ts)
  case Nil
  show ?case by (cases cs) (simp_all add: eth_new [OF ok] eth_new_deposit [OF ok])
next
  case (Cons d ds)
  then show ?case by (auto simp: list_all2_Cons1 depositTx_def)
qed

lemma nonDepositTxs_again:
  assumes ok: "ethlib_ok L"
  shows "nonDepositTxs L (map (\<lambda>c. el_MarshalBinary L (el_NewDynamicFeeTx L c)) cs) = Ok cs"
  by (induction cs) (simp_all add: eth_new [OF ok] eth_new_deposit [OF ok] eth_new_data [OF ok])

lemma AdaptPayload_Ok:
  assumes "AdaptPayloadTxsToCosmosTxs L now ps = Ok cs"
  obtains p ps' t i ds d rest where "ps = p # ps'" and "el_UnmarshalBinary L p = Ok t"
    and "el_Type L t = DepositTxType" and "el_L1BlockInfoFromBytes L now (el_Data L t) = Ok i"
    and "userDeposits L ps' = Ok ds"
    and "DepositsTx_Marshal \<lparr>dt_L1Attributes = Some (l1AttributesMsg i p), dt_UserDeposits = ds\<rparr> = Ok d"
    and "nonDepositTxs L (drop (length ds) ps') = Ok rest" and "cs = d # rest"
  using assms
  by (cases ps) (auto simp: AdaptPayloadTxsToCosmosTxs_def Let_def elim!: check_OkE split: if_splits)

text \<open>
  C21: the adapters are inverse to each other where it matters. What
  \<^verbatim>\<open>AdaptPayloadTxsToCosmosTxs\<close> makes of a payload adapts back: one Ethereum
  transaction per payload transaction, the deposits identical, every other one carrying the
  Cosmos transaction as its data; and adapting those again gives the same Cosmos
  transactions, the encoded deposits transaction included.
\<close>

theorem adapters_inverse:
  assumes ok: "ethlib_ok L" and a: "AdaptPayloadTxsToCosmosTxs L now ps = Ok cs"
    and small: "length (hd cs) < 2 ^ 63"
  shows "\<exists>ets n. AdaptCosmosTxsToEthTxs L cs = Ok ets \<and> length ets = length ps \<and>
    list_all2 (depositTx L) (take n ps) (take n ets) \<and> drop n ets = map (el_NewDynamicFeeTx L) (tl cs) \<and>
    list_all2 (cosmosTxOf L) (drop n ps) (tl cs) \<and>
    AdaptPayloadTxsToCosmosTxs L now (map (el_MarshalBinary L) ets) = Ok cs"
proof -
  obtain p ps' t i ds d rest where ps: "ps = p # ps'" and t: "el_UnmarshalBinary L p = Ok t"
    "el_Type L t = DepositTxType" and i: "el_L1BlockInfoFromBytes L now (el_Data L t) = Ok i"
    and ds: "userDeposits L ps' = Ok ds"
    and d: "DepositsTx_Marshal \<lparr>dt_L1Attributes = Some (l1AttributesMsg i p), dt_UserDeposits = ds\<rparr> = Ok d"
    and rest: "nonDepositTxs L (drop (length ds) ps') = Ok rest" and cs: "cs = d # rest"
    by (rule AdaptPayload_Ok [OF a])
  let ?m = "\<lparr>dt_L1Attributes = Some (l1AttributesMsg i p), dt_UserDeposits = ds\<rparr>"
  have "d = DepositsTx_MarshalToSizedBuffer ?m" using d by (simp add: DepositsTx_Marshal_def)
  then have dec: "DepositsTx_Unmarshal d zero_DepositsTx = Ok ?m"
    using DepositsTx_round_trip(2) [of ?m] small cs by simp
  obtain ts where tx: "map ud_Tx ds = take (length ds) ps'" "list_all2 (depositTx L) (map ud_Tx ds) ts"
    using userDeposits_Ok [OF ds] by auto
  have len: "length ts = length ds" "length ds \<le> length ps'"
    using list_all2_lengthD [OF tx(2)] arg_cong [OF tx(1), of length] by simp_all
  have co: "list_all2 (cosmosTxOf L) (drop (length ds) ps') rest" by (rule nonDepositTxs_Ok [OF rest])
  let ?ets = "t # ts @ map (el_NewDynamicFeeTx L) rest"
  have dep: "depositTx L p t" using t eth_deposit [OF ok] by (simp add: depositTx_def)
  have "AdaptCosmosTxsToEthTxs L cs = Ok ?ets"
    using cs dec t(1) userDepositTxs_Ok [OF tx(2)]
    by (simp add: AdaptCosmosTxsToEthTxs_def l1AttributesMsg_def AdaptNonDepositCosmosTxToEthTx_def)
  moreover have "length ?ets = length ps" using ps len list_all2_lengthD [OF co] by simp
  moreover have "list_all2 (depositTx L) (take (Suc (length ds)) ps) (take (Suc (length ds)) ?ets)"
    using dep tx len ps by simp
  moreover have "map (el_MarshalBinary L) ?ets =
      p # map ud_Tx ds @ map (\<lambda>c. el_MarshalBinary L (el_NewDynamicFeeTx L c)) rest"
  proof -
    have "map (el_MarshalBinary L) ts = map ud_Tx ds"
      using tx(2) by (induction rule: list_all2_induct) (auto simp: depositTx_def eth_canonical [OF ok])
    then show ?thesis using eth_canonical [OF ok t(1)] by simp
  qed
  then have "AdaptPayloadTxsToCosmosTxs L now (map (el_MarshalBinary L) ?ets) = Ok cs"
    using t i d cs userDeposits_again [OF ok tx(2), of rest] nonDepositTxs_again [OF ok, of rest]
    by (simp add: AdaptPayloadTxsToCosmosTxs_def Let_def comp_def)
  ultimately show ?thesis
    using co ps cs len by (intro exI [of _ ?ets] exI [of _ "Suc (length ds)"]) simp
qed

section \<open>A transaction library for the witnesses\<close>

text \<open>Transactions are a type byte and their data; a block's hash is its header's time.\<close>

definition toy_info :: l1info where
  "toy_info = \<lparr>li_Number = 5, li_Time = 6, li_BaseFee = None, li_BlockHash = 7, li_SequenceNumber = 0,
     li_BatcherAddr = 8, li_L1FeeOverhead = 0, li_L1FeeScalar = 0, li_BlobBaseFee = None,
     li_BaseFeeScalar = 1, li_BlobBaseFeeScalar = 2\<rparr>"

fun toy_unmarshal :: "bytes \<Rightarrow> (bool \<times> bytes) res" where
  "toy_unmarshal [] = Err (External ''empty'')"
| "toy_unmarshal (b # d) = (if b = 0x7e then Ok (True, d) else if b = 2 then Ok (False, d)
     else Err (External ''type''))"

definition toy_eth :: "(bool \<times> bytes, eth_header) ethlib" where
  "toy_eth = \<lparr>el_UnmarshalBinary = toy_unmarshal,
     el_MarshalBinary = (\<lambda>(dep, d). (if dep then 0x7e else 2) # d), el_MarshalErr = (\<lambda>tx. None),
     el_Type = (\<lambda>(dep, d). if dep then 0x7e else 2), el_IsDepositTx = fst, el_Data = snd,
     el_NewDynamicFeeTx = (\<lambda>d. (False, d)), el_L1BlockInfoFromBytes = (\<lambda>now d. Ok toy_info),
     el_NewBlock = (\<lambda>h txs. h), el_BlockHash = (\<lambda>h. ucast (eh_Time h)),
     el_EmptyUncleHash = 1, el_EmptyReceiptsHash = 2, el_EmptyWithdrawalsHash = 3\<rparr>"

lemma toy_marshal [simp]: "marshalTxs toy_eth wrap txs = Ok (map (el_MarshalBinary toy_eth) txs)"
  by (rule marshalTxs_total) (simp add: toy_eth_def)

lemma toy_eth_ok: "ethlib_ok toy_eth"
proof -
  have "toy_unmarshal b = Ok t \<Longrightarrow> (case t of (dep, d) \<Rightarrow> (if dep then 0x7e else 2) # d) = b" for b t
    by (cases b) (auto split: if_splits)
  then show ?thesis by (auto simp: ethlib_ok_def toy_eth_def DepositTxType_def)
qed

definition toy_deposits :: DepositsTx where
  "toy_deposits = \<lparr>dt_L1Attributes = Some (l1AttributesMsg toy_info [0x7e, 1]),
     dt_UserDeposits = [\<lparr>ud_Tx = [0x7e, 2]\<rparr>]\<rparr>"

lemma toy_attributes_size: "MsgSetL1Attributes_Size (l1AttributesMsg toy_info [0x7e, 1]) \<le> 2000"
proof -
  note le = sizeField_le(1) sizeField_le(3)
  let ?i = "the (sa_L1BlockInfo (l1AttributesMsg toy_info [0x7e, 1]))"
  have "L1BlockInfo_Size ?i \<le> 1000"
    using le(1) [of "l1_Number ?i"] le(1) [of "l1_Time ?i"] le(1) [of "l1_SequenceNumber ?i"]
      le(2) [of "length (l1_BaseFee ?i)"] le(2) [of "length (l1_BlockHash ?i)"]
      le(2) [of "length (l1_BatcherAddr ?i)"] le(2) [of "length (l1_L1FeeOverhead ?i)"]
      le(2) [of "length (l1_L1FeeScalar ?i)"] le(2) [of "length (l1_BlobBaseFee ?i)"]
      le(1) [of "ucast (l1_BaseFeeScalar ?i)"] le(1) [of "ucast (l1_BlobBaseFeeScalar ?i)"]
    by (simp add: L1BlockInfo_Size_def l1AttributesMsg_def toy_info_def)
  then show ?thesis
    using sizeField_le(2) [of "L1BlockInfo_Size ?i"] le(2) [of "Suc (Suc 0)"]
    by (simp add: MsgSetL1Attributes_Size_def l1AttributesMsg_def)
qed

lemma toy_deposits_size: "DepositsTx_Size toy_deposits < 2 ^ 63"
  using toy_attributes_size sizeField_le(3) [of "Suc (Suc 0)"] sizeField_le(2) [of "sizeBytesField (Suc (Suc 0))"]
    sizeField_le(2) [of "MsgSetL1Attributes_Size (l1AttributesMsg toy_info [0x7e, 1])"]
  by (simp add: DepositsTx_Size_def toy_deposits_def MsgApplyUserDeposit_Size_def)

lemma toy_payload: "AdaptPayloadTxsToCosmosTxs toy_eth now [[0x7e, 1], [0x7e, 2], [2, 9]] =
   Ok [DepositsTx_MarshalToSizedBuffer toy_deposits, [9]]"
  using DepositsTx_round_trip(1) [OF toy_deposits_size]
  by (simp add: AdaptPayloadTxsToCosmosTxs_def toy_eth_def toy_deposits_def DepositTxType_def Let_def)

lemma toy_adapt: "\<exists>ets. AdaptCosmosTxsToEthTxs toy_eth [DepositsTx_MarshalToSizedBuffer toy_deposits, [9]] = Ok ets"
  using DepositsTx_round_trip(2) [OF toy_deposits_size]
  by (simp add: AdaptCosmosTxsToEthTxs_def toy_eth_def toy_deposits_def DepositTxType_def l1AttributesMsg_def)

theorem adapters_inverse_witness:
  "\<exists>cs ets. AdaptPayloadTxsToCosmosTxs toy_eth 0 [[0x7e, 1], [0x7e, 2], [2, 9]] = Ok cs \<and>
     AdaptCosmosTxsToEthTxs toy_eth cs = Ok ets \<and> length ets = 3 \<and>
     AdaptPayloadTxsToCosmosTxs toy_eth 0 (map (el_MarshalBinary toy_eth) ets) = Ok cs"
proof -
  have "length (hd [DepositsTx_MarshalToSizedBuffer toy_deposits, [9]]) < 2 ^ 63"
    using toy_deposits_size by simp
  from adapters_inverse [OF toy_eth_ok toy_payload [of 0] this] obtain ets where
    "AdaptCosmosTxsToEthTxs toy_eth [DepositsTx_MarshalToSizedBuffer toy_deposits, [9]] = Ok ets"
    "length ets = 3" "AdaptPayloadTxsToCosmosTxs toy_eth 0 (map (el_MarshalBinary toy_eth) ets) =
       Ok [DepositsTx_MarshalToSizedBuffer toy_deposits, [9]]"
    by (auto simp: numeral_3_eq_3)
  with toy_payload [of 0] show ?thesis by blast
qed

section \<open>The hash of a block\<close>

text \<open>
  \<^verbatim>\<open>MakeBlock\<close> changes nothing but the hash, and the hash it sets is a function of the
  rest of the block: whatever hash the header carried before gives the same block, and
  setting the header again changes nothing.
\<close>

theorem make_block_sets_only_the_hash:
  assumes "MakeBlock L h (Some txs) = Ok b"
  shows "b_Txs b = txs \<and> (b_Header b)\<lparr>h_Hash := h_Hash h\<rparr> = h \<and> SetHeader L b = Ok b \<and>
    MakeBlock L (h\<lparr>h_Hash := x\<rparr>) (Some txs) = Ok b"
proof -
  have inv: "Header_ToEth L (h\<lparr>h_Hash := y\<rparr>) = Header_ToEth L h" for y by (simp add: Header_ToEth_def)
  from assms obtain ts where ts: "AdaptCosmosTxsToEthTxs L txs = Ok ts"
    by (auto simp: MakeBlock_def SetHeader_def Block_ToEth_def elim!: check_OkE)
  with assms have b: "b = \<lparr>b_Header = h\<lparr>h_Hash := el_BlockHash L (el_NewBlock L (Header_ToEth L h) ts)\<rparr>, b_Txs = txs\<rparr>"
    by (simp add: MakeBlock_def SetHeader_def Block_ToEth_def)
  show ?thesis unfolding b by (simp add: MakeBlock_def SetHeader_def Block_ToEth_def ts inv)
qed

theorem make_block_sets_only_the_hash_witness:
  "SetHeader toy_eth \<lparr>b_Header = zero_header\<lparr>h_Time := 4, h_Hash := 4\<rparr>, b_Txs = []\<rparr> =
     Ok \<lparr>b_Header = zero_header\<lparr>h_Time := 4, h_Hash := 4\<rparr>, b_Txs = []\<rparr>"
proof -
  have "MakeBlock toy_eth (zero_header\<lparr>h_Time := 4\<rparr>) (Some []) =
      Ok \<lparr>b_Header = zero_header\<lparr>h_Time := 4, h_Hash := 4\<rparr>, b_Txs = []\<rparr>"
    by (simp add: MakeBlock_def SetHeader_def Block_ToEth_def AdaptCosmosTxsToEthTxs_def toy_eth_def
        Header_ToEth_def)
  from make_block_sets_only_the_hash [OF this] show ?thesis by simp
qed

end
