(* ===== verification/Evm.thy ===== *)
theory Evm
  imports Adapters
begin

text \<open>
  The EVM the builder keeps for withdrawals (\<^verbatim>\<open>evm\<close>, \<^verbatim>\<open>bindings\<close>, \<^verbatim>\<open>contracts\<close>): building
  an EVM on a state and a header, calling a predeployed contract, and the two executers.
  go-ethereum's state, EVM and ABI codec are parameters.
\<close>

section \<open>go-ethereum's state, EVM and ABI\<close>

datatype abi_arg = AHash hash | AAddress "address option" | ABig "nat option" | ABytes bytes

text \<open>What an EVM is built from; the rest of \<^verbatim>\<open>vm.EVM\<close> is fixed by the source.\<close>

record evm =
  evm_Header :: eth_header
  evm_Coinbase :: address
  evm_Config :: chain_config
  evm_GasLimit :: u64
  evm_Origin :: address
  evm_GasPrice :: nat
  evm_NoBaseFee :: bool

record ('es, 'db, 'abi) evmlib =
  ev_StateNew :: "hash \<Rightarrow> 'db \<Rightarrow> 'es res"
  ev_Commit :: "'es \<Rightarrow> u64 \<Rightarrow> bool \<Rightarrow> ('db, hash) op"
  ev_Call :: "evm \<Rightarrow> address \<Rightarrow> address \<Rightarrow> bytes \<Rightarrow> u64 \<Rightarrow> 256 word \<Rightarrow> ('es, bytes) op"
  ev_SetCode :: "address \<Rightarrow> bytes \<Rightarrow> 'es \<Rightarrow> 'es"
  ev_ABI :: "string \<Rightarrow> 'abi res"
  ev_Pack :: "'abi \<Rightarrow> string \<Rightarrow> abi_arg list \<Rightarrow> bytes res"
  ev_UnpackHash :: "'abi \<Rightarrow> string \<Rightarrow> bytes \<Rightarrow> hash res"
  ev_UnpackBig :: "'abi \<Rightarrow> string \<Rightarrow> bytes \<Rightarrow> nat res"
  ev_UnpackBool :: "'abi \<Rightarrow> string \<Rightarrow> bytes \<Rightarrow> bool res"
  ev_MessagePasserAddr :: address
  ev_RootProviderABI :: string
  ev_RootProviderBin :: bytes
  ev_MessagePasserABI :: string
  ev_MessagePasserBin :: bytes

section \<open>evm/evm.go\<close>

definition MonomerEVMTxOriginAddress :: address where
  "MonomerEVMTxOriginAddress = 0x4300000000000000000000000000000000000000"

text \<open>Every transfer is allowed.\<close>

definition CanTransfer :: "'es \<Rightarrow> address \<Rightarrow> 256 word \<Rightarrow> bool" where
  "CanTransfer db addr amount = True"

definition NewEVM :: "('tx, 'blk) ethlib \<Rightarrow> header \<Rightarrow> evm res" where
  "NewEVM L h = Ok \<lparr>
     evm_Header = Header_ToEth L h,
     evm_Coinbase = MonomerEVMTxOriginAddress,
     evm_Config = \<lparr>cc_ChainID = ChainID_Big (h_ChainID h),
       cc_zeroBlocks = [''Byzantium'', ''Constantinople'', ''Petersburg'', ''Istanbul'', ''MuirGlacier'',
         ''ArrowGlacier'', ''GrayGlacier'', ''MergeNetsplit'', ''Bedrock''],
       cc_zeroTimes = [''Regolith'', ''Canyon'']\<rparr>,
     evm_GasLimit = 100000000,
     evm_Origin = MonomerEVMTxOriginAddress,
     evm_GasPrice = 0,
     evm_NoBaseFee = True\<rparr>"

section \<open>evm/executer.go\<close>

record 'abi executer =
  ex_ABI :: 'abi
  ex_evm :: evm
  ex_contractAddr :: address

record call_params =
  cp_Sender :: "address option"
  cp_Value :: "nat option"
  cp_Data :: bytes

definition NewMonomerContractExecuter ::
    "('es, 'db, 'abi) evmlib \<Rightarrow> evm \<Rightarrow> string \<Rightarrow> address \<Rightarrow> 'abi executer res" where
  "NewMonomerContractExecuter V e abiJSON contractAddr =
     check (ev_ABI V abiJSON) pass (\<lambda>abi.
     Ok \<lparr>ex_ABI = abi, ex_evm = e, ex_contractAddr = contractAddr\<rparr>)"

definition getCallParams :: "call_params \<Rightarrow> address \<times> 256 word \<times> bytes" where
  "getCallParams p =
     (case cp_Sender p of None \<Rightarrow> MonomerEVMTxOriginAddress | Some a \<Rightarrow> a,
      case cp_Value p of None \<Rightarrow> 0 | Some v \<Rightarrow> of_nat v,
      cp_Data p)"

definition Executer_Call ::
    "('es, 'db, 'abi) evmlib \<Rightarrow> 'abi executer \<Rightarrow> call_params \<Rightarrow> ('es, bytes) op" where
  "Executer_Call V e params =
     (case getCallParams params of (sender, value, data) \<Rightarrow>
      scheck (ev_Call V (ex_evm e) sender (ex_contractAddr e) data (evm_GasLimit (ex_evm e)) value)
        (Errorf_v ''call contract'') sret)"

definition dataCall :: "bytes \<Rightarrow> call_params" where
  "dataCall data = \<lparr>cp_Sender = None, cp_Value = None, cp_Data = data\<rparr>"

section \<open>contracts/predeploys.go\<close>

definition L2ApplicationStateRootProviderAddr :: address where
  "L2ApplicationStateRootProviderAddr = 0x4300000000000000000000000000000000000001"

definition predeploys :: "('es, 'db, 'abi) evmlib \<Rightarrow> (address \<times> bytes) list" where
  "predeploys V = [(L2ApplicationStateRootProviderAddr, ev_RootProviderBin V),
     (ev_MessagePasserAddr V, ev_MessagePasserBin V)]"

definition Predeploy :: "('es, 'db, 'abi) evmlib \<Rightarrow> 'es \<Rightarrow> 'es" where
  "Predeploy V ethState =
     fold (\<lambda>(address, deployedBytecode) st. ev_SetCode V address deployedBytecode st)
       (predeploys V) ethState"

section \<open>The executer of the application state root provider\<close>

definition NewL2ApplicationStateRootProviderExecuter ::
    "('es, 'db, 'abi) evmlib \<Rightarrow> evm \<Rightarrow> 'abi executer res" where
  "NewL2ApplicationStateRootProviderExecuter V e =
     check (NewMonomerContractExecuter V e (ev_RootProviderABI V) L2ApplicationStateRootProviderAddr)
       pass Ok"

definition GetL2ApplicationStateRoot ::
    "('es, 'db, 'abi) evmlib \<Rightarrow> 'abi executer \<Rightarrow> ('es, hash) op" where
  "GetL2ApplicationStateRoot V e =
     scheck (slift (\<lambda>_. ev_Pack V (ex_ABI e) ''l2ApplicationStateRoot'' []))
       (Errorf_v ''create l2ApplicationStateRoot data'') (\<lambda>data.
     scheck (Executer_Call V e (dataCall data)) (Errorf_v ''call getL2ApplicationStateRoot'') (\<lambda>res.
     scheck (slift (\<lambda>_. ev_UnpackHash V (ex_ABI e) ''l2ApplicationStateRoot'' res))
       (Errorf_v ''unpack l2ApplicationStateRoot'') sret))"

definition SetL2ApplicationStateRoot ::
    "('es, 'db, 'abi) evmlib \<Rightarrow> 'abi executer \<Rightarrow> hash \<Rightarrow> ('es, unit) op" where
  "SetL2ApplicationStateRoot V e stateRoot =
     scheck (slift (\<lambda>_. ev_Pack V (ex_ABI e) ''setL2ApplicationStateRoot'' [AHash stateRoot]))
       (Errorf_v ''create setL2ApplicationStateRoot data'') (\<lambda>data.
     scheck (Executer_Call V e (dataCall data)) (Errorf_v ''call setL2ApplicationStateRoot'') (\<lambda>_.
     sret ()))"

section \<open>The executer of the message passer\<close>

record withdrawal =
  wd_Sender :: "address option"
  wd_Target :: "address option"
  wd_Value :: "nat option"
  wd_GasLimit :: "nat option"
  wd_Data :: bytes

definition empty_withdrawal :: withdrawal where
  "empty_withdrawal = \<lparr>wd_Sender = None, wd_Target = None, wd_Value = None, wd_GasLimit = None,
     wd_Data = []\<rparr>"

definition NewL2ToL1MessagePasserExecuter ::
    "('es, 'db, 'abi) evmlib \<Rightarrow> evm \<Rightarrow> 'abi executer res" where
  "NewL2ToL1MessagePasserExecuter V e =
     check (NewMonomerContractExecuter V e (ev_MessagePasserABI V) (ev_MessagePasserAddr V)) pass Ok"

definition InitiateWithdrawal ::
    "('es, 'db, 'abi) evmlib \<Rightarrow> 'abi executer \<Rightarrow> withdrawal \<Rightarrow> ('es, unit) op" where
  "InitiateWithdrawal V e params =
     scheck (slift (\<lambda>_. ev_Pack V (ex_ABI e) ''initiateWithdrawal''
         [AAddress (wd_Target params), ABig (wd_GasLimit params), ABytes (wd_Data params)]))
       (Errorf_v ''create initiateWithdrawal data'') (\<lambda>data.
     scheck (Executer_Call V e \<lparr>cp_Sender = wd_Sender params, cp_Value = wd_Value params, cp_Data = data\<rparr>)
       (Errorf_v ''call initiateWithdrawal'') (\<lambda>_. sret ()))"

definition GetSentMessagesMappingValue ::
    "('es, 'db, 'abi) evmlib \<Rightarrow> 'abi executer \<Rightarrow> hash \<Rightarrow> ('es, bool) op" where
  "GetSentMessagesMappingValue V e withdrawalHash =
     scheck (slift (\<lambda>_. ev_Pack V (ex_ABI e) ''sentMessages'' [AHash withdrawalHash]))
       (Errorf_v ''create sentMessages data'') (\<lambda>data.
     scheck (Executer_Call V e (dataCall data)) (Errorf_v ''call sentMessages'') (\<lambda>res.
     scheck (slift (\<lambda>_. ev_UnpackBool V (ex_ABI e) ''sentMessages'' res))
       (Errorf_v ''unpack sentMessages'') sret))"

definition GetMessageNonce :: "('es, 'db, 'abi) evmlib \<Rightarrow> 'abi executer \<Rightarrow> ('es, nat) op" where
  "GetMessageNonce V e =
     scheck (slift (\<lambda>_. ev_Pack V (ex_ABI e) ''messageNonce'' []))
       (Errorf_v ''create messageNonce data'') (\<lambda>data.
     scheck (Executer_Call V e (dataCall data)) (Errorf_v ''call messageNonce'') (\<lambda>res.
     scheck (slift (\<lambda>_. ev_UnpackBig V (ex_ABI e) ''messageNonce'' res))
       (Errorf_v ''unpack messageNonce'') sret))"

end
