(* ===== verification/TxStore.thy ===== *)
theory TxStore
  imports Chain
begin

text \<open>
  The transaction index (\<^verbatim>\<open>app/peptide/txstore/txstore.go\<close>): CometBFT's key-value indexer
  over cometbft-db, and the rollback that deletes the indexer's rows behind its back. The
  database and the indexer are parameters; the keys the rollback ranges over are the
  source's.
\<close>

section \<open>Transaction results\<close>

record event =
  e_Type :: string
  e_Attributes :: "(string \<times> string) list"

record exec_result =
  x_Code :: u32
  x_Data :: bytes
  x_Log :: string
  x_GasWanted :: int
  x_GasUsed :: int
  x_Events :: "event list"

definition IsOK :: "exec_result \<Rightarrow> bool" where
  "IsOK r = (x_Code r = 0)"

record tx_result =
  tr_Height :: int
  tr_Index :: u32
  tr_Tx :: bytes
  tr_Result :: exec_result

section \<open>The store\<close>

record ('s, 'q) txstore_env =
  ts_db :: "'s dbm"
  ts_Get :: "'s \<Rightarrow> bytes \<Rightarrow> tx_result option res"
  ts_Search :: "'s \<Rightarrow> 'q \<Rightarrow> tx_result list res"
  ts_BatchAdd :: "tx_result list \<Rightarrow> tx_result \<Rightarrow> tx_result list res"
  ts_AddBatch :: "tx_result list \<Rightarrow> ('s, unit) op"

definition TxStore_Get :: "('s, 'q) txstore_env \<Rightarrow> bytes \<Rightarrow> 's \<Rightarrow> tx_result option res" where
  "TxStore_Get T x s = ts_Get T s x"

definition TxStore_Search :: "('s, 'q) txstore_env \<Rightarrow> 'q \<Rightarrow> 's \<Rightarrow> tx_result list res" where
  "TxStore_Search T q s = ts_Search T s q"

fun addTxs :: "('s, 'q) txstore_env \<Rightarrow> nat \<Rightarrow> tx_result list \<Rightarrow> tx_result list \<Rightarrow> tx_result list res" where
  "addTxs T i [] batch = Ok batch"
| "addTxs T i (txResult # txs) batch =
     check (ts_BatchAdd T batch (txResult\<lparr>tr_Index := of_nat i\<rparr>))
       (Errorf_w ''failed to add txs to txstore due to'') (\<lambda>batch.
     addTxs T (Suc i) txs batch)"

definition TxStore_Add :: "('s, 'q) txstore_env \<Rightarrow> tx_result list \<Rightarrow> ('s, unit) op" where
  "TxStore_Add T txs =
     scheck (slift (\<lambda>_. addTxs T 0 txs [])) pass (\<lambda>batch.
     scheck (ts_AddBatch T batch) (Errorf_w ''failed to add txs to txstore'') (\<lambda>_.
     sret ()))"

text \<open>The iterator's bounds for one height.\<close>

definition TxHeightKey :: string where "TxHeightKey = ''tx.height''"

definition heightPrefix :: "u64 \<Rightarrow> string" where
  "heightPrefix height = TxHeightKey @ ''/'' @ dec_string (unat height) @ ''/'' @ dec_string (unat height)"

fun deleteRows :: "('s, 'q) txstore_env \<Rightarrow> 's \<Rightarrow> (bytes \<times> bytes) list \<Rightarrow> batch \<Rightarrow> batch res" where
  "deleteRows T s [] b = Ok b"
| "deleteRows T s ((k, v) # kvs) b =
     (case dbm_BatchOp (ts_db T) s b (BDelete k) of
        Some e \<Rightarrow> Err e
      | None \<Rightarrow>
          (case dbm_BatchOp (ts_db T) s (b @ [BDelete k]) (BDelete v) of
             Some e \<Rightarrow> Err e
           | None \<Rightarrow> deleteRows T s kvs (b @ [BDelete k, BDelete v])))"

text \<open>\<^verbatim>\<open>it.Close\<close> is deferred before the error is checked: with an error \<^verbatim>\<open>it\<close> is nil.\<close>

definition rollbackOneBlock :: "('s, 'q) txstore_env \<Rightarrow> 's \<Rightarrow> batch \<Rightarrow> u64 \<Rightarrow> batch res" where
  "rollbackOneBlock T s b height =
     (case dbm_Iterator (ts_db T) s (str (heightPrefix height @ ''/''))
             (str (heightPrefix height @ ''~'')) of
        Err e \<Rightarrow> Panic (External ''nil pointer dereference'')
      | Panic p \<Rightarrow> Panic p
      | Ok it \<Rightarrow> deleteRows T s it b)"

text \<open>
  The loop over heights. It compares 64-bit values, so with the largest height as the current
  one it never ends: \<open>None\<close>.
\<close>

partial_function (option) rollbackBlocks ::
    "('s, 'q) txstore_env \<Rightarrow> 's \<Rightarrow> u64 \<Rightarrow> u64 \<Rightarrow> batch \<Rightarrow> batch res option" where
  "rollbackBlocks T s h currentHeight b =
     (if h \<le> currentHeight then
        (case rollbackOneBlock T s b h of
           Ok b' \<Rightarrow> rollbackBlocks T s (h + 1) currentHeight b'
         | Err e \<Rightarrow> Some (Err e)
         | Panic p \<Rightarrow> Some (Panic p))
      else Some (Ok b))"

declare rollbackBlocks.simps [code]

definition RollbackToHeight ::
    "('s, 'q) txstore_env \<Rightarrow> u64 \<Rightarrow> u64 \<Rightarrow> 's \<Rightarrow> (unit res \<times> 's) option" where
  "RollbackToHeight T rollbackHeight currentHeight s =
     map_option (\<lambda>r. case r of
         Ok b \<Rightarrow> (case dbm_WriteSync (ts_db T) s b of
             (Ok u, s') \<Rightarrow> (Ok (), s')
           | (Err e, s') \<Rightarrow> (Panic e, s')
           | (Panic p, s') \<Rightarrow> (Panic p, s'))
       | Err e \<Rightarrow> (Err e, s)
       | Panic p \<Rightarrow> (Panic p, s))
     (rollbackBlocks T s (rollbackHeight + 1) currentHeight [])"

section \<open>Decimal digits\<close>

lemma dec_string_digits: "c \<in> set (dec_string n) \<Longrightarrow> 48 \<le> (of_char c :: nat) \<and> of_char c \<le> (57 :: nat)"
proof (induction n rule: dec_string.induct)
  case (1 n)
  show ?case
  proof (cases "n < 10")
    case True
    with 1(2) show ?thesis by (simp add: dec_string.simps)
  next
    case False
    then have "dec_string n = dec_string (n div 10) @ [char_of (48 + n mod 10)]"
      by (subst dec_string.simps) simp
    with 1 False show ?thesis by auto
  qed
qed

definition dec_value :: "string \<Rightarrow> nat" where
  "dec_value s = foldl (\<lambda>a c. 10 * a + (of_char c - 48)) 0 s"

lemma dec_value_string: "dec_value (dec_string n) = n"
proof (induction n rule: dec_string.induct)
  case (1 n)
  show ?case
  proof (cases "n < 10")
    case True
    then show ?thesis by (simp add: dec_string.simps dec_value_def)
  next
    case False
    then have "dec_string n = dec_string (n div 10) @ [char_of (48 + n mod 10)]"
      by (subst dec_string.simps) simp
    moreover have "n mod 10 < 10" by simp
    ultimately show ?thesis using 1 [OF False] by (simp add: dec_value_def)
  qed
qed

lemma dec_string_inj: "dec_string m = dec_string n \<Longrightarrow> m = n"
  by (metis dec_value_string)

section \<open>The rows of one height\<close>

text \<open>A row of the index for a height: its key continues the height's prefix with a slash.\<close>

definition heightRow :: "u64 \<Rightarrow> bytes \<Rightarrow> bool" where
  "heightRow h k \<longleftrightarrow> (\<exists>r. k = str (heightPrefix h @ ''/'') @ r)"

lemma str_append [simp]: "str (s @ t) = str s @ str t"
  and str_Cons [simp]: "str (c # s) = of_char c # str s"
  and str_Nil [simp]: "str [] = []"
  by (simp_all add: str_def)

lemma unat_of_char: "unat (of_char c :: byte) = of_char c"
proof -
  have "unat (of_char c :: byte) = unat (word_of_nat (of_char c) :: byte)" by (simp only: of_nat_of_char)
  then show ?thesis by (simp only: unat_byte_of_nat) simp
qed

lemma str_inj [simp]: "str s = str t \<longleftrightarrow> s = t"
proof -
  have "inj (of_char :: char \<Rightarrow> byte)"
    by (rule injI) (metis unat_of_char of_char_eq_iff)
  then show ?thesis by (simp add: str_def inj_map_eq_map)
qed

lemma between_suffix:
  fixes x :: bytes
  assumes "x @ [lo] \<le> k" and "k < x @ [hi]"
  shows "\<exists>c r. k = x @ c # r \<and> lo \<le> c \<and> c < hi"
  using assms
proof (induction x arbitrary: k)
  case Nil
  then show ?case by (cases k) auto
next
  case (Cons a x)
  then obtain b k' where k: "k = b # k'" by (cases k) auto
  with Cons.prems have "b = a" by auto
  with Cons k show ?case by auto
qed

lemma slash_split:
  assumes "xs @ of_char CHR ''/'' # us = ys @ of_char CHR ''/'' # (vs :: bytes)"
    and "of_char CHR ''/'' \<notin> set xs" and "of_char CHR ''/'' \<notin> set ys"
  shows "xs = ys \<and> us = vs"
  using assms
proof (induction xs arbitrary: ys)
  case Nil
  then show ?case by (cases ys) auto
next
  case (Cons x xs)
  then show ?case by (cases ys) auto
qed

lemma slash_not_digit: "(47 :: byte) \<notin> set (str (dec_string n))"
proof
  assume "(47 :: byte) \<in> set (str (dec_string n))"
  then obtain c where c: "c \<in> set (dec_string n)" "(of_char c :: byte) = 47" by (auto simp: str_def)
  then have "unat (47 :: byte) = of_char c" by (metis unat_of_char)
  with dec_string_digits [OF c(1)] show False by simp
qed

lemma of_char_marks: "(of_char CHR ''/'' :: byte) = 47" "(of_char CHR ''~'' :: byte) = 126"
  by simp_all

lemma range_is_heightRow:
  "str (heightPrefix h @ ''/'') \<le> k \<and> k < str (heightPrefix h @ ''~'') \<and> heightRow h' k \<longleftrightarrow>
   h' = h \<and> heightRow h k"
proof
  assume "str (heightPrefix h @ ''/'') \<le> k \<and> k < str (heightPrefix h @ ''~'') \<and> heightRow h' k"
  then have lo: "str (heightPrefix h) @ [47] \<le> k" and hi: "k < str (heightPrefix h) @ [126]"
    and row: "heightRow h' k" by simp_all
  obtain c r where k: "k = str (heightPrefix h) @ c # r" using between_suffix [OF lo hi] by blast
  obtain r' where "k = str (heightPrefix h' @ ''/'') @ r'" using row by (auto simp: heightRow_def)
  with k have "str (dec_string (unat h)) @ 47 # str (dec_string (unat h)) @ c # r =
      str (dec_string (unat h')) @ 47 # str (dec_string (unat h')) @ 47 # r'"
    by (simp add: heightPrefix_def)
  then have "str (dec_string (unat h)) = str (dec_string (unat h'))"
    using slash_split [of "str (dec_string (unat h))" _ "str (dec_string (unat h'))"]
      slash_not_digit of_char_marks by metis
  then have "dec_string (unat h) = dec_string (unat h')" by simp
  then have "unat h = unat h'" by (rule dec_string_inj)
  then have "h = h'" by (rule word_unat_eq_iff [THEN iffD2])
  with row show "h' = h \<and> heightRow h k" by simp
next
  assume "h' = h \<and> heightRow h k"
  then obtain r where k: "k = str (heightPrefix h) @ 47 # r" and "h' = h" "heightRow h k"
    by (auto simp: heightRow_def)
  moreover have "str (heightPrefix h) @ [47] \<le> k" unfolding k using append_le_self [of "[47]" r] by simp
  moreover have "k < str (heightPrefix h) @ [126]" unfolding k by (simp add: word_less_nat_alt)
  ultimately show "str (heightPrefix h @ ''/'') \<le> k \<and> k < str (heightPrefix h @ ''~'') \<and> heightRow h' k"
    by simp
qed

section \<open>What a rollback deletes\<close>

definition inRange :: "u64 \<Rightarrow> bytes \<Rightarrow> bool" where
  "inRange h k \<longleftrightarrow> str (heightPrefix h @ ''/'') \<le> k \<and> k < str (heightPrefix h @ ''~'')"

text \<open>The keys and values in the ranges of the heights from \<open>h\<close> to \<open>c\<close>.\<close>

definition doomed :: "(bytes \<rightharpoonup> bytes) \<Rightarrow> u64 \<Rightarrow> u64 \<Rightarrow> bytes set" where
  "doomed m h c = {x. \<exists>n k v. h \<le> n \<and> n \<le> c \<and> inRange n k \<and> m k = Some v \<and> x \<in> {k, v}}"

definition without :: "bytes set \<Rightarrow> (bytes \<rightharpoonup> bytes) \<Rightarrow> (bytes \<rightharpoonup> bytes)" where
  "without D m = (\<lambda>x. if x \<in> D then None else m x)"

lemma without_without: "without D (without D' m) = without (D' \<union> D) m"
  by (auto simp: without_def)

lemma deleteRows_ok:
  assumes ok: "dbm_ok (ts_db T) view"
  shows "\<exists>b'. deleteRows T s kvs b = Ok (b @ b') \<and>
    (\<forall>m. apply_batch b' m = without (fst ` set kvs \<union> snd ` set kvs) m)"
proof (induction kvs arbitrary: b)
  case Nil
  show ?case by (simp add: without_def)
next
  case (Cons p kvs)
  obtain k v where p: "p = (k, v)" by (cases p)
  obtain b' where b': "deleteRows T s kvs (b @ [BDelete k, BDelete v]) = Ok ((b @ [BDelete k, BDelete v]) @ b')"
    "\<And>m. apply_batch b' m = without (fst ` set kvs \<union> snd ` set kvs) m"
    using Cons by blast
  have "deleteRows T s (p # kvs) b = Ok (b @ ([BDelete k, BDelete v] @ b'))"
    using b'(1) by (simp add: p dbm_BatchOp_ok [OF ok])
  moreover have "apply_batch ([BDelete k, BDelete v] @ b') m =
      without (fst ` set (p # kvs) \<union> snd ` set (p # kvs)) m" for m
    by (auto simp: b'(2) p without_def fun_eq_iff)
  ultimately show ?case by blast
qed

lemma rollbackOneBlock_ok:
  assumes ok: "dbm_ok (ts_db T) view"
  shows "\<exists>b'. rollbackOneBlock T s b h = Ok (b @ b') \<and>
    (\<forall>m. apply_batch b' m = without (doomed (view s) h h) m)"
proof -
  obtain kvs where kvs: "dbm_Iterator (ts_db T) s (str (heightPrefix h @ ''/'')) (str (heightPrefix h @ ''~'')) = Ok kvs"
    "lists_range (view s) (str (heightPrefix h @ ''/'')) (str (heightPrefix h @ ''~'')) kvs"
    using dbm_Iterator_ok [OF ok] by blast
  have mem: "(k, v) \<in> set kvs \<longleftrightarrow> view s k = Some v \<and> inRange h k" for k v
    using kvs(2) by (simp add: lists_range_def inRange_def)
  have "fst ` set kvs \<union> snd ` set kvs = {x. \<exists>k v. (k, v) \<in> set kvs \<and> x \<in> {k, v}}" by force
  then have "fst ` set kvs \<union> snd ` set kvs = doomed (view s) h h"
    unfolding mem doomed_def using antisym [of h] by blast
  then show ?thesis
    using deleteRows_ok [OF ok, of s kvs b] kvs(1) by (simp add: rollbackOneBlock_def)
qed

lemma doomed_split:
  assumes "h \<le> c" and "c \<noteq> - 1"
  shows "doomed m h h \<union> doomed m (h + 1) c = doomed m h c"
proof -
  have h: "h \<noteq> - 1" using assms by (metis word_order.extremum_uniqueI)
  have "h \<le> n \<and> n \<le> c \<longleftrightarrow> (h \<le> n \<and> n \<le> h) \<or> (h + 1 \<le> n \<and> n \<le> c)" for n
  proof -
    have "h + 1 \<le> n \<longleftrightarrow> h < n" by (rule Suc_le_iff_less [OF h])
    then show ?thesis using assms(1) by auto
  qed
  then show ?thesis unfolding doomed_def by blast
qed

lemma doomed_empty: "c < h \<Longrightarrow> doomed m h c = {}"
  by (auto simp: doomed_def dest: order_trans leD)

lemma rollbackBlocks_ok:
  assumes ok: "dbm_ok (ts_db T) view" and c: "c \<noteq> - 1"
  shows "\<exists>b'. rollbackBlocks T s h c b = Some (Ok (b @ b')) \<and>
    (\<forall>m. apply_batch b' m = without (doomed (view s) h c) m)"
proof (induction "unat c + 1 - unat h" arbitrary: h b)
  case 0
  then have "c < h" by (simp add: word_less_nat_alt)
  then have "\<not> h \<le> c" by simp
  with \<open>c < h\<close> show ?case by (subst rollbackBlocks.simps) (simp add: doomed_empty without_def)
next
  case (Suc k)
  then have le: "h \<le> c" by (simp add: word_le_nat_alt)
  then have h: "h \<noteq> - 1" using c by (metis word_order.extremum_uniqueI)
  obtain b1 where b1: "rollbackOneBlock T s b h = Ok (b @ b1)"
    "\<And>m. apply_batch b1 m = without (doomed (view s) h h) m"
    using rollbackOneBlock_ok [OF ok] by blast
  have "k = unat c + 1 - unat (h + 1)" using Suc.hyps(2) by (simp add: unat_u64_Suc [OF h])
  from Suc.hyps(1) [OF this, of "b @ b1"] obtain b2 where
    b2: "rollbackBlocks T s (h + 1) c (b @ b1) = Some (Ok ((b @ b1) @ b2))"
      "\<And>m. apply_batch b2 m = without (doomed (view s) (h + 1) c) m" by blast
  have "rollbackBlocks T s h c b = Some (Ok (b @ (b1 @ b2)))"
    using le b1(1) b2(1) by (subst rollbackBlocks.simps) simp
  moreover have "apply_batch (b1 @ b2) m = without (doomed (view s) h c) m" for m
    using doomed_split [OF le c] by (simp add: b1(2) b2(2) without_without)
  ultimately show ?case by blast
qed

lemma RollbackToHeight_ok:
  assumes ok: "dbm_ok (ts_db T) view" and c: "c \<noteq> - 1"
  shows "\<exists>s'. RollbackToHeight T r c s = Some (Ok (), s') \<and>
    view s' = without (doomed (view s) (r + 1) c) (view s)"
proof -
  obtain b where b: "rollbackBlocks T s (r + 1) c [] = Some (Ok b)"
    "\<And>m. apply_batch b m = without (doomed (view s) (r + 1) c) m"
    using rollbackBlocks_ok [OF ok c, of s "r + 1" "[]"] by auto
  obtain s' where "dbm_WriteSync (ts_db T) s b = (Ok (), s')" "view s' = apply_batch b (view s)"
    using dbm_WriteSync_ok [OF ok] by blast
  with b show ?thesis by (simp add: RollbackToHeight_def)
qed

lemma doomed_rows:
  assumes r: "r \<noteq> - 1" and wf: "\<And>n k. inRange n k \<Longrightarrow> m k \<noteq> None \<Longrightarrow> \<exists>n'. heightRow n' k"
  shows "x \<in> doomed m (r + 1) c \<longleftrightarrow>
    (\<exists>n k v. r < n \<and> n \<le> c \<and> heightRow n k \<and> m k = Some v \<and> x \<in> {k, v})"
proof -
  have "inRange n k \<longleftrightarrow> heightRow n k" if "m k = Some v" for n k v
    using wf [of n k] that range_is_heightRow [of n k] unfolding inRange_def by (metis option.distinct(1))
  then show ?thesis unfolding doomed_def Suc_le_iff_less [OF r] by blast
qed

section \<open>Properties\<close>

text \<open>
  Rolling the transaction index back to a height ends and deletes exactly the rows of
  the later heights: for an index whose rows in the scanned ranges are height rows, every
  row of a height above the target up to the current one is gone, so is the transaction
  each of them names, and nothing else changes. In particular a scan of height 1 does
  not touch height 10.
\<close>

theorem txstore_rollback_exact:
  assumes ok: "dbm_ok (ts_db T) view" and c: "c \<noteq> - 1" and r: "r \<noteq> - 1"
    and wf: "\<And>n k. inRange n k \<Longrightarrow> view s k \<noteq> None \<Longrightarrow> \<exists>n'. heightRow n' k"
  shows "\<exists>s'. RollbackToHeight T r c s = Some (Ok (), s') \<and>
    (\<forall>n k v. r < n \<and> n \<le> c \<and> heightRow n k \<and> view s k = Some v \<longrightarrow> view s' k = None \<and> view s' v = None) \<and>
    (\<forall>x. view s' x \<noteq> view s x \<longrightarrow>
       (\<exists>n k v. r < n \<and> n \<le> c \<and> heightRow n k \<and> view s k = Some v \<and> x \<in> {k, v}))"
proof -
  obtain s' where s': "RollbackToHeight T r c s = Some (Ok (), s')"
    "view s' = without (doomed (view s) (r + 1) c) (view s)"
    using RollbackToHeight_ok [OF ok c] by blast
  have "x \<in> doomed (view s) (r + 1) c \<longleftrightarrow>
      (\<exists>n k v. r < n \<and> n \<le> c \<and> heightRow n k \<and> view s k = Some v \<and> x \<in> {k, v})" for x
    by (rule doomed_rows [OF r wf])
  note rows = this
  have "view s' x = None" if "x \<in> doomed (view s) (r + 1) c" for x using that by (simp add: s'(2) without_def)
  moreover have "x \<in> doomed (view s) (r + 1) c" if "view s' x \<noteq> view s x" for x
    using that by (auto simp: s'(2) without_def split: if_splits)
  ultimately show ?thesis unfolding rows using s'(1) by blast
qed

definition mem_txstore :: "(kv, unit) txstore_env" where
  "mem_txstore = \<lparr>ts_db = mem_dbm, ts_Get = (\<lambda>s x. Ok None), ts_Search = (\<lambda>s q. Ok []),
     ts_BatchAdd = (\<lambda>b t. Ok (b @ [t])), ts_AddBatch = (\<lambda>b s. (Ok (), s))\<rparr>"

definition example_index :: kv where
  "example_index = [(str (heightPrefix 1 @ ''/'') @ [48], [7]), ([7], [1]),
     (str (heightPrefix 10 @ ''/'') @ [48], [8]), ([8], [2])]"

lemma example_index_rows:
  "map_of example_index k = Some v \<Longrightarrow> (\<exists>n. heightRow n k) \<or> k = [7] \<or> k = [8]"
  by (auto simp: example_index_def heightRow_def split: if_splits)

lemma single_not_inRange: "\<not> inRange n [c]" if "c < 100"
proof -
  have "str (heightPrefix n @ ''/'') \<le> [c] \<Longrightarrow> (116 :: byte) \<le> c"
    by (auto simp: heightPrefix_def TxHeightKey_def)
  moreover have "\<not> 116 \<le> c" using that by (simp add: word_less_nat_alt word_le_nat_alt)
  ultimately show ?thesis by (auto simp: inRange_def)
qed

theorem txstore_rollback_exact_witness:
  "\<exists>s'. RollbackToHeight mem_txstore 5 12 example_index = Some (Ok (), s') \<and>
     map_of s' [8] = None \<and> map_of s' [7] = Some [1]"
proof -
  have ok: "dbm_ok (ts_db mem_txstore) map_of" by (simp add: mem_txstore_def dbm_ok_mem)
  have wf: "\<exists>n'. heightRow n' k" if k: "inRange n k" "map_of example_index k \<noteq> None" for n k
  proof -
    obtain v where "map_of example_index k = Some v" using k(2) by auto
    from example_index_rows [OF this] k(1) show ?thesis
      using single_not_inRange [of 7 n] single_not_inRange [of 8 n] by auto
  qed
  obtain s' where s': "RollbackToHeight mem_txstore 5 12 example_index = Some (Ok (), s')"
    and gone: "\<And>n k v. 5 < n \<Longrightarrow> n \<le> 12 \<Longrightarrow> heightRow n k \<Longrightarrow> map_of example_index k = Some v \<Longrightarrow>
      map_of s' v = None"
    and frame: "\<And>x. map_of s' x \<noteq> map_of example_index x \<Longrightarrow>
      \<exists>n k v. 5 < n \<and> n \<le> 12 \<and> heightRow n k \<and> map_of example_index k = Some v \<and> x \<in> {k, v}"
    using txstore_rollback_exact [OF ok, of 12 5 example_index] wf by auto
  let ?k = "\<lambda>h. str (heightPrefix h @ ''/'') @ [48 :: byte]"
  have kk: "?k 10 \<noteq> ?k 1" "?k 10 \<noteq> [7]" "?k 10 \<noteq> [8]"
    by (simp_all add: heightPrefix_def TxHeightKey_def dec_string.simps)
  have "map_of example_index (?k 10) = Some [8]" using kk by (simp add: example_index_def)
  moreover have "heightRow 10 (?k 10)" by (auto simp: heightRow_def)
  ultimately have a: "map_of s' [8] = None" using gone [of 10 "?k 10" "[8]"] by simp
  have b: "map_of s' [7] = Some [1]"
  proof (rule ccontr)
    assume "map_of s' [7] \<noteq> Some [1]"
    moreover have "map_of example_index [7] = Some [1]"
      by (simp add: example_index_def heightPrefix_def TxHeightKey_def)
    ultimately obtain n k v where nk: "5 < n" "heightRow n k" "map_of example_index k = Some v" "[7] \<in> {k, v}"
      using frame [of "[7]"] by auto
    have "v \<noteq> [7] \<or> k = ?k 1" using nk(3) by (auto simp: example_index_def split: if_splits)
    moreover have "\<not> heightRow n [7]" using nk(1) by (auto simp: heightRow_def heightPrefix_def TxHeightKey_def)
    ultimately have "heightRow n (?k 1)" using nk by auto
    then have "n = 1" using range_is_heightRow [of 1 "?k 1" n] range_is_heightRow [of 1 "?k 1" 1]
      by (auto simp: heightRow_def)
    with nk(1) show False by simp
  qed
  show ?thesis using s' a b by blast
qed

end
