(* ===== verification/Withdrawals.thy ===== *)
theory Withdrawals
  imports Evm TxStore
begin

text \<open>
  The builder's side of a withdrawal (\<^verbatim>\<open>builder/builder.go\<close>): finding withdrawal messages in
  an executed transaction, reading the withdrawal's parameters back from the event the
  rollup module emitted, initiating it in the EVM and adding the message nonce to the event.
  go-ethereum's hex helpers, bech32 and the SDK's transaction decoder are parameters.
\<close>

section \<open>Event names and attribute keys (x/rollup/types/events.go)\<close>

definition AttributeKeySender :: string where "AttributeKeySender = ''sender''"
definition AttributeKeyL1Target :: string where "AttributeKeyL1Target = ''target''"
definition AttributeKeyValue :: string where "AttributeKeyValue = ''value''"
definition AttributeKeyGasLimit :: string where "AttributeKeyGasLimit = ''gas_limit''"
definition AttributeKeyData :: string where "AttributeKeyData = ''data''"
definition AttributeKeyNonce :: string where "AttributeKeyNonce = ''nonce''"
definition EventTypeWithdrawalInitiated :: string where
  "EventTypeWithdrawalInitiated = ''withdrawal_initiated''"

lemmas attribute_defs = AttributeKeySender_def AttributeKeyL1Target_def AttributeKeyValue_def
  AttributeKeyGasLimit_def AttributeKeyData_def AttributeKeyNonce_def

record hexlib =
  hx_EncodeBig :: "nat \<Rightarrow> string"
  hx_DecodeBig :: "string \<Rightarrow> nat res"
  hx_Encode :: "bytes \<Rightarrow> string"
  hx_Decode :: "string \<Rightarrow> bytes res"
  hx_IsHexAddress :: "string \<Rightarrow> bool"
  hx_HexToAddress :: "string \<Rightarrow> address"
  hx_AddressHex :: "address \<Rightarrow> string"
  hx_AccAddressFromBech32 :: "string \<Rightarrow> bytes res"
  hx_BytesToAddress :: "bytes \<Rightarrow> address"
  hx_BytesToHash :: "bytes \<Rightarrow> hash"
  hx_TxMessageTypes :: "bytes \<Rightarrow> string list res"

text \<open>
  What the source relies on: hex encodings decode to what was encoded, numbers only below
  \<open>2 ^ 256\<close> (longer ones are refused), an address in hex is recognised and read back.
\<close>

definition hexlib_ok :: "hexlib \<Rightarrow> bool" where
  "hexlib_ok X \<longleftrightarrow>
     (\<forall>n < 2 ^ 256. hx_DecodeBig X (hx_EncodeBig X n) = Ok n) \<and>
     (\<forall>n \<ge> 2 ^ 256. \<exists>e. hx_DecodeBig X (hx_EncodeBig X n) = Err e) \<and>
     hx_Decode X ''0x'' = Ok [] \<and>
     (\<forall>b. hx_Decode X (hx_Encode X b) = Ok b) \<and>
     (\<forall>a. hx_IsHexAddress X (hx_AddressHex X a) \<and> hx_HexToAddress X (hx_AddressHex X a) = a)"

section \<open>Reading the event\<close>

definition parseAttribute :: "hexlib \<Rightarrow> string \<times> string \<Rightarrow> withdrawal \<Rightarrow> withdrawal res" where
  "parseAttribute X attr params = (case attr of (key, value) \<Rightarrow>
     if key = AttributeKeySender then
       (if hx_IsHexAddress X value then Ok (params\<lparr>wd_Sender := Some (hx_HexToAddress X value)\<rparr>)
        else check (hx_AccAddressFromBech32 X value) (Errorf_v ''convert sender to cosmos address'')
          (\<lambda>addr. Ok (params\<lparr>wd_Sender := Some (hx_BytesToAddress X addr)\<rparr>)))
     else if key = AttributeKeyL1Target then
       Ok (params\<lparr>wd_Target := Some (hx_HexToAddress X value)\<rparr>)
     else if key = AttributeKeyValue then
       check (hx_DecodeBig X value) (Errorf_v ''decode value'') (\<lambda>v. Ok (params\<lparr>wd_Value := Some v\<rparr>))
     else if key = AttributeKeyGasLimit then
       check (hx_DecodeBig X value) (Errorf_v ''decode gas limit'')
         (\<lambda>g. Ok (params\<lparr>wd_GasLimit := Some g\<rparr>))
     else if key = AttributeKeyData then
       check (hx_Decode X value) (Errorf_v ''decode data'') (\<lambda>d. Ok (params\<lparr>wd_Data := d\<rparr>))
     else Ok params)"

fun parseAttributes :: "hexlib \<Rightarrow> (string \<times> string) list \<Rightarrow> withdrawal \<Rightarrow> withdrawal res" where
  "parseAttributes X [] params = Ok params"
| "parseAttributes X (attr # attrs) params =
     check (parseAttribute X attr params) pass (parseAttributes X attrs)"

definition parseWithdrawalEventAttributes :: "hexlib \<Rightarrow> event \<Rightarrow> withdrawal res" where
  "parseWithdrawalEventAttributes X withdrawalEvent =
     parseAttributes X (e_Attributes withdrawalEvent) empty_withdrawal"

section \<open>Initiating the withdrawal\<close>

fun findWithdrawalEvent :: "nat \<Rightarrow> event list \<Rightarrow> nat option" where
  "findWithdrawalEvent i [] = None"
| "findWithdrawalEvent i (e # es) =
     (if e_Type e = EventTypeWithdrawalInitiated then Some i else findWithdrawalEvent (Suc i) es)"

text \<open>The result with the message nonce added to its event, as the source mutates it.\<close>

definition addNonce :: "hexlib \<Rightarrow> nat \<Rightarrow> nat \<Rightarrow> exec_result \<Rightarrow> exec_result" where
  "addNonce X i messageNonce r =
     (let e = x_Events r ! i in
      r\<lparr>x_Events := (x_Events r)[i :=
        e\<lparr>e_Attributes := e_Attributes e @ [(AttributeKeyNonce, hx_EncodeBig X messageNonce)]\<rparr>]\<rparr>)"

definition storeWithdrawalMsgInEVM ::
    "('tx, 'blk) ethlib \<Rightarrow> ('es, 'db, 'abi) evmlib \<Rightarrow> hexlib \<Rightarrow> header \<Rightarrow> exec_result \<Rightarrow>
     ('es, exec_result) op" where
  "storeWithdrawalMsgInEVM L V X h execTxResult =
     scheck (slift (\<lambda>_. NewEVM L h)) (Errorf_v ''new EVM'') (\<lambda>monomerEVM.
     scheck (slift (\<lambda>_. NewL2ToL1MessagePasserExecuter V monomerEVM))
       (Errorf_v ''new L2ToL1MessagePasserExecuter'') (\<lambda>executer.
     scheck (GetMessageNonce V executer) (Errorf_v ''get message nonce'') (\<lambda>messageNonce.
     case findWithdrawalEvent 0 (x_Events execTxResult) of
       None \<Rightarrow> sfail (ErrorNew ''withdrawal event not found'')
     | Some i \<Rightarrow>
         scheck (slift (\<lambda>_. parseWithdrawalEventAttributes X (x_Events execTxResult ! i)))
           (Errorf_v ''parse withdrawal attributes'') (\<lambda>params.
         scheck (InitiateWithdrawal V executer params) (Errorf_v ''initiate withdrawal'') (\<lambda>_.
         sret (addNonce X i messageNonce execTxResult))))))"

definition withdrawalMsgTypes :: "string list" where
  "withdrawalMsgTypes = [''/rollup.v1.MsgInitiateWithdrawal'', ''/rollup.v1.MsgInitiateFeeWithdrawal'',
     ''/rollup.v1.MsgInitiateERC20Withdrawal'']"

fun withdrawalMessages ::
    "('tx, 'blk) ethlib \<Rightarrow> ('es, 'db, 'abi) evmlib \<Rightarrow> hexlib \<Rightarrow> header \<Rightarrow> string list \<Rightarrow>
     exec_result \<Rightarrow> ('es, exec_result) op" where
  "withdrawalMessages L V X h [] r = sret r"
| "withdrawalMessages L V X h (typeUrl # msgs) r =
     (if typeUrl \<in> set withdrawalMsgTypes
      then scheck (storeWithdrawalMsgInEVM L V X h r) (Errorf_v ''store withdrawal msg in EVM'')
        (\<lambda>r. withdrawalMessages L V X h msgs r)
      else withdrawalMessages L V X h msgs r)"

text \<open>A transaction that does not decode is left alone.\<close>

definition parseWithdrawalMessages ::
    "('tx, 'blk) ethlib \<Rightarrow> ('es, 'db, 'abi) evmlib \<Rightarrow> hexlib \<Rightarrow> header \<Rightarrow> bytes \<Rightarrow> exec_result \<Rightarrow>
     ('es, exec_result) op" where
  "parseWithdrawalMessages L V X h tx execTxResult =
     (if IsOK execTxResult then
        (case hx_TxMessageTypes X tx of
           Ok msgs \<Rightarrow> withdrawalMessages L V X h msgs execTxResult
         | Err e \<Rightarrow> sret execTxResult
         | Panic p \<Rightarrow> (\<lambda>s. (Panic p, s)))
      else sret execTxResult)"

definition storeAppHashInEVM ::
    "('tx, 'blk) ethlib \<Rightarrow> ('es, 'db, 'abi) evmlib \<Rightarrow> hexlib \<Rightarrow> bytes \<Rightarrow> header \<Rightarrow> ('es, unit) op" where
  "storeAppHashInEVM L V X appHash h =
     scheck (slift (\<lambda>_. NewEVM L h)) (Errorf_v ''new EVM'') (\<lambda>monomerEVM.
     scheck (slift (\<lambda>_. NewL2ApplicationStateRootProviderExecuter V monomerEVM))
       (Errorf_v ''new L2ApplicationStateRootProviderExecuter'') (\<lambda>executer.
     scheck (SetL2ApplicationStateRoot V executer (hx_BytesToHash X appHash))
       (Errorf_v ''set L2ApplicationStateRoot'') (\<lambda>_. sret ())))"

section \<open>Lemmas\<close>

lemma parseAttributes_append:
  "parseAttributes X (as @ bs) p = check (parseAttributes X as p) pass (parseAttributes X bs)"
proof (induction as arbitrary: p)
  case Nil
  then show ?case by simp
next
  case (Cons a as)
  then show ?case by (cases "parseAttribute X a p") simp_all
qed

lemma parse_nonce_ignored:
  "parseWithdrawalEventAttributes X (e\<lparr>e_Attributes := e_Attributes e @ [(AttributeKeyNonce, v)]\<rparr>) =
   parseWithdrawalEventAttributes X e"
  by (cases "parseAttributes X (e_Attributes e) empty_withdrawal")
     (simp_all add: parseWithdrawalEventAttributes_def parseAttributes_append parseAttribute_def attribute_defs)

lemma findWithdrawalEvent_Some:
  "findWithdrawalEvent i es = Some j \<Longrightarrow> i \<le> j \<and> j < i + length es \<and>
   e_Type (es ! (j - i)) = EventTypeWithdrawalInitiated"
proof (induction es arbitrary: i)
  case Nil
  then show ?case by simp
next
  case (Cons e es)
  show ?case
  proof (cases "e_Type e = EventTypeWithdrawalInitiated")
    case True
    with Cons.prems show ?thesis by simp
  next
    case False
    then have "findWithdrawalEvent (Suc i) es = Some j" using Cons.prems by simp
    note ih = Cons.IH [OF this]
    then have "j - i = Suc (j - Suc i)" by (simp add: Suc_diff_Suc Suc_le_eq)
    with ih show ?thesis by simp
  qed
qed

lemma findWithdrawalEvent_update:
  "(\<And>k. k < length es \<Longrightarrow> e_Type (es' ! k) = e_Type (es ! k)) \<Longrightarrow> length es' = length es \<Longrightarrow>
   findWithdrawalEvent i es' = findWithdrawalEvent i es"
proof (induction es arbitrary: i es')
  case Nil
  then show ?case by simp
next
  case (Cons e es)
  then obtain d ds where es': "es' = d # ds" by (cases es') auto
  have "e_Type d = e_Type e" using Cons.prems(1) [of 0] es' by simp
  moreover have "findWithdrawalEvent (Suc i) ds = findWithdrawalEvent (Suc i) es"
  proof (rule Cons.IH)
    show "e_Type (ds ! k) = e_Type (es ! k)" if "k < length es" for k
      using Cons.prems(1) [of "Suc k"] that es' by simp
  qed (use Cons.prems(2) es' in simp)
  ultimately show ?case by (simp add: es')
qed

lemma addNonce_events:
  assumes "i < length (x_Events r)"
  shows "findWithdrawalEvent 0 (x_Events (addNonce X i n r)) = findWithdrawalEvent 0 (x_Events r)"
    and "x_Events (addNonce X i n r) ! i = (x_Events r ! i)\<lparr>e_Attributes :=
       e_Attributes (x_Events r ! i) @ [(AttributeKeyNonce, hx_EncodeBig X n)]\<rparr>"
    and "length (x_Events (addNonce X i n r)) = length (x_Events r)"
proof -
  show "findWithdrawalEvent 0 (x_Events (addNonce X i n r)) = findWithdrawalEvent 0 (x_Events r)"
  proof (rule findWithdrawalEvent_update)
    show "e_Type (x_Events (addNonce X i n r) ! k) = e_Type (x_Events r ! k)" if "k < length (x_Events r)" for k
      using that by (cases "k = i") (simp_all add: addNonce_def Let_def)
  qed (simp add: addNonce_def Let_def)
qed (use assms in \<open>simp_all add: addNonce_def Let_def\<close>)

lemma store_withdrawal_ok:
  assumes "NewEVM L h = Ok e" and "NewL2ToL1MessagePasserExecuter V e = Ok ex"
    and "GetMessageNonce V ex s = (Ok n, s1)" and "findWithdrawalEvent 0 (x_Events r) = Some i"
    and "parseWithdrawalEventAttributes X (x_Events r ! i) = Ok p"
    and "InitiateWithdrawal V ex p s1 = (Ok (), s2)"
  shows "storeWithdrawalMsgInEVM L V X h r s = (Ok (addNonce X i n r), s2)"
  using assms by (simp add: storeWithdrawalMsgInEVM_def)

section \<open>Properties\<close>

text \<open>
  A transaction with one withdrawal message initiates exactly the withdrawal its event
  describes, and the nonce read before is appended to that event; every other event is
  unchanged.
\<close>

theorem withdrawal_initiated_from_event:
  assumes "m \<in> set withdrawalMsgTypes" and "IsOK r" and "hx_TxMessageTypes X tx = Ok [m]"
    and "NewEVM L h = Ok e" and "NewL2ToL1MessagePasserExecuter V e = Ok ex"
    and "GetMessageNonce V ex s = (Ok n, s1)" and "findWithdrawalEvent 0 (x_Events r) = Some i"
    and "parseWithdrawalEventAttributes X (x_Events r ! i) = Ok p"
    and "InitiateWithdrawal V ex p s1 = (Ok (), s2)"
  shows "\<exists>r'. parseWithdrawalMessages L V X h tx r s = (Ok r', s2) \<and>
    e_Type (x_Events r ! i) = EventTypeWithdrawalInitiated \<and>
    e_Attributes (x_Events r' ! i) = e_Attributes (x_Events r ! i) @ [(AttributeKeyNonce, hx_EncodeBig X n)] \<and>
    (\<forall>k. k \<noteq> i \<longrightarrow> x_Events r' ! k = x_Events r ! k) \<and> length (x_Events r') = length (x_Events r)"
proof -
  have "parseWithdrawalMessages L V X h tx r s = (Ok (addNonce X i n r), s2)"
    using assms(1,2,3) store_withdrawal_ok [OF assms(4-9)] by (simp add: parseWithdrawalMessages_def)
  moreover have i: "i < length (x_Events r)" "e_Type (x_Events r ! i) = EventTypeWithdrawalInitiated"
    using findWithdrawalEvent_Some [OF assms(7)] by simp_all
  ultimately show ?thesis using addNonce_events [OF i(1)]
    by (intro exI [of _ "addNonce X i n r"]) (simp add: addNonce_def Let_def)
qed

text \<open>
  C22: a transaction with two withdrawal messages initiates the withdrawal of its first
  withdrawal event twice: both messages find the same event, the parameters read from it do
  not change, it gets both nonces, and no other event (the second withdrawal's included) is
  read or changed.
\<close>

theorem second_withdrawal_repeats_the_first:
  assumes "m1 \<in> set withdrawalMsgTypes" and "m2 \<in> set withdrawalMsgTypes" and "IsOK r"
    and "hx_TxMessageTypes X tx = Ok [m1, m2]"
    and e: "NewEVM L h = Ok e" "NewL2ToL1MessagePasserExecuter V e = Ok ex"
    and n1: "GetMessageNonce V ex s = (Ok n1, s1)" and i: "findWithdrawalEvent 0 (x_Events r) = Some i"
    and p: "parseWithdrawalEventAttributes X (x_Events r ! i) = Ok p"
    and w1: "InitiateWithdrawal V ex p s1 = (Ok (), s2)"
    and n2: "GetMessageNonce V ex s2 = (Ok n2, s3)"
    and w2: "InitiateWithdrawal V ex p s3 = (Ok (), s4)"
  shows "\<exists>r'. parseWithdrawalMessages L V X h tx r s = (Ok r', s4) \<and>
    e_Attributes (x_Events r' ! i) = e_Attributes (x_Events r ! i) @
      [(AttributeKeyNonce, hx_EncodeBig X n1), (AttributeKeyNonce, hx_EncodeBig X n2)] \<and>
    (\<forall>k. k \<noteq> i \<longrightarrow> x_Events r' ! k = x_Events r ! k)"
proof -
  let ?r1 = "addNonce X i n1 r"
  have il: "i < length (x_Events r)" using findWithdrawalEvent_Some [OF i] by simp
  note ev = addNonce_events [OF il, of X n1]
  have p1: "parseWithdrawalEventAttributes X (x_Events ?r1 ! i) = Ok p"
    unfolding ev(2) parse_nonce_ignored by (rule p)
  have "findWithdrawalEvent 0 (x_Events ?r1) = Some i" using ev(1) i by simp
  from store_withdrawal_ok [OF e n2 this p1 w2] store_withdrawal_ok [OF e n1 i p w1] assms(1-4)
  have "parseWithdrawalMessages L V X h tx r s = (Ok (addNonce X i n2 ?r1), s4)"
    by (simp add: parseWithdrawalMessages_def)
  moreover have "i < length (x_Events ?r1)" using il ev(3) by simp
  ultimately show ?thesis using addNonce_events(2) [of i ?r1 X n2] ev(2)
    by (intro exI [of _ "addNonce X i n2 ?r1"]) (simp add: addNonce_def Let_def)
qed

section \<open>Libraries for the witnesses\<close>

text \<open>
  Numbers in decimal, bytes as characters, addresses marked with an at sign; an EVM state
  is the list of initiated withdrawals (sender, value, packed data).
\<close>

definition toy_hex :: hexlib where
  "toy_hex = \<lparr>hx_EncodeBig = dec_string, hx_DecodeBig = (\<lambda>s. if dec_value s < 2 ^ 256 then Ok (dec_value s) else Err (External ''hex number > 256 bits'')),
     hx_Encode = (\<lambda>b. ''0x'' @ map (\<lambda>b. char_of (unat b)) b),
     hx_Decode = (\<lambda>s. Ok (map (\<lambda>c. word_of_nat (of_char c)) (drop 2 s))),
     hx_IsHexAddress = (\<lambda>s. s \<noteq> [] \<and> hd s = CHR ''@''), hx_HexToAddress = (\<lambda>s. word_of_nat (dec_value (tl s))),
     hx_AddressHex = (\<lambda>a. CHR ''@'' # dec_string (unat a)),
     hx_AccAddressFromBech32 = (\<lambda>s. Ok (str s)), hx_BytesToAddress = (\<lambda>b. word_of_nat (be_dec b)),
     hx_BytesToHash = (\<lambda>b. word_of_nat (be_dec b)),
     hx_TxMessageTypes = (\<lambda>tx. Ok (replicate (length tx) ''/rollup.v1.MsgInitiateWithdrawal''))\<rparr>"

lemma toy_hex_ok: "hexlib_ok toy_hex"
proof -
  have "map ((\<lambda>c. word_of_nat (of_char c)) \<circ> (\<lambda>b. char_of (unat b))) bs = bs" for bs :: bytes
    by (rule map_idI) (simp add: unat_byte_less)
  then show ?thesis by (simp add: hexlib_ok_def toy_hex_def dec_value_string)
qed

type_synonym toy_state = "(address \<times> 256 word \<times> bytes) list"

definition toy_call :: "evm \<Rightarrow> address \<Rightarrow> address \<Rightarrow> bytes \<Rightarrow> u64 \<Rightarrow> 256 word \<Rightarrow> (toy_state, bytes) op" where
  "toy_call e sender c data gas value s =
     (if data = [1] then (Ok (replicate (length s) 0), s) else (Ok [], s @ [(sender, value, data)]))"

definition toy_evm :: "(toy_state, toy_state, unit) evmlib" where
  "toy_evm = \<lparr>ev_StateNew = (\<lambda>root db. Ok db), ev_Commit = (\<lambda>st h d db. (Ok (word_of_nat (length st)), st)),
     ev_Call = toy_call, ev_SetCode = (\<lambda>a c s. s), ev_ABI = (\<lambda>j. Ok ()),
     ev_Pack = (\<lambda>abi m args. if m = ''messageNonce'' then Ok [1]
        else Ok (0 # concat (map (\<lambda>a. case a of ABytes b \<Rightarrow> b | _ \<Rightarrow> []) args))),
     ev_UnpackHash = (\<lambda>abi m b. Ok 0), ev_UnpackBig = (\<lambda>abi m b. Ok (length b)), ev_UnpackBool = (\<lambda>abi m b. Ok True),
     ev_MessagePasserAddr = 0x16, ev_RootProviderABI = [], ev_RootProviderBin = [],
     ev_MessagePasserABI = [], ev_MessagePasserBin = []\<rparr>"

definition example_result :: exec_result where
  "example_result = \<lparr>x_Code = 0, x_Data = [], x_Log = [], x_GasWanted = 0, x_GasUsed = 0,
     x_Events = [\<lparr>e_Type = ''burn_eth'', e_Attributes = []\<rparr>,
       \<lparr>e_Type = ''withdrawal_initiated'', e_Attributes = [(''sender'', ''@5''), (''target'', ''@6''),
          (''value'', ''7''), (''gas_limit'', ''8''), (''data'', ''0x'' @ [CHR 0x01])]\<rparr>,
       \<lparr>e_Type = ''withdrawal_initiated'', e_Attributes = [(''sender'', ''@5''), (''target'', ''@9''),
          (''value'', ''1''), (''gas_limit'', ''8''), (''data'', ''0x'' @ [CHR 0x02])]\<rparr>]\<rparr>"

definition example_withdrawal :: withdrawal where
  "example_withdrawal = \<lparr>wd_Sender = Some 5, wd_Target = Some 6, wd_Value = Some 7, wd_GasLimit = Some 8,
     wd_Data = [1]\<rparr>"

lemma example_result_facts:
  "IsOK example_result" "findWithdrawalEvent 0 (x_Events example_result) = Some 1"
  "parseWithdrawalEventAttributes toy_hex (x_Events example_result ! 1) = Ok example_withdrawal"
  by (simp_all add: IsOK_def example_result_def EventTypeWithdrawalInitiated_def
      parseWithdrawalEventAttributes_def parseAttribute_def attribute_defs toy_hex_def dec_value_def
      example_withdrawal_def empty_withdrawal_def)

definition toy_executer :: "header \<Rightarrow> unit executer" where
  "toy_executer h = (case NewEVM toy_eth h of Ok e \<Rightarrow> \<lparr>ex_ABI = (), ex_evm = e, ex_contractAddr = 0x16\<rparr> | _ \<Rightarrow> undefined)"

lemma toy_evm_facts:
  "\<exists>e. NewEVM toy_eth h = Ok e \<and> NewL2ToL1MessagePasserExecuter toy_evm e = Ok (toy_executer h)"
  "GetMessageNonce toy_evm (toy_executer h) s = (Ok (length s), s)"
  "InitiateWithdrawal toy_evm (toy_executer h) example_withdrawal s = (Ok (), s @ [(5, 7, [0, 1])])"
  by (simp_all add: NewEVM_def NewL2ToL1MessagePasserExecuter_def NewMonomerContractExecuter_def toy_evm_def
      toy_executer_def GetMessageNonce_def InitiateWithdrawal_def Executer_Call_def getCallParams_def
      dataCall_def toy_call_def example_withdrawal_def scheck_def)

theorem withdrawal_initiated_from_event_witness:
  "\<exists>r'. parseWithdrawalMessages toy_eth toy_evm toy_hex zero_header [0] example_result [] =
      (Ok r', [(5, 7, [0, 1])]) \<and>
     e_Attributes (x_Events r' ! 1) = e_Attributes (x_Events example_result ! 1) @ [(''nonce'', ''0'')]"
proof -
  obtain e where e: "NewEVM toy_eth zero_header = Ok e"
    "NewL2ToL1MessagePasserExecuter toy_evm e = Ok (toy_executer zero_header)"
    using toy_evm_facts(1) by blast
  have "hx_TxMessageTypes toy_hex [0] = Ok [''/rollup.v1.MsgInitiateWithdrawal'']" by (simp add: toy_hex_def)
  from withdrawal_initiated_from_event [OF _ example_result_facts(1) this e toy_evm_facts(2)
      example_result_facts(2,3) toy_evm_facts(3), of "[]"]
  moreover have "hx_EncodeBig toy_hex 0 = ''0''"
    by (simp add: toy_hex_def dec_string.simps char_of_eq_iff)
  ultimately show ?thesis by (auto simp: withdrawalMsgTypes_def attribute_defs)
qed

theorem second_withdrawal_repeats_the_first_witness:
  "\<exists>r'. parseWithdrawalMessages toy_eth toy_evm toy_hex zero_header [0, 0] example_result [] =
      (Ok r', [(5, 7, [0, 1]), (5, 7, [0, 1])]) \<and> x_Events r' ! 2 = x_Events example_result ! 2"
proof -
  obtain e where e: "NewEVM toy_eth zero_header = Ok e"
    "NewL2ToL1MessagePasserExecuter toy_evm e = Ok (toy_executer zero_header)"
    using toy_evm_facts(1) by blast
  have "hx_TxMessageTypes toy_hex [0, 0] =
      Ok [''/rollup.v1.MsgInitiateWithdrawal'', ''/rollup.v1.MsgInitiateWithdrawal'']" by (simp add: toy_hex_def)
  from second_withdrawal_repeats_the_first [OF _ _ example_result_facts(1) this e toy_evm_facts(2)
      example_result_facts(2,3) toy_evm_facts(3) toy_evm_facts(2,3), of "[]"]
  show ?thesis by (auto simp: withdrawalMsgTypes_def)
qed

end
