(* ===== verification/Builder.thy ===== *)
theory Builder
  imports BlockStoreProps Mempool Withdrawals
begin

text \<open>
  The block builder (\<^verbatim>\<open>builder/builder.go\<close>): it drains the mempool behind the injected
  transactions, runs the block through the application, records the application hash and
  the withdrawals in the EVM state, makes, stores and indexes the block and publishes its
  events; and it rolls all of these back. The application and the event bus are parameters.
\<close>

section \<open>The application and the event bus\<close>

record finalize_request =
  rq_Txs :: "bytes list"
  rq_Hash :: bytes
  rq_Height :: int
  rq_Time :: int
  rq_NextValidatorsHash :: bytes
  rq_ProposerAddress :: bytes

record finalize_response =
  rs_AppHash :: bytes
  rs_TxResults :: "exec_result list"
  rs_Events :: "event list"

record 'a application =
  app_Info :: "('a, bytes) op"
  app_FinalizeBlock :: "finalize_request \<Rightarrow> ('a, finalize_response) op"
  app_Commit :: "('a, unit) op"
  app_RollbackToHeight :: "u64 \<Rightarrow> ('a, unit) op"

datatype bus_event =
    EventDataTx tx_result
  | EventDataNewBlockEvents int "event list" int
  | EventDataNewBlock comet_block finalize_response bytes
  | EventDataNewBlockHeader comet_header

section \<open>The builder\<close>

record ('s, 'm, 't, 'q, 'a, 'b, 'tx, 'blk, 'es, 'd, 'abi) builder_env =
  be_db :: "'s localdb_env"
  be_pool :: "'m pool_env"
  be_txs :: "('t, 'q) txstore_env"
  be_app :: "'a application"
  be_Publish :: "bus_event \<Rightarrow> ('b, unit) op"
  be_eth :: "('tx, 'blk) ethlib"
  be_evm :: "('es, 'd, 'abi) evmlib"
  be_hex :: hexlib
  be_CometHash :: "comet_header \<Rightarrow> bytes"
  be_chainID :: u64

record ('s, 'm, 't, 'a, 'b, 'd) builder =
  bd_blocks :: 's
  bd_pool :: 'm
  bd_txs :: 't
  bd_app :: 'a
  bd_bus :: 'b
  bd_eth :: 'd

text \<open>An operation on one part of the builder.\<close>

definition onBlocks :: "('s, 'x) op \<Rightarrow> (('s, 'm, 't, 'a, 'b, 'd) builder, 'x) op" where
  "onBlocks f b = (case f (bd_blocks b) of (r, s') \<Rightarrow> (r, b\<lparr>bd_blocks := s'\<rparr>))"

definition onPool :: "('m, 'x) pop \<Rightarrow> (('s, 'm, 't, 'a, 'b, 'd) builder, 'x) pop" where
  "onPool f b = map_option (\<lambda>(r, s'). (r, b\<lparr>bd_pool := s'\<rparr>)) (f (bd_pool b))"

definition onTxs :: "('t, 'x) pop \<Rightarrow> (('s, 'm, 't, 'a, 'b, 'd) builder, 'x) pop" where
  "onTxs f b = map_option (\<lambda>(r, s'). (r, b\<lparr>bd_txs := s'\<rparr>)) (f (bd_txs b))"

definition onApp :: "('a, 'x) op \<Rightarrow> (('s, 'm, 't, 'a, 'b, 'd) builder, 'x) op" where
  "onApp f b = (case f (bd_app b) of (r, s') \<Rightarrow> (r, b\<lparr>bd_app := s'\<rparr>))"

definition onBus :: "('b, 'x) op \<Rightarrow> (('s, 'm, 't, 'a, 'b, 'd) builder, 'x) op" where
  "onBus f b = (case f (bd_bus b) of (r, s') \<Rightarrow> (r, b\<lparr>bd_bus := s'\<rparr>))"

definition onEth :: "('d, 'x) op \<Rightarrow> (('s, 'm, 't, 'a, 'b, 'd) builder, 'x) op" where
  "onEth f b = (case f (bd_eth b) of (r, s') \<Rightarrow> (r, b\<lparr>bd_eth := s'\<rparr>))"

lemmas on_defs = onBlocks_def onPool_def onTxs_def onApp_def onBus_def onEth_def

definition Builder_Rollback ::
    "('s, 'm, 't, 'q, 'a, 'b, 'tx, 'blk, 'es, 'd, 'abi) builder_env \<Rightarrow> hash \<Rightarrow> hash \<Rightarrow> hash \<Rightarrow>
     (('s, 'm, 't, 'a, 'b, 'd) builder, unit) pop" where
  "Builder_Rollback B unsafe safe finalized =
     pcheck (total (onBlocks (slift (DB_Height (be_db B))))) (Errorf_v ''get height'') (\<lambda>currentHeight.
     pcheck (total (onBlocks (slift (HeaderByHash (be_db B) unsafe)))) (Errorf_v ''get unsafe header'')
       (\<lambda>unsafeHeader.
     let targetHeight = h_Height unsafeHeader in
     pcheck (total (onBlocks (Rollback (be_db B) unsafe safe finalized)))
       (Errorf_v ''rollback block store'') (\<lambda>_.
     pcheck (onTxs (RollbackToHeight (be_txs B) targetHeight currentHeight))
       (Errorf_v ''rollback tx store'') (\<lambda>_.
     pcheck (total (onApp (app_RollbackToHeight (be_app B) targetHeight)))
       (Errorf_v ''rollback app'') (\<lambda>_.
     total (sret ()))))))"

record payload =
  pl_InjectedTransactions :: "bytes list option"
  pl_GasLimit :: u64
  pl_Timestamp :: u64
  pl_NoTxPool :: bool
  pl_ParentBeaconRoot :: "hash option"
  pl_Coinbase :: address

text \<open>Appending to a slice that may be nil.\<close>

definition appendTx :: "bytes list option \<Rightarrow> bytes \<Rightarrow> bytes list option" where
  "appendTx txs tx = Some ((case txs of None \<Rightarrow> [] | Some l \<Rightarrow> l) @ [tx])"

partial_function (option) drainPool ::
    "'m pool_env \<Rightarrow> bytes list option \<Rightarrow> 'm \<Rightarrow> (bytes list option res \<times> 'm) option" where
  "drainPool P txs s = (case Pool_Len P s of
       Err e \<Rightarrow> Some (Panic (Errorf_v ''enqueue'' e), s)
     | Panic p \<Rightarrow> Some (Panic p, s)
     | Ok len \<Rightarrow>
         (if len = 0 then Some (Ok txs, s)
          else (case Dequeue P s of
              (Ok tx, s') \<Rightarrow> drainPool P (appendTx txs tx) s'
            | (Err e, s') \<Rightarrow> Some (Panic (Errorf_v ''dequeue'' e), s')
            | (Panic p, s') \<Rightarrow> Some (Panic p, s'))))"

declare drainPool.simps [code]

definition newHeader :: "u64 \<Rightarrow> payload \<Rightarrow> header \<Rightarrow> header" where
  "newHeader chainID pl currentHeader = \<lparr>
     h_ChainID = chainID,
     h_Height = h_Height currentHeader + 1,
     h_Time = pl_Timestamp pl,
     h_ParentHash = h_Hash currentHeader,
     h_StateRoot = 0,
     h_ParentBeaconRoot = pl_ParentBeaconRoot pl,
     h_GasLimit = pl_GasLimit pl,
     h_Hash = 0,
     h_Coinbase = pl_Coinbase pl\<rparr>"

definition finalizeRequest :: "(comet_header \<Rightarrow> bytes) \<Rightarrow> comet_header \<Rightarrow> bytes list option \<Rightarrow> finalize_request" where
  "finalizeRequest cometHash ch txs = \<lparr>
     rq_Txs = (case txs of None \<Rightarrow> [] | Some l \<Rightarrow> l),
     rq_Hash = cometHash ch,
     rq_Height = ch_Height ch,
     rq_Time = ch_Time ch,
     rq_NextValidatorsHash = ch_NextValidatorsHash ch,
     rq_ProposerAddress = ch_ProposerAddress ch\<rparr>"

text \<open>The loop over the results: withdrawals first, then the result to index.\<close>

fun txResults ::
    "('tx, 'blk) ethlib \<Rightarrow> ('es, 'd, 'abi) evmlib \<Rightarrow> hexlib \<Rightarrow> header \<Rightarrow> bytes list \<Rightarrow> nat \<Rightarrow>
     exec_result list \<Rightarrow> ('es, tx_result list) op" where
  "txResults L V X h txs i [] = sret []"
| "txResults L V X h txs i (execTxResult # rs) =
     (if i < length txs then
        scheck (parseWithdrawalMessages L V X h (txs ! i) execTxResult)
          (Errorf_v ''parse withdrawal messages'') (\<lambda>r.
        scheck (txResults L V X h txs (Suc i) rs) pass (\<lambda>trs.
        sret (\<lparr>tr_Height = sint (h_Height h), tr_Index = of_nat i, tr_Tx = txs ! i, tr_Result = r\<rparr> # trs)))
      else (\<lambda>s. (Panic (External ''index out of range''), s)))"

fun publishTxs :: "(bus_event \<Rightarrow> ('b, unit) op) \<Rightarrow> tx_result list \<Rightarrow> ('b, unit) op" where
  "publishTxs Publish [] = sret ()"
| "publishTxs Publish (t # ts) =
     scheck (Publish (EventDataTx t)) (Errorf_v ''publish tx event'') (\<lambda>_. publishTxs Publish ts)"

definition publishEvents ::
    "(bus_event \<Rightarrow> ('b, unit) op) \<Rightarrow> tx_result list \<Rightarrow> block \<Rightarrow> finalize_response \<Rightarrow> ('b, unit) op" where
  "publishEvents Publish trs blk resp =
     scheck (publishTxs Publish trs) pass (\<lambda>_.
     scheck (Publish (EventDataNewBlockEvents (sint (h_Height (b_Header blk))) (rs_Events resp)
         (int (length (b_Txs blk))))) (Errorf_v ''publish new block events event'') (\<lambda>_.
     scheck (Publish (EventDataNewBlock (Block_ToCometLikeBlock blk) resp (hash_Bytes (h_Hash (b_Header blk)))))
       (Errorf_v ''publish new block event'') (\<lambda>_.
     scheck (Publish (EventDataNewBlockHeader (Header_ToComet (b_Header blk))))
       (Errorf_v ''publish new block header event'') (\<lambda>_.
     sret ()))))"

text \<open>What follows the execution of the block: the EVM state on top of the head's root.\<close>

definition recordInEVM ::
    "('tx, 'blk) ethlib \<Rightarrow> ('es, 'd, 'abi) evmlib \<Rightarrow> hexlib \<Rightarrow> header \<Rightarrow> header \<Rightarrow> bytes list option \<Rightarrow>
     finalize_response \<Rightarrow> ('d, tx_result list \<times> hash) op" where
  "recordInEVM L V X currentHeader h txs resp d =
     (case ev_StateNew V (h_StateRoot currentHeader) d of
        Err e \<Rightarrow> (Err (Errorf_v ''create ethereum state'' e), d)
      | Panic p \<Rightarrow> (Panic p, d)
      | Ok ethState \<Rightarrow>
         (case scheck (storeAppHashInEVM L V X (rs_AppHash resp) h) (Errorf_v ''store app hash in EVM'')
                (\<lambda>_. txResults L V X h (case txs of None \<Rightarrow> [] | Some l \<Rightarrow> l) 0 (rs_TxResults resp)) ethState of
            (Ok trs, ethState') \<Rightarrow>
              scheck (ev_Commit V ethState' (h_Height h) True) (Errorf_v ''commit ethereum state'')
                (\<lambda>root. sret (trs, root)) d
          | (Err e, ethState') \<Rightarrow> (Err e, d)
          | (Panic p, ethState') \<Rightarrow> (Panic p, d)))"

text \<open>\<^verbatim>\<open>Build\<close> after the transactions are collected, and the whole.\<close>

definition buildWith ::
    "('s, 'm, 't, 'q, 'a, 'b, 'tx, 'blk, 'es, 'd, 'abi) builder_env \<Rightarrow> payload \<Rightarrow> bytes list option \<Rightarrow>
     (('s, 'm, 't, 'a, 'b, 'd) builder, block) op" where
  "buildWith B pl txs =
     scheck (onBlocks (slift (HeadHeader (be_db B)))) (Errorf_v ''header by height'') (\<lambda>currentHeader.
     let h = newHeader (be_chainID B) pl currentHeader in
     scheck (onApp (app_Info (be_app B))) (Errorf_v ''info'') (\<lambda>lastAppHash.
     let cometHeader = (Header_ToComet h)\<lparr>ch_AppHash := lastAppHash\<rparr> in
     scheck (onApp (app_FinalizeBlock (be_app B) (finalizeRequest (be_CometHash B) cometHeader txs)))
       (Errorf_v ''finalize block'') (\<lambda>resp.
     scheck (onApp (app_Commit (be_app B))) (Errorf_v ''commit'') (\<lambda>_.
     scheck (onEth (recordInEVM (be_eth B) (be_evm B) (be_hex B) currentHeader h txs resp)) pass
       (\<lambda>(trs, ethStateRoot).
     scheck (slift (\<lambda>_. MakeBlock (be_eth B) (h\<lparr>h_StateRoot := ethStateRoot\<rparr>) txs))
       (Errorf_v ''make block'') (\<lambda>blk.
     scheck (onBlocks (AppendBlock (be_db B) blk)) (Errorf_v ''append block'') (\<lambda>_.
     scheck (\<lambda>b. case TxStore_Add (be_txs B) trs (bd_txs b) of (r, t) \<Rightarrow> (r, b\<lparr>bd_txs := t\<rparr>))
       (Errorf_v ''add tx results'') (\<lambda>_.
     scheck (onBus (publishEvents (be_Publish B) trs blk (resp\<lparr>rs_TxResults := map tr_Result trs\<rparr>)))
       (Errorf_v ''publish events'') (\<lambda>_.
     sret blk)))))))))"

definition Build ::
    "('s, 'm, 't, 'q, 'a, 'b, 'tx, 'blk, 'es, 'd, 'abi) builder_env \<Rightarrow> payload \<Rightarrow>
     (('s, 'm, 't, 'a, 'b, 'd) builder, block) pop" where
  "Build B pl =
     pcheck (if \<not> pl_NoTxPool pl then onPool (drainPool (be_pool B) (pl_InjectedTransactions pl))
             else total (sret (pl_InjectedTransactions pl))) pass (\<lambda>txs.
     total (buildWith B pl txs))"

section \<open>Draining the pool\<close>

definition txList :: "bytes list option \<Rightarrow> bytes list" where
  "txList txs = (case txs of None \<Rightarrow> [] | Some l \<Rightarrow> l)"

lemma txList_appendTx [simp]: "txList (appendTx txs tx) = txList txs @ [tx]"
  by (simp add: appendTx_def txList_def split: option.splits)

lemma drainPool_ok:
  assumes "pool_rep P view s q" and "length q < 2 ^ 64"
  shows "\<exists>txs' s'. drainPool P txs s = Some (Ok txs', s') \<and> txList txs' = txList txs @ q \<and>
    (q = [] \<longrightarrow> txs' = txs) \<and> (q \<noteq> [] \<longrightarrow> txs' \<noteq> None) \<and> pool_rep P view s' []"
  using assms
proof (induction q arbitrary: s txs)
  case Nil
  then have "Pool_Len P s = Ok 0" using Pool_Len_ok by fastforce
  with Nil show ?case by (subst drainPool.simps) simp
next
  case (Cons tx q)
  have len: "Pool_Len P s = Ok (of_nat (length (tx # q)))" by (rule Pool_Len_ok [OF Cons.prems(1)])
  have nz: "(of_nat (length (tx # q)) :: u64) \<noteq> 0"
    using Cons.prems(2) by (metis length_0_conv list.distinct(1) unat_of_nat_u64 unsigned_0)
  obtain s1 where s1: "Dequeue P s = (Ok tx, s1)" "pool_rep P view s1 q"
    using Dequeue_ok [OF Cons.prems(1)] by blast
  from Cons.IH [OF s1(2), of "appendTx txs tx"] Cons.prems(2) obtain txs' s' where
    ih: "drainPool P (appendTx txs tx) s1 = Some (Ok txs', s')" "txList txs' = (txList txs @ [tx]) @ q"
      "q = [] \<longrightarrow> txs' = appendTx txs tx" "q \<noteq> [] \<longrightarrow> txs' \<noteq> None" "pool_rep P view s' []" by auto
  have "drainPool P txs s = Some (Ok txs', s')"
    using len nz s1(1) ih(1) by (subst drainPool.simps) simp
  then show ?case using ih by (auto simp: appendTx_def)
qed

section \<open>Building\<close>

lemma Build_returns:
  assumes "pl_NoTxPool pl \<or> (pool_rep (be_pool B) view (bd_pool b) q \<and> length q < 2 ^ 64)"
  shows "\<exists>r. Build B pl b = Some r"
proof (cases "pl_NoTxPool pl")
  case True
  then show ?thesis by (simp add: Build_def pcheck_def)
next
  case False
  with assms drainPool_ok [of "be_pool B" view "bd_pool b" q "pl_InjectedTransactions pl"]
  show ?thesis by (auto simp: Build_def pcheck_def onPool_def)
qed

text \<open>A build that succeeds went through these steps.\<close>

lemma buildWith_OkE:
  assumes "buildWith B pl txs b = (Ok blk, b')"
  obtains p root s' where
    "HeadHeader (be_db B) (bd_blocks b) = Ok p"
    and "MakeBlock (be_eth B) ((newHeader (be_chainID B) pl p)\<lparr>h_StateRoot := root\<rparr>) txs = Ok blk"
    and "AppendBlock (be_db B) blk (bd_blocks b) = (Ok (), s')"
    and "bd_blocks b' = s'" and "bd_pool b' = bd_pool b"
  using assms unfolding buildWith_def
  by (auto simp: Let_def on_defs elim!: scheck_OkE split: prod.splits)

lemma Build_OkE:
  assumes "Build B pl b = Some (Ok blk, b')"
  obtains txs m p root s' where
    "if pl_NoTxPool pl then txs = pl_InjectedTransactions pl \<and> m = bd_pool b
     else drainPool (be_pool B) (pl_InjectedTransactions pl) (bd_pool b) = Some (Ok txs, m)"
    and "HeadHeader (be_db B) (bd_blocks b) = Ok p"
    and "MakeBlock (be_eth B) ((newHeader (be_chainID B) pl p)\<lparr>h_StateRoot := root\<rparr>) txs = Ok blk"
    and "AppendBlock (be_db B) blk (bd_blocks b) = (Ok (), s')"
    and "bd_blocks b' = s'" and "bd_pool b' = m"
proof -
  obtain txs b1 where pool: "(if \<not> pl_NoTxPool pl
      then onPool (drainPool (be_pool B) (pl_InjectedTransactions pl))
      else total (sret (pl_InjectedTransactions pl))) b = Some (Ok txs, b1)"
    and rest: "total (buildWith B pl txs) b1 = Some (Ok blk, b')"
    using assms unfolding Build_def by (rule pcheck_OkE)
  obtain p root s' where p: "HeadHeader (be_db B) (bd_blocks b1) = Ok p"
    "MakeBlock (be_eth B) ((newHeader (be_chainID B) pl p)\<lparr>h_StateRoot := root\<rparr>) txs = Ok blk"
    "AppendBlock (be_db B) blk (bd_blocks b1) = (Ok (), s')" "bd_blocks b' = s'" "bd_pool b' = bd_pool b1"
    using rest by (auto elim!: buildWith_OkE)
  have "bd_blocks b1 = bd_blocks b" using pool by (auto simp: onPool_def split: if_splits)
  with p pool show thesis by (intro that [of txs "bd_pool b1" p root s']) (auto simp: onPool_def split: if_splits)
qed

section \<open>Properties\<close>

text \<open>
  C18: a build extends the chain by one block. When \<^verbatim>\<open>Build\<close> succeeds on a store that
  encodes the tables \<open>a\<close> and a pool that holds \<open>q\<close>, the block's header is the child of the
  head with the payload's time, gas limit and beacon root, its transactions are the
  injected ones followed by the whole pool in order (or the injected ones alone), the
  block is the new head and reads back by hash, and the pool is empty.
\<close>

theorem build_extends_the_chain:
  assumes build: "Build B pl b = Some (Ok blk, b')"
    and rep: "rep (be_db B) view (bd_blocks b) a" and pool: "pool_rep (be_pool B) pview (bd_pool b) q"
    and len: "length q < 2 ^ 64" and fresh: "rows a (h_Height (b_Header blk)) []"
    and last: "h_Height (b_Header blk) \<noteq> - 1" and size: "length (b_Txs blk) \<le> 2 ^ 64"
  shows "\<exists>p. HeadHeader (be_db B) (bd_blocks b) = Ok p \<and>
    h_Height (b_Header blk) = h_Height p + 1 \<and> h_ParentHash (b_Header blk) = h_Hash p \<and>
    h_Time (b_Header blk) = pl_Timestamp pl \<and> h_GasLimit (b_Header blk) = pl_GasLimit pl \<and>
    h_ParentBeaconRoot (b_Header blk) = pl_ParentBeaconRoot pl \<and>
    b_Txs blk = txList (pl_InjectedTransactions pl) @ (if pl_NoTxPool pl then [] else q) \<and>
    HeadHeader (be_db B) (bd_blocks b') = Ok (b_Header blk) \<and>
    BlockByHash (be_db B) (h_Hash (b_Header blk)) (bd_blocks b') = Ok blk \<and>
    pool_rep (be_pool B) pview (bd_pool b') (if pl_NoTxPool pl then q else [])"
proof -
  obtain txs m p root s' where
    txs: "if pl_NoTxPool pl then txs = pl_InjectedTransactions pl \<and> m = bd_pool b
     else drainPool (be_pool B) (pl_InjectedTransactions pl) (bd_pool b) = Some (Ok txs, m)"
    and p: "HeadHeader (be_db B) (bd_blocks b) = Ok p"
    and mk: "MakeBlock (be_eth B) ((newHeader (be_chainID B) pl p)\<lparr>h_StateRoot := root\<rparr>) txs = Ok blk"
    and app: "AppendBlock (be_db B) blk (bd_blocks b) = (Ok (), s')" and b': "bd_blocks b' = s'" "bd_pool b' = m"
    by (rule Build_OkE [OF build])
  have drained: "txList txs = txList (pl_InjectedTransactions pl) @ (if pl_NoTxPool pl then [] else q) \<and>
      pool_rep (be_pool B) pview m (if pl_NoTxPool pl then q else [])"
    using txs pool drainPool_ok [OF pool len, of "pl_InjectedTransactions pl"] by (auto split: if_splits)
  have blk: "b_Txs blk = txList txs" "h_Height (b_Header blk) = h_Height p + 1"
    "h_ParentHash (b_Header blk) = h_Hash p" "h_Time (b_Header blk) = pl_Timestamp pl"
    "h_GasLimit (b_Header blk) = pl_GasLimit pl" "h_ParentBeaconRoot (b_Header blk) = pl_ParentBeaconRoot pl"
    using mk by (auto simp: MakeBlock_def NewBlock_def SetHeader_def txList_def newHeader_def
        elim!: check_OkE split: option.splits)
  have r: "rep (be_db B) view s' (a_append (ldb_TxHash (be_db B)) blk a)"
    using AppendBlock_refines [OF rep, of blk] app by auto
  have "HeadHeader (be_db B) s' = Ok (b_Header blk)" using HeadHeader_finds [OF r] by simp
  moreover have "BlockByHash (be_db B) (h_Hash (b_Header blk)) s' = Ok blk"
    using ldb.append_lookup [OF rep fresh last size] app by auto
  ultimately show ?thesis using p blk drained b' by simp
qed

text \<open>
  C19: \<^verbatim>\<open>Build\<close> returns: the loop that drains the pool ends whenever the pool holds a queue,
  however long, and nothing else in it loops.
\<close>

theorem build_returns:
  assumes "pool_rep (be_pool B) view (bd_pool b) q" and "length q < 2 ^ 64"
  shows "\<exists>r. Build B pl b = Some r"
  using Build_returns assms by blast

text \<open>
  A pool that a duplicate submission has wedged makes every build that uses the pool
  panic, and the panic leaves the builder's stores as they were.
\<close>

theorem wedged_pool_panics_every_build:
  assumes "pool_env_ok (be_pool B) view" and "wedged (be_pool B) view (bd_pool b) tx" and "\<not> pl_NoTxPool pl"
  shows "\<exists>e. Build B pl b = Some (Panic e, b)"
proof -
  have "drainPool (be_pool B) txs (bd_pool b) =
      Some (Panic (Errorf_v ''dequeue'' (Errorf_v ''get head element'' (ErrorNew ''value not found''))), bd_pool b)" for txs
    using wedged_stuck(1,2) [OF assms(1,2)] by (subst drainPool.simps) simp
  then show ?thesis using assms(3) by (simp add: Build_def pcheck_def onPool_def)
qed

lemma reach_height:
  assumes "rep E view s0 empty_store" and "store_reach E s0 s" and "HeaderByHash E u s = Ok hu"
  shows "\<exists>c. DB_Height E s = Ok c \<and> c \<noteq> - 1 \<and> h_Height hu \<noteq> - 1 \<and> h_Height hu \<le> c"
proof -
  obtain a where a: "rep E view s a" "ldb_good E a" using reach_good [OF assms(1,2)] by blast
  note ch = ldb.good_chain [OF a(2)]
  obtain hdr where "a_header a (h_Height hu) = Some hdr"
    using chain_inverse [OF ch reach_known [OF a(1) ch assms(3)]] by blast
  then obtain t where t: "a_top a = Some t" "h_Height hu \<le> t" "t \<noteq> - 1" using chain_below [OF ch] by blast
  then have "DB_Height E s = Ok t" using DB_Height_finds [OF a(1)] by simp
  then show ?thesis using t by (metis word_order.extremum_uniqueI)
qed

lemma reach_rollback:
  assumes "rep E view s0 empty_store" and "store_reach E s0 s" and "HeaderByHash E u s = Ok hu"
  shows "\<exists>s'. Rollback E u f g s = (Ok (), s') \<and> DB_Height E s' = Ok (h_Height hu)"
proof -
  obtain a where a: "rep E view s a" "ldb_good E a" using reach_good [OF assms(1,2)] by blast
  note ch = ldb.good_chain [OF a(2)]
  show ?thesis using ldb.rollback_lookup [OF a(1) ch reach_known [OF a(1) ch assms(3)], of f g] by blast
qed

text \<open>
  C20: the builder's rollback keeps its three stores together. To a stored block it returns
  and succeeds when the application does; the block store's height is then that block's,
  the application was rolled back to the same height, and exactly the index rows of the
  heights above it, up to the height before the rollback, are gone.
\<close>

theorem builder_rollback_is_consistent:
  assumes s0: "rep (be_db B) view s0 empty_store" and reach: "store_reach (be_db B) s0 (bd_blocks b)"
    and hu: "HeaderByHash (be_db B) u (bd_blocks b) = Ok hu"
    and db: "dbm_ok (ts_db (be_txs B)) tview"
    and wf: "\<And>n k. inRange n k \<Longrightarrow> tview (bd_txs b) k \<noteq> None \<Longrightarrow> \<exists>n'. heightRow n' k"
    and app: "app_RollbackToHeight (be_app B) (h_Height hu) (bd_app b) = (Ok (), a')"
  shows "\<exists>b' c. Builder_Rollback B u f g b = Some (Ok (), b') \<and>
    DB_Height (be_db B) (bd_blocks b) = Ok c \<and> DB_Height (be_db B) (bd_blocks b') = Ok (h_Height hu) \<and>
    bd_app b' = a' \<and> bd_pool b' = bd_pool b \<and>
    (\<forall>x. tview (bd_txs b') x = (if \<exists>n k v. h_Height hu < n \<and> n \<le> c \<and> heightRow n k \<and>
        tview (bd_txs b) k = Some v \<and> x \<in> {k, v} then None else tview (bd_txs b) x))"
proof -
  obtain c where c: "DB_Height (be_db B) (bd_blocks b) = Ok c" "c \<noteq> - 1" "h_Height hu \<noteq> - 1"
    using reach_height [OF s0 reach hu] by blast
  obtain s' where s': "Rollback (be_db B) u f g (bd_blocks b) = (Ok (), s')"
    "DB_Height (be_db B) s' = Ok (h_Height hu)"
    using reach_rollback [OF s0 reach hu] by blast
  obtain t where t: "RollbackToHeight (be_txs B) (h_Height hu) c (bd_txs b) = Some (Ok (), t)"
    "tview t = without (doomed (tview (bd_txs b)) (h_Height hu + 1) c) (tview (bd_txs b))"
    using RollbackToHeight_ok [OF db c(2)] by blast
  let ?b = "b\<lparr>bd_blocks := s', bd_txs := t, bd_app := a'\<rparr>"
  have "Builder_Rollback B u f g b = Some (Ok (), ?b)"
    using c(1) hu s'(1) t(1) app by (simp add: Builder_Rollback_def Let_def on_defs pcheck_def)
  moreover have "x \<in> doomed (tview (bd_txs b)) (h_Height hu + 1) c \<longleftrightarrow> (\<exists>n k v. h_Height hu < n \<and> n \<le> c \<and>
      heightRow n k \<and> tview (bd_txs b) k = Some v \<and> x \<in> {k, v})" for x
    by (rule doomed_rows [OF c(3) wf])
  then have "\<forall>x. tview t x = (if \<exists>n k v. h_Height hu < n \<and> n \<le> c \<and> heightRow n k \<and>
        tview (bd_txs b) k = Some v \<and> x \<in> {k, v} then None else tview (bd_txs b) x)"
    by (simp only: t(2) without_def) blast
  ultimately show ?thesis using c(1) s'(2) by (intro exI [of _ ?b] exI [of _ c]) simp
qed

section \<open>A builder in memory\<close>

definition toy_app :: "u64 application" where
  "toy_app = \<lparr>app_Info = (\<lambda>s. (Ok [], s)),
     app_FinalizeBlock = (\<lambda>rq s. (Ok \<lparr>rs_AppHash = [], rs_TxResults = [], rs_Events = []\<rparr>, s)),
     app_Commit = (\<lambda>s. (Ok (), s + 1)), app_RollbackToHeight = (\<lambda>h s. (Ok (), h))\<rparr>"

definition mem_builder :: "(kv, kv, kv, unit, u64, bus_event list, bool \<times> bytes, eth_header, toy_state, toy_state, unit) builder_env" where
  "mem_builder = \<lparr>be_db = mem_env, be_pool = mem_pool, be_txs = mem_txstore, be_app = toy_app,
     be_Publish = (\<lambda>e s. (Ok (), s @ [e])), be_eth = toy_eth, be_evm = toy_evm, be_hex = toy_hex,
     be_CometHash = (\<lambda>h. []), be_chainID = 1\<rparr>"

definition example_payload :: payload where
  "example_payload = \<lparr>pl_InjectedTransactions = Some [], pl_GasLimit = 30, pl_Timestamp = 200,
     pl_NoTxPool = False, pl_ParentBeaconRoot = None, pl_Coinbase = 0\<rparr>"

definition builder_at :: "kv \<Rightarrow> kv \<Rightarrow> (kv, kv, kv, u64, bus_event list, toy_state) builder" where
  "builder_at s m = \<lparr>bd_blocks = s, bd_pool = m, bd_txs = [], bd_app = 1, bd_bus = [], bd_eth = []\<rparr>"

lemma builder_at_sel [simp]:
  "bd_blocks (builder_at s m) = s" "bd_pool (builder_at s m) = m" "bd_txs (builder_at s m) = []"
  "bd_app (builder_at s m) = 1"
  by (simp_all add: builder_at_def)

lemma mem_builder_sel [simp]:
  "be_db mem_builder = mem_env" "be_pool mem_builder = mem_pool" "be_txs mem_builder = mem_txstore"
  by (simp_all add: mem_builder_def)

lemma toy_record:
  "rs_TxResults resp = [] \<Longrightarrow> \<exists>root d. recordInEVM toy_eth toy_evm toy_hex p h txs resp d0 = (Ok ([], root), d)"
  by (simp add: recordInEVM_def storeAppHashInEVM_def NewEVM_def NewL2ApplicationStateRootProviderExecuter_def
      NewMonomerContractExecuter_def toy_evm_def SetL2ApplicationStateRoot_def Executer_Call_def
      getCallParams_def dataCall_def toy_call_def scheck_def)

lemma toy_build:
  assumes rep: "rep mem_env map_of (bd_blocks b) a" and head: "HeadHeader mem_env (bd_blocks b) = Ok p"
    and txs: "AdaptCosmosTxsToEthTxs toy_eth txs = Ok ets"
  shows "\<exists>blk b'. buildWith mem_builder pl (Some txs) b = (Ok blk, b') \<and> b_Txs blk = txs"
proof -
  let ?h = "newHeader 1 pl p" and ?resp = "\<lparr>rs_AppHash = [], rs_TxResults = [], rs_Events = []\<rparr>"
  obtain root d where r: "recordInEVM toy_eth toy_evm toy_hex p ?h (Some txs) ?resp (bd_eth b) = (Ok ([], root), d)"
    using toy_record [of ?resp p ?h "Some txs" "bd_eth b"] by (auto simp only: finalize_response.select_convs)
  obtain blk where "MakeBlock toy_eth (?h\<lparr>h_StateRoot := root\<rparr>) (Some txs) = Ok blk" "b_Txs blk = txs"
    using txs by (auto simp: MakeBlock_def SetHeader_def Block_ToEth_def)
  moreover obtain s' where "AppendBlock mem_env blk (bd_blocks b) = (Ok (), s')"
    using AppendBlock_refines [OF rep] by blast
  ultimately show ?thesis using r head
    by (simp add: buildWith_def mem_builder_def Let_def on_defs toy_app_def scheck_def TxStore_Add_def
        mem_txstore_def publishEvents_def)
qed

lemma toy_Build:
  assumes rep: "rep mem_env map_of s a" and head: "HeadHeader mem_env s = Ok p"
    and txs: "AdaptCosmosTxsToEthTxs toy_eth txs = Ok ets" and pl: "pl_InjectedTransactions pl = Some txs"
  shows "\<exists>blk b'. Build mem_builder pl (builder_at s []) = Some (Ok blk, b') \<and> b_Txs blk = txs"
proof -
  obtain m where m: "drainPool mem_pool (Some txs) [] = Some (Ok (Some txs), m)"
    using drainPool_ok [OF mem_pool_rep_empty, of "Some txs"] by auto
  have "\<exists>blk b'. buildWith mem_builder pl (Some txs) ((builder_at s [])\<lparr>bd_pool := n\<rparr>) = (Ok blk, b') \<and>
      b_Txs blk = txs" for n
    using toy_build [of "(builder_at s [])\<lparr>bd_pool := n\<rparr>" a p txs ets pl] rep head txs by (auto simp: builder_at_def)
  from this [of m] this [of "[]"] show ?thesis
    using m pl by (cases "pl_NoTxPool pl") (auto simp: Build_def pcheck_def onPool_def builder_at_def)
qed

theorem build_extends_the_chain_witness:
  "\<exists>s blk b'. AppendBlock mem_env blk1 [] = (Ok (), s) \<and>
     Build mem_builder example_payload (builder_at s []) = Some (Ok blk, b') \<and>
     h_Height (b_Header blk) = 2 \<and> h_ParentHash (b_Header blk) = 101 \<and> b_Txs blk = [] \<and>
     HeadHeader mem_env (bd_blocks b') = Ok (b_Header blk)"
proof -
  let ?a = "a_append (ldb_TxHash mem_env) blk1 empty_store"
  obtain s where s: "AppendBlock mem_env blk1 [] = (Ok (), s)" and rep: "rep mem_env map_of s ?a"
    using AppendBlock_refines [OF mem_rep_empty, of blk1] by blast
  have head: "HeadHeader mem_env s = Ok hdr1" using HeadHeader_finds [OF rep] by (simp add: blk1_def)
  obtain blk b' where build: "Build mem_builder example_payload (builder_at s []) = Some (Ok blk, b')"
    and txs: "b_Txs blk = []"
    using toy_Build [OF rep head, of "[]" "[]" example_payload]
    by (auto simp: AdaptCosmosTxsToEthTxs_def example_payload_def)
  have blk: "h_Height (b_Header blk) = 2"
    by (rule Build_OkE [OF build]) (use head in \<open>auto simp: MakeBlock_def NewBlock_def SetHeader_def
        newHeader_def hdr1_def elim!: check_OkE split: option.splits\<close>)
  have "rows ?a 2 []"
    using rows_empty_store by (simp add: rows_append_other blk1_def hdr1_def)
  with blk txs show ?thesis
    using build_extends_the_chain [OF build, of map_of ?a map_of "[]"] rep mem_pool_rep_empty head s build
    by (auto simp: hdr1_def)
qed

theorem build_returns_witness: "\<exists>r. Build mem_builder example_payload (builder_at [] []) = Some r"
  by (rule build_returns [where q = "[]" and view = map_of]) (simp_all add: mem_pool_rep_empty)

theorem wedged_pool_panics_every_build_witness:
  "\<exists>m e. Build mem_builder example_payload (builder_at [] m) = Some (Panic e, builder_at [] m)"
proof -
  obtain s1 where r: "pool_rep mem_pool map_of s1 [[7]]" using Enqueue_first [OF mem_pool_rep_empty] by blast
  obtain m where "wedged mem_pool map_of m [7]" using duplicate_reaches_wedged [OF r] by blast
  then show ?thesis
    using wedged_pool_panics_every_build [of mem_builder map_of "builder_at [] m" "[7]" example_payload] mem_pool_ok
    by (auto simp: example_payload_def)
qed

theorem builder_rollback_is_consistent_witness:
  "\<exists>s b'. store_reach mem_env [] s \<and> Builder_Rollback mem_builder 101 101 101 (builder_at s []) = Some (Ok (), b') \<and>
     DB_Height mem_env (bd_blocks b') = Ok 1 \<and> bd_app b' = 1"
proof -
  obtain s where s: "store_reach mem_env [] s" "HeaderByHash mem_env 101 s = Ok hdr1" using mem_reach_blk1 by blast
  have "app_RollbackToHeight (be_app mem_builder) (h_Height hdr1) (bd_app (builder_at s [])) = (Ok (), 1)"
    by (simp add: mem_builder_def toy_app_def hdr1_def)
  from builder_rollback_is_consistent [of mem_builder map_of "[]" "builder_at s []" 101 hdr1 map_of 1 101 101]
    this s mem_rep_empty show ?thesis
    by (auto simp: mem_txstore_def dbm_ok_mem hdr1_def)
qed

end
