(* ===== verification/Engine.thy ===== *)
theory Engine
  imports Builder
begin

text \<open>
  The engine API (\<^verbatim>\<open>engine/engine.go\<close>), through which the rollup node drives the chain:
  fork choice updates move the head, roll back and remember the payload to build, getting
  the payload seals it, and new payloads are looked up. Each handler holds the lock of the
  API for its whole body, so that a call is one step here; \<open>EngineConcurrent\<close> has the calls in steps
  under that lock. Metrics are in \<open>Metrics\<close>. The application's
  \<^verbatim>\<open>CheckTx\<close>, SHA-256 and the clock are parameters.
\<close>

section \<open>State and messages\<close>

record fork_choice_state =
  fc_HeadBlockHash :: hash
  fc_SafeBlockHash :: hash
  fc_FinalizedBlockHash :: hash

text \<open>The payload attributes of a request; the gas limit is a pointer.\<close>

record 'w rpc_attributes =
  ra_Timestamp :: u64
  ra_PrevRandao :: hash
  ra_SuggestedFeeRecipient :: address
  ra_Withdrawals :: "'w option"
  ra_Transactions :: "bytes list"
  ra_NoTxPool :: bool
  ra_GasLimit :: "u64 option"
  ra_ParentBeaconBlockRoot :: "hash option"

record check_tx =
  ct_Code :: u32
  ct_Log :: string

record 'w execution_payload =
  ep_ParentHash :: hash
  ep_BlockNumber :: u64
  ep_BlockHash :: hash
  ep_FeeRecipient :: address
  ep_Timestamp :: u64
  ep_PrevRandao :: hash
  ep_Withdrawals :: "'w option"
  ep_Transactions :: "bytes list"
  ep_GasLimit :: u64
  ep_StateRoot :: hash

record ('bd, 'w) engine =
  en_builder :: 'bd
  en_current :: "'w payload_attributes option"

record ('s, 'm, 't, 'q, 'a, 'b, 'tx, 'blk, 'es, 'd, 'abi) engine_env =
  ee_builder :: "('s, 'm, 't, 'q, 'a, 'b, 'tx, 'blk, 'es, 'd, 'abi) builder_env"
  ee_CheckTx :: "bytes \<Rightarrow> ('a, check_tx) op"
  ee_sha256 :: "bytes \<Rightarrow> bytes"

type_synonym ('s, 'm, 't, 'a, 'b, 'd, 'w) engine_state =
  "(('s, 'm, 't, 'a, 'b, 'd) builder, 'w) engine"

definition onBuilder :: "('bd, 'x) pop \<Rightarrow> (('bd, 'w) engine, 'x) pop" where
  "onBuilder f e = map_option (\<lambda>(r, b). (r, e\<lparr>en_builder := b\<rparr>)) (f (en_builder e))"

abbreviation onStore ::
    "('s, 'x) op \<Rightarrow> (('s, 'm, 't, 'a, 'b, 'd, 'w) engine_state, 'x) pop" where
  "onStore f \<equiv> onBuilder (total (onBlocks f))"

definition pfail :: "goerr \<Rightarrow> ('s, 'x) pop" where
  "pfail e = total (sfail e)"

definition NewEngineAPI :: "'bd \<Rightarrow> ('bd, 'w) engine" where
  "NewEngineAPI b = \<lparr>en_builder = b, en_current = None\<rparr>"

section \<open>Fork choice updates\<close>

text \<open>One of the three lookups, with the error for a block that is not stored.\<close>

definition forkchoiceHeader :: "'s localdb_env \<Rightarrow> hash \<Rightarrow> goerr \<Rightarrow> 's \<Rightarrow> header res" where
  "forkchoiceHeader E x notFound s = (case HeaderByHash E x s of
       Ok h \<Rightarrow> Ok h
     | Err e \<Rightarrow> (if errors_Is e ErrNotFound then Err notFound
                 else Err (ApiErr GenericServerError (Errorf_v ''get header by hash'' e)))
     | Panic p \<Rightarrow> Panic p)"

definition validateForkchoice :: "'s localdb_env \<Rightarrow> fork_choice_state \<Rightarrow> 's \<Rightarrow> header res" where
  "validateForkchoice E fcs s =
     check (forkchoiceHeader E (fc_HeadBlockHash fcs)
       (ApiErr InvalidForkChoiceState (ErrorNew ''head block not found'')) s) pass (\<lambda>headHeader.
     check (forkchoiceHeader E (fc_SafeBlockHash fcs)
       (ApiErr InvalidForkChoiceState (ErrorNew ''safe block not found'')) s) pass (\<lambda>safeHeader.
     if h_Height safeHeader > h_Height headHeader
     then Err (ApiErr InvalidForkChoiceState (ErrorNew ''safe block comes after head block''))
     else
     check (forkchoiceHeader E (fc_FinalizedBlockHash fcs)
       (ApiErr InvalidPayloadAttributes (ErrorNew ''finalized block not found'')) s) pass (\<lambda>finalizedHeader.
     if h_Height finalizedHeader > h_Height headHeader
     then Err (ApiErr InvalidForkChoiceState (ErrorNew ''finalized block comes after head block''))
     else Ok headHeader)))"

text \<open>The rollback a fork choice update makes when its head is below the stored head.\<close>

definition moveHead ::
    "('s, 'm, 't, 'q, 'a, 'b, 'tx, 'blk, 'es, 'd, 'abi) builder_env \<Rightarrow> fork_choice_state \<Rightarrow> u64 \<Rightarrow> u64 \<Rightarrow>
     (('s, 'm, 't, 'a, 'b, 'd, 'w) engine_state, unit) pop" where
  "moveHead B fcs n height = (if n < height then onBuilder (Builder_Rollback B (fc_HeadBlockHash fcs)
     (fc_SafeBlockHash fcs) (fc_FinalizedBlockHash fcs)) else total (sret ()))"

definition applyForkchoice ::
    "('s, 'm, 't, 'q, 'a, 'b, 'tx, 'blk, 'es, 'd, 'abi) builder_env \<Rightarrow> fork_choice_state \<Rightarrow> header \<Rightarrow>
     (('s, 'm, 't, 'a, 'b, 'd, 'w) engine_state, unit) pop" where
  "applyForkchoice B fcs headHeader =
     pcheck (onStore (slift (DB_Height (be_db B))))
       (\<lambda>e. ApiErr GenericServerError (Errorf_v ''get height'' e)) (\<lambda>height.
     pcheck (moveHead B fcs (h_Height headHeader) height)
       (\<lambda>e. ApiErr GenericServerError (Errorf_v ''rollback'' e)) (\<lambda>_.
     pcheck (onStore (UpdateLabels (be_db B) (fc_HeadBlockHash fcs) (fc_SafeBlockHash fcs)
         (fc_FinalizedBlockHash fcs)))
       (\<lambda>e. ApiErr GenericServerError (Errorf_v ''update labels'' e)) (\<lambda>_.
     total (sret ()))))"

text \<open>The loop over \<^verbatim>\<open>CheckTx\<close>: the log of the first invalid transaction, if there is one.\<close>

fun checkTxs :: "(bytes \<Rightarrow> ('a, check_tx) op) \<Rightarrow> bytes list \<Rightarrow> ('a, string option) op" where
  "checkTxs CheckTx [] = sret None"
| "checkTxs CheckTx (txBytes # txs) =
     scheck (CheckTx txBytes) (\<lambda>e. ApiErr GenericServerError (Errorf_v ''CheckTx'' e)) (\<lambda>r.
     if ct_Code r \<noteq> 0 then sret (Some (ct_Log r)) else checkTxs CheckTx txs)"

definition newAttributes ::
    "fork_choice_state \<Rightarrow> 'w rpc_attributes \<Rightarrow> u64 \<Rightarrow> header \<Rightarrow> bytes list \<Rightarrow> 'w payload_attributes" where
  "newAttributes fcs pa gasLimit parentHeader cosmosTxs = \<lparr>
     pa_Timestamp = ra_Timestamp pa,
     pa_PrevRandao = ra_PrevRandao pa,
     pa_SuggestedFeeRecipient = ra_SuggestedFeeRecipient pa,
     pa_Withdrawals = ra_Withdrawals pa,
     pa_NoTxPool = ra_NoTxPool pa,
     pa_GasLimit = gasLimit,
     pa_ParentBeaconBlockRoot = ra_ParentBeaconBlockRoot pa,
     pa_ParentHash = fc_HeadBlockHash fcs,
     pa_Height = sint (h_Height parentHeader + 1),
     pa_CosmosTxs = cosmosTxs,
     pa_id = None\<rparr>"

definition setAttributes ::
    "(bytes \<Rightarrow> bytes) \<Rightarrow> 'w payload_attributes \<Rightarrow> (('bd, 'w) engine, bytes) op" where
  "setAttributes sha256 p e =
     (case PayloadAttributes_ID sha256 p of (i, p') \<Rightarrow> (Ok i, e\<lparr>en_current := Some p'\<rparr>))"

definition startPayload ::
    "('s, 'm, 't, 'q, 'a, 'b, 'tx, 'blk, 'es, 'd, 'abi) engine_env \<Rightarrow> u64 \<Rightarrow> fork_choice_state \<Rightarrow>
     'w rpc_attributes \<Rightarrow> (('s, 'm, 't, 'a, 'b, 'd, 'w) engine_state, fcu_result) pop" where
  "startPayload N now fcs pa =
     pcheck (onStore (slift (HeadHeader (be_db (ee_builder N)))))
       (\<lambda>e. ApiErr GenericServerError (Errorf_v ''get head header'' e)) (\<lambda>parentHeader.
     if ra_Timestamp pa \<le> h_Time parentHeader
     then pfail (ApiErr InvalidPayloadAttributes (ErrorNew ''timestamp too small''))
     else case ra_GasLimit pa of
       None \<Rightarrow> pfail (ApiErr InvalidPayloadAttributes (ErrorNew ''gas limit not provided''))
     | Some gasLimit \<Rightarrow>
     pcheck (total (slift (\<lambda>_. AdaptPayloadTxsToCosmosTxs (be_eth (ee_builder N)) now (ra_Transactions pa))))
       (\<lambda>e. ApiErr InvalidPayloadAttributes
          (Errorf_v ''convert payload attributes txs to cosmos txs'' e)) (\<lambda>cosmosTxs.
     if length cosmosTxs = 0
     then pfail (ApiErr InvalidPayloadAttributes (ErrorNew ''L1 Attributes tx not found''))
     else
     pcheck (onBuilder (total (onApp (checkTxs (ee_CheckTx N) cosmosTxs)))) pass (\<lambda>invalid.
     case invalid of
       Some l \<Rightarrow> total (sret \<lparr>fr_PayloadStatus = \<lparr>ps_Status = ExecutionInvalid,
           ps_LatestValidHash = Some (fc_HeadBlockHash fcs), ps_ValidationError = Some l\<rparr>,
         fr_PayloadID = None\<rparr>)
     | None \<Rightarrow>
     pcheck (total (setAttributes (ee_sha256 N) (newAttributes fcs pa gasLimit parentHeader cosmosTxs)))
       pass (\<lambda>i.
     total (sret (ValidForkchoiceUpdateResult (Some (fc_HeadBlockHash fcs)) (Some i)))))))"

definition ForkchoiceUpdatedV3 ::
    "('s, 'm, 't, 'q, 'a, 'b, 'tx, 'blk, 'es, 'd, 'abi) engine_env \<Rightarrow> u64 \<Rightarrow> fork_choice_state \<Rightarrow>
     'w rpc_attributes option \<Rightarrow> (('s, 'm, 't, 'a, 'b, 'd, 'w) engine_state, fcu_result) pop" where
  "ForkchoiceUpdatedV3 N now fcs pa =
     pcheck (onStore (slift (validateForkchoice (be_db (ee_builder N)) fcs))) pass (\<lambda>headHeader.
     pcheck (applyForkchoice (ee_builder N) fcs headHeader) pass (\<lambda>_.
     case pa of
       None \<Rightarrow> total (sret (ValidForkchoiceUpdateResult (Some (fc_HeadBlockHash fcs)) None))
     | Some pa \<Rightarrow> startPayload N now fcs pa))"

definition ForkchoiceUpdatedV1 where "ForkchoiceUpdatedV1 N now fcs pa = ForkchoiceUpdatedV3 N now fcs pa"
definition ForkchoiceUpdatedV2 where "ForkchoiceUpdatedV2 N now fcs pa = ForkchoiceUpdatedV3 N now fcs pa"

section \<open>Getting and confirming a payload\<close>

definition payloadOf :: "'w payload_attributes \<Rightarrow> payload" where
  "payloadOf p = \<lparr>
     pl_InjectedTransactions = Some (pa_CosmosTxs p),
     pl_GasLimit = pa_GasLimit p,
     pl_Timestamp = pa_Timestamp p,
     pl_NoTxPool = pa_NoTxPool p,
     pl_ParentBeaconRoot = pa_ParentBeaconBlockRoot p,
     pl_Coinbase = pa_SuggestedFeeRecipient p\<rparr>"

definition payloadEnvelope ::
    "'w payload_attributes \<Rightarrow> block \<Rightarrow> bytes list \<Rightarrow> 'w execution_payload" where
  "payloadEnvelope p block txBytes = \<lparr>
     ep_ParentHash = pa_ParentHash p,
     ep_BlockNumber = word_of_int (pa_Height p),
     ep_BlockHash = h_Hash (b_Header block),
     ep_FeeRecipient = pa_SuggestedFeeRecipient p,
     ep_Timestamp = pa_Timestamp p,
     ep_PrevRandao = pa_PrevRandao p,
     ep_Withdrawals = pa_Withdrawals p,
     ep_Transactions = txBytes,
     ep_GasLimit = pa_GasLimit p,
     ep_StateRoot = h_StateRoot (b_Header block)\<rparr>"

text \<open>A build that fails panics.\<close>

definition buildOrPanic ::
    "('s, 'm, 't, 'q, 'a, 'b, 'tx, 'blk, 'es, 'd, 'abi) builder_env \<Rightarrow> payload \<Rightarrow>
     (('s, 'm, 't, 'a, 'b, 'd) builder, block) pop" where
  "buildOrPanic B pl b = map_option (\<lambda>(r, b').
     (case r of Err e \<Rightarrow> Panic (Errorf_v ''build block'' e) | _ \<Rightarrow> r, b')) (Build B pl b)"

definition GetPayloadV3 ::
    "('s, 'm, 't, 'q, 'a, 'b, 'tx, 'blk, 'es, 'd, 'abi) engine_env \<Rightarrow> bytes \<Rightarrow>
     (('s, 'm, 't, 'a, 'b, 'd, 'w) engine_state, 'w execution_payload) pop" where
  "GetPayloadV3 N payloadID e = (case en_current e of
       None \<Rightarrow> pfail (ApiErr InvalidParams (ErrorNew ''payload not found'')) e
     | Some p0 \<Rightarrow>
         pcheck (total (setAttributes (ee_sha256 N) p0)) pass (\<lambda>i.
         if payloadID \<noteq> i then pfail (ApiErr InvalidParams (ErrorNew ''payload is not current''))
         else
         pcheck (onBuilder (buildOrPanic (ee_builder N) (payloadOf p0))) pass (\<lambda>block.
         pcheck (total (slift (\<lambda>_. AdaptCosmosTxsToEthTxs (be_eth (ee_builder N)) (b_Txs block))))
           (\<lambda>e. ApiErr GenericServerError (Errorf_v ''convert cosmos txs to eth txs'' e)) (\<lambda>txs.
         pcheck (total (slift (\<lambda>_. marshalTxs (be_eth (ee_builder N))
             (\<lambda>e. ApiErr GenericServerError (Errorf_v ''marshal tx binary'' e)) txs))) pass (\<lambda>txBytes.
         total (\<lambda>e. (Ok (payloadEnvelope p0 block txBytes), e\<lparr>en_current := None\<rparr>)))))) e)"

definition GetPayloadV1 where "GetPayloadV1 N payloadID = GetPayloadV3 N payloadID"
definition GetPayloadV2 where "GetPayloadV2 N payloadID = GetPayloadV3 N payloadID"

text \<open>Both results of the Go function: the status and the error.\<close>

definition NewPayloadV3 ::
    "'s localdb_env \<Rightarrow> 'w execution_payload \<Rightarrow> 's \<Rightarrow> (payload_status option \<times> goerr option) res" where
  "NewPayloadV3 E payload s = (case HeaderByHash E (ep_BlockHash payload) s of
       Panic p \<Rightarrow> Panic p
     | Err e \<Rightarrow>
         (if errors_Is e ErrNotFound
          then Ok (Some \<lparr>ps_Status = ExecutionInvalidBlockHash, ps_LatestValidHash = None,
              ps_ValidationError = None\<rparr>, Some (ApiErr InvalidParams (ErrorNew ''block not found'')))
          else Ok (None, Some (ApiErr GenericServerError (Errorf_v ''header by hash'' e))))
     | Ok _ \<Rightarrow>
         (case HeadHeader E s of
            Panic p \<Rightarrow> Panic p
          | Err e \<Rightarrow> Ok (None, Some (ApiErr GenericServerError (Errorf_v ''head header'' e)))
          | Ok headHeader \<Rightarrow> Ok (Some \<lparr>ps_Status = ExecutionValid,
              ps_LatestValidHash = Some (h_Hash headHeader), ps_ValidationError = None\<rparr>, None)))"

definition NewPayloadV2 where "NewPayloadV2 E payload s = NewPayloadV3 E payload s"
definition NewPayloadV1 where "NewPayloadV1 E payload s = NewPayloadV2 E payload s"

end
