(* ===== verification/EngineProps.thy ===== *)
theory EngineProps
  imports Engine
begin

text \<open>
  The properties of the engine API: what a fork choice update accepts and what it leaves, the
  block a payload becomes, and that every call keeps the block store a chain.
\<close>

section \<open>The store under a fork choice update\<close>

lemma onBuilder_eq [simp]:
  "onBuilder f e = map_option (\<lambda>(r, b). (r, e\<lparr>en_builder := b\<rparr>)) (f (en_builder e))"
  by (simp add: onBuilder_def)

lemma onBlocks_slift [simp]: "onBlocks (slift f) b = (f (bd_blocks b), b)"
  by (simp add: onBlocks_def)

lemma pfail_eq [simp]: "pfail x s = Some (Err x, s)"
  by (simp add: pfail_def)

definition blocks :: "('s, 'm, 't, 'a, 'b, 'd, 'w) engine_state \<Rightarrow> 's" where
  "blocks e = bd_blocks (en_builder e)"

lemma blocks_simps [simp]:
  "bd_blocks (en_builder e) = blocks e" "blocks (e\<lparr>en_builder := b\<rparr>) = bd_blocks b"
  "blocks (e\<lparr>en_current := c\<rparr>) = blocks e"
  by (simp_all add: blocks_def)

lemma validateForkchoice_Ok:
  assumes "validateForkchoice E fcs s = Ok hu"
  obtains hf hg where "HeaderByHash E (fc_HeadBlockHash fcs) s = Ok hu"
    and "HeaderByHash E (fc_SafeBlockHash fcs) s = Ok hf" and "h_Height hf \<le> h_Height hu"
    and "HeaderByHash E (fc_FinalizedBlockHash fcs) s = Ok hg" and "h_Height hg \<le> h_Height hu"
  using assms
  by (auto simp: validateForkchoice_def forkchoiceHeader_def not_less
      elim!: check_OkE split: if_splits res.splits)

lemma validateForkchoice_known:
  assumes "HeaderByHash E (fc_HeadBlockHash fcs) s = Ok hu"
    and "HeaderByHash E (fc_SafeBlockHash fcs) s = Ok hf" and "h_Height hf \<le> h_Height hu"
    and "HeaderByHash E (fc_FinalizedBlockHash fcs) s = Ok hg" and "h_Height hg \<le> h_Height hu"
  shows "validateForkchoice E fcs s = Ok hu"
  using assms by (simp add: validateForkchoice_def forkchoiceHeader_def leD)

text \<open>A rollback keeps the lookups at and below its target, and makes the target the head.\<close>

lemma cut_headerByHash:
  assumes "chain_ok a" and "a_headerByHash a x = Some hdr" and "h_Height hdr \<le> n"
  shows "a_headerByHash (a_setLabels E u f g (a_cut H n a)) x = Some hdr"
proof -
  note h = headerByHash_Some [OF assms(1,2)]
  then have "a_heightOf (a_cut H n a) x = Some (h_Height hdr)"
    using assms(3) by (simp add: a_cut_heightOf [OF assms(1)] leD)
  with h assms(3) show ?thesis by (simp add: a_headerByHash_def a_setLabels_def a_cut_def leD)
qed

lemma reach_rollback_keeps:
  assumes s0: "rep E view s0 empty_store" and reach: "store_reach E s0 s"
    and u: "HeaderByHash E u s = Ok hu"
  shows "\<exists>s'. Rollback E u f g s = (Ok (), s') \<and> DB_Height E s' = Ok (h_Height hu) \<and>
    HeadHeader E s' = Ok hu \<and>
    (\<forall>x hx. HeaderByHash E x s = Ok hx \<and> h_Height hx \<le> h_Height hu \<longrightarrow> HeaderByHash E x s' = Ok hx)"
proof -
  obtain a where a: "rep E view s a" "ldb_good E a" using reach_good [OF s0 reach] by blast
  note ch = ldb.good_chain [OF a(2)]
  have n: "a_heightOf a u = Some (h_Height hu)" by (rule reach_known [OF a(1) ch u])
  have n1: "h_Height hu \<noteq> - 1" using reach_height [OF s0 reach u] by blast
  obtain s' where s': "Rollback E u f g s = (Ok (), s')"
    "rep E view s' (a_setLabels E u f g (a_cut (ldb_TxHash E) (h_Height hu) a))"
    using Rollback_refines [OF a(1) n n1] by blast
  have at: "a_header a (h_Height hu) = Some hu"
    using headerByHash_Some(2) [OF ch finds_Ok [OF HeaderByHash_finds [OF a(1)] u]] .
  have "HeaderByHash E x s' = Ok hx" if "HeaderByHash E x s = Ok hx" "h_Height hx \<le> h_Height hu" for x hx
    using HeaderByHash_finds [OF s'(2), of x]
    unfolding cut_headerByHash [OF ch finds_Ok [OF HeaderByHash_finds [OF a(1)] that(1)] that(2)] by simp
  moreover have "HeadHeader E s' = Ok hu" "DB_Height E s' = Ok (h_Height hu)"
    using HeadHeader_finds [OF s'(2)] DB_Height_finds [OF s'(2)] at
    by (simp_all add: a_setLabels_def a_cut_def)
  ultimately show ?thesis using s'(1) by blast
qed

text \<open>The head of a reachable store is the stored block at its height.\<close>

lemma reach_head_at:
  assumes s0: "rep E view s0 empty_store" and reach: "store_reach E s0 s"
    and u: "HeaderByHash E u s = Ok hu" and top: "DB_Height E s = Ok (h_Height hu)"
  shows "HeadHeader E s = Ok hu"
proof -
  obtain a where a: "rep E view s a" "ldb_good E a" using reach_good [OF s0 reach] by blast
  have "a_header a (h_Height hu) = Some hu" "a_top a = Some (h_Height hu)"
    using headerByHash_Some(2) [OF ldb.good_chain [OF a(2)] finds_Ok [OF HeaderByHash_finds [OF a(1)] u]]
      finds_Ok [OF DB_Height_finds [OF a(1)] top] by simp_all
  then show ?thesis using HeadHeader_finds [OF a(1)] by simp
qed

lemma reach_hash:
  assumes s0: "rep E view s0 empty_store" and reach: "store_reach E s0 s" and u: "HeaderByHash E u s = Ok hu"
  shows "h_Hash hu = u"
proof -
  obtain a where a: "rep E view s a" "ldb_good E a" using reach_good [OF s0 reach] by blast
  show ?thesis
    using headerByHash_Some(3) [OF ldb.good_chain [OF a(2)] finds_Ok [OF HeaderByHash_finds [OF a(1)] u]] .
qed

lemma reach_labels:
  assumes s0: "rep E view s0 empty_store" and reach: "store_reach E s0 s"
    and u: "HeaderByHash E u s = Ok hu" and f: "HeaderByHash E f s = Ok hf" and g: "HeaderByHash E g s = Ok hg"
  shows "\<exists>s'. UpdateLabels E u f g s = (Ok (), s') \<and> store_reach E s0 s' \<and> HeadHeader E s' = HeadHeader E s \<and>
    HeaderByLabel E (ldb_Unsafe E) s' = Ok hu \<and> HeaderByLabel E (ldb_Safe E) s' = Ok hf \<and>
    HeaderByLabel E (ldb_Finalized E) s' = Ok hg \<and>
    (\<forall>x. is_NotFound (HeaderByHash E x s) \<longrightarrow> is_NotFound (HeaderByHash E x s'))"
proof -
  obtain a where a: "rep E view s a" "ldb_good E a" using reach_good [OF s0 reach] by blast
  let ?a = "a_setLabels E u f g a"
  obtain s' where s': "UpdateLabels E u f g s = (Ok (), s')" "rep E view s' ?a"
    using UpdateLabels_refines [OF a(1)] by blast
  note d = ldb.labels_distinct [OF a(1)]
  have same: "a_headerByHash ?a = a_headerByHash a" by (simp add: a_headerByHash_def a_setLabels_def fun_eq_iff)
  have known: "a_headerByHash a u = Some hu" "a_headerByHash a f = Some hf" "a_headerByHash a g = Some hg"
    by (rule finds_Ok [OF HeaderByHash_finds [OF a(1)] u] finds_Ok [OF HeaderByHash_finds [OF a(1)] f]
        finds_Ok [OF HeaderByHash_finds [OF a(1)] g])+
  have lab: "HeaderByLabel E l s' = Ok h" if "a_label ?a (str l) = Some x" "a_headerByHash a x = Some h" for l x h
    using HeaderByLabel_finds [OF s'(2), of l] that by (simp add: same)
  have "HeaderByLabel E (ldb_Unsafe E) s' = Ok hu" "HeaderByLabel E (ldb_Safe E) s' = Ok hf"
    "HeaderByLabel E (ldb_Finalized E) s' = Ok hg"
    using d lab [OF _ known(1)] lab [OF _ known(2)] lab [OF _ known(3)] by (simp_all add: a_setLabels_def)
  moreover have "is_NotFound (HeaderByHash E x s')" if "is_NotFound (HeaderByHash E x s)" for x
    using HeaderByHash_finds [OF s'(2), of x] finds_NotFound [OF HeaderByHash_finds [OF a(1)] that] by (simp add: same)
  moreover have "HeadHeader E s' = HeadHeader E s"
  proof -
    note ch = ldb.good_chain [OF a(2)]
    obtain t p where "a_top a = Some t" "a_header a t = Some p"
      using chain_below [OF ch headerByHash_Some(2) [OF ch known(1)]] chain_top [OF ch] by blast
    then show ?thesis using HeadHeader_finds [OF s'(2)] HeadHeader_finds [OF a(1)] by (simp add: a_setLabels_def)
  qed
  ultimately show ?thesis using s'(1) store_reach.labels [OF reach u f g s'(1)] by blast
qed

section \<open>The engine on a reachable store\<close>

text \<open>Applying a valid fork choice: what the store holds afterwards, and that it is a chain.\<close>

lemma builder_rollback_returns:
  assumes s0: "rep (be_db B) view s0 empty_store" and reach: "store_reach (be_db B) s0 (bd_blocks b)"
    and hu: "HeaderByHash (be_db B) u (bd_blocks b) = Ok hu" and db: "dbm_ok (ts_db (be_txs B)) tview"
    and app: "app_RollbackToHeight (be_app B) (h_Height hu) (bd_app b) = (Ok (), a')"
  shows "\<exists>b'. Builder_Rollback B u f g b = Some (Ok (), b')"
proof -
  obtain c where c: "DB_Height (be_db B) (bd_blocks b) = Ok c" "c \<noteq> - 1" using reach_height [OF s0 reach hu] by blast
  obtain s' where s': "Rollback (be_db B) u f g (bd_blocks b) = (Ok (), s')"
    using reach_rollback [OF s0 reach hu] by blast
  obtain t where "RollbackToHeight (be_txs B) (h_Height hu) c (bd_txs b) = Some (Ok (), t)"
    using RollbackToHeight_ok [OF db c(2)] by blast
  with c(1) hu s' app show ?thesis by (simp add: Builder_Rollback_def Let_def on_defs pcheck_def)
qed

lemma Builder_Rollback_blocks:
  assumes "Builder_Rollback B u f g b = Some (r, b')"
  shows "bd_blocks b' = bd_blocks b \<or>
    (\<exists>x. Rollback (be_db B) u f g (bd_blocks b) = (x, bd_blocks b'))"
  using assms unfolding Builder_Rollback_def
  by (auto simp: pcheck_def on_defs Let_def split: option.splits prod.splits res.splits)

lemma Builder_Rollback_Ok:
  assumes "Builder_Rollback B u f g b = Some (Ok (), b')"
  shows "Rollback (be_db B) u f g (bd_blocks b) = (Ok (), bd_blocks b')"
  using assms unfolding Builder_Rollback_def
  by (auto simp: Let_def on_defs elim!: pcheck_OkE split: prod.splits)

lemma moveHead_reach:
  fixes e e' :: "('s, 'm, 't, 'a, 'b, 'd, 'w) engine_state"
  assumes s0: "rep (be_db B) view s0 empty_store" and reach: "store_reach (be_db B) s0 (blocks e)"
    and v: "validateForkchoice (be_db B) fcs (blocks e) = Ok hu" and c: "DB_Height (be_db B) (blocks e) = Ok c"
    and run: "moveHead B fcs (h_Height hu) c e = Some (r, e')"
  shows "store_reach (be_db B) s0 (blocks e') \<and> en_current e' = en_current e \<and>
    (r = Ok () \<longrightarrow> HeadHeader (be_db B) (blocks e') = Ok hu \<and>
      (\<forall>x hx. HeaderByHash (be_db B) x (blocks e) = Ok hx \<and> h_Height hx \<le> h_Height hu \<longrightarrow>
        HeaderByHash (be_db B) x (blocks e') = Ok hx))"
proof -
  obtain hf hg where k: "HeaderByHash (be_db B) (fc_HeadBlockHash fcs) (blocks e) = Ok hu"
    "HeaderByHash (be_db B) (fc_SafeBlockHash fcs) (blocks e) = Ok hf" "h_Height hf \<le> h_Height hu"
    "HeaderByHash (be_db B) (fc_FinalizedBlockHash fcs) (blocks e) = Ok hg" "h_Height hg \<le> h_Height hu"
    by (rule validateForkchoice_Ok [OF v])
  have le: "h_Height hu \<le> c" using reach_height [OF s0 reach k(1)] c by auto
  show ?thesis
  proof (cases "h_Height hu < c")
    case False
    then have "c = h_Height hu" using le by simp
    then have "HeadHeader (be_db B) (blocks e) = Ok hu" using reach_head_at [OF s0 reach k(1)] c by simp
    then show ?thesis using run False reach by (auto simp: moveHead_def)
  next
    case True
    then obtain b' where b': "e' = e\<lparr>en_builder := b'\<rparr>" "Builder_Rollback B (fc_HeadBlockHash fcs)
        (fc_SafeBlockHash fcs) (fc_FinalizedBlockHash fcs) (en_builder e) = Some (r, b')"
      using run by (auto simp: moveHead_def)
    obtain s' where s': "Rollback (be_db B) (fc_HeadBlockHash fcs) (fc_SafeBlockHash fcs)
        (fc_FinalizedBlockHash fcs) (blocks e) = (Ok (), s')" "HeadHeader (be_db B) s' = Ok hu"
      "\<forall>x hx. HeaderByHash (be_db B) x (blocks e) = Ok hx \<and> h_Height hx \<le> h_Height hu \<longrightarrow>
        HeaderByHash (be_db B) x s' = Ok hx"
      using reach_rollback_keeps [OF s0 reach k(1)] by blast
    have st: "store_reach (be_db B) s0 s'" by (rule store_reach.rollback [OF reach k(1,2,4,3,5) s'(1)])
    have "r = Ok () \<Longrightarrow> bd_blocks b' = s'" using Builder_Rollback_Ok b'(2) s'(1) by fastforce
    moreover have "bd_blocks b' = blocks e \<or> bd_blocks b' = s'"
      using Builder_Rollback_blocks [OF b'(2)] s'(1) by auto
    ultimately show ?thesis using b'(1) s'(2,3) st reach by auto
  qed
qed

lemma applyForkchoice_reach:
  fixes e e' :: "('s, 'm, 't, 'a, 'b, 'd, 'w) engine_state"
  assumes s0: "rep (be_db B) view s0 empty_store" and reach: "store_reach (be_db B) s0 (blocks e)"
    and v: "validateForkchoice (be_db B) fcs (blocks e) = Ok hu"
    and run: "applyForkchoice B fcs hu e = Some (r, e')"
  shows "store_reach (be_db B) s0 (blocks e') \<and> en_current e' = en_current e \<and>
    (r = Ok () \<longrightarrow> HeadHeader (be_db B) (blocks e') = Ok hu)"
proof -
  obtain hf hg where k: "HeaderByHash (be_db B) (fc_HeadBlockHash fcs) (blocks e) = Ok hu"
    "HeaderByHash (be_db B) (fc_SafeBlockHash fcs) (blocks e) = Ok hf" "h_Height hf \<le> h_Height hu"
    "HeaderByHash (be_db B) (fc_FinalizedBlockHash fcs) (blocks e) = Ok hg" "h_Height hg \<le> h_Height hu"
    by (rule validateForkchoice_Ok [OF v])
  obtain c where c: "DB_Height (be_db B) (blocks e) = Ok c" using reach_height [OF s0 reach k(1)] by blast
  have "moveHead B fcs (h_Height hu) c e \<noteq> None"
    using run c by (cases "moveHead B fcs (h_Height hu) c e") (auto simp: applyForkchoice_def pcheck_def)
  then obtain r1 e1 where m: "moveHead B fcs (h_Height hu) c e = Some (r1, e1)" by auto
  note mv = moveHead_reach [OF s0 reach v c m]
  show ?thesis
  proof (cases "r1 = Ok ()")
    case True
    then have k1: "HeaderByHash (be_db B) (fc_HeadBlockHash fcs) (blocks e1) = Ok hu"
      "HeaderByHash (be_db B) (fc_SafeBlockHash fcs) (blocks e1) = Ok hf"
      "HeaderByHash (be_db B) (fc_FinalizedBlockHash fcs) (blocks e1) = Ok hg"
      using mv k by auto
    obtain s' where s': "UpdateLabels (be_db B) (fc_HeadBlockHash fcs) (fc_SafeBlockHash fcs)
        (fc_FinalizedBlockHash fcs) (blocks e1) = (Ok (), s')" "store_reach (be_db B) s0 s'"
      "HeadHeader (be_db B) s' = HeadHeader (be_db B) (blocks e1)"
      using reach_labels [OF s0 _ k1] mv by blast
    have "onBlocks (UpdateLabels (be_db B) (fc_HeadBlockHash fcs) (fc_SafeBlockHash fcs)
        (fc_FinalizedBlockHash fcs)) (en_builder e1) = (Ok (), (en_builder e1)\<lparr>bd_blocks := s'\<rparr>)"
      using s'(1) by (simp add: onBlocks_def)
    then show ?thesis using run c m True mv s'
      by (auto simp: applyForkchoice_def pcheck_def)
  next
    case False
    then show ?thesis using run c m mv
      by (cases r1) (auto simp: applyForkchoice_def pcheck_def)
  qed
qed

text \<open>Starting a payload leaves the stores alone.\<close>

lemma startPayload_blocks:
  assumes "startPayload N now fcs pa e = Some (r, e')"
  shows "blocks e' = blocks e"
  using assms unfolding startPayload_def
  by (auto simp: pcheck_def setAttributes_def onApp_def split: option.splits prod.splits res.splits if_splits)

lemma startPayload_Ok:
  assumes "startPayload N now fcs pa e = Some (Ok res, e')" and "fr_PayloadID res = Some i"
  obtains ph g cs p where "HeadHeader (be_db (ee_builder N)) (blocks e) = Ok ph" and "h_Time ph < ra_Timestamp pa"
    and "ra_GasLimit pa = Some g"
    and "AdaptPayloadTxsToCosmosTxs (be_eth (ee_builder N)) now (ra_Transactions pa) = Ok cs" and "cs \<noteq> []"
    and "PayloadAttributes_ID (ee_sha256 N) (newAttributes fcs pa g ph cs) = (i, p)" and "en_current e' = Some p"
  using assms unfolding startPayload_def
  by (auto simp: setAttributes_def ValidForkchoiceUpdateResult_def not_le elim!: pcheck_OkE
      split: option.splits prod.splits if_splits)

lemma forkchoice_reach:
  fixes e e' :: "('s, 'm, 't, 'a, 'b, 'd, 'w) engine_state"
  assumes s0: "rep (be_db (ee_builder N)) view s0 empty_store"
    and reach: "store_reach (be_db (ee_builder N)) s0 (blocks e)"
    and run: "ForkchoiceUpdatedV3 N now fcs pa e = Some (r, e')"
  shows "store_reach (be_db (ee_builder N)) s0 (blocks e')"
proof (cases "validateForkchoice (be_db (ee_builder N)) fcs (blocks e)")
  case (Ok hu)
  then obtain r1 e1 where e1: "applyForkchoice (ee_builder N) fcs hu e = Some (r1, e1)"
    using run by (auto simp: ForkchoiceUpdatedV3_def pcheck_def split: option.splits)
  have "store_reach (be_db (ee_builder N)) s0 (blocks e1)" using applyForkchoice_reach [OF s0 reach Ok e1] by blast
  moreover have "blocks e' = blocks e1"
    using run Ok e1 startPayload_blocks
    by (auto simp: ForkchoiceUpdatedV3_def pcheck_def split: option.splits res.splits)
  ultimately show ?thesis by simp
qed (use run reach in \<open>auto simp: ForkchoiceUpdatedV3_def pcheck_def\<close>)

lemma forkchoice_Ok:
  fixes e e' :: "('s, 'm, 't, 'a, 'b, 'd, 'w) engine_state"
  assumes s0: "rep (be_db (ee_builder N)) view s0 empty_store"
    and reach: "store_reach (be_db (ee_builder N)) s0 (blocks e)"
    and run: "ForkchoiceUpdatedV3 N now fcs pa e = Some (Ok res, e')"
  obtains hu e1 where "HeaderByHash (be_db (ee_builder N)) (fc_HeadBlockHash fcs) (blocks e) = Ok hu"
    and "h_Hash hu = fc_HeadBlockHash fcs"
    and "HeadHeader (be_db (ee_builder N)) (blocks e1) = Ok hu" and "blocks e' = blocks e1"
    and "store_reach (be_db (ee_builder N)) s0 (blocks e1)" and "en_current e1 = en_current e"
    and "case pa of None \<Rightarrow> e' = e1 | Some pa \<Rightarrow> startPayload N now fcs pa e1 = Some (Ok res, e')"
proof -
  from run obtain hu e1 where v: "validateForkchoice (be_db (ee_builder N)) fcs (blocks e) = Ok hu"
    and e1: "applyForkchoice (ee_builder N) fcs hu e = Some (Ok (), e1)"
    and rest: "case pa of None \<Rightarrow> e' = e1 | Some pa \<Rightarrow> startPayload N now fcs pa e1 = Some (Ok res, e')"
    by (auto simp: ForkchoiceUpdatedV3_def elim!: pcheck_OkE split: option.splits)
  have "blocks e' = blocks e1" using rest startPayload_blocks by (auto split: option.splits)
  moreover obtain hf where "HeaderByHash (be_db (ee_builder N)) (fc_HeadBlockHash fcs) (blocks e) = Ok hu"
    by (rule validateForkchoice_Ok [OF v])
  ultimately show thesis
    using that applyForkchoice_reach [OF s0 reach v e1] reach_hash [OF s0 reach] rest by blast
qed

lemma buildOrPanic_OkE:
  assumes "buildOrPanic B pl b = Some (Ok blk, b')"
  obtains "Build B pl b = Some (Ok blk, b')"
proof -
  obtain r where r: "Build B pl b = Some (r, b')" "(case r of Err e \<Rightarrow> Panic (Errorf_v ''build block'' e) | _ \<Rightarrow> r) = Ok blk"
    using assms by (auto simp: buildOrPanic_def)
  then show thesis using that by (cases r) auto
qed

text \<open>A payload that was got: the block that was built and what the store holds then.\<close>

lemma Build_head:
  assumes build: "Build B pl b = Some (Ok blk, b')" and rep: "rep (be_db B) view (bd_blocks b) a"
  obtains ph where "HeadHeader (be_db B) (bd_blocks b) = Ok ph"
    and "h_Height (b_Header blk) = h_Height ph + 1" and "h_ParentHash (b_Header blk) = h_Hash ph"
    and "h_Time (b_Header blk) = pl_Timestamp pl" and "h_GasLimit (b_Header blk) = pl_GasLimit pl"
    and "HeadHeader (be_db B) (bd_blocks b') = Ok (b_Header blk)"
    and "HeaderByHash (be_db B) (h_Hash (b_Header blk)) (bd_blocks b') = Ok (b_Header blk)"
    and "rep (be_db B) view (bd_blocks b') (a_append (ldb_TxHash (be_db B)) blk a)"
proof -
  obtain txs m ph root s' where ph: "HeadHeader (be_db B) (bd_blocks b) = Ok ph"
    and mk: "MakeBlock (be_eth B) ((newHeader (be_chainID B) pl ph)\<lparr>h_StateRoot := root\<rparr>) txs = Ok blk"
    and app: "AppendBlock (be_db B) blk (bd_blocks b) = (Ok (), s')" and b: "bd_blocks b' = s'"
    by (rule Build_OkE [OF build]) auto
  have r: "rep (be_db B) view s' (a_append (ldb_TxHash (be_db B)) blk a)"
    using AppendBlock_refines [OF rep, of blk] app by auto
  have "HeadHeader (be_db B) s' = Ok (b_Header blk)"
    "HeaderByHash (be_db B) (h_Hash (b_Header blk)) s' = Ok (b_Header blk)"
    using HeadHeader_finds [OF r] HeaderByHash_finds [OF r, of "h_Hash (b_Header blk)"]
    by (simp_all add: a_headerByHash_def)
  moreover have "h_Height (b_Header blk) = h_Height ph + 1" "h_ParentHash (b_Header blk) = h_Hash ph"
    "h_Time (b_Header blk) = pl_Timestamp pl" "h_GasLimit (b_Header blk) = pl_GasLimit pl"
    using mk by (auto simp: MakeBlock_def NewBlock_def SetHeader_def newHeader_def elim!: check_OkE split: option.splits)
  ultimately show thesis using that ph b r by simp
qed

lemma GetPayload_Ok:
  fixes e e' :: "('s, 'm, 't, 'a, 'b, 'd, 'w) engine_state"
  assumes run: "GetPayloadV3 N i e = Some (Ok env, e')" and rep: "rep (be_db (ee_builder N)) view (blocks e) a"
  obtains p p' blk txs ph where "en_current e = Some p" and "PayloadAttributes_ID (ee_sha256 N) p = (i, p')"
    and "env = payloadEnvelope p blk txs" and "HeadHeader (be_db (ee_builder N)) (blocks e) = Ok ph"
    and "h_Height (b_Header blk) = h_Height ph + 1" and "h_ParentHash (b_Header blk) = h_Hash ph"
    and "h_Time (b_Header blk) = pa_Timestamp p" and "h_GasLimit (b_Header blk) = pa_GasLimit p"
    and "HeadHeader (be_db (ee_builder N)) (blocks e') = Ok (b_Header blk)"
    and "HeaderByHash (be_db (ee_builder N)) (h_Hash (b_Header blk)) (blocks e') = Ok (b_Header blk)"
    and "en_current e' = None"
proof -
  let ?B = "ee_builder N"
  from run obtain p where p: "en_current e = Some p" by (auto simp: GetPayloadV3_def split: option.splits)
  obtain i' p' where id: "PayloadAttributes_ID (ee_sha256 N) p = (i', p')" by fastforce
  from run p id obtain blk b txs where i': "i' = i"
    and build: "Build ?B (payloadOf p) (en_builder e) = Some (Ok blk, b)"
    and env: "env = payloadEnvelope p blk txs" and e': "blocks e' = bd_blocks b" "en_current e' = None"
    by (auto simp: GetPayloadV3_def setAttributes_def elim!: pcheck_OkE buildOrPanic_OkE split: if_splits)
  have r: "rep (be_db ?B) view (bd_blocks (en_builder e)) a" using rep by simp
  show thesis
    by (rule Build_head [OF build r], rule that [OF p _ env]) (use id i' e' in \<open>simp_all add: payloadOf_def\<close>)
qed

section \<open>Properties\<close>

text \<open>
  C12: a fork choice update to stored blocks, safe and finalized not above the head, is applied
  in every reachable state (when the application can roll back): it returns, answers VALID,
  the head of the chain is the given block, the three labels name the given blocks and a
  payload under construction is kept. The update may be to any earlier block.
\<close>

theorem forkchoice_moves_the_head:
  fixes e :: "('s, 'm, 't, 'a, 'b, 'd, 'w) engine_state"
  assumes s0: "rep (be_db (ee_builder N)) view s0 empty_store"
    and reach: "store_reach (be_db (ee_builder N)) s0 (blocks e)"
    and u: "HeaderByHash (be_db (ee_builder N)) (fc_HeadBlockHash fcs) (blocks e) = Ok hu"
    and f: "HeaderByHash (be_db (ee_builder N)) (fc_SafeBlockHash fcs) (blocks e) = Ok hf" "h_Height hf \<le> h_Height hu"
    and g: "HeaderByHash (be_db (ee_builder N)) (fc_FinalizedBlockHash fcs) (blocks e) = Ok hg" "h_Height hg \<le> h_Height hu"
    and db: "dbm_ok (ts_db (be_txs (ee_builder N))) tview"
    and app: "app_RollbackToHeight (be_app (ee_builder N)) (h_Height hu) (bd_app (en_builder e)) = (Ok (), a')"
  shows "\<exists>e'. ForkchoiceUpdatedV3 N now fcs None e =
      Some (Ok (ValidForkchoiceUpdateResult (Some (fc_HeadBlockHash fcs)) None), e') \<and>
    HeadHeader (be_db (ee_builder N)) (blocks e') = Ok hu \<and>
    HeaderByLabel (be_db (ee_builder N)) (ldb_Unsafe (be_db (ee_builder N))) (blocks e') = Ok hu \<and>
    HeaderByLabel (be_db (ee_builder N)) (ldb_Safe (be_db (ee_builder N))) (blocks e') = Ok hf \<and>
    HeaderByLabel (be_db (ee_builder N)) (ldb_Finalized (be_db (ee_builder N))) (blocks e') = Ok hg \<and>
    en_current e' = en_current e"
proof -
  let ?B = "ee_builder N"
  have v: "validateForkchoice (be_db ?B) fcs (blocks e) = Ok hu" by (rule validateForkchoice_known [OF u f g])
  obtain c where c: "DB_Height (be_db ?B) (blocks e) = Ok c" using reach_height [OF s0 reach u] by blast
  obtain b' where "Builder_Rollback ?B (fc_HeadBlockHash fcs) (fc_SafeBlockHash fcs) (fc_FinalizedBlockHash fcs)
      (en_builder e) = Some (Ok (), b')"
    using builder_rollback_returns [OF s0, of "en_builder e" "fc_HeadBlockHash fcs" hu tview a'] reach u db app
    by (auto simp del: blocks_simps simp: blocks_simps(1))
  then obtain e1 where m: "moveHead ?B fcs (h_Height hu) c e = Some (Ok (), e1)"
    by (cases "h_Height hu < c") (auto simp: moveHead_def)
  note mv = moveHead_reach [OF s0 reach v c m]
  obtain s' where s': "UpdateLabels (be_db ?B) (fc_HeadBlockHash fcs) (fc_SafeBlockHash fcs)
      (fc_FinalizedBlockHash fcs) (blocks e1) = (Ok (), s')"
    "HeadHeader (be_db ?B) s' = HeadHeader (be_db ?B) (blocks e1)"
    "HeaderByLabel (be_db ?B) (ldb_Unsafe (be_db ?B)) s' = Ok hu"
    "HeaderByLabel (be_db ?B) (ldb_Safe (be_db ?B)) s' = Ok hf"
    "HeaderByLabel (be_db ?B) (ldb_Finalized (be_db ?B)) s' = Ok hg"
    using reach_labels [OF s0, of "blocks e1" "fc_HeadBlockHash fcs" hu "fc_SafeBlockHash fcs" hf
        "fc_FinalizedBlockHash fcs" hg] mv u f g by auto
  have "onBlocks (UpdateLabels (be_db ?B) (fc_HeadBlockHash fcs) (fc_SafeBlockHash fcs)
      (fc_FinalizedBlockHash fcs)) (en_builder e1) = (Ok (), (en_builder e1)\<lparr>bd_blocks := s'\<rparr>)"
    using s'(1) by (simp add: onBlocks_def)
  with v c m mv s'(2-5) show ?thesis
    by (simp add: ForkchoiceUpdatedV3_def applyForkchoice_def pcheck_def)
qed

definition known ::
    "('s, 'm, 't, 'q, 'a, 'b, 'tx, 'blk, 'es, 'd, 'abi) engine_env \<Rightarrow>
     ('s, 'm, 't, 'a, 'b, 'd, 'w) engine_state \<Rightarrow> hash \<Rightarrow> header res" where
  "known N e x = HeaderByHash (be_db (ee_builder N)) x (blocks e)"

definition refused ::
    "('s, 'm, 't, 'q, 'a, 'b, 'tx, 'blk, 'es, 'd, 'abi) engine_env \<Rightarrow> u64 \<Rightarrow> fork_choice_state \<Rightarrow>
     'w rpc_attributes option \<Rightarrow> ('s, 'm, 't, 'a, 'b, 'd, 'w) engine_state \<Rightarrow> api_code \<Rightarrow> bool" where
  "refused N now fcs pa e c \<longleftrightarrow> (\<exists>x. ForkchoiceUpdatedV3 N now fcs pa e = Some (Err (ApiErr c x), e))"

text \<open>
  C13: a fork choice update that names a block the store does not have, or a safe or finalized
  block above the head, is refused and changes nothing. An unknown head or safe block and a
  block above the head are an invalid fork choice state; an unknown finalized block is
  reported as invalid payload attributes.
\<close>

theorem forkchoice_refuses:
  fixes e :: "('s, 'm, 't, 'a, 'b, 'd, 'w) engine_state"
  shows "(is_NotFound (known N e (fc_HeadBlockHash fcs)) \<longrightarrow> refused N now fcs pa e InvalidForkChoiceState) \<and>
    (known N e (fc_HeadBlockHash fcs) = Ok hu \<and> is_NotFound (known N e (fc_SafeBlockHash fcs)) \<longrightarrow>
       refused N now fcs pa e InvalidForkChoiceState) \<and>
    (known N e (fc_HeadBlockHash fcs) = Ok hu \<and> known N e (fc_SafeBlockHash fcs) = Ok hf \<and>
       h_Height hu < h_Height hf \<longrightarrow> refused N now fcs pa e InvalidForkChoiceState) \<and>
    (known N e (fc_HeadBlockHash fcs) = Ok hu \<and> known N e (fc_SafeBlockHash fcs) = Ok hf \<and>
       h_Height hf \<le> h_Height hu \<and> is_NotFound (known N e (fc_FinalizedBlockHash fcs)) \<longrightarrow>
       refused N now fcs pa e InvalidPayloadAttributes) \<and>
    (known N e (fc_HeadBlockHash fcs) = Ok hu \<and> known N e (fc_SafeBlockHash fcs) = Ok hf \<and>
       h_Height hf \<le> h_Height hu \<and> known N e (fc_FinalizedBlockHash fcs) = Ok hg \<and>
       h_Height hu < h_Height hg \<longrightarrow> refused N now fcs pa e InvalidForkChoiceState)"
proof -
  have err: "refused N now fcs pa e c" if "\<exists>x. validateForkchoice (be_db (ee_builder N)) fcs (blocks e) = Err (ApiErr c x)" for c
    using that by (auto simp: refused_def ForkchoiceUpdatedV3_def pcheck_def)
  have nf: "forkchoiceHeader (be_db (ee_builder N)) x y (blocks e) = Err y" if "is_NotFound (known N e x)" for x y
    using that by (cases "known N e x") (simp_all add: known_def forkchoiceHeader_def)
  have found: "forkchoiceHeader (be_db (ee_builder N)) x y (blocks e) = Ok h" if "known N e x = Ok h" for x y h
    using that by (simp add: known_def forkchoiceHeader_def)
  show ?thesis
    by (intro conjI impI; rule err; (elim conjE)?; simp add: validateForkchoice_def nf found leD)
qed

text \<open>
  C11: the payload a fork choice update starts becomes the next block. When the update answers
  with a payload identifier and getting that payload succeeds, the head of the chain is a
  block whose parent is the update's head and which carries the hash, number, timestamp and
  gas limit of the answer; confirming the payload then answers VALID with that block as
  the latest, and the identifier cannot be used again.
\<close>

theorem payload_becomes_the_head:
  fixes e :: "('s, 'm, 't, 'a, 'b, 'd, 'w) engine_state"
  assumes s0: "rep (be_db (ee_builder N)) view s0 empty_store"
    and reach: "store_reach (be_db (ee_builder N)) s0 (blocks e)"
    and fcu: "ForkchoiceUpdatedV3 N now fcs (Some pa) e = Some (Ok res, e1)" and i: "fr_PayloadID res = Some i"
    and get: "GetPayloadV3 N i e1 = Some (Ok env, e2)"
  shows "\<exists>hdr. HeadHeader (be_db (ee_builder N)) (blocks e2) = Ok hdr \<and>
    h_Hash hdr = ep_BlockHash env \<and> h_ParentHash hdr = fc_HeadBlockHash fcs \<and>
    ep_ParentHash env = fc_HeadBlockHash fcs \<and> h_Height hdr = ep_BlockNumber env \<and>
    h_Time hdr = ra_Timestamp pa \<and> ep_Timestamp env = ra_Timestamp pa \<and>
    ra_GasLimit pa = Some (h_GasLimit hdr) \<and> ep_GasLimit env = h_GasLimit hdr \<and>
    ep_StateRoot env = h_StateRoot hdr \<and>
    NewPayloadV3 (be_db (ee_builder N)) env (blocks e2) = Ok (Some \<lparr>ps_Status = ExecutionValid,
      ps_LatestValidHash = Some (ep_BlockHash env), ps_ValidationError = None\<rparr>, None) \<and>
    GetPayloadV3 N i e2 = Some (Err (ApiErr InvalidParams (ErrorNew ''payload not found'')), e2)"
proof -
  let ?E = "be_db (ee_builder N)"
  obtain hu e0 where hu: "h_Hash hu = fc_HeadBlockHash fcs" "HeadHeader ?E (blocks e0) = Ok hu"
    and e0: "blocks e1 = blocks e0" "store_reach ?E s0 (blocks e0)"
    and start: "startPayload N now fcs pa e0 = Some (Ok res, e1)"
    by (rule forkchoice_Ok [OF s0 reach fcu]) auto
  obtain ph g cs p where p: "HeadHeader ?E (blocks e0) = Ok ph" "ra_GasLimit pa = Some g"
    "PayloadAttributes_ID (ee_sha256 N) (newAttributes fcs pa g ph cs) = (i, p)" "en_current e1 = Some p"
    by (rule startPayload_Ok [OF start i])
  have pf: "p = (newAttributes fcs pa g ph cs)\<lparr>pa_id := Some i\<rparr>" by (rule ID_unchanged [OF p(3)])
  obtain a where a: "rep ?E view (blocks e1) a" using reach_good [OF s0 e0(2)] e0(1) by auto
  obtain q q' blk txs where q: "en_current e1 = Some q" "env = payloadEnvelope q blk txs"
    and blk: "h_Height (b_Header blk) = h_Height hu + 1" "h_ParentHash (b_Header blk) = h_Hash hu"
      "h_Time (b_Header blk) = pa_Timestamp q" "h_GasLimit (b_Header blk) = pa_GasLimit q"
    and e2: "HeadHeader ?E (blocks e2) = Ok (b_Header blk)"
      "HeaderByHash ?E (h_Hash (b_Header blk)) (blocks e2) = Ok (b_Header blk)" "en_current e2 = None"
    by (rule GetPayload_Ok [OF get a]) (use e0 hu in auto)
  have "q = p" "ph = hu" using q(1) p(1,4) hu(2) by simp_all
  then show ?thesis
    using hu(1) p(2) pf q(2) blk e2
    by (intro exI [of _ "b_Header blk"])
       (simp add: payloadEnvelope_def newAttributes_def NewPayloadV3_def GetPayloadV3_def)
qed

text \<open>
  C17: a fork choice update without attributes keeps the payload under construction, also when
  it moves the head: getting that payload then builds on the new head, while the answer
  still names the parent and number of the old one.
\<close>

theorem stale_payload_is_built_on_the_new_head:
  fixes e :: "('s, 'm, 't, 'a, 'b, 'd, 'w) engine_state"
  assumes s0: "rep (be_db (ee_builder N)) view s0 empty_store"
    and reach: "store_reach (be_db (ee_builder N)) s0 (blocks e)" and p: "en_current e = Some p"
    and fcu: "ForkchoiceUpdatedV3 N now fcs None e = Some (Ok res, e1)"
    and get: "GetPayloadV3 N i e1 = Some (Ok env, e2)"
  shows "\<exists>hu hdr. HeaderByHash (be_db (ee_builder N)) (fc_HeadBlockHash fcs) (blocks e) = Ok hu \<and>
    HeadHeader (be_db (ee_builder N)) (blocks e2) = Ok hdr \<and> h_Hash hdr = ep_BlockHash env \<and>
    h_ParentHash hdr = fc_HeadBlockHash fcs \<and> h_Height hdr = h_Height hu + 1 \<and>
    ep_ParentHash env = pa_ParentHash p \<and> ep_BlockNumber env = word_of_int (pa_Height p)"
proof -
  let ?E = "be_db (ee_builder N)"
  obtain hu where hu: "HeaderByHash ?E (fc_HeadBlockHash fcs) (blocks e) = Ok hu" "h_Hash hu = fc_HeadBlockHash fcs"
    "HeadHeader ?E (blocks e1) = Ok hu" and e1: "store_reach ?E s0 (blocks e1)" "en_current e1 = en_current e"
    by (rule forkchoice_Ok [OF s0 reach fcu]) auto
  obtain a where a: "rep ?E view (blocks e1) a" using reach_good [OF s0 e1(1)] by auto
  obtain q q' blk txs where q: "en_current e1 = Some q" "env = payloadEnvelope q blk txs"
    and blk: "h_Height (b_Header blk) = h_Height hu + 1" "h_ParentHash (b_Header blk) = h_Hash hu"
    and e2: "HeadHeader ?E (blocks e2) = Ok (b_Header blk)"
    by (rule GetPayload_Ok [OF get a]) (use hu in auto)
  then show ?thesis using hu e1(2) p by (simp add: payloadEnvelope_def)
qed

text \<open>
  Confirming a payload answers VALID, with the hash of the head, exactly when its block is
  stored; otherwise the status is an invalid block hash, with an error.
\<close>

theorem new_payload_checks_the_store:
  assumes s0: "rep E view s0 empty_store" and reach: "store_reach E s0 s"
  shows "(\<exists>h p. HeaderByHash E (ep_BlockHash payload) s = Ok h \<and> HeadHeader E s = Ok p \<and>
      NewPayloadV3 E payload s = Ok (Some \<lparr>ps_Status = ExecutionValid, ps_LatestValidHash = Some (h_Hash p),
        ps_ValidationError = None\<rparr>, None)) \<or>
    (is_NotFound (HeaderByHash E (ep_BlockHash payload) s) \<and>
      NewPayloadV3 E payload s = Ok (Some \<lparr>ps_Status = ExecutionInvalidBlockHash, ps_LatestValidHash = None,
        ps_ValidationError = None\<rparr>, Some (ApiErr InvalidParams (ErrorNew ''block not found''))))"
proof -
  obtain a where a: "rep E view s a" "ldb_good E a" using reach_good [OF s0 reach] by blast
  note ch = ldb.good_chain [OF a(2)]
  show ?thesis
  proof (cases "a_headerByHash a (ep_BlockHash payload)")
    case None
    then have "is_NotFound (HeaderByHash E (ep_BlockHash payload) s)"
      using HeaderByHash_finds [OF a(1), of "ep_BlockHash payload"] by simp
    then show ?thesis
      by (cases "HeaderByHash E (ep_BlockHash payload) s") (simp_all add: NewPayloadV3_def)
  next
    case (Some h)
    then obtain t p where "a_top a = Some t" "a_header a t = Some p"
      using chain_below [OF ch headerByHash_Some(2) [OF ch Some]] chain_top [OF ch] by blast
    then have "HeaderByHash E (ep_BlockHash payload) s = Ok h" "HeadHeader E s = Ok p"
      using Some HeaderByHash_finds [OF a(1), of "ep_BlockHash payload"] HeadHeader_finds [OF a(1)] by simp_all
    then show ?thesis by (simp add: NewPayloadV3_def)
  qed
qed

section \<open>Every call keeps the store a chain\<close>

text \<open>What any build, also one that fails or panics on the way, does to the block store.\<close>

lemma scheck_cases:
  assumes "scheck m w k s = (r, t)"
  obtains x s' where "m s = (Ok x, s')" and "k x s' = (r, t)" | x s' where "m s = (x, s')" and "t = s'"
  using assms by (auto simp: scheck_def split: prod.splits res.splits)

lemma buildWith_blocks:
  assumes "buildWith B pl txs b = (r, b')"
  shows "bd_blocks b' = bd_blocks b \<or> (\<exists>p root blk x. HeadHeader (be_db B) (bd_blocks b) = Ok p \<and>
    MakeBlock (be_eth B) ((newHeader (be_chainID B) pl p)\<lparr>h_StateRoot := root\<rparr>) txs = Ok blk \<and>
    AppendBlock (be_db B) blk (bd_blocks b) = (x, bd_blocks b'))"
  using assms unfolding buildWith_def Let_def
  by (auto simp: on_defs elim!: scheck_cases split: prod.splits)

text \<open>
  What is assumed of a call that seals a block, about that one block: when the call leaves a
  new head, the new head's height has not wrapped and its hash was not the hash of a stored
  block (the two do not collide); and its transactions were at most \<open>2 ^ 64\<close>, as a slice's are.
\<close>

definition fresh_block ::
    "('s, 'm, 't, 'q, 'a, 'b, 'tx, 'blk, 'es, 'd, 'abi) engine_env \<Rightarrow>
     ('s, 'm, 't, 'a, 'b, 'd, 'w) engine_state \<Rightarrow> ('s, 'm, 't, 'a, 'b, 'd, 'w) engine_state \<Rightarrow> bool" where
  "fresh_block N e e' \<longleftrightarrow>
     (\<forall>p. HeadHeader (be_db (ee_builder N)) (blocks e') = Ok p \<and> HeadHeader (be_db (ee_builder N)) (blocks e) \<noteq> Ok p \<longrightarrow>
        h_Height p \<noteq> - 1 \<and> is_NotFound (known N e (h_Hash p))) \<and>
     (\<forall>p. en_current e = Some p \<longrightarrow> length (pa_CosmosTxs p) \<le> 2 ^ 64 \<and>
        (\<forall>txs m. drainPool (be_pool (ee_builder N)) (Some (pa_CosmosTxs p)) (bd_pool (en_builder e)) = Some (Ok txs, m) \<longrightarrow>
           length (txList txs) \<le> 2 ^ 64))"

text \<open>
  The calls of the engine API that write, in any order and with any arguments and outcome
  (confirming a payload only reads).
\<close>

inductive engine_reach ::
    "('s, 'm, 't, 'q, 'a, 'b, 'tx, 'blk, 'es, 'd, 'abi) engine_env \<Rightarrow>
     ('s, 'm, 't, 'a, 'b, 'd, 'w) engine_state \<Rightarrow> ('s, 'm, 't, 'a, 'b, 'd, 'w) engine_state \<Rightarrow> bool"
    for N e0 where
  start: "engine_reach N e0 e0"
| forkchoice: "engine_reach N e0 e \<Longrightarrow> ForkchoiceUpdatedV3 N now fcs pa e = Some (r, e') \<Longrightarrow> engine_reach N e0 e'"
| getPayload: "engine_reach N e0 e \<Longrightarrow> GetPayloadV3 N i e = Some (r, e') \<Longrightarrow> fresh_block N e e' \<Longrightarrow>
    engine_reach N e0 e'"

lemma Build_blocks:
  assumes "Build B pl b = Some (r, b')"
  shows "bd_blocks b' = bd_blocks b \<or> (\<exists>p root blk x txs. HeadHeader (be_db B) (bd_blocks b) = Ok p \<and>
    MakeBlock (be_eth B) ((newHeader (be_chainID B) pl p)\<lparr>h_StateRoot := root\<rparr>) txs = Ok blk \<and>
    AppendBlock (be_db B) blk (bd_blocks b) = (x, bd_blocks b') \<and>
    (txs = pl_InjectedTransactions pl \<or>
      (\<exists>m. drainPool (be_pool B) (pl_InjectedTransactions pl) (bd_pool b) = Some (Ok txs, m))))"
proof -
  have "bd_blocks b' = bd_blocks b \<or> (\<exists>txs m. buildWith B pl txs (b\<lparr>bd_pool := m\<rparr>) = (r, b') \<and>
      (txs = pl_InjectedTransactions pl \<or>
        drainPool (be_pool B) (pl_InjectedTransactions pl) (bd_pool b) = Some (Ok txs, m)))"
  proof (cases "pl_NoTxPool pl")
    case True
    then show ?thesis using assms
      by (intro disjI2 exI [of _ "pl_InjectedTransactions pl"] exI [of _ "bd_pool b"]) (simp add: Build_def pcheck_def)
  next
    case False
    then show ?thesis using assms
      by (auto simp: Build_def pcheck_def onPool_def split: option.splits prod.splits res.splits)
  qed
  then show ?thesis using buildWith_blocks by fastforce
qed

lemma getPayload_blocks:
  fixes e e' :: "('s, 'm, 't, 'a, 'b, 'd, 'w) engine_state"
  assumes "GetPayloadV3 N i e = Some (r, e')"
  shows "blocks e' = blocks e \<or> (\<exists>p r' b'. en_current e = Some p \<and>
    Build (ee_builder N) (payloadOf p) (en_builder e) = Some (r', b') \<and> blocks e' = bd_blocks b')"
  using assms
  by (auto simp: GetPayloadV3_def setAttributes_def pcheck_def buildOrPanic_def
      split: option.splits prod.splits res.splits if_splits)

lemma getPayload_reach:
  fixes e e' :: "('s, 'm, 't, 'a, 'b, 'd, 'w) engine_state"
  assumes s0: "rep (be_db (ee_builder N)) view s0 empty_store"
    and reach: "store_reach (be_db (ee_builder N)) s0 (blocks e)"
    and run: "GetPayloadV3 N i e = Some (r, e')" and ok: "fresh_block N e e'"
  shows "store_reach (be_db (ee_builder N)) s0 (blocks e')"
proof (cases "blocks e' = blocks e")
  case False
  then obtain p r' b' where p: "en_current e = Some p"
    and b': "Build (ee_builder N) (payloadOf p) (en_builder e) = Some (r', b')" "blocks e' = bd_blocks b'"
    using getPayload_blocks [OF run] by blast
  obtain h root blk x txs where h: "HeadHeader (be_db (ee_builder N)) (blocks e) = Ok h"
    and mk: "MakeBlock (be_eth (ee_builder N)) ((newHeader (be_chainID (ee_builder N)) (payloadOf p) h)\<lparr>h_StateRoot := root\<rparr>) txs = Ok blk"
    and app: "AppendBlock (be_db (ee_builder N)) blk (blocks e) = (x, blocks e')"
    and txs: "txs = Some (pa_CosmosTxs p) \<or> (\<exists>m. drainPool (be_pool (ee_builder N)) (Some (pa_CosmosTxs p))
        (bd_pool (en_builder e)) = Some (Ok txs, m))"
    using Build_blocks [OF b'(1)] b'(2) False by (auto simp: payloadOf_def)
  have blk: "b_Txs blk = txList txs" "h_Height (b_Header blk) = h_Height h + 1" "h_ParentHash (b_Header blk) = h_Hash h"
    using mk by (auto simp: MakeBlock_def NewBlock_def SetHeader_def txList_def newHeader_def
        elim!: check_OkE split: option.splits)
  obtain a where a: "rep (be_db (ee_builder N)) view (blocks e) a" using reach_good [OF s0 reach] by blast
  have "HeadHeader (be_db (ee_builder N)) (blocks e') = Ok (b_Header blk)"
    using AppendBlock_refines [OF a, of blk] app HeadHeader_finds [of "be_db (ee_builder N)" view "blocks e'"] by fastforce
  moreover have "HeadHeader (be_db (ee_builder N)) (blocks e) \<noteq> Ok (b_Header blk)" using h blk(2) by auto
  ultimately have "h_Height (b_Header blk) \<noteq> - 1"
      "is_NotFound (HeaderByHash (be_db (ee_builder N)) (h_Hash (b_Header blk)) (blocks e))"
    using ok by (auto simp: fresh_block_def known_def)
  moreover have "length (b_Txs blk) \<le> 2 ^ 64" using ok p txs blk(1) by (auto simp: fresh_block_def txList_def)
  ultimately show ?thesis using store_reach.child [OF reach h blk(2,3)] app by blast
qed (use reach in simp)

text \<open>
  C10: the engine API keeps the block store a chain. From an empty store or any chain the node
  can have, whatever calls are made and however they end (an error or a panic in the middle
  of a build included), as long as no block that is sealed has the hash of a stored one and
  heights do not wrap, the stored headers are found at their own height and hash and the
  other way round, each under its parent, and the head is stored.
\<close>

theorem engine_keeps_the_chain:
  fixes e e0 :: "('s, 'm, 't, 'a, 'b, 'd, 'w) engine_state"
  assumes s0: "rep (be_db (ee_builder N)) view s0 empty_store"
    and e0: "store_reach (be_db (ee_builder N)) s0 (blocks e0)" and reach: "engine_reach N e0 e"
  shows "store_reach (be_db (ee_builder N)) s0 (blocks e) \<and>
    (HeaderByHash (be_db (ee_builder N)) x (blocks e) = Ok hdr \<longrightarrow> h_Hash hdr = x \<and>
       HeaderByHeight (be_db (ee_builder N)) (h_Height hdr) (blocks e) = Ok hdr \<and>
       (\<exists>p. HeadHeader (be_db (ee_builder N)) (blocks e) = Ok p \<and> h_Height hdr \<le> h_Height p) \<and>
       (HeaderByHeight (be_db (ee_builder N)) (h_Height hdr + 1) (blocks e) = Ok c \<longrightarrow> h_ParentHash c = x))"
proof -
  have st: "store_reach (be_db (ee_builder N)) s0 (blocks e)"
    using reach
  proof induction
    case start
    show ?case by (rule e0)
  next
    case (forkchoice e now fcs pa r e')
    then show ?case using forkchoice_reach [OF s0] by blast
  next
    case (getPayload e i r e')
    show ?case by (rule getPayload_reach [OF s0 getPayload.IH getPayload.hyps(2,3)])
  qed
  obtain a where a: "rep (be_db (ee_builder N)) view (blocks e) a" "ldb_good (be_db (ee_builder N)) a"
    using reach_good [OF s0 st] by blast
  note ch = ldb.good_chain [OF a(2)]
  have "?thesis" if hx: "HeaderByHash (be_db (ee_builder N)) x (blocks e) = Ok hdr"
  proof -
    note k = headerByHash_Some [OF ch finds_Ok [OF HeaderByHash_finds [OF a(1)] hx]]
    obtain t p where t: "a_top a = Some t" "a_header a t = Some p" "h_Height hdr \<le> t" "t \<noteq> - 1"
      using chain_below [OF ch k(2)] chain_top [OF ch] by blast
    have "HeaderByHeight (be_db (ee_builder N)) (h_Height hdr) (blocks e) = Ok hdr"
      "HeadHeader (be_db (ee_builder N)) (blocks e) = Ok p" "h_Height p = t"
      using HeaderByHeight_finds [OF a(1), of "h_Height hdr"] HeadHeader_finds [OF a(1)] k(2) t chain_height [OF ch t(2)]
      by simp_all
    moreover have "h_Height hdr \<noteq> - 1" using t(3,4) by (metis word_order.extremum_uniqueI)
    then have "h_ParentHash c = x" if "HeaderByHeight (be_db (ee_builder N)) (h_Height hdr + 1) (blocks e) = Ok c"
      using chain_parent [OF ch _ k(2) finds_Ok [OF HeaderByHeight_finds [OF a(1)] that]] k(3) by simp
    ultimately show ?thesis using st t(3) k(3) by auto
  qed
  then show ?thesis using st by blast
qed

section \<open>An engine in memory\<close>

definition mem_engine ::
    "(kv, kv, kv, unit, u64, bus_event list, bool \<times> bytes, eth_header, toy_state, toy_state, unit) engine_env" where
  "mem_engine = \<lparr>ee_builder = mem_builder, ee_CheckTx = (\<lambda>tx s. (Ok \<lparr>ct_Code = 0, ct_Log = []\<rparr>, s)),
     ee_sha256 = (\<lambda>b. b)\<rparr>"

definition engine_at :: "kv \<Rightarrow> unit payload_attributes option \<Rightarrow>
    (kv, kv, kv, u64, bus_event list, toy_state, unit) engine_state" where
  "engine_at s p = \<lparr>en_builder = builder_at s [], en_current = p\<rparr>"

definition to101 :: fork_choice_state where
  "to101 = \<lparr>fc_HeadBlockHash = 101, fc_SafeBlockHash = 101, fc_FinalizedBlockHash = 101\<rparr>"

definition example_request :: "unit rpc_attributes" where
  "example_request = \<lparr>ra_Timestamp = 200, ra_PrevRandao = 0, ra_SuggestedFeeRecipient = 0, ra_Withdrawals = None,
     ra_Transactions = [[0x7e, 1], [0x7e, 2], [2, 9]], ra_NoTxPool = False, ra_GasLimit = Some 30,
     ra_ParentBeaconBlockRoot = None\<rparr>"

definition stale_attributes :: "unit payload_attributes" where
  "stale_attributes = example_attributes\<lparr>pa_CosmosTxs := [DepositsTx_MarshalToSizedBuffer toy_deposits, [9]]\<rparr>"

lemma mem_engine_sel [simp]:
  "ee_builder mem_engine = mem_builder" "blocks (engine_at s p) = s" "en_current (engine_at s p) = p"
  "en_builder (engine_at s p) = builder_at s []"
  by (simp_all add: mem_engine_def engine_at_def blocks_def)

lemma mem_engine_upd [simp]:
  "(engine_at s p)\<lparr>en_builder := builder_at t []\<rparr> = engine_at t p"
  "(engine_at s p)\<lparr>en_current := q\<rparr> = engine_at s q"
  "(builder_at s m)\<lparr>bd_blocks := t\<rparr> = builder_at t m" "(builder_at s m)\<lparr>bd_app := 1\<rparr> = builder_at s m"
  by (simp_all add: engine_at_def builder_at_def)

lemma to101_sel [simp]:
  "fc_HeadBlockHash to101 = 101" "fc_SafeBlockHash to101 = 101" "fc_FinalizedBlockHash to101 = 101"
  by (simp_all add: to101_def)

lemma toy_engine_sel:
  "be_eth mem_builder = toy_eth" "ee_sha256 mem_engine = (\<lambda>b. b)"
  "ee_CheckTx mem_engine = (\<lambda>tx s. (Ok \<lparr>ct_Code = 0, ct_Log = []\<rparr>, s))"
  by (simp_all add: mem_engine_def mem_builder_def)

lemma toy_rollback: "app_RollbackToHeight (be_app mem_builder) h a = (Ok (), h)"
  by (simp add: mem_builder_def toy_app_def)

lemma toy_validate: "HeaderByHash mem_env 101 s = Ok hdr1 \<Longrightarrow> validateForkchoice mem_env to101 s = Ok hdr1"
  using validateForkchoice_known [of mem_env to101 s hdr1 hdr1 hdr1] by simp

text \<open>A fork choice update to the block with hash 101, and getting a payload of two transactions.\<close>

lemma toy_forkchoice:
  assumes "store_reach mem_env [] s" and "HeaderByHash mem_env 101 s = Ok hdr1" and "HeadHeader mem_env s = Ok hdr1"
  shows "\<exists>s'. applyForkchoice mem_builder to101 hdr1 (engine_at s p) = Some (Ok (), engine_at s' p) \<and>
    store_reach mem_env [] s' \<and> HeadHeader mem_env s' = Ok hdr1 \<and>
    (\<forall>x. is_NotFound (HeaderByHash mem_env x s) \<longrightarrow> is_NotFound (HeaderByHash mem_env x s'))"
proof -
  have h: "DB_Height mem_env s = Ok (h_Height hdr1)"
  proof -
    obtain a where a: "rep mem_env map_of s a" "ldb_good mem_env a" using reach_good [OF mem_rep_empty assms(1)] by blast
    obtain t where t: "a_top a = Some t" "a_header a t = Some hdr1"
      using finds_Ok [OF HeadHeader_finds [OF a(1)] assms(3)] by (auto simp: bind_eq_Some_conv)
    show ?thesis using DB_Height_finds [OF a(1)] t(1) chain_height [OF ldb.good_chain [OF a(2)] t(2)] by simp
  qed
  obtain s' where "UpdateLabels mem_env 101 101 101 s = (Ok (), s')" "store_reach mem_env [] s'"
    "HeadHeader mem_env s' = HeadHeader mem_env s"
    "\<forall>x. is_NotFound (HeaderByHash mem_env x s) \<longrightarrow> is_NotFound (HeaderByHash mem_env x s')"
    using reach_labels [OF mem_rep_empty assms(1,2,2,2)] by blast
  then show ?thesis using h assms(3)
    by (intro exI [of _ s'])
       (simp add: applyForkchoice_def pcheck_def moveHead_def onBlocks_def)
qed

lemma toy_get_block:
  assumes reach: "store_reach mem_env [] s" and head: "HeadHeader mem_env s = Ok hdr1"
    and txs: "pa_CosmosTxs p = [DepositsTx_MarshalToSizedBuffer toy_deposits, [9]]"
    and i: "PayloadAttributes_ID (\<lambda>b. b) p = (i, p')"
  shows "\<exists>env e2 blk b'. Build mem_builder (payloadOf p) (builder_at s []) = Some (Ok blk, b') \<and>
    GetPayloadV3 mem_engine i (engine_at s (Some p)) = Some (Ok env, e2) \<and> blocks e2 = bd_blocks b'"
proof -
  obtain a where a: "rep mem_env map_of s a" using reach_good [OF mem_rep_empty reach] by blast
  obtain ets where ets: "AdaptCosmosTxsToEthTxs toy_eth (pa_CosmosTxs p) = Ok ets" using toy_adapt txs by auto
  obtain blk b' where "Build mem_builder (payloadOf p) (builder_at s []) = Some (Ok blk, b')" "b_Txs blk = pa_CosmosTxs p"
    using toy_Build [OF a head ets, of "payloadOf p"] by (auto simp: payloadOf_def)
  with ets i show ?thesis
    by (simp add: GetPayloadV3_def pcheck_def setAttributes_def buildOrPanic_def toy_engine_sel)
qed

lemma toy_get:
  assumes "store_reach mem_env [] s" "HeadHeader mem_env s = Ok hdr1"
    "pa_CosmosTxs p = [DepositsTx_MarshalToSizedBuffer toy_deposits, [9]]" "PayloadAttributes_ID (\<lambda>b. b) p = (i, p')"
  shows "\<exists>env e2. GetPayloadV3 mem_engine i (engine_at s (Some p)) = Some (Ok env, e2)"
  using toy_get_block [OF assms] by blast

lemma toy_get_fresh:
  assumes s: "store_reach mem_env [] s" "HeadHeader mem_env s = Ok hdr1"
      "pa_CosmosTxs p = [DepositsTx_MarshalToSizedBuffer toy_deposits, [9]]" "PayloadAttributes_ID (\<lambda>b. b) p = (i, p')"
    and time: "pa_Timestamp p = 200" and new: "is_NotFound (HeaderByHash mem_env 200 s)"
  shows "\<exists>env e2 hdr. GetPayloadV3 mem_engine i (engine_at s (Some p)) = Some (Ok env, e2) \<and>
    fresh_block mem_engine (engine_at s (Some p)) e2 \<and> HeadHeader mem_env (blocks e2) = Ok hdr \<and> h_Height hdr = 2"
proof -
  obtain a where a: "rep mem_env map_of s a" using reach_good [OF mem_rep_empty s(1)] by blast
  obtain env e2 blk b' where b: "Build mem_builder (payloadOf p) (builder_at s []) = Some (Ok blk, b')"
    and get: "GetPayloadV3 mem_engine i (engine_at s (Some p)) = Some (Ok env, e2)" and e2: "blocks e2 = bd_blocks b'"
    using toy_get_block [OF s] by blast
  have hash: "h_Hash (b_Header blk) = 200"
    by (rule Build_OkE [OF b]) (use time in \<open>auto simp: MakeBlock_def NewBlock_def SetHeader_def newHeader_def Block_ToEth_def
        payloadOf_def toy_engine_sel toy_eth_def Header_ToEth_def elim!: check_OkE split: option.splits\<close>)
  have head: "h_Height (b_Header blk) = 2" "HeadHeader mem_env (blocks e2) = Ok (b_Header blk)"
    by (rule Build_head [OF b, of map_of a]; use a s(2) e2 in \<open>simp add: hdr1_def\<close>)+
  have "length (txList txs) \<le> 2 ^ 64" if "drainPool mem_pool (Some (pa_CosmosTxs p)) [] = Some (Ok txs, m)" for txs m
    using that drainPool_ok [OF mem_pool_rep_empty, of "Some (pa_CosmosTxs p)"] s(3) by (auto simp: txList_def)
  then have "fresh_block mem_engine (engine_at s (Some p)) e2"
    using head hash new s(3) by (auto simp: fresh_block_def known_def)
  then show ?thesis using get head by blast
qed

theorem forkchoice_moves_the_head_witness:
  "\<exists>s e'. BlockByHeight mem_env 2 s = Ok blk2 \<and>
     ForkchoiceUpdatedV3 mem_engine 0 to101 None (engine_at s None) =
       Some (Ok (ValidForkchoiceUpdateResult (Some 101) None), e') \<and> HeadHeader mem_env (blocks e') = Ok hdr1"
proof -
  obtain s where s: "store_reach mem_env [] s" "BlockByHeight mem_env 2 s = Ok blk2" "HeaderByHash mem_env 101 s = Ok hdr1"
    using mem_reach_blk2 by blast
  have "dbm_ok (ts_db (be_txs (ee_builder mem_engine))) map_of" by (simp add: mem_txstore_def dbm_ok_mem)
  from forkchoice_moves_the_head [of mem_engine map_of "[]" "engine_at s None" to101 hdr1 hdr1 hdr1, OF _ _ _ _ _ _ _ this]
    s mem_rep_empty toy_rollback show ?thesis by fastforce
qed

theorem forkchoice_refuses_witness: "refused mem_engine 0 to101 None (engine_at [] None) InvalidForkChoiceState"
  using forkchoice_refuses [of mem_engine "engine_at [] None" to101 0 None] HeaderByHash_finds [OF mem_rep_empty, of 101]
  by (simp add: known_def a_headerByHash_def empty_store_def)

lemma mem_reach_head1: "\<exists>s. store_reach mem_env [] s \<and> HeaderByHash mem_env 101 s = Ok hdr1 \<and> HeadHeader mem_env s = Ok hdr1"
proof -
  obtain s where s: "store_reach mem_env [] s" "HeaderByHash mem_env 101 s = Ok hdr1" using mem_reach_blk2 by blast
  obtain s' where s': "Rollback mem_env 101 101 101 s = (Ok (), s')" "HeadHeader mem_env s' = Ok hdr1"
    "HeaderByHash mem_env 101 s' = Ok hdr1"
    using reach_rollback_keeps [OF mem_rep_empty s, of 101 101] s(2) by auto
  then show ?thesis using store_reach.rollback [OF s(1) s(2) s(2) s(2) order_refl order_refl s'(1)] by blast
qed

text \<open>The update that starts a payload on the block with hash 101.\<close>

lemma toy_start:
  assumes s: "store_reach mem_env [] s" "HeaderByHash mem_env 101 s = Ok hdr1" "HeadHeader mem_env s = Ok hdr1"
  shows "\<exists>s' i p. ForkchoiceUpdatedV3 mem_engine 0 to101 (Some example_request) (engine_at s None) =
      Some (Ok (ValidForkchoiceUpdateResult (Some 101) (Some i)), engine_at s' (Some p)) \<and>
    store_reach mem_env [] s' \<and> HeadHeader mem_env s' = Ok hdr1 \<and> PayloadAttributes_ID (\<lambda>b. b) p = (i, p) \<and>
    pa_CosmosTxs p = [DepositsTx_MarshalToSizedBuffer toy_deposits, [9]] \<and> pa_Timestamp p = 200 \<and>
    (\<forall>x. is_NotFound (HeaderByHash mem_env x s) \<longrightarrow> is_NotFound (HeaderByHash mem_env x s'))"
proof -
  obtain s' where s': "applyForkchoice mem_builder to101 hdr1 (engine_at s None) = Some (Ok (), engine_at s' None)"
    "store_reach mem_env [] s'" "HeadHeader mem_env s' = Ok hdr1"
    "\<forall>x. is_NotFound (HeaderByHash mem_env x s) \<longrightarrow> is_NotFound (HeaderByHash mem_env x s')"
    using toy_forkchoice [OF s] by blast
  let ?p = "newAttributes to101 example_request 30 hdr1 [DepositsTx_MarshalToSizedBuffer toy_deposits, [9]]"
  obtain i p where i: "PayloadAttributes_ID (\<lambda>b. b) ?p = (i, p)" by fastforce
  have "startPayload mem_engine 0 to101 example_request (engine_at s' None) =
      Some (Ok (ValidForkchoiceUpdateResult (Some 101) (Some i)), engine_at s' (Some p))"
    using s'(3) i toy_payload [of 0]
    by (simp add: startPayload_def pcheck_def setAttributes_def toy_engine_sel example_request_def hdr1_def
        zero_header_def onApp_def)
  with toy_validate [OF s(2)] s'(1) have "ForkchoiceUpdatedV3 mem_engine 0 to101 (Some example_request) (engine_at s None) =
      Some (Ok (ValidForkchoiceUpdateResult (Some 101) (Some i)), engine_at s' (Some p))"
    by (simp add: ForkchoiceUpdatedV3_def pcheck_def)
  then show ?thesis
    using s'(2-4) ID_stable [OF i] ID_unchanged [OF i]
    by (intro exI [of _ s'] exI [of _ i] exI [of _ p]) (simp add: newAttributes_def example_request_def)
qed

theorem payload_becomes_the_head_witness:
  "\<exists>s e1 e2 res i env hdr. ForkchoiceUpdatedV3 mem_engine 0 to101 (Some example_request) (engine_at s None) = Some (Ok res, e1) \<and>
     fr_PayloadID res = Some i \<and> GetPayloadV3 mem_engine i e1 = Some (Ok env, e2) \<and>
     HeadHeader mem_env (blocks e2) = Ok hdr \<and> h_ParentHash hdr = 101 \<and> h_Hash hdr = ep_BlockHash env"
proof -
  obtain s where s: "store_reach mem_env [] s" "HeaderByHash mem_env 101 s = Ok hdr1" "HeadHeader mem_env s = Ok hdr1"
    using mem_reach_head1 by blast
  obtain s' i p where fcu: "ForkchoiceUpdatedV3 mem_engine 0 to101 (Some example_request) (engine_at s None) =
      Some (Ok (ValidForkchoiceUpdateResult (Some 101) (Some i)), engine_at s' (Some p))"
    and s': "store_reach mem_env [] s'" "HeadHeader mem_env s' = Ok hdr1"
      "pa_CosmosTxs p = [DepositsTx_MarshalToSizedBuffer toy_deposits, [9]]" "PayloadAttributes_ID (\<lambda>b. b) p = (i, p)"
    using toy_start [OF s] by blast
  obtain env e2 where get: "GetPayloadV3 mem_engine i (engine_at s' (Some p)) = Some (Ok env, e2)"
    using toy_get [OF s'] by blast
  have "fr_PayloadID (ValidForkchoiceUpdateResult (Some 101) (Some i)) = Some i"
    by (simp add: ValidForkchoiceUpdateResult_def)
  with payload_becomes_the_head [of mem_engine map_of "[]" "engine_at s None", OF _ _ fcu _ get] s(1) mem_rep_empty fcu get
  show ?thesis by fastforce
qed

theorem stale_payload_is_built_on_the_new_head_witness:
  "\<exists>s i e1 e2 res env hdr. ForkchoiceUpdatedV3 mem_engine 0 to101 None (engine_at s (Some stale_attributes)) = Some (Ok res, e1) \<and>
     GetPayloadV3 mem_engine i e1 = Some (Ok env, e2) \<and> HeadHeader mem_env (blocks e2) = Ok hdr \<and>
     h_ParentHash hdr = 101 \<and> ep_ParentHash env = 5"
proof -
  obtain s where s: "store_reach mem_env [] s" "HeaderByHash mem_env 101 s = Ok hdr1" "HeadHeader mem_env s = Ok hdr1"
    using mem_reach_head1 by blast
  obtain s' where s': "applyForkchoice mem_builder to101 hdr1 (engine_at s (Some stale_attributes)) =
      Some (Ok (), engine_at s' (Some stale_attributes))" "store_reach mem_env [] s'" "HeadHeader mem_env s' = Ok hdr1"
    using toy_forkchoice [OF s] by blast
  have v: "validateForkchoice mem_env to101 s = Ok hdr1" by (rule toy_validate [OF s(2)])
  then have fcu: "ForkchoiceUpdatedV3 mem_engine 0 to101 None (engine_at s (Some stale_attributes)) =
      Some (Ok (ValidForkchoiceUpdateResult (Some 101) None), engine_at s' (Some stale_attributes))"
    using s'(1) by (simp add: ForkchoiceUpdatedV3_def pcheck_def)
  obtain i p' where i: "PayloadAttributes_ID (\<lambda>b. b) stale_attributes = (i, p')" by fastforce
  obtain env e2 where get: "GetPayloadV3 mem_engine i (engine_at s' (Some stale_attributes)) = Some (Ok env, e2)"
    using toy_get [OF s'(2,3) _ i] by (auto simp: stale_attributes_def)
  from stale_payload_is_built_on_the_new_head [of mem_engine map_of "[]", OF _ _ _ fcu get] s(1) mem_rep_empty fcu get
  show ?thesis by (fastforce simp: stale_attributes_def example_attributes_def)
qed

theorem new_payload_checks_the_store_witness:
  "\<exists>s. \<forall>payload :: unit execution_payload. ep_BlockHash payload = 101 \<longrightarrow>
     (\<exists>st. NewPayloadV3 mem_env payload s = Ok (Some st, None) \<and> ps_Status st = ExecutionValid)"
proof -
  obtain s where s: "store_reach mem_env [] s" "HeaderByHash mem_env 101 s = Ok hdr1" using mem_reach_blk1 by blast
  show ?thesis
  proof (intro exI [of _ s] allI impI)
    fix payload :: "unit execution_payload"
    assume "ep_BlockHash payload = 101"
    with new_payload_checks_the_store [OF mem_rep_empty s(1), of payload] s(2)
    show "\<exists>st. NewPayloadV3 mem_env payload s = Ok (Some st, None) \<and> ps_Status st = ExecutionValid" by auto
  qed
qed

theorem engine_keeps_the_chain_witness:
  "\<exists>s i e1 e2 r env hdr. ForkchoiceUpdatedV3 mem_engine 0 to101 (Some example_request) (engine_at s None) = Some (r, e1) \<and>
     GetPayloadV3 mem_engine i e1 = Some (Ok env, e2) \<and> engine_reach mem_engine (engine_at s None) e2 \<and>
     store_reach mem_env [] (blocks e2) \<and> HeadHeader mem_env (blocks e2) = Ok hdr \<and> h_Height hdr = 2"
proof -
  obtain s where s: "store_reach mem_env [] s" "HeaderByHash mem_env 101 s = Ok hdr1"
      "rep mem_env map_of s (a_append (\<lambda>tx. tx) blk1 empty_store)"
    using mem_reach_blk1 by blast
  have h: "HeadHeader mem_env s = Ok hdr1" "is_NotFound (HeaderByHash mem_env 200 s)"
    using HeadHeader_finds [OF s(3)] HeaderByHash_finds [OF s(3), of 200]
    by (simp_all add: blk1_def hdr1_def a_headerByHash_def empty_store_def)
  obtain s' i p where fcu: "ForkchoiceUpdatedV3 mem_engine 0 to101 (Some example_request) (engine_at s None) =
      Some (Ok (ValidForkchoiceUpdateResult (Some 101) (Some i)), engine_at s' (Some p))"
    and s': "store_reach mem_env [] s'" "HeadHeader mem_env s' = Ok hdr1"
      "pa_CosmosTxs p = [DepositsTx_MarshalToSizedBuffer toy_deposits, [9]]" "PayloadAttributes_ID (\<lambda>b. b) p = (i, p)"
      "pa_Timestamp p = 200" "is_NotFound (HeaderByHash mem_env 200 s')"
    using toy_start [OF s(1,2) h(1)] h(2) by blast
  obtain env e2 hdr where get: "GetPayloadV3 mem_engine i (engine_at s' (Some p)) = Some (Ok env, e2)"
    and e2: "fresh_block mem_engine (engine_at s' (Some p)) e2" "HeadHeader mem_env (blocks e2) = Ok hdr" "h_Height hdr = 2"
    using toy_get_fresh [OF s'] by blast
  have reach: "engine_reach mem_engine (engine_at s None) e2"
    by (rule engine_reach.getPayload [OF engine_reach.forkchoice [OF engine_reach.start fcu] get e2(1)])
  have "store_reach mem_env [] (blocks e2)"
    using engine_keeps_the_chain [of mem_engine map_of "[]" "engine_at s None" e2] reach s(1) mem_rep_empty by simp
  then show ?thesis using fcu get reach e2(2,3) by blast
qed

end
