(* ===== verification/RWLock.thy ===== *)
theory RWLock
  imports Prelude
begin

text \<open>
  Calls that share a state under a readers-writer lock, as Go's \<^verbatim>\<open>sync.RWMutex\<close> gives it: a call
  first takes the lock, exclusively or as a reader, then runs its body step by step, and
  releases the lock when it returns, by \<^verbatim>\<open>defer\<close> also when it panics. A schedule says which call
  moves next. A writer that waits does not hold new readers up here, so that every order Go
  allows is a schedule.
\<close>

section \<open>The lock and its calls\<close>

datatype 'p turn = Waiting | Inside 'p | Finished 'p

record ('p, 's) locked =
  lk_readers :: nat
  lk_writer :: bool
  lk_turns :: "'p turn list"
  lk_state :: 's

definition turn_to :: "nat \<Rightarrow> 'p turn \<Rightarrow> ('p, 's) locked \<Rightarrow> ('p, 's) locked" where
  "turn_to i t L = L\<lparr>lk_turns := (lk_turns L)[i := t]\<rparr>"

definition lock_acquire :: "bool \<Rightarrow> ('p, 's) locked \<Rightarrow> ('p, 's) locked option" where
  "lock_acquire excl L =
     (if excl then (if lk_writer L \<or> lk_readers L > 0 then None else Some (L\<lparr>lk_writer := True\<rparr>))
      else if lk_writer L then None else Some (L\<lparr>lk_readers := lk_readers L + 1\<rparr>))"

definition lock_release :: "bool \<Rightarrow> ('p, 's) locked \<Rightarrow> ('p, 's) locked" where
  "lock_release excl L = (if excl then L\<lparr>lk_writer := False\<rparr> else L\<lparr>lk_readers := lk_readers L - 1\<rparr>)"

definition rw_step ::
    "('c \<Rightarrow> 'p) \<Rightarrow> ('p \<Rightarrow> 's \<Rightarrow> ('p \<times> 's) option) \<Rightarrow> ('p \<Rightarrow> bool) \<Rightarrow> ('c \<Rightarrow> bool) \<Rightarrow> 'c list \<Rightarrow> nat \<Rightarrow>
     ('p, 's) locked \<Rightarrow> ('p, 's) locked option" where
  "rw_step start body fin excl cs i L =
     (if i < length (lk_turns L) then
        (case lk_turns L ! i of
           Waiting \<Rightarrow> map_option (turn_to i (Inside (start (cs ! i)))) (lock_acquire (excl (cs ! i)) L)
         | Inside p \<Rightarrow>
             if fin p then Some (turn_to i (Finished p) (lock_release (excl (cs ! i)) L))
             else map_option (\<lambda>(p', s'). turn_to i (Inside p') (L\<lparr>lk_state := s'\<rparr>)) (body p (lk_state L))
         | Finished p \<Rightarrow> None)
      else None)"

fun rw_run ::
    "('c \<Rightarrow> 'p) \<Rightarrow> ('p \<Rightarrow> 's \<Rightarrow> ('p \<times> 's) option) \<Rightarrow> ('p \<Rightarrow> bool) \<Rightarrow> ('c \<Rightarrow> bool) \<Rightarrow> 'c list \<Rightarrow> nat list \<Rightarrow>
     ('p, 's) locked \<Rightarrow> ('p, 's) locked option" where
  "rw_run start body fin excl cs [] L = Some L"
| "rw_run start body fin excl cs (i # is) L =
     Option.bind (rw_step start body fin excl cs i L) (rw_run start body fin excl cs is)"

definition unlocked :: "nat \<Rightarrow> 's \<Rightarrow> ('p, 's) locked" where
  "unlocked n s = \<lparr>lk_readers = 0, lk_writer = False, lk_turns = replicate n Waiting, lk_state = s\<rparr>"

text \<open>One call alone, for at most \<open>n\<close> steps; and calls one after the other, with their answers.\<close>

fun alone :: "('p \<Rightarrow> 's \<Rightarrow> ('p \<times> 's) option) \<Rightarrow> ('p \<Rightarrow> bool) \<Rightarrow> nat \<Rightarrow> 'p \<Rightarrow> 's \<Rightarrow> ('p \<times> 's) option" where
  "alone body fin n p s =
     (if fin p then Some (p, s)
      else case n of 0 \<Rightarrow> None | Suc n \<Rightarrow> Option.bind (body p s) (\<lambda>(p', s'). alone body fin n p' s'))"

declare alone.simps [simp del]

fun serial :: "('c \<Rightarrow> 's \<Rightarrow> ('p \<times> 's) option) \<Rightarrow> 'c list \<Rightarrow> nat list \<Rightarrow> 's \<Rightarrow> ((nat \<rightharpoonup> 'p) \<times> 's) option" where
  "serial call cs [] s = Some (Map.empty, s)"
| "serial call cs (i # is) s = Option.bind (call (cs ! i) s) (\<lambda>(p, s').
     map_option (\<lambda>(res, s''). (res(i \<mapsto> p), s'')) (serial call cs is s'))"

lemma rw_run_single: "rw_run start body fin excl cs [i] L = rw_step start body fin excl cs i L"
  by (cases "rw_step start body fin excl cs i L") simp_all

section \<open>Who is inside\<close>

definition inside :: "('p, 's) locked \<Rightarrow> nat set" where
  "inside L = {i. i < length (lk_turns L) \<and> (\<exists>p. lk_turns L ! i = Inside p)}"

lemma finite_inside [simp]: "finite (inside L)"
  by (simp add: inside_def)

lemma turn_to_sel [simp]:
  "lk_turns (turn_to i t L) = (lk_turns L)[i := t]" "lk_state (turn_to i t L) = lk_state L"
  "lk_readers (turn_to i t L) = lk_readers L" "lk_writer (turn_to i t L) = lk_writer L"
  by (simp_all add: turn_to_def)

lemma inside_turn:
  assumes "i < length (lk_turns L)"
  shows "inside (turn_to i (Inside p) L) = insert i (inside L)" "inside (turn_to i (Finished p) L) = inside L - {i}"
  using assms by (auto simp: inside_def nth_list_update)

lemma inside_cong: "lk_turns L = lk_turns L' \<Longrightarrow> inside L = inside L'"
  by (simp add: inside_def)

lemma serial_snoc:
  assumes "serial call cs is s = Some (res, s1)" "call (cs ! i) s1 = Some (p, s2)" "i \<notin> set is"
  shows "serial call cs (is @ [i]) s = Some (res(i \<mapsto> p), s2)"
  using assms
proof (induction "is" arbitrary: s res)
  case (Cons j "is")
  then obtain q s' res' where q: "call (cs ! j) s = Some (q, s')" "serial call cs is s' = Some (res', s1)" "res = res'(j \<mapsto> q)"
    by (auto simp: bind_eq_Some_conv)
  with Cons show ?case by (auto simp: fun_upd_twist)
qed simp

section \<open>What the lock guarantees\<close>

text \<open>
  The interface of the calls: bodies that get shorter with every step. What the lock
  guarantees them follows for all calls at once.
\<close>

locale locked_calls =
  fixes start :: "'c \<Rightarrow> 'p" and body :: "'p \<Rightarrow> 's \<Rightarrow> ('p \<times> 's) option" and fin :: "'p \<Rightarrow> bool"
    and excl :: "'c \<Rightarrow> bool" and left :: "'p \<Rightarrow> nat"
  assumes shorter: "body p s = Some (p', s') \<Longrightarrow> \<not> fin p \<Longrightarrow> left p' < left p"
begin

abbreviation move :: "'c list \<Rightarrow> nat \<Rightarrow> ('p, 's) locked \<Rightarrow> ('p, 's) locked option" where
  "move \<equiv> rw_step start body fin excl"

abbreviation moves :: "'c list \<Rightarrow> nat list \<Rightarrow> ('p, 's) locked \<Rightarrow> ('p, 's) locked option" where
  "moves \<equiv> rw_run start body fin excl"

abbreviation call :: "'c \<Rightarrow> 's \<Rightarrow> ('p \<times> 's) option" where
  "call c s \<equiv> alone body fin (left (start c)) (start c) s"

text \<open>Moves of a call: it takes the lock, makes a step, or returns.\<close>

lemma moveE:
  assumes "move cs i L = Some L'"
  obtains (enter) L1 where "i < length (lk_turns L)" "lk_turns L ! i = Waiting" "lock_acquire (excl (cs ! i)) L = Some L1"
      "L' = turn_to i (Inside (start (cs ! i))) L1"
    | (step) p p' s' where "i < length (lk_turns L)" "lk_turns L ! i = Inside p" "\<not> fin p" "body p (lk_state L) = Some (p', s')"
      "L' = turn_to i (Inside p') (L\<lparr>lk_state := s'\<rparr>)"
    | (leave) p where "i < length (lk_turns L)" "lk_turns L ! i = Inside p" "fin p"
      "L' = turn_to i (Finished p) (lock_release (excl (cs ! i)) L)"
  using assms by (fastforce simp: rw_step_def split: if_splits turn.splits)

lemma lock_acquire_frame: "lock_acquire b L = Some L1 \<Longrightarrow> lk_turns L1 = lk_turns L \<and> lk_state L1 = lk_state L"
  by (auto simp: lock_acquire_def split: if_splits)

lemma lock_release_frame [simp]: "lk_turns (lock_release b L) = lk_turns L" "lk_state (lock_release b L) = lk_state L"
  by (simp_all add: lock_release_def)

text \<open>The lock's fields count who is inside, and a writer is inside alone.\<close>

definition lock_inv :: "'c list \<Rightarrow> ('p, 's) locked \<Rightarrow> bool" where
  "lock_inv cs L \<longleftrightarrow> length (lk_turns L) = length cs \<and>
     (lk_writer L \<longleftrightarrow> (\<exists>i \<in> inside L. excl (cs ! i))) \<and>
     lk_readers L = card {i \<in> inside L. \<not> excl (cs ! i)} \<and>
     (\<forall>i \<in> inside L. excl (cs ! i) \<longrightarrow> inside L = {i})"

lemma lock_inv_start: "lock_inv cs (unlocked (length cs) s)"
  by (auto simp: lock_inv_def unlocked_def inside_def)

lemma lock_inv_enter:
  assumes inv: "lock_inv cs L" and i: "i < length (lk_turns L)" "lk_turns L ! i = Waiting" "lock_acquire (excl (cs ! i)) L = Some L1"
  shows "lock_inv cs (turn_to i (Inside p) L1)"
proof -
  have t: "lk_turns L1 = lk_turns L" using lock_acquire_frame [OF i(3)] by simp
  have ins: "inside (turn_to i (Inside p) L1) = insert i (inside L)" "i \<notin> inside L"
    using i(1,2) t inside_turn(1) [of i L1 p] inside_cong [OF t] by (auto simp: inside_def)
  show ?thesis
  proof (cases "excl (cs ! i)")
    case True
    then have "\<not> lk_writer L" "lk_readers L = 0" "lk_writer L1" "lk_readers L1 = 0"
      using i(3) by (auto simp: lock_acquire_def split: if_splits)
    moreover from this(1,2) inv have "inside L = {}" by (auto simp: lock_inv_def)
    ultimately show ?thesis using inv True ins t by (auto simp: lock_inv_def intro!: card_eq_0_iff [THEN iffD2])
  next
    case False
    then have w: "\<not> lk_writer L" "\<not> lk_writer L1" "lk_readers L1 = Suc (lk_readers L)"
      using i(3) by (auto simp: lock_acquire_def split: if_splits)
    have "{j \<in> insert i (inside L). \<not> excl (cs ! j)} = insert i {j \<in> inside L. \<not> excl (cs ! j)}" using False by auto
    then have "card {j \<in> insert i (inside L). \<not> excl (cs ! j)} = Suc (card {j \<in> inside L. \<not> excl (cs ! j)})"
      using ins(2) by simp
    with w inv False ins t show ?thesis by (auto simp: lock_inv_def)
  qed
qed

lemma lock_inv_leave:
  assumes inv: "lock_inv cs L" and i: "i < length (lk_turns L)" "lk_turns L ! i = Inside p"
  shows "lock_inv cs (turn_to i (Finished p) (lock_release (excl (cs ! i)) L))"
proof -
  let ?L = "turn_to i (Finished p) (lock_release (excl (cs ! i)) L)"
  have ins: "inside ?L = inside L - {i}" "i \<in> inside L"
    using i inside_turn(2) [of i "lock_release (excl (cs ! i)) L" p] inside_cong [of "lock_release (excl (cs ! i)) L" L]
    by (auto simp: inside_def)
  show ?thesis
  proof (cases "excl (cs ! i)")
    case True
    then have "inside L = {i}" using inv ins(2) by (auto simp: lock_inv_def)
    moreover from this have "{j \<in> {i}. \<not> excl (cs ! j)} = {}" using True by auto
    ultimately show ?thesis using inv True ins by (simp add: lock_inv_def lock_release_def)
  next
    case False
    have "{j \<in> inside L - {i}. \<not> excl (cs ! j)} = {j \<in> inside L. \<not> excl (cs ! j)} - {i}" by auto
    then have "card {j \<in> inside L - {i}. \<not> excl (cs ! j)} = card {j \<in> inside L. \<not> excl (cs ! j)} - 1"
      using False ins(2) by simp
    moreover have "\<not> lk_writer L" using inv False ins(2) by (auto simp: lock_inv_def)
    ultimately show ?thesis using inv False ins by (auto simp: lock_inv_def lock_release_def)
  qed
qed

lemma lock_inv_move: "move cs i L = Some L' \<Longrightarrow> lock_inv cs L \<Longrightarrow> lock_inv cs L'"
proof (erule moveE)
  fix p p' s'
  assume i: "i < length (lk_turns L)" "lk_turns L ! i = Inside p" and inv: "lock_inv cs L"
  have "inside (turn_to i (Inside p') (L\<lparr>lk_state := s'\<rparr>)) = inside L"
    using i inside_turn(1) [of i "L\<lparr>lk_state := s'\<rparr>" p'] by (auto simp: inside_def)
  then show "L' = turn_to i (Inside p') (L\<lparr>lk_state := s'\<rparr>) \<Longrightarrow> lock_inv cs L'" using inv by (simp add: lock_inv_def)
qed (simp_all add: lock_inv_enter lock_inv_leave)

lemma lock_inv_moves: "moves cs is L = Some L' \<Longrightarrow> lock_inv cs L \<Longrightarrow> lock_inv cs L'"
  by (induction "is" arbitrary: L) (auto simp: bind_eq_Some_conv dest: lock_inv_move)

lemma writer_alone:
  assumes "moves cs is (unlocked (length cs) s) = Some L" "i \<in> inside L" "j \<in> inside L" "excl (cs ! i)"
  shows "j = i"
  using lock_inv_moves [OF assms(1) lock_inv_start] assms(2-4) by (auto simp: lock_inv_def)

text \<open>The lock never blocks everyone, and no schedule goes on for ever.\<close>

lemma someone_moves:
  assumes inv: "lock_inv cs L" and i: "i < length cs" "\<forall>p. lk_turns L ! i \<noteq> Finished p"
  shows "(\<exists>j L'. move cs j L = Some L') \<or>
    (\<exists>j p. j \<in> inside L \<and> lk_turns L ! j = Inside p \<and> \<not> fin p \<and> body p (lk_state L) = None)"
proof (cases "inside L = {}")
  case True
  then have "\<not> lk_writer L" "lk_readers L = 0" using inv by (auto simp: lock_inv_def)
  moreover have "lk_turns L ! i = Waiting" "i < length (lk_turns L)"
    using True i inv by (cases "lk_turns L ! i"; force simp: inside_def lock_inv_def)+
  ultimately have "\<exists>L'. move cs i L = Some L'" by (simp add: rw_step_def lock_acquire_def)
  then show ?thesis by blast
next
  case False
  then obtain j p where j: "j \<in> inside L" "j < length (lk_turns L)" "lk_turns L ! j = Inside p" by (auto simp: inside_def)
  then have "(\<exists>L'. move cs j L = Some L') \<or> \<not> fin p \<and> body p (lk_state L) = None"
    by (cases "body p (lk_state L)") (auto simp: rw_step_def)
  then show ?thesis using j by blast
qed

definition turn_left :: "'c \<Rightarrow> 'p turn \<Rightarrow> nat" where
  "turn_left c t = (case t of Waiting \<Rightarrow> left (start c) + 2 | Inside p \<Rightarrow> left p + 1 | Finished p \<Rightarrow> 0)"

definition all_left :: "'c list \<Rightarrow> ('p, 's) locked \<Rightarrow> nat" where
  "all_left cs L = (\<Sum>i < length cs. turn_left (cs ! i) (lk_turns L ! i))"

lemma turn_left_less:
  assumes "i < length cs" "length (lk_turns L) = length cs" "turn_left (cs ! i) t < turn_left (cs ! i) (lk_turns L ! i)"
    and "lk_turns L' = (lk_turns L)[i := t]"
  shows "all_left cs L' < all_left cs L"
proof -
  have "all_left cs M = turn_left (cs ! i) (lk_turns M ! i) + (\<Sum>j \<in> {..< length cs} - {i}. turn_left (cs ! j) (lk_turns M ! j))"
    for M using assms(1) by (simp add: all_left_def sum.remove [of _ i])
  moreover have "(\<Sum>j \<in> {..< length cs} - {i}. turn_left (cs ! j) (lk_turns L' ! j)) =
      (\<Sum>j \<in> {..< length cs} - {i}. turn_left (cs ! j) (lk_turns L ! j))"
    using assms(4) by (intro sum.cong) auto
  ultimately show ?thesis using assms by simp
qed

lemma move_left:
  assumes "move cs i L = Some L'" "length (lk_turns L) = length cs"
  shows "all_left cs L' < all_left cs L" "length (lk_turns L') = length cs"
proof -
  from assms(1) have "\<exists>t. lk_turns L' = (lk_turns L)[i := t] \<and> i < length cs \<and> turn_left (cs ! i) t < turn_left (cs ! i) (lk_turns L ! i)"
    by (cases rule: moveE) (use assms(2) shorter in \<open>auto simp: turn_left_def dest!: lock_acquire_frame\<close>)
  then show "all_left cs L' < all_left cs L" "length (lk_turns L') = length cs"
    using turn_left_less assms(2) by auto
qed

text \<open>Every schedule can be continued until all calls have returned, or one is stuck in its body.\<close>

lemma can_finish:
  assumes "lock_inv cs L"
  shows "\<exists>is L'. moves cs is L = Some L' \<and> ((\<forall>i < length cs. \<exists>p. lk_turns L' ! i = Finished p) \<or>
    (\<exists>j p. j \<in> inside L' \<and> lk_turns L' ! j = Inside p \<and> \<not> fin p \<and> body p (lk_state L') = None))"
  using assms
proof (induction "all_left cs L" arbitrary: L rule: less_induct)
  case less
  show ?case
  proof (cases "\<exists>j L1. move cs j L = Some L1")
    case True
    then obtain j L1 where L1: "move cs j L = Some L1" by blast
    have "all_left cs L1 < all_left cs L" using move_left(1) [OF L1] less.prems by (simp add: lock_inv_def)
    from less.hyps [OF this lock_inv_move [OF L1 less.prems]] obtain "is" L' where
      "moves cs is L1 = Some L'" "(\<forall>i < length cs. \<exists>p. lk_turns L' ! i = Finished p) \<or>
        (\<exists>j p. j \<in> inside L' \<and> lk_turns L' ! j = Inside p \<and> \<not> fin p \<and> body p (lk_state L') = None)" by blast
    then show ?thesis using L1 by (intro exI [of _ "j # is"] exI [of _ L']) simp
  next
    case False
    then have "(\<forall>i < length cs. \<exists>p. lk_turns L ! i = Finished p) \<or>
        (\<exists>j p. j \<in> inside L \<and> lk_turns L ! j = Inside p \<and> \<not> fin p \<and> body p (lk_state L) = None)"
      using someone_moves [OF less.prems] by blast
    then show ?thesis by (intro exI [of _ "[]"] exI [of _ L]) simp
  qed
qed

text \<open>Beside a call that has the lock exclusively nobody moves; readers do not hold each other up.\<close>

lemma writer_blocks:
  assumes inv: "lock_inv cs L" and i: "i \<in> inside L" "excl (cs ! i)" and "j \<noteq> i"
  shows "move cs j L = None"
proof -
  have "inside L = {i}" "lk_writer L" using inv i by (auto simp: lock_inv_def)
  with assms(4) show ?thesis
    by (cases "j < length (lk_turns L)"; cases "lk_turns L ! j") (auto simp: rw_step_def lock_acquire_def inside_def)
qed

lemma reader_enters:
  assumes inv: "lock_inv cs L" and "\<forall>j \<in> inside L. \<not> excl (cs ! j)"
    and "i < length cs" "lk_turns L ! i = Waiting" "\<not> excl (cs ! i)"
  shows "\<exists>L'. move cs i L = Some L' \<and> inside L' = insert i (inside L)"
proof -
  have i: "i < length (lk_turns L)" "\<not> lk_writer L" using inv assms(2,3) by (auto simp: lock_inv_def)
  with assms(4,5) show ?thesis
    by (auto simp: rw_step_def lock_acquire_def inside_turn inside_cong [of "L\<lparr>lk_readers := Suc (lk_readers L)\<rparr>" L])
qed

text \<open>A body's steps, and the body alone.\<close>

definition walks :: "'p \<times> 's \<Rightarrow> 'p \<times> 's \<Rightarrow> bool" where
  "walks = (\<lambda>(p, s) (p', s'). \<not> fin p \<and> body p s = Some (p', s'))\<^sup>*\<^sup>*"

lemma alone_walk:
  assumes "walks (p, s) (p', s')" "fin p'" "left p \<le> n"
  shows "alone body fin n p s = Some (p', s')"
  using assms(1,3) unfolding walks_def
proof (induction "(p, s)" arbitrary: p s n rule: converse_rtranclp_induct)
  case base
  then show ?case using assms(2) by (simp add: alone.simps)
next
  case (step q)
  obtain p1 s1 where q: "q = (p1, s1)" by (cases q)
  then have b: "\<not> fin p" "body p s = Some (p1, s1)" using step.hyps(1) by auto
  then obtain m where "n = Suc m" "left p1 \<le> m" using step.prems shorter [OF b(2,1)] by (cases n) auto
  then show ?case using step.hyps(3) [OF q] b by (simp add: alone.simps)
qed

text \<open>
  When at most one call is a reader, nobody is ever inside together. The calls that have
  returned did so as if one after the other, and who is inside walks on from there.
\<close>

definition solo :: "'c list \<Rightarrow> bool" where
  "solo cs \<longleftrightarrow> (\<forall>i j. i < length cs \<and> j < length cs \<and> \<not> excl (cs ! i) \<and> \<not> excl (cs ! j) \<longrightarrow> i = j)"

definition finished :: "('p, 's) locked \<Rightarrow> nat set" where
  "finished L = {i. i < length (lk_turns L) \<and> (\<exists>p. lk_turns L ! i = Finished p)}"

definition serial_so_far :: "'c list \<Rightarrow> 's \<Rightarrow> ('p, 's) locked \<Rightarrow> nat list \<Rightarrow> (nat \<rightharpoonup> 'p) \<Rightarrow> 's \<Rightarrow> bool" where
  "serial_so_far cs s0 L order res s \<longleftrightarrow> distinct order \<and> set order = finished L \<and> serial call cs order s0 = Some (res, s) \<and>
     (\<forall>i p. i < length cs \<and> lk_turns L ! i = Finished p \<longrightarrow> res i = Some p) \<and>
     (inside L = {} \<longrightarrow> lk_state L = s) \<and>
     (\<forall>i p. i \<in> inside L \<and> lk_turns L ! i = Inside p \<longrightarrow> walks (start (cs ! i), s) (p, lk_state L))"

lemma inside_solo:
  assumes "lock_inv cs L" "solo cs" "i \<in> inside L"
  shows "inside L = {i}"
proof (cases "\<exists>j \<in> inside L. excl (cs ! j)")
  case True
  then show ?thesis using assms(1,3) by (auto simp: lock_inv_def)
next
  case False
  have "j < length cs" if "j \<in> inside L" for j using that assms(1) by (simp add: inside_def lock_inv_def)
  then show ?thesis using False assms(2,3) unfolding solo_def by blast
qed

lemma serial_move:
  assumes m: "move cs i L = Some L'" and inv: "lock_inv cs L" "solo cs" and ser: "serial_so_far cs s0 L order res s"
  shows "\<exists>order' res' s'. serial_so_far cs s0 L' order' res' s'"
  using m
proof (cases rule: moveE)
  case (enter L1)
  have "lock_inv cs L'" by (rule lock_inv_move [OF m inv(1)])
  moreover have L': "lk_turns L' = (lk_turns L)[i := Inside (start (cs ! i))]" "lk_state L' = lk_state L"
    using enter(4) lock_acquire_frame [OF enter(3)] by auto
  moreover from this have "i \<in> inside L'" using enter(1) by (simp add: inside_def)
  ultimately have one: "inside L' = {i}" using inside_solo inv(2) by blast
  have "inside L = {}"
  proof (rule ccontr)
    assume "inside L \<noteq> {}"
    then obtain j where "j \<in> inside L" by blast
    moreover from this have "j \<noteq> i" using enter(2) by (auto simp: inside_def)
    ultimately have "j \<in> inside L'" "j \<noteq> i" using L'(1) by (auto simp: inside_def)
    with one show False by simp
  qed
  moreover have "finished L' = finished L" using L'(1) enter by (auto simp: finished_def nth_list_update split: if_splits)
  ultimately have "serial_so_far cs s0 L' order res s" using ser one L' enter(1,2)
    by (auto simp: serial_so_far_def nth_list_update walks_def split: if_splits)
  then show ?thesis by blast
next
  case (step p p' s')
  have i: "i \<in> inside L" using step by (simp add: inside_def)
  have one: "inside L = {i}" by (rule inside_solo [OF inv i])
  have "walks (start (cs ! i), s) (p, lk_state L)" using ser i step(2) by (simp add: serial_so_far_def)
  then have "walks (start (cs ! i), s) (p', s')"
    unfolding walks_def by (rule rtranclp.rtrancl_into_rtrancl) (use step in simp)
  moreover have "inside L' = {i}" using one step by (simp add: inside_turn(1) inside_cong [of "L\<lparr>lk_state := s'\<rparr>" L])
  moreover have "finished L' = finished L" using step by (auto simp: finished_def nth_list_update split: if_splits)
  ultimately have "serial_so_far cs s0 L' order res s" using ser step(1,2,5)
    by (auto simp: serial_so_far_def nth_list_update split: if_splits)
  then show ?thesis by blast
next
  case (leave p)
  have i: "i \<in> inside L" using leave by (simp add: inside_def)
  have one: "inside L = {i}" by (rule inside_solo [OF inv i])
  have out: "i \<notin> set order" using ser leave(2) by (simp add: serial_so_far_def finished_def)
  have "walks (start (cs ! i), s) (p, lk_state L)" using ser i leave(2) by (simp add: serial_so_far_def)
  then have "call (cs ! i) s = Some (p, lk_state L)" by (rule alone_walk) (use leave(3) in simp_all)
  then have "serial call cs (order @ [i]) s0 = Some (res(i \<mapsto> p), lk_state L)"
    using ser out by (intro serial_snoc) (simp_all add: serial_so_far_def)
  moreover have "inside L' = {}" using one leave by (simp add: inside_turn(2) inside_cong [of "lock_release (excl (cs ! i)) L" L])
  moreover have "finished L' = insert i (finished L)" using leave by (auto simp: finished_def nth_list_update split: if_splits)
  ultimately have "serial_so_far cs s0 L' (order @ [i]) (res(i \<mapsto> p)) (lk_state L)" using ser out leave(1,2,4)
    by (auto simp: serial_so_far_def nth_list_update finished_def split: if_splits)
  then show ?thesis by blast
qed

lemma serial_moves:
  assumes "moves cs is L = Some L'" "lock_inv cs L" "solo cs" "serial_so_far cs s0 L order res s"
  shows "\<exists>order' res' s'. serial_so_far cs s0 L' order' res' s'"
  using assms(1,2,4)
proof (induction "is" arbitrary: L order res s)
  case (Cons i "is")
  then obtain L1 where L1: "move cs i L = Some L1" "moves cs is L1 = Some L'" by (auto simp: bind_eq_Some_conv)
  obtain order' res' s' where "serial_so_far cs s0 L1 order' res' s'"
    using serial_move [OF L1(1) Cons.prems(2) assms(3) Cons.prems(3)] by blast
  then show ?case by (rule Cons.IH [OF L1(2) lock_inv_move [OF L1(1) Cons.prems(2)]])
qed auto

lemma serializable:
  assumes run: "moves cs is (unlocked (length cs) s0) = Some L" and "solo cs"
    and all: "\<forall>i < length cs. lk_turns L ! i = Finished (ans i)"
  shows "\<exists>order res. distinct order \<and> set order = {..< length cs} \<and> serial call cs order s0 = Some (res, lk_state L) \<and>
    (\<forall>i < length cs. res i = Some (ans i))"
proof -
  have "serial_so_far cs s0 (unlocked (length cs) s0) [] Map.empty s0"
    by (auto simp: serial_so_far_def unlocked_def finished_def inside_def)
  then obtain order res s where ser: "serial_so_far cs s0 L order res s"
    using serial_moves [OF run lock_inv_start assms(2)] by blast
  have len: "length (lk_turns L) = length cs" using lock_inv_moves [OF run lock_inv_start] by (simp add: lock_inv_def)
  then have "finished L = {..< length cs}" "inside L = {}" using all by (auto simp: finished_def inside_def)
  then show ?thesis using ser all len unfolding serial_so_far_def by metis
qed

end

end
