(* ===== verification/EngineConcurrent.thy ===== *)
theory EngineConcurrent
  imports EngineProps RWLock
begin

text \<open>
  Overlapping engine calls (\<^verbatim>\<open>engine/engine.go\<close>). A fork choice update and the confirmation of a
  payload hold the engine's lock exclusively, but \<^verbatim>\<open>GetPayloadV3\<close> holds only the read lock while it
  builds a block and clears the payload. Here every call is a body of up to three steps under
  the lock of \<open>RWLock\<close>. As long as payloads are got one at a time, the calls are as if they had been
  made one after the other, which is how \<open>Engine\<close> has them; two that overlap build twice.
\<close>

section \<open>The calls in steps\<close>

datatype 'w engine_call =
    CallForkchoice u64 fork_choice_state "'w rpc_attributes option"
  | CallGetPayload bytes
  | CallNewPayload "'w execution_payload"

datatype 'w engine_answer =
    AnsForkchoice "fcu_result res"
  | AnsGet "'w execution_payload res"
  | AnsNew "(payload_status option \<times> goerr option) res"

datatype 'w engine_pc =
    AtValidate u64 fork_choice_state "'w rpc_attributes option"
  | AtApply u64 fork_choice_state "'w rpc_attributes option" header
  | AtStart u64 fork_choice_state "'w rpc_attributes"
  | AtCheck bytes
  | AtBuild
  | AtAnswer block
  | AtLookup "'w execution_payload"
  | AtHead
  | AtReturn "'w engine_answer"

fun exclusive :: "'w engine_call \<Rightarrow> bool" where
  "exclusive (CallGetPayload i) = False"
| "exclusive c = True"

fun call_start :: "'w engine_call \<Rightarrow> 'w engine_pc" where
  "call_start (CallForkchoice now fcs pa) = AtValidate now fcs pa"
| "call_start (CallGetPayload i) = AtCheck i"
| "call_start (CallNewPayload p) = AtLookup p"

fun returned :: "'w engine_pc \<Rightarrow> bool" where
  "returned (AtReturn a) = True"
| "returned pc = False"

fun steps_left :: "'w engine_pc \<Rightarrow> nat" where
  "steps_left (AtValidate now fcs pa) = 3"
| "steps_left (AtApply now fcs pa h) = 2"
| "steps_left (AtStart now fcs pa) = 1"
| "steps_left (AtCheck i) = 3"
| "steps_left AtBuild = 2"
| "steps_left (AtAnswer b) = 1"
| "steps_left (AtLookup p) = 2"
| "steps_left AtHead = 1"
| "steps_left (AtReturn a) = 0"

definition nilDereference :: goerr where "nilDereference = External ''nil pointer dereference''"

text \<open>A part of a handler that may fail: what is next, or the answer of the failure.\<close>

definition stepTo ::
    "('y res \<Rightarrow> 'w engine_answer) \<Rightarrow> ('x \<Rightarrow> 'w engine_pc) \<Rightarrow> ('x res \<times> 'e) option \<Rightarrow> ('w engine_pc \<times> 'e) option" where
  "stepTo ans k = map_option (\<lambda>(r, e). (case r of
       Ok x \<Rightarrow> k x
     | Err x \<Rightarrow> AtReturn (ans (Err x))
     | Panic x \<Rightarrow> AtReturn (ans (Panic x)), e))"

text \<open>Each step reads \<^verbatim>\<open>e.currentPayloadAttributes\<close> again.\<close>

fun engine_body ::
    "('s, 'm, 't, 'q, 'a, 'b, 'tx, 'blk, 'es, 'd, 'abi) engine_env \<Rightarrow> 'w engine_pc \<Rightarrow>
     ('s, 'm, 't, 'a, 'b, 'd, 'w) engine_state \<Rightarrow> ('w engine_pc \<times> ('s, 'm, 't, 'a, 'b, 'd, 'w) engine_state) option" where
  "engine_body N (AtValidate now fcs pa) e =
     stepTo AnsForkchoice (AtApply now fcs pa) (onStore (slift (validateForkchoice (be_db (ee_builder N)) fcs)) e)"
| "engine_body N (AtApply now fcs pa headHeader) e =
     stepTo AnsForkchoice (\<lambda>_. case pa of
         None \<Rightarrow> AtReturn (AnsForkchoice (Ok (ValidForkchoiceUpdateResult (Some (fc_HeadBlockHash fcs)) None)))
       | Some pa \<Rightarrow> AtStart now fcs pa) (applyForkchoice (ee_builder N) fcs headHeader e)"
| "engine_body N (AtStart now fcs pa) e =
     stepTo AnsForkchoice (\<lambda>r. AtReturn (AnsForkchoice (Ok r))) (startPayload N now fcs pa e)"
| "engine_body N (AtCheck payloadID) e = (case en_current e of
       None \<Rightarrow> Some (AtReturn (AnsGet (Err (ApiErr InvalidParams (ErrorNew ''payload not found'')))), e)
     | Some p \<Rightarrow> (case PayloadAttributes_ID (ee_sha256 N) p of (i, p') \<Rightarrow>
         Some (if payloadID \<noteq> i then AtReturn (AnsGet (Err (ApiErr InvalidParams (ErrorNew ''payload is not current''))))
           else AtBuild, e\<lparr>en_current := Some p'\<rparr>)))"
| "engine_body N AtBuild e = (case en_current e of
       None \<Rightarrow> Some (AtReturn (AnsGet (Panic nilDereference)), e)
     | Some p \<Rightarrow> stepTo AnsGet AtAnswer (onBuilder (buildOrPanic (ee_builder N) (payloadOf p)) e))"
| "engine_body N (AtAnswer block) e = (case AdaptCosmosTxsToEthTxs (be_eth (ee_builder N)) (b_Txs block) of
       Err x \<Rightarrow> Some (AtReturn (AnsGet (Err (ApiErr GenericServerError (Errorf_v ''convert cosmos txs to eth txs'' x)))), e)
     | Panic x \<Rightarrow> Some (AtReturn (AnsGet (Panic x)), e)
     | Ok txs \<Rightarrow> (case marshalTxs (be_eth (ee_builder N))
           (\<lambda>x. ApiErr GenericServerError (Errorf_v ''marshal tx binary'' x)) txs of
         Err x \<Rightarrow> Some (AtReturn (AnsGet (Err x)), e)
       | Panic x \<Rightarrow> Some (AtReturn (AnsGet (Panic x)), e)
       | Ok txBytes \<Rightarrow> (case en_current e of
           None \<Rightarrow> Some (AtReturn (AnsGet (Panic nilDereference)), e)
         | Some p \<Rightarrow> Some (AtReturn (AnsGet (Ok (payloadEnvelope p block txBytes))), e\<lparr>en_current := None\<rparr>))))"
| "engine_body N (AtLookup payload) e = Some (case HeaderByHash (be_db (ee_builder N)) (ep_BlockHash payload) (blocks e) of
       Panic x \<Rightarrow> AtReturn (AnsNew (Panic x))
     | Err x \<Rightarrow> AtReturn (AnsNew (if errors_Is x ErrNotFound
         then Ok (Some \<lparr>ps_Status = ExecutionInvalidBlockHash, ps_LatestValidHash = None, ps_ValidationError = None\<rparr>,
           Some (ApiErr InvalidParams (ErrorNew ''block not found'')))
         else Ok (None, Some (ApiErr GenericServerError (Errorf_v ''header by hash'' x)))))
     | Ok _ \<Rightarrow> AtHead, e)"
| "engine_body N AtHead e = Some (AtReturn (AnsNew (case HeadHeader (be_db (ee_builder N)) (blocks e) of
       Panic x \<Rightarrow> Panic x
     | Err x \<Rightarrow> Ok (None, Some (ApiErr GenericServerError (Errorf_v ''head header'' x)))
     | Ok headHeader \<Rightarrow> Ok (Some \<lparr>ps_Status = ExecutionValid, ps_LatestValidHash = Some (h_Hash headHeader),
         ps_ValidationError = None\<rparr>, None))), e)"
| "engine_body N (AtReturn a) e = None"

text \<open>The handlers as they are in \<open>Engine\<close>, each in one step.\<close>

fun engine_atomic ::
    "('s, 'm, 't, 'q, 'a, 'b, 'tx, 'blk, 'es, 'd, 'abi) engine_env \<Rightarrow> 'w engine_call \<Rightarrow>
     ('s, 'm, 't, 'a, 'b, 'd, 'w) engine_state \<Rightarrow> ('w engine_answer \<times> ('s, 'm, 't, 'a, 'b, 'd, 'w) engine_state) option" where
  "engine_atomic N (CallForkchoice now fcs pa) e = map_option (\<lambda>(r, e'). (AnsForkchoice r, e')) (ForkchoiceUpdatedV3 N now fcs pa e)"
| "engine_atomic N (CallGetPayload i) e = map_option (\<lambda>(r, e'). (AnsGet r, e')) (GetPayloadV3 N i e)"
| "engine_atomic N (CallNewPayload p) e = Some (AnsNew (NewPayloadV3 (be_db (ee_builder N)) p (blocks e)), e)"

abbreviation engine_run ::
    "('s, 'm, 't, 'q, 'a, 'b, 'tx, 'blk, 'es, 'd, 'abi) engine_env \<Rightarrow> 'w engine_call list \<Rightarrow> nat list \<Rightarrow>
     ('w engine_pc, ('s, 'm, 't, 'a, 'b, 'd, 'w) engine_state) locked \<Rightarrow>
     ('w engine_pc, ('s, 'm, 't, 'a, 'b, 'd, 'w) engine_state) locked option" where
  "engine_run N \<equiv> rw_run call_start (engine_body N) returned exclusive"

section \<open>Alone, the steps are the call\<close>

lemma stepTo_SomeE:
  assumes "stepTo ans k m = Some (pc', e')"
  obtains x where "pc' = k x" | a where "pc' = AtReturn a"
  using assms by (auto simp: stepTo_def split: res.splits) (metis res.exhaust)

lemma engine_shorter:
  assumes "engine_body N pc e = Some (pc', e')" "\<not> returned pc"
  shows "steps_left pc' < steps_left pc"
  using assms by (cases pc) (auto split: option.splits res.splits prod.splits if_splits elim!: stepTo_SomeE)

interpretation eng: locked_calls call_start "engine_body N" returned exclusive steps_left for N
  by unfold_locales (rule engine_shorter)

lemma payloadOf_id [simp]: "payloadOf (p\<lparr>pa_id := x\<rparr>) = payloadOf p"
  and payloadEnvelope_id [simp]: "payloadEnvelope (p\<lparr>pa_id := x\<rparr>) blk txs = payloadEnvelope p blk txs"
  by (simp_all add: payloadOf_def payloadEnvelope_def)

lemma onBuilder_current: "onBuilder f e = Some (r, e') \<Longrightarrow> en_current e' = en_current e"
  by (auto simp: onBuilder_def)

lemmas run_alone = alone.simps stepTo_def numeral_3_eq_3 numeral_2_eq_2

lemma forkchoice_alone:
  "alone (engine_body N) returned 3 (AtValidate now fcs pa) e =
     map_option (\<lambda>(r, e'). (AtReturn (AnsForkchoice r), e')) (ForkchoiceUpdatedV3 N now fcs pa e)"
proof (cases "validateForkchoice (be_db (ee_builder N)) fcs (blocks e)")
  case (Ok h)
  show ?thesis
  proof (cases "applyForkchoice (ee_builder N) fcs h e")
    case (Some re)
    obtain r e1 where re: "re = (r, e1)" by (cases re)
    show ?thesis
    proof (cases "\<exists>x p. r = Ok x \<and> pa = Some p")
      case True
      then show ?thesis using Ok Some re
        by (cases "startPayload N now fcs (the pa) e1")
           (auto simp: run_alone ForkchoiceUpdatedV3_def pcheck_def split: res.splits)
    qed (use Ok Some re in \<open>auto simp: run_alone ForkchoiceUpdatedV3_def pcheck_def split: res.splits option.splits\<close>)
  qed (use Ok in \<open>simp add: run_alone ForkchoiceUpdatedV3_def pcheck_def\<close>)
qed (simp_all add: run_alone ForkchoiceUpdatedV3_def pcheck_def)

lemma get_alone:
  "alone (engine_body N) returned 3 (AtCheck i) e = map_option (\<lambda>(r, e'). (AtReturn (AnsGet r), e')) (GetPayloadV3 N i e)"
proof (cases "en_current e")
  case None
  then show ?thesis by (simp add: run_alone GetPayloadV3_def pfail_def)
next
  case (Some p)
  obtain j p' where id: "PayloadAttributes_ID (ee_sha256 N) p = (j, p')" by fastforce
  then have p': "p' = p\<lparr>pa_id := Some j\<rparr>" by (rule ID_unchanged)
  let ?e = "e\<lparr>en_current := Some p'\<rparr>"
  show ?thesis
  proof (cases "onBuilder (buildOrPanic (ee_builder N) (payloadOf p)) ?e")
    case None
    then show ?thesis using Some id p'
      by (simp add: run_alone GetPayloadV3_def pfail_def pcheck_def setAttributes_def)
  next
    case build: (Some re)
    obtain r e1 where re: "re = (r, e1)" by (cases re)
    have c: "en_current e1 = Some p'" using onBuilder_current [of _ ?e r e1] build re by simp
    show ?thesis using Some id build re c p'
      by (cases r; cases "AdaptCosmosTxsToEthTxs (be_eth (ee_builder N)) (b_Txs (case r of Ok blk \<Rightarrow> blk | _ \<Rightarrow> undefined))")
         (auto simp: run_alone GetPayloadV3_def pfail_def pcheck_def setAttributes_def split: res.splits)
  qed
qed

lemma new_alone:
  "alone (engine_body N) returned 2 (AtLookup p) e = Some (AtReturn (AnsNew (NewPayloadV3 (be_db (ee_builder N)) p (blocks e))), e)"
  by (simp add: run_alone NewPayloadV3_def split: res.splits)

lemma engine_alone:
  "alone (engine_body N) returned (steps_left (call_start c)) (call_start c) e =
     map_option (\<lambda>(a, e'). (AtReturn a, e')) (engine_atomic N c e)"
  by (cases c) (simp_all add: forkchoice_alone get_alone new_alone option.map_comp comp_def case_prod_beta')

lemma serial_answers:
  assumes "\<And>c e. call c e = map_option (\<lambda>(a, e'). (AtReturn a, e')) (atom c e)" and "serial call cs order e = Some (res, e')"
  shows "\<exists>res'. serial atom cs order e = Some (res', e') \<and> res = map_option AtReturn \<circ> res'"
  using assms(2)
proof (induction order arbitrary: e res)
  case (Cons i order)
  then obtain q e1 res1 where q: "call (cs ! i) e = Some (q, e1)" "serial call cs order e1 = Some (res1, e')" "res = res1(i \<mapsto> q)"
    by (auto simp: bind_eq_Some_conv)
  then obtain a where a: "atom (cs ! i) e = Some (a, e1)" "serial call cs order e1 = Some (res1, e')" "res = res1(i \<mapsto> AtReturn a)"
    using assms(1) [of "cs ! i" e] by auto
  from Cons.IH [OF a(2)] obtain res' where "serial atom cs order e1 = Some (res', e')" "res1 = map_option AtReturn \<circ> res'" by blast
  then show ?case using a by (intro exI [of _ "res'(i \<mapsto> a)"]) (simp add: fun_eq_iff)
qed (auto simp: fun_eq_iff)

section \<open>One at a time, the calls are in sequence\<close>

text \<open>Only getting a payload takes the lock for reading.\<close>

lemma reads_lock: "\<not> exclusive c \<longleftrightarrow> (\<exists>k. c = CallGetPayload k)"
  by (cases c) simp_all

text \<open>
  C14: the engine's lock makes its calls atomic. Take any calls of which at most one gets a
  payload, and any schedule of their steps after which all have returned. Then the calls have
  an order in which, made one after the other, each gives the answer it gave, and the engine is
  left in the same state.
\<close>

theorem engine_calls_are_serialized:
  fixes e0 :: "('s, 'm, 't, 'a, 'b, 'd, 'w) engine_state"
  assumes run: "engine_run N cs sched (unlocked (length cs) e0) = Some L"
    and one: "\<forall>i < length cs. \<forall>j < length cs. \<forall>k l. cs ! i = CallGetPayload k \<and> cs ! j = CallGetPayload l \<longrightarrow> i = j"
    and all: "\<forall>i < length cs. lk_turns L ! i = Finished (AtReturn (ans i))"
  shows "\<exists>order res. distinct order \<and> set order = {..< length cs} \<and>
    serial (engine_atomic N) cs order e0 = Some (res, lk_state L) \<and> (\<forall>i < length cs. res i = Some (ans i))"
proof -
  have "eng.solo cs" unfolding eng.solo_def reads_lock using one by blast
  then obtain order res where o: "distinct order" "set order = {..< length cs}"
    "serial (\<lambda>c. alone (engine_body N) returned (steps_left (call_start c)) (call_start c)) cs order e0 = Some (res, lk_state L)"
    "\<forall>i < length cs. res i = Some (AtReturn (ans i))"
    using eng.serializable [OF run _ all] by blast
  obtain res' where res': "serial (engine_atomic N) cs order e0 = Some (res', lk_state L)" "res = map_option AtReturn \<circ> res'"
    using serial_answers [OF engine_alone o(3)] by blast
  then have "\<forall>i < length cs. res' i = Some (ans i)" using o(4) by (auto simp: fun_eq_iff)
  with o res'(1) show ?thesis by blast
qed


section \<open>Overlapping, the payload is built twice\<close>

text \<open>
  C16: a payload that is asked for twice at once is built twice. One after the other, the first
  call answers the block and the second is told that there is no payload; the chain has grown
  by one block. When both take the read lock, which the lock allows, and pass their checks
  before either is done, two blocks are built from the one payload and the chain grows by two:
  the first call answers a block that is no longer the head, and the second panics on the
  payload that the first has cleared. Both builds succeed here, and the transactions of both
  blocks can be written for the answer.
\<close>

theorem overlapping_calls_build_twice:
  fixes e :: "('s, 'm, 't, 'a, 'b, 'd, 'w) engine_state"
  assumes rep: "rep (be_db (ee_builder N)) view (blocks e) a" and head: "HeadHeader (be_db (ee_builder N)) (blocks e) = Ok ph"
    and cur: "en_current e = Some p" and id: "PayloadAttributes_ID (ee_sha256 N) p = (i, p')"
    and b1: "Build (ee_builder N) (payloadOf p) (en_builder e) = Some (Ok c1, bd1)"
    and b2: "Build (ee_builder N) (payloadOf p) bd1 = Some (Ok c2, bd2)"
    and t1: "AdaptCosmosTxsToEthTxs (be_eth (ee_builder N)) (b_Txs c1) = Ok txs1"
    and t2: "AdaptCosmosTxsToEthTxs (be_eth (ee_builder N)) (b_Txs c2) = Ok txs2"
    and m: "\<forall>tx \<in> set txs1 \<union> set txs2. el_MarshalErr (be_eth (ee_builder N)) tx = None"
  shows "(\<exists>env L. engine_run N [CallGetPayload i, CallGetPayload i] [0, 0, 0, 0, 0, 1, 1, 1] (unlocked 2 e) = Some L \<and>
      lk_turns L = [Finished (AtReturn (AnsGet (Ok env))),
        Finished (AtReturn (AnsGet (Err (ApiErr InvalidParams (ErrorNew ''payload not found'')))))] \<and>
      ep_BlockHash env = h_Hash (b_Header c1) \<and> HeadHeader (be_db (ee_builder N)) (blocks (lk_state L)) = Ok (b_Header c1) \<and>
      h_Height (b_Header c1) = h_Height ph + 1) \<and>
    (\<exists>env L. engine_run N [CallGetPayload i, CallGetPayload i] [0, 1, 0, 1, 0, 1, 0, 1, 0, 1] (unlocked 2 e) = Some L \<and>
      lk_turns L = [Finished (AtReturn (AnsGet (Ok env))), Finished (AtReturn (AnsGet (Panic nilDereference)))] \<and>
      ep_BlockHash env = h_Hash (b_Header c1) \<and> HeadHeader (be_db (ee_builder N)) (blocks (lk_state L)) = Ok (b_Header c2) \<and>
      h_Height (b_Header c2) = h_Height ph + 2 \<and> h_ParentHash (b_Header c2) = ep_BlockHash env)"
proof -
  note p' = ID_unchanged [OF id] and id' = ID_stable [OF id]
  have b: "buildOrPanic (ee_builder N) (payloadOf p') (en_builder e) = Some (Ok c1, bd1)"
    "buildOrPanic (ee_builder N) (payloadOf p') bd1 = Some (Ok c2, bd2)"
    using p' b1 b2 by (simp_all add: buildOrPanic_def)
  have ms: "marshalTxs (be_eth (ee_builder N)) w txs1 = Ok (map (el_MarshalBinary (be_eth (ee_builder N))) txs1)"
    "marshalTxs (be_eth (ee_builder N)) w txs2 = Ok (map (el_MarshalBinary (be_eth (ee_builder N))) txs2)" for w
    using m by (simp_all add: marshalTxs_total)
  note [simp] = b ms cur id id' t1 t2
  have r0: "rep (be_db (ee_builder N)) view (bd_blocks (en_builder e)) a" using rep by simp
  obtain h1: "h_Height (b_Header c1) = h_Height ph + 1" "HeadHeader (be_db (ee_builder N)) (bd_blocks bd1) = Ok (b_Header c1)"
    and r1: "rep (be_db (ee_builder N)) view (bd_blocks bd1) (a_append (ldb_TxHash (be_db (ee_builder N))) c1 a)"
    by (rule Build_head [OF b1 r0]) (use head that in simp)
  obtain h2: "h_Height (b_Header c2) = h_Height (b_Header c1) + 1" "h_ParentHash (b_Header c2) = h_Hash (b_Header c1)"
    "HeadHeader (be_db (ee_builder N)) (bd_blocks bd2) = Ok (b_Header c2)"
    by (rule Build_head [OF b2 r1]) (use h1(2) that in simp)
  show ?thesis
    by (intro conjI) (use h1 h2 in \<open>simp_all add: rw_step_def unlocked_def lock_acquire_def lock_release_def turn_to_def stepTo_def
      onBuilder_def payloadEnvelope_def numeral_2_eq_2\<close>)
qed

lemma toy_Build_again:
  assumes rep: "rep mem_env map_of (bd_blocks b) a" and head: "HeadHeader mem_env (bd_blocks b) = Ok p"
    and txs: "AdaptCosmosTxsToEthTxs toy_eth txs = Ok ets"
    and pl: "pl_InjectedTransactions pl = Some txs" "pl_NoTxPool pl"
  shows "\<exists>blk b'. Build mem_builder pl b = Some (Ok blk, b') \<and> b_Txs blk = txs"
  using toy_build [OF rep head txs, of pl] pl by (auto simp: Build_def pcheck_def)

theorem overlapping_calls_build_twice_witness:
  "\<exists>s i env L (c1 :: block) (c2 :: block). engine_run mem_engine [CallGetPayload i, CallGetPayload i] [0, 1, 0, 1, 0, 1, 0, 1, 0, 1]
       (unlocked 2 (engine_at s (Some (stale_attributes\<lparr>pa_NoTxPool := True\<rparr>)))) = Some L \<and>
     lk_turns L = [Finished (AtReturn (AnsGet (Ok env))), Finished (AtReturn (AnsGet (Panic nilDereference)))] \<and>
     HeadHeader mem_env s = Ok hdr1 \<and> ep_BlockHash env = h_Hash (b_Header c1) \<and>
     HeadHeader mem_env (blocks (lk_state L)) = Ok (b_Header c2) \<and> h_Height (b_Header c2) = 3"
proof -
  let ?p = "stale_attributes\<lparr>pa_NoTxPool := True\<rparr>" and ?txs = "[DepositsTx_MarshalToSizedBuffer toy_deposits, [9]]"
  have pl: "pl_InjectedTransactions (payloadOf ?p) = Some ?txs" "pl_NoTxPool (payloadOf ?p)"
    by (simp_all add: payloadOf_def stale_attributes_def)
  obtain ets where ets: "AdaptCosmosTxsToEthTxs toy_eth ?txs = Ok ets" using toy_adapt by auto
  obtain s where s: "store_reach mem_env [] s" "HeadHeader mem_env s = Ok hdr1" using mem_reach_head1 by blast
  obtain a where rep: "rep mem_env map_of s a" using reach_good [OF mem_rep_empty s(1)] by blast
  let ?e = "engine_at s (Some ?p)"
  have B: "be_db mem_builder = mem_env" "be_eth mem_builder = toy_eth" by (simp_all add: mem_builder_def)
  have r0: "rep mem_env map_of (bd_blocks (builder_at s [])) a" "HeadHeader mem_env (bd_blocks (builder_at s [])) = Ok hdr1"
    using rep s(2) by (simp_all add: builder_at_def)
  obtain c1 bd1 where b1: "Build mem_builder (payloadOf ?p) (builder_at s []) = Some (Ok c1, bd1)" "b_Txs c1 = ?txs"
    using toy_Build_again [OF r0 ets pl] by blast
  obtain a1 where r1: "rep mem_env map_of (bd_blocks bd1) a1" "HeadHeader mem_env (bd_blocks bd1) = Ok (b_Header c1)"
    by (rule Build_head [OF b1(1), of map_of a]) (use r0 B in auto)
  obtain c2 bd2 where b2: "Build mem_builder (payloadOf ?p) bd1 = Some (Ok c2, bd2)" "b_Txs c2 = ?txs"
    using toy_Build_again [OF r1 ets pl] by blast
  obtain i p' where id: "PayloadAttributes_ID (ee_sha256 mem_engine) ?p = (i, p')" by fastforce
  have cur: "en_current ?e = Some ?p" by simp
  have h: "rep (be_db (ee_builder mem_engine)) map_of (blocks ?e) a" "HeadHeader (be_db (ee_builder mem_engine)) (blocks ?e) = Ok hdr1"
    using rep s(2) B by simp_all
  have bs: "Build (ee_builder mem_engine) (payloadOf ?p) (en_builder ?e) = Some (Ok c1, bd1)"
    "Build (ee_builder mem_engine) (payloadOf ?p) bd1 = Some (Ok c2, bd2)" using b1(1) b2(1) by simp_all
  have ts: "AdaptCosmosTxsToEthTxs (be_eth (ee_builder mem_engine)) (b_Txs c1) = Ok ets"
    "AdaptCosmosTxsToEthTxs (be_eth (ee_builder mem_engine)) (b_Txs c2) = Ok ets" using ets b1(2) b2(2) B by simp_all
  have "\<forall>tx \<in> set ets \<union> set ets. el_MarshalErr (be_eth (ee_builder mem_engine)) tx = None" using B by (simp add: toy_eth_def)
  from overlapping_calls_build_twice [OF h cur id bs ts this] obtain env L where
    w: "engine_run mem_engine [CallGetPayload i, CallGetPayload i] [0, 1, 0, 1, 0, 1, 0, 1, 0, 1]
       (unlocked 2 ?e) = Some L"
    "lk_turns L = [Finished (AtReturn (AnsGet (Ok env))), Finished (AtReturn (AnsGet (Panic nilDereference)))]"
    "ep_BlockHash env = h_Hash (b_Header c1)" "HeadHeader (be_db (ee_builder mem_engine)) (blocks (lk_state L)) = Ok (b_Header c2)"
    "h_Height (b_Header c2) = h_Height hdr1 + 2" by blast
  have "h_Height (b_Header c2) = 3" using w(5) by (simp add: hdr1_def)
  moreover have "HeadHeader mem_env (blocks (lk_state L)) = Ok (b_Header c2)" using w(4) B by simp
  ultimately show ?thesis using s(2) w(1-3) by (intro exI [of _ s] exI [of _ i] exI [of _ env] exI [of _ L] exI [of _ c1] exI [of _ c2] conjI)
qed

text \<open>
  A call that gets a payload, a fork choice update and a confirmation on an engine in memory, in
  one of their schedules; after the first five steps the fork choice update is inside.
\<close>

abbreviation three_calls :: "unit execution_payload \<Rightarrow> unit engine_call list" where
  "three_calls pl \<equiv> [CallGetPayload [], CallForkchoice 0 to101 None, CallNewPayload pl]"

lemma three_calls_run:
  assumes s: "HeaderByHash mem_env (ep_BlockHash pl) s' = Ok h" "HeadHeader mem_env s' = Ok h"
    and fc: "validateForkchoice mem_env to101 s = Ok hdr1"
      "applyForkchoice mem_builder to101 hdr1 (engine_at s None) = Some (Ok (), engine_at s' None)"
  shows "\<exists>L. engine_run mem_engine (three_calls pl) [0, 0, 0, 1, 1] (unlocked 3 (engine_at s None)) = Some L \<and>
      1 \<in> inside L" (is ?inside)
    and "\<exists>L st. engine_run mem_engine (three_calls pl) [0, 0, 0, 1, 1, 1, 1, 2, 2, 2, 2] (unlocked 3 (engine_at s None)) = Some L \<and>
      lk_turns L = [Finished (AtReturn (AnsGet (Err (ApiErr InvalidParams (ErrorNew ''payload not found''))))),
        Finished (AtReturn (AnsForkchoice (Ok (ValidForkchoiceUpdateResult (Some 101) None)))),
        Finished (AtReturn (AnsNew (Ok (Some st, None))))] \<and> ps_Status st = ExecutionValid"
proof -
  note run = rw_step_def unlocked_def lock_acquire_def lock_release_def turn_to_def numeral_2_eq_2 numeral_3_eq_3 stepTo_def
  show ?inside using fc by (simp add: run inside_def)
  show "\<exists>L st. engine_run mem_engine (three_calls pl) [0, 0, 0, 1, 1, 1, 1, 2, 2, 2, 2] (unlocked 3 (engine_at s None)) = Some L \<and>
      lk_turns L = [Finished (AtReturn (AnsGet (Err (ApiErr InvalidParams (ErrorNew ''payload not found''))))),
        Finished (AtReturn (AnsForkchoice (Ok (ValidForkchoiceUpdateResult (Some 101) None)))),
        Finished (AtReturn (AnsNew (Ok (Some st, None))))] \<and> ps_Status st = ExecutionValid"
    using s fc by (simp add: run)
qed

lemma three_calls_exist:
  "\<exists>(pl :: unit execution_payload) s s'. HeaderByHash mem_env (ep_BlockHash pl) s' = Ok hdr1 \<and> HeadHeader mem_env s' = Ok hdr1 \<and>
    validateForkchoice mem_env to101 s = Ok hdr1 \<and>
    applyForkchoice mem_builder to101 hdr1 (engine_at s None :: (kv, kv, kv, u64, bus_event list, toy_state, unit) engine_state) =
      Some (Ok (), engine_at s' None)"
proof -
  obtain s where s: "store_reach mem_env [] s" "HeaderByHash mem_env 101 s = Ok hdr1" "HeadHeader mem_env s = Ok hdr1"
    using mem_reach_head1 by blast
  obtain s' where s': "applyForkchoice mem_builder to101 hdr1 (engine_at s None) = Some (Ok (), engine_at s' None)"
    "store_reach mem_env [] s'" "HeadHeader mem_env s' = Ok hdr1"
    using toy_forkchoice [OF s] by blast
  obtain a where a: "rep mem_env map_of s' a" "ldb_good mem_env a" using reach_good [OF mem_rep_empty s'(2)] by blast
  note ch = ldb.good_chain [OF a(2)]
  obtain t where "a_top a = Some t" "a_header a t = Some hdr1"
    using finds_Ok [OF HeadHeader_finds [OF a(1)] s'(3)] by (auto simp: bind_eq_Some_conv)
  then have "HeaderByHash mem_env 101 s' = Ok hdr1"
    using HeaderByHash_finds [OF a(1), of 101] chain_hash [OF ch, of t hdr1] by (simp add: a_headerByHash_def hdr1_def)
  moreover obtain pl :: "unit execution_payload" where "ep_BlockHash pl = 101"
    by (metis execution_payload.select_convs(3))
  ultimately show ?thesis using s' toy_validate [OF s(2)] by (intro exI [of _ pl] exI [of _ s] exI [of _ s']) simp
qed

theorem engine_calls_are_serialized_witness:
  "\<exists>(pl :: unit execution_payload) s order res e. distinct order \<and> set order = {0, 1, 2} \<and>
     serial (engine_atomic mem_engine) (three_calls pl) order (engine_at s None) = Some (res, e) \<and>
     res 1 = Some (AnsForkchoice (Ok (ValidForkchoiceUpdateResult (Some 101) None)))"
proof -
  obtain pl :: "unit execution_payload" and s L st where
    run: "engine_run mem_engine (three_calls pl) [0, 0, 0, 1, 1, 1, 1, 2, 2, 2, 2] (unlocked 3 (engine_at s None)) = Some L"
    and t: "lk_turns L = [Finished (AtReturn (AnsGet (Err (ApiErr InvalidParams (ErrorNew ''payload not found''))))),
        Finished (AtReturn (AnsForkchoice (Ok (ValidForkchoiceUpdateResult (Some 101) None)))),
        Finished (AtReturn (AnsNew (Ok (Some st, None))))]"
    using three_calls_exist three_calls_run(2) by metis
  let ?ans = "\<lambda>i. [AnsGet (Err (ApiErr InvalidParams (ErrorNew ''payload not found''))),
    AnsForkchoice (Ok (ValidForkchoiceUpdateResult (Some 101) None)), AnsNew (Ok (Some st, None))] ! i"
  have len: "3 = length (three_calls pl)" by simp
  have one: "\<forall>i < length (three_calls pl). \<forall>j < length (three_calls pl). \<forall>k l.
      three_calls pl ! i = CallGetPayload k \<and> three_calls pl ! j = CallGetPayload l \<longrightarrow> i = j"
    by (auto simp: less_Suc_eq)
  have all: "\<forall>i < length (three_calls pl). lk_turns L ! i = Finished (AtReturn (?ans i))"
    using t by (auto simp: less_Suc_eq)
  have three: "{..< length (three_calls pl)} = {0, 1, 2}" "1 < length (three_calls pl)" by auto
  obtain order res where "distinct order" "set order = {0, 1, 2}"
    "serial (engine_atomic mem_engine) (three_calls pl) order (engine_at s None) = Some (res, lk_state L)"
    "\<forall>i < length (three_calls pl). res i = Some (?ans i)"
    using engine_calls_are_serialized [OF run [unfolded len] one all] unfolding three(1) by blast
  moreover from this(4) have "res 1 = Some (?ans 1)" using three(2) by blast
  ultimately show ?thesis by (intro exI [of _ pl] exI [of _ s] exI [of _ order] exI [of _ res] exI [of _ "lk_state L"]) simp
qed


end
