(* ===== verification/RollupTypes.thy ===== *)
theory RollupTypes
  imports Withdrawals
begin

text \<open>
  The types of the rollup module (\<^verbatim>\<open>x/rollup/types\<close>): its names and errors, parameters and
  genesis state, and the messages with their stateless validation. A Cosmos SDK integer
  (\<^verbatim>\<open>sdkmath.Int\<close>) is an \<open>int option\<close>, \<open>None\<close> where it holds no number.
\<close>

section \<open>Names (keys.go, events.go)\<close>

definition ModuleName :: string where "ModuleName = ''rollup''"
definition StoreKey :: string where "StoreKey = ModuleName"
definition QuerierRoute :: string where "QuerierRoute = ModuleName"
definition MemStoreKey :: string where "MemStoreKey = ''mem_rollup''"
definition WEI :: string where "WEI = ''wei''"
definition L1BlockInfoKey :: bytes where "L1BlockInfoKey = str ''l1_block_info''"
definition ParamsKey :: bytes where "ParamsKey = str ''params''"

definition AttributeKeyL1DepositTxType :: string where "AttributeKeyL1DepositTxType = ''l1_deposit_tx_type''"
definition AttributeKeyL2WithdrawalTx :: string where "AttributeKeyL2WithdrawalTx = ''l2_withdrawal_tx''"
definition AttributeKeyL2FeeWithdrawalTx :: string where "AttributeKeyL2FeeWithdrawalTx = ''l2_fee_withdrawal_tx''"
definition AttributeKeyFromCosmosAddress :: string where "AttributeKeyFromCosmosAddress = ''from_address''"
definition AttributeKeyToCosmosAddress :: string where "AttributeKeyToCosmosAddress = ''to_address''"
definition AttributeKeyMintCosmosAddress :: string where "AttributeKeyMintCosmosAddress = ''mint_address''"
definition AttributeKeyMint :: string where "AttributeKeyMint = ''mint''"
definition AttributeKeyERC20Address :: string where "AttributeKeyERC20Address = ''erc20_address''"
definition L1UserDepositTxType :: string where "L1UserDepositTxType = ''l1_user_deposit''"
definition EventTypeMintETH :: string where "EventTypeMintETH = ''mint_eth''"
definition EventTypeMintERC20 :: string where "EventTypeMintERC20 = ''mint_erc20''"
definition EventTypeBurnETH :: string where "EventTypeBurnETH = ''burn_eth''"
definition EventTypeBurnERC20 :: string where "EventTypeBurnERC20 = ''burn_erc20''"

lemmas event_name_defs = EventTypeMintETH_def EventTypeMintERC20_def EventTypeBurnETH_def EventTypeBurnERC20_def
  EventTypeWithdrawalInitiated_def

section \<open>Errors (errors.go)\<close>

text \<open>
  The registry hands out consecutive codes; \<^verbatim>\<open>WrapError\<close> adds context and keeps the
  registered error visible.
\<close>

fun newErrRegistry :: "nat \<Rightarrow> string list \<Rightarrow> goerr list" where
  "newErrRegistry currentCode [] = []"
| "newErrRegistry currentCode (description # ds) = SdkErr currentCode description # newErrRegistry (currentCode + 1) ds"

definition registeredErrors :: "goerr list" where
  "registeredErrors = newErrRegistry 1 [''invalid L1 txs'', ''failed to mint ETH'', ''failed to burn ETH'',
     ''invalid sender address'', ''l1 block info'', ''params'', ''failed to process L1 user deposit txs'',
     ''failed to process L1 system deposit tx'', ''failed to initiate fee withdrawal'',
     ''failed to initiate ERC-20 withdrawal'', ''failed to update params'']"

definition ErrInvalidL1Txs :: goerr where "ErrInvalidL1Txs = registeredErrors ! 0"
definition ErrMintETH :: goerr where "ErrMintETH = registeredErrors ! 1"
definition ErrBurnETH :: goerr where "ErrBurnETH = registeredErrors ! 2"
definition ErrInvalidSender :: goerr where "ErrInvalidSender = registeredErrors ! 3"
definition ErrParams :: goerr where "ErrParams = registeredErrors ! 5"
definition ErrProcessL1UserDepositTxs :: goerr where "ErrProcessL1UserDepositTxs = registeredErrors ! 6"
definition ErrInitiateFeeWithdrawal :: goerr where "ErrInitiateFeeWithdrawal = registeredErrors ! 8"
definition ErrInitiateERC20Withdrawal :: goerr where "ErrInitiateERC20Withdrawal = registeredErrors ! 9"
definition ErrUpdateParams :: goerr where "ErrUpdateParams = registeredErrors ! 10"

definition WrapError :: "goerr \<Rightarrow> string \<Rightarrow> goerr" where
  "WrapError e msg = Errorf_w msg e"

text \<open>The context an error return wraps a registered error with; the cause is only printed.\<close>

definition wrapAs :: "goerr \<Rightarrow> string \<Rightarrow> goerr \<Rightarrow> goerr" where
  "wrapAs e msg cause = WrapError e msg"

section \<open>Parameters and genesis (params.go, genesis.go)\<close>

definition unstr :: "bytes \<Rightarrow> string" where
  "unstr b = map (\<lambda>x. char_of (unat x)) b"

lemma unstr_str: "unstr (str s) = s"
proof -
  have "unat (of_char c :: byte) = of_char c" for c
  proof -
    have "unat (of_char c :: byte) = unat (of_nat (of_char c) :: byte)" by (simp only: of_nat_of_char)
    also have "\<dots> = of_char c mod 256" by (simp only: unat_byte_of_nat)
    finally show ?thesis using of_char_mod_256 [of c, where ?'a = nat] by simp
  qed
  then show ?thesis by (simp add: unstr_def str_def map_idI)
qed

definition DefaultParams :: Params where
  "DefaultParams = \<lparr>
     p_L1FeeRecipient = str ''0x000000000000000000000000000000000000dEaD'',
     p_L1CrossDomainMessenger = str ''0x3d609De69E066F85C38AC274e3EeC251EcfDeAa1'',
     p_L1StandardBridge = str ''0x9D34A2610Ea283f6d9AE29f9Cad82e00c4d38507'',
     p_MinFeeWithdrawalAmount = 400000,
     p_FeeWithdrawalGasLimit = 400000\<rparr>"

definition validateEthAddress :: "hexlib \<Rightarrow> string \<Rightarrow> unit res" where
  "validateEthAddress X addr =
     (if \<not> hx_IsHexAddress X addr then Err (ErrorNew ''validate ethereum address'') else Ok ())"

definition Params_Validate :: "hexlib \<Rightarrow> Params \<Rightarrow> unit res" where
  "Params_Validate X p =
     check (validateEthAddress X (unstr (p_L1FeeRecipient p)))
       (Errorf_w ''validate L1 fee recipient address'') (\<lambda>_.
     check (validateEthAddress X (unstr (p_L1CrossDomainMessenger p)))
       (Errorf_w ''validate L1 cross domain messenger address'') (\<lambda>_.
     check (validateEthAddress X (unstr (p_L1StandardBridge p)))
       (Errorf_w ''validate L1 standard bridge address'') (\<lambda>_.
     Ok ())))"

record GenesisState =
  gs_Params :: Params

definition NewGenesisState :: "Params \<Rightarrow> GenesisState" where
  "NewGenesisState params = \<lparr>gs_Params = params\<rparr>"

definition DefaultGenesisState :: GenesisState where
  "DefaultGenesisState = NewGenesisState DefaultParams"

definition ValidateGenesis :: "hexlib \<Rightarrow> GenesisState \<Rightarrow> unit res" where
  "ValidateGenesis X state =
     check (Params_Validate X (gs_Params state)) (Errorf_v ''validate params'') (\<lambda>_. Ok ())"

section \<open>Messages (msgs.go, deposit_tx.go)\<close>

record MsgInitiateWithdrawal =
  iw_Sender :: string
  iw_Target :: string
  iw_Value :: "int option"
  iw_GasLimit :: bytes
  iw_Data :: bytes

record MsgInitiateERC20Withdrawal =
  ie_Sender :: string
  ie_Target :: string
  ie_TokenAddress :: string
  ie_Value :: "int option"
  ie_GasLimit :: bytes
  ie_ExtraData :: bytes

record MsgInitiateFeeWithdrawal =
  if_Sender :: string

record MsgUpdateParams =
  up_Authority :: string
  up_Params :: Params

datatype msg =
    SetL1AttributesMsg "MsgSetL1Attributes option"
  | ApplyUserDepositMsg MsgApplyUserDeposit
  | InitiateWithdrawalMsg MsgInitiateWithdrawal
  | InitiateERC20WithdrawalMsg MsgInitiateERC20Withdrawal
  | InitiateFeeWithdrawalMsg MsgInitiateFeeWithdrawal
  | UpdateParamsMsg MsgUpdateParams
  | OtherMsg string

text \<open>go-ethereum's bounds (\<^verbatim>\<open>params.TxGas\<close>, \<^verbatim>\<open>params.MaxGasLimit\<close>).\<close>

definition MinTxGasLimit :: u64 where "MinTxGasLimit = 21000"
definition MaxTxGasLimit :: u64 where "MaxTxGasLimit = 0x7fffffffffffffff"

text \<open>
  \<^verbatim>\<open>new(big.Int).SetBytes(b).Uint64()\<close>: the number a byte string spells, and its low 64
  bits.
\<close>

definition gasLimit64 :: "bytes \<Rightarrow> u64" where
  "gasLimit64 b = word_of_nat (be_dec b)"

definition checkGasLimit :: "bytes \<Rightarrow> unit res" where
  "checkGasLimit b =
     (let gasLimit = gasLimit64 b in
      if gasLimit < MinTxGasLimit \<or> gasLimit > MaxTxGasLimit
      then Err (ErrorNew ''gas limit must be between the bounds'') else Ok ())"

text \<open>
  A nil and an empty transaction are both the empty byte string here; neither decodes as an
  Ethereum transaction, so both are refused.
\<close>

definition MsgApplyUserDeposit_ValidateBasic ::
    "('tx, 'blk) ethlib \<Rightarrow> ('tx \<Rightarrow> bool) \<Rightarrow> MsgApplyUserDeposit \<Rightarrow> unit res" where
  "MsgApplyUserDeposit_ValidateBasic L IsSystemTx m =
     (if ud_Tx m = [] then Err (ErrorNew ''tx is nil'')
      else check (el_UnmarshalBinary L (ud_Tx m)) (Errorf_v ''unmarshal binary deposit tx'') (\<lambda>tx.
      if \<not> el_IsDepositTx L tx then Err (ErrorNew ''tx is not a deposit tx'')
      else if IsSystemTx tx then Err (ErrorNew ''tx must not be a system tx'')
      else Ok ()))"

definition MsgSetL1Attributes_ValidateBasic :: "MsgSetL1Attributes option \<Rightarrow> unit res" where
  "MsgSetL1Attributes_ValidateBasic m = Ok ()"

definition MsgInitiateWithdrawal_ValidateBasic :: "hexlib \<Rightarrow> MsgInitiateWithdrawal \<Rightarrow> unit res" where
  "MsgInitiateWithdrawal_ValidateBasic X m =
     (if \<not> hx_IsHexAddress X (iw_Target m) then Err (ErrorNew ''invalid Ethereum address'')
      else checkGasLimit (iw_GasLimit m))"

definition MsgInitiateERC20Withdrawal_ValidateBasic :: "hexlib \<Rightarrow> MsgInitiateERC20Withdrawal \<Rightarrow> unit res" where
  "MsgInitiateERC20Withdrawal_ValidateBasic X m =
     (if \<not> hx_IsHexAddress X (ie_Target m) then Err (ErrorNew ''invalid target address'')
      else if \<not> hx_IsHexAddress X (ie_TokenAddress m) then Err (ErrorNew ''invalid token address'')
      else checkGasLimit (ie_GasLimit m))"

fun msgType :: "msg \<Rightarrow> string option" where
  "msgType (ApplyUserDepositMsg m) = Some ''apply_user_deposit''"
| "msgType (SetL1AttributesMsg m) = Some ''set_l1_attributes''"
| "msgType (InitiateWithdrawalMsg m) = Some ''l2_eth_withdrawal''"
| "msgType (InitiateERC20WithdrawalMsg m) = Some ''l2_erc20_withdrawal''"
| "msgType _ = None"

fun msgRoute :: "msg \<Rightarrow> string option" where
  "msgRoute (ApplyUserDepositMsg m) = Some ModuleName"
| "msgRoute (SetL1AttributesMsg m) = Some ModuleName"
| "msgRoute (InitiateWithdrawalMsg m) = Some ModuleName"
| "msgRoute (InitiateERC20WithdrawalMsg m) = Some ModuleName"
| "msgRoute _ = None"

text \<open>Marked as deposit messages (\<^verbatim>\<open>deposit_msg.go\<close>).\<close>

fun isDeposit :: "msg \<Rightarrow> bool" where
  "isDeposit (SetL1AttributesMsg m) = True"
| "isDeposit (ApplyUserDepositMsg m) = True"
| "isDeposit _ = False"

definition GetMsgs :: "DepositsTx \<Rightarrow> msg list" where
  "GetMsgs d = SetL1AttributesMsg (dt_L1Attributes d) # map ApplyUserDepositMsg (dt_UserDeposits d)"

text \<open>\<^verbatim>\<open>MessageV2\<close> is another view of the same message.\<close>

definition GetMsgsV2 :: "DepositsTx \<Rightarrow> msg list res" where
  "GetMsgsV2 d = Ok (GetMsgs d)"

lemma GetMsgs_deposits: "list_all isDeposit (GetMsgs d)"
  by (simp add: GetMsgs_def list_all_iff)

lemma checkGasLimit_iff: "checkGasLimit b = Ok () \<longleftrightarrow> 21000 \<le> be_dec b mod 2 ^ 64 \<and> be_dec b mod 2 ^ 64 < 2 ^ 63"
proof -
  have "unat (gasLimit64 b) = be_dec b mod 2 ^ 64" by (simp add: gasLimit64_def unat_of_nat)
  moreover have "unat MinTxGasLimit = 21000" "unat MaxTxGasLimit = 2 ^ 63 - 1"
    by (simp_all add: MinTxGasLimit_def MaxTxGasLimit_def)
  ultimately show ?thesis by (auto simp: checkGasLimit_def Let_def word_less_nat_alt not_less)
qed

end
