(* ===== verification/RollupKeeper.thy ===== *)
theory RollupKeeper
  imports RollupTypes
begin

text \<open>
  The keeper of the rollup module (\<^verbatim>\<open>x/rollup/keeper\<close>): the parameters and the L1 block info
  in its store, minting for deposits, burning for withdrawals, the message and query
  servers and genesis. The SDK's store, bank, coins and address codec, go-ethereum's
  deposit transactions and the ABI codec are parameters.
\<close>

section \<open>The interfaces the keeper calls\<close>

record coin =
  c_Denom :: string
  c_Amount :: nat

text \<open>
  A Go byte slice with what its array holds behind it: \<^verbatim>\<open>s[:n]\<close> may reach into that,
  \<^verbatim>\<open>s[n:]\<close> may not.
\<close>

type_synonym slice = "bytes \<times> bytes"

definition sliceTo :: "nat \<Rightarrow> slice \<Rightarrow> bytes res" where
  "sliceTo n s = (if n \<le> length (fst s @ snd s) then Ok (take n (fst s @ snd s))
     else Panic (External ''slice bounds out of range''))"

definition sliceFrom :: "nat \<Rightarrow> slice \<Rightarrow> bytes res" where
  "sliceFrom n s = (if n \<le> length (fst s) then Ok (drop n (fst s))
     else Panic (External ''slice bounds out of range''))"

record RelayMessageArgs =
  rm_Nonce :: nat
  rm_Sender :: address
  rm_Target :: address
  rm_Value :: nat
  rm_MinGasLimit :: nat
  rm_Message :: slice

record FinalizeBridgeETHArgs =
  fe_From :: address
  fe_To :: address
  fe_Amount :: nat
  fe_ExtraData :: bytes

record FinalizeBridgeERC20Args =
  fb_RemoteToken :: address
  fb_LocalToken :: address
  fb_From :: address
  fb_To :: address
  fb_Amount :: nat
  fb_ExtraData :: bytes

text \<open>
  The ABI of the bridge contracts: selectors, and decoding and encoding of arguments. Relayed
  messages are decoded with the ABI of the L2 messenger and encoded with that of the L1 messenger.
\<close>

record bridgelib =
  br_L2MessengerABI :: "unit res"
  br_L1MessengerABI :: "unit res"
  br_BridgeABI :: "unit res"
  br_relayMessageID :: bytes
  br_finalizeETHID :: bytes
  br_finalizeERC20ID :: bytes
  br_UnpackRelay :: "bytes \<Rightarrow> RelayMessageArgs res"
  br_UnpackETH :: "bytes \<Rightarrow> FinalizeBridgeETHArgs res"
  br_UnpackERC20 :: "bytes \<Rightarrow> FinalizeBridgeERC20Args res"
  br_PackERC20 :: "address \<Rightarrow> address \<Rightarrow> address \<Rightarrow> address \<Rightarrow> int \<Rightarrow> bytes \<Rightarrow> bytes res"
  br_PackRelay :: "nat \<Rightarrow> address \<Rightarrow> address \<Rightarrow> nat \<Rightarrow> nat \<Rightarrow> bytes \<Rightarrow> bytes res"
  br_L2StandardBridge :: string
  br_L2CrossDomainMessenger :: string
  br_ApplyL1ToL2Alias :: "address \<Rightarrow> address"

text \<open>Accessors of go-ethereum's transactions; nil pointers are \<open>None\<close>.\<close>

record 'tx deplib =
  dp_IsSystemTx :: "'tx \<Rightarrow> bool"
  dp_To :: "'tx \<Rightarrow> address option"
  dp_ChainId :: "'tx \<Rightarrow> nat"
  dp_Mint :: "'tx \<Rightarrow> nat option"
  dp_Value :: "'tx \<Rightarrow> nat option"
  dp_Data :: "'tx \<Rightarrow> slice option"
  dp_Sender :: "chain_config \<Rightarrow> nat \<Rightarrow> u64 \<Rightarrow> 'tx \<Rightarrow> address res"

record ('s, 'b, 'tx, 'blk) keeper_env =
  ke_Get :: "'s \<Rightarrow> bytes \<Rightarrow> bytes option res"
  ke_Set :: "bytes \<Rightarrow> bytes \<Rightarrow> ('s, unit) op"
  ke_NewIntFromBigInt :: "nat option \<Rightarrow> int option res"
  ke_NewCoins :: "string \<Rightarrow> int option \<Rightarrow> coin list res"
  ke_MintCoins :: "string \<Rightarrow> coin list \<Rightarrow> ('b, unit) op"
  ke_BurnCoins :: "string \<Rightarrow> coin list \<Rightarrow> ('b, unit) op"
  ke_SendCoinsFromModuleToAccount :: "string \<Rightarrow> bytes \<Rightarrow> coin list \<Rightarrow> ('b, unit) op"
  ke_SendCoinsFromAccountToModule :: "bytes \<Rightarrow> string \<Rightarrow> coin list \<Rightarrow> ('b, unit) op"
  ke_SendCoinsFromModuleToModule :: "string \<Rightarrow> string \<Rightarrow> coin list \<Rightarrow> ('b, unit) op"
  ke_GetBalance :: "'b \<Rightarrow> bytes \<Rightarrow> string \<Rightarrow> nat"
  ke_GetModuleAddress :: "string \<Rightarrow> bytes option"
  ke_FeeCollectorName :: string
  ke_AccString :: "bytes \<Rightarrow> string"
  ke_Prefix :: string
  ke_ConvertAndEncode :: "string \<Rightarrow> bytes \<Rightarrow> string res"
  ke_authority :: bytes
  ke_hex :: hexlib
  ke_eth :: "('tx, 'blk) ethlib"
  ke_dep :: "'tx deplib"
  ke_bridge :: bridgelib

record ('s, 'b) rollup_ctx =
  rc_store :: 's
  rc_bank :: 'b
  rc_events :: "event list"

definition onKV :: "('s, 'x) op \<Rightarrow> (('s, 'b) rollup_ctx, 'x) op" where
  "onKV f c = (case f (rc_store c) of (r, s) \<Rightarrow> (r, c\<lparr>rc_store := s\<rparr>))"

definition onBank :: "('b, 'x) op \<Rightarrow> (('s, 'b) rollup_ctx, 'x) op" where
  "onBank f c = (case f (rc_bank c) of (r, b) \<Rightarrow> (r, c\<lparr>rc_bank := b\<rparr>))"

abbreviation pure :: "'x res \<Rightarrow> ('c, 'x) op" where
  "pure r \<equiv> slift (\<lambda>_. r)"

section \<open>keeper.go\<close>

definition EmitEvents :: "event list \<Rightarrow> (('s, 'b) rollup_ctx, unit) op" where
  "EmitEvents events c =
     (let moduleEvent = \<lparr>e_Type = ''message'', e_Attributes = [(''module'', ModuleName)]\<rparr> in
      (Ok (), c\<lparr>rc_events := rc_events c @ (moduleEvent # events)\<rparr>))"

text \<open>A key that is not set reads as nil, which decodes as the zero message.\<close>

definition orNil :: "bytes option \<Rightarrow> bytes" where
  "orNil v = (case v of None \<Rightarrow> [] | Some b \<Rightarrow> b)"

definition GetL1BlockInfo :: "('s, 'b, 'tx, 'blk) keeper_env \<Rightarrow> (('s, 'b) rollup_ctx, L1BlockInfo) op" where
  "GetL1BlockInfo K =
     scheck (slift (\<lambda>c. ke_Get K (rc_store c) L1BlockInfoKey)) (Errorf_w ''get l1 block info'') (\<lambda>bz.
     scheck (pure (L1BlockInfo_Unmarshal (orNil bz) zero_L1BlockInfo))
       (Errorf_w ''unmarshal l1 block info'') sret)"

definition SetL1BlockInfo ::
    "('s, 'b, 'tx, 'blk) keeper_env \<Rightarrow> L1BlockInfo \<Rightarrow> (('s, 'b) rollup_ctx, unit) op" where
  "SetL1BlockInfo K info =
     scheck (pure (L1BlockInfo_Marshal info)) (\<lambda>e. WrapError e ''marshal L1 block info'') (\<lambda>infoBytes.
     scheck (onKV (ke_Set K L1BlockInfoKey infoBytes)) (\<lambda>e. WrapError e ''set latest L1 block info'') (\<lambda>_.
     sret ()))"

definition GetParams :: "('s, 'b, 'tx, 'blk) keeper_env \<Rightarrow> (('s, 'b) rollup_ctx, Params) op" where
  "GetParams K =
     scheck (slift (\<lambda>c. ke_Get K (rc_store c) ParamsKey)) (Errorf_w ''get params'') (\<lambda>bz.
     scheck (pure (Params_Unmarshal (orNil bz) zero_Params)) (Errorf_w ''unmarshal params'') sret)"

definition SetParams ::
    "('s, 'b, 'tx, 'blk) keeper_env \<Rightarrow> Params \<Rightarrow> (('s, 'b) rollup_ctx, unit) op" where
  "SetParams K params =
     scheck (pure (Params_Marshal params)) (Errorf_w ''marshal params'') (\<lambda>paramsBz.
     scheck (onKV (ke_Set K ParamsKey paramsBz)) (Errorf_w ''set params'') (\<lambda>_.
     sret ()))"

text \<open>The address without its first two characters; a shorter one panics.\<close>

definition getERC20Denom :: "string \<Rightarrow> string res" where
  "getERC20Denom erc20Addr = (if length erc20Addr < 2 then Panic (External ''slice bounds out of range'')
     else Ok (''erc20/'' @ drop 2 erc20Addr))"

section \<open>Minting (deposits.go)\<close>

definition sendFromModule ::
    "('s, 'b, 'tx, 'blk) keeper_env \<Rightarrow> bytes \<Rightarrow> int \<Rightarrow> (('s, 'b) rollup_ctx, unit) op" where
  "sendFromModule K addr amount =
     scheck (pure (ke_NewCoins K WEI (Some amount))) pass (\<lambda>coins.
     scheck (onBank (ke_SendCoinsFromModuleToAccount K ModuleName addr coins))
       (Errorf_v ''failed to send ETH deposit coins from rollup module to user account'') sret)"

definition mintETHEvent :: "('s, 'b, 'tx, 'blk) keeper_env \<Rightarrow> string \<Rightarrow> string \<Rightarrow> int \<Rightarrow> int \<Rightarrow> event" where
  "mintETHEvent K mintAddr recipientAddr remaining transferAmount = \<lparr>
     e_Type = EventTypeMintETH,
     e_Attributes = [(AttributeKeyL1DepositTxType, L1UserDepositTxType),
       (AttributeKeyMintCosmosAddress, mintAddr),
       (AttributeKeyMint, hx_EncodeBig (ke_hex K) (nat remaining)),
       (AttributeKeyToCosmosAddress, recipientAddr),
       (AttributeKeyValue, hx_EncodeBig (ke_hex K) (nat transferAmount))]\<rparr>"

definition mintETH ::
    "('s, 'b, 'tx, 'blk) keeper_env \<Rightarrow> string \<Rightarrow> string \<Rightarrow> int option \<Rightarrow> int option \<Rightarrow>
     (('s, 'b) rollup_ctx, event) op" where
  "mintETH K mintAddr recipientAddr mintAmount transferAmount =
     scheck (pure (ke_NewCoins K WEI mintAmount)) pass (\<lambda>coins.
     scheck (onBank (ke_MintCoins K ModuleName coins))
       (Errorf_v ''failed to mint ETH deposit coins to the rollup module'') (\<lambda>_.
     case (mintAmount, transferAmount) of
       (Some m, Some t) \<Rightarrow>
         (if t > m then sfail (ErrorNew ''transfer amount is greater than mint amount'')
          else
          scheck (pure (hx_AccAddressFromBech32 (ke_hex K) recipientAddr))
            (Errorf_v ''account address from bech32'') (\<lambda>recipientSDKAddr.
          scheck (if t \<noteq> 0 then sendFromModule K recipientSDKAddr t else sret ()) pass (\<lambda>_.
          scheck (pure (hx_AccAddressFromBech32 (ke_hex K) mintAddr))
            (Errorf_v ''account address from bech32'') (\<lambda>mintSDKAddr.
          let remainingCoins = m - t in
          scheck (if remainingCoins > 0 then sendFromModule K mintSDKAddr remainingCoins else sret ())
            pass (\<lambda>_.
          sret (mintETHEvent K mintAddr recipientAddr remainingCoins t))))))
     | _ \<Rightarrow> pure (Panic (External ''nil pointer dereference''))))"

definition mintERC20 ::
    "('s, 'b, 'tx, 'blk) keeper_env \<Rightarrow> string \<Rightarrow> string \<Rightarrow> int option \<Rightarrow> (('s, 'b) rollup_ctx, event) op" where
  "mintERC20 K userAddr erc20addr amount =
     scheck (pure (getERC20Denom erc20addr)) pass (\<lambda>denom.
     scheck (pure (ke_NewCoins K denom amount)) pass (\<lambda>coins.
     scheck (onBank (ke_MintCoins K ModuleName coins))
       (Errorf_v ''failed to mint ERC-20 deposit coins to the rollup module'') (\<lambda>_.
     scheck (pure (hx_AccAddressFromBech32 (ke_hex K) userAddr))
       (Errorf_v ''account address from bech32'') (\<lambda>userSDKAddr.
     scheck (onBank (ke_SendCoinsFromModuleToAccount K ModuleName userSDKAddr coins))
       (Errorf_v ''failed to send ERC-20 deposit coins from rollup module to user account'') (\<lambda>_.
     case amount of
       None \<Rightarrow> pure (Panic (External ''nil pointer dereference''))
     | Some a \<Rightarrow> sret \<lparr>e_Type = EventTypeMintERC20,
         e_Attributes = [(AttributeKeyL1DepositTxType, L1UserDepositTxType),
           (AttributeKeyToCosmosAddress, userAddr),
           (AttributeKeyERC20Address, erc20addr),
           (AttributeKeyValue, hx_EncodeBig (ke_hex K) (nat a))]\<rparr>)))))"

text \<open>The method's inputs after its selector.\<close>

definition unpackInputsIntoInterface :: "bytes \<Rightarrow> (bytes \<Rightarrow> 'x res) \<Rightarrow> slice \<Rightarrow> 'x res" where
  "unpackInputsIntoInterface methodID unpack inputData =
     check (sliceTo 4 inputData) pass (\<lambda>functionSelector.
     if functionSelector \<noteq> methodID then Err (ErrorNew ''unexpected function selector'')
     else check (sliceFrom 4 inputData) pass (\<lambda>rest.
     check (unpack rest) (Errorf_v ''failed to unpack input data'') Ok))"

definition EncodeCosmos :: "('s, 'b, 'tx, 'blk) keeper_env \<Rightarrow> address \<Rightarrow> string res" where
  "EncodeCosmos K a = CosmosETHAddress_Encode (ke_ConvertAndEncode K) (ke_Prefix K) a"

definition processFinalizeBridgeETH ::
    "('s, 'b, 'tx, 'blk) keeper_env \<Rightarrow> RelayMessageArgs \<Rightarrow> (('s, 'b) rollup_ctx, event) op" where
  "processFinalizeBridgeETH K relayMessage =
     scheck (pure (unpackInputsIntoInterface (br_finalizeETHID (ke_bridge K)) (br_UnpackETH (ke_bridge K))
         (rm_Message relayMessage)))
       (Errorf_v ''failed to unpack relay message into finalizeBridgeETH interface'') (\<lambda>finalizeBridgeETH.
     scheck (pure (EncodeCosmos K (fe_To finalizeBridgeETH))) (Errorf_v ''evm to cosmos address'') (\<lambda>toAddr.
     scheck (pure (ke_NewIntFromBigInt K (Some (fe_Amount finalizeBridgeETH)))) pass (\<lambda>amount.
     scheck (mintETH K toAddr toAddr amount amount) (Errorf_v ''failed to mint ETH'') sret)))"

definition processFinalizeBridgeERC20 ::
    "('s, 'b, 'tx, 'blk) keeper_env \<Rightarrow> RelayMessageArgs \<Rightarrow> (('s, 'b) rollup_ctx, event) op" where
  "processFinalizeBridgeERC20 K relayMessage =
     scheck (pure (unpackInputsIntoInterface (br_finalizeERC20ID (ke_bridge K)) (br_UnpackERC20 (ke_bridge K))
         (rm_Message relayMessage)))
       (Errorf_v ''failed to unpack relay message into finalizeBridgeERC20 interface'') (\<lambda>finalizeBridgeERC20.
     scheck (pure (EncodeCosmos K (fb_To finalizeBridgeERC20))) (Errorf_v ''evm to cosmos address'') (\<lambda>toAddr.
     scheck (pure (ke_NewIntFromBigInt K (Some (fb_Amount finalizeBridgeERC20)))) pass (\<lambda>amount.
     scheck (mintERC20 K toAddr (hx_AddressHex (ke_hex K) (fb_RemoteToken finalizeBridgeERC20)) amount)
       (Errorf_v ''failed to mint ERC-20 token'') sret)))"

definition processCrossDomainMessage ::
    "('s, 'b, 'tx, 'blk) keeper_env \<Rightarrow> slice \<Rightarrow> (('s, 'b) rollup_ctx, event option) op" where
  "processCrossDomainMessage K txData =
     scheck (pure (br_L2MessengerABI (ke_bridge K))) (Errorf_v ''failed to parse CrossDomainMessenger ABI'') (\<lambda>_.
     scheck (pure (br_BridgeABI (ke_bridge K))) (Errorf_v ''failed to parse StandardBridge ABI'') (\<lambda>_.
     scheck (pure (unpackInputsIntoInterface (br_relayMessageID (ke_bridge K)) (br_UnpackRelay (ke_bridge K)) txData))
       (Errorf_v ''failed to unpack tx data into relayMessage interface'') (\<lambda>relayMessage.
     scheck (pure (sliceTo 4 (rm_Message relayMessage))) pass (\<lambda>l1StandardBridgeMethodID.
     if l1StandardBridgeMethodID = br_finalizeETHID (ke_bridge K) then
       scheck (processFinalizeBridgeETH K relayMessage)
         (Errorf_v ''failed to process finalizeBridgeETH method'') (\<lambda>e. sret (Some e))
     else if l1StandardBridgeMethodID = br_finalizeERC20ID (ke_bridge K) then
       scheck (processFinalizeBridgeERC20 K relayMessage)
         (Errorf_v ''failed to process finalizeBridgeERC20 method'') (\<lambda>e. sret (Some e))
     else sret None))))"

definition processL1UserDepositTxs ::
    "('s, 'b, 'tx, 'blk) keeper_env \<Rightarrow> MsgApplyUserDeposit \<Rightarrow> L1BlockInfo \<Rightarrow>
     (('s, 'b) rollup_ctx, event list) op" where
  "processL1UserDepositTxs K deposit l1blockInfo =
     scheck (pure (el_UnmarshalBinary (ke_eth K) (ud_Tx deposit))) (Errorf_v ''unmarshal binary deposit tx'') (\<lambda>tx.
     if dp_IsSystemTx (ke_dep K) tx then sfail (ErrorNew ''deposit tx must not be a system tx'')
     else case dp_To (ke_dep K) tx of
       None \<Rightarrow> sfail (ErrorNew ''contract creation is not supported'')
     | Some txTo \<Rightarrow>
     scheck (pure (dp_Sender (ke_dep K) (NewChainConfig (dp_ChainId (ke_dep K) tx)) (unat (l1_Number l1blockInfo))
         (l1_Time l1blockInfo) tx))
       (wrapAs ErrInvalidL1Txs ''failed to get sender address'') (\<lambda>from.
     scheck (pure (EncodeCosmos K from)) (Errorf_v ''evm to cosmos address'') (\<lambda>mintAddr.
     scheck (pure (ke_NewIntFromBigInt K (dp_Mint (ke_dep K) tx))) pass (\<lambda>mintAmount.
     scheck (pure (EncodeCosmos K txTo)) (Errorf_v ''evm to cosmos address'') (\<lambda>recipientAddr.
     scheck (pure (ke_NewIntFromBigInt K (dp_Value (ke_dep K) tx))) pass (\<lambda>transferAmount.
     scheck (mintETH K mintAddr recipientAddr mintAmount transferAmount)
       (wrapAs ErrMintETH ''failed to mint ETH for cosmosAddress'') (\<lambda>mintEvent.
     scheck (GetParams K) (wrapAs ErrParams ''failed to get params'') (\<lambda>params.
     let aliased = br_ApplyL1ToL2Alias (ke_bridge K)
           (hx_HexToAddress (ke_hex K) (unstr (p_L1CrossDomainMessenger params))) in
     case dp_Data (ke_dep K) tx of
       Some data \<Rightarrow>
         (if from = aliased then
            scheck (processCrossDomainMessage K data)
              (wrapAs ErrInvalidL1Txs ''failed to parse or execute cross domain message'') (\<lambda>ev.
            sret ([mintEvent] @ (case ev of None \<Rightarrow> [] | Some e \<Rightarrow> [e])))
          else sret [mintEvent])
     | None \<Rightarrow> sret [mintEvent]))))))))"

section \<open>Burning (withdrawals.go)\<close>

definition burnCoins ::
    "('s, 'b, 'tx, 'blk) keeper_env \<Rightarrow> bytes \<Rightarrow> coin list \<Rightarrow> string \<Rightarrow> (('s, 'b) rollup_ctx, unit) op" where
  "burnCoins K addr coins burnErr =
     scheck (onBank (ke_SendCoinsFromAccountToModule K addr ModuleName coins))
       (Errorf_v ''failed to send withdrawal coins from user account to rollup module'') (\<lambda>_.
     scheck (onBank (ke_BurnCoins K ModuleName coins)) (Errorf_v burnErr) (\<lambda>_.
     sret ()))"

definition burnETH ::
    "('s, 'b, 'tx, 'blk) keeper_env \<Rightarrow> bytes \<Rightarrow> int option \<Rightarrow> (('s, 'b) rollup_ctx, unit) op" where
  "burnETH K addr amount =
     scheck (pure (ke_NewCoins K WEI amount)) pass (\<lambda>coins.
     burnCoins K addr coins ''failed to burn withdrawal coins from rollup module'')"

definition burnERC20 ::
    "('s, 'b, 'tx, 'blk) keeper_env \<Rightarrow> bytes \<Rightarrow> string \<Rightarrow> int option \<Rightarrow> (('s, 'b) rollup_ctx, unit) op" where
  "burnERC20 K userAddr erc20addr amount =
     scheck (pure (getERC20Denom erc20addr)) pass (\<lambda>denom.
     scheck (pure (ke_NewCoins K denom amount)) pass (\<lambda>coins.
     burnCoins K userAddr coins ''failed to burn ERC-20 coins from the rollup module''))"

section \<open>The message server (msg\_server.go)\<close>

definition SetL1Attributes ::
    "('s, 'b, 'tx, 'blk) keeper_env \<Rightarrow> MsgSetL1Attributes option \<Rightarrow> (('s, 'b) rollup_ctx, unit) op" where
  "SetL1Attributes K msg = (case Option.bind msg sa_L1BlockInfo of
       None \<Rightarrow> pure (Panic (External ''nil pointer dereference''))
     | Some info \<Rightarrow> scheck (SetL1BlockInfo K info) (Errorf_v ''set l1 block info'') sret)"

definition ApplyUserDeposit ::
    "('s, 'b, 'tx, 'blk) keeper_env \<Rightarrow> MsgApplyUserDeposit \<Rightarrow> (('s, 'b) rollup_ctx, unit) op" where
  "ApplyUserDeposit K msg =
     scheck (GetL1BlockInfo K) (Errorf_v ''get l1 block info'') (\<lambda>l1blockInfo.
     scheck (processL1UserDepositTxs K msg l1blockInfo) (wrapAs ErrProcessL1UserDepositTxs ''err'') (\<lambda>mintEvents.
     EmitEvents mintEvents))"

definition withdrawalEvent :: "hexlib \<Rightarrow> string \<Rightarrow> string \<Rightarrow> string \<Rightarrow> nat \<Rightarrow> string \<Rightarrow> event" where
  "withdrawalEvent X sender target valueHex gasLimit data = \<lparr>
     e_Type = EventTypeWithdrawalInitiated,
     e_Attributes = [(AttributeKeySender, sender), (AttributeKeyL1Target, target),
       (AttributeKeyValue, valueHex), (AttributeKeyGasLimit, hx_EncodeBig X gasLimit),
       (AttributeKeyData, data)]\<rparr>"

text \<open>Reading the number of an SDK integer that holds none panics.\<close>

definition bigInt :: "int option \<Rightarrow> int res" where
  "bigInt v = (case v of None \<Rightarrow> Panic (External ''nil pointer dereference'') | Some i \<Rightarrow> Ok i)"

definition Keeper_InitiateWithdrawal ::
    "('s, 'b, 'tx, 'blk) keeper_env \<Rightarrow> MsgInitiateWithdrawal \<Rightarrow> (('s, 'b) rollup_ctx, unit) op" where
  "Keeper_InitiateWithdrawal K msg =
     scheck (pure (hx_AccAddressFromBech32 (ke_hex K) (iw_Sender msg)))
       (wrapAs ErrInvalidSender ''failed to create cosmos address for sender'') (\<lambda>cosmAddr.
     scheck (burnETH K cosmAddr (iw_Value msg)) (wrapAs ErrBurnETH ''failed to burn ETH for cosmosAddress'') (\<lambda>_.
     scheck (pure (bigInt (iw_Value msg))) pass (\<lambda>value.
     let withdrawalValueHex = hx_EncodeBig (ke_hex K) (nat value) in
     EmitEvents
       [withdrawalEvent (ke_hex K) (iw_Sender msg) (iw_Target msg) withdrawalValueHex (be_dec (iw_GasLimit msg))
          (hx_Encode (ke_hex K) (iw_Data msg)),
        \<lparr>e_Type = EventTypeBurnETH,
         e_Attributes = [(AttributeKeyL2WithdrawalTx, EventTypeWithdrawalInitiated),
           (AttributeKeyFromCosmosAddress, iw_Sender msg), (AttributeKeyValue, withdrawalValueHex)]\<rparr>])))"

definition InitiateERC20Withdrawal ::
    "('s, 'b, 'tx, 'blk) keeper_env \<Rightarrow> MsgInitiateERC20Withdrawal \<Rightarrow> (('s, 'b) rollup_ctx, unit) op" where
  "InitiateERC20Withdrawal K msg =
     (let X = ke_hex K; fail = wrapAs ErrInitiateERC20Withdrawal in
     scheck (pure (hx_AccAddressFromBech32 X (ie_Sender msg)))
       (wrapAs ErrInvalidSender ''failed to create cosmos address for sender'') (\<lambda>cosmAddr.
     scheck (burnERC20 K cosmAddr (ie_TokenAddress msg) (ie_Value msg))
       (fail ''failed to burn ERC-20 for cosmosAddress'') (\<lambda>_.
     scheck (GetParams K) (fail ''failed to get params'') (\<lambda>params.
     scheck (pure (br_BridgeABI (ke_bridge K))) (fail ''failed to parse StandardBridge ABI'') (\<lambda>_.
     scheck (pure (bigInt (ie_Value msg))) pass (\<lambda>value.
     scheck (pure (br_PackERC20 (ke_bridge K) (hx_HexToAddress X (ie_TokenAddress msg))
         (hx_HexToAddress X (ie_TokenAddress msg)) (hx_HexToAddress X (ie_Sender msg))
         (hx_HexToAddress X (ie_Target msg)) value (ie_ExtraData msg)))
       (fail ''failed to pack finalizeBridgeERC20'') (\<lambda>finalizeBridgeERC20Bz.
     scheck (pure (br_L1MessengerABI (ke_bridge K))) (fail ''failed to parse CrossDomainMessenger ABI'') (\<lambda>_.
     scheck (pure (br_PackRelay (ke_bridge K) 0 (hx_HexToAddress X (br_L2StandardBridge (ke_bridge K)))
         (hx_HexToAddress X (unstr (p_L1StandardBridge params))) 0 0 finalizeBridgeERC20Bz))
       (fail ''failed to pack relayMessage'') (\<lambda>relayMessageBz.
     EmitEvents
       [withdrawalEvent X (br_L2CrossDomainMessenger (ke_bridge K)) (unstr (p_L1CrossDomainMessenger params))
          (hx_EncodeBig X 0) (be_dec (ie_GasLimit msg)) (hx_Encode X relayMessageBz),
        \<lparr>e_Type = EventTypeBurnERC20,
         e_Attributes = [(AttributeKeyL2WithdrawalTx, EventTypeWithdrawalInitiated),
           (AttributeKeyFromCosmosAddress, ie_Sender msg), (AttributeKeyERC20Address, ie_TokenAddress msg),
           (AttributeKeyValue, hx_EncodeBig X (nat value))]\<rparr>])))))))))"

definition InitiateFeeWithdrawal ::
    "('s, 'b, 'tx, 'blk) keeper_env \<Rightarrow> MsgInitiateFeeWithdrawal \<Rightarrow> (('s, 'b) rollup_ctx, unit) op" where
  "InitiateFeeWithdrawal K msg =
     (let X = ke_hex K; fail = wrapAs ErrInitiateFeeWithdrawal in
     scheck (GetParams K) (fail ''failed to get params'') (\<lambda>params.
     case ke_GetModuleAddress K (ke_FeeCollectorName K) of
       None \<Rightarrow> sfail (WrapError ErrInitiateFeeWithdrawal ''failed to get fee collector address'')
     | Some feeCollectorAddr \<Rightarrow>
     scheck (slift (\<lambda>c. Ok (ke_GetBalance K (rc_bank c) feeCollectorAddr WEI))) pass (\<lambda>balance.
     if balance < unat (p_MinFeeWithdrawalAmount params)
     then sfail (WrapError ErrInitiateFeeWithdrawal
       ''fee collector balance is below the minimum withdrawal amount'')
     else
     scheck (pure (ke_NewCoins K WEI (Some (int balance)))) pass (\<lambda>fees.
     scheck (onBank (ke_SendCoinsFromModuleToModule K (ke_FeeCollectorName K) ModuleName fees))
       (fail ''failed to send withdrawn fees from fee collector account to rollup module'') (\<lambda>_.
     scheck (onBank (ke_BurnCoins K ModuleName fees))
       (fail ''failed to burn withdrawn fees from rollup module'') (\<lambda>_.
     let withdrawalValueHex = hx_EncodeBig X balance; sender = ke_AccString K feeCollectorAddr in
     EmitEvents
       [withdrawalEvent X sender (unstr (p_L1FeeRecipient params)) withdrawalValueHex
          (unat (p_FeeWithdrawalGasLimit params)) ''0x'',
        \<lparr>e_Type = EventTypeBurnETH,
         e_Attributes = [(AttributeKeyL2FeeWithdrawalTx, EventTypeWithdrawalInitiated),
           (AttributeKeyFromCosmosAddress, sender), (AttributeKeyValue, withdrawalValueHex)]\<rparr>]))))))"

definition UpdateParams ::
    "('s, 'b, 'tx, 'blk) keeper_env \<Rightarrow> MsgUpdateParams \<Rightarrow> (('s, 'b) rollup_ctx, unit) op" where
  "UpdateParams K msg =
     (if ke_AccString K (ke_authority K) \<noteq> up_Authority msg
      then sfail (WrapError ErrUpdateParams ''invalid authority'')
      else
      scheck (pure (Params_Validate (ke_hex K) (up_Params msg))) (wrapAs ErrUpdateParams ''validate params'') (\<lambda>_.
      scheck (SetParams K (up_Params msg)) (wrapAs ErrUpdateParams ''set params'') (\<lambda>_.
      sret ())))"

section \<open>Queries and genesis (grpc\_query.go, genesis.go)\<close>

definition Query_L1BlockInfo ::
    "('s, 'b, 'tx, 'blk) keeper_env \<Rightarrow> unit option \<Rightarrow> (('s, 'b) rollup_ctx, L1BlockInfo) op" where
  "Query_L1BlockInfo K req = (case req of
       None \<Rightarrow> sfail (External ''invalid request'')
     | Some _ \<Rightarrow> scheck (GetL1BlockInfo K) (Errorf_w ''get L1 block info'') sret)"

definition Query_Params ::
    "('s, 'b, 'tx, 'blk) keeper_env \<Rightarrow> unit option \<Rightarrow> (('s, 'b) rollup_ctx, Params) op" where
  "Query_Params K req = (case req of
       None \<Rightarrow> sfail (External ''invalid request'')
     | Some _ \<Rightarrow> scheck (GetParams K) (Errorf_w ''get params'') sret)"

text \<open>An error becomes a panic.\<close>

definition orPanic :: "string \<Rightarrow> ('c, 'x) op \<Rightarrow> ('c, 'x) op" where
  "orPanic msg m c = (case m c of (Err e, c') \<Rightarrow> (Panic (Errorf_w msg e), c') | rc \<Rightarrow> rc)"

definition InitGenesis ::
    "('s, 'b, 'tx, 'blk) keeper_env \<Rightarrow> GenesisState \<Rightarrow> (('s, 'b) rollup_ctx, unit) op" where
  "InitGenesis K state = orPanic ''failed to set params'' (SetParams K (gs_Params state))"

definition ExportGenesis ::
    "('s, 'b, 'tx, 'blk) keeper_env \<Rightarrow> (('s, 'b) rollup_ctx, GenesisState) op" where
  "ExportGenesis K =
     scheck (orPanic ''failed to get params'' (GetParams K)) pass (\<lambda>params. sret (NewGenesisState params))"

text \<open>The service router of the generated code: one handler per message.\<close>

fun handleMsg :: "('s, 'b, 'tx, 'blk) keeper_env \<Rightarrow> msg \<Rightarrow> (('s, 'b) rollup_ctx, unit) op" where
  "handleMsg K (SetL1AttributesMsg m) = SetL1Attributes K m"
| "handleMsg K (ApplyUserDepositMsg m) = ApplyUserDeposit K m"
| "handleMsg K (InitiateWithdrawalMsg m) = Keeper_InitiateWithdrawal K m"
| "handleMsg K (InitiateERC20WithdrawalMsg m) = InitiateERC20Withdrawal K m"
| "handleMsg K (InitiateFeeWithdrawalMsg m) = InitiateFeeWithdrawal K m"
| "handleMsg K (UpdateParamsMsg m) = UpdateParams K m"
| "handleMsg K (OtherMsg m) = sfail (External ''no handler'')"

end
