(* ===== verification/RollupProps.thy ===== *)
theory RollupProps
  imports RollupKeeper
begin

text \<open>
  The properties of the rollup module: deposits credit exactly what was minted on L1,
  withdrawals burn what they announce, the module account loses nothing, parameters and
  L1 info read back, and what the builder reads from a withdrawal event is what the message
  asked for.
\<close>

section \<open>What the keeper relies on\<close>

definition amountOf :: "string \<Rightarrow> coin list \<Rightarrow> nat" where
  "amountOf d cs = sum_list (map c_Amount (filter (\<lambda>c. c_Denom c = d) cs))"

text \<open>
  A view of the bank: balances and spendable balances by address and denomination, the
  addresses that may not receive coins, and the valid denominations.
\<close>

record 'b bankview =
  bv_bal :: "'b \<Rightarrow> bytes \<Rightarrow> string \<Rightarrow> nat"
  bv_spendable :: "'b \<Rightarrow> bytes \<Rightarrow> string \<Rightarrow> nat"
  bv_blocked :: "bytes \<Rightarrow> bool"
  bv_valid :: "string \<Rightarrow> bool"
  bv_rollup :: bytes

type_synonym balances = "bytes \<Rightarrow> string \<Rightarrow> nat"

definition covers :: "balances \<Rightarrow> bytes \<Rightarrow> coin list \<Rightarrow> bool" where
  "covers bal a cs \<longleftrightarrow> (\<forall>d. amountOf d cs \<le> bal a d)"

definition credit :: "bytes \<Rightarrow> coin list \<Rightarrow> balances \<Rightarrow> balances" where
  "credit a cs bal = (\<lambda>x d. if x = a then bal x d + amountOf d cs else bal x d)"

definition debit :: "bytes \<Rightarrow> coin list \<Rightarrow> balances \<Rightarrow> balances" where
  "debit a cs bal = (\<lambda>x d. if x = a then bal x d - amountOf d cs else bal x d)"

text \<open>The coin constructor: nil and negative amounts panic.\<close>

definition coins_ok :: "('s, 'b, 'tx, 'blk) keeper_env \<Rightarrow> 'b bankview \<Rightarrow> bool" where
  "coins_ok K V \<longleftrightarrow> bv_valid V WEI \<and>
     (\<forall>d a. bv_valid V d \<and> 0 \<le> a \<longrightarrow> (\<exists>cs. ke_NewCoins K d (Some a) = Ok cs)) \<and>
     (\<forall>d a cs. ke_NewCoins K d a = Ok cs \<longrightarrow>
        (\<exists>n. a = Some (int n) \<and> amountOf d cs = n \<and> (\<forall>d'. d' \<noteq> d \<longrightarrow> amountOf d' cs = 0))) \<and>
     (\<forall>d a e. ke_NewCoins K d a \<noteq> Err e)"

text \<open>A transfer from \<open>a\<close> to \<open>b\<close>: what it did when it succeeded.\<close>

definition transfers :: "'b bankview \<Rightarrow> ('b, unit) op \<Rightarrow> bytes \<Rightarrow> bytes \<Rightarrow> coin list \<Rightarrow> bool" where
  "transfers V f a b cs \<longleftrightarrow> (\<forall>s s'. f s = (Ok (), s') \<longrightarrow>
     covers (bv_bal V s) a cs \<and> bv_bal V s' = credit b cs (debit a cs (bv_bal V s)))"

definition accounts_ok :: "('s, 'b, 'tx, 'blk) keeper_env \<Rightarrow> 'b bankview \<Rightarrow> bool" where
  "accounts_ok K V \<longleftrightarrow> ke_GetModuleAddress K ModuleName = Some (bv_rollup V) \<and>
     ke_GetModuleAddress K (ke_FeeCollectorName K) \<noteq> Some (bv_rollup V) \<and>
     (\<forall>s a d. ke_GetBalance K s a d = bv_bal V s a d)"

definition mint_ok :: "('s, 'b, 'tx, 'blk) keeper_env \<Rightarrow> 'b bankview \<Rightarrow> bool" where
  "mint_ok K V \<longleftrightarrow> (\<forall>s cs. \<exists>s'. ke_MintCoins K ModuleName cs s = (Ok (), s') \<and>
     bv_bal V s' = credit (bv_rollup V) cs (bv_bal V s))"

definition burn_ok :: "('s, 'b, 'tx, 'blk) keeper_env \<Rightarrow> 'b bankview \<Rightarrow> bool" where
  "burn_ok K V \<longleftrightarrow> (\<forall>s cs s'. ke_BurnCoins K ModuleName cs s = (Ok (), s') \<longrightarrow>
        covers (bv_bal V s) (bv_rollup V) cs \<and> bv_bal V s' = debit (bv_rollup V) cs (bv_bal V s)) \<and>
     (\<forall>s cs. covers (bv_bal V s) (bv_rollup V) cs \<longrightarrow> (\<exists>s'. ke_BurnCoins K ModuleName cs s = (Ok (), s')))"

definition payout_ok :: "('s, 'b, 'tx, 'blk) keeper_env \<Rightarrow> 'b bankview \<Rightarrow> bool" where
  "payout_ok K V \<longleftrightarrow>
     (\<forall>a cs. transfers V (ke_SendCoinsFromModuleToAccount K ModuleName a cs) (bv_rollup V) a cs) \<and>
     (\<forall>s a cs. covers (bv_bal V s) (bv_rollup V) cs \<and> \<not> bv_blocked V a \<longrightarrow>
        (\<exists>s'. ke_SendCoinsFromModuleToAccount K ModuleName a cs s = (Ok (), s'))) \<and>
     (\<forall>s a cs s'. ke_SendCoinsFromModuleToAccount K ModuleName a cs s = (Ok (), s') \<longrightarrow> \<not> bv_blocked V a)"

definition payin_ok :: "('s, 'b, 'tx, 'blk) keeper_env \<Rightarrow> 'b bankview \<Rightarrow> bool" where
  "payin_ok K V \<longleftrightarrow>
     (\<forall>a cs. transfers V (ke_SendCoinsFromAccountToModule K a ModuleName cs) a (bv_rollup V) cs) \<and>
     (\<forall>s a cs. covers (bv_spendable V s) a cs \<longrightarrow>
        (\<exists>s'. ke_SendCoinsFromAccountToModule K a ModuleName cs s = (Ok (), s'))) \<and>
     (\<forall>s a cs. \<not> covers (bv_spendable V s) a cs \<longrightarrow>
        (\<exists>e. ke_SendCoinsFromAccountToModule K a ModuleName cs s = (Err e, s)))"

definition fees_ok :: "('s, 'b, 'tx, 'blk) keeper_env \<Rightarrow> 'b bankview \<Rightarrow> bool" where
  "fees_ok K V \<longleftrightarrow>
     (\<forall>n f cs. ke_GetModuleAddress K n = Some f \<longrightarrow>
        transfers V (ke_SendCoinsFromModuleToModule K n ModuleName cs) f (bv_rollup V) cs) \<and>
     (\<forall>n f s cs. ke_GetModuleAddress K n = Some f \<and> covers (bv_bal V s) f cs \<longrightarrow>
        (\<exists>s'. ke_SendCoinsFromModuleToModule K n ModuleName cs s = (Ok (), s')))"

definition bank_ok :: "('s, 'b, 'tx, 'blk) keeper_env \<Rightarrow> 'b bankview \<Rightarrow> bool" where
  "bank_ok K V \<longleftrightarrow> coins_ok K V \<and> accounts_ok K V \<and> mint_ok K V \<and> burn_ok K V \<and> payout_ok K V \<and>
     payin_ok K V \<and> fees_ok K V"

text \<open>SDK integers and addresses: integers up to 256 bits, bech32 decodes what it encoded.\<close>

definition sdk_ok :: "('s, 'b, 'tx, 'blk) keeper_env \<Rightarrow> bool" where
  "sdk_ok K \<longleftrightarrow>
     (\<forall>n < 2 ^ 256. ke_NewIntFromBigInt K (Some n) = Ok (Some (int n))) \<and>
     ke_NewIntFromBigInt K None = Ok None \<and>
     (\<forall>b. length b = 20 \<longrightarrow> (\<exists>t. ke_ConvertAndEncode K (ke_Prefix K) b = Ok t)) \<and>
     (\<forall>b t. ke_ConvertAndEncode K (ke_Prefix K) b = Ok t \<longrightarrow> hx_AccAddressFromBech32 (ke_hex K) t = Ok b)"

text \<open>The module's store returns what was last set.\<close>

definition kv_ok :: "('s, 'b, 'tx, 'blk) keeper_env \<Rightarrow> ('s \<Rightarrow> bytes \<rightharpoonup> bytes) \<Rightarrow> bool" where
  "kv_ok K view \<longleftrightarrow> (\<forall>s k. ke_Get K s k = Ok (view s k)) \<and>
     (\<forall>s k v. \<exists>s'. ke_Set K k v s = (Ok (), s') \<and> view s' = (view s)(k \<mapsto> v))"

section \<open>Lemmas\<close>

lemma bank_okD:
  assumes "bank_ok K V"
  shows bank_coins: "coins_ok K V"
    and bank_balance: "ke_GetBalance K s a d = bv_bal V s a d"
    and bank_mint: "\<exists>s'. ke_MintCoins K ModuleName cs s = (Ok (), s') \<and>
      bv_bal V s' = credit (bv_rollup V) cs (bv_bal V s)"
    and bank_burn: "ke_BurnCoins K ModuleName cs s = (Ok (), s') \<Longrightarrow>
      covers (bv_bal V s) (bv_rollup V) cs \<and> bv_bal V s' = debit (bv_rollup V) cs (bv_bal V s)"
    and bank_burn_live: "covers (bv_bal V s) (bv_rollup V) cs \<Longrightarrow> \<exists>s'. ke_BurnCoins K ModuleName cs s = (Ok (), s')"
    and bank_out: "transfers V (ke_SendCoinsFromModuleToAccount K ModuleName a cs) (bv_rollup V) a cs"
    and bank_out_live: "covers (bv_bal V s) (bv_rollup V) cs \<Longrightarrow> \<not> bv_blocked V a \<Longrightarrow>
      \<exists>s'. ke_SendCoinsFromModuleToAccount K ModuleName a cs s = (Ok (), s')"
    and bank_out_open: "ke_SendCoinsFromModuleToAccount K ModuleName a cs s = (Ok (), s') \<Longrightarrow> \<not> bv_blocked V a"
    and bank_in: "transfers V (ke_SendCoinsFromAccountToModule K a ModuleName cs) a (bv_rollup V) cs"
    and bank_in_live: "covers (bv_spendable V s) a cs \<Longrightarrow>
      \<exists>s'. ke_SendCoinsFromAccountToModule K a ModuleName cs s = (Ok (), s')"
    and bank_in_refused: "\<not> covers (bv_spendable V s) a cs \<Longrightarrow>
      \<exists>e. ke_SendCoinsFromAccountToModule K a ModuleName cs s = (Err e, s)"
    and bank_fees: "ke_GetModuleAddress K n = Some f \<Longrightarrow>
      transfers V (ke_SendCoinsFromModuleToModule K n ModuleName cs) f (bv_rollup V) cs"
    and bank_fees_live: "ke_GetModuleAddress K n = Some f \<Longrightarrow> covers (bv_bal V s) f cs \<Longrightarrow>
      \<exists>s'. ke_SendCoinsFromModuleToModule K n ModuleName cs s = (Ok (), s')"
    and bank_fee_collector: "ke_GetModuleAddress K (ke_FeeCollectorName K) = Some f \<Longrightarrow> f \<noteq> bv_rollup V"
  using assms
  by (simp_all add: bank_ok_def accounts_ok_def mint_ok_def burn_ok_def payout_ok_def payin_ok_def fees_ok_def)
     blast+

lemma coins_okD:
  assumes "coins_ok K V"
  shows coins_new: "bv_valid V d \<Longrightarrow> \<exists>cs. ke_NewCoins K d (Some (int n)) = Ok cs \<and> amountOf d cs = n \<and>
      (\<forall>d'. d' \<noteq> d \<longrightarrow> amountOf d' cs = 0)"
    and coins_amount: "ke_NewCoins K d a = Ok cs \<Longrightarrow> \<exists>n. a = Some (int n) \<and> amountOf d cs = n \<and>
      (\<forall>d'. d' \<noteq> d \<longrightarrow> amountOf d' cs = 0)"
    and coins_nil: "\<exists>p. ke_NewCoins K d None = Panic p"
    and coins_wei: "bv_valid V WEI"
proof -
  show "\<exists>cs. ke_NewCoins K d (Some (int n)) = Ok cs \<and> amountOf d cs = n \<and> (\<forall>d'. d' \<noteq> d \<longrightarrow> amountOf d' cs = 0)"
    if "bv_valid V d"
    using assms that unfolding coins_ok_def by (metis of_nat_0_le_iff of_nat_eq_iff option.inject)
  show "\<exists>p. ke_NewCoins K d None = Panic p"
    using assms unfolding coins_ok_def by (cases "ke_NewCoins K d None") (simp, metis option.distinct(1), simp, simp)
qed (use assms in \<open>auto simp: coins_ok_def\<close>)

lemma onBank_eq [simp]: "onBank f c = (fst (f (rc_bank c)), c\<lparr>rc_bank := snd (f (rc_bank c))\<rparr>)"
  by (simp add: onBank_def split: prod.splits)

lemma onKV_eq [simp]: "onKV f c = (fst (f (rc_store c)), c\<lparr>rc_store := snd (f (rc_store c))\<rparr>)"
  by (simp add: onKV_def split: prod.splits)

text \<open>One wei more for an account.\<close>

definition addWei :: "bytes \<Rightarrow> nat \<Rightarrow> balances \<Rightarrow> balances" where
  "addWei a n bal = (\<lambda>x d. if x = a \<and> d = WEI then bal x d + n else bal x d)"

lemma sendFromModule_ok:
  assumes ok: "bank_ok K V" and n: "n \<le> bv_bal V (rc_bank c) (bv_rollup V) WEI" and open_acc: "\<not> bv_blocked V a"
  shows "\<exists>b. sendFromModule K a (int n) c = (Ok (), c\<lparr>rc_bank := b\<rparr>) \<and>
    bv_bal V b = addWei a n (\<lambda>x d. if x = bv_rollup V \<and> d = WEI then bv_bal V (rc_bank c) x d - n else bv_bal V (rc_bank c) x d)"
proof -
  obtain cs where cs: "ke_NewCoins K WEI (Some (int n)) = Ok cs" "amountOf WEI cs = n" "\<forall>d'. d' \<noteq> WEI \<longrightarrow> amountOf d' cs = 0"
    using coins_new [OF bank_coins [OF ok] coins_wei [OF bank_coins [OF ok]]] by blast
  have "covers (bv_bal V (rc_bank c)) (bv_rollup V) cs"
    unfolding covers_def
  proof
    show "amountOf d cs \<le> bv_bal V (rc_bank c) (bv_rollup V) d" for d by (cases "d = WEI") (use cs n in auto)
  qed
  from bank_out_live [OF ok this open_acc] obtain b where b: "ke_SendCoinsFromModuleToAccount K ModuleName a cs (rc_bank c) = (Ok (), b)"
    by blast
  have "bv_bal V b = credit a cs (debit (bv_rollup V) cs (bv_bal V (rc_bank c)))"
    using bank_out [OF ok, of a cs] b unfolding transfers_def by blast
  also have "\<dots> = addWei a n (\<lambda>x d. if x = bv_rollup V \<and> d = WEI then bv_bal V (rc_bank c) x d - n else bv_bal V (rc_bank c) x d)"
  proof (intro ext)
    show "credit a cs (debit (bv_rollup V) cs (bv_bal V (rc_bank c))) x d = addWei a n (\<lambda>x d. if x = bv_rollup V \<and> d = WEI
        then bv_bal V (rc_bank c) x d - n else bv_bal V (rc_bank c) x d) x d" for x d
      by (cases "d = WEI") (use cs in \<open>auto simp: credit_def debit_def addWei_def\<close>)
  qed
  finally show ?thesis using b cs(1) by (intro exI [of _ b]) (simp add: sendFromModule_def)
qed

text \<open>Taking wei out of the module account that has it.\<close>

definition takeWei :: "bytes \<Rightarrow> nat \<Rightarrow> balances \<Rightarrow> balances" where
  "takeWei a n bal = (\<lambda>x d. if x = a \<and> d = WEI then bal x d - n else bal x d)"

lemma payOut:
  assumes ok: "bank_ok K V" and n: "n \<le> bv_bal V (rc_bank c) (bv_rollup V) WEI" and a: "\<not> bv_blocked V a"
  shows "\<exists>b. (if int n \<noteq> 0 then sendFromModule K a (int n) else sret ()) c = (Ok (), c\<lparr>rc_bank := b\<rparr>) \<and>
    bv_bal V b = addWei a n (takeWei (bv_rollup V) n (bv_bal V (rc_bank c)))"
proof (cases "n = 0")
  case True
  then show ?thesis by (intro exI [of _ "rc_bank c"]) (simp add: addWei_def takeWei_def fun_eq_iff)
next
  case False
  then show ?thesis using sendFromModule_ok [OF assms] by (simp add: takeWei_def)
qed

lemma mint_wei:
  assumes ok: "bank_ok K V"
  shows "\<exists>cs b. ke_NewCoins K WEI (Some (int n)) = Ok cs \<and> ke_MintCoins K ModuleName cs s = (Ok (), b) \<and>
    bv_bal V b = addWei (bv_rollup V) n (bv_bal V s)"
proof -
  obtain cs where cs: "ke_NewCoins K WEI (Some (int n)) = Ok cs" "amountOf WEI cs = n" "\<forall>d'. d' \<noteq> WEI \<longrightarrow> amountOf d' cs = 0"
    using coins_new [OF bank_coins [OF ok] coins_wei [OF bank_coins [OF ok]]] by blast
  obtain b where b: "ke_MintCoins K ModuleName cs s = (Ok (), b)" "bv_bal V b = credit (bv_rollup V) cs (bv_bal V s)"
    using bank_mint [OF ok] by blast
  have "credit (bv_rollup V) cs (bv_bal V s) = addWei (bv_rollup V) n (bv_bal V s)"
    using cs(2,3) by (auto simp: credit_def addWei_def fun_eq_iff)
  then show ?thesis using cs(1) b by simp
qed

lemma mintETH_ok:
  assumes ok: "bank_ok K V" and t: "t \<le> m"
    and rec: "hx_AccAddressFromBech32 (ke_hex K) recStr = Ok rec" "\<not> bv_blocked V rec"
    and ma: "hx_AccAddressFromBech32 (ke_hex K) mintStr = Ok ma" "\<not> bv_blocked V ma"
  shows "\<exists>b. mintETH K mintStr recStr (Some (int m)) (Some (int t)) c =
      (Ok (mintETHEvent K mintStr recStr (int m - int t) (int t)), c\<lparr>rc_bank := b\<rparr>) \<and>
    bv_bal V b = addWei ma (m - t) (addWei rec t (bv_bal V (rc_bank c)))"
proof -
  let ?r = "bv_rollup V"
  obtain cs b1 where b1: "ke_NewCoins K WEI (Some (int m)) = Ok cs" "ke_MintCoins K ModuleName cs (rc_bank c) = (Ok (), b1)"
    "bv_bal V b1 = addWei ?r m (bv_bal V (rc_bank c))" using mint_wei [OF ok] by blast
  have enough1: "t \<le> bv_bal V b1 ?r WEI" using b1(3) t by (simp add: addWei_def)
  obtain b2 where b2: "(if int t \<noteq> 0 then sendFromModule K rec (int t) else sret ()) (c\<lparr>rc_bank := b1\<rparr>) =
      (Ok (), c\<lparr>rc_bank := b2\<rparr>)" "bv_bal V b2 = addWei rec t (takeWei ?r t (bv_bal V b1))"
    using payOut [OF ok _ rec(2), of t "c\<lparr>rc_bank := b1\<rparr>"] enough1 by auto
  have enough2: "m - t \<le> bv_bal V b2 ?r WEI" using b1(3) b2(2) t by (auto simp: addWei_def takeWei_def)
  obtain b3 where b3: "(if int (m - t) \<noteq> 0 then sendFromModule K ma (int (m - t)) else sret ()) (c\<lparr>rc_bank := b2\<rparr>) =
      (Ok (), c\<lparr>rc_bank := b3\<rparr>)" "bv_bal V b3 = addWei ma (m - t) (takeWei ?r (m - t) (bv_bal V b2))"
    using payOut [OF ok _ ma(2), of "m - t" "c\<lparr>rc_bank := b2\<rparr>"] enough2 by auto
  have d: "int m - int t = int (m - t)" "(int (m - t) > 0) = (int (m - t) \<noteq> 0)" using t by auto
  have rest: "(if int m - int t > 0 then sendFromModule K ma (int m - int t) else sret ()) (c\<lparr>rc_bank := b2\<rparr>) =
      (Ok (), c\<lparr>rc_bank := b3\<rparr>)" unfolding d by (rule b3(1))
  have "mintETH K mintStr recStr (Some (int m)) (Some (int t)) c =
      (Ok (mintETHEvent K mintStr recStr (int m - int t) (int t)), c\<lparr>rc_bank := b3\<rparr>)"
    using b1 b2(1) rest rec(1) ma(1) t by (simp add: mintETH_def Let_def scheck_def)
  moreover have "bv_bal V b3 = addWei ma (m - t) (addWei rec t (bv_bal V (rc_bank c)))"
    unfolding b3(2) b2(2) b1(3) using t by (intro ext) (auto simp: addWei_def takeWei_def)
  ultimately show ?thesis by blast
qed

text \<open>Reading the store does not change it and depends on nothing else.\<close>

lemma GetParams_store:
  assumes "GetParams K c = (r, c1)"
  shows "c1 = c" and "GetParams K (c\<lparr>rc_bank := b\<rparr>) = (r, c\<lparr>rc_bank := b\<rparr>)"
  using assms by (auto simp: GetParams_def scheck_def split: prod.splits res.splits)

lemma GetL1BlockInfo_store:
  assumes "GetL1BlockInfo K c = (r, c1)"
  shows "c1 = c"
  using assms by (auto simp: GetL1BlockInfo_def scheck_def split: prod.splits res.splits)

lemma encode_address:
  assumes "sdk_ok K"
  shows "\<exists>t. EncodeCosmos K a = Ok t \<and> hx_AccAddressFromBech32 (ke_hex K) t = Ok (address_Bytes a)"
proof -
  have "length (address_Bytes a) = 20" by simp
  then show ?thesis using assms unfolding sdk_ok_def EncodeCosmos_def CosmosETHAddress_Encode_def by blast
qed

section \<open>Deposits\<close>

text \<open>
  A user deposit credits exactly what was minted on L1. For a deposit transaction that is
  not from the cross-domain messenger, with a mint of \<open>m\<close> wei and a value of at most \<open>m\<close>, the
  handler succeeds; the recipient has the value more, the sender the rest of the mint, no
  other account and no other denomination changes, and one mint event is emitted.
\<close>

theorem deposit_credits_the_mint:
  fixes c :: "('s, 'b) rollup_ctx"
  assumes ok: "bank_ok K V" and sdk: "sdk_ok K"
    and tx: "el_UnmarshalBinary (ke_eth K) (ud_Tx msg) = Ok tx" "\<not> dp_IsSystemTx (ke_dep K) tx"
      "dp_To (ke_dep K) tx = Some txTo" "dp_Mint (ke_dep K) tx = Some m" "dp_Value (ke_dep K) tx = Some v"
    and v: "v \<le> m" "m < 2 ^ 256"
    and info: "GetL1BlockInfo K c = (Ok info, c)"
    and sndr: "dp_Sender (ke_dep K) (NewChainConfig (dp_ChainId (ke_dep K) tx)) (unat (l1_Number info)) (l1_Time info) tx = Ok from"
    and open_acc: "\<not> bv_blocked V (address_Bytes txTo)" "\<not> bv_blocked V (address_Bytes from)"
    and params: "GetParams K c = (Ok params, c)"
    and user: "from \<noteq> br_ApplyL1ToL2Alias (ke_bridge K) (hx_HexToAddress (ke_hex K) (unstr (p_L1CrossDomainMessenger params)))"
  shows "\<exists>c' toStr fromStr. ApplyUserDeposit K msg c = (Ok (), c') \<and> rc_store c' = rc_store c \<and>
    bv_bal V (rc_bank c') = addWei (address_Bytes from) (m - v) (addWei (address_Bytes txTo) v (bv_bal V (rc_bank c))) \<and>
    EncodeCosmos K txTo = Ok toStr \<and> EncodeCosmos K from = Ok fromStr \<and>
    rc_events c' = rc_events c @ [\<lparr>e_Type = ''message'', e_Attributes = [(''module'', ModuleName)]\<rparr>,
      mintETHEvent K fromStr toStr (int m - int v) (int v)]"
proof -
  obtain toStr where to: "EncodeCosmos K txTo = Ok toStr" "hx_AccAddressFromBech32 (ke_hex K) toStr = Ok (address_Bytes txTo)"
    using encode_address [OF sdk] by blast
  obtain fromStr where fr: "EncodeCosmos K from = Ok fromStr" "hx_AccAddressFromBech32 (ke_hex K) fromStr = Ok (address_Bytes from)"
    using encode_address [OF sdk] by blast
  have ints: "ke_NewIntFromBigInt K (Some m) = Ok (Some (int m))" "ke_NewIntFromBigInt K (Some v) = Ok (Some (int v))"
    using sdk v by (simp_all add: sdk_ok_def)
  obtain b where b: "mintETH K fromStr toStr (Some (int m)) (Some (int v)) c =
      (Ok (mintETHEvent K fromStr toStr (int m - int v) (int v)), c\<lparr>rc_bank := b\<rparr>)"
    "bv_bal V b = addWei (address_Bytes from) (m - v) (addWei (address_Bytes txTo) v (bv_bal V (rc_bank c)))"
    using mintETH_ok [OF ok v(1) to(2) open_acc(1) fr(2) open_acc(2)] by blast
  have "processL1UserDepositTxs K msg info c = (Ok [mintETHEvent K fromStr toStr (int m - int v) (int v)], c\<lparr>rc_bank := b\<rparr>)"
    using tx sndr fr(1) to(1) ints b(1) GetParams_store(2) [OF params] user
    by (cases "dp_Data (ke_dep K) tx") (simp_all add: processL1UserDepositTxs_def scheck_def Let_def)
  then show ?thesis using info b(2) to(1) fr(1)
    by (simp add: ApplyUserDeposit_def scheck_def EmitEvents_def Let_def)
qed

text \<open>
  Where the application lets the module's own account receive coins, a deposit to its address
  succeeds like any other and what it transfers stays there.
\<close>

corollary deposit_to_the_module_account_stays:
  fixes c :: "('s, 'b) rollup_ctx"
  assumes ok: "bank_ok K V" and sdk: "sdk_ok K"
    and tx: "el_UnmarshalBinary (ke_eth K) (ud_Tx msg) = Ok tx" "\<not> dp_IsSystemTx (ke_dep K) tx"
      "dp_To (ke_dep K) tx = Some txTo" "dp_Mint (ke_dep K) tx = Some m" "dp_Value (ke_dep K) tx = Some v"
    and v: "v \<le> m" "m < 2 ^ 256"
    and info: "GetL1BlockInfo K c = (Ok info, c)"
    and sndr: "dp_Sender (ke_dep K) (NewChainConfig (dp_ChainId (ke_dep K) tx)) (unat (l1_Number info)) (l1_Time info) tx = Ok from"
    and open_acc: "\<not> bv_blocked V (address_Bytes txTo)" "\<not> bv_blocked V (address_Bytes from)"
    and params: "GetParams K c = (Ok params, c)"
    and user: "from \<noteq> br_ApplyL1ToL2Alias (ke_bridge K) (hx_HexToAddress (ke_hex K) (unstr (p_L1CrossDomainMessenger params)))"
    and module: "address_Bytes txTo = bv_rollup V" "address_Bytes from \<noteq> bv_rollup V"
  shows "\<exists>c'. ApplyUserDeposit K msg c = (Ok (), c') \<and>
    bv_bal V (rc_bank c') (bv_rollup V) WEI = bv_bal V (rc_bank c) (bv_rollup V) WEI + v"
  using deposit_credits_the_mint [OF ok sdk tx v info sndr open_acc params user] module by (auto simp: addWei_def)

text \<open>
  A deposit whose transaction mints nothing (a nil mint) panics instead of transferring,
  although its value may be covered by what the sender holds.
\<close>

theorem deposit_without_mint_panics:
  fixes c :: "('s, 'b) rollup_ctx"
  assumes ok: "bank_ok K V" and sdk: "sdk_ok K"
    and tx: "el_UnmarshalBinary (ke_eth K) (ud_Tx msg) = Ok tx" "\<not> dp_IsSystemTx (ke_dep K) tx"
      "dp_To (ke_dep K) tx = Some txTo" "dp_Mint (ke_dep K) tx = None" "dp_Value (ke_dep K) tx = Some v" "v < 2 ^ 256"
    and info: "GetL1BlockInfo K c = (Ok info, c)"
    and sndr: "dp_Sender (ke_dep K) (NewChainConfig (dp_ChainId (ke_dep K) tx)) (unat (l1_Number info)) (l1_Time info) tx = Ok from"
  shows "\<exists>p. ApplyUserDeposit K msg c = (Panic p, c)"
proof -
  obtain toStr fromStr where s: "EncodeCosmos K txTo = Ok toStr" "EncodeCosmos K from = Ok fromStr"
    using encode_address [OF sdk] by blast
  have ints: "ke_NewIntFromBigInt K None = Ok None" "ke_NewIntFromBigInt K (Some v) = Ok (Some (int v))"
    using sdk tx(6) by (simp_all add: sdk_ok_def)
  obtain p where "ke_NewCoins K WEI None = Panic p" using coins_nil [OF bank_coins [OF ok]] by blast
  then have "mintETH K fromStr toStr None (Some (int v)) c = (Panic p, c)" by (simp add: mintETH_def)
  then show ?thesis using tx sndr s ints info
    by (simp add: ApplyUserDeposit_def processL1UserDepositTxs_def scheck_def)
qed

section \<open>Withdrawals\<close>

lemma burnCoins_ok:
  assumes ok: "bank_ok K V" and cov: "covers (bv_spendable V (rc_bank c)) a cs"
  shows "\<exists>b. burnCoins K a cs e c = (Ok (), c\<lparr>rc_bank := b\<rparr>) \<and> bv_bal V b = debit a cs (bv_bal V (rc_bank c))"
proof -
  obtain b1 where b1: "ke_SendCoinsFromAccountToModule K a ModuleName cs (rc_bank c) = (Ok (), b1)"
    using bank_in_live [OF ok cov] by blast
  then have bal1: "covers (bv_bal V (rc_bank c)) a cs" "bv_bal V b1 = credit (bv_rollup V) cs (debit a cs (bv_bal V (rc_bank c)))"
    using bank_in [OF ok, of a cs] unfolding transfers_def by blast+
  then have "covers (bv_bal V b1) (bv_rollup V) cs" by (simp add: covers_def credit_def)
  from bank_burn_live [OF ok this] obtain b2 where b2: "ke_BurnCoins K ModuleName cs b1 = (Ok (), b2)" by blast
  then have "bv_bal V b2 = debit (bv_rollup V) cs (bv_bal V b1)" using bank_burn [OF ok] by blast
  also have "\<dots> = debit a cs (bv_bal V (rc_bank c))"
    unfolding bal1(2) by (intro ext) (auto simp: credit_def debit_def)
  finally show ?thesis using b1 b2 by (intro exI [of _ b2]) (simp add: burnCoins_def)
qed

lemma burnCoins_refused:
  assumes ok: "bank_ok K V" and cov: "\<not> covers (bv_spendable V (rc_bank c)) a cs"
  shows "\<exists>x. burnCoins K a cs e c = (Err x, c)"
  using bank_in_refused [OF ok cov] by (auto simp: burnCoins_def)

lemma wei_covers:
  assumes "amountOf WEI cs = n" and "\<forall>d'. d' \<noteq> WEI \<longrightarrow> amountOf d' cs = 0"
  shows "covers bal a cs \<longleftrightarrow> n \<le> bal a WEI" and "debit a cs bal = takeWei a n bal"
proof -
  have "amountOf d cs = (if d = WEI then n else 0)" for d using assms by simp
  then show "covers bal a cs \<longleftrightarrow> n \<le> bal a WEI" and "debit a cs bal = takeWei a n bal"
    by (auto simp: covers_def debit_def takeWei_def fun_eq_iff)
qed

lemma burnETH_ok:
  assumes ok: "bank_ok K V" and n: "n \<le> bv_spendable V (rc_bank c) a WEI"
  shows "\<exists>b. burnETH K a (Some (int n)) c = (Ok (), c\<lparr>rc_bank := b\<rparr>) \<and> bv_bal V b = takeWei a n (bv_bal V (rc_bank c))"
proof -
  obtain cs where cs: "ke_NewCoins K WEI (Some (int n)) = Ok cs" "amountOf WEI cs = n" "\<forall>d'. d' \<noteq> WEI \<longrightarrow> amountOf d' cs = 0"
    using coins_new [OF bank_coins [OF ok] coins_wei [OF bank_coins [OF ok]]] by blast
  note w = wei_covers [OF cs(2,3)]
  show ?thesis using burnCoins_ok [OF ok, of c a cs] n cs(1) by (simp add: burnETH_def w)
qed

lemma burnETH_refused:
  assumes ok: "bank_ok K V" and n: "bv_spendable V (rc_bank c) a WEI < n"
  shows "\<exists>x. burnETH K a (Some (int n)) c = (Err x, c)"
proof -
  obtain cs where cs: "ke_NewCoins K WEI (Some (int n)) = Ok cs" "amountOf WEI cs = n" "\<forall>d'. d' \<noteq> WEI \<longrightarrow> amountOf d' cs = 0"
    using coins_new [OF bank_coins [OF ok] coins_wei [OF bank_coins [OF ok]]] by blast
  show ?thesis using burnCoins_refused [OF ok, of c a cs] n cs(1) by (simp add: burnETH_def wei_covers [OF cs(2,3)])
qed

text \<open>What the builder reads back from a withdrawal event.\<close>

lemma parse_withdrawalEvent:
  assumes "hx_DecodeBig X valueHex = Ok v" and "hx_DecodeBig X (hx_EncodeBig X g) = Ok g'" and "hx_Decode X data = Ok bs"
  shows "hx_AccAddressFromBech32 X sender = Ok a \<Longrightarrow> \<not> hx_IsHexAddress X sender \<Longrightarrow>
      parseWithdrawalEventAttributes X (withdrawalEvent X sender target valueHex g data) =
      Ok \<lparr>wd_Sender = Some (hx_BytesToAddress X a), wd_Target = Some (hx_HexToAddress X target), wd_Value = Some v,
        wd_GasLimit = Some g', wd_Data = bs\<rparr>"
    and "hx_IsHexAddress X sender \<Longrightarrow>
      parseWithdrawalEventAttributes X (withdrawalEvent X sender target valueHex g data) =
      Ok \<lparr>wd_Sender = Some (hx_HexToAddress X sender), wd_Target = Some (hx_HexToAddress X target), wd_Value = Some v,
        wd_GasLimit = Some g', wd_Data = bs\<rparr>"
  using assms
  by (simp_all add: parseWithdrawalEventAttributes_def withdrawalEvent_def parseAttribute_def attribute_defs empty_withdrawal_def)

definition moduleEvent :: event where
  "moduleEvent = \<lparr>e_Type = ''message'', e_Attributes = [(''module'', ModuleName)]\<rparr>"

lemma EmitEvents_eq [simp]: "EmitEvents es c = (Ok (), c\<lparr>rc_events := rc_events c @ moduleEvent # es\<rparr>)"
  by (simp add: EmitEvents_def moduleEvent_def Let_def)

lemma find_emitted: "findWithdrawalEvent i (moduleEvent # withdrawalEvent X s t v g d # es) = Some (Suc i)"
  by (simp add: moduleEvent_def withdrawalEvent_def EventTypeWithdrawalInitiated_def)

text \<open>
  An ETH withdrawal burns what it announces, and the builder reads back what the message
  asked for. A withdrawal the sender can afford succeeds; exactly its value leaves the
  sender's balance and the supply; and from the events it emits the builder finds, in the
  withdrawal event, the sender's address and the message's target, value, gas limit and data.
\<close>

theorem withdrawal_burns_and_announces:
  fixes c :: "('s, 'b) rollup_ctx"
  assumes ok: "bank_ok K V" and hex: "hexlib_ok (ke_hex K)"
    and a: "hx_AccAddressFromBech32 (ke_hex K) (iw_Sender msg) = Ok a" "\<not> hx_IsHexAddress (ke_hex K) (iw_Sender msg)"
    and v: "iw_Value msg = Some (int v)" "v < 2 ^ 256" "v \<le> bv_spendable V (rc_bank c) a WEI"
    and g: "be_dec (iw_GasLimit msg) < 2 ^ 256"
  shows "\<exists>c' es. Keeper_InitiateWithdrawal K msg c = (Ok (), c') \<and> rc_store c' = rc_store c \<and>
    bv_bal V (rc_bank c') = takeWei a v (bv_bal V (rc_bank c)) \<and> rc_events c' = rc_events c @ es \<and>
    findWithdrawalEvent 0 es = Some 1 \<and> parseWithdrawalEventAttributes (ke_hex K) (es ! 1) =
      Ok \<lparr>wd_Sender = Some (hx_BytesToAddress (ke_hex K) a), wd_Target = Some (hx_HexToAddress (ke_hex K) (iw_Target msg)),
        wd_Value = Some v, wd_GasLimit = Some (be_dec (iw_GasLimit msg)), wd_Data = iw_Data msg\<rparr>"
proof -
  let ?X = "ke_hex K"
  obtain b where b: "burnETH K a (Some (int v)) c = (Ok (), c\<lparr>rc_bank := b\<rparr>)" "bv_bal V b = takeWei a v (bv_bal V (rc_bank c))"
    using burnETH_ok [OF ok v(3)] by blast
  have dec: "hx_DecodeBig ?X (hx_EncodeBig ?X v) = Ok v"
    "hx_DecodeBig ?X (hx_EncodeBig ?X (be_dec (iw_GasLimit msg))) = Ok (be_dec (iw_GasLimit msg))"
    "hx_Decode ?X (hx_Encode ?X (iw_Data msg)) = Ok (iw_Data msg)"
    using hex v(2) g by (simp_all add: hexlib_ok_def)
  show ?thesis
    using a(1) v(1) b find_emitted [of 0] parse_withdrawalEvent(1) [OF dec a]
    by (auto simp: Keeper_InitiateWithdrawal_def scheck_def bigInt_def Let_def)
qed

text \<open>A withdrawal of more than the sender can spend is refused as a burn error and changes nothing.\<close>

theorem unaffordable_withdrawal_is_refused:
  fixes c :: "('s, 'b) rollup_ctx"
  assumes ok: "bank_ok K V" and a: "hx_AccAddressFromBech32 (ke_hex K) (iw_Sender msg) = Ok a"
    and v: "iw_Value msg = Some (int v)" "bv_spendable V (rc_bank c) a WEI < v"
  shows "\<exists>e. Keeper_InitiateWithdrawal K msg c = (Err e, c) \<and> errors_Is e ErrBurnETH"
  using burnETH_refused [OF ok v(2)] a v(1)
  by (auto simp: Keeper_InitiateWithdrawal_def wrapAs_def WrapError_def ErrBurnETH_def registeredErrors_def)

text \<open>
  C28: the gas limit of a withdrawal is bounded only modulo \<open>2 ^ 64\<close>. A message whose gas limit
  does not fit in 256 bits but whose low 64 bits are in range passes validation, the
  keeper burns the coins and emits its events, and the builder then fails on the
  transaction: it cannot decode the event's gas limit.
\<close>

theorem oversized_gas_limit_stops_the_builder:
  fixes c :: "('s, 'b) rollup_ctx"
  assumes ok: "bank_ok K V" and hex: "hexlib_ok (ke_hex K)"
    and a: "hx_AccAddressFromBech32 (ke_hex K) (iw_Sender msg) = Ok a" "\<not> hx_IsHexAddress (ke_hex K) (iw_Sender msg)"
    and v: "iw_Value msg = Some (int v)" "v < 2 ^ 256" "v \<le> bv_spendable V (rc_bank c) a WEI"
    and t: "hx_IsHexAddress (ke_hex K) (iw_Target msg)"
    and g: "2 ^ 256 \<le> be_dec (iw_GasLimit msg)" "21000 \<le> be_dec (iw_GasLimit msg) mod 2 ^ 64"
      "be_dec (iw_GasLimit msg) mod 2 ^ 64 < 2 ^ 63"
    and m: "ty \<in> set withdrawalMsgTypes" "hx_TxMessageTypes (ke_hex K) tx = Ok [ty]"
    and evm: "NewEVM L h = Ok ev" "NewL2ToL1MessagePasserExecuter E ev = Ok ex" "GetMessageNonce E ex s = (Ok n, s1)"
  shows "MsgInitiateWithdrawal_ValidateBasic (ke_hex K) msg = Ok () \<and>
    (\<exists>c' es. Keeper_InitiateWithdrawal K msg c = (Ok (), c') \<and> rc_events c' = rc_events c @ es \<and>
      bv_bal V (rc_bank c') = takeWei a v (bv_bal V (rc_bank c)) \<and>
      (\<forall>r. IsOK r \<and> x_Events r = es \<longrightarrow> (\<exists>e. parseWithdrawalMessages L E (ke_hex K) h tx r s = (Err e, s1))))"
proof -
  let ?X = "ke_hex K" and ?g = "be_dec (iw_GasLimit msg)"
  obtain b where b: "burnETH K a (Some (int v)) c = (Ok (), c\<lparr>rc_bank := b\<rparr>)" "bv_bal V b = takeWei a v (bv_bal V (rc_bank c))"
    using burnETH_ok [OF ok v(3)] by blast
  obtain e where e: "hx_DecodeBig ?X (hx_EncodeBig ?X ?g) = Err e" using hex g(1) unfolding hexlib_ok_def by blast
  have dec: "hx_DecodeBig ?X (hx_EncodeBig ?X v) = Ok v" using hex v(2) by (simp add: hexlib_ok_def)
  let ?w = "withdrawalEvent ?X (iw_Sender msg) (iw_Target msg) (hx_EncodeBig ?X v) ?g (hx_Encode ?X (iw_Data msg))"
  have p: "\<exists>e. parseWithdrawalEventAttributes ?X ?w = Err e"
    using a dec e by (simp add: parseWithdrawalEventAttributes_def withdrawalEvent_def parseAttribute_def attribute_defs)
  have stop: "\<exists>e. parseWithdrawalMessages L E ?X h tx r s = (Err e, s1)" if r: "IsOK r" "x_Events r = moduleEvent # ?w # es" for r es
    using m evm r find_emitted [of 0 ?X "iw_Sender msg"] p
    by (auto simp: parseWithdrawalMessages_def storeWithdrawalMsgInEVM_def scheck_def)
  have "MsgInitiateWithdrawal_ValidateBasic ?X msg = Ok ()"
    using t g checkGasLimit_iff [of "iw_GasLimit msg"] by (simp add: MsgInitiateWithdrawal_ValidateBasic_def)
  then show ?thesis
    using a(1) v(1) b stop by (auto simp: Keeper_InitiateWithdrawal_def scheck_def bigInt_def Let_def)
qed

section \<open>The module account\<close>

text \<open>What the rollup module's account holds after an operation that succeeded.\<close>

abbreviation held :: "'b bankview \<Rightarrow> ('s, 'b) rollup_ctx \<Rightarrow> string \<Rightarrow> nat" where
  "held V c \<equiv> bv_bal V (rc_bank c) (bv_rollup V)"

text \<open>The account loses nothing, and gains nothing when the bank does not let it receive coins.\<close>

definition passes_through :: "'b bankview \<Rightarrow> ('s, 'b) rollup_ctx \<Rightarrow> ('s, 'b) rollup_ctx \<Rightarrow> bool" where
  "passes_through V c c' \<longleftrightarrow>
     (\<forall>d. held V c d \<le> held V c' d \<and> (bv_blocked V (bv_rollup V) \<longrightarrow> held V c' d = held V c d))"

lemma passes_throughD: "passes_through V c c' \<Longrightarrow> held V c d \<le> held V c' d"
    "passes_through V c c' \<Longrightarrow> bv_blocked V (bv_rollup V) \<Longrightarrow> held V c' d = held V c d"
  and passes_through_trans: "passes_through V c c1 \<Longrightarrow> passes_through V c1 c' \<Longrightarrow> passes_through V c c'"
  by (auto simp: passes_through_def intro: le_trans)

lemma mint_held:
  assumes ok: "bank_ok K V" and run: "onBank (ke_MintCoins K ModuleName cs) c = (Ok (), c')"
  shows "held V c' d = held V c d + amountOf d cs"
proof -
  obtain b where "ke_MintCoins K ModuleName cs (rc_bank c) = (Ok (), b)" "bv_bal V b = credit (bv_rollup V) cs (bv_bal V (rc_bank c))"
    using bank_mint [OF ok] by blast
  then show ?thesis using run by (auto simp: credit_def)
qed

lemma payout_held:
  assumes ok: "bank_ok K V" and run: "onBank (ke_SendCoinsFromModuleToAccount K ModuleName a cs) c = (Ok (), c')"
  shows "held V c d \<le> held V c' d + amountOf d cs"
    and "bv_blocked V (bv_rollup V) \<Longrightarrow> held V c' d + amountOf d cs = held V c d"
proof -
  obtain b where b: "ke_SendCoinsFromModuleToAccount K ModuleName a cs (rc_bank c) = (Ok (), b)" "rc_bank c' = b"
    using run by (cases "ke_SendCoinsFromModuleToAccount K ModuleName a cs (rc_bank c)") auto
  have t: "covers (bv_bal V (rc_bank c)) (bv_rollup V) cs" "bv_bal V b = credit a cs (debit (bv_rollup V) cs (bv_bal V (rc_bank c)))"
    using bank_out [OF ok, of a cs] b(1) unfolding transfers_def by blast+
  then show "held V c d \<le> held V c' d + amountOf d cs" using b(2) by (auto simp: credit_def debit_def)
  show "held V c' d + amountOf d cs = held V c d" if "bv_blocked V (bv_rollup V)"
  proof -
    have "a \<noteq> bv_rollup V" using bank_out_open [OF ok b(1)] that by auto
    then show ?thesis using t b(2) by (auto simp: credit_def debit_def covers_def)
  qed
qed

lemma burn_held:
  assumes ok: "bank_ok K V" and run: "onBank (ke_BurnCoins K ModuleName cs) c = (Ok (), c')"
  shows "held V c' d + amountOf d cs = held V c d"
proof -
  obtain b where b: "ke_BurnCoins K ModuleName cs (rc_bank c) = (Ok (), b)" "rc_bank c' = b"
    using run by (cases "ke_BurnCoins K ModuleName cs (rc_bank c)") auto
  then show ?thesis using bank_burn [OF ok b(1)] by (auto simp: debit_def covers_def)
qed

lemma transfer_held:
  assumes t: "transfers V f a (bv_rollup V) cs" and ne: "a \<noteq> bv_rollup V" and run: "onBank f c = (Ok (), c')"
  shows "held V c' d = held V c d + amountOf d cs"
proof -
  obtain b where b: "f (rc_bank c) = (Ok (), b)" "rc_bank c' = b" using run by (cases "f (rc_bank c)") auto
  then have "bv_bal V b = credit (bv_rollup V) cs (debit a cs (bv_bal V (rc_bank c)))" using t unfolding transfers_def by blast
  then show ?thesis using b(2) ne by (simp add: credit_def debit_def)
qed

lemma sendFromModule_held:
  assumes ok: "bank_ok K V" and run: "sendFromModule K a n c = (Ok (), c')"
  shows "0 \<le> n" and "held V c d \<le> held V c' d + (if d = WEI then nat n else 0)"
    and "bv_blocked V (bv_rollup V) \<Longrightarrow> held V c' d + (if d = WEI then nat n else 0) = held V c d"
proof -
  obtain cs where cs: "ke_NewCoins K WEI (Some n) = Ok cs"
    and send: "onBank (ke_SendCoinsFromModuleToAccount K ModuleName a cs) c = (Ok (), c')"
    using run by (auto simp: sendFromModule_def elim!: scheck_OkE simp del: onBank_eq)
  obtain k where k: "n = int k" "amountOf WEI cs = k" "\<forall>d'. d' \<noteq> WEI \<longrightarrow> amountOf d' cs = 0"
    using coins_amount [OF bank_coins [OF ok] cs] by auto
  show "0 \<le> n" and "held V c d \<le> held V c' d + (if d = WEI then nat n else 0)"
    and "bv_blocked V (bv_rollup V) \<Longrightarrow> held V c' d + (if d = WEI then nat n else 0) = held V c d"
    using payout_held [OF ok send, of d] k by (auto split: if_splits)
qed

lemma mintETH_held:
  assumes ok: "bank_ok K V" and run: "mintETH K ma rec mi tr c = (Ok ev, c')"
  shows "passes_through V c c'"
  unfolding passes_through_def
proof
  fix d
  from run obtain cs c1 m t c2 a1 a2 where cs: "ke_NewCoins K WEI mi = Ok cs"
    and mint: "onBank (ke_MintCoins K ModuleName cs) c = (Ok (), c1)"
    and amt: "mi = Some m" "tr = Some t" "\<not> t > m"
    and s1: "(if t \<noteq> 0 then sendFromModule K a1 t else sret ()) c1 = (Ok (), c2)"
    and s2: "(if m - t > 0 then sendFromModule K a2 (m - t) else sret ()) c2 = (Ok (), c')"
    by (auto simp: mintETH_def Let_def elim!: scheck_OkE split: option.splits if_splits simp del: onBank_eq)
  obtain k where k: "m = int k" "amountOf WEI cs = k" "\<forall>d'. d' \<noteq> WEI \<longrightarrow> amountOf d' cs = 0"
    using coins_amount [OF bank_coins [OF ok] cs] amt(1) by auto
  have h1: "held V c1 d = held V c d + (if d = WEI then k else 0)" using mint_held [OF ok mint, of d] k by auto
  have h2: "held V c1 d \<le> held V c2 d + (if d = WEI then nat t else 0) \<and> 0 \<le> t \<and>
      (bv_blocked V (bv_rollup V) \<longrightarrow> held V c2 d + (if d = WEI then nat t else 0) = held V c1 d)"
    using s1 sendFromModule_held [OF ok, of a1 t c1 c2] by (cases "t = 0") auto
  have h3: "held V c2 d \<le> held V c' d + (if d = WEI then nat (m - t) else 0) \<and>
      (bv_blocked V (bv_rollup V) \<longrightarrow> held V c' d + (if d = WEI then nat (m - t) else 0) = held V c2 d)"
    using s2 sendFromModule_held(2,3) [OF ok, of a2 "m - t" c2 c'] amt(3) by (cases "m - t > 0") auto
  show "held V c d \<le> held V c' d \<and> (bv_blocked V (bv_rollup V) \<longrightarrow> held V c' d = held V c d)"
    using h1 h2 h3 k(1) amt(3) by (auto split: if_splits)
qed

lemma mintERC20_held:
  assumes ok: "bank_ok K V" and run: "mintERC20 K u t n c = (Ok ev, c')"
  shows "passes_through V c c'"
  unfolding passes_through_def
proof
  fix d
  from run obtain cs c1 a where mint: "onBank (ke_MintCoins K ModuleName cs) c = (Ok (), c1)"
    and send: "onBank (ke_SendCoinsFromModuleToAccount K ModuleName a cs) c1 = (Ok (), c')"
    by (auto simp: mintERC20_def elim!: scheck_OkE split: option.splits simp del: onBank_eq)
  show "held V c d \<le> held V c' d \<and> (bv_blocked V (bv_rollup V) \<longrightarrow> held V c' d = held V c d)"
    using mint_held [OF ok mint, of d] payout_held [OF ok send, of d] by auto
qed

lemma burnCoins_held:
  assumes ok: "bank_ok K V" and ne: "a \<noteq> bv_rollup V" and run: "burnCoins K a cs e c = (Ok (), c')"
  shows "held V c' = held V c"
proof
  fix d
  from run obtain c1 where send: "onBank (ke_SendCoinsFromAccountToModule K a ModuleName cs) c = (Ok (), c1)"
    and burn: "onBank (ke_BurnCoins K ModuleName cs) c1 = (Ok (), c')"
    by (auto simp: burnCoins_def elim!: scheck_OkE simp del: onBank_eq)
  show "held V c' d = held V c d"
    using transfer_held [OF bank_in [OF ok] ne send, of d] burn_held [OF ok burn, of d] by simp
qed

lemma GetParams_same: "GetParams K c = (r, c1) \<Longrightarrow> c1 = c"
  by (rule GetParams_store(1))

lemma crossDomain_held:
  assumes ok: "bank_ok K V" and run: "processCrossDomainMessage K data c = (Ok ev, c')"
  shows "passes_through V c c'"
  using run
  by (auto simp: processCrossDomainMessage_def processFinalizeBridgeETH_def processFinalizeBridgeERC20_def
      elim!: scheck_OkE dest!: mintETH_held [OF ok] mintERC20_held [OF ok] split: if_splits) (simp_all add: passes_through_def)

lemma deposit_held:
  assumes ok: "bank_ok K V" and run: "processL1UserDepositTxs K msg info c = (Ok evs, c')"
  shows "passes_through V c c'"
  using run
  by (auto simp: processL1UserDepositTxs_def Let_def elim!: scheck_OkE
      dest!: GetParams_same mintETH_held [OF ok] crossDomain_held [OF ok] split: option.splits if_splits)
    (erule (1) passes_through_trans)+

lemma fee_held:
  assumes ok: "bank_ok K V" and run: "InitiateFeeWithdrawal K msg c = (Ok (), c')"
  shows "held V c' = held V c"
proof
  fix d
  from run obtain f cs c1 c2 where f: "ke_GetModuleAddress K (ke_FeeCollectorName K) = Some f"
    and send: "onBank (ke_SendCoinsFromModuleToModule K (ke_FeeCollectorName K) ModuleName cs) c = (Ok (), c1)"
    and burn: "onBank (ke_BurnCoins K ModuleName cs) c1 = (Ok (), c2)" and c': "rc_bank c' = rc_bank c2"
    by (auto simp: InitiateFeeWithdrawal_def Let_def elim!: scheck_OkE dest!: GetParams_same
        split: option.splits if_splits simp del: onBank_eq)
  show "held V c' d = held V c d"
    using transfer_held [OF bank_fees [OF ok f] bank_fee_collector [OF ok f] send, of d] burn_held [OF ok burn, of d] c'
    by simp
qed

text \<open>The account a message takes coins from.\<close>

fun payer :: "('s, 'b, 'tx, 'blk) keeper_env \<Rightarrow> msg \<Rightarrow> bytes res" where
  "payer K (InitiateWithdrawalMsg m) = hx_AccAddressFromBech32 (ke_hex K) (iw_Sender m)"
| "payer K (InitiateERC20WithdrawalMsg m) = hx_AccAddressFromBech32 (ke_hex K) (ie_Sender m)"
| "payer K _ = Err (External ''no payer'')"

text \<open>
  C25: the rollup module's account is only passed through. Whatever message the module handles
  successfully (a deposit with or without a bridge message, an ETH, ERC-20 or fee
  withdrawal, a parameter update), as long as the module itself is not the sender, the account
  has lost nothing in any denomination; and where the application's bank does not let it
  receive coins (the default for module accounts, which an application can override), its
  balance is exactly what it was before.
\<close>

theorem module_account_keeps_nothing:
  fixes c c' :: "('s, 'b) rollup_ctx"
  assumes ok: "bank_ok K V" and run: "handleMsg K m c = (Ok (), c')" and payer: "payer K m \<noteq> Ok (bv_rollup V)"
  shows "bv_bal V (rc_bank c) (bv_rollup V) d \<le> bv_bal V (rc_bank c') (bv_rollup V) d \<and>
    (bv_blocked V (bv_rollup V) \<longrightarrow> bv_bal V (rc_bank c') (bv_rollup V) d = bv_bal V (rc_bank c) (bv_rollup V) d)"
proof (cases m)
  case (SetL1AttributesMsg x)
  with run show ?thesis
    by (auto simp: SetL1Attributes_def SetL1BlockInfo_def elim!: scheck_OkE split: option.splits)
next
  case (ApplyUserDepositMsg x)
  with run obtain info evs c1 where "processL1UserDepositTxs K x info c = (Ok evs, c1)" "rc_bank c' = rc_bank c1"
    by (auto simp: ApplyUserDeposit_def elim!: scheck_OkE dest!: GetL1BlockInfo_store)
  then show ?thesis using passes_throughD [OF deposit_held [OF ok]] by metis
next
  case (InitiateWithdrawalMsg x)
  with run obtain a cs e c1 where "payer K m = Ok a" "burnCoins K a cs e c = (Ok (), c1)" "rc_bank c' = rc_bank c1"
    by (auto simp: Keeper_InitiateWithdrawal_def burnETH_def Let_def elim!: scheck_OkE)
  then show ?thesis using burnCoins_held [OF ok] payer by (metis order_refl)
next
  case (InitiateERC20WithdrawalMsg x)
  with run obtain a cs e c1 where "payer K m = Ok a" "burnCoins K a cs e c = (Ok (), c1)" "rc_bank c' = rc_bank c1"
    by (auto simp: InitiateERC20Withdrawal_def burnERC20_def Let_def elim!: scheck_OkE dest!: GetParams_same)
  then show ?thesis using burnCoins_held [OF ok] payer by (metis order_refl)
next
  case (InitiateFeeWithdrawalMsg x)
  then show ?thesis using fee_held [OF ok] run by (metis handleMsg.simps(5) order_refl)
next
  case (UpdateParamsMsg x)
  with run show ?thesis by (auto simp: UpdateParams_def SetParams_def elim!: scheck_OkE split: if_splits)
qed (use run in simp)

section \<open>Fees, parameters and L1 info\<close>

text \<open>
  The interface of a value that the module keeps under one key of its store: writing it
  succeeds and touches nothing but that key, reading it depends on that key only.
\<close>

locale stored_value =
  fixes ok :: bool
    and look :: "'s \<Rightarrow> bytes \<rightharpoonup> bytes"
    and key :: bytes
    and enc :: "'v \<Rightarrow> bytes"
    and fits :: "'v \<Rightarrow> bool"
    and put :: "'v \<Rightarrow> (('s, 'b) rollup_ctx, unit) op"
    and get :: "(('s, 'b) rollup_ctx, 'v) op"
  assumes put_writes: "ok \<Longrightarrow> \<exists>s. put v c = (Ok (), c\<lparr>rc_store := s\<rparr>) \<and> look s = (look (rc_store c))(key \<mapsto> enc v)"
    and get_reads: "ok \<Longrightarrow> fits v \<Longrightarrow> look (rc_store c) key = Some (enc v) \<Longrightarrow> get c = (Ok v, c)"
    and get_local: "ok \<Longrightarrow> look (rc_store c') key = look (rc_store c) key \<Longrightarrow> get c' = (fst (get c), c')"
begin

lemma put_get:
  assumes "ok" and "fits v"
  shows "\<exists>s. put v c = (Ok (), c\<lparr>rc_store := s\<rparr>) \<and> get (c\<lparr>rc_store := s\<rparr>) = (Ok v, c\<lparr>rc_store := s\<rparr>)"
  using put_writes [OF assms(1), of v c] get_reads [OF assms] by force

end

text \<open>Two values under different keys do not interfere.\<close>

locale stored_values =
  one: stored_value ok look key1 enc1 fits1 put1 get1 + two: stored_value ok look key2 enc2 fits2 put2 get2
  for ok :: bool and look :: "'s \<Rightarrow> bytes \<rightharpoonup> bytes"
    and key1 and enc1 :: "'v \<Rightarrow> bytes" and fits1 and put1 :: "'v \<Rightarrow> (('s, 'b) rollup_ctx, unit) op" and get1
    and key2 and enc2 :: "'w \<Rightarrow> bytes" and fits2 and put2 :: "'w \<Rightarrow> (('s, 'b) rollup_ctx, unit) op" and get2 +
  assumes keys: "key1 \<noteq> key2"
begin

lemma put_independent:
  assumes "ok" and "fits1 v"
  shows "\<exists>s. put1 v c = (Ok (), c\<lparr>rc_store := s\<rparr>) \<and> get1 (c\<lparr>rc_store := s\<rparr>) = (Ok v, c\<lparr>rc_store := s\<rparr>) \<and>
    get2 (c\<lparr>rc_store := s\<rparr>) = (fst (get2 c), c\<lparr>rc_store := s\<rparr>)"
proof -
  obtain s where s: "put1 v c = (Ok (), c\<lparr>rc_store := s\<rparr>)" "look s = (look (rc_store c))(key1 \<mapsto> enc1 v)"
    using one.put_writes [OF assms(1)] by blast
  have "get1 (c\<lparr>rc_store := s\<rparr>) = (Ok v, c\<lparr>rc_store := s\<rparr>)"
    using s(2) by (intro one.get_reads [OF assms]) simp
  moreover have "get2 (c\<lparr>rc_store := s\<rparr>) = (fst (get2 c), c\<lparr>rc_store := s\<rparr>)"
    using s(2) keys by (intro two.get_local [OF assms(1)]) simp
  ultimately show ?thesis using s(1) by blast
qed

end

lemma kv_okD:
  assumes "kv_ok K view"
  shows kv_get: "ke_Get K s k = Ok (view s k)"
    and kv_set: "\<exists>s'. ke_Set K k v s = (Ok (), s') \<and> view s' = (view s)(k \<mapsto> v)"
  using assms unfolding kv_ok_def by blast+

lemma keys_differ: "L1BlockInfoKey \<noteq> ParamsKey"
  by (simp add: ParamsKey_def L1BlockInfoKey_def str_def)

interpretation params: stored_value "kv_ok K view" view ParamsKey Params_MarshalToSizedBuffer
    "\<lambda>p. Params_Size p < 2 ^ 63" "SetParams K" "GetParams K"
  for K :: "('s, 'b, 'tx, 'blk) keeper_env" and view
proof unfold_locales
  fix p and c c' :: "('s, 'b) rollup_ctx"
  assume kv: "kv_ok K view"
  show "\<exists>s. SetParams K p c = (Ok (), c\<lparr>rc_store := s\<rparr>) \<and>
      view s = (view (rc_store c))(ParamsKey \<mapsto> Params_MarshalToSizedBuffer p)"
    using kv_set [OF kv] by (force simp: SetParams_def Params_Marshal_def scheck_def)
  show "GetParams K c = (Ok p, c)"
    if "Params_Size p < 2 ^ 63" "view (rc_store c) ParamsKey = Some (Params_MarshalToSizedBuffer p)"
    using that Params_round_trip [OF that(1)] by (simp add: GetParams_def kv_get [OF kv] scheck_def orNil_def)
  show "GetParams K c' = (fst (GetParams K c), c')" if "view (rc_store c') ParamsKey = view (rc_store c) ParamsKey"
    using that by (auto simp: GetParams_def kv_get [OF kv] scheck_def split: res.splits)
qed

interpretation l1info: stored_value "kv_ok K view" view L1BlockInfoKey L1BlockInfo_MarshalToSizedBuffer
    "\<lambda>i. L1BlockInfo_Size i < 2 ^ 63" "SetL1BlockInfo K" "GetL1BlockInfo K"
  for K :: "('s, 'b, 'tx, 'blk) keeper_env" and view
proof unfold_locales
  fix i and c c' :: "('s, 'b) rollup_ctx"
  assume kv: "kv_ok K view"
  show "\<exists>s. SetL1BlockInfo K i c = (Ok (), c\<lparr>rc_store := s\<rparr>) \<and>
      view s = (view (rc_store c))(L1BlockInfoKey \<mapsto> L1BlockInfo_MarshalToSizedBuffer i)"
    using kv_set [OF kv] by (force simp: SetL1BlockInfo_def L1BlockInfo_Marshal_def scheck_def)
  show "GetL1BlockInfo K c = (Ok i, c)"
    if "L1BlockInfo_Size i < 2 ^ 63" "view (rc_store c) L1BlockInfoKey = Some (L1BlockInfo_MarshalToSizedBuffer i)"
    using that L1BlockInfo_round_trip [OF that(1)] by (simp add: GetL1BlockInfo_def kv_get [OF kv] scheck_def orNil_def)
  show "GetL1BlockInfo K c' = (fst (GetL1BlockInfo K c), c')"
    if "view (rc_store c') L1BlockInfoKey = view (rc_store c) L1BlockInfoKey"
    using that by (auto simp: GetL1BlockInfo_def kv_get [OF kv] scheck_def split: res.splits)
qed

interpretation module_store: stored_values "kv_ok K view" view
    L1BlockInfoKey L1BlockInfo_MarshalToSizedBuffer "\<lambda>i. L1BlockInfo_Size i < 2 ^ 63" "SetL1BlockInfo K" "GetL1BlockInfo K"
    ParamsKey Params_MarshalToSizedBuffer "\<lambda>p. Params_Size p < 2 ^ 63" "SetParams K" "GetParams K"
  for K :: "('s, 'b, 'tx, 'blk) keeper_env" and view
  by unfold_locales (rule keys_differ)

lemma SetParams_GetParams:
  assumes kv: "kv_ok K view" and sz: "Params_Size p < 2 ^ 63"
  shows "\<exists>c'. SetParams K p c = (Ok (), c') \<and> rc_bank c' = rc_bank c \<and> rc_events c' = rc_events c \<and>
    GetParams K c' = (Ok p, c')"
  using params.put_get [where view = view, OF assms, of c] by auto

text \<open>
  C29: parameters change only by the authority and only to valid values. An update by anyone
  else, or with an address that is not one, is refused as an update error and changes
  nothing; a valid update by the authority succeeds and later reads return its parameters.
\<close>

theorem update_params_guarded:
  fixes c :: "('s, 'b) rollup_ctx"
  assumes kv: "kv_ok K view" and sz: "Params_Size (up_Params msg) < 2 ^ 63"
  shows "if up_Authority msg = ke_AccString K (ke_authority K) \<and>
       hx_IsHexAddress (ke_hex K) (unstr (p_L1FeeRecipient (up_Params msg))) \<and>
       hx_IsHexAddress (ke_hex K) (unstr (p_L1CrossDomainMessenger (up_Params msg))) \<and>
       hx_IsHexAddress (ke_hex K) (unstr (p_L1StandardBridge (up_Params msg)))
     then \<exists>c'. UpdateParams K msg c = (Ok (), c') \<and> GetParams K c' = (Ok (up_Params msg), c') \<and> rc_bank c' = rc_bank c
     else \<exists>e. UpdateParams K msg c = (Err e, c) \<and> errors_Is e ErrUpdateParams"
proof -
  have is_err: "errors_Is (WrapError ErrUpdateParams t) ErrUpdateParams" for t
    by (simp add: WrapError_def ErrUpdateParams_def registeredErrors_def)
  obtain c' where "SetParams K (up_Params msg) c = (Ok (), c')" "rc_bank c' = rc_bank c"
    "GetParams K c' = (Ok (up_Params msg), c')"
    using SetParams_GetParams [OF kv sz] by blast
  then show ?thesis
    by (auto simp: UpdateParams_def Params_Validate_def validateEthAddress_def wrapAs_def is_err scheck_def)
qed

text \<open>The L1 block info a block sets at its top is what the module reads until the next one.\<close>

theorem l1_attributes_read_back:
  fixes c :: "('s, 'b) rollup_ctx"
  assumes kv: "kv_ok K view" and i: "sa_L1BlockInfo m = Some info" and sz: "L1BlockInfo_Size info < 2 ^ 63"
  shows "\<exists>c'. SetL1Attributes K (Some m) c = (Ok (), c') \<and> GetL1BlockInfo K c' = (Ok info, c') \<and>
    GetParams K c' = (fst (GetParams K c), c') \<and> rc_bank c' = rc_bank c \<and> rc_events c' = rc_events c"
  using module_store.put_independent [where view = view, OF kv sz, of c] i
  by (auto simp: SetL1Attributes_def)

text \<open>
  C26: a fee withdrawal takes everything the fee collector holds, or nothing. Below the minimum
  of the parameters it is refused and changes nothing; otherwise the fee collector's wei
  are burned to zero, no other balance changes, and the builder reads from the event a
  withdrawal of exactly that amount to the L1 fee recipient with the configured gas limit.
\<close>

theorem fee_withdrawal_takes_all_fees:
  fixes c :: "('s, 'b) rollup_ctx"
  assumes ok: "bank_ok K V" and hex: "hexlib_ok (ke_hex K)" and p: "GetParams K c = (Ok p, c)"
    and f: "ke_GetModuleAddress K (ke_FeeCollectorName K) = Some f"
    and addr: "hx_AccAddressFromBech32 (ke_hex K) (ke_AccString K f) = Ok f" "\<not> hx_IsHexAddress (ke_hex K) (ke_AccString K f)"
    and n: "n = bv_bal V (rc_bank c) f WEI" "n < 2 ^ 256"
  shows "if n < unat (p_MinFeeWithdrawalAmount p)
     then \<exists>e. InitiateFeeWithdrawal K msg c = (Err e, c) \<and> errors_Is e ErrInitiateFeeWithdrawal
     else \<exists>c' es. InitiateFeeWithdrawal K msg c = (Ok (), c') \<and>
       bv_bal V (rc_bank c') = takeWei f n (bv_bal V (rc_bank c)) \<and> bv_bal V (rc_bank c') f WEI = 0 \<and>
       rc_events c' = rc_events c @ es \<and> findWithdrawalEvent 0 es = Some 1 \<and>
       parseWithdrawalEventAttributes (ke_hex K) (es ! 1) = Ok \<lparr>wd_Sender = Some (hx_BytesToAddress (ke_hex K) f),
         wd_Target = Some (hx_HexToAddress (ke_hex K) (unstr (p_L1FeeRecipient p))), wd_Value = Some n,
         wd_GasLimit = Some (unat (p_FeeWithdrawalGasLimit p)), wd_Data = []\<rparr>"
proof (cases "n < unat (p_MinFeeWithdrawalAmount p)")
  case True
  then show ?thesis using p f n(1) bank_balance [OF ok]
    by (simp add: InitiateFeeWithdrawal_def Let_def scheck_def WrapError_def ErrInitiateFeeWithdrawal_def registeredErrors_def)
next
  case False
  let ?X = "ke_hex K"
  obtain cs where cs: "ke_NewCoins K WEI (Some (int n)) = Ok cs" "amountOf WEI cs = n" "\<forall>d'. d' \<noteq> WEI \<longrightarrow> amountOf d' cs = 0"
    using coins_new [OF bank_coins [OF ok] coins_wei [OF bank_coins [OF ok]]] by blast
  note w = wei_covers [OF cs(2,3)]
  obtain b1 where b1: "ke_SendCoinsFromModuleToModule K (ke_FeeCollectorName K) ModuleName cs (rc_bank c) = (Ok (), b1)"
    using bank_fees_live [OF ok f] w(1) n(1) by blast
  then have bal1: "bv_bal V b1 = credit (bv_rollup V) cs (debit f cs (bv_bal V (rc_bank c)))"
    using bank_fees [OF ok f, of cs] unfolding transfers_def by blast
  then have "covers (bv_bal V b1) (bv_rollup V) cs" by (simp add: covers_def credit_def)
  then obtain b2 where b2: "ke_BurnCoins K ModuleName cs b1 = (Ok (), b2)" using bank_burn_live [OF ok] by blast
  have "bv_bal V b2 = debit (bv_rollup V) cs (bv_bal V b1)" using bank_burn [OF ok b2] by blast
  also have "\<dots> = takeWei f n (bv_bal V (rc_bank c))"
    unfolding bal1 w(2) [symmetric] by (intro ext) (auto simp: credit_def debit_def)
  finally have bal: "bv_bal V b2 = takeWei f n (bv_bal V (rc_bank c))" .
  have dec: "hx_DecodeBig ?X (hx_EncodeBig ?X n) = Ok n" "hx_DecodeBig ?X (hx_EncodeBig ?X (unat (p_FeeWithdrawalGasLimit p))) =
      Ok (unat (p_FeeWithdrawalGasLimit p))" "hx_Decode ?X ''0x'' = Ok []"
    using hex n(2) unat_u64_less [of "p_FeeWithdrawalGasLimit p"] by (auto simp: hexlib_ok_def)
  have "takeWei f n (bv_bal V (rc_bank c)) f WEI = 0" using n(1) by (simp add: takeWei_def)
  then show ?thesis
    using False p f n(1) bank_balance [OF ok] cs(1) b1 b2 bal find_emitted [of 0] parse_withdrawalEvent(1) [OF dec addr]
    by (auto simp: InitiateFeeWithdrawal_def Let_def scheck_def)
qed

text \<open>
  C27: bridged tokens go out the way they came in. After an ERC-20 deposit of \<open>n\<close> tokens to a
  user, burning \<open>n\<close> of them under the same token address succeeds and every balance is what it
  was before the deposit.
\<close>

theorem erc20_in_and_out:
  fixes c :: "('s, 'b) rollup_ctx"
  assumes ok: "bank_ok K V" and u: "hx_AccAddressFromBech32 (ke_hex K) userStr = Ok u" "\<not> bv_blocked V u"
    and tok: "2 \<le> length tok" "bv_valid V (''erc20/'' @ drop 2 tok)"
    and free: "\<And>s. bv_spendable V s u = bv_bal V s u"
  shows "\<exists>ev c1 c2. mintERC20 K userStr tok (Some (int n)) c = (Ok ev, c1) \<and>
    bv_bal V (rc_bank c1) u (''erc20/'' @ drop 2 tok) = bv_bal V (rc_bank c) u (''erc20/'' @ drop 2 tok) + n \<and>
    burnERC20 K u tok (Some (int n)) c1 = (Ok (), c2) \<and> bv_bal V (rc_bank c2) = bv_bal V (rc_bank c)"
proof -
  let ?d = "''erc20/'' @ drop 2 tok" and ?r = "bv_rollup V"
  have den: "getERC20Denom tok = Ok ?d" using tok(1) by (simp add: getERC20Denom_def)
  obtain cs where cs: "ke_NewCoins K ?d (Some (int n)) = Ok cs" "amountOf ?d cs = n"
    using coins_new [OF bank_coins [OF ok] tok(2)] by blast
  obtain b1 where b1: "ke_MintCoins K ModuleName cs (rc_bank c) = (Ok (), b1)" "bv_bal V b1 = credit ?r cs (bv_bal V (rc_bank c))"
    using bank_mint [OF ok] by blast
  then have "covers (bv_bal V b1) ?r cs" by (simp add: covers_def credit_def)
  from bank_out_live [OF ok this u(2)] obtain b2 where b2: "ke_SendCoinsFromModuleToAccount K ModuleName u cs b1 = (Ok (), b2)"
    by blast
  then have "bv_bal V b2 = credit u cs (debit ?r cs (bv_bal V b1))" using bank_out [OF ok, of u cs] unfolding transfers_def by blast
  also have "\<dots> = credit u cs (bv_bal V (rc_bank c))"
    unfolding b1(2) by (intro ext) (auto simp: credit_def debit_def)
  finally have bal2: "bv_bal V b2 = credit u cs (bv_bal V (rc_bank c))" .
  have mint: "\<exists>ev. mintERC20 K userStr tok (Some (int n)) c = (Ok ev, c\<lparr>rc_bank := b2\<rparr>)"
    using den cs(1) b1(1) b2 u(1) by (simp add: mintERC20_def scheck_def)
  have "covers (bv_spendable V b2) u cs" unfolding covers_def free bal2 by (simp add: credit_def)
  then obtain b3 where b3: "burnCoins K u cs ''failed to burn ERC-20 coins from the rollup module'' (c\<lparr>rc_bank := b2\<rparr>) =
      (Ok (), c\<lparr>rc_bank := b3\<rparr>)" "bv_bal V b3 = debit u cs (bv_bal V b2)"
    using burnCoins_ok [OF ok, of "c\<lparr>rc_bank := b2\<rparr>" u cs] by auto
  have "burnERC20 K u tok (Some (int n)) (c\<lparr>rc_bank := b2\<rparr>) = (Ok (), c\<lparr>rc_bank := b3\<rparr>)"
    using den cs(1) b3(1) by (simp add: burnERC20_def scheck_def)
  moreover have "bv_bal V b3 = bv_bal V (rc_bank c)" unfolding b3(2) bal2 by (intro ext) (auto simp: credit_def debit_def)
  moreover have "bv_bal V b2 u ?d = bv_bal V (rc_bank c) u ?d + n" unfolding bal2 using cs(2) by (simp add: credit_def)
  ultimately show ?thesis using mint
    by (metis (no_types, lifting) rollup_ctx.select_convs(2) rollup_ctx.surjective rollup_ctx.update_convs(2))
qed

end
