(* ===== verification/RollupExamples.thy ===== *)
theory RollupExamples
  imports RollupProps
begin

text \<open>
  A rollup module in memory: a bank whose state is the balances themselves, addresses whose
  bech32 form is their own text, and deposit transactions that carry the mint and the value
  as two bytes. It instantiates the third-party parameters of \<open>RollupKeeper\<close> and satisfies
  the laws of \<open>RollupProps\<close>.
\<close>

definition afford :: "balances \<Rightarrow> bytes \<Rightarrow> coin list \<Rightarrow> bool" where
  "afford bal a cs = list_all (\<lambda>c. amountOf (c_Denom c) cs \<le> bal a (c_Denom c)) cs"

lemma afford_covers: "afford bal a cs \<longleftrightarrow> covers bal a cs"
proof
  show "covers bal a cs" if aff: "afford bal a cs"
    unfolding covers_def
  proof
    show "amountOf d cs \<le> bal a d" for d
    proof (cases "\<exists>c \<in> set cs. c_Denom c = d")
      case True
      then show ?thesis using aff by (auto simp: afford_def list_all_iff)
    next
      case False
      then have "filter (\<lambda>c. c_Denom c = d) cs = []" by (simp add: filter_empty_conv)
      then show ?thesis by (simp add: amountOf_def)
    qed
  qed
qed (simp add: afford_def covers_def list_all_iff)

definition mem_transfer :: "bytes \<Rightarrow> bytes \<Rightarrow> coin list \<Rightarrow> (balances, unit) op" where
  "mem_transfer a b cs bal = (if afford bal a cs then (Ok (), credit b cs (debit a cs bal))
     else (Err (External ''insufficient funds''), bal))"

definition toy_dep :: "(bool \<times> bytes) deplib" where
  "toy_dep = \<lparr>dp_IsSystemTx = (\<lambda>tx. False), dp_To = (\<lambda>tx. Some 7), dp_ChainId = (\<lambda>tx. 1),
     dp_Mint = (\<lambda>(dep, d). if d = [] then None else Some (unat (d ! 0))),
     dp_Value = (\<lambda>(dep, d). if d = [] then Some 0 else Some (unat (d ! 1))), dp_Data = (\<lambda>tx. None),
     dp_Sender = (\<lambda>cfg n t tx. Ok 9)\<rparr>"

definition toy_bridge :: bridgelib where
  "toy_bridge = \<lparr>br_L2MessengerABI = Ok (), br_L1MessengerABI = Ok (), br_BridgeABI = Ok (), br_relayMessageID = [1, 1, 1, 1],
     br_finalizeETHID = [2, 2, 2, 2], br_finalizeERC20ID = [3, 3, 3, 3],
     br_UnpackRelay = (\<lambda>b. Err (External ''abi'')), br_UnpackETH = (\<lambda>b. Err (External ''abi'')),
     br_UnpackERC20 = (\<lambda>b. Err (External ''abi'')), br_PackERC20 = (\<lambda>l r f t v x. Ok ([3, 3, 3, 3] @ x)),
     br_PackRelay = (\<lambda>n s t v g m. Ok ([1, 1, 1, 1] @ m)), br_L2StandardBridge = ''@16'',
     br_L2CrossDomainMessenger = ''@7'', br_ApplyL1ToL2Alias = (\<lambda>a. a + 1)\<rparr>"

definition mem_keeper :: "(bytes \<rightharpoonup> bytes, balances, bool \<times> bytes, eth_header) keeper_env" where
  "mem_keeper = \<lparr>ke_Get = (\<lambda>s k. Ok (s k)), ke_Set = (\<lambda>k v s. (Ok (), s(k \<mapsto> v))),
     ke_NewIntFromBigInt = (\<lambda>n. Ok (map_option int n)),
     ke_NewCoins = (\<lambda>d a. case a of Some i \<Rightarrow> if i < 0 then Panic (External ''negative'') else Ok [\<lparr>c_Denom = d, c_Amount = nat i\<rparr>]
        | None \<Rightarrow> Panic (External ''nil amount'')),
     ke_MintCoins = (\<lambda>m cs b. (Ok (), credit (str m) cs b)),
     ke_BurnCoins = (\<lambda>m cs b. if afford b (str m) cs then (Ok (), debit (str m) cs b) else (Err (External ''insufficient funds''), b)),
     ke_SendCoinsFromModuleToAccount = (\<lambda>m a cs b. if a = str ''rollup'' then (Err (External ''blocked''), b)
        else mem_transfer (str m) a cs b),
     ke_SendCoinsFromAccountToModule = (\<lambda>a m cs. mem_transfer a (str m) cs),
     ke_SendCoinsFromModuleToModule = (\<lambda>m n cs. mem_transfer (str m) (str n) cs),
     ke_GetBalance = (\<lambda>b a d. b a d), ke_GetModuleAddress = (\<lambda>m. Some (str m)), ke_FeeCollectorName = ''fees'',
     ke_AccString = unstr, ke_Prefix = ''x'', ke_ConvertAndEncode = (\<lambda>p b. Ok (unstr b)), ke_authority = str ''gov'',
     ke_hex = toy_hex, ke_eth = toy_eth, ke_dep = toy_dep, ke_bridge = toy_bridge\<rparr>"

definition mem_bank :: "balances bankview" where
  "mem_bank = \<lparr>bv_bal = (\<lambda>b. b), bv_spendable = (\<lambda>b. b), bv_blocked = (\<lambda>a. a = str ''rollup''), bv_valid = (\<lambda>d. True),
     bv_rollup = str ''rollup''\<rparr>"

definition ctx0 :: "(bytes \<rightharpoonup> bytes, balances) rollup_ctx" where
  "ctx0 = \<lparr>rc_store = (\<lambda>k. None), rc_bank = (\<lambda>a d. if d = WEI then 100 else 0), rc_events = []\<rparr>"

lemma str_unstr: "str (unstr b) = b"
proof -
  have "of_char (char_of (unat x) :: char) = x" for x :: byte
  proof -
    have "of_char (char_of (unat x) :: char) = (of_nat (of_char (char_of (unat x) :: char)) :: byte)" by (simp only: of_nat_of_char)
    also have "\<dots> = of_nat (unat x)" using unat_byte_less [of x] by simp
    finally show ?thesis by simp
  qed
  then show ?thesis by (simp add: str_def unstr_def map_idI)
qed

lemma mem_amount: "amountOf d [\<lparr>c_Denom = e, c_Amount = n\<rparr>] = (if d = e then n else 0)"
  by (simp add: amountOf_def)

lemma mem_keeper_sel [simp]:
  "ke_hex mem_keeper = toy_hex" "ke_eth mem_keeper = toy_eth" "ke_dep mem_keeper = toy_dep"
  "ke_FeeCollectorName mem_keeper = ''fees''" "ke_GetModuleAddress mem_keeper m = Some (str m)"
  "ke_AccString mem_keeper = unstr" "ke_authority mem_keeper = str ''gov''"
  "bv_bal mem_bank = (\<lambda>b. b)" "bv_spendable mem_bank = (\<lambda>b. b)" "bv_rollup mem_bank = str ''rollup''"
  "bv_blocked mem_bank = (\<lambda>a. a = str ''rollup'')"
  by (simp_all add: mem_keeper_def mem_bank_def)

lemma mem_bank_ok: "bank_ok mem_keeper mem_bank"
proof -
  have "coins_ok mem_keeper mem_bank"
    by (auto simp: coins_ok_def mem_keeper_def mem_bank_def mem_amount split: option.splits)
  moreover have "accounts_ok mem_keeper mem_bank"
    by (simp add: accounts_ok_def mem_keeper_def mem_bank_def ModuleName_def str_inj)
  moreover have "mint_ok mem_keeper mem_bank" by (simp add: mint_ok_def mem_keeper_def mem_bank_def ModuleName_def)
  moreover have "burn_ok mem_keeper mem_bank"
    by (auto simp: burn_ok_def mem_keeper_def mem_bank_def ModuleName_def afford_covers)
  moreover have "payout_ok mem_keeper mem_bank"
    by (auto simp: payout_ok_def transfers_def mem_transfer_def mem_keeper_def mem_bank_def ModuleName_def afford_covers split: if_splits)
  moreover have "payin_ok mem_keeper mem_bank"
    by (auto simp: payin_ok_def transfers_def mem_transfer_def mem_keeper_def mem_bank_def ModuleName_def afford_covers split: if_splits)
  moreover have "fees_ok mem_keeper mem_bank"
    by (auto simp: fees_ok_def transfers_def mem_transfer_def mem_keeper_def mem_bank_def ModuleName_def afford_covers split: if_splits)
  ultimately show ?thesis by (simp add: bank_ok_def)
qed

lemma mem_sdk_ok: "sdk_ok mem_keeper"
  by (simp add: sdk_ok_def mem_keeper_def toy_hex_def str_unstr)

lemma mem_kv_ok: "kv_ok mem_keeper (\<lambda>s. s)"
  by (simp add: kv_ok_def mem_keeper_def)

lemma unmarshal_nil: "L1BlockInfo_Unmarshal [] zero_L1BlockInfo = Ok zero_L1BlockInfo" "Params_Unmarshal [] zero_Params = Ok zero_Params"
  by (simp_all add: L1BlockInfo_Unmarshal_def Params_Unmarshal_def unmarshalFrom.simps)

lemma ctx0_reads: "GetL1BlockInfo mem_keeper ctx0 = (Ok zero_L1BlockInfo, ctx0)" "GetParams mem_keeper ctx0 = (Ok zero_Params, ctx0)"
  by (simp_all add: GetL1BlockInfo_def GetParams_def mem_keeper_def ctx0_def orNil_def unmarshal_nil scheck_def)

lemma address_not_rollup: "address_Bytes a \<noteq> str ''rollup''"
proof
  assume "address_Bytes a = str ''rollup''"
  from arg_cong [OF this, of length] show False by (simp add: str_def)
qed

section \<open>Deposits\<close>

definition deposit_msg :: "bytes \<Rightarrow> MsgApplyUserDeposit" where
  "deposit_msg tx = \<lparr>ud_Tx = tx\<rparr>"

lemma deposit_msg_facts:
  "el_UnmarshalBinary toy_eth (ud_Tx (deposit_msg [0x7e, 5, 3])) = Ok (True, [5, 3])"
  "el_UnmarshalBinary toy_eth (ud_Tx (deposit_msg [0x7e])) = Ok (True, [])"
  "\<not> dp_IsSystemTx toy_dep tx" "dp_To toy_dep tx = Some 7" "dp_Sender toy_dep cfg n t tx = Ok 9"
  "dp_Mint toy_dep (True, [5, 3]) = Some 5" "dp_Value toy_dep (True, [5, 3]) = Some 3"
  "dp_Mint toy_dep (True, []) = None" "dp_Value toy_dep (True, []) = Some 0"
  by (simp_all add: deposit_msg_def toy_eth_def toy_dep_def)

theorem deposit_credits_the_mint_witness:
  "\<exists>c'. ApplyUserDeposit mem_keeper (deposit_msg [0x7e, 5, 3]) ctx0 = (Ok (), c') \<and>
     rc_bank c' (address_Bytes 7) WEI = 103 \<and> rc_bank c' (address_Bytes 9) WEI = 102"
proof -
  have ne: "(9 :: address) \<noteq> br_ApplyL1ToL2Alias (ke_bridge mem_keeper) (hx_HexToAddress (ke_hex mem_keeper)
      (unstr (p_L1CrossDomainMessenger zero_Params)))"
    by (simp add: mem_keeper_def toy_bridge_def toy_hex_def zero_Params_def unstr_def dec_value_def)
  have d: "address_Bytes 7 \<noteq> address_Bytes 9" by (simp add: address_Bytes_def)
  have dep: "\<not> dp_IsSystemTx (ke_dep mem_keeper) (True, [5, 3])" "dp_To (ke_dep mem_keeper) (True, [5, 3]) = Some 7"
    "dp_Mint (ke_dep mem_keeper) (True, [5, 3]) = Some 5" "dp_Value (ke_dep mem_keeper) (True, [5, 3]) = Some 3"
    by (simp_all add: deposit_msg_facts)
  have tx: "el_UnmarshalBinary (ke_eth mem_keeper) (ud_Tx (deposit_msg [0x7e, 5, 3])) = Ok (True, [5, 3])"
    by (simp add: deposit_msg_facts)
  have sndr: "dp_Sender (ke_dep mem_keeper) (NewChainConfig (dp_ChainId (ke_dep mem_keeper) (True, [5, 3])))
      (unat (l1_Number zero_L1BlockInfo)) (l1_Time zero_L1BlockInfo) (True, [5, 3]) = Ok 9"
    by (simp add: deposit_msg_facts)
  have op: "\<not> bv_blocked mem_bank (address_Bytes 7)" "\<not> bv_blocked mem_bank (address_Bytes 9)"
    using address_not_rollup [of 7] address_not_rollup [of 9] by simp_all
  from deposit_credits_the_mint [OF mem_bank_ok mem_sdk_ok tx dep _ _ ctx0_reads(1) sndr op ctx0_reads(2) ne]
  obtain c' where c': "ApplyUserDeposit mem_keeper (deposit_msg [0x7e, 5, 3]) ctx0 = (Ok (), c')"
    "bv_bal mem_bank (rc_bank c') = addWei (address_Bytes 9) (5 - 3) (addWei (address_Bytes 7) 3 (bv_bal mem_bank (rc_bank ctx0)))"
    by auto
  from c'(2) have b: "rc_bank c' = addWei (address_Bytes 9) 2 (addWei (address_Bytes 7) 3 (rc_bank ctx0))" by simp
  have "rc_bank c' (address_Bytes 7) WEI = 103" "rc_bank c' (address_Bytes 9) WEI = 102"
    unfolding b using d by (simp_all add: addWei_def ctx0_def)
  with c'(1) show ?thesis by blast
qed

theorem deposit_without_mint_panics_witness:
  "\<exists>p. ApplyUserDeposit mem_keeper (deposit_msg [0x7e]) ctx0 = (Panic p, ctx0)"
proof (rule deposit_without_mint_panics [OF mem_bank_ok mem_sdk_ok])
  show "el_UnmarshalBinary (ke_eth mem_keeper) (ud_Tx (deposit_msg [0x7e])) = Ok (True, [])"
    by (simp add: deposit_msg_facts)
  show "GetL1BlockInfo mem_keeper ctx0 = (Ok zero_L1BlockInfo, ctx0)" by (rule ctx0_reads)
  show "(0 :: nat) < 2 ^ 256" by (rule zero_less_power) simp
qed (simp_all add: deposit_msg_facts)

section \<open>Withdrawals\<close>

definition withdrawal_msg :: "nat \<Rightarrow> bytes \<Rightarrow> MsgInitiateWithdrawal" where
  "withdrawal_msg v g = \<lparr>iw_Sender = ''bob'', iw_Target = ''@6'', iw_Value = Some (int v), iw_GasLimit = g, iw_Data = [1, 2]\<rparr>"

lemma withdrawal_msg_sel [simp]:
  "iw_Sender (withdrawal_msg v g) = ''bob''" "iw_Target (withdrawal_msg v g) = ''@6''"
  "iw_Value (withdrawal_msg v g) = Some (int v)" "iw_GasLimit (withdrawal_msg v g) = g" "iw_Data (withdrawal_msg v g) = [1, 2]"
  by (simp_all add: withdrawal_msg_def)

lemma toy_hex_bob:
  "hx_AccAddressFromBech32 toy_hex s = Ok (str s)" "\<not> hx_IsHexAddress toy_hex ''bob''" "\<not> hx_IsHexAddress toy_hex ''fees''"
  "hx_IsHexAddress toy_hex ''@6''" "hx_HexToAddress toy_hex ''@6'' = 6"
  by (simp_all add: toy_hex_def dec_value_def)

lemma ctx0_wei [simp]: "rc_bank ctx0 a WEI = 100"
  by (simp add: ctx0_def)

theorem withdrawal_burns_and_announces_witness:
  "\<exists>c' es w. Keeper_InitiateWithdrawal mem_keeper (withdrawal_msg 30 [0x52, 0x08]) ctx0 = (Ok (), c') \<and>
     rc_bank c' (str ''bob'') WEI = 70 \<and> rc_events c' = rc_events ctx0 @ es \<and>
     parseWithdrawalEventAttributes toy_hex (es ! 1) = Ok w \<and> wd_Value w = Some 30 \<and> wd_GasLimit w = Some 21000"
proof -
  from withdrawal_burns_and_announces [of mem_keeper mem_bank "withdrawal_msg 30 [0x52, 0x08]" "str ''bob''" 30 ctx0]
  obtain c' es where c': "Keeper_InitiateWithdrawal mem_keeper (withdrawal_msg 30 [0x52, 0x08]) ctx0 = (Ok (), c')"
    "rc_bank c' = takeWei (str ''bob'') 30 (rc_bank ctx0)" "rc_events c' = rc_events ctx0 @ es"
    and w: "parseWithdrawalEventAttributes toy_hex (es ! 1) = Ok \<lparr>wd_Sender = Some (hx_BytesToAddress toy_hex (str ''bob'')),
      wd_Target = Some (hx_HexToAddress toy_hex ''@6''), wd_Value = Some 30, wd_GasLimit = Some 21000, wd_Data = [1, 2]\<rparr>"
    by (auto simp: mem_bank_ok toy_hex_ok toy_hex_bob)
  from w have "\<exists>w. parseWithdrawalEventAttributes toy_hex (es ! 1) = Ok w \<and> wd_Value w = Some 30 \<and> wd_GasLimit w = Some 21000" by simp
  moreover have "rc_bank c' (str ''bob'') WEI = 70" using c'(2) by (simp add: takeWei_def)
  ultimately show ?thesis using c'(1,3) by blast
qed

theorem unaffordable_withdrawal_is_refused_witness:
  "\<exists>e. Keeper_InitiateWithdrawal mem_keeper (withdrawal_msg 101 [0x52, 0x08]) ctx0 = (Err e, ctx0) \<and> errors_Is e ErrBurnETH"
  by (rule unaffordable_withdrawal_is_refused [OF mem_bank_ok, where a = "str ''bob''" and v = 101]) (simp_all add: toy_hex_bob)

text \<open>A gas limit of \<open>2 ^ 256 + 21000\<close>: 33 bytes.\<close>

definition huge_gas :: bytes where
  "huge_gas = 1 # replicate 30 0 @ [0x52, 0x08]"

lemma be_dec_zeros: "be_dec (replicate n 0 @ b) = be_dec b"
  by (induction n) simp_all

lemma huge_gas_value: "be_dec huge_gas = 2 ^ 256 + 21000"
proof -
  have "be_dec huge_gas = 256 ^ 32 + be_dec [0x52, 0x08]" by (simp only: huge_gas_def be_dec.simps be_dec_zeros) simp
  then show ?thesis by simp
qed

theorem oversized_gas_limit_stops_the_builder_witness:
  "MsgInitiateWithdrawal_ValidateBasic toy_hex (withdrawal_msg 30 huge_gas) = Ok () \<and>
   (\<exists>c' es. Keeper_InitiateWithdrawal mem_keeper (withdrawal_msg 30 huge_gas) ctx0 = (Ok (), c') \<and>
     rc_bank c' (str ''bob'') WEI = 70 \<and> (\<exists>e. parseWithdrawalMessages toy_eth toy_evm toy_hex zero_header [0]
       (example_result\<lparr>x_Events := es\<rparr>) [] = (Err e, [])))"
proof -
  obtain e where e: "NewEVM toy_eth zero_header = Ok e"
    "NewL2ToL1MessagePasserExecuter toy_evm e = Ok (toy_executer zero_header)"
    using toy_evm_facts(1) by blast
  have ty: "''/rollup.v1.MsgInitiateWithdrawal'' \<in> set withdrawalMsgTypes"
    "hx_TxMessageTypes (ke_hex mem_keeper) [0] = Ok [''/rollup.v1.MsgInitiateWithdrawal'']"
    by (simp_all add: withdrawalMsgTypes_def toy_hex_def)
  have g: "2 ^ 256 \<le> be_dec (iw_GasLimit (withdrawal_msg 30 huge_gas))"
    "21000 \<le> be_dec (iw_GasLimit (withdrawal_msg 30 huge_gas)) mod 2 ^ 64"
    "be_dec (iw_GasLimit (withdrawal_msg 30 huge_gas)) mod 2 ^ 64 < 2 ^ 63"
    unfolding withdrawal_msg_sel huge_gas_value by simp_all
  have a: "hx_AccAddressFromBech32 (ke_hex mem_keeper) (iw_Sender (withdrawal_msg 30 huge_gas)) = Ok (str ''bob'')"
    "\<not> hx_IsHexAddress (ke_hex mem_keeper) (iw_Sender (withdrawal_msg 30 huge_gas))"
    "hx_IsHexAddress (ke_hex mem_keeper) (iw_Target (withdrawal_msg 30 huge_gas))"
    "iw_Value (withdrawal_msg 30 huge_gas) = Some (int 30)" "30 \<le> bv_spendable mem_bank (rc_bank ctx0) (str ''bob'') WEI"
    by (simp_all add: toy_hex_bob)
  have hex: "hexlib_ok (ke_hex mem_keeper)" by (simp add: toy_hex_ok)
  have ok: "IsOK (example_result\<lparr>x_Events := es\<rparr>)" for es by (simp add: IsOK_def example_result_def)
  have small: "(30 :: nat) < 2 ^ 256" by simp
  note P = oversized_gas_limit_stops_the_builder [OF mem_bank_ok hex a(1,2,4) small a(5,3) g ty e toy_evm_facts(2) [of zero_header "[]"]]
  then obtain c' es where c': "Keeper_InitiateWithdrawal mem_keeper (withdrawal_msg 30 huge_gas) ctx0 = (Ok (), c')"
    "bv_bal mem_bank (rc_bank c') = takeWei (str ''bob'') 30 (bv_bal mem_bank (rc_bank ctx0))"
    "\<And>r. IsOK r \<and> x_Events r = es \<Longrightarrow> \<exists>e. parseWithdrawalMessages toy_eth toy_evm (ke_hex mem_keeper) zero_header [0] r [] = (Err e, [])"
    by blast
  have "rc_bank c' (str ''bob'') WEI = 70" using c'(2) by (simp add: takeWei_def)
  moreover have "\<exists>e. parseWithdrawalMessages toy_eth toy_evm toy_hex zero_header [0] (example_result\<lparr>x_Events := es\<rparr>) [] = (Err e, [])"
    using c'(3) [of "example_result\<lparr>x_Events := es\<rparr>"] ok by simp
  ultimately show ?thesis using c'(1) P by auto
qed

theorem module_account_keeps_nothing_witness:
  "\<exists>c'. handleMsg mem_keeper (InitiateWithdrawalMsg (withdrawal_msg 30 [0x52, 0x08])) ctx0 = (Ok (), c') \<and>
     rc_bank c' (str ''rollup'') WEI = 100"
proof -
  have "\<exists>c'. Keeper_InitiateWithdrawal mem_keeper (withdrawal_msg 30 [0x52, 0x08]) ctx0 = (Ok (), c')"
    by (simp add: Keeper_InitiateWithdrawal_def burnETH_def burnCoins_def mem_keeper_def mem_transfer_def afford_def
        toy_hex_bob ctx0_def amountOf_def bigInt_def Let_def scheck_def ModuleName_def credit_def debit_def)
  then obtain c' where run: "handleMsg mem_keeper (InitiateWithdrawalMsg (withdrawal_msg 30 [0x52, 0x08])) ctx0 = (Ok (), c')"
    by auto
  have "payer mem_keeper (InitiateWithdrawalMsg (withdrawal_msg 30 [0x52, 0x08])) \<noteq> Ok (bv_rollup mem_bank)"
    by (simp add: toy_hex_bob str_inj)
  from module_account_keeps_nothing [OF mem_bank_ok run this, of WEI] run show ?thesis by simp
qed

section \<open>Parameters, L1 info, fees and tokens\<close>

definition params_msg :: "string \<Rightarrow> MsgUpdateParams" where
  "params_msg auth = \<lparr>up_Authority = auth, up_Params = \<lparr>p_L1FeeRecipient = str ''@1'', p_L1CrossDomainMessenger = str ''@2'',
     p_L1StandardBridge = str ''@3'', p_MinFeeWithdrawalAmount = 5, p_FeeWithdrawalGasLimit = 6\<rparr>\<rparr>"

definition info5 :: L1BlockInfo where
  "info5 = zero_L1BlockInfo\<lparr>l1_Number := 5\<rparr>"

lemma sizes_small: "Params_Size (up_Params (params_msg auth)) < 2 ^ 63" "L1BlockInfo_Size info5 < 2 ^ 63"
proof -
  have "Params_Size (up_Params (params_msg auth)) \<le> 1000"
    using sizeField_le(3) [of "Suc (Suc 0)"] sizeField_le(1) [of 5] sizeField_le(1) [of 6]
    by (simp add: Params_Size_def params_msg_def)
  then show "Params_Size (up_Params (params_msg auth)) < 2 ^ 63" by simp
  have "L1BlockInfo_Size info5 \<le> 1000"
    using sizeField_le(1) [of 5]
    by (simp add: L1BlockInfo_Size_def info5_def zero_L1BlockInfo_def sizeBytesField_def) (simp add: sizeVarintField_def)
  then show "L1BlockInfo_Size info5 < 2 ^ 63" by simp
qed

lemma params_msg_facts:
  "up_Authority (params_msg auth) = auth" "hx_IsHexAddress toy_hex (unstr (p_L1FeeRecipient (up_Params (params_msg auth))))"
  "hx_IsHexAddress toy_hex (unstr (p_L1CrossDomainMessenger (up_Params (params_msg auth))))"
  "hx_IsHexAddress toy_hex (unstr (p_L1StandardBridge (up_Params (params_msg auth))))"
  by (simp_all add: params_msg_def unstr_str toy_hex_def del: str_Cons str_Nil)

theorem update_params_guarded_witness:
  "(\<exists>c'. UpdateParams mem_keeper (params_msg ''gov'') ctx0 = (Ok (), c') \<and>
      GetParams mem_keeper c' = (Ok (up_Params (params_msg ''gov'')), c')) \<and>
   (\<exists>e. UpdateParams mem_keeper (params_msg ''eve'') ctx0 = (Err e, ctx0))"
proof -
  have "unstr (str ''gov'') = ''gov''" by (rule unstr_str)
  then show ?thesis
    using update_params_guarded [OF mem_kv_ok sizes_small(1), of "''gov''" ctx0]
      update_params_guarded [OF mem_kv_ok sizes_small(1), of "''eve''" ctx0]
    by (simp add: params_msg_facts) blast
qed

theorem l1_attributes_read_back_witness:
  "\<exists>c'. SetL1Attributes mem_keeper (Some \<lparr>sa_L1BlockInfo = Some info5, sa_EthTx = [0x7e]\<rparr>) ctx0 = (Ok (), c') \<and>
     GetL1BlockInfo mem_keeper c' = (Ok info5, c')"
  using l1_attributes_read_back [OF mem_kv_ok _ sizes_small(2), of "\<lparr>sa_L1BlockInfo = Some info5, sa_EthTx = [0x7e]\<rparr>" ctx0]
  by auto

theorem fee_withdrawal_takes_all_fees_witness:
  "\<exists>c'. InitiateFeeWithdrawal mem_keeper \<lparr>if_Sender = ''bob''\<rparr> ctx0 = (Ok (), c') \<and> rc_bank c' (str ''fees'') WEI = 0"
proof -
  have f: "ke_GetModuleAddress mem_keeper (ke_FeeCollectorName mem_keeper) = Some (str ''fees'')" by simp
  have a: "hx_AccAddressFromBech32 (ke_hex mem_keeper) (ke_AccString mem_keeper (str ''fees'')) = Ok (str ''fees'')"
    "\<not> hx_IsHexAddress (ke_hex mem_keeper) (ke_AccString mem_keeper (str ''fees''))"
    unfolding mem_keeper_sel unstr_str by (simp_all only: toy_hex_bob not_False_eq_True)
  have n: "100 = bv_bal mem_bank (rc_bank ctx0) (str ''fees'') WEI" "(100 :: nat) < 2 ^ 256" by simp_all
  have hex: "hexlib_ok (ke_hex mem_keeper)" by (simp add: toy_hex_ok)
  from fee_withdrawal_takes_all_fees [OF mem_bank_ok hex ctx0_reads(2) f a n, of "\<lparr>if_Sender = ''bob''\<rparr>"]
  show ?thesis by (auto simp: zero_Params_def)
qed

theorem erc20_in_and_out_witness:
  "\<exists>ev c1 c2. mintERC20 mem_keeper ''bob'' ''0xAB'' (Some 9) ctx0 = (Ok ev, c1) \<and>
     rc_bank c1 (str ''bob'') ''erc20/AB'' = 9 \<and>
     burnERC20 mem_keeper (str ''bob'') ''0xAB'' (Some 9) c1 = (Ok (), c2) \<and> rc_bank c2 = rc_bank ctx0"
proof -
  have u: "hx_AccAddressFromBech32 (ke_hex mem_keeper) ''bob'' = Ok (str ''bob'')" "\<not> bv_blocked mem_bank (str ''bob'')"
    by (simp_all add: toy_hex_bob str_inj)
  have t: "2 \<le> length ''0xAB''" "bv_valid mem_bank (''erc20/'' @ drop 2 ''0xAB'')" by (simp_all add: mem_bank_def)
  have z: "rc_bank ctx0 (str ''bob'') ''erc20/AB'' = 0" by (simp add: ctx0_def WEI_def)
  from erc20_in_and_out [OF mem_bank_ok u t, of 9 ctx0] z show ?thesis by auto
qed

end
