(* ===== verification/RollupTx.thy ===== *)
theory RollupTx
  imports RollupExamples
begin

text \<open>
  Transactions of the rollup module before they execute (\<^verbatim>\<open>x/rollup/tx\<close>): decoding, the
  ante handlers, the gas an ordinary transaction pays for its data on L1, and the gas
  meter of deposit transactions. The SDK's decoder, ante handler and gas meters and RLP
  are parameters.
\<close>

section \<open>Gas meters (internal/gas.go)\<close>

datatype 'g gas_meter = FreeInfiniteGasMeter | SdkGasMeter 'g

record 'g gaslib =
  gl_ConsumeGas :: "u64 \<Rightarrow> string \<Rightarrow> ('g, unit) op"
  gl_RefundGas :: "u64 \<Rightarrow> string \<Rightarrow> ('g, unit) op"
  gl_GasConsumed :: "'g \<Rightarrow> u64"
  gl_GasConsumedToLimit :: "'g \<Rightarrow> u64"
  gl_GasRemaining :: "'g \<Rightarrow> u64"
  gl_Limit :: "'g \<Rightarrow> u64"
  gl_IsPastLimit :: "'g \<Rightarrow> bool"
  gl_IsOutOfGas :: "'g \<Rightarrow> bool"
  gl_String :: "'g \<Rightarrow> string"

definition NewFreeInfiniteGasMeter :: "'g gas_meter" where
  "NewFreeInfiniteGasMeter = FreeInfiniteGasMeter"

fun GasConsumed :: "'g gaslib \<Rightarrow> 'g gas_meter \<Rightarrow> u64" where
  "GasConsumed G FreeInfiniteGasMeter = 0"
| "GasConsumed G (SdkGasMeter g) = gl_GasConsumed G g"

fun GasConsumedToLimit :: "'g gaslib \<Rightarrow> 'g gas_meter \<Rightarrow> u64" where
  "GasConsumedToLimit G FreeInfiniteGasMeter = 0"
| "GasConsumedToLimit G (SdkGasMeter g) = gl_GasConsumedToLimit G g"

fun GasRemaining :: "'g gaslib \<Rightarrow> 'g gas_meter \<Rightarrow> u64" where
  "GasRemaining G FreeInfiniteGasMeter = - 1"
| "GasRemaining G (SdkGasMeter g) = gl_GasRemaining G g"

fun GasLimit :: "'g gaslib \<Rightarrow> 'g gas_meter \<Rightarrow> u64" where
  "GasLimit G FreeInfiniteGasMeter = - 1"
| "GasLimit G (SdkGasMeter g) = gl_Limit G g"

fun ConsumeGas :: "'g gaslib \<Rightarrow> u64 \<Rightarrow> string \<Rightarrow> ('g gas_meter, unit) op" where
  "ConsumeGas G amount descriptor FreeInfiniteGasMeter = (Ok (), FreeInfiniteGasMeter)"
| "ConsumeGas G amount descriptor (SdkGasMeter g) = apsnd SdkGasMeter (gl_ConsumeGas G amount descriptor g)"

fun RefundGas :: "'g gaslib \<Rightarrow> u64 \<Rightarrow> string \<Rightarrow> ('g gas_meter, unit) op" where
  "RefundGas G amount descriptor FreeInfiniteGasMeter = (Ok (), FreeInfiniteGasMeter)"
| "RefundGas G amount descriptor (SdkGasMeter g) = apsnd SdkGasMeter (gl_RefundGas G amount descriptor g)"

fun IsPastLimit :: "'g gaslib \<Rightarrow> 'g gas_meter \<Rightarrow> bool" where
  "IsPastLimit G FreeInfiniteGasMeter = False"
| "IsPastLimit G (SdkGasMeter g) = gl_IsPastLimit G g"

fun IsOutOfGas :: "'g gaslib \<Rightarrow> 'g gas_meter \<Rightarrow> bool" where
  "IsOutOfGas G FreeInfiniteGasMeter = False"
| "IsOutOfGas G (SdkGasMeter g) = gl_IsOutOfGas G g"

fun GasMeter_String :: "'g gaslib \<Rightarrow> 'g gas_meter \<Rightarrow> string" where
  "GasMeter_String G FreeInfiniteGasMeter = ''FreeInfiniteGasMeter:'' @ [CHR 0x0A] @ ''  consumed: 0''"
| "GasMeter_String G (SdkGasMeter g) = gl_String G g"

section \<open>Transactions and contexts\<close>

text \<open>A transaction is a deposits transaction or the SDK's own kind.\<close>

datatype 'a sdk_tx = DepositsTxPtr DepositsTx | AuthTx 'a

record ('s, 'b, 'g) ante_ctx =
  ac_rollup :: "('s, 'b) rollup_ctx"
  ac_meter :: "'g gas_meter"

record ('a, 's, 'b, 'g, 'tx, 'blk) ante_env =
  an_GetMsgs :: "'a \<Rightarrow> msg list"
  an_authAnteHandler :: "'a \<Rightarrow> bool \<Rightarrow> (('s, 'b, 'g) ante_ctx, unit) op"
  an_rollupKeeper :: "('s, 'b, 'tx, 'blk) keeper_env option"
  an_RlpEncode :: "'a sdk_tx \<Rightarrow> bytes res"
  an_gas :: "'g gaslib"

definition onRollup :: "(('s, 'b) rollup_ctx, 'x) op \<Rightarrow> (('s, 'b, 'g) ante_ctx, 'x) op" where
  "onRollup f c = (case f (ac_rollup c) of (r, s) \<Rightarrow> (r, c\<lparr>ac_rollup := s\<rparr>))"

definition onMeter :: "('g gas_meter, 'x) op \<Rightarrow> (('s, 'b, 'g) ante_ctx, 'x) op" where
  "onMeter f c = (case f (ac_meter c) of (r, s) \<Rightarrow> (r, c\<lparr>ac_meter := s\<rparr>))"

section \<open>Deposits (deposit.go)\<close>

fun DepositAnteHandler :: "'a sdk_tx \<Rightarrow> bool \<Rightarrow> (('s, 'b, 'g) ante_ctx, unit) op" where
  "DepositAnteHandler (DepositsTxPtr d) simulate c = (Ok (), c\<lparr>ac_meter := NewFreeInfiniteGasMeter\<rparr>)"
| "DepositAnteHandler (AuthTx a) simulate c = (Ok (), c)"

definition DepositDecoder :: "bytes \<Rightarrow> 'a sdk_tx res" where
  "DepositDecoder txBytes =
     check (DepositsTx_Unmarshal txBytes zero_DepositsTx) (Errorf_v ''unmarshal deposits tx'')
       (\<lambda>depositsTx. Ok (DepositsTxPtr depositsTx))"

section \<open>The price of L1 data (l1\_data.go)\<close>

text \<open>Big integers that are never negative here are naturals.\<close>

fun addByteCosts :: "bytes \<Rightarrow> nat \<Rightarrow> nat" where
  "addByteCosts [] l1GasUsed = l1GasUsed"
| "addByteCosts (b # txBz) l1GasUsed = addByteCosts txBz (if b = 0 then l1GasUsed + 4 else l1GasUsed + 16)"

definition getL1GasUsed :: "('a sdk_tx \<Rightarrow> bytes res) \<Rightarrow> 'a sdk_tx \<Rightarrow> nat res" where
  "getL1GasUsed rlp tx =
     check (rlp tx) (Errorf_w ''failed to rlp encode tx'') (\<lambda>txBz. Ok (addByteCosts txBz (68 * 16)))"

definition L1DataAnteHandler ::
    "('a, 's, 'b, 'g, 'tx, 'blk) ante_env \<Rightarrow> 'a sdk_tx \<Rightarrow> (('s, 'b, 'g) ante_ctx, unit) op" where
  "L1DataAnteHandler A tx = (case an_rollupKeeper A of
       None \<Rightarrow> sfail (Errorf_w ''rollup keeper is required for l1 data ante handler'' (External ''internal logic error''))
     | Some rollupKeeper \<Rightarrow>
     scheck (onRollup (GetL1BlockInfo rollupKeeper)) (Errorf_w ''get l1 block info'') (\<lambda>l1BlockInfo.
     let baseFee = be_dec (l1_BaseFee l1BlockInfo); baseFeeScalar = unat (l1_BaseFeeScalar l1BlockInfo);
         blobBaseFee = be_dec (l1_BlobBaseFee l1BlockInfo);
         blobBaseFeeScalar = unat (l1_BlobBaseFeeScalar l1BlockInfo) in
     scheck (pure (getL1GasUsed (an_RlpEncode A) tx)) (Errorf_w ''get l1 gas used'') (\<lambda>l1GasUsed.
     let scaledBaseFee = baseFee * baseFeeScalar * 16;
         scaledBlobBaseFee = blobBaseFee * blobBaseFeeScalar;
         l1DataCost = l1GasUsed * (scaledBaseFee + scaledBlobBaseFee) div 16000000 in
     if \<not> l1DataCost < 2 ^ 64 then sfail (ErrorNew ''l1 data cost overflow'')
     else
     scheck (onMeter (ConsumeGas (an_gas A) (of_nat l1DataCost) ''l1 data'')) pass (\<lambda>_.
     sret ()))))"

section \<open>The handlers of an application (helpers)\<close>

definition NewAnteHandler ::
    "('o \<Rightarrow> ('a \<Rightarrow> bool \<Rightarrow> (('s, 'b, 'g) ante_ctx, unit) op) res) \<Rightarrow> ('a \<Rightarrow> msg list) \<Rightarrow> ('a sdk_tx \<Rightarrow> bytes res) \<Rightarrow>
     'g gaslib \<Rightarrow> 'o \<Rightarrow> ('s, 'b, 'tx, 'blk) keeper_env option \<Rightarrow> ('a, 's, 'b, 'g, 'tx, 'blk) ante_env res" where
  "NewAnteHandler newAuth msgs rlp gas options rollupKeeper =
     check (newAuth options) (Errorf_v ''new auth ante handler'') (\<lambda>authAnteHandler.
     Ok \<lparr>an_GetMsgs = msgs, an_authAnteHandler = authAnteHandler, an_rollupKeeper = rollupKeeper,
       an_RlpEncode = rlp, an_gas = gas\<rparr>)"

fun AnteHandle ::
    "('a, 's, 'b, 'g, 'tx, 'blk) ante_env \<Rightarrow> 'a sdk_tx \<Rightarrow> bool \<Rightarrow> (('s, 'b, 'g) ante_ctx, unit) op" where
  "AnteHandle A (DepositsTxPtr d) simulate =
     scheck (DepositAnteHandler (DepositsTxPtr d :: 'a sdk_tx) simulate) (Errorf_v ''deposit ante handle'') sret"
| "AnteHandle A (AuthTx a) simulate =
     (if list_ex isDeposit (an_GetMsgs A a) then sfail (ErrorNew ''transaction contains deposit message'')
      else
      scheck (an_authAnteHandler A a simulate) (Errorf_v ''auth ante handle'') (\<lambda>_.
      scheck (L1DataAnteHandler A (AuthTx a)) (Errorf_v ''l1 data ante handle'') (\<lambda>_.
      sret ())))"

text \<open>The decoders in turn; the first that succeeds wins.\<close>

fun decodeFirst :: "(bytes \<Rightarrow> 'a sdk_tx res) list \<Rightarrow> bytes \<Rightarrow> 'a sdk_tx res" where
  "decodeFirst [] txBytes = Err (ErrorNew ''failed to decode tx'')"
| "decodeFirst (decoder # decoders) txBytes = (case decoder txBytes of
       Ok tx \<Rightarrow> Ok tx
     | Err e \<Rightarrow> decodeFirst decoders txBytes
     | Panic p \<Rightarrow> Panic p)"

definition TxDecoder_Decode :: "(bytes \<Rightarrow> 'a sdk_tx res) \<Rightarrow> bytes \<Rightarrow> 'a sdk_tx res" where
  "TxDecoder_Decode authTxDecoder txBytes = decodeFirst [authTxDecoder, DepositDecoder] txBytes"

section \<open>Deposit messages and deposit transactions\<close>

fun tx_msgs :: "('a, 's, 'b, 'g, 'tx, 'blk) ante_env \<Rightarrow> 'a sdk_tx \<Rightarrow> msg list" where
  "tx_msgs A (DepositsTxPtr d) = GetMsgs d"
| "tx_msgs A (AuthTx a) = an_GetMsgs A a"

text \<open>
  C30: deposit messages and ordinary messages do not mix. A transaction the ante handler lets
  through either has only deposit messages, is a deposits transaction and changed nothing
  but its own gas meter, which is free; or has no deposit message at all and was accepted
  by the SDK's handler, with its signatures and fees.
\<close>

theorem ante_separates_deposits:
  fixes c c' :: "('s, 'b, 'g) ante_ctx"
  assumes run: "AnteHandle A tx simulate c = (Ok (), c')"
  shows "(\<exists>d. tx = DepositsTxPtr d \<and> list_all isDeposit (tx_msgs A tx) \<and> c' = c\<lparr>ac_meter := FreeInfiniteGasMeter\<rparr>) \<or>
    (\<exists>a c1. tx = AuthTx a \<and> \<not> list_ex isDeposit (tx_msgs A tx) \<and> an_authAnteHandler A a simulate c = (Ok (), c1) \<and>
      L1DataAnteHandler A tx c1 = (Ok (), c'))"
proof (cases tx)
  case (DepositsTxPtr d)
  then show ?thesis using run GetMsgs_deposits [of d] by (auto simp: NewFreeInfiniteGasMeter_def elim!: scheck_OkE)
next
  case (AuthTx a)
  then show ?thesis using run by (auto elim!: scheck_OkE split: if_splits)
qed

text \<open>
  C31: nothing authenticates a deposits transaction. Whatever deposits it lists, its encoding
  decodes back to it as long as the SDK's decoder refuses it, the ante handler accepts it
  in every state without asking for a signature or a fee, and no amount of work it does
  can use up its gas.
\<close>

theorem deposits_tx_needs_no_authentication:
  fixes c :: "('s, 'b, 'g) ante_ctx"
  assumes sz: "DepositsTx_Size d < 2 ^ 63" and auth: "authTxDecoder (DepositsTx_MarshalToSizedBuffer d) = Err e"
  shows "TxDecoder_Decode authTxDecoder (DepositsTx_MarshalToSizedBuffer d) = Ok (DepositsTxPtr d) \<and>
    (\<exists>c'. AnteHandle A (DepositsTxPtr d) simulate c = (Ok (), c') \<and> ac_rollup c' = ac_rollup c \<and>
      ConsumeGas G n s (ac_meter c') = (Ok (), ac_meter c') \<and> \<not> IsOutOfGas G (ac_meter c'))"
  using DepositsTx_round_trip(2) [OF sz] auth
  by (auto simp: TxDecoder_Decode_def DepositDecoder_def NewFreeInfiniteGasMeter_def)

section \<open>L1 data cost\<close>

lemma addByteCosts_eq: "addByteCosts bz n = n + 4 * length (filter (\<lambda>b. b = 0) bz) + 16 * length (filter (\<lambda>b. b \<noteq> 0) bz)"
  by (induction bz arbitrary: n) simp_all

text \<open>The reference: the Ecotone formula over the numbers of zero and non-zero bytes.\<close>

definition ecotoneRate :: "L1BlockInfo \<Rightarrow> nat" where
  "ecotoneRate info = 16 * be_dec (l1_BaseFee info) * unat (l1_BaseFeeScalar info) +
     be_dec (l1_BlobBaseFee info) * unat (l1_BlobBaseFeeScalar info)"

definition ecotoneCost :: "L1BlockInfo \<Rightarrow> bytes \<Rightarrow> nat" where
  "ecotoneCost info bz =
     (1088 + 4 * length (filter (\<lambda>b. b = 0) bz) + 16 * length (filter (\<lambda>b. b \<noteq> 0) bz)) * ecotoneRate info div 16000000"

lemma ecotone_bounds:
  "(1088 + 4 * length bz) * ecotoneRate info div 16000000 \<le> ecotoneCost info bz"
  "ecotoneCost info bz \<le> (1088 + 16 * length bz) * ecotoneRate info div 16000000"
proof -
  have len: "length bz = length (filter (\<lambda>b. b = 0) bz) + length (filter (\<lambda>b. b \<noteq> 0) bz)"
    by (rule sum_length_filter_compl [symmetric])
  show "(1088 + 4 * length bz) * ecotoneRate info div 16000000 \<le> ecotoneCost info bz"
    "ecotoneCost info bz \<le> (1088 + 16 * length bz) * ecotoneRate info div 16000000"
    unfolding ecotoneCost_def len by (intro div_le_mono mult_le_mono1; simp)+
qed

text \<open>
  C32: an ordinary transaction pays the Ecotone price for its data. The gas consumed is the
  reference formula over the bytes of its encoding and the L1 fees the module stores,
  between what all-zero and all-non-zero bytes would cost; a price that does not fit in 64
  bits is an error and consumes nothing; and what the meter answers (it panics past its
  limit) is what the handler answers.
\<close>

theorem l1_data_is_charged:
  fixes c :: "('s, 'b, 'g) ante_ctx"
  assumes k: "an_rollupKeeper A = Some K" and info: "GetL1BlockInfo K (ac_rollup c) = (Ok info, ac_rollup c)"
    and bz: "an_RlpEncode A tx = Ok bz" and m: "ac_meter c = SdkGasMeter g"
    and consume: "gl_ConsumeGas (an_gas A) (of_nat (ecotoneCost info bz)) ''l1 data'' g = (r, g')"
  shows "L1DataAnteHandler A tx c = (if ecotoneCost info bz < 2 ^ 64 then (r, c\<lparr>ac_meter := SdkGasMeter g'\<rparr>)
      else (Err (ErrorNew ''l1 data cost overflow''), c)) \<and>
    (1088 + 4 * length bz) * ecotoneRate info div 16000000 \<le> ecotoneCost info bz \<and>
    ecotoneCost info bz \<le> (1088 + 16 * length bz) * ecotoneRate info div 16000000"
proof -
  have eq: "addByteCosts bz 1088 * (be_dec (l1_BaseFee info) * unat (l1_BaseFeeScalar info) * 16 +
      be_dec (l1_BlobBaseFee info) * unat (l1_BlobBaseFeeScalar info)) div 16000000 = ecotoneCost info bz"
    unfolding addByteCosts_eq ecotoneCost_def ecotoneRate_def by (simp only: mult.commute mult.left_commute mult.assoc)
  have rd: "onRollup (GetL1BlockInfo K) c = (Ok info, c)" using info by (simp add: onRollup_def)
  have gas: "getL1GasUsed (an_RlpEncode A) tx = Ok (addByteCosts bz 1088)" using bz by (simp add: getL1GasUsed_def)
  have charge: "onMeter (ConsumeGas (an_gas A) (of_nat (ecotoneCost info bz)) ''l1 data'') c = (r, c\<lparr>ac_meter := SdkGasMeter g'\<rparr>)"
    using m consume by (simp add: onMeter_def)
  have "L1DataAnteHandler A tx c = (if ecotoneCost info bz < 2 ^ 64 then (r, c\<lparr>ac_meter := SdkGasMeter g'\<rparr>)
      else (Err (ErrorNew ''l1 data cost overflow''), c))"
    using k rd gas charge by (cases r) (simp_all add: L1DataAnteHandler_def Let_def eq)
  then show ?thesis using ecotone_bounds by blast
qed

section \<open>Examples\<close>

definition toy_gas :: "u64 gaslib" where
  "toy_gas = \<lparr>gl_ConsumeGas = (\<lambda>n d g. if g < n then (Panic (External ''out of gas''), 0) else (Ok (), g - n)),
     gl_RefundGas = (\<lambda>n d g. (Ok (), g + n)), gl_GasConsumed = (\<lambda>g. 0), gl_GasConsumedToLimit = (\<lambda>g. 0),
     gl_GasRemaining = (\<lambda>g. g), gl_Limit = (\<lambda>g. g), gl_IsPastLimit = (\<lambda>g. False), gl_IsOutOfGas = (\<lambda>g. g = 0),
     gl_String = (\<lambda>g. [])\<rparr>"

definition mem_ante :: "(msg list, bytes \<rightharpoonup> bytes, balances, u64, bool \<times> bytes, eth_header) ante_env" where
  "mem_ante = \<lparr>an_GetMsgs = (\<lambda>a. a), an_authAnteHandler = (\<lambda>a sim c. (Ok (), c)), an_rollupKeeper = Some mem_keeper,
     an_RlpEncode = (\<lambda>tx. Ok [0, 1]), an_gas = toy_gas\<rparr>"

definition fees_info :: L1BlockInfo where
  "fees_info = zero_L1BlockInfo\<lparr>l1_BaseFee := [1, 0, 0], l1_BaseFeeScalar := 16\<rparr>"

definition ante0 :: "(bytes \<rightharpoonup> bytes, balances, u64) ante_ctx" where
  "ante0 = \<lparr>ac_rollup = ctx0\<lparr>rc_store := [L1BlockInfoKey \<mapsto> L1BlockInfo_MarshalToSizedBuffer fees_info]\<rparr>,
     ac_meter = SdkGasMeter 5000\<rparr>"

lemma ante0_info: "GetL1BlockInfo mem_keeper (ac_rollup ante0) = (Ok fees_info, ac_rollup ante0)"
proof -
  have "L1BlockInfo_Size fees_info \<le> 1000"
    using sizeField_le(3) [of "Suc (Suc (Suc 0))"] sizeField_le(1) [of 16]
    by (simp add: L1BlockInfo_Size_def fees_info_def zero_L1BlockInfo_def sizeBytesField_def [of 0] sizeVarintField_def [of 0])
  then have "L1BlockInfo_Unmarshal (L1BlockInfo_MarshalToSizedBuffer fees_info) zero_L1BlockInfo = Ok fees_info"
    by (intro L1BlockInfo_round_trip) simp
  then show ?thesis by (simp add: GetL1BlockInfo_def mem_keeper_def ante0_def orNil_def scheck_def)
qed

lemma fees_cost: "ecotoneCost fees_info [0, 1] = 1161"
  by (simp add: ecotoneCost_def ecotoneRate_def fees_info_def zero_L1BlockInfo_def)

theorem l1_data_is_charged_witness:
  "L1DataAnteHandler mem_ante (AuthTx []) ante0 = (Ok (), ante0\<lparr>ac_meter := SdkGasMeter 3839\<rparr>)"
proof -
  have "an_rollupKeeper mem_ante = Some mem_keeper" "an_RlpEncode mem_ante (AuthTx []) = Ok [0, 1]"
    "ac_meter ante0 = SdkGasMeter 5000"
    "gl_ConsumeGas (an_gas mem_ante) (of_nat (ecotoneCost fees_info [0, 1])) ''l1 data'' 5000 = (Ok (), 3839)"
    unfolding fees_cost by (simp_all add: mem_ante_def ante0_def toy_gas_def)
  from l1_data_is_charged [OF this(1) ante0_info this(2-4)] show ?thesis by (simp add: fees_cost)
qed

theorem ante_separates_deposits_witness:
  "\<exists>c'. AnteHandle mem_ante (AuthTx [InitiateWithdrawalMsg (withdrawal_msg 30 [])]) False ante0 = (Ok (), c') \<and>
     \<not> list_ex isDeposit (tx_msgs mem_ante (AuthTx [InitiateWithdrawalMsg (withdrawal_msg 30 [])])) \<and>
     L1DataAnteHandler mem_ante (AuthTx [InitiateWithdrawalMsg (withdrawal_msg 30 [])]) ante0 = (Ok (), c')"
proof -
  let ?tx = "AuthTx [InitiateWithdrawalMsg (withdrawal_msg 30 [])] :: msg list sdk_tx"
  have l1: "L1DataAnteHandler mem_ante ?tx ante0 = (Ok (), ante0\<lparr>ac_meter := SdkGasMeter 3839\<rparr>)"
    using ante0_info fees_cost
    by (simp add: L1DataAnteHandler_def mem_ante_def onRollup_def onMeter_def getL1GasUsed_def scheck_def Let_def
        fees_info_def ante0_def toy_gas_def zero_L1BlockInfo_def)
  then have "AnteHandle mem_ante ?tx False ante0 = (Ok (), ante0\<lparr>ac_meter := SdkGasMeter 3839\<rparr>)"
    by (simp add: mem_ante_def)
  from ante_separates_deposits [OF this] this l1 show ?thesis by auto
qed

theorem deposits_tx_needs_no_authentication_witness:
  "TxDecoder_Decode (\<lambda>b. Err (External ''no tx'')) (DepositsTx_MarshalToSizedBuffer toy_deposits) =
     (Ok (DepositsTxPtr toy_deposits) :: msg list sdk_tx res) \<and>
   (\<exists>c'. AnteHandle mem_ante (DepositsTxPtr toy_deposits) False ante0 = (Ok (), c') \<and>
     ConsumeGas toy_gas 1000000 ''work'' (ac_meter c') = (Ok (), ac_meter c'))"
  using deposits_tx_needs_no_authentication [OF toy_deposits_size, where authTxDecoder = "\<lambda>b. Err (External ''no tx'')" and
      e = "External ''no tx''" and A = mem_ante and simulate = False and c = ante0 and G = toy_gas and n = 1000000 and s = "''work''"]
  by blast

end
