(* ===== verification/EndToEnd.thy ===== *)
theory EndToEnd
  imports RollupTx
begin

text \<open>
  Deposits and withdrawals across the components they pass through. A deposit goes from the
  payload attributes through the adapters, the codec of deposits transactions, the decoder
  and ante handler into the keeper; a withdrawal from the keeper's events through the
  builder into the EVM. The theory holds the definitions and lemmas of the two paths; the
  properties that span them are in the root theory.
\<close>

section \<open>Delivering a transaction\<close>

text \<open>
  The SDK hands the messages of a transaction to their handlers in order and stops at the
  first one that fails.
\<close>

fun deliverMsgs :: "('s, 'b, 'tx, 'blk) keeper_env \<Rightarrow> msg list \<Rightarrow> (('s, 'b) rollup_ctx, unit) op" where
  "deliverMsgs K [] = sret ()"
| "deliverMsgs K (m # ms) = scheck (handleMsg K m) pass (\<lambda>_. deliverMsgs K ms)"

text \<open>
  A deposit of \<open>m\<close> wei from \<open>from\<close>, of which \<open>v\<close> go to \<open>to\<close>: a deposit transaction that is not from
  the cross-domain messenger, between accounts that may receive coins.
\<close>

record deposit =
  ds_from :: address
  ds_to :: address
  ds_mint :: nat
  ds_value :: nat

definition userDeposit ::
    "('s, 'b, 'tx, 'blk) keeper_env \<Rightarrow> 'b bankview \<Rightarrow> L1BlockInfo \<Rightarrow> Params \<Rightarrow> bytes \<Rightarrow> deposit \<Rightarrow> bool" where
  "userDeposit K V info p bz d \<longleftrightarrow> (\<exists>tx. el_UnmarshalBinary (ke_eth K) bz = Ok tx \<and> el_IsDepositTx (ke_eth K) tx \<and>
     \<not> dp_IsSystemTx (ke_dep K) tx \<and> dp_To (ke_dep K) tx = Some (ds_to d) \<and>
     dp_Mint (ke_dep K) tx = Some (ds_mint d) \<and> dp_Value (ke_dep K) tx = Some (ds_value d) \<and>
     dp_Sender (ke_dep K) (NewChainConfig (dp_ChainId (ke_dep K) tx)) (unat (l1_Number info)) (l1_Time info) tx = Ok (ds_from d)) \<and>
     ds_value d \<le> ds_mint d \<and> ds_mint d < 2 ^ 256 \<and>
     \<not> bv_blocked V (address_Bytes (ds_to d)) \<and> \<not> bv_blocked V (address_Bytes (ds_from d)) \<and>
     ds_from d \<noteq> br_ApplyL1ToL2Alias (ke_bridge K) (hx_HexToAddress (ke_hex K) (unstr (p_L1CrossDomainMessenger p)))"

text \<open>What the deposits of a block do to the balances.\<close>

definition creditDeposit :: "deposit \<Rightarrow> balances \<Rightarrow> balances" where
  "creditDeposit d bal = addWei (address_Bytes (ds_from d)) (ds_mint d - ds_value d)
     (addWei (address_Bytes (ds_to d)) (ds_value d) bal)"

definition creditDeposits :: "deposit list \<Rightarrow> balances \<Rightarrow> balances" where
  "creditDeposits ds = fold creditDeposit ds"

section \<open>The keeper's side of the deposits\<close>

lemma store_reads:
  assumes "rc_store c' = rc_store c"
  shows "GetL1BlockInfo K c = (r, c) \<Longrightarrow> GetL1BlockInfo K c' = (r, c')"
    and "GetParams K c = (r', c) \<Longrightarrow> GetParams K c' = (r', c')"
  using assms by (auto simp: GetL1BlockInfo_def GetParams_def scheck_def split: prod.splits res.splits)

lemma deliver_deposit:
  fixes c :: "('s, 'b) rollup_ctx"
  assumes ok: "bank_ok K V" and sdk: "sdk_ok K" and info: "GetL1BlockInfo K c = (Ok info, c)"
    and p: "GetParams K c = (Ok p, c)" and d: "userDeposit K V info p (ud_Tx u) d"
  shows "\<exists>c'. ApplyUserDeposit K u c = (Ok (), c') \<and> rc_store c' = rc_store c \<and>
    bv_bal V (rc_bank c') = creditDeposit d (bv_bal V (rc_bank c))"
proof -
  from d obtain tx where tx: "el_UnmarshalBinary (ke_eth K) (ud_Tx u) = Ok tx" "\<not> dp_IsSystemTx (ke_dep K) tx"
      "dp_To (ke_dep K) tx = Some (ds_to d)" "dp_Mint (ke_dep K) tx = Some (ds_mint d)"
      "dp_Value (ke_dep K) tx = Some (ds_value d)"
    and sndr: "dp_Sender (ke_dep K) (NewChainConfig (dp_ChainId (ke_dep K) tx)) (unat (l1_Number info)) (l1_Time info) tx = Ok (ds_from d)"
    unfolding userDeposit_def by blast
  have rest: "ds_value d \<le> ds_mint d" "ds_mint d < 2 ^ 256" "\<not> bv_blocked V (address_Bytes (ds_to d))"
      "\<not> bv_blocked V (address_Bytes (ds_from d))"
      "ds_from d \<noteq> br_ApplyL1ToL2Alias (ke_bridge K) (hx_HexToAddress (ke_hex K) (unstr (p_L1CrossDomainMessenger p)))"
    using d unfolding userDeposit_def by blast+
  from deposit_credits_the_mint [OF ok sdk tx rest(1,2) info sndr rest(3,4) p rest(5)]
  show ?thesis unfolding creditDeposit_def by blast
qed

lemma deliver_deposits:
  fixes c :: "('s, 'b) rollup_ctx"
  assumes ok: "bank_ok K V" and sdk: "sdk_ok K" and info: "GetL1BlockInfo K c = (Ok info, c)"
    and p: "GetParams K c = (Ok p, c)" and ds: "list_all2 (userDeposit K V info p) (map ud_Tx us) ds"
  shows "\<exists>c'. deliverMsgs K (map ApplyUserDepositMsg us) c = (Ok (), c') \<and> rc_store c' = rc_store c \<and>
    bv_bal V (rc_bank c') = creditDeposits ds (bv_bal V (rc_bank c))"
  using info p ds
proof (induction us arbitrary: c ds)
  case Nil
  then show ?case by (simp add: creditDeposits_def)
next
  case (Cons u us)
  then obtain d ds' where d: "ds = d # ds'" "userDeposit K V info p (ud_Tx u) d"
      "list_all2 (userDeposit K V info p) (map ud_Tx us) ds'" by (auto simp: list_all2_Cons1)
  obtain c1 where c1: "ApplyUserDeposit K u c = (Ok (), c1)" "rc_store c1 = rc_store c"
      "bv_bal V (rc_bank c1) = creditDeposit d (bv_bal V (rc_bank c))"
    using deliver_deposit [OF ok sdk Cons.prems(1,2) d(2)] by blast
  from Cons.IH [OF store_reads(1) [OF c1(2) Cons.prems(1)] store_reads(2) [OF c1(2) Cons.prems(2)] d(3)]
  show ?case using c1 d(1) by (auto simp: creditDeposits_def)
qed

section \<open>From the payload to the deposits transaction\<close>

text \<open>The deposits at the head of a payload are the user deposits the adapter collects.\<close>

lemma userDeposits_prefix:
  assumes "list_all (\<lambda>b. \<exists>t. el_UnmarshalBinary L b = Ok t \<and> el_IsDepositTx L t) deps"
    and "\<forall>b \<in> set rest. \<forall>t. el_UnmarshalBinary L b = Ok t \<longrightarrow> \<not> el_IsDepositTx L t"
    and "userDeposits L (deps @ rest) = Ok ds"
  shows "map ud_Tx ds = deps"
  using assms
proof (induction deps arbitrary: ds)
  case Nil
  then show ?case by (cases rest) (auto elim!: check_OkE)
next
  case (Cons b deps)
  then show ?case by (auto elim!: check_OkE)
qed

lemma userDeposit_is_deposit:
  "list_all2 (userDeposit K V info p) deps ds \<Longrightarrow>
   list_all (\<lambda>b. \<exists>t. el_UnmarshalBinary (ke_eth K) b = Ok t \<and> el_IsDepositTx (ke_eth K) t) deps"
  by (induction rule: list_all2_induct) (auto simp: userDeposit_def)

lemma l1_info_fits:
  assumes "DepositsTx_Size m < 2 ^ 63" and "dt_L1Attributes m = Some a" and "sa_L1BlockInfo a = Some info"
  shows "L1BlockInfo_Size info < 2 ^ 63"
proof -
  have "MsgSetL1Attributes_Size a < 2 ^ 63"
    using assms(1,2) sizeMsgField_less [of "MsgSetL1Attributes_Size a"] by (simp add: DepositsTx_Size_def)
  then show ?thesis
    using assms(3) sizeMsgField_less [of "L1BlockInfo_Size info"] by (simp add: MsgSetL1Attributes_Size_def)
qed

text \<open>Executing a deposits transaction that fits: the L1 info is stored, the deposits are credited.\<close>

lemma deliver_deposits_tx:
  fixes c :: "('s, 'b) rollup_ctx"
  assumes ok: "bank_ok K V" and sdk: "sdk_ok K" and kv: "kv_ok K view" and sz: "DepositsTx_Size m < 2 ^ 63"
    and a: "dt_L1Attributes m = Some a" "sa_L1BlockInfo a = Some info" and p: "GetParams K c = (Ok p, c)"
    and ds: "list_all2 (userDeposit K V info p) (map ud_Tx (dt_UserDeposits m)) ds"
  shows "\<exists>c'. deliverMsgs K (GetMsgs m) c = (Ok (), c') \<and> GetL1BlockInfo K c' = (Ok info, c') \<and>
    GetParams K c' = (Ok p, c') \<and> bv_bal V (rc_bank c') = creditDeposits ds (bv_bal V (rc_bank c))"
proof -
  obtain s where s: "SetL1BlockInfo K info c = (Ok (), c\<lparr>rc_store := s\<rparr>)"
      "GetL1BlockInfo K (c\<lparr>rc_store := s\<rparr>) = (Ok info, c\<lparr>rc_store := s\<rparr>)"
      "GetParams K (c\<lparr>rc_store := s\<rparr>) = (Ok p, c\<lparr>rc_store := s\<rparr>)"
    using module_store.put_independent [where view = view, OF kv l1_info_fits [OF sz a], of c] p by auto
  obtain c' where c': "deliverMsgs K (map ApplyUserDepositMsg (dt_UserDeposits m)) (c\<lparr>rc_store := s\<rparr>) = (Ok (), c')"
      "rc_store c' = s" "bv_bal V (rc_bank c') = creditDeposits ds (bv_bal V (rc_bank c))"
    using deliver_deposits [OF ok sdk s(2,3) ds] by auto
  have "deliverMsgs K (GetMsgs m) c = (Ok (), c')"
    using s(1) a c'(1) by (simp add: GetMsgs_def SetL1Attributes_def)
  then show ?thesis using c'(2,3) store_reads(1) [OF _ s(2)] store_reads(2) [OF _ s(3)] by simp
qed

section \<open>From the keeper's events to the EVM\<close>

text \<open>
  The SDK puts the events of a message into the transaction's result behind those of the
  ante handler, and marks each with the message's index.
\<close>

definition markEvent :: "string \<Rightarrow> event \<Rightarrow> event" where
  "markEvent ix e = e\<lparr>e_Attributes := e_Attributes e @ [(''msg_index'', ix)]\<rparr>"

lemma parse_markEvent: "parseWithdrawalEventAttributes X (markEvent ix e) = parseWithdrawalEventAttributes X e"
  by (cases "parseAttributes X (e_Attributes e) empty_withdrawal")
     (simp_all add: markEvent_def parseWithdrawalEventAttributes_def parseAttributes_append parseAttribute_def attribute_defs pass_def)

lemma find_shift: "findWithdrawalEvent (Suc i) es = map_option Suc (findWithdrawalEvent i es)"
  by (induction es arbitrary: i) simp_all

lemma find_behind:
  "\<forall>e \<in> set pre. e_Type e \<noteq> EventTypeWithdrawalInitiated \<Longrightarrow>
   findWithdrawalEvent i (pre @ es) = findWithdrawalEvent (i + length pre) es"
  by (induction pre arbitrary: i) simp_all

lemma find_marked: "findWithdrawalEvent i (map (markEvent ix) es) = findWithdrawalEvent i es"
  by (induction es arbitrary: i) (simp_all add: markEvent_def)

lemma find_prefix: "findWithdrawalEvent i es = Some j \<Longrightarrow> findWithdrawalEvent i (es @ fs) = Some j"
  by (induction es arbitrary: i) (auto split: if_splits)

lemma find_add: "findWithdrawalEvent (i + n) es = map_option (\<lambda>j. j + n) (findWithdrawalEvent i es)"
  by (induction n) (simp_all add: find_shift option.map_comp option.map_ident comp_def)

text \<open>The builder finds and reads a message's withdrawal event inside the transaction's result.\<close>

lemma result_event:
  assumes r: "x_Events r = pre @ map (markEvent ix) es @ post"
    and pre: "\<forall>e \<in> set pre. e_Type e \<noteq> EventTypeWithdrawalInitiated" and i: "findWithdrawalEvent 0 es = Some i"
  shows "findWithdrawalEvent 0 (x_Events r) = Some (i + length pre)"
    and "parseWithdrawalEventAttributes X (x_Events r ! (i + length pre)) = parseWithdrawalEventAttributes X (es ! i)"
proof -
  have len: "i < length es" using findWithdrawalEvent_Some [OF i] by simp
  have "findWithdrawalEvent 0 (x_Events r) = findWithdrawalEvent (length pre) (map (markEvent ix) es @ post)"
    using r find_behind [OF pre, of 0] by simp
  also have "\<dots> = Some (i + length pre)"
    using find_add [of 0 "length pre" es] i by (intro find_prefix) (simp add: find_marked)
  finally show "findWithdrawalEvent 0 (x_Events r) = Some (i + length pre)" .
  have "x_Events r ! (i + length pre) = markEvent ix (es ! i)" using r len by (simp add: nth_append)
  then show "parseWithdrawalEventAttributes X (x_Events r ! (i + length pre)) = parseWithdrawalEventAttributes X (es ! i)"
    by (simp add: parse_markEvent)
qed

section \<open>A payload and a withdrawal in memory\<close>

definition example_payload_tx :: DepositsTx where
  "example_payload_tx = \<lparr>dt_L1Attributes = Some (l1AttributesMsg toy_info [0x7e, 1]), dt_UserDeposits = [deposit_msg [0x7e, 5, 3]]\<rparr>"

definition example_deposit :: deposit where
  "example_deposit = \<lparr>ds_from = 9, ds_to = 7, ds_mint = 5, ds_value = 3\<rparr>"

lemma example_payload_size: "DepositsTx_Size example_payload_tx < 2 ^ 63"
  using toy_attributes_size sizeField_le(3) [of "Suc (Suc (Suc 0))"] sizeField_le(2) [of "sizeBytesField (Suc (Suc (Suc 0)))"]
    sizeField_le(2) [of "MsgSetL1Attributes_Size (l1AttributesMsg toy_info [0x7e, 1])"]
  by (simp add: DepositsTx_Size_def example_payload_tx_def MsgApplyUserDeposit_Size_def deposit_msg_def)

lemma example_adapt: "AdaptPayloadTxsToCosmosTxs toy_eth now ([0x7e, 1] # [[0x7e, 5, 3]] @ [[2, 9]]) =
    Ok [DepositsTx_MarshalToSizedBuffer example_payload_tx, [9]]"
  using DepositsTx_round_trip(1) [OF example_payload_size]
  by (simp add: AdaptPayloadTxsToCosmosTxs_def toy_eth_def example_payload_tx_def DepositTxType_def Let_def deposit_msg_def)

lemma example_userDeposit: "userDeposit mem_keeper mem_bank info zero_Params [0x7e, 5, 3] example_deposit"
  using address_not_rollup
  by (simp add: userDeposit_def example_deposit_def toy_eth_def toy_dep_def)
     (simp add: mem_keeper_def toy_bridge_def toy_hex_def zero_Params_def unstr_def dec_value_def)

lemma ante0_params: "GetParams mem_keeper (ac_rollup ante0) = (Ok zero_Params, ac_rollup ante0)"
proof -
  have "ke_Get mem_keeper (rc_store (ac_rollup ante0)) ParamsKey = Ok None"
    using keys_differ by (simp add: mem_keeper_def ante0_def)
  then show ?thesis by (simp add: GetParams_def orNil_def unmarshal_nil scheck_def)
qed

lemma example_evm:
  "InitiateWithdrawal toy_evm (toy_executer h) \<lparr>wd_Sender = Some x, wd_Target = Some y, wd_Value = Some 30,
     wd_GasLimit = Some g, wd_Data = b\<rparr> s = (Ok (), s @ [(x, 30, 0 # b)])"
  by (simp add: NewEVM_def toy_evm_def toy_executer_def InitiateWithdrawal_def Executer_Call_def getCallParams_def
      dataCall_def toy_call_def scheck_def)

end
