(* ===== verification/RollupModule.thy ===== *)
theory RollupModule
  imports RollupExamples
begin

text \<open>
  The rollup module as the application sees it (\<^verbatim>\<open>x/rollup/module.go\<close>): its genesis in JSON,
  its authority and the signers of its deposit messages. The JSON codec is a parameter.
\<close>

section \<open>The module\<close>

record genesis_codec =
  gc_MarshalJSON :: "GenesisState \<Rightarrow> bytes res"
  gc_UnmarshalJSON :: "bytes \<Rightarrow> GenesisState res"

text \<open>The \<^verbatim>\<open>Must\<close> variants panic instead of returning an error.\<close>

definition must :: "'x res \<Rightarrow> 'x res" where
  "must r = (case r of Err e \<Rightarrow> Panic e | r \<Rightarrow> r)"

definition AppModule_Name :: string where "AppModule_Name = ModuleName"
definition AppModule_QuerierRoute :: string where "AppModule_QuerierRoute = QuerierRoute"
definition ConsensusVersion :: u64 where "ConsensusVersion = 2"

definition AppModule_DefaultGenesis :: "genesis_codec \<Rightarrow> bytes res" where
  "AppModule_DefaultGenesis J = must (gc_MarshalJSON J DefaultGenesisState)"

definition AppModule_ValidateGenesis :: "genesis_codec \<Rightarrow> hexlib \<Rightarrow> bytes \<Rightarrow> unit res" where
  "AppModule_ValidateGenesis J X bz =
     check (gc_UnmarshalJSON J bz) (Errorf_w ''failed to unmarshal genesis state'') (\<lambda>data. ValidateGenesis X data)"

definition AppModule_InitGenesis ::
    "genesis_codec \<Rightarrow> ('s, 'b, 'tx, 'blk) keeper_env \<Rightarrow> bytes \<Rightarrow> (('s, 'b) rollup_ctx, unit) op" where
  "AppModule_InitGenesis J K data =
     scheck (pure (must (gc_UnmarshalJSON J data))) pass (\<lambda>genesisState. InitGenesis K genesisState)"

definition AppModule_ExportGenesis ::
    "genesis_codec \<Rightarrow> ('s, 'b, 'tx, 'blk) keeper_env \<Rightarrow> (('s, 'b) rollup_ctx, bytes) op" where
  "AppModule_ExportGenesis J K = scheck (ExportGenesis K) pass (\<lambda>gs. pure (must (gc_MarshalJSON J gs)))"

text \<open>The authority is the governance module's address unless the configuration names one.\<close>

definition moduleAuthority :: "(string \<Rightarrow> bytes) \<Rightarrow> (string \<Rightarrow> bytes) \<Rightarrow> string \<Rightarrow> string \<Rightarrow> bytes" where
  "moduleAuthority NewModuleAddress NewModuleAddressOrBech32Address govName configured =
     (if configured \<noteq> '''' then NewModuleAddressOrBech32Address configured else NewModuleAddress govName)"

definition ProvideModule ::
    "('s, 'b, 'tx, 'blk) keeper_env \<Rightarrow> (string \<Rightarrow> bytes) \<Rightarrow> (string \<Rightarrow> bytes) \<Rightarrow> string \<Rightarrow> string \<Rightarrow>
     ('s, 'b, 'tx, 'blk) keeper_env" where
  "ProvideModule K newAddr newAddrOrBech32 govName configured =
     K\<lparr>ke_authority := moduleAuthority newAddr newAddrOrBech32 govName configured\<rparr>"

text \<open>Deposit messages have no signers.\<close>

definition depositSigners :: "msg \<Rightarrow> bytes list res" where
  "depositSigners m = Ok []"

section \<open>Properties\<close>

text \<open>Forty hexadecimal digits behind the prefix are an address.\<close>

definition hexaddr_ok :: "hexlib \<Rightarrow> bool" where
  "hexaddr_ok X \<longleftrightarrow> (\<forall>ds. length ds = 40 \<and> set ds \<subseteq> set ''0123456789abcdefABCDEF'' \<longrightarrow> hx_IsHexAddress X (''0x'' @ ds))"

lemma default_genesis_valid:
  assumes "hexaddr_ok X"
  shows "ValidateGenesis X DefaultGenesisState = Ok ()"
proof -
  have "hx_IsHexAddress X ''0x000000000000000000000000000000000000dEaD''"
    "hx_IsHexAddress X ''0x3d609De69E066F85C38AC274e3EeC251EcfDeAa1''"
    "hx_IsHexAddress X ''0x9D34A2610Ea283f6d9AE29f9Cad82e00c4d38507''"
    using assms [unfolded hexaddr_ok_def, rule_format, of "''000000000000000000000000000000000000dEaD''"]
      assms [unfolded hexaddr_ok_def, rule_format, of "''3d609De69E066F85C38AC274e3EeC251EcfDeAa1''"]
      assms [unfolded hexaddr_ok_def, rule_format, of "''9D34A2610Ea283f6d9AE29f9Cad82e00c4d38507''"]
    by simp_all
  then show ?thesis
    by (simp add: ValidateGenesis_def Params_Validate_def validateEthAddress_def DefaultGenesisState_def NewGenesisState_def
        DefaultParams_def unstr_str del: str_Cons str_Nil)
qed

text \<open>
  The module's genesis comes back. A genesis state that was initialised from its JSON is
  exported as the same JSON, its parameters are what the query server answers, and no
  balance changes; the default genesis state passes the module's own validation.
\<close>

theorem module_genesis_round_trip:
  fixes c :: "('s, 'b) rollup_ctx"
  assumes kv: "kv_ok K view" and json: "gc_MarshalJSON J g = Ok bz" "gc_UnmarshalJSON J bz = Ok g"
    and sz: "Params_Size (gs_Params g) < 2 ^ 63" and hex: "hexaddr_ok X"
  shows "\<exists>c'. AppModule_InitGenesis J K bz c = (Ok (), c') \<and> AppModule_ExportGenesis J K c' = (Ok bz, c') \<and>
    Query_Params K (Some ()) c' = (Ok (gs_Params g), c') \<and> rc_bank c' = rc_bank c \<and>
    (g = DefaultGenesisState \<longrightarrow> AppModule_DefaultGenesis J = Ok bz \<and> AppModule_ValidateGenesis J X bz = Ok ())"
proof -
  obtain c' where c': "SetParams K (gs_Params g) c = (Ok (), c')" "rc_bank c' = rc_bank c"
    "GetParams K c' = (Ok (gs_Params g), c')" using SetParams_GetParams [OF kv sz] by blast
  have "NewGenesisState (gs_Params g) = g" by (simp add: NewGenesisState_def)
  then show ?thesis using c' json default_genesis_valid [OF hex]
    by (auto simp: AppModule_InitGenesis_def AppModule_ExportGenesis_def InitGenesis_def ExportGenesis_def orPanic_def
        Query_Params_def must_def AppModule_DefaultGenesis_def AppModule_ValidateGenesis_def scheck_def)
qed

definition toy_codec :: genesis_codec where
  "toy_codec = \<lparr>gc_MarshalJSON = (\<lambda>g. Params_Marshal (gs_Params g)),
     gc_UnmarshalJSON = (\<lambda>b. check (Params_Unmarshal b zero_Params) pass (\<lambda>p. Ok (NewGenesisState p)))\<rparr>"

lemma DefaultParams_size: "Params_Size DefaultParams < 2 ^ 63"
proof -
  have len: "length (p_L1FeeRecipient DefaultParams) = 42" "length (p_L1CrossDomainMessenger DefaultParams) = 42"
    "length (p_L1StandardBridge DefaultParams) = 42" by (simp_all add: DefaultParams_def str_def)
  have "Params_Size DefaultParams \<le> 1000"
    using sizeField_le(3) [of 42] sizeField_le(1) [of "p_MinFeeWithdrawalAmount DefaultParams"]
      sizeField_le(1) [of "p_FeeWithdrawalGasLimit DefaultParams"] by (simp add: Params_Size_def len)
  then show ?thesis by simp
qed

theorem module_genesis_round_trip_witness:
  "\<exists>bz c'. AppModule_InitGenesis toy_codec mem_keeper bz ctx0 = (Ok (), c') \<and>
     AppModule_ExportGenesis toy_codec mem_keeper c' = (Ok bz, c') \<and>
     Query_Params mem_keeper (Some ()) c' = (Ok DefaultParams, c') \<and> AppModule_DefaultGenesis toy_codec = Ok bz"
proof -
  let ?bz = "Params_MarshalToSizedBuffer DefaultParams"
  have rt: "Params_Unmarshal ?bz zero_Params = Ok DefaultParams"
    unfolding Params_Unmarshal_def by (rule decodes_all [OF Params_decodes]) (use DefaultParams_size in simp)
  have json: "gc_MarshalJSON toy_codec DefaultGenesisState = Ok ?bz" "gc_UnmarshalJSON toy_codec ?bz = Ok DefaultGenesisState"
    using rt by (simp_all add: toy_codec_def DefaultGenesisState_def NewGenesisState_def Params_Marshal_def)
  have sz: "Params_Size (gs_Params DefaultGenesisState) < 2 ^ 63"
    using DefaultParams_size by (simp add: DefaultGenesisState_def NewGenesisState_def)
  have hex: "hexaddr_ok (toy_hex\<lparr>hx_IsHexAddress := \<lambda>s. True\<rparr>)" by (simp add: hexaddr_ok_def)
  from module_genesis_round_trip [OF mem_kv_ok json sz hex, of ctx0]
  show ?thesis by (auto simp: DefaultGenesisState_def NewGenesisState_def)
qed

end
