(* ===== verification/RollupWire.thy ===== *)
theory RollupWire
  imports RollupTypes
begin

text \<open>
  The messages that users, governance and genesis send to the rollup module, on the wire
  (\<^verbatim>\<open>x/rollup/types/tx.pb.go\<close>, \<^verbatim>\<open>genesis.pb.go\<close>, \<^verbatim>\<open>query.pb.go\<close>): the two withdrawals, the fee
  withdrawal, the parameter update, the genesis state and the answers of the query service.
  An encoding that reads back is the interface \<open>wire_message\<close>, interpreted for every message
  of the module, those of \<open>RollupProto\<close> included. The registered type names tell which
  message a transaction holds.
\<close>

section \<open>Cosmos SDK integers\<close>

text \<open>
  \<^verbatim>\<open>cosmossdk.io/math.Int\<close> writes itself: \<^verbatim>\<open>Size\<close>, the bytes that \<^verbatim>\<open>MarshalTo\<close> copies to the start
  of the slice it is given, and \<^verbatim>\<open>Unmarshal\<close> over the old value. It is documented to hold up
  to 256 bits and to read back what it wrote.
\<close>

record mathint_lib =
  mi_Size :: "int option \<Rightarrow> nat"
  mi_MarshalTo :: "int option \<Rightarrow> bytes res"
  mi_Unmarshal :: "bytes \<Rightarrow> int option \<Rightarrow> int option res"

definition in_256_bits :: "int option \<Rightarrow> bool" where
  "in_256_bits v = (case v of None \<Rightarrow> False | Some i \<Rightarrow> \<bar>i\<bar> < 2 ^ 256)"

definition mathint_ok :: "mathint_lib \<Rightarrow> bool" where
  "mathint_ok M \<longleftrightarrow> (\<forall>v. in_256_bits v \<longrightarrow> (\<exists>bs. mi_MarshalTo M v = Ok bs \<and>
     length bs = mi_Size M v \<and> (\<forall>old. mi_Unmarshal M bs old = Ok v)))"

text \<open>
  An integer field: \<^verbatim>\<open>size\<close> bytes are reserved before the bytes \<open>d\<close> already written, and \<^verbatim>\<open>MarshalTo\<close>
  copies into the buffer from there.
\<close>

definition copyTo :: "bytes \<Rightarrow> bytes \<Rightarrow> bytes" where
  "copyTo buf bs = take (length buf) bs @ drop (length bs) buf"

definition putIntField :: "mathint_lib \<Rightarrow> byte \<Rightarrow> int option \<Rightarrow> bytes \<Rightarrow> bytes res" where
  "putIntField M tag v d =
     (let size = mi_Size M v in
      check (mi_MarshalTo M v) pass (\<lambda>bs.
      Ok ([tag] @ encodeVarint (of_nat size) @ copyTo (replicate size 0 @ d) bs)))"

abbreviation FString :: "(string \<Rightarrow> 'm \<Rightarrow> 'm) \<Rightarrow> 'm fld" where
  "FString put \<equiv> FBytes (\<lambda>b. put (unstr b))"

abbreviation FInt :: "mathint_lib \<Rightarrow> ('m \<Rightarrow> int option) \<Rightarrow> (int option \<Rightarrow> 'm \<Rightarrow> 'm) \<Rightarrow> 'm fld" where
  "FInt M get put \<equiv> FMsg (\<lambda>b m. check (mi_Unmarshal M b (get m)) pass (\<lambda>v. Ok (put v m)))"

section \<open>MsgInitiateWithdrawal\<close>

definition zero_MsgInitiateWithdrawal :: MsgInitiateWithdrawal where
  "zero_MsgInitiateWithdrawal = \<lparr>iw_Sender = [], iw_Target = [], iw_Value = None, iw_GasLimit = [], iw_Data = []\<rparr>"

definition MsgInitiateWithdrawal_MarshalToSizedBuffer :: "mathint_lib \<Rightarrow> MsgInitiateWithdrawal \<Rightarrow> bytes res" where
  "MsgInitiateWithdrawal_MarshalToSizedBuffer M m =
     check (putIntField M 0x1a (iw_Value m)
       (putBytesField 0x22 (iw_GasLimit m) (putBytesField 0x2a (iw_Data m) []))) pass (\<lambda>d.
     Ok (putBytesField 0x0a (str (iw_Sender m)) (putBytesField 0x12 (str (iw_Target m)) d)))"

definition MsgInitiateWithdrawal_Size :: "mathint_lib \<Rightarrow> MsgInitiateWithdrawal \<Rightarrow> nat" where
  "MsgInitiateWithdrawal_Size M m =
     sizeBytesField (length (iw_Sender m)) + sizeBytesField (length (iw_Target m)) +
     sizeMsgField (mi_Size M (iw_Value m)) + sizeBytesField (length (iw_GasLimit m)) +
     sizeBytesField (length (iw_Data m))"

definition MsgInitiateWithdrawal_Marshal :: "mathint_lib \<Rightarrow> MsgInitiateWithdrawal \<Rightarrow> bytes res" where
  "MsgInitiateWithdrawal_Marshal M m =
     check (MsgInitiateWithdrawal_MarshalToSizedBuffer M m) pass (marshalSized (MsgInitiateWithdrawal_Size M m))"

fun MsgInitiateWithdrawal_fields :: "mathint_lib \<Rightarrow> nat \<Rightarrow> MsgInitiateWithdrawal fld option" where
  "MsgInitiateWithdrawal_fields M n =
     (if n = 1 then Some (FString (\<lambda>s m. m\<lparr>iw_Sender := s\<rparr>))
      else if n = 2 then Some (FString (\<lambda>s m. m\<lparr>iw_Target := s\<rparr>))
      else if n = 3 then Some (FInt M iw_Value (\<lambda>v m. m\<lparr>iw_Value := v\<rparr>))
      else if n = 4 then Some (FBytes (\<lambda>b m. m\<lparr>iw_GasLimit := b\<rparr>))
      else if n = 5 then Some (FBytes (\<lambda>b m. m\<lparr>iw_Data := b\<rparr>))
      else None)"

definition MsgInitiateWithdrawal_Unmarshal ::
    "mathint_lib \<Rightarrow> bytes \<Rightarrow> MsgInitiateWithdrawal \<Rightarrow> MsgInitiateWithdrawal res" where
  "MsgInitiateWithdrawal_Unmarshal M dAtA m = unmarshalFrom (MsgInitiateWithdrawal_fields M) dAtA 0 m"

section \<open>MsgInitiateERC20Withdrawal\<close>

definition zero_MsgInitiateERC20Withdrawal :: MsgInitiateERC20Withdrawal where
  "zero_MsgInitiateERC20Withdrawal = \<lparr>ie_Sender = [], ie_Target = [], ie_TokenAddress = [], ie_Value = None,
     ie_GasLimit = [], ie_ExtraData = []\<rparr>"

definition MsgInitiateERC20Withdrawal_MarshalToSizedBuffer ::
    "mathint_lib \<Rightarrow> MsgInitiateERC20Withdrawal \<Rightarrow> bytes res" where
  "MsgInitiateERC20Withdrawal_MarshalToSizedBuffer M m =
     check (putIntField M 0x22 (ie_Value m)
       (putBytesField 0x2a (ie_GasLimit m) (putBytesField 0x32 (ie_ExtraData m) []))) pass (\<lambda>d.
     Ok (putBytesField 0x0a (str (ie_Sender m)) (putBytesField 0x12 (str (ie_Target m))
       (putBytesField 0x1a (str (ie_TokenAddress m)) d))))"

definition MsgInitiateERC20Withdrawal_Size :: "mathint_lib \<Rightarrow> MsgInitiateERC20Withdrawal \<Rightarrow> nat" where
  "MsgInitiateERC20Withdrawal_Size M m =
     sizeBytesField (length (ie_Sender m)) + sizeBytesField (length (ie_Target m)) +
     sizeBytesField (length (ie_TokenAddress m)) + sizeMsgField (mi_Size M (ie_Value m)) +
     sizeBytesField (length (ie_GasLimit m)) + sizeBytesField (length (ie_ExtraData m))"

definition MsgInitiateERC20Withdrawal_Marshal :: "mathint_lib \<Rightarrow> MsgInitiateERC20Withdrawal \<Rightarrow> bytes res" where
  "MsgInitiateERC20Withdrawal_Marshal M m =
     check (MsgInitiateERC20Withdrawal_MarshalToSizedBuffer M m) pass
       (marshalSized (MsgInitiateERC20Withdrawal_Size M m))"

fun MsgInitiateERC20Withdrawal_fields :: "mathint_lib \<Rightarrow> nat \<Rightarrow> MsgInitiateERC20Withdrawal fld option" where
  "MsgInitiateERC20Withdrawal_fields M n =
     (if n = 1 then Some (FString (\<lambda>s m. m\<lparr>ie_Sender := s\<rparr>))
      else if n = 2 then Some (FString (\<lambda>s m. m\<lparr>ie_Target := s\<rparr>))
      else if n = 3 then Some (FString (\<lambda>s m. m\<lparr>ie_TokenAddress := s\<rparr>))
      else if n = 4 then Some (FInt M ie_Value (\<lambda>v m. m\<lparr>ie_Value := v\<rparr>))
      else if n = 5 then Some (FBytes (\<lambda>b m. m\<lparr>ie_GasLimit := b\<rparr>))
      else if n = 6 then Some (FBytes (\<lambda>b m. m\<lparr>ie_ExtraData := b\<rparr>))
      else None)"

definition MsgInitiateERC20Withdrawal_Unmarshal ::
    "mathint_lib \<Rightarrow> bytes \<Rightarrow> MsgInitiateERC20Withdrawal \<Rightarrow> MsgInitiateERC20Withdrawal res" where
  "MsgInitiateERC20Withdrawal_Unmarshal M dAtA m = unmarshalFrom (MsgInitiateERC20Withdrawal_fields M) dAtA 0 m"

section \<open>MsgInitiateFeeWithdrawal\<close>

definition MsgInitiateFeeWithdrawal_MarshalToSizedBuffer :: "MsgInitiateFeeWithdrawal \<Rightarrow> bytes" where
  "MsgInitiateFeeWithdrawal_MarshalToSizedBuffer m = putBytesField 0x0a (str (if_Sender m)) []"

definition MsgInitiateFeeWithdrawal_Size :: "MsgInitiateFeeWithdrawal \<Rightarrow> nat" where
  "MsgInitiateFeeWithdrawal_Size m = sizeBytesField (length (if_Sender m))"

definition MsgInitiateFeeWithdrawal_Marshal :: "MsgInitiateFeeWithdrawal \<Rightarrow> bytes res" where
  "MsgInitiateFeeWithdrawal_Marshal m =
     marshalSized (MsgInitiateFeeWithdrawal_Size m) (MsgInitiateFeeWithdrawal_MarshalToSizedBuffer m)"

fun MsgInitiateFeeWithdrawal_fields :: "nat \<Rightarrow> MsgInitiateFeeWithdrawal fld option" where
  "MsgInitiateFeeWithdrawal_fields n =
     (if n = 1 then Some (FString (\<lambda>s m. m\<lparr>if_Sender := s\<rparr>)) else None)"

definition MsgInitiateFeeWithdrawal_Unmarshal ::
    "bytes \<Rightarrow> MsgInitiateFeeWithdrawal \<Rightarrow> MsgInitiateFeeWithdrawal res" where
  "MsgInitiateFeeWithdrawal_Unmarshal dAtA m = unmarshalFrom MsgInitiateFeeWithdrawal_fields dAtA 0 m"

section \<open>MsgUpdateParams\<close>

definition zero_MsgUpdateParams :: MsgUpdateParams where
  "zero_MsgUpdateParams = \<lparr>up_Authority = [], up_Params = zero_Params\<rparr>"

definition MsgUpdateParams_MarshalToSizedBuffer :: "MsgUpdateParams \<Rightarrow> bytes" where
  "MsgUpdateParams_MarshalToSizedBuffer m =
     putBytesField 0x0a (str (up_Authority m)) (putMsgField 0x12 (Params_MarshalToSizedBuffer (up_Params m)) [])"

definition MsgUpdateParams_Size :: "MsgUpdateParams \<Rightarrow> nat" where
  "MsgUpdateParams_Size m =
     sizeBytesField (length (up_Authority m)) + sizeMsgField (Params_Size (up_Params m))"

definition MsgUpdateParams_Marshal :: "MsgUpdateParams \<Rightarrow> bytes res" where
  "MsgUpdateParams_Marshal m = marshalSized (MsgUpdateParams_Size m) (MsgUpdateParams_MarshalToSizedBuffer m)"

fun MsgUpdateParams_fields :: "nat \<Rightarrow> MsgUpdateParams fld option" where
  "MsgUpdateParams_fields n =
     (if n = 1 then Some (FString (\<lambda>s m. m\<lparr>up_Authority := s\<rparr>))
      else if n = 2 then Some (FMsg (\<lambda>b m.
        check (Params_Unmarshal b (up_Params m)) pass (\<lambda>p. Ok (m\<lparr>up_Params := p\<rparr>))))
      else None)"

definition MsgUpdateParams_Unmarshal :: "bytes \<Rightarrow> MsgUpdateParams \<Rightarrow> MsgUpdateParams res" where
  "MsgUpdateParams_Unmarshal dAtA m = unmarshalFrom MsgUpdateParams_fields dAtA 0 m"

section \<open>GenesisState and the answers to queries\<close>

definition GenesisState_MarshalToSizedBuffer :: "GenesisState \<Rightarrow> bytes" where
  "GenesisState_MarshalToSizedBuffer m = putMsgField 0x0a (Params_MarshalToSizedBuffer (gs_Params m)) []"

definition GenesisState_Size :: "GenesisState \<Rightarrow> nat" where
  "GenesisState_Size m = sizeMsgField (Params_Size (gs_Params m))"

definition GenesisState_Marshal :: "GenesisState \<Rightarrow> bytes res" where
  "GenesisState_Marshal m = marshalSized (GenesisState_Size m) (GenesisState_MarshalToSizedBuffer m)"

fun GenesisState_fields :: "nat \<Rightarrow> GenesisState fld option" where
  "GenesisState_fields n =
     (if n = 1 then Some (FMsg (\<lambda>b m.
        check (Params_Unmarshal b (gs_Params m)) pass (\<lambda>p. Ok (m\<lparr>gs_Params := p\<rparr>))))
      else None)"

definition GenesisState_Unmarshal :: "bytes \<Rightarrow> GenesisState \<Rightarrow> GenesisState res" where
  "GenesisState_Unmarshal dAtA m = unmarshalFrom GenesisState_fields dAtA 0 m"

record QueryParamsResponse =
  qp_Params :: Params

definition QueryParamsResponse_MarshalToSizedBuffer :: "QueryParamsResponse \<Rightarrow> bytes" where
  "QueryParamsResponse_MarshalToSizedBuffer m = putMsgField 0x0a (Params_MarshalToSizedBuffer (qp_Params m)) []"

definition QueryParamsResponse_Size :: "QueryParamsResponse \<Rightarrow> nat" where
  "QueryParamsResponse_Size m = sizeMsgField (Params_Size (qp_Params m))"

definition QueryParamsResponse_Marshal :: "QueryParamsResponse \<Rightarrow> bytes res" where
  "QueryParamsResponse_Marshal m =
     marshalSized (QueryParamsResponse_Size m) (QueryParamsResponse_MarshalToSizedBuffer m)"

fun QueryParamsResponse_fields :: "nat \<Rightarrow> QueryParamsResponse fld option" where
  "QueryParamsResponse_fields n =
     (if n = 1 then Some (FMsg (\<lambda>b m.
        check (Params_Unmarshal b (qp_Params m)) pass (\<lambda>p. Ok (m\<lparr>qp_Params := p\<rparr>))))
      else None)"

definition QueryParamsResponse_Unmarshal :: "bytes \<Rightarrow> QueryParamsResponse \<Rightarrow> QueryParamsResponse res" where
  "QueryParamsResponse_Unmarshal dAtA m = unmarshalFrom QueryParamsResponse_fields dAtA 0 m"

record QueryL1BlockInfoResponse =
  ql_L1BlockInfo :: L1BlockInfo

definition QueryL1BlockInfoResponse_MarshalToSizedBuffer :: "QueryL1BlockInfoResponse \<Rightarrow> bytes" where
  "QueryL1BlockInfoResponse_MarshalToSizedBuffer m =
     putMsgField 0x0a (L1BlockInfo_MarshalToSizedBuffer (ql_L1BlockInfo m)) []"

definition QueryL1BlockInfoResponse_Size :: "QueryL1BlockInfoResponse \<Rightarrow> nat" where
  "QueryL1BlockInfoResponse_Size m = sizeMsgField (L1BlockInfo_Size (ql_L1BlockInfo m))"

definition QueryL1BlockInfoResponse_Marshal :: "QueryL1BlockInfoResponse \<Rightarrow> bytes res" where
  "QueryL1BlockInfoResponse_Marshal m =
     marshalSized (QueryL1BlockInfoResponse_Size m) (QueryL1BlockInfoResponse_MarshalToSizedBuffer m)"

fun QueryL1BlockInfoResponse_fields :: "nat \<Rightarrow> QueryL1BlockInfoResponse fld option" where
  "QueryL1BlockInfoResponse_fields n =
     (if n = 1 then Some (FMsg (\<lambda>b m.
        check (L1BlockInfo_Unmarshal b (ql_L1BlockInfo m)) pass (\<lambda>i. Ok (m\<lparr>ql_L1BlockInfo := i\<rparr>))))
      else None)"

definition QueryL1BlockInfoResponse_Unmarshal ::
    "bytes \<Rightarrow> QueryL1BlockInfoResponse \<Rightarrow> QueryL1BlockInfoResponse res" where
  "QueryL1BlockInfoResponse_Unmarshal dAtA m = unmarshalFrom QueryL1BlockInfoResponse_fields dAtA 0 m"

text \<open>
  Requests of queries and responses to messages have no fields: nothing is written, and what
  is read is skipped.
\<close>

definition EmptyMessage_Unmarshal :: "bytes \<Rightarrow> unit \<Rightarrow> unit res" where
  "EmptyMessage_Unmarshal dAtA m = unmarshalFrom (\<lambda>n. None) dAtA 0 m"

definition EmptyMessage_Marshal :: "unit \<Rightarrow> bytes res" where
  "EmptyMessage_Marshal m = marshalSized 0 []"

section \<open>Messages under their registered names\<close>

text \<open>
  The message types of the module's service are registered under these URLs. Go calls the
  methods of the message an interface holds; a nil pointer has no fields to write.
\<close>

fun msg_url :: "msg \<Rightarrow> string option" where
  "msg_url (SetL1AttributesMsg m) = Some ''/rollup.v1.MsgSetL1Attributes''"
| "msg_url (ApplyUserDepositMsg m) = Some ''/rollup.v1.MsgApplyUserDeposit''"
| "msg_url (InitiateWithdrawalMsg m) = Some ''/rollup.v1.MsgInitiateWithdrawal''"
| "msg_url (InitiateERC20WithdrawalMsg m) = Some ''/rollup.v1.MsgInitiateERC20Withdrawal''"
| "msg_url (InitiateFeeWithdrawalMsg m) = Some ''/rollup.v1.MsgInitiateFeeWithdrawal''"
| "msg_url (UpdateParamsMsg m) = Some ''/rollup.v1.MsgUpdateParams''"
| "msg_url (OtherMsg s) = None"

text \<open>Messages of other modules are written and read by code that is not the rollup module's.\<close>

record other_msgs =
  om_Size :: "string \<Rightarrow> nat"
  om_Marshal :: "string \<Rightarrow> bytes res"
  om_Unmarshal :: "string \<Rightarrow> bytes \<Rightarrow> msg res"

fun msg_Size :: "mathint_lib \<Rightarrow> other_msgs \<Rightarrow> msg \<Rightarrow> nat" where
  "msg_Size M W (SetL1AttributesMsg m) = (case m of None \<Rightarrow> 0 | Some a \<Rightarrow> MsgSetL1Attributes_Size a)"
| "msg_Size M W (ApplyUserDepositMsg m) = MsgApplyUserDeposit_Size m"
| "msg_Size M W (InitiateWithdrawalMsg m) = MsgInitiateWithdrawal_Size M m"
| "msg_Size M W (InitiateERC20WithdrawalMsg m) = MsgInitiateERC20Withdrawal_Size M m"
| "msg_Size M W (InitiateFeeWithdrawalMsg m) = MsgInitiateFeeWithdrawal_Size m"
| "msg_Size M W (UpdateParamsMsg m) = MsgUpdateParams_Size m"
| "msg_Size M W (OtherMsg s) = om_Size W s"

fun msg_Marshal :: "mathint_lib \<Rightarrow> other_msgs \<Rightarrow> msg \<Rightarrow> bytes res" where
  "msg_Marshal M W (SetL1AttributesMsg m) =
     (case m of None \<Rightarrow> Panic (External ''nil pointer dereference'') | Some a \<Rightarrow> MsgSetL1Attributes_Marshal a)"
| "msg_Marshal M W (ApplyUserDepositMsg m) = MsgApplyUserDeposit_Marshal m"
| "msg_Marshal M W (InitiateWithdrawalMsg m) = MsgInitiateWithdrawal_Marshal M m"
| "msg_Marshal M W (InitiateERC20WithdrawalMsg m) = MsgInitiateERC20Withdrawal_Marshal M m"
| "msg_Marshal M W (InitiateFeeWithdrawalMsg m) = MsgInitiateFeeWithdrawal_Marshal m"
| "msg_Marshal M W (UpdateParamsMsg m) = MsgUpdateParams_Marshal m"
| "msg_Marshal M W (OtherMsg s) = om_Marshal W s"

definition msg_Unmarshal :: "mathint_lib \<Rightarrow> other_msgs \<Rightarrow> string \<Rightarrow> bytes \<Rightarrow> msg res" where
  "msg_Unmarshal M W url d =
     (if url = ''/rollup.v1.MsgSetL1Attributes'' then
        check (MsgSetL1Attributes_Unmarshal d zero_MsgSetL1Attributes) pass (\<lambda>m. Ok (SetL1AttributesMsg (Some m)))
      else if url = ''/rollup.v1.MsgApplyUserDeposit'' then
        check (MsgApplyUserDeposit_Unmarshal d \<lparr>ud_Tx = []\<rparr>) pass (\<lambda>m. Ok (ApplyUserDepositMsg m))
      else if url = ''/rollup.v1.MsgInitiateWithdrawal'' then
        check (MsgInitiateWithdrawal_Unmarshal M d zero_MsgInitiateWithdrawal) pass (\<lambda>m. Ok (InitiateWithdrawalMsg m))
      else if url = ''/rollup.v1.MsgInitiateERC20Withdrawal'' then
        check (MsgInitiateERC20Withdrawal_Unmarshal M d zero_MsgInitiateERC20Withdrawal) pass
          (\<lambda>m. Ok (InitiateERC20WithdrawalMsg m))
      else if url = ''/rollup.v1.MsgInitiateFeeWithdrawal'' then
        check (MsgInitiateFeeWithdrawal_Unmarshal d \<lparr>if_Sender = []\<rparr>) pass (\<lambda>m. Ok (InitiateFeeWithdrawalMsg m))
      else if url = ''/rollup.v1.MsgUpdateParams'' then
        check (MsgUpdateParams_Unmarshal d zero_MsgUpdateParams) pass (\<lambda>m. Ok (UpdateParamsMsg m))
      else om_Unmarshal W url d)"

section \<open>Messages that read back\<close>

text \<open>
  What a message promises its users: valid messages are written in \<open>Size\<close> bytes, and a fresh
  message that reads them is the one that was written.
\<close>

locale wire_message =
  fixes sz :: "'m \<Rightarrow> nat" and enc :: "'m \<Rightarrow> bytes res" and dec :: "bytes \<Rightarrow> 'm \<Rightarrow> 'm res"
    and zero :: 'm and valid :: "'m \<Rightarrow> bool"
  assumes written: "valid m \<Longrightarrow> \<exists>d. enc m = Ok d \<and> length d = sz m"
    and read_back: "valid m \<Longrightarrow> enc m = Ok d \<Longrightarrow> sz m < 2 ^ 63 \<Longrightarrow> dec d zero = Ok m"
begin

lemma marshalled:
  assumes "valid m"
  shows "check (enc m) pass (marshalSized (sz m)) = enc m"
  using written [OF assms] by auto

lemma round_trip:
  assumes "valid m" "sz m < 2 ^ 63"
  shows "\<exists>d. check (enc m) pass (marshalSized (sz m)) = Ok d \<and> length d = sz m \<and> dec d zero = Ok m"
  using written [OF assms(1)] read_back [OF assms(1) _ assms(2)] marshalled [OF assms(1)] by auto

lemma embedded:
  assumes m: "valid m" "sz m < 2 ^ 63" "enc m = Ok b"
    and t: "tag_is t n 2" and f: "fs n = Some (FMsg (\<lambda>b p. check (dec b (get p)) pass (\<lambda>m. Ok (put m p))))"
    and p: "get p = zero" and d: "decodes fs d (put m p) p'"
  shows "decodes fs (putMsgField t b d) p p'"
  by (rule decodes_putMsg [where fs = fs, OF t f _ d]) (use read_back [OF m(1,3,2)] p in simp)

end

lemma wire_messageI:
  assumes "\<And>m. valid m \<Longrightarrow> \<exists>d. enc m = Ok d \<and> length d = sz m \<and> (sz m < 2 ^ 63 \<longrightarrow> decodes fs d zero m)"
    and "\<And>d m. dec d m = unmarshalFrom fs d 0 m"
  shows "wire_message sz enc dec zero valid"
  using assms(1) decodes_all [of fs] unfolding assms(2) by unfold_locales fastforce+

lemma length_str [simp]: "length (str s) = length s"
  by (simp add: str_def)

lemma str_Nil [simp]: "str s = [] \<longleftrightarrow> s = []"
  by (simp add: str_def)

lemma unstr_Nil: "unstr [] = []"
  by (simp add: unstr_def)

lemma copyTo_exact [simp]: "length bs = n \<Longrightarrow> copyTo (replicate n 0 @ d) bs = bs @ d"
  by (simp add: copyTo_def)

lemma putIntField_Ok:
  assumes "mathint_ok M" "in_256_bits v"
  obtains bs where "mi_MarshalTo M v = Ok bs" "length bs = mi_Size M v" "\<And>old. mi_Unmarshal M bs old = Ok v"
    "\<And>t d. putIntField M t v d = Ok (putMsgField t bs d)"
proof -
  obtain bs where bs: "mi_MarshalTo M v = Ok bs" "length bs = mi_Size M v" "\<And>old. mi_Unmarshal M bs old = Ok v"
    using assms unfolding mathint_ok_def by blast
  then have "putIntField M t v d = Ok (putMsgField t bs d)" for t d
    by (simp add: putIntField_def putMsgField_def flip: bs(2))
  with bs show ?thesis by (rule that)
qed

lemma decodes_putString:
  assumes "tag_is t n 2" and "fs n = Some (FString put)" and "s = [] \<Longrightarrow> put s m = m" and "decodes fs d (put s m) m'"
  shows "decodes fs (putBytesField t (str s) d) m m'"
  by (rule decodes_putBytes [where fs = fs, OF assms(1,2)]) (use assms(3,4) in \<open>auto simp: unstr_str unstr_Nil\<close>)

lemma tag_32: "tag_is 0x2a 5 2"
  by (simp add: tag_is_def)

section \<open>The messages of the module\<close>

interpretation wL1BlockInfo: wire_message L1BlockInfo_Size "\<lambda>m. Ok (L1BlockInfo_MarshalToSizedBuffer m)" L1BlockInfo_Unmarshal
  zero_L1BlockInfo "\<lambda>m. True"
  by unfold_locales (auto simp: L1BlockInfo_round_trip)

interpretation wParams: wire_message Params_Size "\<lambda>m. Ok (Params_MarshalToSizedBuffer m)" Params_Unmarshal zero_Params "\<lambda>m. True"
  by unfold_locales (auto simp: Params_round_trip)

interpretation wSetL1Attributes: wire_message MsgSetL1Attributes_Size "\<lambda>m. Ok (MsgSetL1Attributes_MarshalToSizedBuffer m)"
  MsgSetL1Attributes_Unmarshal zero_MsgSetL1Attributes "\<lambda>m. True"
  by unfold_locales (auto simp: MsgSetL1Attributes_round_trip)

interpretation wApplyUserDeposit: wire_message MsgApplyUserDeposit_Size "\<lambda>m. Ok (MsgApplyUserDeposit_MarshalToSizedBuffer m)"
  MsgApplyUserDeposit_Unmarshal "\<lparr>ud_Tx = []\<rparr>" "\<lambda>m. True"
  by unfold_locales (auto simp: MsgApplyUserDeposit_round_trip)

lemma message_sizes [simp]:
  "length (MsgInitiateFeeWithdrawal_MarshalToSizedBuffer w) = MsgInitiateFeeWithdrawal_Size w"
  "length (MsgUpdateParams_MarshalToSizedBuffer u) = MsgUpdateParams_Size u"
  "length (GenesisState_MarshalToSizedBuffer g) = GenesisState_Size g"
  "length (QueryParamsResponse_MarshalToSizedBuffer p) = QueryParamsResponse_Size p"
  "length (QueryL1BlockInfoResponse_MarshalToSizedBuffer i) = QueryL1BlockInfoResponse_Size i"
  by (simp_all add: MsgInitiateFeeWithdrawal_MarshalToSizedBuffer_def MsgInitiateFeeWithdrawal_Size_def
      MsgUpdateParams_MarshalToSizedBuffer_def MsgUpdateParams_Size_def GenesisState_MarshalToSizedBuffer_def GenesisState_Size_def
      QueryParamsResponse_MarshalToSizedBuffer_def QueryParamsResponse_Size_def
      QueryL1BlockInfoResponse_MarshalToSizedBuffer_def QueryL1BlockInfoResponse_Size_def)

lemma MsgInitiateFeeWithdrawal_decodes:
  "decodes MsgInitiateFeeWithdrawal_fields (MsgInitiateFeeWithdrawal_MarshalToSizedBuffer m) \<lparr>if_Sender = []\<rparr> m"
  unfolding MsgInitiateFeeWithdrawal_MarshalToSizedBuffer_def
  by (rule decodes_putString [OF tags(7), where put = "\<lambda>s m. m\<lparr>if_Sender := s\<rparr>"], simp_all)
     (cases m, simp add: decodes_Nil)

interpretation wFeeWithdrawal: wire_message MsgInitiateFeeWithdrawal_Size
  "\<lambda>m. Ok (MsgInitiateFeeWithdrawal_MarshalToSizedBuffer m)" MsgInitiateFeeWithdrawal_Unmarshal "\<lparr>if_Sender = []\<rparr>" "\<lambda>m. True"
  by (rule wire_messageI [where fs = MsgInitiateFeeWithdrawal_fields])
     (simp_all add: MsgInitiateFeeWithdrawal_Unmarshal_def MsgInitiateFeeWithdrawal_decodes)

lemma params_field:
  assumes "tag_is t n 2" "fs n = Some (FMsg (\<lambda>b m. check (Params_Unmarshal b (get m)) pass (\<lambda>p. Ok (put p m))))"
    and "Params_Size p < 2 ^ 63" "get m = zero_Params" "decodes fs d (put p m) m'"
  shows "decodes fs (putMsgField t (Params_MarshalToSizedBuffer p) d) m m'"
  by (rule wParams.embedded [where fs = fs, OF TrueI assms(3) refl assms(1,2,4,5)])

lemma MsgUpdateParams_decodes:
  assumes "MsgUpdateParams_Size m < 2 ^ 63"
  shows "decodes MsgUpdateParams_fields (MsgUpdateParams_MarshalToSizedBuffer m) zero_MsgUpdateParams m"
proof -
  have "Params_Size (up_Params m) < 2 ^ 63"
    using assms sizeMsgField_less [of "Params_Size (up_Params m)"] by (simp add: MsgUpdateParams_Size_def add.commute)
  then have "decodes MsgUpdateParams_fields (putMsgField 0x12 (Params_MarshalToSizedBuffer (up_Params m)) [])
      \<lparr>up_Authority = up_Authority m, up_Params = zero_Params\<rparr> m"
    by (intro params_field [OF tags(8), where get = up_Params and put = "\<lambda>p m. m\<lparr>up_Params := p\<rparr>"], simp_all)
       (cases m, simp add: decodes_Nil)
  then show ?thesis unfolding MsgUpdateParams_MarshalToSizedBuffer_def
    by (intro decodes_putString [OF tags(7), where put = "\<lambda>s m. m\<lparr>up_Authority := s\<rparr>"])
       (simp_all add: zero_MsgUpdateParams_def)
qed

interpretation wUpdateParams: wire_message MsgUpdateParams_Size "\<lambda>m. Ok (MsgUpdateParams_MarshalToSizedBuffer m)"
  MsgUpdateParams_Unmarshal zero_MsgUpdateParams "\<lambda>m. True"
  by (rule wire_messageI [where fs = MsgUpdateParams_fields])
     (simp_all add: MsgUpdateParams_Unmarshal_def MsgUpdateParams_decodes)

lemma message_fields:
  "MsgInitiateWithdrawal_fields M 1 = Some (FString (\<lambda>s m. m\<lparr>iw_Sender := s\<rparr>))"
  "MsgInitiateWithdrawal_fields M 2 = Some (FString (\<lambda>s m. m\<lparr>iw_Target := s\<rparr>))"
  "MsgInitiateWithdrawal_fields M 3 = Some (FInt M iw_Value (\<lambda>v m. m\<lparr>iw_Value := v\<rparr>))"
  "MsgInitiateWithdrawal_fields M 4 = Some (FBytes (\<lambda>b m. m\<lparr>iw_GasLimit := b\<rparr>))"
  "MsgInitiateWithdrawal_fields M 5 = Some (FBytes (\<lambda>b m. m\<lparr>iw_Data := b\<rparr>))"
  "MsgInitiateERC20Withdrawal_fields M 1 = Some (FString (\<lambda>s m. m\<lparr>ie_Sender := s\<rparr>))"
  "MsgInitiateERC20Withdrawal_fields M 2 = Some (FString (\<lambda>s m. m\<lparr>ie_Target := s\<rparr>))"
  "MsgInitiateERC20Withdrawal_fields M 3 = Some (FString (\<lambda>s m. m\<lparr>ie_TokenAddress := s\<rparr>))"
  "MsgInitiateERC20Withdrawal_fields M 4 = Some (FInt M ie_Value (\<lambda>v m. m\<lparr>ie_Value := v\<rparr>))"
  "MsgInitiateERC20Withdrawal_fields M 5 = Some (FBytes (\<lambda>b m. m\<lparr>ie_GasLimit := b\<rparr>))"
  "MsgInitiateERC20Withdrawal_fields M 6 = Some (FBytes (\<lambda>b m. m\<lparr>ie_ExtraData := b\<rparr>))"
  by simp_all

lemma MsgInitiateWithdrawal_written:
  assumes "mathint_ok M" "in_256_bits (iw_Value m)"
  shows "\<exists>d. MsgInitiateWithdrawal_MarshalToSizedBuffer M m = Ok d \<and> length d = MsgInitiateWithdrawal_Size M m \<and>
    decodes (MsgInitiateWithdrawal_fields M) d zero_MsgInitiateWithdrawal m"
proof -
  obtain bs where bs: "length bs = mi_Size M (iw_Value m)" "\<And>old. mi_Unmarshal M bs old = Ok (iw_Value m)"
    "\<And>t d. putIntField M t (iw_Value m) d = Ok (putMsgField t bs d)" using putIntField_Ok [OF assms] by metis
  have v: "check (mi_Unmarshal M bs old) pass (\<lambda>v. Ok (x\<lparr>iw_Value := v\<rparr>)) = Ok (x\<lparr>iw_Value := iw_Value m\<rparr>)" for old x
    using bs(2) by simp
  have "decodes (MsgInitiateWithdrawal_fields M) (putBytesField 0x0a (str (iw_Sender m)) (putBytesField 0x12 (str (iw_Target m))
      (putMsgField 0x1a bs (putBytesField 0x22 (iw_GasLimit m) (putBytesField 0x2a (iw_Data m) [])))))
      zero_MsgInitiateWithdrawal m"
    by (rule decodes_putString [where fs = "MsgInitiateWithdrawal_fields M", OF tags(7) message_fields(1)], simp add: zero_MsgInitiateWithdrawal_def,
        rule decodes_putString [where fs = "MsgInitiateWithdrawal_fields M", OF tags(8) message_fields(2)], simp add: zero_MsgInitiateWithdrawal_def,
        rule decodes_putMsg [where fs = "MsgInitiateWithdrawal_fields M", OF tags(9) message_fields(3) v],
        rule decodes_putBytes [where fs = "MsgInitiateWithdrawal_fields M", OF tags(10) message_fields(4)], simp add: zero_MsgInitiateWithdrawal_def,
        rule decodes_putBytes [where fs = "MsgInitiateWithdrawal_fields M", OF tag_32 message_fields(5)], simp add: zero_MsgInitiateWithdrawal_def)
       (cases m, simp add: zero_MsgInitiateWithdrawal_def decodes_Nil)
  then show ?thesis using bs(1,3)
    by (simp add: MsgInitiateWithdrawal_MarshalToSizedBuffer_def MsgInitiateWithdrawal_Size_def)
qed

lemma MsgInitiateERC20Withdrawal_written:
  assumes "mathint_ok M" "in_256_bits (ie_Value m)"
  shows "\<exists>d. MsgInitiateERC20Withdrawal_MarshalToSizedBuffer M m = Ok d \<and> length d = MsgInitiateERC20Withdrawal_Size M m \<and>
    decodes (MsgInitiateERC20Withdrawal_fields M) d zero_MsgInitiateERC20Withdrawal m"
proof -
  note tag = tags(7-11) tag_32
  obtain bs where bs: "length bs = mi_Size M (ie_Value m)" "\<And>old. mi_Unmarshal M bs old = Ok (ie_Value m)"
    "\<And>t d. putIntField M t (ie_Value m) d = Ok (putMsgField t bs d)" using putIntField_Ok [OF assms] by metis
  have v: "check (mi_Unmarshal M bs old) pass (\<lambda>v. Ok (x\<lparr>ie_Value := v\<rparr>)) = Ok (x\<lparr>ie_Value := ie_Value m\<rparr>)" for old x
    using bs(2) by simp
  let ?fs = "MsgInitiateERC20Withdrawal_fields M"
  have "decodes ?fs (putBytesField 0x0a (str (ie_Sender m)) (putBytesField 0x12 (str (ie_Target m))
      (putBytesField 0x1a (str (ie_TokenAddress m)) (putMsgField 0x22 bs
      (putBytesField 0x2a (ie_GasLimit m) (putBytesField 0x32 (ie_ExtraData m) [])))))) zero_MsgInitiateERC20Withdrawal m"
    by (rule decodes_putString [where fs = ?fs, OF tag(1) message_fields(6)], simp add: zero_MsgInitiateERC20Withdrawal_def,
        rule decodes_putString [where fs = ?fs, OF tag(2) message_fields(7)], simp add: zero_MsgInitiateERC20Withdrawal_def,
        rule decodes_putString [where fs = ?fs, OF tag(3) message_fields(8)], simp add: zero_MsgInitiateERC20Withdrawal_def,
        rule decodes_putMsg [where fs = ?fs, OF tag(4) message_fields(9) v],
        rule decodes_putBytes [where fs = ?fs, OF tag(6) message_fields(10)], simp add: zero_MsgInitiateERC20Withdrawal_def,
        rule decodes_putBytes [where fs = ?fs, OF tag(5) message_fields(11)], simp add: zero_MsgInitiateERC20Withdrawal_def)
       (cases m, simp add: zero_MsgInitiateERC20Withdrawal_def decodes_Nil)
  then show ?thesis using bs(1,3)
    by (simp add: MsgInitiateERC20Withdrawal_MarshalToSizedBuffer_def MsgInitiateERC20Withdrawal_Size_def)
qed

interpretation wWithdrawal: wire_message "MsgInitiateWithdrawal_Size M" "MsgInitiateWithdrawal_MarshalToSizedBuffer M"
  "MsgInitiateWithdrawal_Unmarshal M" zero_MsgInitiateWithdrawal "\<lambda>m. mathint_ok M \<and> in_256_bits (iw_Value m)" for M
  by (rule wire_messageI [where fs = "MsgInitiateWithdrawal_fields M"])
     (auto simp: MsgInitiateWithdrawal_Unmarshal_def dest: MsgInitiateWithdrawal_written)

interpretation wERC20Withdrawal: wire_message "MsgInitiateERC20Withdrawal_Size M" "MsgInitiateERC20Withdrawal_MarshalToSizedBuffer M"
  "MsgInitiateERC20Withdrawal_Unmarshal M" zero_MsgInitiateERC20Withdrawal "\<lambda>m. mathint_ok M \<and> in_256_bits (ie_Value m)" for M
  by (rule wire_messageI [where fs = "MsgInitiateERC20Withdrawal_fields M"])
     (auto simp: MsgInitiateERC20Withdrawal_Unmarshal_def dest: MsgInitiateERC20Withdrawal_written)

text \<open>Three messages wrap another one in their first and only field.\<close>

context wire_message
begin

lemma wrapped:
  assumes f: "fs 1 = Some (FMsg (\<lambda>b p. check (dec b (get p)) pass (\<lambda>m. Ok (put m p))))"
    and p: "get z = zero" "\<And>p. put (get p) z = p"
    and e: "\<And>p b. enc (get p) = Ok b \<Longrightarrow> encW p = Ok (putMsgField 0x0a b [])"
    and s: "\<And>p. szW p = sizeMsgField (sz (get p))" and d: "\<And>b p. decW b p = unmarshalFrom fs b 0 p"
  shows "wire_message szW encW decW z (\<lambda>p. valid (get p))"
proof (rule wire_messageI [where fs = fs])
  fix p assume v: "valid (get p)"
  obtain b where b: "enc (get p) = Ok b" "length b = sz (get p)" using written [OF v] by blast
  have "decodes fs (putMsgField 0x0a b []) z p" if "szW p < 2 ^ 63"
    by (rule embedded [where fs = fs and get = get and put = put, OF v _ b(1) tags(7) f p(1)])
       (use that s p(2) sizeMsgField_less [of "sz (get p)" 0] in \<open>simp_all add: decodes_Nil\<close>)
  then show "\<exists>d. encW p = Ok d \<and> length d = szW p \<and> (szW p < 2 ^ 63 \<longrightarrow> decodes fs d z p)"
    using e [OF b(1)] s b(2) by simp
qed (rule d)

end

interpretation wGenesisState: wire_message GenesisState_Size "\<lambda>m. Ok (GenesisState_MarshalToSizedBuffer m)"
  GenesisState_Unmarshal "\<lparr>gs_Params = zero_Params\<rparr>" "\<lambda>m. True"
  by (rule wParams.wrapped [where fs = GenesisState_fields and get = gs_Params and put = "\<lambda>p m. m\<lparr>gs_Params := p\<rparr>"])
     (simp_all add: GenesisState_MarshalToSizedBuffer_def GenesisState_Size_def GenesisState_Unmarshal_def)

interpretation wQueryParams: wire_message QueryParamsResponse_Size "\<lambda>m. Ok (QueryParamsResponse_MarshalToSizedBuffer m)"
  QueryParamsResponse_Unmarshal "\<lparr>qp_Params = zero_Params\<rparr>" "\<lambda>m. True"
  by (rule wParams.wrapped [where fs = QueryParamsResponse_fields and get = qp_Params and put = "\<lambda>p m. m\<lparr>qp_Params := p\<rparr>"])
     (simp_all add: QueryParamsResponse_MarshalToSizedBuffer_def QueryParamsResponse_Size_def QueryParamsResponse_Unmarshal_def)

interpretation wQueryL1BlockInfo: wire_message QueryL1BlockInfoResponse_Size
  "\<lambda>m. Ok (QueryL1BlockInfoResponse_MarshalToSizedBuffer m)" QueryL1BlockInfoResponse_Unmarshal
  "\<lparr>ql_L1BlockInfo = zero_L1BlockInfo\<rparr>" "\<lambda>m. True"
  by (rule wL1BlockInfo.wrapped [where fs = QueryL1BlockInfoResponse_fields and get = ql_L1BlockInfo
        and put = "\<lambda>i m. m\<lparr>ql_L1BlockInfo := i\<rparr>"])
     (simp_all add: QueryL1BlockInfoResponse_MarshalToSizedBuffer_def QueryL1BlockInfoResponse_Size_def
       QueryL1BlockInfoResponse_Unmarshal_def)

section \<open>Properties\<close>

text \<open>
  A message that can be sent: it is one of the module's, an amount is a number of at most 256
  bits, and the L1 attributes are there.
\<close>

fun sendable :: "msg \<Rightarrow> bool" where
  "sendable (SetL1AttributesMsg m) = (m \<noteq> None)"
| "sendable (InitiateWithdrawalMsg m) = in_256_bits (iw_Value m)"
| "sendable (InitiateERC20WithdrawalMsg m) = in_256_bits (ie_Value m)"
| "sendable (OtherMsg s) = False"
| "sendable m = True"

lemmas message_Marshal_defs = MsgSetL1Attributes_Marshal_def MsgApplyUserDeposit_Marshal_def MsgInitiateWithdrawal_Marshal_def
  MsgInitiateERC20Withdrawal_Marshal_def MsgInitiateFeeWithdrawal_Marshal_def MsgUpdateParams_Marshal_def

lemma msg_reads_back:
  assumes M: "mathint_ok M" and m: "sendable m" "msg_url m = Some url" "msg_Size M W m < 2 ^ 63"
  shows "\<exists>d. msg_Marshal M W m = Ok d \<and> length d = msg_Size M W m \<and> msg_Unmarshal M W url d = Ok m"
proof (cases m)
  case (SetL1AttributesMsg a)
  then show ?thesis using m wSetL1Attributes.round_trip by (auto simp: message_Marshal_defs msg_Unmarshal_def)
next
  case (ApplyUserDepositMsg a)
  then show ?thesis using m wApplyUserDeposit.round_trip [of a] by (auto simp: message_Marshal_defs msg_Unmarshal_def)
next
  case (InitiateWithdrawalMsg a)
  then show ?thesis using M m wWithdrawal.round_trip [of M a] by (auto simp: message_Marshal_defs msg_Unmarshal_def)
next
  case (InitiateERC20WithdrawalMsg a)
  then show ?thesis using M m wERC20Withdrawal.round_trip [of M a] by (auto simp: message_Marshal_defs msg_Unmarshal_def)
next
  case (InitiateFeeWithdrawalMsg a)
  then show ?thesis using m wFeeWithdrawal.round_trip [of a] by (auto simp: message_Marshal_defs msg_Unmarshal_def)
next
  case (UpdateParamsMsg a)
  then show ?thesis using m wUpdateParams.round_trip [of a] by (auto simp: message_Marshal_defs msg_Unmarshal_def)
qed (use m in simp)

lemma msg_size_exact:
  assumes M: "mathint_ok M" and m: "sendable m" "msg_Marshal M W m = Ok d"
  shows "length d = msg_Size M W m"
  using m M wWithdrawal.written wWithdrawal.marshalled wERC20Withdrawal.written wERC20Withdrawal.marshalled
  by (cases m) (fastforce simp: message_Marshal_defs)+

text \<open>
  C23: every message of the rollup module survives the wire. A message whose amount, if it has
  one, fits in 256 bits and whose encoding is shorter than the largest slice is written in
  exactly \<^verbatim>\<open>Size\<close> bytes, and reading them under the message's registered name gives the message
  back. Two messages of one type are never written alike, so that a signature over the bytes
  is a signature over one message.
\<close>

theorem messages_round_trip:
  assumes M: "mathint_ok M" and m: "sendable m" "msg_url m = Some url" "msg_Size M W m < 2 ^ 63"
  shows "\<exists>d. msg_Marshal M W m = Ok d \<and> length d = msg_Size M W m \<and> msg_Unmarshal M W url d = Ok m \<and>
    (\<forall>m'. sendable m' \<and> msg_url m' = Some url \<and> msg_Marshal M W m' = Ok d \<longrightarrow> m' = m)"
proof -
  obtain d where d: "msg_Marshal M W m = Ok d" "length d = msg_Size M W m" "msg_Unmarshal M W url d = Ok m"
    using msg_reads_back [OF M m] by blast
  have "m' = m" if m': "sendable m'" "msg_url m' = Some url" "msg_Marshal M W m' = Ok d" for m'
  proof -
    have "msg_Size M W m' < 2 ^ 63" using msg_size_exact [OF M m'(1,3)] d(2) m(3) by simp
    from msg_reads_back [OF M m'(1,2) this] show ?thesis using m'(3) d(3) by auto
  qed
  with d show ?thesis by blast
qed

text \<open>An integer library that writes a sign byte and 32 bytes, for a concrete message.\<close>

definition toy_mathint :: mathint_lib where
  "toy_mathint = \<lparr>
     mi_Size = (\<lambda>v. 33),
     mi_MarshalTo = (\<lambda>v. case v of None \<Rightarrow> Err (External ''nil'')
        | Some i \<Rightarrow> Ok ((if i < 0 then 1 else 0) # be_enc 32 (nat \<bar>i\<bar>))),
     mi_Unmarshal = (\<lambda>b old. Ok (Some ((if hd b = 1 then - 1 else 1) * int (be_dec (tl b)))))\<rparr>"

lemma toy_mathint_ok: "mathint_ok toy_mathint"
  unfolding mathint_ok_def
proof (intro allI impI)
  fix v assume "in_256_bits v"
  then obtain i where v: "v = Some i" and i: "\<bar>i\<bar> < 2 ^ 256" by (auto simp: in_256_bits_def split: option.splits)
  have "nat \<bar>i\<bar> < 256 ^ 32" using i by (simp add: nat_less_iff)
  then have "be_dec (be_enc 32 (nat \<bar>i\<bar>)) = nat \<bar>i\<bar>" by (rule be_dec_enc)
  then show "\<exists>bs. mi_MarshalTo toy_mathint v = Ok bs \<and> length bs = mi_Size toy_mathint v \<and>
      (\<forall>old. mi_Unmarshal toy_mathint bs old = Ok v)"
    by (auto simp: v toy_mathint_def simp del: be_enc_numeral)
qed

definition example_withdrawal :: MsgInitiateWithdrawal where
  "example_withdrawal = \<lparr>iw_Sender = ''cosmos1bob'', iw_Target = ''0x12'', iw_Value = Some 30, iw_GasLimit = [0x52, 0x08],
     iw_Data = [1, 2]\<rparr>"

definition no_msgs :: other_msgs where
  "no_msgs = \<lparr>om_Size = (\<lambda>s. 0), om_Marshal = (\<lambda>s. Err (External s)), om_Unmarshal = (\<lambda>s d. Err (External s))\<rparr>"

lemma example_withdrawal_size: "MsgInitiateWithdrawal_Size toy_mathint example_withdrawal < 2 ^ 63"
proof -
  have "MsgInitiateWithdrawal_Size toy_mathint example_withdrawal \<le> (11 + 10) + (11 + 4) + (11 + 33) + (11 + 2) + (11 + 2)"
    unfolding MsgInitiateWithdrawal_Size_def
    by (intro add_mono order_trans [OF sizeField_le(3)] order_trans [OF sizeField_le(2)])
       (simp_all add: example_withdrawal_def toy_mathint_def)
  then show ?thesis by simp
qed

theorem messages_round_trip_witness:
  "\<exists>d. msg_Marshal toy_mathint no_msgs (InitiateWithdrawalMsg example_withdrawal) = Ok d \<and>
     msg_Unmarshal toy_mathint no_msgs ''/rollup.v1.MsgInitiateWithdrawal'' d = Ok (InitiateWithdrawalMsg example_withdrawal)"
  using messages_round_trip [OF toy_mathint_ok, of "InitiateWithdrawalMsg example_withdrawal" "''/rollup.v1.MsgInitiateWithdrawal''" no_msgs]
    example_withdrawal_size by (auto simp: in_256_bits_def example_withdrawal_def)

end
