(* ===== verification/Service.thy ===== *)
theory Service
  imports Prelude
begin

text \<open>
  The services that protoc generates for the modules: a service is described by the names of
  its methods and their handlers, a handler reads a request and calls the server's method,
  directly or inside an interceptor. The gRPC server, the connection of a client and the
  application's message router are code of the SDK: what the generated code relies on is
  stated here, and the locale at the end says what follows for any generated service.
\<close>

section \<open>Handlers and descriptions\<close>

text \<open>
  A decoder fills the fresh request it is given. An interceptor gets the request, the method's
  full name and the call it may make.
\<close>

type_synonym 'm decoder = "'m \<Rightarrow> 'm res"
type_synonym ('c, 'm, 'r) interceptor = "'m \<Rightarrow> string \<Rightarrow> ('m \<Rightarrow> ('c, 'r) op) \<Rightarrow> ('c, 'r) op"
type_synonym ('c, 'srv, 'm, 'r) handler = "'srv \<Rightarrow> 'm decoder \<Rightarrow> ('c, 'm, 'r) interceptor option \<Rightarrow> ('c, 'r) op"

record ('c, 'srv, 'm, 'r) MethodDesc =
  md_MethodName :: string
  md_Handler :: "('c, 'srv, 'm, 'r) handler"

record ('c, 'srv, 'm, 'r) ServiceDesc =
  sd_ServiceName :: string
  sd_Methods :: "('c, 'srv, 'm, 'r) MethodDesc list"

definition unaryHandler ::
    "string \<Rightarrow> 'm \<Rightarrow> ('srv \<Rightarrow> 'm \<Rightarrow> ('c, 'r) op) \<Rightarrow> ('c, 'srv, 'm, 'r) handler" where
  "unaryHandler fullMethod new call srv dec icpt =
     scheck (slift (\<lambda>_. dec new)) pass (\<lambda>req. case icpt of
       None \<Rightarrow> call srv req
     | Some f \<Rightarrow> f req fullMethod (call srv))"

definition fullName :: "('c, 'srv, 'm, 'r) ServiceDesc \<Rightarrow> string \<Rightarrow> string" where
  "fullName d name = ''/'' @ sd_ServiceName d @ ''/'' @ name"

text \<open>A failed type assertion, and a method of the embeddable server without methods.\<close>

definition notThisType :: "('c, 'r) op" where
  "notThisType c = (Panic (External ''interface conversion''), c)"

definition unimplemented :: "string \<Rightarrow> ('c, 'r) op" where
  "unimplemented name = sfail (External (''method '' @ name @ '' not implemented''))"

section \<open>What the libraries do\<close>

text \<open>
  A gRPC server runs the handler of the registered method that a call names, with a decoder
  that reads the bytes of the call. A service is registered once under its name.
\<close>

record ('s, 'c, 'srv, 'm, 'r) grpc_server =
  gs_RegisterService :: "'s \<Rightarrow> ('c, 'srv, 'm, 'r) ServiceDesc \<Rightarrow> 'srv \<Rightarrow> 's"
  gs_Has :: "'s \<Rightarrow> string \<Rightarrow> bool"
  gs_Call :: "'s \<Rightarrow> string \<Rightarrow> bytes \<Rightarrow> ('c, 'r) op"

definition grpc_ok :: "(bytes \<Rightarrow> 'm decoder) \<Rightarrow> ('s, 'c, 'srv, 'm, 'r) grpc_server \<Rightarrow> bool" where
  "grpc_ok decode S \<longleftrightarrow> (\<forall>s d srv md bz c.
     md \<in> set (sd_Methods d) \<and> distinct (map md_MethodName (sd_Methods d)) \<and> \<not> gs_Has S s (sd_ServiceName d) \<longrightarrow>
     gs_Call S (gs_RegisterService S s d srv) (fullName d (md_MethodName md)) bz c = md_Handler md srv (decode bz) None c)"

text \<open>
  A client's connection to a server writes the request, makes the call and reads the
  response that the server wrote.
\<close>

definition connected ::
    "('m \<Rightarrow> bytes res) \<Rightarrow> ('r \<Rightarrow> 'r res) \<Rightarrow> ('s, 'c, 'srv, 'm, 'r) grpc_server \<Rightarrow> 's \<Rightarrow>
     (string \<Rightarrow> 'm \<Rightarrow> ('c, 'r) op) \<Rightarrow> bool" where
  "connected encode reread S s Invoke \<longleftrightarrow> (\<forall>method m c.
     Invoke method m c = scheck (slift (\<lambda>_. encode m)) pass
       (\<lambda>bz. scheck (gs_Call S s method bz) pass (\<lambda>r. slift (\<lambda>_. reread r))) c)"

text \<open>
  The application's router finds a method by the type of its request: it runs the handler with
  a decoder that only looks at the type, and registers a type once. A message is then handled
  in a context with a new event manager (\<open>fresh\<close>): first its \<^verbatim>\<open>ValidateBasic\<close> runs, if it has one
  (\<open>validate\<close>), and an error of it is the answer; then the method of its type, with a decoder
  that does nothing and an interceptor that calls the method on the message. The context in the
  answer is the message's own: the store and the events of this message alone. No circuit
  breaker is set on the router, as none of the applications here sets one.
\<close>

definition requestURL :: "('m \<Rightarrow> string option) \<Rightarrow> 'srv \<Rightarrow> 'c \<Rightarrow> ('c, 'srv, 'm, 'r) MethodDesc \<Rightarrow> string option" where
  "requestURL url srv c md =
     (case md_Handler md srv (\<lambda>i. Err (External (case url i of Some u \<Rightarrow> u | None \<Rightarrow> ''''))) None c of
       (Err (External u), _) \<Rightarrow> Some u
     | _ \<Rightarrow> None)"

record ('s, 'c, 'srv, 'm, 'r) msg_router =
  mr_RegisterService :: "'s \<Rightarrow> ('c, 'srv, 'm, 'r) ServiceDesc \<Rightarrow> 'srv \<Rightarrow> 's"
  mr_Has :: "'s \<Rightarrow> string \<Rightarrow> bool"
  mr_Handler :: "'s \<Rightarrow> 'm \<Rightarrow> ('c, 'r) op"

definition router_ok ::
    "('m \<Rightarrow> string option) \<Rightarrow> ('m \<Rightarrow> unit res) \<Rightarrow> ('c \<Rightarrow> 'c) \<Rightarrow> ('s, 'c, 'srv, 'm, 'r) msg_router \<Rightarrow> bool" where
  "router_ok url validate fresh R \<longleftrightarrow> (\<forall>s d srv md m c.
     md \<in> set (sd_Methods d) \<and> distinct (map (requestURL url srv c) (sd_Methods d)) \<and>
     (\<forall>md' u. md' \<in> set (sd_Methods d) \<and> requestURL url srv c md' = Some u \<longrightarrow> \<not> mr_Has R s u) \<and>
     url m \<noteq> None \<and> requestURL url srv c md = url m \<longrightarrow>
     mr_Handler R (mr_RegisterService R s d srv) m c =
       scheck (slift (\<lambda>_. validate m)) pass (\<lambda>_. md_Handler md srv Ok (Some (\<lambda>_ _ handler. handler m))) (fresh c))"

section \<open>A generated service\<close>

text \<open>
  A service whose methods, given by their names, fresh requests and calls, have handlers of the
  generated shape, different names and requests of different types.
\<close>

locale unary_service =
  fixes desc :: "('c, 'srv, 'm, 'r) ServiceDesc" and url :: "'m \<Rightarrow> string option"
    and methods :: "(string \<times> 'm \<times> ('srv \<Rightarrow> 'm \<Rightarrow> ('c, 'r) op)) list"
  assumes shape: "sd_Methods desc =
      map (\<lambda>(name, new, call). \<lparr>md_MethodName = name, md_Handler = unaryHandler (fullName desc name) new call\<rparr>) methods"
    and names: "distinct (map fst methods)"
    and types: "distinct (map (\<lambda>(name, new, call). url new) methods)"
    and typed: "(name, new, call) \<in> set methods \<Longrightarrow> url new \<noteq> None"
begin

lemma request_type:
  assumes "url new \<noteq> None"
  shows "requestURL url srv c \<lparr>md_MethodName = name, md_Handler = unaryHandler full new call\<rparr> = url new"
  using assms by (auto simp: requestURL_def unaryHandler_def slift_def scheck_def pass_def split: option.splits)

lemma method_in:
  assumes "(name, new, call) \<in> set methods"
  shows "\<lparr>md_MethodName = name, md_Handler = unaryHandler (fullName desc name) new call\<rparr> \<in> set (sd_Methods desc)"
  using assms unfolding shape by force

lemma different_types: "distinct (map (requestURL url srv c) (sd_Methods desc))"
proof -
  have "map (requestURL url srv c) (sd_Methods desc) = map (\<lambda>(name, new, call). url new) methods"
    unfolding shape map_map by (intro map_cong refl) (auto simp: request_type [OF typed])
  then show ?thesis using types by (simp only:)
qed

lemma different_names: "distinct (map md_MethodName (sd_Methods desc))"
proof -
  have "map md_MethodName (sd_Methods desc) = map fst methods" unfolding shape by auto
  then show ?thesis using names by (simp only:)
qed

lemma routed:
  assumes R: "router_ok url validate fresh R" and meth: "(name, new, call) \<in> set methods" and m: "url m = url new"
    and free: "\<forall>(name, new, call) \<in> set methods. \<not> mr_Has R s (the (url new))"
  shows "mr_Handler R (mr_RegisterService R s desc srv) m c =
    scheck (slift (\<lambda>_. validate m)) pass (\<lambda>_. call srv m) (fresh c)"
proof -
  have types: "\<not> mr_Has R s u" if "md \<in> set (sd_Methods desc)" "requestURL url srv c md = Some u" for md u
    using that free typed unfolding shape by (auto simp: request_type)
  let ?md = "\<lparr>md_MethodName = name, md_Handler = unaryHandler (fullName desc name) new call\<rparr>"
  have "mr_Handler R (mr_RegisterService R s desc srv) m c =
      scheck (slift (\<lambda>_. validate m)) pass (\<lambda>_. md_Handler ?md srv Ok (Some (\<lambda>_ _ handler. handler m))) (fresh c)"
    using R [unfolded router_ok_def, rule_format, of ?md desc srv c s m] method_in [OF meth] different_types [of srv c]
      typed [OF meth] request_type [OF typed [OF meth]] m types by metis
  moreover have "md_Handler ?md srv Ok (Some (\<lambda>_ _ handler. handler m)) = call srv m"
    by (simp add: fun_eq_iff unaryHandler_def slift_def scheck_def)
  ultimately show ?thesis by simp
qed

lemma called:
  assumes S: "grpc_ok decode S" and free: "\<not> gs_Has S s (sd_ServiceName desc)" and meth: "(name, new, call) \<in> set methods"
  shows "gs_Call S (gs_RegisterService S s desc srv) (fullName desc name) bz c =
    scheck (slift (\<lambda>_. decode bz new)) pass (call srv) c"
  using S free method_in [OF meth] different_names unfolding grpc_ok_def
  by (force simp: unaryHandler_def)

lemma invoked:
  assumes S: "grpc_ok decode S" and free: "\<not> gs_Has S s (sd_ServiceName desc)" and cc: "connected encode reread S (gs_RegisterService S s desc srv) Invoke"
    and meth: "(name, new, call) \<in> set methods" and wire: "encode m = Ok bz" "decode bz new = Ok m"
  shows "Invoke (fullName desc name) m c = scheck (call srv m) pass (\<lambda>r. slift (\<lambda>_. reread r)) c"
proof -
  have "gs_Call S (gs_RegisterService S s desc srv) (fullName desc name) bz = call srv m"
    using called [OF S free meth] wire(2) by (auto simp: fun_eq_iff slift_def scheck_def)
  then show ?thesis using cc wire(1) unfolding connected_def by (simp add: slift_def)
qed

end

section \<open>Concrete libraries\<close>

text \<open>A server and a router that keep the services they were given, the last one first.\<close>

type_synonym ('c, 'srv, 'm, 'r) services = "(('c, 'srv, 'm, 'r) ServiceDesc \<times> 'srv) list"

definition list_grpc :: "(bytes \<Rightarrow> 'm decoder) \<Rightarrow> (('c, 'srv, 'm, 'r) services, 'c, 'srv, 'm, 'r) grpc_server" where
  "list_grpc decode = \<lparr>
     gs_RegisterService = (\<lambda>s d srv. (d, srv) # s),
     gs_Has = (\<lambda>s name. \<exists>d \<in> fst ` set s. sd_ServiceName d = name),
     gs_Call = (\<lambda>s full bz c. case find (\<lambda>(d, srv, md). fullName d (md_MethodName md) = full)
         (concat (map (\<lambda>(d, srv). map (\<lambda>md. (d, srv, md)) (sd_Methods d)) s)) of
       None \<Rightarrow> (Err (External ''unknown method''), c)
     | Some (d, srv, md) \<Rightarrow> md_Handler md srv (decode bz) None c)\<rparr>"

definition list_router ::
    "('m \<Rightarrow> string option) \<Rightarrow> ('m \<Rightarrow> unit res) \<Rightarrow> ('c \<Rightarrow> 'c) \<Rightarrow>
     (('c, 'srv, 'm, 'r) services, 'c, 'srv, 'm, 'r) msg_router" where
  "list_router url validate fresh = \<lparr>
     mr_RegisterService = (\<lambda>s d srv. (d, srv) # s),
     mr_Has = (\<lambda>s u. list_ex (\<lambda>(d, srv). list_ex (\<lambda>md. \<exists>c. requestURL url srv c md = Some u) (sd_Methods d)) s),
     mr_Handler = (\<lambda>s m c. case find (\<lambda>(srv, md). requestURL url srv c md = url m)
         (concat (map (\<lambda>(d, srv). map (Pair srv) (sd_Methods d)) s)) of
       None \<Rightarrow> (Err (External ''no handler''), c)
     | Some (srv, md) \<Rightarrow> scheck (slift (\<lambda>_. validate m)) pass
         (\<lambda>_. md_Handler md srv Ok (Some (\<lambda>_ _ handler. handler m))) (fresh c))\<rparr>"

lemma find_unique:
  assumes "x \<in> set xs" "P x" "\<And>y. y \<in> set xs \<Longrightarrow> P y \<Longrightarrow> y = x"
  shows "find P (xs @ ys) = Some x"
  using assms
proof (induction xs)
  case (Cons a xs)
  show ?case
  proof (cases "P a")
    case True
    then have "a = x" using Cons.prems(3) [of a] by simp
    with True show ?thesis by simp
  next
    case False
    then have "x \<in> set xs" using Cons.prems(1,2) by auto
    from Cons.IH [OF this Cons.prems(2)] Cons.prems(3) False show ?thesis by simp
  qed
qed simp

lemma list_grpc_ok:
  fixes decode :: "bytes \<Rightarrow> 'm decoder"
  shows "grpc_ok decode (list_grpc decode :: (('c, 'srv, 'm, 'r) services, 'c, 'srv, 'm, 'r) grpc_server)"
  unfolding grpc_ok_def
proof (intro allI impI, elim conjE)
  fix s :: "('c, 'srv, 'm, 'r) services" and d :: "('c, 'srv, 'm, 'r) ServiceDesc" and srv :: 'srv and md bz and c :: 'c
  assume md: "md \<in> set (sd_Methods d)" "distinct (map md_MethodName (sd_Methods d))"
  have "find (\<lambda>(d', srv', md'). fullName d' (md_MethodName md') = fullName d (md_MethodName md))
      (map (\<lambda>md. (d, srv, md)) (sd_Methods d) @ concat (map (\<lambda>(d, srv). map (\<lambda>md. (d, srv, md)) (sd_Methods d)) s)) =
      Some (d, srv, md)"
    using md by (intro find_unique) (auto simp: fullName_def distinct_map inj_on_def)
  then show "gs_Call (list_grpc decode) (gs_RegisterService (list_grpc decode) s d srv) (fullName d (md_MethodName md)) bz c =
      md_Handler md srv (decode bz) None c" by (simp add: list_grpc_def)
qed

lemma list_router_ok:
  fixes url :: "'m \<Rightarrow> string option"
  shows "router_ok url validate fresh (list_router url validate fresh :: (('c, 'srv, 'm, 'r) services, 'c, 'srv, 'm, 'r) msg_router)"
  unfolding router_ok_def
proof (intro allI impI, elim conjE)
  fix s :: "('c, 'srv, 'm, 'r) services" and d :: "('c, 'srv, 'm, 'r) ServiceDesc" and srv :: 'srv and md m and c :: 'c
  assume md: "md \<in> set (sd_Methods d)" "distinct (map (requestURL url srv c) (sd_Methods d))"
    "requestURL url srv c md = url m"
  have "find (\<lambda>(srv', md'). requestURL url srv' c md' = url m)
      (map (Pair srv) (sd_Methods d) @ concat (map (\<lambda>(d, srv). map (Pair srv) (sd_Methods d)) s)) = Some (srv, md)"
    using md by (intro find_unique) (auto simp: distinct_map inj_on_def)
  then show "mr_Handler (list_router url validate fresh) (mr_RegisterService (list_router url validate fresh) s d srv) m c =
      scheck (slift (\<lambda>_. validate m)) pass (\<lambda>_. md_Handler md srv Ok (Some (\<lambda>_ _ handler. handler m))) (fresh c)"
    by (simp add: list_router_def)
qed

text \<open>A connection without a network in between.\<close>

definition direct ::
    "('m \<Rightarrow> bytes res) \<Rightarrow> ('r \<Rightarrow> 'r res) \<Rightarrow> ('s, 'c, 'srv, 'm, 'r) grpc_server \<Rightarrow> 's \<Rightarrow> string \<Rightarrow> 'm \<Rightarrow> ('c, 'r) op" where
  "direct encode reread S s method m = scheck (slift (\<lambda>_. encode m)) pass
     (\<lambda>bz. scheck (gs_Call S s method bz) pass (\<lambda>r. slift (\<lambda>_. reread r)))"

lemma direct_connected: "connected encode reread S s (direct encode reread S s)"
  by (simp add: connected_def direct_def)

end
