(* ===== verification/RollupService.thy ===== *)
theory RollupService
  imports RollupModule RollupWire Service
begin

text \<open>
  The rollup module's services (\<^verbatim>\<open>tx.pb.go\<close>, \<^verbatim>\<open>query.pb.go\<close>) and their registration
  (\<^verbatim>\<open>module.go\<close>): the handlers and clients protoc generates for the message and the query
  service, and the module that puts its keeper behind both.
\<close>

section \<open>The message service\<close>

record 'c MsgServer =
  ms_SetL1Attributes :: "MsgSetL1Attributes option \<Rightarrow> ('c, unit) op"
  ms_ApplyUserDeposit :: "MsgApplyUserDeposit \<Rightarrow> ('c, unit) op"
  ms_InitiateWithdrawal :: "MsgInitiateWithdrawal \<Rightarrow> ('c, unit) op"
  ms_InitiateERC20Withdrawal :: "MsgInitiateERC20Withdrawal \<Rightarrow> ('c, unit) op"
  ms_InitiateFeeWithdrawal :: "MsgInitiateFeeWithdrawal \<Rightarrow> ('c, unit) op"
  ms_UpdateParams :: "MsgUpdateParams \<Rightarrow> ('c, unit) op"

text \<open>The server to embed answers every method with an error.\<close>

definition UnimplementedMsgServer :: "'c MsgServer" where
  "UnimplementedMsgServer = \<lparr>
     ms_SetL1Attributes = (\<lambda>req. unimplemented ''SetL1Attributes''),
     ms_ApplyUserDeposit = (\<lambda>req. unimplemented ''ApplyUserDeposit''),
     ms_InitiateWithdrawal = (\<lambda>req. unimplemented ''InitiateWithdrawal''),
     ms_InitiateERC20Withdrawal = (\<lambda>req. unimplemented ''InitiateERC20Withdrawal''),
     ms_InitiateFeeWithdrawal = (\<lambda>req. unimplemented ''InitiateFeeWithdrawal''),
     ms_UpdateParams = (\<lambda>req. unimplemented ''UpdateParams'')\<rparr>"

text \<open>
  The methods are called on a request of any type, as an interceptor may, and panic on another
  type than their own.
\<close>

definition call_SetL1Attributes :: "'c MsgServer \<Rightarrow> msg \<Rightarrow> ('c, unit) op" where
  "call_SetL1Attributes srv req = (case req of SetL1AttributesMsg m \<Rightarrow> ms_SetL1Attributes srv m | _ \<Rightarrow> notThisType)"

definition call_ApplyUserDeposit :: "'c MsgServer \<Rightarrow> msg \<Rightarrow> ('c, unit) op" where
  "call_ApplyUserDeposit srv req = (case req of ApplyUserDepositMsg m \<Rightarrow> ms_ApplyUserDeposit srv m | _ \<Rightarrow> notThisType)"

definition call_InitiateWithdrawal :: "'c MsgServer \<Rightarrow> msg \<Rightarrow> ('c, unit) op" where
  "call_InitiateWithdrawal srv req =
     (case req of InitiateWithdrawalMsg m \<Rightarrow> ms_InitiateWithdrawal srv m | _ \<Rightarrow> notThisType)"

definition call_InitiateERC20Withdrawal :: "'c MsgServer \<Rightarrow> msg \<Rightarrow> ('c, unit) op" where
  "call_InitiateERC20Withdrawal srv req =
     (case req of InitiateERC20WithdrawalMsg m \<Rightarrow> ms_InitiateERC20Withdrawal srv m | _ \<Rightarrow> notThisType)"

definition call_InitiateFeeWithdrawal :: "'c MsgServer \<Rightarrow> msg \<Rightarrow> ('c, unit) op" where
  "call_InitiateFeeWithdrawal srv req =
     (case req of InitiateFeeWithdrawalMsg m \<Rightarrow> ms_InitiateFeeWithdrawal srv m | _ \<Rightarrow> notThisType)"

definition call_UpdateParams :: "'c MsgServer \<Rightarrow> msg \<Rightarrow> ('c, unit) op" where
  "call_UpdateParams srv req = (case req of UpdateParamsMsg m \<Rightarrow> ms_UpdateParams srv m | _ \<Rightarrow> notThisType)"

definition Msg_SetL1Attributes_Handler :: "('c, 'c MsgServer, msg, unit) handler" where
  "Msg_SetL1Attributes_Handler = unaryHandler ''/rollup.v1.Msg/SetL1Attributes''
     (SetL1AttributesMsg (Some zero_MsgSetL1Attributes)) call_SetL1Attributes"

definition Msg_ApplyUserDeposit_Handler :: "('c, 'c MsgServer, msg, unit) handler" where
  "Msg_ApplyUserDeposit_Handler = unaryHandler ''/rollup.v1.Msg/ApplyUserDeposit''
     (ApplyUserDepositMsg \<lparr>ud_Tx = []\<rparr>) call_ApplyUserDeposit"

definition Msg_InitiateWithdrawal_Handler :: "('c, 'c MsgServer, msg, unit) handler" where
  "Msg_InitiateWithdrawal_Handler = unaryHandler ''/rollup.v1.Msg/InitiateWithdrawal''
     (InitiateWithdrawalMsg zero_MsgInitiateWithdrawal) call_InitiateWithdrawal"

definition Msg_InitiateERC20Withdrawal_Handler :: "('c, 'c MsgServer, msg, unit) handler" where
  "Msg_InitiateERC20Withdrawal_Handler = unaryHandler ''/rollup.v1.Msg/InitiateERC20Withdrawal''
     (InitiateERC20WithdrawalMsg zero_MsgInitiateERC20Withdrawal) call_InitiateERC20Withdrawal"

definition Msg_InitiateFeeWithdrawal_Handler :: "('c, 'c MsgServer, msg, unit) handler" where
  "Msg_InitiateFeeWithdrawal_Handler = unaryHandler ''/rollup.v1.Msg/InitiateFeeWithdrawal''
     (InitiateFeeWithdrawalMsg \<lparr>if_Sender = []\<rparr>) call_InitiateFeeWithdrawal"

definition Msg_UpdateParams_Handler :: "('c, 'c MsgServer, msg, unit) handler" where
  "Msg_UpdateParams_Handler = unaryHandler ''/rollup.v1.Msg/UpdateParams''
     (UpdateParamsMsg zero_MsgUpdateParams) call_UpdateParams"

definition Msg_serviceDesc :: "('c, 'c MsgServer, msg, unit) ServiceDesc" where
  "Msg_serviceDesc = \<lparr>sd_ServiceName = ''rollup.v1.Msg'', sd_Methods = [
     \<lparr>md_MethodName = ''SetL1Attributes'', md_Handler = Msg_SetL1Attributes_Handler\<rparr>,
     \<lparr>md_MethodName = ''ApplyUserDeposit'', md_Handler = Msg_ApplyUserDeposit_Handler\<rparr>,
     \<lparr>md_MethodName = ''InitiateWithdrawal'', md_Handler = Msg_InitiateWithdrawal_Handler\<rparr>,
     \<lparr>md_MethodName = ''InitiateERC20Withdrawal'', md_Handler = Msg_InitiateERC20Withdrawal_Handler\<rparr>,
     \<lparr>md_MethodName = ''InitiateFeeWithdrawal'', md_Handler = Msg_InitiateFeeWithdrawal_Handler\<rparr>,
     \<lparr>md_MethodName = ''UpdateParams'', md_Handler = Msg_UpdateParams_Handler\<rparr>]\<rparr>"

text \<open>A client passes the request to its connection under the method's full name.\<close>

type_synonym 'c msg_conn = "string \<Rightarrow> msg \<Rightarrow> ('c, unit) op"

definition msgClient_SetL1Attributes :: "'c msg_conn \<Rightarrow> MsgSetL1Attributes option \<Rightarrow> ('c, unit) op" where
  "msgClient_SetL1Attributes Invoke req =
     scheck (Invoke ''/rollup.v1.Msg/SetL1Attributes'' (SetL1AttributesMsg req)) pass sret"

definition msgClient_ApplyUserDeposit :: "'c msg_conn \<Rightarrow> MsgApplyUserDeposit \<Rightarrow> ('c, unit) op" where
  "msgClient_ApplyUserDeposit Invoke req =
     scheck (Invoke ''/rollup.v1.Msg/ApplyUserDeposit'' (ApplyUserDepositMsg req)) pass sret"

definition msgClient_InitiateWithdrawal :: "'c msg_conn \<Rightarrow> MsgInitiateWithdrawal \<Rightarrow> ('c, unit) op" where
  "msgClient_InitiateWithdrawal Invoke req =
     scheck (Invoke ''/rollup.v1.Msg/InitiateWithdrawal'' (InitiateWithdrawalMsg req)) pass sret"

definition msgClient_InitiateERC20Withdrawal :: "'c msg_conn \<Rightarrow> MsgInitiateERC20Withdrawal \<Rightarrow> ('c, unit) op" where
  "msgClient_InitiateERC20Withdrawal Invoke req =
     scheck (Invoke ''/rollup.v1.Msg/InitiateERC20Withdrawal'' (InitiateERC20WithdrawalMsg req)) pass sret"

definition msgClient_InitiateFeeWithdrawal :: "'c msg_conn \<Rightarrow> MsgInitiateFeeWithdrawal \<Rightarrow> ('c, unit) op" where
  "msgClient_InitiateFeeWithdrawal Invoke req =
     scheck (Invoke ''/rollup.v1.Msg/InitiateFeeWithdrawal'' (InitiateFeeWithdrawalMsg req)) pass sret"

definition msgClient_UpdateParams :: "'c msg_conn \<Rightarrow> MsgUpdateParams \<Rightarrow> ('c, unit) op" where
  "msgClient_UpdateParams Invoke req =
     scheck (Invoke ''/rollup.v1.Msg/UpdateParams'' (UpdateParamsMsg req)) pass sret"

text \<open>The client method for a message, by its type.\<close>

fun msgClient_send :: "'c msg_conn \<Rightarrow> msg \<Rightarrow> ('c, unit) op" where
  "msgClient_send Invoke (SetL1AttributesMsg m) = msgClient_SetL1Attributes Invoke m"
| "msgClient_send Invoke (ApplyUserDepositMsg m) = msgClient_ApplyUserDeposit Invoke m"
| "msgClient_send Invoke (InitiateWithdrawalMsg m) = msgClient_InitiateWithdrawal Invoke m"
| "msgClient_send Invoke (InitiateERC20WithdrawalMsg m) = msgClient_InitiateERC20Withdrawal Invoke m"
| "msgClient_send Invoke (InitiateFeeWithdrawalMsg m) = msgClient_InitiateFeeWithdrawal Invoke m"
| "msgClient_send Invoke (UpdateParamsMsg m) = msgClient_UpdateParams Invoke m"
| "msgClient_send Invoke (OtherMsg s) = sfail (External ''no method'')"

section \<open>The query service\<close>

text \<open>Both requests are empty; the response is of the type of the method.\<close>

datatype query_request = QueryParamsRequest | QueryL1BlockInfoRequest

datatype query_response = ParamsResponse QueryParamsResponse | L1BlockInfoResponse QueryL1BlockInfoResponse

record 'c QueryServer =
  qs_Params :: "unit option \<Rightarrow> ('c, Params) op"
  qs_L1BlockInfo :: "unit option \<Rightarrow> ('c, L1BlockInfo) op"

definition UnimplementedQueryServer :: "'c QueryServer" where
  "UnimplementedQueryServer = \<lparr>
     qs_Params = (\<lambda>req. unimplemented ''Params''),
     qs_L1BlockInfo = (\<lambda>req. unimplemented ''L1BlockInfo'')\<rparr>"

definition call_Params :: "'c QueryServer \<Rightarrow> query_request \<Rightarrow> ('c, query_response) op" where
  "call_Params srv req = (case req of
       QueryParamsRequest \<Rightarrow> scheck (qs_Params srv (Some ())) pass (\<lambda>p. sret (ParamsResponse \<lparr>qp_Params = p\<rparr>))
     | _ \<Rightarrow> notThisType)"

definition call_L1BlockInfo :: "'c QueryServer \<Rightarrow> query_request \<Rightarrow> ('c, query_response) op" where
  "call_L1BlockInfo srv req = (case req of
       QueryL1BlockInfoRequest \<Rightarrow>
         scheck (qs_L1BlockInfo srv (Some ())) pass (\<lambda>i. sret (L1BlockInfoResponse \<lparr>ql_L1BlockInfo = i\<rparr>))
     | _ \<Rightarrow> notThisType)"

definition Query_Params_Handler :: "('c, 'c QueryServer, query_request, query_response) handler" where
  "Query_Params_Handler = unaryHandler ''/rollup.v1.Query/Params'' QueryParamsRequest call_Params"

definition Query_L1BlockInfo_Handler :: "('c, 'c QueryServer, query_request, query_response) handler" where
  "Query_L1BlockInfo_Handler = unaryHandler ''/rollup.v1.Query/L1BlockInfo'' QueryL1BlockInfoRequest call_L1BlockInfo"

definition Query_serviceDesc :: "('c, 'c QueryServer, query_request, query_response) ServiceDesc" where
  "Query_serviceDesc = \<lparr>sd_ServiceName = ''rollup.v1.Query'', sd_Methods = [
     \<lparr>md_MethodName = ''Params'', md_Handler = Query_Params_Handler\<rparr>,
     \<lparr>md_MethodName = ''L1BlockInfo'', md_Handler = Query_L1BlockInfo_Handler\<rparr>]\<rparr>"

type_synonym 'c query_conn = "string \<Rightarrow> query_request \<Rightarrow> ('c, query_response) op"

definition queryClient_Params :: "'c query_conn \<Rightarrow> ('c, QueryParamsResponse) op" where
  "queryClient_Params Invoke = scheck (Invoke ''/rollup.v1.Query/Params'' QueryParamsRequest) pass
     (\<lambda>out. case out of ParamsResponse r \<Rightarrow> sret r | _ \<Rightarrow> notThisType)"

definition queryClient_L1BlockInfo :: "'c query_conn \<Rightarrow> ('c, QueryL1BlockInfoResponse) op" where
  "queryClient_L1BlockInfo Invoke = scheck (Invoke ''/rollup.v1.Query/L1BlockInfo'' QueryL1BlockInfoRequest) pass
     (\<lambda>out. case out of L1BlockInfoResponse r \<Rightarrow> sret r | _ \<Rightarrow> notThisType)"

section \<open>The module\<close>

text \<open>The keeper is the server of both services.\<close>

definition Keeper_MsgServer :: "('s, 'b, 'tx, 'blk) keeper_env \<Rightarrow> ('s, 'b) rollup_ctx MsgServer" where
  "Keeper_MsgServer K = \<lparr>
     ms_SetL1Attributes = SetL1Attributes K,
     ms_ApplyUserDeposit = ApplyUserDeposit K,
     ms_InitiateWithdrawal = Keeper_InitiateWithdrawal K,
     ms_InitiateERC20Withdrawal = InitiateERC20Withdrawal K,
     ms_InitiateFeeWithdrawal = InitiateFeeWithdrawal K,
     ms_UpdateParams = UpdateParams K\<rparr>"

definition Keeper_QueryServer :: "('s, 'b, 'tx, 'blk) keeper_env \<Rightarrow> ('s, 'b) rollup_ctx QueryServer" where
  "Keeper_QueryServer K = \<lparr>qs_Params = Query_Params K, qs_L1BlockInfo = Query_L1BlockInfo K\<rparr>"

record 'cdc AppModuleBasic =
  ab_cdc :: 'cdc

record ('cdc, 'k) AppModule =
  am_AppModuleBasic :: "'cdc AppModuleBasic"
  am_keeper :: 'k

definition NewAppModuleBasic :: "'cdc \<Rightarrow> 'cdc AppModuleBasic" where
  "NewAppModuleBasic cdc = \<lparr>ab_cdc = cdc\<rparr>"

definition NewAppModule :: "'cdc \<Rightarrow> 'k \<Rightarrow> ('cdc, 'k) AppModule" where
  "NewAppModule cdc k = \<lparr>am_AppModuleBasic = NewAppModuleBasic cdc, am_keeper = k\<rparr>"

definition RegisterMsgServer ::
    "('q \<Rightarrow> ('c, 'c MsgServer, msg, unit) ServiceDesc \<Rightarrow> 'c MsgServer \<Rightarrow> 'q) \<Rightarrow> 'q \<Rightarrow> 'c MsgServer \<Rightarrow> 'q" where
  "RegisterMsgServer RegisterService s srv = RegisterService s Msg_serviceDesc srv"

definition RegisterQueryServer ::
    "('q \<Rightarrow> ('c, 'c QueryServer, query_request, query_response) ServiceDesc \<Rightarrow> 'c QueryServer \<Rightarrow> 'q) \<Rightarrow>
     'q \<Rightarrow> 'c QueryServer \<Rightarrow> 'q" where
  "RegisterQueryServer RegisterService s srv = RegisterService s Query_serviceDesc srv"

text \<open>The configurator holds the two servers, which the registration changes.\<close>

definition RegisterServices ::
    "('m, ('s, 'b) rollup_ctx, ('s, 'b) rollup_ctx MsgServer, msg, unit) msg_router \<Rightarrow>
     ('q, ('s, 'b) rollup_ctx, ('s, 'b) rollup_ctx QueryServer, query_request, query_response) grpc_server \<Rightarrow>
     ('cdc, ('s, 'b, 'tx, 'blk) keeper_env) AppModule \<Rightarrow> 'm \<times> 'q \<Rightarrow> 'm \<times> 'q" where
  "RegisterServices R S am cfg =
     (RegisterMsgServer (mr_RegisterService R) (fst cfg) (Keeper_MsgServer (am_keeper am)),
      RegisterQueryServer (gs_RegisterService S) (snd cfg) (Keeper_QueryServer (am_keeper am)))"

definition RegisterInterfaces ::
    "('reg \<Rightarrow> ('c, 'c MsgServer, msg, unit) ServiceDesc \<Rightarrow> 'reg) \<Rightarrow> 'reg \<Rightarrow> 'reg" where
  "RegisterInterfaces RegisterMsgServiceDesc registry = RegisterMsgServiceDesc registry Msg_serviceDesc"

text \<open>
  Provided to the application: the keeper with its authority, the module around it, and the
  signers of deposit messages under the name of their type.
\<close>

definition Module_outputs ::
    "'cdc \<Rightarrow> ('s, 'b, 'tx, 'blk) keeper_env \<Rightarrow> (string \<Rightarrow> bytes) \<Rightarrow> (string \<Rightarrow> bytes) \<Rightarrow> string \<Rightarrow> string \<Rightarrow>
     ('s, 'b, 'tx, 'blk) keeper_env \<times> ('cdc, ('s, 'b, 'tx, 'blk) keeper_env) AppModule" where
  "Module_outputs cdc K newAddr newAddrOrBech32 govName configured =
     (let k = ProvideModule K newAddr newAddrOrBech32 govName configured in (k, NewAppModule cdc k))"

definition ProvideApplyUserDepositGetSigner :: "string \<times> (msg \<Rightarrow> bytes list res)" where
  "ProvideApplyUserDepositGetSigner = (''rollup.v1.MsgApplyUserDeposit'', depositSigners)"

definition ProvideSetL1AttributesGetSigner :: "string \<times> (msg \<Rightarrow> bytes list res)" where
  "ProvideSetL1AttributesGetSigner = (''rollup.v1.MsgSetL1Attributes'', depositSigners)"

text \<open>
  The \<^verbatim>\<open>ValidateBasic\<close> that the router finds on a message, which four of the six have (\<^verbatim>\<open>msgs.go\<close>);
  whether a deposit is a system transaction is the Ethereum library's. A context with a new
  event manager.
\<close>

fun msg_ValidateBasic :: "('s, 'b, 'tx, 'blk) keeper_env \<Rightarrow> msg \<Rightarrow> unit res" where
  "msg_ValidateBasic K (ApplyUserDepositMsg m) = MsgApplyUserDeposit_ValidateBasic (ke_eth K) (dp_IsSystemTx (ke_dep K)) m"
| "msg_ValidateBasic K (SetL1AttributesMsg m) = MsgSetL1Attributes_ValidateBasic m"
| "msg_ValidateBasic K (InitiateWithdrawalMsg m) = MsgInitiateWithdrawal_ValidateBasic (ke_hex K) m"
| "msg_ValidateBasic K (InitiateERC20WithdrawalMsg m) = MsgInitiateERC20Withdrawal_ValidateBasic (ke_hex K) m"
| "msg_ValidateBasic K m = Ok ()"

definition newEvents :: "('s, 'b) rollup_ctx \<Rightarrow> ('s, 'b) rollup_ctx" where
  "newEvents c = c\<lparr>rc_events := []\<rparr>"

section \<open>The services have the generated shape\<close>

definition msg_methods :: "(string \<times> msg \<times> ('c MsgServer \<Rightarrow> msg \<Rightarrow> ('c, unit) op)) list" where
  "msg_methods = [
     (''SetL1Attributes'', SetL1AttributesMsg (Some zero_MsgSetL1Attributes), call_SetL1Attributes),
     (''ApplyUserDeposit'', ApplyUserDepositMsg \<lparr>ud_Tx = []\<rparr>, call_ApplyUserDeposit),
     (''InitiateWithdrawal'', InitiateWithdrawalMsg zero_MsgInitiateWithdrawal, call_InitiateWithdrawal),
     (''InitiateERC20Withdrawal'', InitiateERC20WithdrawalMsg zero_MsgInitiateERC20Withdrawal, call_InitiateERC20Withdrawal),
     (''InitiateFeeWithdrawal'', InitiateFeeWithdrawalMsg \<lparr>if_Sender = []\<rparr>, call_InitiateFeeWithdrawal),
     (''UpdateParams'', UpdateParamsMsg zero_MsgUpdateParams, call_UpdateParams)]"

definition query_methods :: "(string \<times> query_request \<times> ('c QueryServer \<Rightarrow> query_request \<Rightarrow> ('c, query_response) op)) list" where
  "query_methods = [(''Params'', QueryParamsRequest, call_Params), (''L1BlockInfo'', QueryL1BlockInfoRequest, call_L1BlockInfo)]"

fun query_url :: "query_request \<Rightarrow> string option" where
  "query_url QueryParamsRequest = Some ''/rollup.v1.QueryParamsRequest''"
| "query_url QueryL1BlockInfoRequest = Some ''/rollup.v1.QueryL1BlockInfoRequest''"

lemmas msg_handler_defs = Msg_SetL1Attributes_Handler_def Msg_ApplyUserDeposit_Handler_def
  Msg_InitiateWithdrawal_Handler_def Msg_InitiateERC20Withdrawal_Handler_def Msg_InitiateFeeWithdrawal_Handler_def
  Msg_UpdateParams_Handler_def
lemmas msg_call_defs = call_SetL1Attributes_def call_ApplyUserDeposit_def call_InitiateWithdrawal_def
  call_InitiateERC20Withdrawal_def call_InitiateFeeWithdrawal_def call_UpdateParams_def
lemmas msg_client_defs = msgClient_SetL1Attributes_def msgClient_ApplyUserDeposit_def msgClient_InitiateWithdrawal_def
  msgClient_InitiateERC20Withdrawal_def msgClient_InitiateFeeWithdrawal_def msgClient_UpdateParams_def

interpretation rollupMsg: unary_service Msg_serviceDesc msg_url msg_methods
  by unfold_locales (auto simp: Msg_serviceDesc_def msg_methods_def msg_handler_defs fullName_def)

interpretation rollupQuery: unary_service Query_serviceDesc query_url query_methods
  by unfold_locales (auto simp: Query_serviceDesc_def query_methods_def Query_Params_Handler_def
      Query_L1BlockInfo_Handler_def fullName_def)

text \<open>What the wire does to the requests and responses of the query service.\<close>

definition query_encode :: "query_request \<Rightarrow> bytes res" where
  "query_encode req = EmptyMessage_Marshal ()"

definition query_decode :: "bytes \<Rightarrow> query_request \<Rightarrow> query_request res" where
  "query_decode bz req = check (EmptyMessage_Unmarshal bz ()) pass (\<lambda>_. Ok req)"

fun query_reread :: "query_response \<Rightarrow> query_response res" where
  "query_reread (ParamsResponse r) = check (QueryParamsResponse_Marshal r) pass
     (\<lambda>bz. check (QueryParamsResponse_Unmarshal bz \<lparr>qp_Params = zero_Params\<rparr>) pass (\<lambda>r. Ok (ParamsResponse r)))"
| "query_reread (L1BlockInfoResponse r) = check (QueryL1BlockInfoResponse_Marshal r) pass
     (\<lambda>bz. check (QueryL1BlockInfoResponse_Unmarshal bz \<lparr>ql_L1BlockInfo = zero_L1BlockInfo\<rparr>) pass
       (\<lambda>r. Ok (L1BlockInfoResponse r)))"

lemma query_on_the_wire: "query_encode req = Ok []" "query_decode [] req = Ok req"
  by (simp_all add: query_encode_def query_decode_def EmptyMessage_Marshal_def EmptyMessage_Unmarshal_def marshalSized_def
      unmarshalFrom.simps)

lemma responses_read_back:
  "QueryParamsResponse_Size p < 2 ^ 63 \<Longrightarrow> query_reread (ParamsResponse p) = Ok (ParamsResponse p)"
  "QueryL1BlockInfoResponse_Size i < 2 ^ 63 \<Longrightarrow> query_reread (L1BlockInfoResponse i) = Ok (L1BlockInfoResponse i)"
  using wQueryParams.round_trip [of p] wQueryL1BlockInfo.round_trip [of i]
  by (auto simp: QueryParamsResponse_Marshal_def QueryL1BlockInfoResponse_Marshal_def)

section \<open>Messages and queries reach the keeper\<close>

lemma full_names: "fullName Msg_serviceDesc name = ''/rollup.v1.Msg/'' @ name"
  "fullName Query_serviceDesc name = ''/rollup.v1.Query/'' @ name"
  by (simp_all add: fullName_def Msg_serviceDesc_def Query_serviceDesc_def)

text \<open>Every message of the module has a method, whose call on the keeper is the handler.\<close>

lemma method_of_message:
  assumes "msg_url m \<noteq> None"
  shows "\<exists>name new call. (name, new, call) \<in> set msg_methods \<and> msg_url m = msg_url new \<and>
    call (Keeper_MsgServer K) m = handleMsg K m \<and>
    msgClient_send Invoke m = scheck (Invoke (''/rollup.v1.Msg/'' @ name) m) pass sret"
proof -
  have "list_ex (\<lambda>(name, new, call). msg_url m = msg_url new \<and> call (Keeper_MsgServer K) m = handleMsg K m \<and>
      msgClient_send Invoke m = scheck (Invoke (''/rollup.v1.Msg/'' @ name) m) pass sret) msg_methods"
    using assms
    by (cases m) (simp_all add: msg_methods_def msg_call_defs msg_client_defs Keeper_MsgServer_def)
  then show ?thesis unfolding list_ex_iff by blast
qed

text \<open>A message over gRPC is read into a fresh message of the method's type.\<close>

definition msg_decode :: "mathint_lib \<Rightarrow> other_msgs \<Rightarrow> bytes \<Rightarrow> msg \<Rightarrow> msg res" where
  "msg_decode M W bz new = msg_Unmarshal M W (the (msg_url new)) bz"

lemma keep_result: "scheck m pass sret = m"
  by (auto simp: fun_eq_iff scheck_def sret_def pass_def split: prod.splits res.splits)

text \<open>
  The message client reaches the keeper. Over a connection to a gRPC server on which the
  message service is registered, sending a message of the module whose amount, if it has one,
  fits in 256 bits does what the keeper's handler does on the message itself.
\<close>

theorem rpc_reaches_the_keeper:
  assumes M: "mathint_ok M" and m: "sendable m" "msg_Size M W m < 2 ^ 63" and S: "grpc_ok (msg_decode M W) S"
    and free: "\<not> gs_Has S s ''rollup.v1.Msg''"
    and cc: "connected (msg_Marshal M W) Ok S (RegisterMsgServer (gs_RegisterService S) s (Keeper_MsgServer K)) Invoke"
  shows "msgClient_send Invoke m c = handleMsg K m c"
proof -
  obtain url where url: "msg_url m = Some url" using m(1) by (cases m) simp_all
  then obtain name new call where meth: "(name, new, call) \<in> set msg_methods" "msg_url new = Some url"
      "call (Keeper_MsgServer K) m = handleMsg K m"
      "msgClient_send Invoke m = scheck (Invoke (''/rollup.v1.Msg/'' @ name) m) pass sret"
    using method_of_message [of m K Invoke] by (metis option.distinct(1))
  obtain bz where bz: "msg_Marshal M W m = Ok bz" "msg_Unmarshal M W url bz = Ok m"
    using msg_reads_back [OF M m(1) url m(2)] by blast
  have dec: "msg_decode M W bz new = Ok m" using bz(2) meth(2) by (simp add: msg_decode_def)
  have "\<not> gs_Has S s (sd_ServiceName Msg_serviceDesc)" using free by (simp add: Msg_serviceDesc_def)
  from rollupMsg.invoked [OF S this cc [unfolded RegisterMsgServer_def] meth(1) bz(1) dec, of c]
  have "Invoke (''/rollup.v1.Msg/'' @ name) m c = scheck (handleMsg K m) pass sret c"
    by (simp add: meth(3) full_names scheck_def slift_def sret_def split: prod.splits res.splits)
  then show ?thesis by (simp add: meth(4) keep_result)
qed

text \<open>
  C24: registering the module puts its keeper behind every message and query. The application's
  router then handles each of the module's six messages with the keeper's handler for it, in a
  context that collects the events of this message alone, when the message passes its
  \<^verbatim>\<open>ValidateBasic\<close> (the fee withdrawal and the update of the parameters have none); a message that
  does not is refused with that error and the keeper does not run. A client of the query
  service gets the parameters and the L1 block information that the keeper's queries give, or
  their error, with the effect the query has on the state.
\<close>

theorem services_reach_the_keeper:
  assumes R: "router_ok msg_url (msg_ValidateBasic K) newEvents R" and S: "grpc_ok query_decode S"
    and free: "\<forall>m u. msg_url m = Some u \<longrightarrow> \<not> mr_Has R (fst cfg) u" "\<not> gs_Has S (snd cfg) ''rollup.v1.Query''"
    and cfg: "RegisterServices R S (NewAppModule cdc K) cfg = (router, queries)"
    and cc: "connected query_encode query_reread S queries Invoke"
  shows "(msg_url m \<noteq> None \<and> msg_ValidateBasic K m = Ok () \<longrightarrow>
      mr_Handler R router m c = handleMsg K m (c\<lparr>rc_events := []\<rparr>)) \<and>
    (msg_url m \<noteq> None \<and> msg_ValidateBasic K m = Err e0 \<longrightarrow> mr_Handler R router m c = (Err e0, c\<lparr>rc_events := []\<rparr>)) \<and>
    (case Query_Params K (Some ()) c of (Ok p, c') \<Rightarrow> QueryParamsResponse_Size \<lparr>qp_Params = p\<rparr> < 2 ^ 63 \<longrightarrow>
         queryClient_Params Invoke c = (Ok \<lparr>qp_Params = p\<rparr>, c')
     | (Err e, c') \<Rightarrow> queryClient_Params Invoke c = (Err e, c') | (Panic e, c') \<Rightarrow> queryClient_Params Invoke c = (Panic e, c')) \<and>
    (case Query_L1BlockInfo K (Some ()) c of (Ok i, c') \<Rightarrow> QueryL1BlockInfoResponse_Size \<lparr>ql_L1BlockInfo = i\<rparr> < 2 ^ 63 \<longrightarrow>
         queryClient_L1BlockInfo Invoke c = (Ok \<lparr>ql_L1BlockInfo = i\<rparr>, c')
     | (Err e, c') \<Rightarrow> queryClient_L1BlockInfo Invoke c = (Err e, c')
     | (Panic e, c') \<Rightarrow> queryClient_L1BlockInfo Invoke c = (Panic e, c'))"
proof -
  have r: "router = mr_RegisterService R (fst cfg) Msg_serviceDesc (Keeper_MsgServer K)"
    and q: "queries = gs_RegisterService S (snd cfg) Query_serviceDesc (Keeper_QueryServer K)"
    using cfg by (auto simp: RegisterServices_def NewAppModule_def RegisterMsgServer_def RegisterQueryServer_def)
  have msg: "mr_Handler R router m c = scheck (slift (\<lambda>_. msg_ValidateBasic K m)) pass (\<lambda>_. handleMsg K m) (newEvents c)"
    if known: "msg_url m \<noteq> None"
  proof -
    obtain name new call where meth: "(name, new, call) \<in> set msg_methods" "msg_url m = msg_url new"
      "call (Keeper_MsgServer K) m = handleMsg K m" using method_of_message [OF known, of K] by blast
    have none: "\<forall>(name, new, call) \<in> set msg_methods. \<not> mr_Has R (fst cfg) (the (msg_url new))"
    proof (intro ballI, clarify)
      fix name new call assume "(name, new, call) \<in> set msg_methods" "mr_Has R (fst cfg) (the (msg_url new))"
      with rollupMsg.typed [OF this(1)] free(1) show False by auto
    qed
    show ?thesis using rollupMsg.routed [OF R meth(1,2) none, of "Keeper_MsgServer K" c] by (simp add: r meth(3))
  qed
  have in_desc: "(''Params'', QueryParamsRequest, call_Params) \<in> set query_methods"
    "(''L1BlockInfo'', QueryL1BlockInfoRequest, call_L1BlockInfo) \<in> set query_methods" by (simp_all add: query_methods_def)
  have "\<not> gs_Has S (snd cfg) (sd_ServiceName Query_serviceDesc)" using free(2) by (simp add: Query_serviceDesc_def)
  note inv = in_desc [THEN rollupQuery.invoked [OF S this cc [unfolded q] _ query_on_the_wire], of c]
  have valid: "msg_url m \<noteq> None \<and> msg_ValidateBasic K m = Ok () \<longrightarrow> mr_Handler R router m c = handleMsg K m (c\<lparr>rc_events := []\<rparr>)"
    "msg_url m \<noteq> None \<and> msg_ValidateBasic K m = Err e0 \<longrightarrow> mr_Handler R router m c = (Err e0, c\<lparr>rc_events := []\<rparr>)"
    using msg by (auto simp: slift_def scheck_def newEvents_def pass_def)
  show ?thesis using valid inv [unfolded full_names append_Cons append_Nil]
    by (auto simp: queryClient_Params_def queryClient_L1BlockInfo_def call_Params_def call_L1BlockInfo_def scheck_def
        Keeper_QueryServer_def slift_def sret_def pass_def responses_read_back simp del: query_reread.simps
        split: prod.splits res.splits)
qed

text \<open>On an empty router and server, with the keeper of the examples.\<close>

abbreviation mem_router :: "(((bytes \<rightharpoonup> bytes, balances) rollup_ctx, (bytes \<rightharpoonup> bytes, balances) rollup_ctx MsgServer, msg, unit) services,
    (bytes \<rightharpoonup> bytes, balances) rollup_ctx, (bytes \<rightharpoonup> bytes, balances) rollup_ctx MsgServer, msg, unit) msg_router" where
  "mem_router \<equiv> list_router msg_url (msg_ValidateBasic mem_keeper) newEvents"

theorem services_reach_the_keeper_witness:
  "\<exists>router queries. RegisterServices mem_router (list_grpc query_decode) (NewAppModule () mem_keeper) ([], []) =
     (router, queries) \<and>
     mr_Handler mem_router router (InitiateWithdrawalMsg (withdrawal_msg 30 [0x52, 0x08])) ctx0 =
       handleMsg mem_keeper (InitiateWithdrawalMsg (withdrawal_msg 30 [0x52, 0x08])) ctx0 \<and>
     mr_Handler mem_router router (InitiateWithdrawalMsg (withdrawal_msg 30 [0x52])) ctx0 =
       (Err (ErrorNew ''gas limit must be between the bounds''), ctx0)"
proof -
  obtain router queries where cfg: "RegisterServices mem_router (list_grpc query_decode)
      (NewAppModule () mem_keeper) ([], []) = (router, queries)" by fastforce
  have free: "\<forall>m u. msg_url m = Some u \<longrightarrow> \<not> mr_Has mem_router (fst ([], [] :: ((bytes \<rightharpoonup> bytes, balances) rollup_ctx,
      (bytes \<rightharpoonup> bytes, balances) rollup_ctx QueryServer, query_request, query_response) services)) u"
    "\<not> gs_Has (list_grpc query_decode) (snd ([] :: ((bytes \<rightharpoonup> bytes, balances) rollup_ctx,
      (bytes \<rightharpoonup> bytes, balances) rollup_ctx MsgServer, msg, unit) services, [])) ''rollup.v1.Query''"
    by (simp_all add: list_router_def list_grpc_def)
  have hex: "hx_IsHexAddress (ke_hex mem_keeper) ''@6''" by (simp add: mem_keeper_def toy_hex_def)
  have gas: "checkGasLimit [0x52, 0x08] = Ok ()" "checkGasLimit [0x52] = Err (ErrorNew ''gas limit must be between the bounds'')"
    by code_simp+
  note reach = services_reach_the_keeper [OF list_router_ok list_grpc_ok free cfg direct_connected]
  have "mr_Handler mem_router router (InitiateWithdrawalMsg (withdrawal_msg 30 [0x52, 0x08])) ctx0 =
      handleMsg mem_keeper (InitiateWithdrawalMsg (withdrawal_msg 30 [0x52, 0x08])) (ctx0\<lparr>rc_events := []\<rparr>)"
    using reach [of "InitiateWithdrawalMsg (withdrawal_msg 30 [0x52, 0x08])" ctx0] hex gas(1)
    by (simp add: MsgInitiateWithdrawal_ValidateBasic_def)
  moreover have "mr_Handler mem_router router (InitiateWithdrawalMsg (withdrawal_msg 30 [0x52])) ctx0 =
      (Err (ErrorNew ''gas limit must be between the bounds''), ctx0\<lparr>rc_events := []\<rparr>)"
    using reach [of "InitiateWithdrawalMsg (withdrawal_msg 30 [0x52])" ctx0 "ErrorNew ''gas limit must be between the bounds''"] hex gas(2)
    by (simp add: MsgInitiateWithdrawal_ValidateBasic_def)
  moreover have "ctx0\<lparr>rc_events := []\<rparr> = ctx0" by (simp add: ctx0_def)
  ultimately show ?thesis using cfg by auto
qed

end
