(* ===== verification/Comet.thy ===== *)
theory Comet
  imports Builder "HOL-Library.Signed_Division" "HOL-Library.Multiset"
begin

text \<open>
  The CometBFT-compatible RPC endpoints (\<^verbatim>\<open>comet/comet.go\<close>): application queries, node
  status, broadcasting transactions, subscriptions, transaction search with pagination, and
  blocks. The application, CometBFT's query parser, event bus, hashes and protocol versions
  are parameters. A Go \<^verbatim>\<open>int\<close> is an \<open>int\<close>: the lengths and pages computed here stay far
  inside 64 bits.
\<close>

section \<open>Queries to the application\<close>

record abci_request =
  aq_Path :: string
  aq_Data :: bytes
  aq_Height :: int
  aq_Prove :: bool

definition ABCI_Query ::
    "(abci_request \<Rightarrow> ('a, 'r) op) \<Rightarrow> string \<Rightarrow> bytes \<Rightarrow> int \<Rightarrow> bool \<Rightarrow> ('a, 'r) op" where
  "ABCI_Query Query path data height prove =
     scheck (Query \<lparr>aq_Path = path, aq_Data = data, aq_Height = height, aq_Prove = prove\<rparr>)
       (Errorf_v ''query'') sret"

definition ABCI_Info :: "('a, 'r) op \<Rightarrow> ('a, 'r) op" where
  "ABCI_Info Info = scheck Info (Errorf_v ''info'') sret"

section \<open>Status\<close>

record comet_lib =
  cl_HeaderHash :: "comet_header \<Rightarrow> bytes"
  cl_BlockHash :: "comet_block \<Rightarrow> bytes"
  cl_TxHash :: "bytes \<Rightarrow> bytes"
  cl_TMCoreSemVer :: string
  cl_P2PProtocol :: u64
  cl_BlockProtocol :: u64
  cl_BytesToHash :: "bytes \<Rightarrow> hash"
  cl_SortSlice :: "(tx_result \<Rightarrow> tx_result \<Rightarrow> bool) \<Rightarrow> tx_result list \<Rightarrow> tx_result list"

record status_api =
  sa_startBlock :: comet_block

record node_info =
  ni_Network :: string
  ni_Version :: string
  ni_Channels :: bytes
  ni_Moniker :: string
  ni_ProtocolVersion :: "u64 \<times> u64 \<times> u64"

record sync_info =
  si_LatestBlockHash :: bytes
  si_LatestAppHash :: bytes
  si_LatestBlockHeight :: int
  si_LatestBlockTime :: int
  si_EarliestBlockHash :: bytes
  si_EarliestAppHash :: bytes
  si_EarliestBlockHeight :: int
  si_EarliestBlockTime :: int
  si_CatchingUp :: bool

record result_status =
  st_NodeInfo :: node_info
  st_SyncInfo :: sync_info

definition NewStatusAPI :: "comet_block \<Rightarrow> status_api" where
  "NewStatusAPI startBlock = \<lparr>sa_startBlock = startBlock\<rparr>"

definition StatusAPI_Status :: "comet_lib \<Rightarrow> 's localdb_env \<Rightarrow> status_api \<Rightarrow> 's \<Rightarrow> result_status res" where
  "StatusAPI_Status C E api s =
     check (HeadHeader E s) pass (\<lambda>headHeader.
     let headCometHeader = Header_ToComet headHeader; startBlock = sa_startBlock api in
     Ok \<lparr>
       st_NodeInfo = \<lparr>ni_Network = ch_ChainID headCometHeader, ni_Version = cl_TMCoreSemVer C,
         ni_Channels = str ''0123456789'', ni_Moniker = ''monomer'',
         ni_ProtocolVersion = (cl_P2PProtocol C, cl_BlockProtocol C, 0)\<rparr>,
       st_SyncInfo = \<lparr>
         si_LatestBlockHash = cl_HeaderHash C headCometHeader,
         si_LatestAppHash = ch_AppHash headCometHeader,
         si_LatestBlockHeight = ch_Height headCometHeader,
         si_LatestBlockTime = ch_Time headCometHeader,
         si_EarliestBlockHash = cl_BlockHash C startBlock,
         si_EarliestAppHash = ch_AppHash (cb_Header startBlock),
         si_EarliestBlockHeight = ch_Height (cb_Header startBlock),
         si_EarliestBlockTime = ch_Time (cb_Header startBlock),
         si_CatchingUp = False\<rparr>\<rparr>)"

section \<open>Broadcasting\<close>

record check_response =
  cr_Code :: u32
  cr_Log :: string
  cr_Codespace :: string

record result_broadcast =
  rb_Code :: u32
  rb_Log :: string
  rb_Codespace :: string
  rb_Hash :: bytes

text \<open>The state is the application's and the pool's.\<close>

definition BroadcastTx ::
    "comet_lib \<Rightarrow> (bytes \<Rightarrow> ('a, check_response) op) \<Rightarrow> 'm pool_env \<Rightarrow> bytes \<Rightarrow> ('a \<times> 'm, result_broadcast) op" where
  "BroadcastTx C CheckTx P tx =
     scheck (\<lambda>(a, m). case CheckTx tx a of (r, a') \<Rightarrow> (r, (a', m))) (Errorf_v ''check tx'') (\<lambda>checkTxResp.
     scheck (if cr_Code checkTxResp = 0
         then scheck (\<lambda>(a, m). case Enqueue P tx m of (r, m') \<Rightarrow> (r, (a, m'))) (Errorf_v ''enqueue in mempool'') sret
         else sret ()) pass (\<lambda>_.
     sret \<lparr>rb_Code = cr_Code checkTxResp, rb_Log = cr_Log checkTxResp, rb_Codespace = cr_Codespace checkTxResp,
       rb_Hash = cl_TxHash C tx\<rparr>))"

section \<open>Subscriptions\<close>

record ('u, 'q) event_bus =
  eb_New :: "string \<Rightarrow> 'q res"
  eb_Subscribe :: "string \<Rightarrow> 'q \<Rightarrow> ('u, unit) op"
  eb_Unsubscribe :: "string \<Rightarrow> 'q \<Rightarrow> ('u, unit) op"
  eb_UnsubscribeAll :: "string \<Rightarrow> ('u, unit) op"

definition ErrUnsubscribed :: goerr where
  "ErrUnsubscribed = External ''client unsubscribed''"

text \<open>
  What the goroutine of a subscription sees: a message, with what writing it to the client
  answers, or that the subscription was cancelled, with its error.
\<close>

datatype ('d, 'e) sub_input = SubOut 'd 'e "goerr option" | SubCanceled "goerr option"

datatype ('i, 'd, 'e) sub_output =
    WriteRPCResponse 'i string 'd 'e
  | TryWriteRPCError 'i goerr
  | OnSubscriptionWriteErr goerr
  | OnSubscriptionCanceled "goerr option"

definition canceledErr :: "goerr \<Rightarrow> goerr" where
  "canceledErr reason = Errorf_v ''subscription was canceled'' reason"

fun pushEvents :: "'i \<Rightarrow> string \<Rightarrow> ('d, 'e) sub_input list \<Rightarrow> ('i, 'd, 'e) sub_output list" where
  "pushEvents i query [] = []"
| "pushEvents i query (SubOut d e None # ins) = WriteRPCResponse i query d e # pushEvents i query ins"
| "pushEvents i query (SubOut d e (Some writeErr) # ins) =
     [WriteRPCResponse i query d e, TryWriteRPCError i (canceledErr writeErr),
      OnSubscriptionWriteErr (canceledErr writeErr)]"
| "pushEvents i query (SubCanceled None # ins) =
     [TryWriteRPCError i (canceledErr (ErrorNew ''Monomer exited'')),
      OnSubscriptionCanceled (Some (canceledErr (ErrorNew ''Monomer exited'')))]"
| "pushEvents i query (SubCanceled (Some err) # ins) =
     (if errors_Is err ErrUnsubscribed then [OnSubscriptionCanceled None]
      else [TryWriteRPCError i (canceledErr err), OnSubscriptionCanceled (Some (canceledErr err))])"

text \<open>Subscribing starts the goroutine: its result is what the goroutine does with its inputs.\<close>

definition Subscribe ::
    "('u, 'q) event_bus \<Rightarrow> string \<Rightarrow> 'i \<Rightarrow> string \<Rightarrow>
     ('u, ('d, 'e) sub_input list \<Rightarrow> ('i, 'd, 'e) sub_output list) op" where
  "Subscribe B remoteAddr subscriptionID query =
     scheck (slift (\<lambda>_. eb_New B query)) (Errorf_w ''parse query'') (\<lambda>parsedQuery.
     scheck (eb_Subscribe B remoteAddr parsedQuery) (Errorf_w ''subscribe to event bus'') (\<lambda>_.
     sret (pushEvents subscriptionID query)))"

definition Unsubscribe :: "('u, 'q) event_bus \<Rightarrow> string \<Rightarrow> string \<Rightarrow> ('u, unit) op" where
  "Unsubscribe B remoteAddr query =
     scheck (slift (\<lambda>_. eb_New B query)) (Errorf_w ''parse query'') (\<lambda>parsedQuery.
     scheck (eb_Unsubscribe B remoteAddr parsedQuery) (Errorf_w ''unsubscribe from event bus'') (\<lambda>_.
     sret ()))"

definition UnsubscribeAll :: "('u, 'q) event_bus \<Rightarrow> string \<Rightarrow> ('u, unit) op" where
  "UnsubscribeAll B remoteAddr =
     scheck (eb_UnsubscribeAll B remoteAddr) (Errorf_v ''unsubscribe all'') (\<lambda>_. sret ())"

section \<open>Transactions\<close>

definition errProvingNotSupported :: goerr where
  "errProvingNotSupported = ErrorNew ''proving is not supported''"

record result_tx =
  rx_Hash :: bytes
  rx_Height :: int
  rx_Index :: u32
  rx_TxResult :: exec_result
  rx_Tx :: bytes

definition resultTx :: "bytes \<Rightarrow> tx_result \<Rightarrow> result_tx" where
  "resultTx hash r = \<lparr>rx_Hash = hash, rx_Height = tr_Height r, rx_Index = tr_Index r,
     rx_TxResult = tr_Result r, rx_Tx = tr_Tx r\<rparr>"

definition TxAPI_ByHash :: "('t, 'q) txstore_env \<Rightarrow> bytes \<Rightarrow> bool \<Rightarrow> 't \<Rightarrow> result_tx res" where
  "TxAPI_ByHash T hash prove s =
     (if prove then Err errProvingNotSupported
      else check (TxStore_Get T hash s) pass (\<lambda>r. case r of
          None \<Rightarrow> Err (ErrorNew ''tx not found'')
        | Some r \<Rightarrow> Ok (resultTx hash r)))"

text \<open>The comparisons \<^verbatim>\<open>sort.Slice\<close> is called with.\<close>

definition lessDesc :: "tx_result \<Rightarrow> tx_result \<Rightarrow> bool" where
  "lessDesc x y = (if tr_Height x = tr_Height y then tr_Index x > tr_Index y else tr_Height x > tr_Height y)"

definition lessAsc :: "tx_result \<Rightarrow> tx_result \<Rightarrow> bool" where
  "lessAsc x y = (if tr_Height x = tr_Height y then tr_Index x < tr_Index y else tr_Height x < tr_Height y)"

text \<open>Go divides towards zero.\<close>

definition paginate :: "int option \<Rightarrow> int option \<Rightarrow> int \<Rightarrow> (int \<times> int) res" where
  "paginate pagePtr pageSizePtr totalCount =
     (let pageSize = (case pageSizePtr of None \<Rightarrow> 30 | Some p \<Rightarrow> if p \<le> 0 \<or> p > 100 then 30 else p);
          numPages = (totalCount - 1) sdiv pageSize + 1;
          pageNum = (case pagePtr of None \<Rightarrow> 1 | Some p \<Rightarrow> p)
      in if pageNum \<le> 0 \<or> pageNum > numPages then Err (ErrorNew ''page must be between the bounds'')
         else let skipCount = (pageNum - 1) * pageSize;
                  skipCount = (if skipCount < 0 then 0 else skipCount);
                  count = totalCount - skipCount
              in Ok (skipCount, if count < pageSize then count else pageSize))"

text \<open>The loop over the page; an index outside the results would panic.\<close>

fun collectPage :: "comet_lib \<Rightarrow> tx_result list \<Rightarrow> nat \<Rightarrow> nat \<Rightarrow> result_tx list \<Rightarrow> result_tx list res" where
  "collectPage C results i 0 apiResults = Ok apiResults"
| "collectPage C results i (Suc n) apiResults =
     (if i < length results
      then collectPage C results (Suc i) n (apiResults @ [resultTx (cl_TxHash C (tr_Tx (results ! i))) (results ! i)])
      else Panic (External ''index out of range''))"

definition TxAPI_Search ::
    "comet_lib \<Rightarrow> ('t, 'q) txstore_env \<Rightarrow> (string \<Rightarrow> 'q res) \<Rightarrow> string \<Rightarrow> bool \<Rightarrow> int option \<Rightarrow> int option \<Rightarrow> string \<Rightarrow>
     't \<Rightarrow> (result_tx list \<times> int) res" where
  "TxAPI_Search C T newQuery query prove pagePtr perPagePtr orderBy s =
     (if prove then Err errProvingNotSupported
      else check (newQuery query) (Errorf_w ''failed to parse query'') (\<lambda>q.
      check (TxStore_Search T q s) (Errorf_w ''failed to search txs'') (\<lambda>results.
      check (if orderBy = ''desc'' then Ok (cl_SortSlice C lessDesc results)
             else if orderBy = ''asc'' \<or> orderBy = '''' then Ok (cl_SortSlice C lessAsc results)
             else Err (ErrorNew ''expected order_by {asc, desc}'')) pass (\<lambda>results.
      let totalCount = int (length results) in
      check (paginate pagePtr perPagePtr totalCount) pass (\<lambda>(skipCount, returnedCount).
      check (collectPage C results (nat skipCount) (nat returnedCount) []) pass (\<lambda>apiResults.
      Ok (apiResults, totalCount)))))))"

section \<open>Blocks\<close>

record result_block =
  rk_Hash :: bytes
  rk_Block :: comet_block

definition rpcBlock :: "comet_lib \<Rightarrow> comet_block \<Rightarrow> result_block" where
  "rpcBlock C block = \<lparr>rk_Hash = cl_BlockHash C block, rk_Block = block\<rparr>"

definition BlockAPI_ByHeight :: "comet_lib \<Rightarrow> 's localdb_env \<Rightarrow> int \<Rightarrow> 's \<Rightarrow> result_block res" where
  "BlockAPI_ByHeight C E height s =
     check (BlockByHeight E (word_of_int height) s) pass (\<lambda>block. Ok (rpcBlock C (Block_ToCometLikeBlock block)))"

definition BlockAPI_ByHash :: "comet_lib \<Rightarrow> 's localdb_env \<Rightarrow> bytes \<Rightarrow> 's \<Rightarrow> result_block res" where
  "BlockAPI_ByHash C E hash s =
     check (BlockByHash E (cl_BytesToHash C hash) s) pass (\<lambda>block. Ok (rpcBlock C (Block_ToCometLikeBlock block)))"

end
