(* ===== verification/CometProps.thy ===== *)
theory CometProps
  imports Comet
begin

text \<open>
  What the RPC endpoints promise: search pages partition the sorted results and never reach
  outside them, an accepted transaction is in the next block that uses the pool, the
  endpoints agree on the head block, and a subscription ends with one notification.
\<close>

section \<open>Pages\<close>

text \<open>\<^verbatim>\<open>sort.Slice\<close> sorts by a strict weak order; it does not promise to be stable.\<close>

definition weak_order :: "(tx_result \<Rightarrow> tx_result \<Rightarrow> bool) \<Rightarrow> bool" where
  "weak_order lt \<longleftrightarrow> (\<forall>x. \<not> lt x x) \<and> (\<forall>x y z. lt x y \<and> lt y z \<longrightarrow> lt x z) \<and>
     (\<forall>x y z. \<not> lt x y \<and> \<not> lt y z \<longrightarrow> \<not> lt x z)"

definition sort_ok :: "comet_lib \<Rightarrow> bool" where
  "sort_ok C \<longleftrightarrow> (\<forall>lt xs. weak_order lt \<longrightarrow>
     mset (cl_SortSlice C lt xs) = mset xs \<and> sorted_wrt (\<lambda>x y. \<not> lt y x) (cl_SortSlice C lt xs))"

lemma weak_orders: "weak_order lessAsc" "weak_order lessDesc"
  by (auto simp: weak_order_def lessAsc_def lessDesc_def split: if_splits)

definition orderOf :: "string \<Rightarrow> tx_result \<Rightarrow> tx_result \<Rightarrow> bool" where
  "orderOf orderBy = (if orderBy = ''desc'' then lessDesc else lessAsc)"

definition pageSizeOf :: "int option \<Rightarrow> nat" where
  "pageSizeOf p = (case p of None \<Rightarrow> 30 | Some n \<Rightarrow> if n \<le> 0 \<or> n > 100 then 30 else nat n)"

lemma pageSizeOf_bounds: "0 < pageSizeOf p" "pageSizeOf p \<le> 100"
  by (auto simp: pageSizeOf_def split: option.splits)

lemma pageSizeOf_int:
  "(case p of None \<Rightarrow> 30 | Some n \<Rightarrow> if n \<le> 0 \<or> n > 100 then 30 else n) = int (pageSizeOf p)"
  by (auto simp: pageSizeOf_def split: option.splits)

definition numPagesOf :: "nat \<Rightarrow> nat \<Rightarrow> nat" where
  "numPagesOf n sz = (n + sz - 1) div sz"

lemma numPages_int:
  assumes "0 < sz" and "0 < n"
  shows "(int n - 1) sdiv int sz + 1 = int (numPagesOf n sz)"
proof -
  have "(int n - 1) sdiv int sz = int ((n - 1) div sz)"
    using assms by (simp add: signed_divide_int_def zdiv_int of_nat_diff) (cases "n = 1"; simp add: sgn_if)
  moreover have "numPagesOf n sz = (n - 1) div sz + 1"
  proof -
    have "n + sz - 1 = (n - 1) + sz" using assms by simp
    then show ?thesis unfolding numPagesOf_def using assms by (simp only: div_add_self2)
  qed
  ultimately show ?thesis by simp
qed

lemma page_start:
  assumes "0 < sz" and "k < numPagesOf n sz"
  shows "k * sz < n"
proof -
  have "Suc k * sz \<le> n + sz - 1" using assms by (simp add: numPagesOf_def Suc_le_eq [symmetric] less_eq_div_iff_mult_less_eq)
  then show ?thesis using assms(1) by simp
qed

lemma page_end: "0 < sz \<Longrightarrow> n \<le> numPagesOf n sz * sz"
  using dividend_less_div_times [of sz "n + sz - 1"] by (simp add: numPagesOf_def)

lemma clip_page: "j < n \<Longrightarrow> (if int n - int j < int sz then int n - int j else int sz) = int (min sz (n - j))"
  by (auto simp: min_def of_nat_diff)

lemma paginate_page:
  assumes "0 < n"
  shows "paginate (Some p) ps (int n) =
    (if 1 \<le> p \<and> p \<le> int (numPagesOf n (pageSizeOf ps))
     then Ok (int (nat (p - 1) * pageSizeOf ps), int (min (pageSizeOf ps) (n - nat (p - 1) * pageSizeOf ps)))
     else Err (ErrorNew ''page must be between the bounds''))"
proof (cases "1 \<le> p \<and> p \<le> int (numPagesOf n (pageSizeOf ps))")
  case True
  let ?sz = "pageSizeOf ps" and ?k = "nat (p - 1)"
  have k: "?k < numPagesOf n ?sz" "p = int ?k + 1" using True by auto
  define j where "j = ?k * ?sz"
  have j: "j < n" unfolding j_def by (rule page_start [OF pageSizeOf_bounds(1) k(1)])
  have pj: "(p - 1) * int ?sz = int j" unfolding j_def using k(2) by simp
  have "\<not> (p \<le> 0 \<or> p > int (numPagesOf n ?sz))" using True by linarith
  then have "paginate (Some p) ps (int n) = Ok (int j, if int n - int j < int ?sz then int n - int j else int ?sz)"
    by (simp add: paginate_def pageSizeOf_int numPages_int [OF pageSizeOf_bounds(1) assms] Let_def pj)
  then show ?thesis unfolding j_def [symmetric] clip_page [OF j] using True by simp
next
  case False
  then have "p \<le> 0 \<or> p > int (numPagesOf n (pageSizeOf ps))" by linarith
  then show ?thesis using False
    by (simp only: paginate_def pageSizeOf_int numPages_int [OF pageSizeOf_bounds(1) assms] Let_def option.case if_True if_False)
qed

lemma collectPage_ok:
  "i + n \<le> length results \<Longrightarrow> collectPage C results i n acc =
   Ok (acc @ map (\<lambda>r. resultTx (cl_TxHash C (tr_Tx r)) r) (take n (drop i results)))"
proof (induction n arbitrary: i acc)
  case (Suc n)
  then have "drop i results = results ! i # drop (Suc i) results" by (simp add: Cons_nth_drop_Suc)
  with Suc show ?case by simp
qed simp

lemma concat_pages: "concat (map (\<lambda>k. take sz (drop (k * sz) xs)) [0..<m]) = take (m * sz) xs"
proof (induction m)
  case (Suc m)
  have "take (m * sz + sz) xs = take (m * sz) xs @ take sz (drop (m * sz) xs)" by (rule take_add)
  moreover have "Suc m * sz = m * sz + sz" by simp
  ultimately show ?case using Suc by (simp only: upt_Suc_append [of 0 m] le0 map_append concat_append) simp
qed simp

lemma search_page:
  assumes "newQuery query = Ok q" and "TxStore_Search T q s = Ok results" and "orderBy \<in> {'''', ''asc'', ''desc''}"
  shows "TxAPI_Search C T newQuery query False pg ps orderBy s =
    check (paginate pg ps (int (length (cl_SortSlice C (orderOf orderBy) results)))) pass (\<lambda>(skipCount, returnedCount).
    check (collectPage C (cl_SortSlice C (orderOf orderBy) results) (nat skipCount) (nat returnedCount) []) pass (\<lambda>apiResults.
    Ok (apiResults, int (length (cl_SortSlice C (orderOf orderBy) results)))))"
  using assms by (auto simp: TxAPI_Search_def orderOf_def Let_def)

text \<open>
  C38: the pages of a search are a partition of the results. For a query with results, the pages
  that the endpoint returns for the page numbers \<open>1, 2, \<dots>\<close> put together are all results,
  each once, sorted by height and index in the requested order; no page is empty or
  longer than the page size; and every other page number is refused.
\<close>

theorem search_pages_partition:
  assumes srt: "sort_ok C" and q: "newQuery query = Ok q" and res: "TxStore_Search T q s = Ok results" "results \<noteq> []"
    and ord: "orderBy \<in> {'''', ''asc'', ''desc''}"
  shows "\<exists>pages ordered. mset ordered = mset results \<and> sorted_wrt (\<lambda>x y. \<not> orderOf orderBy y x) ordered \<and>
    concat pages = map (\<lambda>r. resultTx (cl_TxHash C (tr_Tx r)) r) ordered \<and>
    (\<forall>pg \<in> set pages. pg \<noteq> [] \<and> length pg \<le> pageSizeOf perPage) \<and>
    (\<forall>p. TxAPI_Search C T newQuery query False (Some p) perPage orderBy s =
      (if 1 \<le> p \<and> p \<le> int (length pages) then Ok (pages ! nat (p - 1), int (length results))
       else Err (ErrorNew ''page must be between the bounds'')))"
proof -
  let ?o = "cl_SortSlice C (orderOf orderBy) results" and ?sz = "pageSizeOf perPage"
  let ?f = "\<lambda>r. resultTx (cl_TxHash C (tr_Tx r)) r" and ?N = "numPagesOf (length results) (pageSizeOf perPage)"
  let ?pages = "map (\<lambda>k. map ?f (take ?sz (drop (k * ?sz) ?o))) [0..<?N]"
  have o: "mset ?o = mset results" "sorted_wrt (\<lambda>x y. \<not> orderOf orderBy y x) ?o"
    using srt weak_orders by (auto simp: sort_ok_def orderOf_def)
  then have len: "length ?o = length results" by (metis size_mset)
  note sz = pageSizeOf_bounds(1) [of perPage]
  have lenpos: "0 < length results" using res(2) by simp
  have "concat ?pages = map ?f (concat (map (\<lambda>k. take ?sz (drop (k * ?sz) ?o)) [0..<?N]))"
    by (simp add: map_concat comp_def)
  also have "\<dots> = map ?f ?o" using page_end [OF sz, of "length results"] len by (simp add: concat_pages)
  finally have cat: "concat ?pages = map ?f ?o" .
  have each: "pg \<noteq> [] \<and> length pg \<le> ?sz" if pg: "pg \<in> set ?pages" for pg
  proof -
    obtain k where k: "k < ?N" "pg = map ?f (take ?sz (drop (k * ?sz) ?o))"
      using pg unfolding set_map by fastforce
    then show ?thesis using page_start [OF sz k(1)] sz len by auto
  qed
  have page: "TxAPI_Search C T newQuery query False (Some p) perPage orderBy s =
      (if 1 \<le> p \<and> p \<le> int ?N then Ok (?pages ! nat (p - 1), int (length results))
       else Err (ErrorNew ''page must be between the bounds''))" for p
  proof (cases "1 \<le> p \<and> p \<le> int ?N")
    case True
    define j where "j = nat (p - 1) * ?sz"
    have k: "nat (p - 1) < ?N" using True by linarith
    from page_start [OF sz k] have j: "j < length results" unfolding j_def .
    have "collectPage C ?o j (min ?sz (length results - j)) [] = Ok (map ?f (take ?sz (drop j ?o)))"
      using collectPage_ok [of j "min ?sz (length results - j)" ?o C "[]"] j len by (auto simp: min_def)
    with paginate_page [OF lenpos, of p perPage, folded j_def] True k search_page [of newQuery query, OF q res(1) ord]
    show ?thesis by (simp add: len j_def [symmetric])
  next
    case False
    then have "paginate (Some p) perPage (int (length results)) = Err (ErrorNew ''page must be between the bounds'')"
      using paginate_page [OF lenpos, of p perPage] by auto
    with False search_page [of newQuery query, OF q res(1) ord] show ?thesis by (auto simp: len)
  qed
  show ?thesis using o cat each page by (intro exI [of _ ?pages] exI [of _ ?o]) auto
qed

text \<open>
  A page never reaches outside the results. Whatever page number, page size and number of
  results, zero included, what \<^verbatim>\<open>paginate\<close> returns is a range inside the results of at most
  100 entries, so that the loop over it does not panic.
\<close>

theorem paginate_in_range:
  assumes run: "paginate pagePtr pageSizePtr (int (length results)) = Ok (off, n)"
  shows "0 \<le> off \<and> 0 \<le> n \<and> n \<le> 100 \<and> off + n \<le> int (length results) \<and>
    (\<exists>page. collectPage C results (nat off) (nat n) [] = Ok page \<and> length page = nat n)"
proof -
  have "0 \<le> off \<and> 0 \<le> n \<and> n \<le> 100 \<and> off + n \<le> int (length results)"
  proof (cases "results = []")
    case True
    have "off = 0 \<and> n = 0" if ok: "paginate (Some p) ps 0 = Ok (off, n)" for p ps
    proof -
      have le: "(0 - 1) sdiv int (pageSizeOf ps) + 1 \<le> (1 :: int)"
        using pageSizeOf_bounds(1) [of ps] by (simp add: signed_divide_int_def sgn_if pos_imp_zdiv_nonneg_iff)
      have "\<not> (p \<le> 0 \<or> p > (0 - 1) sdiv int (pageSizeOf ps) + 1)"
        using ok by (cases "p \<le> 0 \<or> p > (0 - 1) sdiv int (pageSizeOf ps) + 1") (simp_all add: paginate_def pageSizeOf_int Let_def)
      then have "p = 1" using le by linarith
      then show ?thesis using ok pageSizeOf_bounds(1) [of ps] by (simp add: paginate_def pageSizeOf_int Let_def split: if_splits)
    qed
    moreover have "paginate None ps t = paginate (Some 1) ps t" for ps t by (simp add: paginate_def)
    ultimately have "off = 0 \<and> n = 0" using run True by (cases pagePtr) simp_all
    then show ?thesis using True by simp
  next
    case False
    let ?p = "case pagePtr of None \<Rightarrow> 1 | Some p \<Rightarrow> p"
    have "paginate pagePtr pageSizePtr t = paginate (Some ?p) pageSizePtr t" for t by (cases pagePtr) (simp_all add: paginate_def)
    then have pg: "paginate (Some ?p) pageSizePtr (int (length results)) = Ok (off, n)" using run by simp
    have len: "0 < length results" using False by simp
    have p: "1 \<le> ?p \<and> ?p \<le> int (numPagesOf (length results) (pageSizeOf pageSizePtr))"
      using pg unfolding paginate_page [OF len] by (auto split: if_splits)
    define j where "j = nat (?p - 1) * pageSizeOf pageSizePtr"
    have "nat (?p - 1) < numPagesOf (length results) (pageSizeOf pageSizePtr)" using p by linarith
    from page_start [OF pageSizeOf_bounds(1) this] have j: "j < length results" unfolding j_def .
    have "off = int j" "n = int (min (pageSizeOf pageSizePtr) (length results - j))"
      using pg p paginate_page [OF len, of ?p pageSizePtr, folded j_def] by simp_all
    then show ?thesis using j pageSizeOf_bounds(2) [of pageSizePtr] by (auto simp: min_def of_nat_diff)
  qed
  moreover from this have "nat off + nat n \<le> length results" by linarith
  ultimately show ?thesis using collectPage_ok [of "nat off" "nat n" results C "[]"] by simp
qed

section \<open>Broadcast transactions\<close>

text \<open>
  C37: an accepted transaction is in the next block that uses the pool. When the application's
  check accepts a transaction whose hash is not queued, the endpoint reports acceptance,
  and the next successful build from the pool has it behind the injected transactions and
  those queued before; when the check refuses it, the endpoint reports the code and the
  pool is as it was.
\<close>

theorem broadcast_reaches_the_next_block:
  assumes pool: "pool_rep (be_pool B) pview (bd_pool b) q" and new: "pl_Hash (be_pool B) tx \<notin> pl_Hash (be_pool B) ` set q"
    and len: "length q + 1 < 2 ^ 64" and chk: "CheckTx tx a = (Ok resp, a')"
  shows "\<exists>r m. BroadcastTx C CheckTx (be_pool B) tx (a, bd_pool b) = (Ok r, (a', m)) \<and> rb_Code r = cr_Code resp \<and>
    (if cr_Code resp = 0
     then \<forall>pl blk b'. \<not> pl_NoTxPool pl \<and> Build B pl (b\<lparr>bd_pool := m\<rparr>) = Some (Ok blk, b') \<longrightarrow>
       b_Txs blk = txList (pl_InjectedTransactions pl) @ q @ [tx]
     else m = bd_pool b)"
proof (cases "cr_Code resp = 0")
  case True
  obtain m where m: "Enqueue (be_pool B) tx (bd_pool b) = (Ok (), m)" "pool_rep (be_pool B) pview m (q @ [tx])"
    using pool.enq_sim [OF pool new] by blast
  have "b_Txs blk = txList (pl_InjectedTransactions pl) @ q @ [tx]"
    if build: "\<not> pl_NoTxPool pl" "Build B pl (b\<lparr>bd_pool := m\<rparr>) = Some (Ok blk, b')" for pl blk b'
  proof -
    have "length (q @ [tx]) < 2 ^ 64" using len by simp
    from drainPool_ok [OF m(2) this, of "pl_InjectedTransactions pl"] obtain txs s' where
      d: "drainPool (be_pool B) (pl_InjectedTransactions pl) m = Some (Ok txs, s')"
      "txList txs = txList (pl_InjectedTransactions pl) @ q @ [tx]" by auto
    from Build_OkE [OF build(2)] build(1) d(1) obtain h where "MakeBlock (be_eth B) h txs = Ok blk" by (metis builder.select_convs(2)
        builder.surjective builder.update_convs(2) option.inject prod.inject res.inject(1))
    then have "b_Txs blk = txList txs"
      by (auto simp: MakeBlock_def NewBlock_def SetHeader_def txList_def elim!: check_OkE split: option.splits)
    then show ?thesis using d(2) by simp
  qed
  then show ?thesis using True chk m(1) by (auto simp: BroadcastTx_def scheck_def)
next
  case False
  then show ?thesis using chk by (simp add: BroadcastTx_def scheck_def)
qed

section \<open>The endpoints agree on the chain\<close>

text \<open>
  C39: the endpoints show one chain. In every store the node reaches with a head, the status
  endpoint reports the head, and the block endpoints return for its height and for its
  hash the same block, whose header is the head's CometBFT view; at a height that holds no
  block they report not found.
\<close>

theorem endpoints_agree_on_the_head:
  assumes reach: "store_reach E s0 s" and s0: "rep E view s0 a0" "ldb_good E a0"
    and head: "HeadHeader E s = Ok p" and hx: "cl_BytesToHash C x = h_Hash p"
  shows "\<exists>st blk. StatusAPI_Status C E api s = Ok st \<and>
    si_LatestBlockHeight (st_SyncInfo st) = sint (h_Height p) \<and>
    si_LatestBlockHash (st_SyncInfo st) = cl_HeaderHash C (cb_Header (rk_Block blk)) \<and>
    BlockAPI_ByHeight C E (si_LatestBlockHeight (st_SyncInfo st)) s = Ok blk \<and> BlockAPI_ByHash C E x s = Ok blk \<and>
    cb_Header (rk_Block blk) = Header_ToComet p \<and>
    (\<forall>h. h_Height p < word_of_int h \<longrightarrow> is_NotFound (BlockAPI_ByHeight C E h s))"
proof -
  obtain a where a: "rep E view s a" "ldb_good E a" using store_reach_good [OF reach s0] by blast
  note ch = ldb.good_chain [OF a(2)]
  obtain t where t: "a_top a = Some t" "a_header a t = Some p"
    using finds_Ok [OF HeadHeader_finds [OF a(1)] head] by (auto simp: bind_eq_Some_conv)
  have hp: "h_Height p = t" by (rule chain_height [OF ch t(2)])
  let ?b = "\<lparr>b_Header = p, b_Txs = a_txsAt a t\<rparr>"
  have byHeight: "BlockByHeight E t s = Ok ?b" using BlockByHeight_finds [OF a(1), of t] t(2) by simp
  have "a_headerByHash a (h_Hash p) = Some p" using chain_hash [OF ch t(2)] t(2) by (simp add: a_headerByHash_def)
  then have byHash: "BlockByHash E (h_Hash p) s = Ok ?b"
    using BlockByHash_finds [OF a(1), of "h_Hash p"] hp by (simp add: a_blockOf_def)
  have above: "is_NotFound (BlockAPI_ByHeight C E h s)" if "h_Height p < word_of_int h" for h
  proof -
    have "a_header a (word_of_int h) = None"
      using chain_below [OF ch, of "word_of_int h"] t(1) that hp by (cases "a_header a (word_of_int h)") (auto simp: not_le)
    then show ?thesis using BlockByHeight_finds [OF a(1), of "word_of_int h"]
      by (cases "BlockByHeight E (word_of_int h) s") (auto simp: BlockAPI_ByHeight_def is_NotFound_def)
  qed
  show ?thesis using head byHeight byHash hx hp above
    by (simp add: StatusAPI_Status_def BlockAPI_ByHeight_def BlockAPI_ByHash_def Header_ToComet_def rpcBlock_def
        Block_ToCometLikeBlock_def Let_def)
qed

section \<open>Subscriptions\<close>

fun notifies :: "('i, 'd, 'e) sub_output \<Rightarrow> bool" where
  "notifies (OnSubscriptionWriteErr e) = True"
| "notifies (OnSubscriptionCanceled e) = True"
| "notifies _ = False"

fun ends :: "('d, 'e) sub_input \<Rightarrow> bool" where
  "ends (SubOut d e r) = (r \<noteq> None)"
| "ends (SubCanceled e) = True"

text \<open>The events before the end are written in order; the end is notified once.\<close>

lemma push_until_end:
  assumes "\<And>x. x \<in> set msgs \<Longrightarrow> \<not> ends x"
  shows "pushEvents i q (msgs @ rest) =
    map (\<lambda>x. case x of SubOut d e r \<Rightarrow> WriteRPCResponse i q d e | SubCanceled e \<Rightarrow> OnSubscriptionCanceled None) msgs @
    pushEvents i q rest"
  using assms
proof (induction msgs)
  case (Cons x msgs)
  have "\<not> ends x" using Cons.prems by simp
  with Cons show ?case by (cases x) auto
qed simp

lemma notified_once: "length (filter notifies (pushEvents i q ins)) = of_bool (list_ex ends ins)"
  by (induction i q ins rule: pushEvents.induct) auto

section \<open>Examples\<close>

fun insertBy :: "(tx_result \<Rightarrow> tx_result \<Rightarrow> bool) \<Rightarrow> tx_result \<Rightarrow> tx_result list \<Rightarrow> tx_result list" where
  "insertBy lt x [] = [x]"
| "insertBy lt x (y # ys) = (if lt y x then y # insertBy lt x ys else x # y # ys)"

definition insertionSort :: "(tx_result \<Rightarrow> tx_result \<Rightarrow> bool) \<Rightarrow> tx_result list \<Rightarrow> tx_result list" where
  "insertionSort lt xs = foldr (insertBy lt) xs []"

definition toy_comet :: comet_lib where
  "toy_comet = \<lparr>cl_HeaderHash = ch_AppHash, cl_BlockHash = (\<lambda>b. ch_AppHash (cb_Header b)), cl_TxHash = mem_pool_hash,
     cl_TMCoreSemVer = ''0.38'', cl_P2PProtocol = 8, cl_BlockProtocol = 11, cl_BytesToHash = (\<lambda>b. word_of_nat (be_dec b)),
     cl_SortSlice = insertionSort\<rparr>"

lemma mset_insertBy [simp]: "mset (insertBy lt x ys) = add_mset x (mset ys)"
  by (induction ys) auto

lemma set_insertBy [simp]: "set (insertBy lt x ys) = insert x (set ys)"
  by (induction ys) auto

lemma sorted_insertBy:
  assumes "weak_order lt" and "sorted_wrt (\<lambda>x y. \<not> lt y x) ys"
  shows "sorted_wrt (\<lambda>x y. \<not> lt y x) (insertBy lt x ys)"
  using assms(2)
proof (induction ys)
  case (Cons y ys)
  have asym: "lt y x \<Longrightarrow> \<not> lt x y" and tr: "\<And>z. \<not> lt z y \<Longrightarrow> \<not> lt y x \<Longrightarrow> \<not> lt z x"
    using assms(1) unfolding weak_order_def by blast+
  show ?case
  proof (cases "lt y x")
    case True
    with Cons asym show ?thesis by simp
  next
    case False
    with Cons tr show ?thesis by simp
  qed
qed simp

lemma toy_sort_ok: "sort_ok toy_comet"
proof -
  have "mset (insertionSort lt xs) = mset xs" for lt xs by (induction xs) (simp_all add: insertionSort_def)
  moreover have "sorted_wrt (\<lambda>x y. \<not> lt y x) (insertionSort lt xs)" if "weak_order lt" for lt xs
    by (induction xs) (simp_all add: insertionSort_def sorted_insertBy [OF that])
  ultimately show ?thesis by (simp add: sort_ok_def toy_comet_def)
qed

definition toy_results :: "tx_result list" where
  "toy_results = map (\<lambda>(h, i). \<lparr>tr_Height = h, tr_Index = i, tr_Tx = [ucast i], tr_Result = example_result\<rparr>) [(2, 0), (1, 1), (1, 0)]"

definition toy_index :: "(kv, unit) txstore_env" where
  "toy_index = mem_txstore\<lparr>ts_Search := (\<lambda>s q. Ok toy_results)\<rparr>"

theorem search_pages_partition_witness:
  "\<exists>pages. length (concat pages) = 3 \<and>
     TxAPI_Search toy_comet toy_index (\<lambda>q. Ok ()) ''tx.height > 0'' False (Some 1) (Some 2) ''desc'' [] = Ok (pages ! 0, 3)"
proof -
  have res: "TxStore_Search toy_index () [] = Ok toy_results" "toy_results \<noteq> []"
    by (simp_all add: TxStore_Search_def toy_index_def toy_results_def)
  obtain pages ordered where p: "mset ordered = mset toy_results"
    "concat pages = map (\<lambda>r. resultTx (cl_TxHash toy_comet (tr_Tx r)) r) ordered"
    "\<And>p. TxAPI_Search toy_comet toy_index (\<lambda>q. Ok ()) ''tx.height > 0'' False (Some p) (Some 2) ''desc'' [] =
      (if 1 \<le> p \<and> p \<le> int (length pages) then Ok (pages ! nat (p - 1), int (length toy_results))
       else Err (ErrorNew ''page must be between the bounds''))"
    using search_pages_partition [where newQuery = "\<lambda>q. Ok ()" and query = "''tx.height > 0''" and perPage = "Some 2" and
        orderBy = "''desc''", OF toy_sort_ok refl res] by auto
  have "length ordered = 3" using arg_cong [OF p(1), of size] by (simp add: toy_results_def)
  then have "length (concat pages) = 3" using p(2) by simp
  moreover from this have "pages \<noteq> []" by auto
  ultimately show ?thesis using p(3) [of 1] by (auto simp: toy_results_def Suc_le_eq)
qed

theorem paginate_in_range_witness:
  "paginate (Some 2) (Some 2) (int (length toy_results)) = Ok (2, 1) \<and>
   (\<exists>page. collectPage toy_comet toy_results 2 1 [] = Ok page \<and> length page = 1)"
proof -
  have p: "paginate (Some 2) (Some 2) (int (length toy_results)) = Ok (2, 1)"
    by (simp add: paginate_def toy_results_def signed_divide_int_def)
  from paginate_in_range [OF p, of toy_comet] p show ?thesis by simp
qed

theorem broadcast_reaches_the_next_block_witness:
  "\<exists>r m. BroadcastTx toy_comet (\<lambda>tx a. (Ok \<lparr>cr_Code = 0, cr_Log = [], cr_Codespace = []\<rparr>, a)) mem_pool [7] ((), []) =
      (Ok r, ((), m)) \<and> rb_Code r = 0 \<and>
     (\<forall>pl blk b'. \<not> pl_NoTxPool pl \<and> Build mem_builder pl (builder_at [] m) = Some (Ok blk, b') \<longrightarrow>
       b_Txs blk = txList (pl_InjectedTransactions pl) @ [[7]])"
proof -
  have "pool_rep (be_pool mem_builder) map_of (bd_pool (builder_at [] [])) []" using mem_pool_rep_empty by simp
  moreover have "(builder_at [] [])\<lparr>bd_pool := m\<rparr> = builder_at [] m" for m by (simp add: builder_at_def)
  ultimately show ?thesis
    using broadcast_reaches_the_next_block [of mem_builder map_of "builder_at [] []" "[]" "[7]"
        "\<lambda>tx a. (Ok \<lparr>cr_Code = 0, cr_Log = [], cr_Codespace = []\<rparr>, a)" "()"
        "\<lparr>cr_Code = 0, cr_Log = [], cr_Codespace = []\<rparr>" "()" toy_comet] by simp
qed

theorem endpoints_agree_on_the_head_witness:
  "\<exists>s st blk. StatusAPI_Status toy_comet mem_env (NewStatusAPI (Block_ToCometLikeBlock blk1)) s = Ok st \<and>
     si_LatestBlockHeight (st_SyncInfo st) = 1 \<and> BlockAPI_ByHeight toy_comet mem_env 1 s = Ok blk \<and>
     BlockAPI_ByHash toy_comet mem_env [101] s = Ok blk"
proof -
  obtain s where app: "AppendBlock mem_env blk1 [] = (Ok (), s)"
    and rep: "rep mem_env map_of s (a_append (ldb_TxHash mem_env) blk1 empty_store)"
    using AppendBlock_refines [OF mem_rep_empty, of blk1] by blast
  have none: "is_NotFound (DB_Height mem_env [])" using DB_Height_finds [OF mem_rep_empty] by (simp add: empty_store_def)
  have s: "store_reach mem_env [] s" "HeadHeader mem_env s = Ok hdr1"
    using store_reach.first [OF store_reach.start none _ _ app] HeadHeader_finds [OF rep] by (simp_all add: blk1_def hdr1_def)
  have "cl_BytesToHash toy_comet [101] = h_Hash hdr1" by (simp add: toy_comet_def hdr1_def)
  from endpoints_agree_on_the_head [OF s(1) mem_rep_empty good_empty_store s(2) this, of "NewStatusAPI (Block_ToCometLikeBlock blk1)"]
  obtain st blk where "StatusAPI_Status toy_comet mem_env (NewStatusAPI (Block_ToCometLikeBlock blk1)) s = Ok st"
    "si_LatestBlockHeight (st_SyncInfo st) = 1" "BlockAPI_ByHeight toy_comet mem_env 1 s = Ok blk"
    "BlockAPI_ByHash toy_comet mem_env [101] s = Ok blk"
    by (auto simp: hdr1_def)
  then show ?thesis by blast
qed

end
