(* ===== verification/EthApi.thy ===== *)
theory EthApi
  imports EngineProps
begin

text \<open>
  The Ethereum RPC endpoints (\<^verbatim>\<open>eth\<close>, \<^verbatim>\<open>eth/internal/ethapi\<close>): the chain id, blocks by number,
  label and hash with their transactions, and account and storage proofs. go-ethereum's
  blocks, transactions, signers, states and tries and its JSON and hex decoders are
  parameters. Recording metrics has no effect on the answers and is left out.
\<close>

section \<open>Block identifiers (block\_id.go)\<close>

record BlockID =
  bi_Label :: string
  bi_Height :: int

record jsonlib =
  js_UnmarshalString :: "bytes \<Rightarrow> string res"
  js_HexUint64 :: "string \<Rightarrow> u64 res"

definition BlockID_UnmarshalJSON :: "'s localdb_env \<Rightarrow> jsonlib \<Rightarrow> bytes \<Rightarrow> BlockID \<Rightarrow> BlockID res" where
  "BlockID_UnmarshalJSON E J data i =
     check (js_UnmarshalString J data) (Errorf_v ''unmarshal block id into string'') (\<lambda>dataStr.
     if dataStr \<in> {ldb_Unsafe E, ldb_Safe E, ldb_Finalized E} then Ok (i\<lparr>bi_Label := dataStr\<rparr>)
     else check (js_HexUint64 J dataStr) (Errorf_v ''unmarshal height as hexutil.Uint64'') (\<lambda>height.
     Ok (i\<lparr>bi_Height := sint height\<rparr>)))"

definition BlockID_Get :: "'s localdb_env \<Rightarrow> BlockID \<Rightarrow> 's \<Rightarrow> block res" where
  "BlockID_Get E i s =
     (if bi_Label i \<noteq> '''' then BlockByLabel E (bi_Label i) s else BlockByHeight E (word_of_int (bi_Height i)) s)"

section \<open>Headers and transactions as RPC objects (ethapi/api.go)\<close>

record geth_header =
  gh_Number :: nat
  gh_ParentHash :: hash
  gh_Nonce :: u64
  gh_MixDigest :: hash
  gh_UncleHash :: hash
  gh_Bloom :: bytes
  gh_Root :: hash
  gh_Coinbase :: address
  gh_Difficulty :: nat
  gh_Extra :: bytes
  gh_GasLimit :: u64
  gh_GasUsed :: u64
  gh_Time :: u64
  gh_TxHash :: hash
  gh_ReceiptHash :: hash
  gh_BaseFee :: "nat option"
  gh_WithdrawalsHash :: "hash option"
  gh_BlobGasUsed :: "u64 option"
  gh_ExcessBlobGas :: "u64 option"
  gh_ParentBeaconRoot :: "hash option"

record ('al) RPCTransaction =
  rt_BlockHash :: "hash option"
  rt_BlockNumber :: "nat option"
  rt_From :: address
  rt_Gas :: u64
  rt_GasPrice :: nat
  rt_GasFeeCap :: "nat option"
  rt_GasTipCap :: "nat option"
  rt_MaxFeePerBlobGas :: "nat option"
  rt_Hash :: hash
  rt_Input :: bytes
  rt_Nonce :: u64
  rt_To :: "address option"
  rt_TransactionIndex :: "u64 option"
  rt_Value :: nat
  rt_Type :: u64
  rt_Accesses :: "'al option"
  rt_ChainID :: "nat option"
  rt_BlobVersionedHashes :: "hash list"
  rt_V :: nat
  rt_R :: nat
  rt_S :: nat
  rt_YParity :: "u64 option"
  rt_SourceHash :: "hash option"
  rt_Mint :: "nat option"
  rt_IsSystemTx :: "bool option"
  rt_DepositReceiptVersion :: "u64 option"

datatype 'al rpc_value =
    RpcBig nat | RpcHash hash | RpcU64 u64 | RpcBytes bytes | RpcAddress address | RpcHashes "hash list"
  | RpcWithdrawals | RpcTxs "'al rpc_tx list"
and 'al rpc_tx = TxHashOnly hash | FullTx "'al RPCTransaction option"

type_synonym 'al rpc_map = "(string \<times> 'al rpc_value) list"

record receipt =
  rp_DepositNonce :: "u64 option"
  rp_DepositReceiptVersion :: "u64 option"

text \<open>Accessors of go-ethereum's transactions and blocks.\<close>

record ('tx, 'al) txlib =
  tl_Type :: "'tx \<Rightarrow> byte"
  tl_Sender :: "chain_config \<Rightarrow> nat \<Rightarrow> u64 \<Rightarrow> 'tx \<Rightarrow> address"
  tl_RawSignatureValues :: "'tx \<Rightarrow> nat \<times> nat \<times> nat"
  tl_Gas :: "'tx \<Rightarrow> u64"
  tl_GasPrice :: "'tx \<Rightarrow> nat"
  tl_GasFeeCap :: "'tx \<Rightarrow> nat"
  tl_GasTipCap :: "'tx \<Rightarrow> nat"
  tl_BlobGasFeeCap :: "'tx \<Rightarrow> nat option"
  tl_BlobHashes :: "'tx \<Rightarrow> hash list"
  tl_Hash :: "'tx \<Rightarrow> hash"
  tl_Data :: "'tx \<Rightarrow> bytes"
  tl_Nonce :: "'tx \<Rightarrow> u64"
  tl_To :: "'tx \<Rightarrow> address option"
  tl_Value :: "'tx \<Rightarrow> nat"
  tl_AccessList :: "'tx \<Rightarrow> 'al"
  tl_ChainId :: "'tx \<Rightarrow> nat"
  tl_SourceHash :: "'tx \<Rightarrow> hash"
  tl_IsSystemTx :: "'tx \<Rightarrow> bool"
  tl_Mint :: "'tx \<Rightarrow> nat option"

record ('tx, 'blk) blocklib =
  bk_Header :: "'blk \<Rightarrow> geth_header"
  bk_HeaderHash :: "geth_header \<Rightarrow> hash"
  bk_Size :: "'blk \<Rightarrow> u64"
  bk_Transactions :: "'blk \<Rightarrow> 'tx list"
  bk_UncleHashes :: "'blk \<Rightarrow> hash list"

definition RPCMarshalHeader :: "(geth_header \<Rightarrow> hash) \<Rightarrow> geth_header \<Rightarrow> 'al rpc_map" where
  "RPCMarshalHeader headerHash head =
     [(''number'', RpcBig (gh_Number head)), (''hash'', RpcHash (headerHash head)),
      (''parentHash'', RpcHash (gh_ParentHash head)), (''nonce'', RpcU64 (gh_Nonce head)),
      (''mixHash'', RpcHash (gh_MixDigest head)), (''sha3Uncles'', RpcHash (gh_UncleHash head)),
      (''logsBloom'', RpcBytes (gh_Bloom head)), (''stateRoot'', RpcHash (gh_Root head)),
      (''miner'', RpcAddress (gh_Coinbase head)), (''difficulty'', RpcBig (gh_Difficulty head)),
      (''extraData'', RpcBytes (gh_Extra head)), (''gasLimit'', RpcU64 (gh_GasLimit head)),
      (''gasUsed'', RpcU64 (gh_GasUsed head)), (''timestamp'', RpcU64 (gh_Time head)),
      (''transactionsRoot'', RpcHash (gh_TxHash head)), (''receiptsRoot'', RpcHash (gh_ReceiptHash head))] @
     (case gh_BaseFee head of None \<Rightarrow> [] | Some f \<Rightarrow> [(''baseFeePerGas'', RpcBig f)]) @
     (case gh_WithdrawalsHash head of None \<Rightarrow> [] | Some h \<Rightarrow> [(''withdrawalsRoot'', RpcHash h)]) @
     (case gh_BlobGasUsed head of None \<Rightarrow> [] | Some g \<Rightarrow> [(''blobGasUsed'', RpcU64 g)]) @
     (case gh_ExcessBlobGas head of None \<Rightarrow> [] | Some g \<Rightarrow> [(''excessBlobGas'', RpcU64 g)]) @
     (case gh_ParentBeaconRoot head of None \<Rightarrow> [] | Some h \<Rightarrow> [(''parentBeaconBlockRoot'', RpcHash h)])"

definition effectiveGasPrice :: "('tx, 'al) txlib \<Rightarrow> 'tx \<Rightarrow> nat \<Rightarrow> nat" where
  "effectiveGasPrice T tx baseFee =
     (let fee = tl_GasTipCap T tx + baseFee in
      if tl_GasFeeCap T tx < fee then tl_GasFeeCap T tx else fee)"

definition LegacyTxType :: byte where "LegacyTxType = 0"
definition AccessListTxType :: byte where "AccessListTxType = 1"
definition DynamicFeeTxType :: byte where "DynamicFeeTxType = 2"
definition BlobTxType :: byte where "BlobTxType = 3"

text \<open>The sign of a number that is never negative.\<close>

definition big_Sign :: "nat \<Rightarrow> u64" where
  "big_Sign v = (if v = 0 then 0 else 1)"

text \<open>What the transaction's type adds to the object.\<close>

definition accessFields :: "('tx, 'al) txlib \<Rightarrow> 'tx \<Rightarrow> 'al RPCTransaction \<Rightarrow> 'al RPCTransaction" where
  "accessFields T tx r = (case tl_RawSignatureValues T tx of (v, _, _) \<Rightarrow>
     r\<lparr>rt_Accesses := Some (tl_AccessList T tx), rt_ChainID := Some (tl_ChainId T tx), rt_YParity := Some (big_Sign v)\<rparr>)"

definition feeFields ::
    "('tx, 'al) txlib \<Rightarrow> 'tx \<Rightarrow> hash \<Rightarrow> nat option \<Rightarrow> 'al RPCTransaction \<Rightarrow> 'al RPCTransaction" where
  "feeFields T tx blockHash baseFee r =
     (accessFields T tx r)\<lparr>rt_GasFeeCap := Some (tl_GasFeeCap T tx), rt_GasTipCap := Some (tl_GasTipCap T tx),
       rt_GasPrice := (case baseFee of
           Some f \<Rightarrow> if blockHash \<noteq> 0 then effectiveGasPrice T tx f else tl_GasFeeCap T tx
         | None \<Rightarrow> tl_GasFeeCap T tx)\<rparr>"

definition depositFields :: "('tx, 'al) txlib \<Rightarrow> 'tx \<Rightarrow> receipt option \<Rightarrow> 'al RPCTransaction \<Rightarrow> 'al RPCTransaction" where
  "depositFields T tx receipt r =
     (let r1 = r\<lparr>rt_SourceHash := Some (tl_SourceHash T tx),
            rt_IsSystemTx := (if tl_IsSystemTx T tx then Some True else rt_IsSystemTx r),
            rt_Mint := tl_Mint T tx\<rparr> in
      case receipt of
        None \<Rightarrow> r1
      | Some rc \<Rightarrow> (case rp_DepositNonce rc of
            None \<Rightarrow> r1
          | Some n \<Rightarrow> r1\<lparr>rt_Nonce := n, rt_DepositReceiptVersion := (case rp_DepositReceiptVersion rc of
                None \<Rightarrow> rt_DepositReceiptVersion r1 | Some v \<Rightarrow> Some v)\<rparr>))"

definition newRPCTransaction ::
    "('tx, 'al) txlib \<Rightarrow> 'tx \<Rightarrow> hash \<Rightarrow> u64 \<Rightarrow> u64 \<Rightarrow> u64 \<Rightarrow> nat option \<Rightarrow> chain_config \<Rightarrow> receipt option \<Rightarrow>
     'al RPCTransaction" where
  "newRPCTransaction T tx blockHash blockNumber blockTime index baseFee config receipt =
     (case tl_RawSignatureValues T tx of (v, r, s) \<Rightarrow>
      let result = \<lparr>
        rt_BlockHash = (if blockHash \<noteq> 0 then Some blockHash else None),
        rt_BlockNumber = (if blockHash \<noteq> 0 then Some (unat blockNumber) else None),
        rt_From = tl_Sender T config (unat blockNumber) blockTime tx,
        rt_Gas = tl_Gas T tx, rt_GasPrice = tl_GasPrice T tx, rt_GasFeeCap = None, rt_GasTipCap = None,
        rt_MaxFeePerBlobGas = None, rt_Hash = tl_Hash T tx, rt_Input = tl_Data T tx, rt_Nonce = tl_Nonce T tx,
        rt_To = tl_To T tx,
        rt_TransactionIndex = (if blockHash \<noteq> 0 then Some index else None),
        rt_Value = tl_Value T tx, rt_Type = ucast (tl_Type T tx), rt_Accesses = None, rt_ChainID = None,
        rt_BlobVersionedHashes = [], rt_V = v, rt_R = r, rt_S = s, rt_YParity = None,
        rt_SourceHash = None, rt_Mint = None, rt_IsSystemTx = None, rt_DepositReceiptVersion = None\<rparr>
      in if tl_Type T tx = DepositTxType then depositFields T tx receipt result
         else if tl_Type T tx = LegacyTxType then
           (if v = 0 \<and> r = 0 \<and> s = 0 then result\<lparr>rt_ChainID := Some (cc_ChainID config)\<rparr>
            else if tl_ChainId T tx \<noteq> 0 then result\<lparr>rt_ChainID := Some (tl_ChainId T tx)\<rparr> else result)
         else if tl_Type T tx = AccessListTxType then accessFields T tx result
         else if tl_Type T tx = DynamicFeeTxType then feeFields T tx blockHash baseFee result
         else if tl_Type T tx = BlobTxType then
           (feeFields T tx blockHash baseFee result)\<lparr>rt_MaxFeePerBlobGas := tl_BlobGasFeeCap T tx,
             rt_BlobVersionedHashes := tl_BlobHashes T tx\<rparr>
         else result)"

text \<open>The backend's receipts: an error and a missing receipt both give none.\<close>

definition depositTxReceipt ::
    "('tx, 'al) txlib \<Rightarrow> (hash \<Rightarrow> receipt list res) \<Rightarrow> hash \<Rightarrow> u64 \<Rightarrow> 'tx \<Rightarrow> receipt option res" where
  "depositTxReceipt T GetReceipts blockHash index tx =
     (if tl_Type T tx \<noteq> DepositTxType then Ok None
      else (case GetReceipts blockHash of
          Err e \<Rightarrow> Ok None
        | Panic p \<Rightarrow> Panic p
        | Ok receipts \<Rightarrow> Ok (if unat index < length receipts then Some (receipts ! unat index) else None)))"

definition newRPCTransactionFromBlockIndex ::
    "('tx, 'al) txlib \<Rightarrow> ('tx, 'blk) blocklib \<Rightarrow> (hash \<Rightarrow> receipt list res) \<Rightarrow> 'blk \<Rightarrow> u64 \<Rightarrow> chain_config \<Rightarrow>
     'al RPCTransaction option res" where
  "newRPCTransactionFromBlockIndex T K GetReceipts b index config =
     (let txs = bk_Transactions K b; h = bk_Header K b; blockHash = bk_HeaderHash K h in
      if unat index \<ge> length txs then Ok None
      else let tx = txs ! unat index in
      check (depositTxReceipt T GetReceipts blockHash index tx) pass (\<lambda>rcpt.
      Ok (Some (newRPCTransaction T tx blockHash (of_nat (gh_Number h)) (gh_Time h) index (gh_BaseFee h) config rcpt))))"

fun formatTxs ::
    "(nat \<Rightarrow> 'tx \<Rightarrow> 'al rpc_tx res) \<Rightarrow> nat \<Rightarrow> 'tx list \<Rightarrow> 'al rpc_tx list res" where
  "formatTxs formatTx i [] = Ok []"
| "formatTxs formatTx i (tx # txs) =
     check (formatTx i tx) pass (\<lambda>t. check (formatTxs formatTx (Suc i) txs) pass (\<lambda>ts. Ok (t # ts)))"

definition RPCMarshalBlock ::
    "('tx, 'al) txlib \<Rightarrow> ('tx, 'blk) blocklib \<Rightarrow> (hash \<Rightarrow> receipt list res) \<Rightarrow> 'blk \<Rightarrow> bool \<Rightarrow> bool \<Rightarrow> chain_config \<Rightarrow>
     'al rpc_map res" where
  "RPCMarshalBlock T K GetReceipts block inclTx fullTx config =
     (let fields = RPCMarshalHeader (bk_HeaderHash K) (bk_Header K block) @ [(''size'', RpcU64 (bk_Size K block))] in
      check (if inclTx then
          check (formatTxs (\<lambda>i tx. if fullTx then
                check (newRPCTransactionFromBlockIndex T K GetReceipts block (of_nat i) config) pass (\<lambda>r. Ok (FullTx r))
              else Ok (TxHashOnly (tl_Hash T tx))) 0 (bk_Transactions K block)) pass (\<lambda>ts.
          Ok (fields @ [(''transactions'', RpcTxs ts)]))
        else Ok fields) pass (\<lambda>fields.
      Ok (fields @ [(''uncles'', RpcHashes (bk_UncleHashes K block))] @
        (case gh_WithdrawalsHash (bk_Header K block) of None \<Rightarrow> [] | Some _ \<Rightarrow> [(''withdrawals'', RpcWithdrawals)]))))"

text \<open>The backend without receipts (\<^verbatim>\<open>helpers.go\<close>).\<close>

definition noopReceipts :: "hash \<Rightarrow> receipt list res" where
  "noopReceipts h = Ok []"

definition SimpleRPCMarshalBlock ::
    "('tx, 'al) txlib \<Rightarrow> ('tx, 'blk) blocklib \<Rightarrow> 'blk \<Rightarrow> bool \<Rightarrow> nat \<Rightarrow> 'al rpc_map res" where
  "SimpleRPCMarshalBlock T K block fullTx chainID =
     RPCMarshalBlock T K noopReceipts block True fullTx (NewChainConfig chainID)"

section \<open>The block endpoints (eth.go)\<close>

record ('s, 'tx, 'blk, 'al) eth_env =
  ea_db :: "'s localdb_env"
  ea_eth :: "('tx, 'blk) ethlib"
  ea_tx :: "('tx, 'al) txlib"
  ea_block :: "('tx, 'blk) blocklib"
  ea_chainID :: nat

definition ChainId :: "u64 \<Rightarrow> nat" where
  "ChainId chainID = ChainID_HexBig chainID"

definition toRPCBlock :: "('s, 'tx, 'blk, 'al) eth_env \<Rightarrow> block \<Rightarrow> bool \<Rightarrow> 'al rpc_map res" where
  "toRPCBlock A block fullTx =
     check (Block_ToEth (ea_eth A) (Some block)) (Errorf_v ''convert to eth block'') (\<lambda>ethBlock.
     check (SimpleRPCMarshalBlock (ea_tx A) (ea_block A) ethBlock fullTx (ea_chainID A)) (Errorf_v ''rpc marshal block'') Ok)"

text \<open>A block that is not stored is reported as go-ethereum's not-found error.\<close>

definition orEthNotFound :: "'x res \<Rightarrow> ('x \<Rightarrow> 'y res) \<Rightarrow> 'y res" where
  "orEthNotFound r k = (case r of
       Err e \<Rightarrow> if errors_Is e ErrNotFound then Err EthereumNotFound else Err e
     | Panic p \<Rightarrow> Panic p
     | Ok x \<Rightarrow> k x)"

definition GetBlockByNumber :: "('s, 'tx, 'blk, 'al) eth_env \<Rightarrow> BlockID \<Rightarrow> bool \<Rightarrow> 's \<Rightarrow> 'al rpc_map res" where
  "GetBlockByNumber A i fullTx s = orEthNotFound (BlockID_Get (ea_db A) i s) (\<lambda>block. toRPCBlock A block fullTx)"

definition GetBlockByHash :: "('s, 'tx, 'blk, 'al) eth_env \<Rightarrow> hash \<Rightarrow> bool \<Rightarrow> 's \<Rightarrow> 'al rpc_map res" where
  "GetBlockByHash A hash fullTx s = orEthNotFound (BlockByHash (ea_db A) hash s) (\<lambda>block. toRPCBlock A block fullTx)"

end
