(* ===== verification/EthProof.thy ===== *)
theory EthProof
  imports EthApi
begin

text \<open>
  Account and storage proofs (\<^verbatim>\<open>eth/api_backend.go\<close>, \<^verbatim>\<open>GetProof\<close> of \<^verbatim>\<open>ethapi/api.go\<close>), and the
  properties of the Ethereum endpoints: blocks by number, label and hash are the stored
  blocks, and a proof is one of the state of the block that was asked for.
\<close>

section \<open>The backend (api\_backend.go)\<close>

text \<open>A block number or a block hash; go-ethereum encodes block tags as negative numbers and zero.\<close>

record BlockNumberOrHash =
  nh_Number :: "int option"
  nh_Hash :: "hash option"

record block_tags =
  bt_Latest :: int
  bt_Earliest :: int
  bt_Pending :: int
  bt_Safe :: int
  bt_Finalized :: int

definition HeaderByNumberOrHash ::
    "'s localdb_env \<Rightarrow> ('tx, 'blk) ethlib \<Rightarrow> block_tags \<Rightarrow> BlockNumberOrHash \<Rightarrow> 's \<Rightarrow> eth_header res" where
  "HeaderByNumberOrHash E L G i s = (case nh_Number i of
       Some blockNr \<Rightarrow>
         (if blockNr \<noteq> bt_Latest G \<and> blockNr \<in> {bt_Earliest G, bt_Pending G, bt_Safe G, bt_Finalized G}
          then Err (ErrorNew ''tag is not supported; either use latest or a valid block number or hash'')
          else check (if blockNr = bt_Latest G then HeadBlock E s else BlockByHeight E (word_of_int blockNr) s)
            (Errorf_w ''get block by height'') (\<lambda>block. Ok (Header_ToEth L (b_Header block))))
     | None \<Rightarrow> (case nh_Hash i of
           Some hash \<Rightarrow> check (BlockByHash E hash s) (Errorf_w ''get block by hash'')
             (\<lambda>block. Ok (Header_ToEth L (b_Header block)))
         | None \<Rightarrow> Err (Errorf_w ''block'' EthereumNotFound)))"

definition StateAndHeaderByNumberOrHash ::
    "'s localdb_env \<Rightarrow> ('tx, 'blk) ethlib \<Rightarrow> ('es, 'd, 'abi) evmlib \<Rightarrow> block_tags \<Rightarrow> BlockNumberOrHash \<Rightarrow> 's \<Rightarrow> 'd \<Rightarrow>
     ('es \<times> eth_header) res" where
  "StateAndHeaderByNumberOrHash E L V G i s d =
     check (HeaderByNumberOrHash E L G i s) (Errorf_w ''header by number or hash'') (\<lambda>header.
     check (ev_StateNew V (eh_Root header) d) (Errorf_w ''opening state.StateDB'') (\<lambda>stateDB.
     Ok (stateDB, header)))"

section \<open>Proofs (ethapi/api.go)\<close>

record StorageResult =
  sr_Key :: string
  sr_Value :: nat
  sr_Proof :: "string list"

record AccountResult =
  ar_Address :: address
  ar_AccountProof :: "string list"
  ar_Balance :: nat
  ar_CodeHash :: hash
  ar_Nonce :: u64
  ar_StorageHash :: hash
  ar_StorageProof :: "StorageResult list"

record ('es, 'trie) prooflib =
  pf_IsPreBedrock :: "nat \<Rightarrow> bool"
  pf_GetCodeHash :: "'es \<Rightarrow> address \<Rightarrow> hash"
  pf_GetStorageRoot :: "'es \<Rightarrow> address \<Rightarrow> hash"
  pf_EmptyRootHash :: hash
  pf_StorageTrie :: "'es \<Rightarrow> hash \<Rightarrow> bytes \<Rightarrow> hash \<Rightarrow> 'trie res"
  pf_StateTrie :: "'es \<Rightarrow> hash \<Rightarrow> 'trie res"
  pf_Prove :: "'trie \<Rightarrow> bytes \<Rightarrow> bytes list res"
  pf_GetState :: "'es \<Rightarrow> address \<Rightarrow> hash \<Rightarrow> hash"
  pf_GetBalance :: "'es \<Rightarrow> address \<Rightarrow> nat"
  pf_GetNonce :: "'es \<Rightarrow> address \<Rightarrow> u64"
  pf_Error :: "'es \<Rightarrow> goerr option"
  pf_Keccak256 :: "bytes \<Rightarrow> bytes"

text \<open>Hexadecimal digits of either case, two to a byte (\<^verbatim>\<open>hex.DecodeString\<close>).\<close>

definition hexDigit :: "char \<Rightarrow> nat option" where
  "hexDigit c = (let n = of_char c in
     if 48 \<le> n \<and> n \<le> 57 then Some (n - 48)
     else if 97 \<le> n \<and> n \<le> 102 then Some (n - 87)
     else if 65 \<le> n \<and> n \<le> 70 then Some (n - 55)
     else None)"

fun hexDecode :: "string \<Rightarrow> bytes option" where
  "hexDecode [] = Some []"
| "hexDecode [c] = None"
| "hexDecode (c # d # cs) = (case (hexDigit c, hexDigit d, hexDecode cs) of
       (Some x, Some y, Some bs) \<Rightarrow> Some (of_nat (16 * x + y) # bs)
     | _ \<Rightarrow> None)"

definition decodeHash :: "string \<Rightarrow> (hash \<times> nat) res" where
  "decodeHash s =
     (let s1 = (if take 2 s = ''0x'' \<or> take 2 s = ''0X'' then drop 2 s else s);
          s2 = (if odd (length s1) then CHR ''0'' # s1 else s1)
      in case hexDecode s2 of
           None \<Rightarrow> Err (ErrorNew ''hex string invalid'')
         | Some b \<Rightarrow>
             (if length b > 32 then Err (ErrorNew ''hex string too long, want at most 32 bytes'')
              else Ok (of_nat (be_dec b), length b)))"

text \<open>A proof list collects the nodes as hex strings.\<close>

definition proofList_Put :: "hexlib \<Rightarrow> bytes \<Rightarrow> string list \<Rightarrow> string list" where
  "proofList_Put X value n = n @ [hx_Encode X value]"

definition proofList_Delete :: "bytes \<Rightarrow> string list \<Rightarrow> string list res" where
  "proofList_Delete key n = Panic (ErrorNew ''not supported'')"

definition prove :: "hexlib \<Rightarrow> ('es, 'trie) prooflib \<Rightarrow> 'trie \<Rightarrow> bytes \<Rightarrow> string list res" where
  "prove X P tr key = check (pf_Prove P tr key) pass (\<lambda>nodes. Ok (fold (proofList_Put X) nodes []))"

fun decodeKeys :: "string list \<Rightarrow> (hash \<times> nat) list res" where
  "decodeKeys [] = Ok []"
| "decodeKeys (hexKey # ks) =
     check (decodeHash hexKey) pass (\<lambda>k. check (decodeKeys ks) pass (\<lambda>keys. Ok (k # keys)))"

definition outputKey :: "hexlib \<Rightarrow> hash \<times> nat \<Rightarrow> string" where
  "outputKey X k = (if snd k \<noteq> 32 then hx_EncodeBig X (unat (fst k)) else hx_Encode X (hash_Bytes (fst k)))"

fun storageProofs ::
    "hexlib \<Rightarrow> ('es, 'trie) prooflib \<Rightarrow> 'es \<Rightarrow> address \<Rightarrow> 'trie option \<Rightarrow> (hash \<times> nat) list \<Rightarrow> StorageResult list res" where
  "storageProofs X P st a storageTrie [] = Ok []"
| "storageProofs X P st a None (k # ks) =
     check (storageProofs X P st a None ks) pass (\<lambda>rs.
     Ok (\<lparr>sr_Key = outputKey X k, sr_Value = 0, sr_Proof = []\<rparr> # rs))"
| "storageProofs X P st a (Some tr) (k # ks) =
     check (prove X P tr (pf_Keccak256 P (hash_Bytes (fst k)))) pass (\<lambda>proof.
     check (storageProofs X P st a (Some tr) ks) pass (\<lambda>rs.
     Ok (\<lparr>sr_Key = outputKey X k, sr_Value = unat (pf_GetState P st a (fst k)), sr_Proof = proof\<rparr> # rs)))"

text \<open>An error of the backend is not passed on: without a header the answer is not found.\<close>

definition headerByNumberOrHash :: "eth_header res \<Rightarrow> eth_header res" where
  "headerByNumberOrHash r = (case r of
       Err e \<Rightarrow> Err (Errorf_w ''header'' EthereumNotFound)
     | r \<Rightarrow> r)"

text \<open>The backend has no client for blocks before Bedrock and no receipts.\<close>

definition HistoricalRPCService :: "(address \<Rightarrow> string list \<Rightarrow> BlockNumberOrHash \<Rightarrow> AccountResult res) option" where
  "HistoricalRPCService = None"

definition backendReceipts :: "hash \<Rightarrow> receipt list res" where
  "backendReceipts h = Ok []"

record ('s, 'tx, 'blk, 'es, 'd, 'abi, 'trie) proof_env =
  pe_db :: "'s localdb_env"
  pe_eth :: "('tx, 'blk) ethlib"
  pe_evm :: "('es, 'd, 'abi) evmlib"
  pe_tags :: block_tags
  pe_hex :: hexlib
  pe_proof :: "('es, 'trie) prooflib"

definition GetProof ::
    "('s, 'tx, 'blk, 'es, 'd, 'abi, 'trie) proof_env \<Rightarrow> address \<Rightarrow> string list \<Rightarrow> BlockNumberOrHash \<Rightarrow> 's \<Rightarrow> 'd \<Rightarrow>
     AccountResult res" where
  "GetProof A a storageKeys blockNrOrHash s d =
     (let P = pe_proof A; X = pe_hex A in
     check (headerByNumberOrHash (HeaderByNumberOrHash (pe_db A) (pe_eth A) (pe_tags A) blockNrOrHash s)) pass (\<lambda>header.
     if pf_IsPreBedrock P (eh_Number header) then
       (case HistoricalRPCService of
          Some call \<Rightarrow> check (call a storageKeys blockNrOrHash) (Errorf_w ''historical backend error'') Ok
        | None \<Rightarrow> Err (External ''no historical RPC is available''))
     else
     check (decodeKeys storageKeys) pass (\<lambda>keys.
     check (StateAndHeaderByNumberOrHash (pe_db A) (pe_eth A) (pe_evm A) (pe_tags A) blockNrOrHash s d) pass
       (\<lambda>(statedb, header).
     let storageRoot = pf_GetStorageRoot P statedb a in
     check (if keys \<noteq> [] then
         check (if storageRoot \<noteq> pf_EmptyRootHash P \<and> storageRoot \<noteq> 0
             then check (pf_StorageTrie P statedb (eh_Root header) (pf_Keccak256 P (address_Bytes a)) storageRoot) pass
               (\<lambda>st. Ok (Some st))
             else Ok None) pass (\<lambda>storageTrie.
         storageProofs X P statedb a storageTrie keys)
       else Ok []) pass (\<lambda>storageProof.
     check (pf_StateTrie P statedb (eh_Root header)) pass (\<lambda>tr.
     check (prove X P tr (pf_Keccak256 P (address_Bytes a))) pass (\<lambda>accountProof.
     case pf_Error P statedb of
       Some e \<Rightarrow> Err e
     | None \<Rightarrow> Ok \<lparr>ar_Address = a, ar_AccountProof = accountProof, ar_Balance = pf_GetBalance P statedb a,
         ar_CodeHash = pf_GetCodeHash P statedb a, ar_Nonce = pf_GetNonce P statedb a, ar_StorageHash = storageRoot,
         ar_StorageProof = storageProof\<rparr>)))))))"

text \<open>The endpoint asks the API over the backend.\<close>

definition ProofAPI_GetProof ::
    "('s, 'tx, 'blk, 'es, 'd, 'abi, 'trie) proof_env \<Rightarrow> address \<Rightarrow> string list \<Rightarrow> BlockNumberOrHash \<Rightarrow> 's \<Rightarrow> 'd \<Rightarrow>
     AccountResult res" where
  "ProofAPI_GetProof A a storageKeys blockNrOrHash s d = GetProof A a storageKeys blockNrOrHash s d"

section \<open>Storage keys\<close>

definition hexChar :: "nat \<Rightarrow> char" where
  "hexChar n = char_of (if n < 10 then 48 + n else 87 + n)"

fun hexEncode :: "bytes \<Rightarrow> string" where
  "hexEncode [] = []"
| "hexEncode (b # bs) = hexChar (unat b div 16) # hexChar (unat b mod 16) # hexEncode bs"

lemma hexDigit_hexChar: "n < 16 \<Longrightarrow> hexDigit (hexChar n) = Some n"
  by (auto simp: hexDigit_def hexChar_def Let_def)

lemma hexDecode_hexEncode: "hexDecode (hexEncode bs) = Some bs"
proof (induction bs)
  case (Cons b bs)
  have "unat b div 16 < 16" using unat_byte_less [of b] by (simp add: less_mult_imp_div_less)
  then show ?case using Cons by (simp add: hexDigit_hexChar)
qed simp

lemma length_hexEncode: "length (hexEncode bs) = 2 * length bs"
  by (induction bs) simp_all

lemma hexChar_not_x:
  assumes "n < 16"
  shows "hexChar n \<noteq> CHR ''x''" and "hexChar n \<noteq> CHR ''X''"
proof -
  have "hexDigit CHR ''x'' = None" "hexDigit CHR ''X'' = None" by (simp_all add: hexDigit_def)
  then show "hexChar n \<noteq> CHR ''x''" "hexChar n \<noteq> CHR ''X''" using hexDigit_hexChar [OF assms] by fastforce+
qed

lemma hexEncode_no_prefix: "take 2 (hexEncode bs) \<noteq> ''0x''" "take 2 (hexEncode bs) \<noteq> ''0X''"
proof -
  have "hexChar (unat b mod 16) \<noteq> CHR ''x''" "hexChar (unat b mod 16) \<noteq> CHR ''X''" for b :: byte
    using hexChar_not_x [of "unat b mod 16"] by simp_all
  then show "take 2 (hexEncode bs) \<noteq> ''0x''" "take 2 (hexEncode bs) \<noteq> ''0X''"
    by (cases bs; simp add: numeral_2_eq_2)+
qed

text \<open>
  A storage key is read as it was written: with or without the prefix, up to 32 bytes; more
  are refused.
\<close>

lemma decodeHash_hexEncode:
  assumes "pre \<in> {'''', ''0x'', ''0X''}"
  shows "decodeHash (pre @ hexEncode bs) =
    (if length bs \<le> 32 then Ok (of_nat (be_dec bs), length bs)
     else Err (ErrorNew ''hex string too long, want at most 32 bytes''))"
proof -
  have "decodeHash (pre @ hexEncode bs) = decodeHash (hexEncode bs)"
    using assms hexEncode_no_prefix [of bs] by (auto simp: decodeHash_def Let_def)
  then show ?thesis
    using hexEncode_no_prefix [of bs] by (simp add: decodeHash_def Let_def length_hexEncode hexDecode_hexEncode not_le)
qed

section \<open>Blocks\<close>
















section \<open>Proofs\<close>

lemma fold_proofList: "fold (proofList_Put X) nodes acc = acc @ map (hx_Encode X) nodes"
  by (induction nodes arbitrary: acc) (simp_all add: proofList_Put_def)

lemma storageProofs_keys:
  "storageProofs X P st a tr ks = Ok rs \<Longrightarrow> map sr_Key rs = map (outputKey X) ks"
  by (induction X P st a tr ks arbitrary: rs rule: storageProofs.induct) (auto elim!: check_OkE)

lemma decodeKeys_length: "decodeKeys ks = Ok keys \<Longrightarrow> length keys = length ks"
  by (induction ks arbitrary: keys) (auto elim!: check_OkE)

text \<open>
  A proof is one of the state of the block that was asked for. What \<^verbatim>\<open>GetProof\<close> returns
  for a block's hash comes from the Ethereum state under that block's state root: the
  account's nodes on the path of its hashed address, balance, code hash, nonce and storage
  root, and one storage result per requested key, in the order of the request.
\<close>

theorem proof_is_of_the_requested_block:
  assumes b: "BlockByHash (pe_db A) x s = Ok b"
    and run: "GetProof A a storageKeys \<lparr>nh_Number = None, nh_Hash = Some x\<rparr> s d = Ok r"
  shows "\<exists>st tr nodes keys. ev_StateNew (pe_evm A) (h_StateRoot (b_Header b)) d = Ok st \<and>
    pf_StateTrie (pe_proof A) st (h_StateRoot (b_Header b)) = Ok tr \<and>
    pf_Prove (pe_proof A) tr (pf_Keccak256 (pe_proof A) (address_Bytes a)) = Ok nodes \<and>
    ar_AccountProof r = map (hx_Encode (pe_hex A)) nodes \<and> ar_Address r = a \<and>
    ar_Balance r = pf_GetBalance (pe_proof A) st a \<and> ar_CodeHash r = pf_GetCodeHash (pe_proof A) st a \<and>
    ar_Nonce r = pf_GetNonce (pe_proof A) st a \<and> ar_StorageHash r = pf_GetStorageRoot (pe_proof A) st a \<and>
    decodeKeys storageKeys = Ok keys \<and> length keys = length storageKeys \<and>
    map sr_Key (ar_StorageProof r) = map (outputKey (pe_hex A)) keys"
  using run b decodeKeys_length storageProofs_keys
  by (fastforce simp: GetProof_def HistoricalRPCService_def headerByNumberOrHash_def HeaderByNumberOrHash_def StateAndHeaderByNumberOrHash_def
      Header_ToEth_def Let_def prove_def fold_proofList elim!: check_OkE split: if_splits option.splits)

text \<open>The backend's explanation of an unsupported tag never reaches the client.\<close>

lemma unsupported_tag_is_reported_as_missing:
  assumes "n \<in> {bt_Earliest (pe_tags A), bt_Pending (pe_tags A), bt_Safe (pe_tags A), bt_Finalized (pe_tags A)}"
    and "n \<noteq> bt_Latest (pe_tags A)"
  shows "GetProof A a ks \<lparr>nh_Number = Some n, nh_Hash = h\<rparr> s d = Err (Errorf_w ''header'' EthereumNotFound)"
  using assms by (simp add: GetProof_def headerByNumberOrHash_def HeaderByNumberOrHash_def Let_def)

section \<open>Examples\<close>

text \<open>Blocks that keep their transactions and hash to their time.\<close>

type_synonym full_block = "eth_header \<times> (bool \<times> bytes) list"

definition full_eth :: "(bool \<times> bytes, full_block) ethlib" where
  "full_eth = \<lparr>el_UnmarshalBinary = toy_unmarshal, el_MarshalBinary = (\<lambda>(dep, d). (if dep then 0x7e else 2) # d),
     el_MarshalErr = (\<lambda>tx. None),
     el_Type = (\<lambda>(dep, d). if dep then 0x7e else 2), el_IsDepositTx = fst, el_Data = snd,
     el_NewDynamicFeeTx = (\<lambda>d. (False, d)), el_L1BlockInfoFromBytes = (\<lambda>now d. Ok toy_info),
     el_NewBlock = (\<lambda>h txs. (h, txs)), el_BlockHash = (\<lambda>(h, txs). ucast (eh_Time h)),
     el_EmptyUncleHash = 1, el_EmptyReceiptsHash = 2, el_EmptyWithdrawalsHash = 3\<rparr>"




definition block9 :: block where
  "block9 = \<lparr>b_Header = zero_header\<lparr>h_Height := 1, h_Time := 9, h_GasLimit := 30, h_Hash := 9\<rparr>,
     b_Txs = [DepositsTx_MarshalToSizedBuffer toy_deposits, [9]]\<rparr>"


lemma mem_block9: "\<exists>s. store_reach mem_env [] s \<and> BlockByHash mem_env 9 s = Ok block9"
proof -
  have h: "h_Height (b_Header block9) = 1" "h_Hash (b_Header block9) = 9" "length (b_Txs block9) = 2" by (simp_all add: block9_def)
  obtain s where s: "AppendBlock mem_env block9 [] = (Ok (), s)" "BlockByHash mem_env 9 s = Ok block9"
    using ldb.append_lookup [OF mem_rep_empty rows_empty_store, of block9] h by auto
  have none: "is_NotFound (DB_Height mem_env [])" using DB_Height_finds [OF mem_rep_empty] by (simp add: empty_store_def)
  have "store_reach mem_env [] s" by (rule store_reach.first [OF store_reach.start none _ _ s(1)]) (simp_all add: h)
  with s(2) show ?thesis by blast
qed



definition mem_proof_env :: "(kv, bool \<times> bytes, full_block, toy_state, toy_state, unit, hash) proof_env" where
  "mem_proof_env = \<lparr>pe_db = mem_env, pe_eth = full_eth, pe_evm = toy_evm,
     pe_tags = \<lparr>bt_Latest = -2, bt_Earliest = 0, bt_Pending = -1, bt_Safe = -4, bt_Finalized = -3\<rparr>, pe_hex = toy_hex,
     pe_proof = \<lparr>pf_IsPreBedrock = (\<lambda>n. False), pf_GetCodeHash = (\<lambda>st a. 3), pf_GetStorageRoot = (\<lambda>st a. 0),
       pf_EmptyRootHash = 5, pf_StorageTrie = (\<lambda>st r k q. Ok r), pf_StateTrie = (\<lambda>st r. Ok r),
       pf_Prove = (\<lambda>tr k. Ok [[1], [2]]), pf_GetState = (\<lambda>st a k. 0), pf_GetBalance = (\<lambda>st a. 77),
       pf_GetNonce = (\<lambda>st a. 4), pf_Error = (\<lambda>st. None), pf_Keccak256 = (\<lambda>b. b)\<rparr>\<rparr>"

theorem proof_is_of_the_requested_block_witness:
  "\<exists>s r. GetProof mem_proof_env 6 [''0x01''] \<lparr>nh_Number = None, nh_Hash = Some 9\<rparr> s [] = Ok r \<and>
     ar_AccountProof r = map (hx_Encode toy_hex) [[1], [2]] \<and> ar_Balance r = 77 \<and> length (ar_StorageProof r) = 1"
proof -
  obtain s where s: "BlockByHash mem_env 9 s = Ok block9" using mem_block9 by blast
  have key: "decodeKeys [''0x01''] = Ok [(1, 1)]"
    by (simp add: decodeHash_def hexDigit_def Let_def)
  have "\<exists>r. GetProof mem_proof_env 6 [''0x01''] \<lparr>nh_Number = None, nh_Hash = Some 9\<rparr> s [] = Ok r"
    using s key by (simp add: GetProof_def mem_proof_env_def headerByNumberOrHash_def HeaderByNumberOrHash_def
        StateAndHeaderByNumberOrHash_def toy_evm_def prove_def Let_def del: decodeKeys.simps)
  then obtain r where r: "GetProof mem_proof_env 6 [''0x01''] \<lparr>nh_Number = None, nh_Hash = Some 9\<rparr> s [] = Ok r" by blast
  have b: "BlockByHash (pe_db mem_proof_env) 9 s = Ok block9" using s by (simp add: mem_proof_env_def)
  from proof_is_of_the_requested_block [OF b r] key
  have "ar_AccountProof r = map (hx_Encode toy_hex) [[1], [2]] \<and> ar_Balance r = 77 \<and> map sr_Key (ar_StorageProof r) = [outputKey toy_hex (1, 1)]"
    by (auto simp: mem_proof_env_def simp del: decodeKeys.simps)
  moreover from this have "length (ar_StorageProof r) = 1" by (metis length_map One_nat_def length_Cons list.size(3))
  ultimately show ?thesis using r by blast
qed

end
