(* ===== verification/Environment.thy ===== *)
theory Environment
  imports Stores
begin

text \<open>
  The environment that owns a program's clean-up (\<^verbatim>\<open>environment/environment.go\<close>): goroutines
  are counted by a wait group and functions are deferred; \<^verbatim>\<open>Close\<close> waits for the goroutines,
  then runs the deferred functions in reverse order and collects their errors.
\<close>

text \<open>
  A deferred function returns nil (\<open>Ok ()\<close>) or an error, or panics; where it does not return it
  is \<open>None\<close>.
\<close>

type_synonym 's cleanup = "('s, unit) pop"

record 's deferFn =
  df_errMsg :: string
  df_fn :: "'s cleanup"

datatype goroutine = Running | Finished | Panicked goerr

record 's Env =
  env_deferFns :: "'s deferFn list"
  env_wg :: "goroutine list"

definition Env_New :: "'s Env" where
  "Env_New = \<lparr>env_deferFns = [], env_wg = []\<rparr>"

definition Env_Go :: "'s Env \<Rightarrow> 's Env" where
  "Env_Go e = e\<lparr>env_wg := env_wg e @ [Running]\<rparr>"

definition DeferErr :: "string \<Rightarrow> 's cleanup \<Rightarrow> 's Env \<Rightarrow> 's Env" where
  "DeferErr errMsg fn e = e\<lparr>env_deferFns := env_deferFns e @ [\<lparr>df_errMsg = errMsg, df_fn = fn\<rparr>]\<rparr>"

text \<open>A function given to \<^verbatim>\<open>Defer\<close> has no error to return: what it answers counts as nil.\<close>

definition Defer :: "('s, unit) pop \<Rightarrow> 's Env \<Rightarrow> 's Env" where
  "Defer fn e = DeferErr '''' (\<lambda>s. case fn s of Some (Err _, s') \<Rightarrow> Some (Ok (), s') | r \<Rightarrow> r) e"

text \<open>
  \<^verbatim>\<open>conc.WaitGroup.Wait\<close>: it blocks while a goroutine runs, and panics with the first panic of
  a goroutine.
\<close>

fun panics :: "goroutine list \<Rightarrow> goerr list" where
  "panics [] = []"
| "panics (Panicked p # gs) = p # panics gs"
| "panics (_ # gs) = panics gs"

definition wg_Wait :: "goroutine list \<Rightarrow> unit res option" where
  "wg_Wait gs = (if Running \<in> set gs then None else case panics gs of [] \<Rightarrow> Some (Ok ()) | p # ps \<Rightarrow> Some (Panic p))"

text \<open>The loop of \<^verbatim>\<open>Close\<close>, counting up while it indexes from the end.\<close>

fun closeFrom :: "'s deferFn list \<Rightarrow> nat \<Rightarrow> nat \<Rightarrow> goerr option \<Rightarrow> ('s, goerr option) pop" where
  "closeFrom fns i 0 combinedErr s = Some (Ok combinedErr, s)"
| "closeFrom fns i (Suc n) combinedErr s =
     (let msgfn = fns ! (length fns - 1 - i) in
      case df_fn msgfn s of
        None \<Rightarrow> None
      | Some (Ok _, s') \<Rightarrow> closeFrom fns (Suc i) n combinedErr s'
      | Some (Err err, s') \<Rightarrow>
          closeFrom fns (Suc i) n (Some (multierror_Append combinedErr (Some (Errorf_w (df_errMsg msgfn) err)))) s'
      | Some (Panic p, s') \<Rightarrow> Some (Panic p, s'))"

definition Env_Close :: "'s Env \<Rightarrow> ('s, goerr option) pop" where
  "Env_Close e s = (case wg_Wait (env_wg e) of
       None \<Rightarrow> None
     | Some (Panic p) \<Rightarrow> Some (Panic p, s)
     | Some r \<Rightarrow> closeFrom (env_deferFns e) 0 (length (env_deferFns e)) None s)"

section \<open>Every function runs, in reverse order\<close>

text \<open>The reference: the functions one after the other, and the errors they gave.\<close>

fun runAll :: "'s deferFn list \<Rightarrow> ('s, goerr list) pop" where
  "runAll [] s = Some (Ok [], s)"
| "runAll (f # fs) s = (case df_fn f s of
       None \<Rightarrow> None
     | Some (Ok _, s1) \<Rightarrow> runAll fs s1
     | Some (Err e, s1) \<Rightarrow> pcheck (runAll fs) pass (\<lambda>es. total (sret (Errorf_w (df_errMsg f) e # es))) s1
     | Some (Panic p, s1) \<Rightarrow> Some (Panic p, s1))"

definition combined :: "goerr list \<Rightarrow> goerr option" where
  "combined es = (if es = [] then None else Some (MultiErr es))"

lemma combined_append: "Some (multierror_Append (combined ds) (Some e)) = combined (ds @ [e])"
  by (simp add: combined_def)

lemma closeFrom_eq:
  "i + n = length fns \<Longrightarrow> closeFrom fns i n (combined ds) s =
   pcheck (runAll (drop i (rev fns))) pass (\<lambda>es. total (sret (combined (ds @ es)))) s"
proof (induction n arbitrary: i ds s)
  case (Suc n)
  then have "drop i (rev fns) = fns ! (length fns - 1 - i) # drop (Suc i) (rev fns)"
    by (simp add: Cons_nth_drop_Suc [symmetric] rev_nth)
  then show ?case
    using Suc by (auto simp: Let_def combined_append pcheck_def split: prod.splits option.splits res.splits)
qed (simp add: pcheck_def)

lemma Env_Close_eq:
  assumes "wg_Wait (env_wg e) = Some (Ok ())"
  shows "Env_Close e s = pcheck (runAll (rev (env_deferFns e))) pass (\<lambda>es. total (sret (combined es))) s"
  using closeFrom_eq [of 0 "length (env_deferFns e)" "env_deferFns e" "[]" s] assms
  by (simp add: Env_Close_def combined_def [of "[]"])

text \<open>
  Closing runs everything. \<^verbatim>\<open>Close\<close> does not return while a goroutine runs. When all have
  finished, it runs every deferred function exactly once, the last deferred first, each on
  the state the one before left, whether or not those before it failed; it returns nil
  exactly when none failed, and otherwise all errors in the order they happened, each under
  its message; it does not return, or panics, exactly when one of them does. When a goroutine
  panicked it panics, and runs none of them.
\<close>

theorem close_runs_everything:
  "Env_Close e s =
     (if Running \<in> set (env_wg e) then None
      else case panics (env_wg e) of
        p # ps \<Rightarrow> Some (Panic p, s)
      | [] \<Rightarrow> pcheck (runAll (rev (env_deferFns e))) pass
          (\<lambda>es. total (sret (if es = [] then None else Some (MultiErr es)))) s)"
proof (cases "Running \<in> set (env_wg e)")
  case False
  then show ?thesis
    using Env_Close_eq [of e s] by (cases "panics (env_wg e)") (simp_all add: Env_Close_def wg_Wait_def combined_def)
qed (simp add: Env_Close_def wg_Wait_def)

end
