(* ===== verification/NodeServers.thy ===== *)
theory NodeServers
  imports Environment
begin

text \<open>
  The HTTP servers of a node (\<^verbatim>\<open>node/http.go\<close>) and its listeners (\<^verbatim>\<open>node/selective_listener.go\<close>,
  \<^verbatim>\<open>comet/selective_listener.go\<close>). \<^verbatim>\<open>httpService.Run\<close> is two threads: the caller, which waits for
  an error or for the end of its context, and the goroutine that serves. The model is a
  partial step function over explicit schedules, so that every interleaving is a list.
\<close>

section \<open>One server (http.go)\<close>

definition ErrServerClosed :: goerr where "ErrServerClosed = External ''http: Server closed''"

text \<open>
  The serving goroutine: inside \<^verbatim>\<open>srv.Serve\<close>, blocked sending an error on the unbuffered channel,
  or ended. The caller: at the \<^verbatim>\<open>select\<close>, inside \<^verbatim>\<open>srv.Shutdown\<close>, in the deferred \<^verbatim>\<open>wg.Wait\<close> with its
  result chosen, or returned.
\<close>

datatype serve_pc = InServe | Sending goerr | ServeEnded
datatype run_pc = AtSelect | InShutdown | InWait "unit res" | Returned "unit res"

record http =
  ht_serve :: serve_pc
  ht_pc :: run_pc
  ht_ctx :: bool
  ht_shutdown :: bool
  ht_conns :: nat

definition http_init :: http where
  "http_init = \<lparr>ht_serve = InServe, ht_pc = AtSelect, ht_ctx = False, ht_shutdown = False, ht_conns = 0\<rparr>"

text \<open>
  The first four events are the environment's: the context is cancelled, \<^verbatim>\<open>Serve\<close> fails, a
  connection that \<^verbatim>\<open>Serve\<close> has accepted becomes active, an active one ends or becomes idle. The
  others are the program's. After \<^verbatim>\<open>Shutdown\<close> has begun, \<^verbatim>\<open>Serve\<close> returns \<^verbatim>\<open>ErrServerClosed\<close>, which
  is not sent. \<^verbatim>\<open>Shutdown\<close> is given a context without a deadline: it returns only when no
  connection is active (connections that were taken over, as by a websocket, do not count).
\<close>

datatype http_event =
    CtxDone
  | ServeFails goerr
  | ConnActive
  | ConnEnds
  | ServeCloses
  | ReceiveErr
  | SelectDone
  | ShutdownBegins
  | ShutdownReturns "goerr option"
  | WaitReturns

fun http_step :: "http_event \<Rightarrow> http \<Rightarrow> http option" where
  "http_step CtxDone h = Some (h\<lparr>ht_ctx := True\<rparr>)"
| "http_step (ServeFails e) h =
     (if ht_serve h = InServe \<and> \<not> ht_shutdown h
      then Some (h\<lparr>ht_serve := if errors_Is e ErrServerClosed then ServeEnded else Sending (Errorf_v ''serve'' e)\<rparr>) else None)"
| "http_step ConnActive h =
     (if ht_serve h = InServe \<and> \<not> ht_shutdown h then Some (h\<lparr>ht_conns := ht_conns h + 1\<rparr>) else None)"
| "http_step ConnEnds h = (if ht_conns h > 0 then Some (h\<lparr>ht_conns := ht_conns h - 1\<rparr>) else None)"
| "http_step ServeCloses h =
     (if ht_serve h = InServe \<and> ht_shutdown h then Some (h\<lparr>ht_serve := ServeEnded\<rparr>) else None)"
| "http_step ReceiveErr h = (case ht_serve h of
       Sending e \<Rightarrow> if ht_pc h = AtSelect then Some (h\<lparr>ht_serve := ServeEnded, ht_pc := InWait (Err e)\<rparr>) else None
     | _ \<Rightarrow> None)"
| "http_step SelectDone h = (if ht_pc h = AtSelect \<and> ht_ctx h then Some (h\<lparr>ht_pc := InShutdown\<rparr>) else None)"
| "http_step ShutdownBegins h =
     (if ht_pc h = InShutdown \<and> \<not> ht_shutdown h then Some (h\<lparr>ht_shutdown := True\<rparr>) else None)"
| "http_step (ShutdownReturns err) h =
     (if ht_pc h = InShutdown \<and> ht_shutdown h \<and> ht_conns h = 0
      then Some (h\<lparr>ht_pc := InWait (case err of None \<Rightarrow> Ok () | Some e \<Rightarrow> Err (Errorf_v ''shutdown'' e))\<rparr>) else None)"
| "http_step WaitReturns h = (case ht_pc h of
       InWait r \<Rightarrow> if ht_serve h = ServeEnded then Some (h\<lparr>ht_pc := Returned r\<rparr>) else None
     | _ \<Rightarrow> None)"

fun http_run :: "http_event list \<Rightarrow> http \<Rightarrow> http option" where
  "http_run [] h = Some h"
| "http_run (e # es) h = (case http_step e h of None \<Rightarrow> None | Some h' \<Rightarrow> http_run es h')"

fun isProgram :: "http_event \<Rightarrow> bool" where
  "isProgram CtxDone = False"
| "isProgram (ServeFails e) = False"
| "isProgram ConnActive = False"
| "isProgram ConnEnds = False"
| "isProgram _ = True"

section \<open>Listeners\<close>

type_synonym 'w callback = "goerr \<Rightarrow> 'w \<Rightarrow> 'w"

record 'w listener =
  OnEngineHTTPServeErrCb :: "'w callback option"
  OnEngineWebsocketServeErrCb :: "'w callback option"
  OnCometServeErrCb :: "'w callback option"
  OnPrometheusServeErrCb :: "'w callback option"

definition callOptional :: "'w callback option \<Rightarrow> 'w callback" where
  "callOptional cb err w = (case cb of None \<Rightarrow> w | Some f \<Rightarrow> f err w)"

definition OnEngineHTTPServeErr :: "'w listener \<Rightarrow> 'w callback" where
  "OnEngineHTTPServeErr l = callOptional (OnEngineHTTPServeErrCb l)"
definition OnEngineWebsocketServeErr :: "'w listener \<Rightarrow> 'w callback" where
  "OnEngineWebsocketServeErr l = callOptional (OnEngineWebsocketServeErrCb l)"
definition OnCometServeErr :: "'w listener \<Rightarrow> 'w callback" where
  "OnCometServeErr l = callOptional (OnCometServeErrCb l)"
definition OnPrometheusServeErr :: "'w listener \<Rightarrow> 'w callback" where
  "OnPrometheusServeErr l = callOptional (OnPrometheusServeErrCb l)"

record 'w subscription_listener =
  OnSubscriptionWriteErrCb :: "'w callback option"
  OnSubscriptionCanceledCb :: "'w callback option"

definition OnSubscriptionWriteErr :: "'w subscription_listener \<Rightarrow> 'w callback" where
  "OnSubscriptionWriteErr l = callOptional (OnSubscriptionWriteErrCb l)"
definition OnSubscriptionCanceled :: "'w subscription_listener \<Rightarrow> 'w callback" where
  "OnSubscriptionCanceled l = callOptional (OnSubscriptionCanceledCb l)"

text \<open>
  The goroutines a node starts for its servers: run the server and tell the listener about an
  error. \<open>run\<close> is the outcome of \<^verbatim>\<open>httpService.Run\<close>.
\<close>

definition serveAndReport :: "('w callback) \<Rightarrow> string \<Rightarrow> unit res \<Rightarrow> 'w \<Rightarrow> 'w" where
  "serveAndReport report msg run w = (case run of Err e \<Rightarrow> report (Errorf_v msg e) w | _ \<Rightarrow> w)"

section \<open>Invariant\<close>

text \<open>The states a server reaches from its start.\<close>

definition http_reach :: "http \<Rightarrow> bool" where
  "http_reach h \<longleftrightarrow> (\<exists>es. http_run es http_init = Some h)"

definition http_inv :: "http \<Rightarrow> bool" where
  "http_inv h \<longleftrightarrow> (case ht_pc h of
       AtSelect \<Rightarrow> \<not> ht_shutdown h
     | InShutdown \<Rightarrow> ht_ctx h
     | InWait r \<Rightarrow> (ht_shutdown h \<and> ht_ctx h) \<or> (ht_serve h = ServeEnded \<and> (\<exists>e. r = Err e))
     | Returned r \<Rightarrow> ht_serve h = ServeEnded \<and> ((ht_shutdown h \<and> ht_ctx h) \<or> (\<exists>e. r = Err e)))"

lemma http_inv_step: "http_step e h = Some h' \<Longrightarrow> http_inv h \<Longrightarrow> http_inv h'"
  by (cases e) (auto simp: http_inv_def split: if_splits serve_pc.splits run_pc.splits)

lemma http_inv_run: "http_run es h = Some h' \<Longrightarrow> http_inv h \<Longrightarrow> http_inv h'"
  by (induction es arbitrary: h) (auto split: option.splits dest: http_inv_step)

lemma http_reach_inv: "http_reach h \<Longrightarrow> http_inv h"
  unfolding http_reach_def by (auto dest!: http_inv_run simp: http_init_def http_inv_def)

section \<open>How a server ends\<close>

text \<open>The error of a failed \<^verbatim>\<open>Serve\<close> that nobody will receive any more.\<close>

definition abandoned :: "http \<Rightarrow> bool" where
  "abandoned h \<longleftrightarrow> (\<exists>e. ht_serve h = Sending e) \<and> ht_pc h \<noteq> AtSelect"

definition hasReturned :: "http \<Rightarrow> bool" where
  "hasReturned h \<longleftrightarrow> (\<exists>r. ht_pc h = Returned r)"

lemma abandoned_step: "http_step e h = Some h' \<Longrightarrow> abandoned h \<Longrightarrow> abandoned h'"
  by (cases e) (auto simp: abandoned_def split: if_splits serve_pc.splits run_pc.splits)

lemma abandoned_forever:
  "http_run es h = Some h' \<Longrightarrow> http_inv h \<Longrightarrow> abandoned h \<Longrightarrow> \<not> hasReturned h'"
proof (induction es arbitrary: h)
  case Nil
  then show ?case by (auto simp: abandoned_def hasReturned_def http_inv_def)
next
  case (Cons e es)
  then show ?case by (auto split: option.splits dest: http_inv_step abandoned_step)
qed

text \<open>What is left to do before \<^verbatim>\<open>Run\<close> returns.\<close>

definition http_left :: "http \<Rightarrow> nat" where
  "http_left h = (case ht_pc h of AtSelect \<Rightarrow> 4 | InShutdown \<Rightarrow> if ht_shutdown h then 2 else 3 | InWait r \<Rightarrow> 1 | Returned r \<Rightarrow> 0) +
     (if ht_serve h = ServeEnded then 0 else 1)"

lemma http_left_step: "http_step e h = Some h' \<Longrightarrow> isProgram e \<Longrightarrow> http_left h' < http_left h"
  by (cases e) (auto simp: http_left_def split: if_splits serve_pc.splits run_pc.splits)

lemma program_bounded: "http_run es h = Some h' \<Longrightarrow> list_all isProgram es \<Longrightarrow> length es + http_left h' \<le> http_left h"
  by (induction es arbitrary: h) (fastforce split: option.splits dest: http_left_step)+

lemma serving_step:
  "http_step e h = Some h' \<Longrightarrow> isProgram e \<Longrightarrow> \<forall>x. ht_serve h \<noteq> Sending x \<Longrightarrow> (\<forall>x. ht_serve h' \<noteq> Sending x) \<and> ht_ctx h' = ht_ctx h \<and> ht_conns h' = ht_conns h"
  by (cases e) (auto split: if_splits serve_pc.splits run_pc.splits)

lemma serving_run:
  "http_run es h = Some h' \<Longrightarrow> list_all isProgram es \<Longrightarrow> \<forall>x. ht_serve h \<noteq> Sending x \<Longrightarrow>
   (\<forall>x. ht_serve h' \<noteq> Sending x) \<and> ht_ctx h' = ht_ctx h \<and> ht_conns h' = ht_conns h"
proof (induction es arbitrary: h)
  case (Cons e es)
  then show ?case by (auto split: option.splits) (metis serving_step)+
qed simp

text \<open>
  A server that is not sending and whose context has ended can always go on, unless it is
  in \<^verbatim>\<open>Shutdown\<close> with an active connection; there it stays until one ends.
\<close>

lemma waiting_for_connections:
  "http_run es h = Some h' \<Longrightarrow> ConnEnds \<notin> set es \<Longrightarrow> ht_pc h = InShutdown \<Longrightarrow> 0 < ht_conns h \<Longrightarrow> ht_pc h' = InShutdown"
proof (induction es arbitrary: h)
  case (Cons e es)
  then obtain h1 where h1: "http_step e h = Some h1" "http_run es h1 = Some h'" by (auto split: option.splits)
  with Cons.prems have "ht_pc h1 = InShutdown" "0 < ht_conns h1"
    by (cases e; auto split: if_splits serve_pc.splits)+
  with Cons.IH [OF h1(2)] Cons.prems(2) show ?case by simp
qed simp

lemma serving_progress:
  assumes "http_inv h" and "ht_ctx h" and "\<forall>x. ht_serve h \<noteq> Sending x" and "\<not> hasReturned h"
    and "\<not> (ht_pc h = InShutdown \<and> 0 < ht_conns h)"
  shows "\<exists>e h'. isProgram e \<and> http_step e h = Some h'"
proof (cases "ht_pc h")
  case AtSelect
  then show ?thesis using assms(2) by (intro exI [of _ SelectDone]) simp
next
  case InShutdown
  show ?thesis
  proof (cases "ht_shutdown h")
    case True
    then show ?thesis using InShutdown assms(5) by (intro exI [of _ "ShutdownReturns None"]) simp
  next
    case False
    then show ?thesis using InShutdown by (intro exI [of _ ShutdownBegins]) simp
  qed
next
  case (InWait r)
  show ?thesis
  proof (cases "ht_serve h")
    case InServe
    then have "ht_shutdown h" using assms(1) InWait by (auto simp: http_inv_def)
    then show ?thesis using InServe by (intro exI [of _ ServeCloses]) simp
  next
    case (Sending x)
    then show ?thesis using assms(3) by blast
  next
    case ServeEnded
    then show ?thesis using InWait by (intro exI [of _ WaitReturns]) simp
  qed
next
  case (Returned r)
  then show ?thesis using assms(4) by (simp add: hasReturned_def)
qed

text \<open>
  C35: a server ends with its context and its connections, unless its failure goes unheard. In
  every state a server reaches with its context cancelled: while \<^verbatim>\<open>Serve\<close> has not failed, every
  schedule of the program's own steps is at most five long and, when it cannot go on, either
  \<^verbatim>\<open>Run\<close> has returned and the goroutine has ended, or \<^verbatim>\<open>Run\<close> waits in \<^verbatim>\<open>Shutdown\<close> for an active
  connection, which it does until a connection ends, however long that takes; when \<^verbatim>\<open>Serve\<close> has
  failed and \<^verbatim>\<open>Run\<close> is still at its \<^verbatim>\<open>select\<close>, one choice returns the failure and the other leads
  to a state from which \<^verbatim>\<open>Run\<close> never returns; and when it has left the \<^verbatim>\<open>select\<close>, no schedule makes
  it return.
\<close>

theorem http_service_ends_or_hangs:
  assumes reach: "http_reach h" and ctx: "ht_ctx h"
  shows "case ht_serve h of
      Sending e \<Rightarrow> if ht_pc h = AtSelect
        then (\<exists>h'. http_run [ReceiveErr, WaitReturns] h = Some h' \<and> ht_pc h' = Returned (Err e)) \<and>
             (\<exists>h'. http_run [SelectDone] h = Some h' \<and> (\<forall>es h''. http_run es h' = Some h'' \<longrightarrow> \<not> hasReturned h''))
        else \<forall>es h'. http_run es h = Some h' \<longrightarrow> \<not> hasReturned h'
    | _ \<Rightarrow> (\<forall>es h'. list_all isProgram es \<and> http_run es h = Some h' \<longrightarrow> length es \<le> 5 \<and>
        ((\<forall>e. isProgram e \<longrightarrow> http_step e h' = None) \<longrightarrow>
          (if ht_pc h' = InShutdown then 0 < ht_conns h else hasReturned h' \<and> ht_serve h' = ServeEnded))) \<and>
        (ht_pc h = InShutdown \<and> 0 < ht_conns h \<longrightarrow>
          (\<forall>es h'. ConnEnds \<notin> set es \<and> http_run es h = Some h' \<longrightarrow> \<not> hasReturned h'))"
proof -
  note inv = http_reach_inv [OF reach]
  have ends: "length es \<le> 5 \<and> ((\<forall>e. isProgram e \<longrightarrow> http_step e h' = None) \<longrightarrow>
      (if ht_pc h' = InShutdown then 0 < ht_conns h else hasReturned h' \<and> ht_serve h' = ServeEnded))"
    if ns: "\<forall>x. ht_serve h \<noteq> Sending x" and es: "list_all isProgram es" "http_run es h = Some h'" for es h'
  proof -
    have "http_left h \<le> 5" by (simp add: http_left_def split: run_pc.splits)
    then have "length es \<le> 5" using program_bounded [OF es(2,1)] by simp
    moreover have inv': "http_inv h'" by (rule http_inv_run [OF es(2) inv])
    moreover have "hasReturned h' \<or> ht_pc h' = InShutdown \<and> 0 < ht_conns h" if "\<forall>e. isProgram e \<longrightarrow> http_step e h' = None"
      using serving_progress [OF inv'] serving_run [OF es(2,1) ns] ctx that by fastforce
    moreover have "ht_serve h' = ServeEnded" "ht_pc h' \<noteq> InShutdown" if "hasReturned h'"
      using that inv' by (auto simp: hasReturned_def http_inv_def)
    ultimately show ?thesis by auto
  qed
  have waits: "\<not> hasReturned h'" if "ht_pc h = InShutdown" "0 < ht_conns h" "ConnEnds \<notin> set es" "http_run es h = Some h'" for es h'
    using waiting_for_connections [OF that(4,3,1,2)] by (simp add: hasReturned_def)
  show ?thesis
  proof (cases "ht_serve h")
    case (Sending e)
    have left: "\<not> hasReturned h''" if "ht_pc h = AtSelect" "http_run es (h\<lparr>ht_pc := InShutdown\<rparr>) = Some h''" for es h''
      using that(2) by (rule abandoned_forever) (use Sending ctx in \<open>simp_all add: http_inv_def abandoned_def\<close>)
    show ?thesis
      using Sending ctx left abandoned_forever [OF _ inv] by (auto simp: abandoned_def)
  qed (use ends waits in auto)
qed

theorem http_service_ends_or_hangs_witness:
  "\<exists>h h'. http_run [ServeFails (External ''accept''), CtxDone] http_init = Some h \<and> http_run [SelectDone] h = Some h' \<and>
     (\<forall>es h''. http_run es h' = Some h'' \<longrightarrow> \<not> hasReturned h'')"
proof -
  let ?h = "http_init\<lparr>ht_serve := Sending (Errorf_v ''serve'' (External ''accept'')), ht_ctx := True\<rparr>"
  have run: "http_run [ServeFails (External ''accept''), CtxDone] http_init = Some ?h"
    by (simp add: http_init_def ErrServerClosed_def)
  then have "http_reach ?h" unfolding http_reach_def by blast
  moreover have "ht_ctx ?h" by simp
  ultimately have "\<exists>h'. http_run [SelectDone] ?h = Some h' \<and> (\<forall>es h''. http_run es h' = Some h'' \<longrightarrow> \<not> hasReturned h'')"
    using http_service_ends_or_hangs [of ?h] by (simp add: http_init_def)
  then show ?thesis using run by blast
qed

end
