(* ===== verification/Metrics.thy ===== *)
theory Metrics
  imports Prelude
begin

text \<open>
  RPC metrics (\<^verbatim>\<open>metrics/rpc_metrics.go\<close>, \<^verbatim>\<open>engine/metrics.go\<close>, \<^verbatim>\<open>eth/metrics.go\<close>): histograms of
  method calls in prometheus's default registry, which panics on a name registered twice, and
  the variant that records nothing. The registry is the list of histograms with what each
  observed; times are in microseconds.
\<close>

record histogram =
  hi_Namespace :: string
  hi_Subsystem :: string
  hi_Name :: string
  hi_Help :: string
  hi_Buckets :: "nat list"
  hi_Observed :: "(string \<times> int) list"

type_synonym registry = "histogram list"

definition fqName :: "histogram \<Rightarrow> string \<times> string \<times> string" where
  "fqName h = (hi_Namespace h, hi_Subsystem h, hi_Name h)"

datatype metrics = NoopMetrics | RPCMetrics "string \<times> string \<times> string"

definition NewRPCMetrics :: "string \<Rightarrow> string \<Rightarrow> string \<Rightarrow> nat list \<Rightarrow> (registry, metrics) op" where
  "NewRPCMetrics namespace subsystem info buckets reg =
     (let h = \<lparr>hi_Namespace = namespace, hi_Subsystem = subsystem, hi_Name = ''method_call'', hi_Help = info,
        hi_Buckets = buckets, hi_Observed = []\<rparr>
      in if fqName h \<in> fqName ` set reg then (Panic (External ''duplicate metrics collector registration attempted''), reg)
         else (Ok (RPCMetrics (fqName h)), reg @ [h]))"

definition RPCMethodDurationBucketsMicroseconds :: "nat list" where
  "RPCMethodDurationBucketsMicroseconds = [1, 10, 50, 100, 500, 1000]"

definition engine_NewMetrics :: "string \<Rightarrow> (registry, metrics) op" where
  "engine_NewMetrics namespace =
     NewRPCMetrics namespace ''engine'' ''Duration of each engine RPC method call in microseconds''
       RPCMethodDurationBucketsMicroseconds"

definition eth_NewMetrics :: "string \<Rightarrow> (registry, metrics) op" where
  "eth_NewMetrics namespace =
     NewRPCMetrics namespace ''eth'' ''Duration of each eth RPC method call in microseconds''
       RPCMethodDurationBucketsMicroseconds"

text \<open>\<open>since\<close> is the time since the start of the call, in microseconds.\<close>

fun RecordRPCMethodCall :: "metrics \<Rightarrow> string \<Rightarrow> int \<Rightarrow> registry \<Rightarrow> registry" where
  "RecordRPCMethodCall NoopMetrics m since reg = reg"
| "RecordRPCMethodCall (RPCMetrics n) m since reg =
     map (\<lambda>h. if fqName h = n then h\<lparr>hi_Observed := hi_Observed h @ [(m, since)]\<rparr> else h) reg"

section \<open>One histogram per name\<close>

lemma NewRPCMetrics_distinct:
  "distinct (map fqName reg) \<Longrightarrow> distinct (map fqName (snd (NewRPCMetrics ns sub info bs reg)))"
  by (simp add: NewRPCMetrics_def Let_def)

lemma fqName_Observed [simp]: "fqName (h\<lparr>hi_Observed := x\<rparr>) = fqName h"
  by (simp add: fqName_def)

lemma Record_names: "map fqName (RecordRPCMethodCall m method since reg) = map fqName reg"
  by (cases m) (simp_all add: comp_def)

end
