(* ===== verification/Process.thy ===== *)
theory Process
  imports NodeServers Metrics
begin

text \<open>
  What a running process holds: resources it opened, goroutines, an error group and the
  environment that closes it (\<^verbatim>\<open>environment/environment.go\<close>). The operating system and the
  packages that own the resources are parameters: whether opening and closing each of them
  succeeds. The clean-up contract that the node, the devnet and the start command share is
  proved here once: a resource whose closing is deferred as soon as it is open is closed by
  \<^verbatim>\<open>Close\<close>, whatever happens in between.
\<close>

section \<open>Resources\<close>

text \<open>
  Databases carry the type of the backend they are opened with (\<^verbatim>\<open>memdb\<close> is in memory), listeners
  and clients the address.
\<close>

datatype resource =
    AppDB string | BlockDB string | TxDB string | MempoolDB string | RawDB string | TrieDB | EventBus
  | CometListener string | EngineListener string | PrometheusListener string
  | EngineClient string | GrpcClient string
  | Beacon | GethNode | OpNode | Proposer | Batcher

record os =
  os_Open :: "resource \<Rightarrow> goerr option"
  os_Close :: "resource \<Rightarrow> goerr option"

text \<open>
  The tasks of the error group (\<^verbatim>\<open>errgroup.Group\<close>): waiting for a signal, the gRPC and API
  servers, and what a post-setup hook starts.
\<close>

datatype group_task = SignalTask | GrpcTask | ApiTask | PostTask

text \<open>
  \<open>w_open\<close> are the resources that were opened and not closed since (no code opens one twice);
  \<open>w_subscribers\<close> the goroutines that push events to subscribers; \<open>w_group\<close> the tasks of the
  error group that still run and \<open>w_groupErr\<close> the first error of those that have ended;
  \<open>w_metrics\<close> prometheus's registry; \<open>w_services\<close> what was registered with the application's router.
\<close>

record 'n world =
  w_node :: 'n
  w_open :: "resource list"
  w_subscribers :: "goroutine list"
  w_group :: "group_task list"
  w_groupErr :: "goerr option"
  w_metrics :: registry
  w_services :: "string list"

record 'n process =
  p_world :: "'n world"
  p_env :: "'n world Env"

definition nilOr :: "goerr option \<Rightarrow> unit res" where
  "nilOr e = (case e of None \<Rightarrow> Ok () | Some err \<Rightarrow> Err err)"

section \<open>Steps of a process\<close>

definition onNode :: "('n, 'x) op \<Rightarrow> ('n process, 'x) op" where
  "onNode f p = (case f (w_node (p_world p)) of (r, n) \<Rightarrow> (r, p\<lparr>p_world := (p_world p)\<lparr>w_node := n\<rparr>\<rparr>))"

definition onMetrics :: "(registry, 'x) op \<Rightarrow> ('n process, 'x) op" where
  "onMetrics f p = (case f (w_metrics (p_world p)) of (r, m) \<Rightarrow> (r, p\<lparr>p_world := (p_world p)\<lparr>w_metrics := m\<rparr>\<rparr>))"

definition acquire :: "os \<Rightarrow> resource \<Rightarrow> ('n process, unit) op" where
  "acquire S r p = (case os_Open S r of
       Some e \<Rightarrow> (Err e, p)
     | None \<Rightarrow> (Ok (), p\<lparr>p_world := (p_world p)\<lparr>w_open := r # w_open (p_world p)\<rparr>\<rparr>))"

text \<open>For a constructor that cannot fail.\<close>

definition acquireAlways :: "resource \<Rightarrow> ('n process, unit) op" where
  "acquireAlways r p = (Ok (), p\<lparr>p_world := (p_world p)\<lparr>w_open := r # w_open (p_world p)\<rparr>\<rparr>)"

definition registerServices :: "string list \<Rightarrow> ('n process, unit) op" where
  "registerServices names p = (Ok (), p\<lparr>p_world := (p_world p)\<lparr>w_services := w_services (p_world p) @ names\<rparr>\<rparr>)"

definition closeResource :: "os \<Rightarrow> resource \<Rightarrow> 'n world cleanup" where
  "closeResource S r w = Some (nilOr (os_Close S r), w\<lparr>w_open := removeAll r (w_open w)\<rparr>)"

definition env_DeferErr :: "string \<Rightarrow> 'n world cleanup \<Rightarrow> ('n process, unit) op" where
  "env_DeferErr msg fn p = (Ok (), p\<lparr>p_env := DeferErr msg fn (p_env p)\<rparr>)"

definition env_Defer :: "'n world cleanup \<Rightarrow> ('n process, unit) op" where
  "env_Defer fn p = (Ok (), p\<lparr>p_env := Defer fn (p_env p)\<rparr>)"

definition env_Go :: "('n process, unit) op" where
  "env_Go p = (Ok (), p\<lparr>p_env := Env_Go (p_env p)\<rparr>)"

definition waitSubscribers :: "'n world cleanup" where
  "waitSubscribers w = map_option (\<lambda>r. (r, w)) (wg_Wait (w_subscribers w))"

definition group_Go :: "group_task \<Rightarrow> ('n process, unit) op" where
  "group_Go t p = (Ok (), p\<lparr>p_world := (p_world p)\<lparr>w_group := w_group (p_world p) @ [t]\<rparr>\<rparr>)"

definition group_Wait :: "'n world cleanup" where
  "group_Wait w = (if w_group w = [] then Some (nilOr (w_groupErr w), w) else None)"

definition env_Close :: "('n process, goerr option) pop" where
  "env_Close p = map_option (\<lambda>(r, w). (r, p\<lparr>p_world := w\<rparr>)) (Env_Close (p_env p) (p_world p))"

section \<open>Owned resources\<close>

text \<open>
  A deferred function is well behaved when it opens nothing, starts nothing and never panics
  unless a subscriber did. \<open>covers f r\<close>: after it ran, \<open>r\<close> is closed.
\<close>

definition opens_nothing :: "'n world cleanup \<Rightarrow> bool" where
  "opens_nothing f \<longleftrightarrow> (\<forall>w r w'. f w = Some (r, w') \<longrightarrow>
     set (w_open w') \<subseteq> set (w_open w) \<and> w_subscribers w' = w_subscribers w \<and> w_group w' = w_group w)"

definition covers :: "'n world cleanup \<Rightarrow> resource \<Rightarrow> bool" where
  "covers f r \<longleftrightarrow> (\<forall>w x w'. f w = Some (x, w') \<longrightarrow> r \<notin> set (w_open w'))"

text \<open>
  What no clean-up is registered for: listeners, which the servers' \<^verbatim>\<open>Shutdown\<close> closes once they
  serve, and clients that are never closed.
\<close>

fun isUnowned :: "resource \<Rightarrow> bool" where
  "isUnowned (CometListener a) = True"
| "isUnowned (EngineListener a) = True"
| "isUnowned (PrometheusListener a) = True"
| "isUnowned (EngineClient a) = True"
| "isUnowned (GrpcClient a) = True"
| "isUnowned _ = False"

definition unowned :: "resource set" where "unowned = Collect isUnowned"

lemma unowned_iff [simp]: "r \<in> unowned \<longleftrightarrow> isUnowned r"
  by (simp add: unowned_def)

text \<open>The functions return once nothing is left to wait for.\<close>

definition returns_idle :: "'n world cleanup \<Rightarrow> bool" where
  "returns_idle f \<longleftrightarrow> (\<forall>w. w_group w = [] \<and> wg_Wait (w_subscribers w) = Some (Ok ()) \<longrightarrow>
     (\<exists>r w'. f w = Some (r, w') \<and> (\<forall>x. r \<noteq> Panic x)))"

text \<open>
  A process is owned when its clean-up is well behaved, covers every resource that has to be
  closed, and waits for the error group once that waits for a signal.
\<close>

definition owned :: "'n process \<Rightarrow> bool" where
  "owned p \<longleftrightarrow>
     (\<forall>d \<in> set (env_deferFns (p_env p)). opens_nothing (df_fn d) \<and> returns_idle (df_fn d)) \<and>
     (\<forall>r \<in> set (w_open (p_world p)) - unowned. \<exists>d \<in> set (env_deferFns (p_env p)). covers (df_fn d) r) \<and>
     (SignalTask \<in> set (w_group (p_world p)) \<longrightarrow> (\<exists>d \<in> set (env_deferFns (p_env p)). df_fn d = group_Wait))"

section \<open>The clean-up functions of the code\<close>

named_theorems cleanup_intros \<open>deferred functions that open nothing and return\<close>

lemma closeResource_good [cleanup_intros]: "opens_nothing (closeResource S r)" "returns_idle (closeResource S r)"
  by (auto simp: opens_nothing_def returns_idle_def closeResource_def nilOr_def split: option.splits)

lemma closeResource_covers: "covers (closeResource S r) r"
  by (simp add: covers_def closeResource_def)

lemma group_Wait_good [cleanup_intros]: "opens_nothing group_Wait" "returns_idle group_Wait"
  by (auto simp: opens_nothing_def returns_idle_def group_Wait_def nilOr_def split: option.splits if_splits)

lemma waitSubscribers_good [cleanup_intros]: "opens_nothing waitSubscribers" "returns_idle waitSubscribers"
  by (auto simp: opens_nothing_def returns_idle_def waitSubscribers_def)

lemma Defer_fn: "env_deferFns (Defer fn e) = env_deferFns e @
    [\<lparr>df_errMsg = '''', df_fn = (\<lambda>s. case fn s of Some (Err _, s') \<Rightarrow> Some (Ok (), s') | r \<Rightarrow> r)\<rparr>]"
  by (simp add: Defer_def DeferErr_def)

lemma deferred_good [cleanup_intros]:
  assumes "opens_nothing fn" "returns_idle fn"
  shows "opens_nothing (\<lambda>s. case fn s of Some (Err e, s') \<Rightarrow> Some (Ok (), s') | r \<Rightarrow> r)"
    and "returns_idle (\<lambda>s. case fn s of Some (Err e, s') \<Rightarrow> Some (Ok (), s') | r \<Rightarrow> r)"
proof -
  show "opens_nothing (\<lambda>s. case fn s of Some (Err e, s') \<Rightarrow> Some (Ok (), s') | r \<Rightarrow> r)"
    using assms(1) by (auto simp: opens_nothing_def split: option.splits prod.splits res.splits)
  show "returns_idle (\<lambda>s. case fn s of Some (Err e, s') \<Rightarrow> Some (Ok (), s') | r \<Rightarrow> r)"
    using assms(2) unfolding returns_idle_def
    by (intro allI impI) (fastforce split: option.splits prod.splits res.splits)
qed

section \<open>Steps keep what is owned\<close>

text \<open>\<open>keeps m\<close>: however \<open>m\<close> ends, what is owned before is owned after.\<close>

definition keeps :: "('n process, 'x) op \<Rightarrow> bool" where
  "keeps m \<longleftrightarrow> (\<forall>p. owned p \<longrightarrow> owned (snd (m p)))"

named_theorems keeps_intros \<open>steps that keep resources owned\<close>

lemma keepsD: "keeps m \<Longrightarrow> owned p \<Longrightarrow> m p = (r, p') \<Longrightarrow> owned p'"
  by (metis keeps_def snd_conv)

lemma keeps_scheck [keeps_intros]:
  assumes "keeps m" and "\<And>x. keeps (k x)"
  shows "keeps (scheck m w k)"
  using assms unfolding keeps_def by (fastforce simp: scheck_def split: prod.splits res.splits)

lemma keeps_pure [keeps_intros]: "keeps (slift f)" "keeps (sret x)" "keeps (sfail e)"
  by (simp_all add: keeps_def)

lemma keeps_if [keeps_intros]: "(b \<Longrightarrow> keeps m) \<Longrightarrow> (\<not> b \<Longrightarrow> keeps m') \<Longrightarrow> keeps (if b then m else m')"
  by simp

lemma keeps_option [keeps_intros]: "keeps m \<Longrightarrow> (\<And>x. keeps (k x)) \<Longrightarrow> keeps (case v of None \<Rightarrow> m | Some x \<Rightarrow> k x)"
  by (cases v) simp_all

lemma keeps_prod [keeps_intros]: "(\<And>a b. keeps (k a b)) \<Longrightarrow> keeps (case v of (a, b) \<Rightarrow> k a b)"
  by (cases v) simp

lemma keeps_Let [keeps_intros]: "(\<And>x. keeps (k x)) \<Longrightarrow> keeps (let x = v in k x)"
  by (simp add: Let_def)

lemma keeps_onNode [keeps_intros]: "keeps (onNode f)" "keeps (onMetrics g)"
  by (auto simp: keeps_def onNode_def onMetrics_def owned_def split: prod.splits)

lemma keeps_env_Go [keeps_intros]: "keeps env_Go"
  by (simp add: keeps_def env_Go_def Env_Go_def owned_def)

lemma keeps_group_Go [keeps_intros]: "t \<noteq> SignalTask \<Longrightarrow> keeps (group_Go t)"
  by (simp add: keeps_def group_Go_def owned_def)

lemma keeps_registerServices [keeps_intros]: "keeps (registerServices names)"
  by (simp add: keeps_def registerServices_def owned_def)

lemma keeps_acquire_unowned [keeps_intros]: "r \<in> unowned \<Longrightarrow> keeps (acquire S r)"
  by (auto simp: keeps_def acquire_def owned_def split: option.splits)

lemma keeps_DeferErr [keeps_intros]: "opens_nothing fn \<Longrightarrow> returns_idle fn \<Longrightarrow> keeps (env_DeferErr msg fn)"
  by (fastforce simp: keeps_def env_DeferErr_def DeferErr_def owned_def)

lemma keeps_Defer [keeps_intros]: "opens_nothing fn \<Longrightarrow> returns_idle fn \<Longrightarrow> keeps (env_Defer fn)"
  using deferred_good [of fn] by (fastforce simp: keeps_def env_Defer_def Defer_fn owned_def)

text \<open>Opening a resource and deferring its closing with nothing but pure steps in between.\<close>

definition own :: "os \<Rightarrow> resource \<Rightarrow> (goerr \<Rightarrow> goerr) \<Rightarrow> string \<Rightarrow> ('n process, unit) op" where
  "own S r w msg = scheck (acquire S r) w (\<lambda>_. env_DeferErr msg (closeResource S r))"

lemma keeps_own [keeps_intros]: "keeps (own S r w msg)"
  unfolding keeps_def
proof (intro allI impI)
  fix p assume "owned p"
  then show "owned (snd (own S r w msg p))"
    using closeResource_covers [of S r] closeResource_good [of S r]
    by (auto simp: own_def scheck_def acquire_def env_DeferErr_def DeferErr_def owned_def split: option.splits)
qed

lemma keeps_own_always [keeps_intros]:
  "keeps (scheck (acquireAlways r) w (\<lambda>_. env_DeferErr msg (closeResource S r)))"
  unfolding keeps_def
proof (intro allI impI)
  fix p assume "owned p"
  then show "owned (snd (scheck (acquireAlways r) w (\<lambda>_. env_DeferErr msg (closeResource S r)) p))"
    using closeResource_covers [of S r] closeResource_good [of S r]
    by (auto simp: scheck_def acquireAlways_def env_DeferErr_def DeferErr_def owned_def)
qed

text \<open>The same with \<^verbatim>\<open>Defer\<close>, which ignores the error of closing.\<close>

definition ownQuietly :: "os \<Rightarrow> resource \<Rightarrow> (goerr \<Rightarrow> goerr) \<Rightarrow> ('n process, unit) op" where
  "ownQuietly S r w = scheck (acquire S r) w (\<lambda>_. env_Defer (closeResource S r))"

lemma quiet_covers: "covers fn r \<Longrightarrow> covers (\<lambda>s. case fn s of Some (Err e, s') \<Rightarrow> Some (Ok (), s') | x \<Rightarrow> x) r"
  by (auto simp: covers_def split: option.splits prod.splits res.splits)

lemma keeps_ownQuietly [keeps_intros]: "keeps (ownQuietly S r w)"
  unfolding keeps_def
proof (intro allI impI)
  fix p assume "owned p"
  then show "owned (snd (ownQuietly S r w p))"
    using quiet_covers [OF closeResource_covers, of S r] deferred_good [OF closeResource_good, of S r]
    by (auto simp: ownQuietly_def scheck_def acquire_def env_Defer_def Defer_fn owned_def split: option.splits)
qed

section \<open>Closing\<close>

lemma runAll_closes:
  assumes "\<forall>d \<in> set ds. opens_nothing (df_fn d) \<and> returns_idle (df_fn d)"
    and "w_group w = []" and "wg_Wait (w_subscribers w) = Some (Ok ())"
  shows "\<exists>es w'. runAll ds w = Some (Ok es, w') \<and> set (w_open w') \<subseteq> set (w_open w) \<and>
    (\<forall>r. (\<exists>d \<in> set ds. covers (df_fn d) r) \<longrightarrow> r \<notin> set (w_open w'))"
  using assms
proof (induction ds arbitrary: w)
  case (Cons d ds)
  obtain x w1 where d: "df_fn d w = Some (x, w1)" "\<forall>e. x \<noteq> Panic e"
    using Cons.prems unfolding returns_idle_def by (metis list.set_intros(1))
  then have w1: "set (w_open w1) \<subseteq> set (w_open w)" "w_subscribers w1 = w_subscribers w" "w_group w1 = w_group w"
    using Cons.prems unfolding opens_nothing_def by (metis list.set_intros(1))+
  then obtain es w' where ih: "runAll ds w1 = Some (Ok es, w')" "set (w_open w') \<subseteq> set (w_open w1)"
    "\<forall>r. (\<exists>d \<in> set ds. covers (df_fn d) r) \<longrightarrow> r \<notin> set (w_open w')"
    using Cons.IH [of w1] Cons.prems by auto
  have here: "covers (df_fn d) r \<Longrightarrow> r \<notin> set (w_open w')" for r using d(1) ih(2) unfolding covers_def by blast
  have "\<exists>es'. runAll (d # ds) w = Some (Ok es', w')" using d ih(1) by (cases x) simp_all
  then show ?case using ih w1 here by fastforce
qed simp

text \<open>
  Once nothing runs any more, closing an owned process returns and leaves open only what is
  not owned.
\<close>

lemma owned_closes:
  assumes "owned p" and "wg_Wait (env_wg (p_env p)) = Some (Ok ())"
    and "w_group (p_world p) = []" and "wg_Wait (w_subscribers (p_world p)) = Some (Ok ())"
  shows "\<exists>err p'. env_Close p = Some (Ok err, p') \<and>
    set (w_open (p_world p')) \<subseteq> set (w_open (p_world p)) \<inter> unowned"
proof -
  let ?ds = "rev (env_deferFns (p_env p))"
  have "\<forall>d \<in> set ?ds. opens_nothing (df_fn d) \<and> returns_idle (df_fn d)" using assms(1) by (simp add: owned_def)
  from runAll_closes [OF this assms(3,4)] obtain es w' where run: "runAll ?ds (p_world p) = Some (Ok es, w')"
    and w': "set (w_open w') \<subseteq> set (w_open (p_world p))"
      "\<forall>r. (\<exists>d \<in> set ?ds. covers (df_fn d) r) \<longrightarrow> r \<notin> set (w_open w')" by blast
  have "set (w_open w') \<subseteq> unowned" using w' assms(1) unfolding owned_def by fastforce
  then show ?thesis using run w'(1) Env_Close_eq [OF assms(2)] by (simp add: env_Close_def)
qed

text \<open>While a goroutine of the environment or a task of the group runs, it does not return.\<close>

lemma closing_waits:
  "Running \<in> set (env_wg (p_env p)) \<Longrightarrow> env_Close p = None"
  by (simp add: env_Close_def Env_Close_def wg_Wait_def)

lemma runAll_blocks:
  assumes "d \<in> set ds" and "\<And>w'. w_group w' = w_group w \<Longrightarrow> df_fn d w' = None"
    and "\<forall>d \<in> set ds. opens_nothing (df_fn d) \<and> returns_idle (df_fn d)"
  shows "\<forall>es w'. runAll ds w \<noteq> Some (Ok es, w')"
  using assms
proof (induction ds arbitrary: w)
  case (Cons a ds)
  show ?case
  proof (cases "df_fn a w")
    case (Some xw)
    obtain x w1 where xw: "xw = (x, w1)" by (cases xw)
    have na: "a \<noteq> d" using Some Cons.prems(2) [of w] by auto
    moreover have "w_group w1 = w_group w" using Cons.prems(3) Some xw unfolding opens_nothing_def by (metis list.set_intros(1))
    ultimately have "\<forall>es w'. runAll ds w1 \<noteq> Some (Ok es, w')" using Cons.IH [of w1] Cons.prems by auto
    then show ?thesis using Some xw by (auto simp: pcheck_def split: res.splits option.splits prod.splits)
  qed simp
qed simp

lemma runAll_not_Err [simp]: "runAll ds w \<noteq> Some (Err e, w')"
proof (induction ds arbitrary: w)
  case (Cons d ds)
  then show ?case by (auto simp: pcheck_def split: option.splits prod.splits res.splits)
qed simp

text \<open>While the error group waits for its signal, closing does not end, unless by a panic.\<close>

lemma closing_blocks:
  assumes "owned p" and "SignalTask \<in> set (w_group (p_world p))" and "env_Close p = Some (r, p')"
  shows "\<exists>e. r = Panic e"
proof -
  let ?ds = "rev (env_deferFns (p_env p))"
  obtain d where d: "d \<in> set ?ds" "df_fn d = group_Wait" using assms unfolding owned_def by auto
  have "\<forall>es w'. runAll ?ds (p_world p) \<noteq> Some (Ok es, w')"
    by (rule runAll_blocks [OF d(1)]) (use assms d(2) in \<open>auto simp: group_Wait_def owned_def\<close>)
  then have blocked: "pcheck (runAll ?ds) pass (\<lambda>es. total (sret (combined es))) (p_world p) = Some (x, w) \<Longrightarrow> \<exists>e. x = Panic e" for x w
    by (auto simp: pcheck_def split: option.splits prod.splits res.splits)
  then show ?thesis
    using assms(3) Env_Close_eq [of "p_env p" "p_world p"]
    by (auto simp: env_Close_def Env_Close_def wg_Wait_def split: option.splits if_splits list.splits res.splits prod.splits)
       (metis blocked)
qed

section \<open>What a step opens\<close>

text \<open>\<open>opens P m\<close>: however \<open>m\<close> ends, it has opened nothing outside \<open>P\<close>.\<close>

definition opens :: "resource set \<Rightarrow> ('n process, 'x) op \<Rightarrow> bool" where
  "opens P m \<longleftrightarrow> (\<forall>p. set (w_open (p_world (snd (m p)))) \<subseteq> set (w_open (p_world p)) \<union> P)"

named_theorems opens_intros \<open>steps that open nothing outside a set\<close>

lemma opens_scheck [opens_intros]:
  assumes "opens P m" and "\<And>x. opens P (k x)"
  shows "opens P (scheck m w k)"
  unfolding opens_def
proof
  fix p
  obtain r p1 where m: "m p = (r, p1)" by (cases "m p")
  then have "set (w_open (p_world p1)) \<subseteq> set (w_open (p_world p)) \<union> P" using assms(1) unfolding opens_def by (metis snd_conv)
  moreover have "set (w_open (p_world (snd (k x p1)))) \<subseteq> set (w_open (p_world p1)) \<union> P" for x
    using assms(2) unfolding opens_def by blast
  ultimately show "set (w_open (p_world (snd (scheck m w k p)))) \<subseteq> set (w_open (p_world p)) \<union> P"
    using m by (cases r) (auto simp: scheck_def)
qed

lemma opens_pure [opens_intros]: "opens P (slift f)" "opens P (sret x)" "opens P (sfail e)"
  by (simp_all add: opens_def)

lemma opens_control [opens_intros]:
  "(b \<Longrightarrow> opens P m) \<Longrightarrow> (\<not> b \<Longrightarrow> opens P m') \<Longrightarrow> opens P (if b then m else m')"
  "opens P m \<Longrightarrow> (\<And>x. opens P (k x)) \<Longrightarrow> opens P (case v of None \<Rightarrow> m | Some x \<Rightarrow> k x)"
  "(\<And>a b. opens P (k2 a b)) \<Longrightarrow> opens P (case ab of (a, b) \<Rightarrow> k2 a b)"
  "(\<And>x. opens P (k3 x)) \<Longrightarrow> opens P (let x = u in k3 x)"
  by (simp_all split: option.splits prod.splits)

lemma opens_steps [opens_intros]:
  "opens P (onNode f)" "opens P (onMetrics g)" "opens P env_Go" "opens P (group_Go t)" "opens P (registerServices ns)"
  "opens P (env_DeferErr msg fn)" "opens P (env_Defer fn)"
  by (auto simp: opens_def onNode_def onMetrics_def env_Go_def group_Go_def registerServices_def env_DeferErr_def env_Defer_def
      split: prod.splits)

lemma opens_acquire [opens_intros]:
  "r \<in> P \<Longrightarrow> opens P (acquire S r)" "r \<in> P \<Longrightarrow> opens P (acquireAlways r)"
  by (auto simp: opens_def acquire_def acquireAlways_def split: option.splits)

lemma opens_own [opens_intros]: "r \<in> P \<Longrightarrow> opens P (own S r w msg)" "r \<in> P \<Longrightarrow> opens P (ownQuietly S r w)"
  unfolding own_def ownQuietly_def by (intro opens_intros; assumption)+

end
