(* ===== verification/NodeStart.thy ===== *)
theory NodeStart
  imports EngineProps
begin

text \<open>
  How a node starts (\<^verbatim>\<open>genesis/genesis.go\<close>, \<^verbatim>\<open>node/node.go\<close>): committing the genesis state
  to the application, the Ethereum state and the block store, and bringing an application
  that is one block ahead of the block store back to it.
\<close>

section \<open>Genesis (genesis.go)\<close>

record 'j genesis =
  g_Time :: u64
  g_ChainID :: u64
  g_AppState :: 'j

record init_request =
  ir_ChainId :: string
  ir_AppStateBytes :: bytes
  ir_Time :: int
  ir_InitialHeight :: int

text \<open>
  The application with the calls only a starting node makes; \<^verbatim>\<open>Info\<close> also answers the height
  of the last block.
\<close>

record 'a start_app = "'a application" +
  app_InitChain :: "init_request \<Rightarrow> ('a, unit) op"
  app_LastBlockHeight :: "('a, int) op"

record ('s, 'a, 'j, 'tx, 'blk, 'es, 'd, 'abi) node_env =
  nd_db :: "'s localdb_env"
  nd_app :: "'a start_app"
  nd_eth :: "('tx, 'blk) ethlib"
  nd_evm :: "('es, 'd, 'abi) evmlib"
  nd_CometHash :: "comet_header \<Rightarrow> bytes"
  nd_EmptyRootHash :: hash
  nd_MarshalJSON :: "'j \<Rightarrow> bytes res"

record ('s, 'a, 'd) node =
  n_blocks :: 's
  n_app :: 'a
  n_eth :: 'd

definition nodeBlocks :: "('s, 'x) op \<Rightarrow> (('s, 'a, 'd) node, 'x) op" where
  "nodeBlocks f n = (case f (n_blocks n) of (r, s) \<Rightarrow> (r, n\<lparr>n_blocks := s\<rparr>))"

definition nodeApp :: "('a, 'x) op \<Rightarrow> (('s, 'a, 'd) node, 'x) op" where
  "nodeApp f n = (case f (n_app n) of (r, s) \<Rightarrow> (r, n\<lparr>n_app := s\<rparr>))"

definition nodeEth :: "('d, 'x) op \<Rightarrow> (('s, 'a, 'd) node, 'x) op" where
  "nodeEth f n = (case f (n_eth n) of (r, s) \<Rightarrow> (r, n\<lparr>n_eth := s\<rparr>))"

definition defaultGasLimit :: u64 where "defaultGasLimit = 30000000"

definition genesisHeader :: "'j genesis \<Rightarrow> header" where
  "genesisHeader g = zero_header\<lparr>h_Height := 1, h_ChainID := g_ChainID g, h_Time := g_Time g,
     h_GasLimit := defaultGasLimit\<rparr>"

text \<open>The Ethereum genesis state: the predeployed contracts on the empty state.\<close>

definition genesisEthState :: "('es, 'd, 'abi) evmlib \<Rightarrow> hash \<Rightarrow> ('d, hash) op" where
  "genesisEthState V emptyRoot =
     scheck (slift (ev_StateNew V emptyRoot)) (Errorf_v ''create ethereum state'') (\<lambda>ethState.
     scheck (ev_Commit V (Predeploy V ethState) 1 True) (Errorf_v ''commit ethereum genesis state'') sret)"

definition Genesis_Commit ::
    "('s, 'a, 'j, 'tx, 'blk, 'es, 'd, 'abi) node_env \<Rightarrow> 'j genesis \<Rightarrow> (('s, 'a, 'd) node, unit) op" where
  "Genesis_Commit N g =
     scheck (slift (\<lambda>_. nd_MarshalJSON N (g_AppState g))) (Errorf_v ''marshal app state'') (\<lambda>appStateBytes.
     scheck (nodeApp (app_InitChain (nd_app N) \<lparr>ir_ChainId = ChainID_String (g_ChainID g),
         ir_AppStateBytes = appStateBytes, ir_Time = sint (g_Time g), ir_InitialHeight = 1\<rparr>))
       (Errorf_v ''init chain'') (\<lambda>_.
     let header = genesisHeader g in
     scheck (nodeApp (app_Info (nd_app N))) (Errorf_v ''info'') (\<lambda>appHash.
     let cometHeader = (Header_ToComet header)\<lparr>ch_AppHash := appHash\<rparr> in
     scheck (nodeApp (app_FinalizeBlock (nd_app N) \<lparr>rq_Txs = [], rq_Hash = nd_CometHash N cometHeader,
         rq_Height = ch_Height cometHeader, rq_Time = ch_Time cometHeader,
         rq_NextValidatorsHash = ch_NextValidatorsHash cometHeader,
         rq_ProposerAddress = ch_ProposerAddress cometHeader\<rparr>)) (Errorf_v ''finalize block'') (\<lambda>_.
     scheck (nodeApp (app_Commit (nd_app N))) (Errorf_v ''commit'') (\<lambda>_.
     scheck (nodeEth (genesisEthState (nd_evm N) (nd_EmptyRootHash N))) pass (\<lambda>ethStateRoot.
     scheck (slift (\<lambda>_. MakeBlock (nd_eth N) (header\<lparr>h_StateRoot := ethStateRoot\<rparr>) (Some [])))
       (Errorf_v ''make block'') (\<lambda>block.
     scheck (nodeBlocks (AppendBlock (nd_db N) block)) (Errorf_v ''append block'') (\<lambda>_.
     let hash = h_Hash (b_Header block) in
     (\<lambda>n. case nodeBlocks (UpdateLabels (nd_db N) hash hash hash) n of
        (Err e, n') \<Rightarrow> (Panic (Errorf_v ''update labels'' e), n')
      | rn \<Rightarrow> rn)))))))))"

section \<open>Starting (node.go)\<close>

text \<open>A store without a height reads as height zero.\<close>

definition storeHeight :: "'s localdb_env \<Rightarrow> 's \<Rightarrow> u64 res" where
  "storeHeight E s = (case DB_Height E s of
       Err e \<Rightarrow> if errors_Is e ErrNotFound then Ok 0 else Err (Errorf_v ''get height'' e)
     | r \<Rightarrow> r)"

definition prepareBlockStoreAndApp ::
    "('s, 'a, 'j, 'tx, 'blk, 'es, 'd, 'abi) node_env \<Rightarrow> 'j genesis \<Rightarrow> (('s, 'a, 'd) node, unit) op" where
  "prepareBlockStoreAndApp N g =
     scheck (nodeBlocks (slift (storeHeight (nd_db N)))) pass (\<lambda>blockStoreHeight.
     scheck (nodeApp (app_LastBlockHeight (nd_app N))) (Errorf_v ''info'') (\<lambda>lastBlockHeight.
     let appHeight = word_of_int lastBlockHeight in
     scheck (if appHeight = blockStoreHeight + 1 then
           scheck (nodeApp (app_RollbackToHeight (nd_app N) blockStoreHeight)) (Errorf_v ''rollback app'') sret
         else if appHeight > blockStoreHeight then sfail (ErrorNew ''app height is too far ahead of block store height'')
         else if appHeight < blockStoreHeight then sfail (ErrorNew ''app height is behind block store height'')
         else sret ()) pass (\<lambda>_.
     if blockStoreHeight = 0 then scheck (Genesis_Commit N g) (Errorf_v ''commit genesis'') sret
     else sret ())))"

section \<open>Lemmas\<close>

lemma node_ops [simp]:
  "nodeBlocks f n = (fst (f (n_blocks n)), n\<lparr>n_blocks := snd (f (n_blocks n))\<rparr>)"
  "nodeApp h n = (fst (h (n_app n)), n\<lparr>n_app := snd (h (n_app n))\<rparr>)"
  "nodeEth e n = (fst (e (n_eth n)), n\<lparr>n_eth := snd (e (n_eth n))\<rparr>)"
  by (simp_all add: nodeBlocks_def nodeApp_def nodeEth_def split: prod.splits)

text \<open>
  The calls of a genesis commit that are not on the block store succeed with this block; each
  is asked only about the one request the commit makes.
\<close>

definition genesis_runs ::
    "('s, 'a, 'j, 'tx, 'blk, 'es, 'd, 'abi) node_env \<Rightarrow> 'j genesis \<Rightarrow> ('s, 'a, 'd) node \<Rightarrow> block \<Rightarrow> bool" where
  "genesis_runs N g n block \<longleftrightarrow>
     (\<exists>bz a1 appHash a2 resp a3 a4 root d.
        nd_MarshalJSON N (g_AppState g) = Ok bz \<and>
        app_InitChain (nd_app N) \<lparr>ir_ChainId = ChainID_String (g_ChainID g), ir_AppStateBytes = bz,
          ir_Time = sint (g_Time g), ir_InitialHeight = 1\<rparr> (n_app n) = (Ok (), a1) \<and>
        app_Info (nd_app N) a1 = (Ok appHash, a2) \<and>
        app_FinalizeBlock (nd_app N) (finalizeRequest (nd_CometHash N)
          ((Header_ToComet (genesisHeader g))\<lparr>ch_AppHash := appHash\<rparr>) None) a2 = (Ok resp, a3) \<and>
        app_Commit (nd_app N) a3 = (Ok (), a4) \<and>
        genesisEthState (nd_evm N) (nd_EmptyRootHash N) (n_eth n) = (Ok root, d) \<and>
        MakeBlock (nd_eth N) ((genesisHeader g)\<lparr>h_StateRoot := root\<rparr>) (Some []) = Ok block)"

lemma genesisHeader_sel [simp]:
  "h_Height (genesisHeader g) = 1" "h_ChainID (genesisHeader g) = g_ChainID g" "h_Time (genesisHeader g) = g_Time g"
  "h_GasLimit (genesisHeader g) = 30000000" "h_ParentHash (genesisHeader g) = 0"
  by (simp_all add: genesisHeader_def defaultGasLimit_def zero_header_def)

lemma MakeBlock_fields:
  assumes "MakeBlock L h (Some txs) = Ok blk"
  shows "b_Txs blk = txs \<and> (\<exists>x. b_Header blk = h\<lparr>h_Hash := x\<rparr>)"
  using assms by (auto simp: MakeBlock_def SetHeader_def elim!: check_OkE)

section \<open>Properties\<close>

text \<open>
  Committing the genesis puts the chain at its first block. On an empty block store, when
  the application and the Ethereum state accept the genesis, the commit succeeds; the
  store then holds exactly one block, at height 1 and without transactions, with the
  genesis chain, time and gas limit; it is the head, and all three labels point to it.
\<close>

theorem genesis_is_the_first_block:
  fixes n :: "('s, 'a, 'd) node"
  assumes rep: "rep (nd_db N) view (n_blocks n) empty_store" and runs: "genesis_runs N g n block"
    and l: "l \<in> {ldb_Unsafe (nd_db N), ldb_Safe (nd_db N), ldb_Finalized (nd_db N)}"
  shows "\<exists>n'. Genesis_Commit N g n = (Ok (), n') \<and>
    BlockByHeight (nd_db N) 1 (n_blocks n') = Ok block \<and> DB_Height (nd_db N) (n_blocks n') = Ok 1 \<and>
    HeadHeader (nd_db N) (n_blocks n') = Ok (b_Header block) \<and>
    HeaderByLabel (nd_db N) l (n_blocks n') = Ok (b_Header block) \<and>
    (\<forall>h. h \<noteq> 1 \<longrightarrow> is_NotFound (HeaderByHeight (nd_db N) h (n_blocks n'))) \<and>
    b_Txs block = [] \<and> h_Height (b_Header block) = 1 \<and> h_ChainID (b_Header block) = g_ChainID g \<and>
    h_Time (b_Header block) = g_Time g \<and> h_GasLimit (b_Header block) = 30000000"
proof -
  let ?E = "nd_db N" and ?x = "h_Hash (b_Header block)"
  obtain root x where blk: "b_Txs block = []" "b_Header block = (genesisHeader g)\<lparr>h_StateRoot := root, h_Hash := x\<rparr>"
    using runs MakeBlock_fields unfolding genesis_runs_def by (metis)
  then have h: "h_Height (b_Header block) = 1" by simp
  let ?a = "a_append (ldb_TxHash ?E) block empty_store"
  obtain s1 where s1: "AppendBlock ?E block (n_blocks n) = (Ok (), s1)" "rep ?E view s1 ?a"
    using AppendBlock_refines [OF rep] by blast
  let ?b = "?a\<lparr>a_label := (a_label ?a)(str (ldb_Unsafe ?E) \<mapsto> ?x, str (ldb_Safe ?E) \<mapsto> ?x, str (ldb_Finalized ?E) \<mapsto> ?x)\<rparr>"
  obtain s2 where s2: "UpdateLabels ?E ?x ?x ?x s1 = (Ok (), s2)" "rep ?E view s2 ?b"
    using ldb.labels_sim [OF s1(2), of ?x ?x ?x] by blast
  have commit: "\<exists>n'. Genesis_Commit N g n = (Ok (), n') \<and> n_blocks n' = s2"
    using runs s1(1) s2(1) unfolding genesis_runs_def
    by (auto simp: Genesis_Commit_def Let_def finalizeRequest_def scheck_def)
  have tables: "a_header ?b = [1 \<mapsto> b_Header block]" "a_heightOf ?b = [?x \<mapsto> 1]" "a_top ?b = Some 1"
    using h by (simp_all add: empty_store_def)
  have byHash: "a_headerByHash ?b ?x = Some (b_Header block)" using tables by (simp add: a_headerByHash_def)
  have rows: "rows ?b 1 (b_Txs block)"
    using rows_append_same [OF rows_empty_store, of block "ldb_TxHash ?E"] h blk(1) by simp
  have "BlockByHeight ?E 1 s2 = Ok block"
    using BlockByHeight_finds [OF s2(2), of 1] h a_txs_rows [OF rows] blk(1) by (simp add: a_txsAt_def)
  moreover have "HeaderByLabel ?E l s2 = Ok (b_Header block)"
  proof -
    have "a_label ?b (str l) = Some ?x" using l by (auto simp: fun_upd_apply)
    then have "Option.bind (a_label ?b (str l)) (a_headerByHash ?b) = Some (b_Header block)" by (simp only: Option.bind.simps byHash)
    then show ?thesis using HeaderByLabel_finds [OF s2(2), of l] by (simp only: finds_simps)
  qed
  moreover have "DB_Height ?E s2 = Ok 1" "HeadHeader ?E s2 = Ok (b_Header block)"
    using DB_Height_finds [OF s2(2)] HeadHeader_finds [OF s2(2)] tables by simp_all
  moreover have "is_NotFound (HeaderByHeight ?E k s2)" if "k \<noteq> 1" for k
    using HeaderByHeight_finds [OF s2(2), of k] h that by (simp add: empty_store_def)
  ultimately show ?thesis using commit blk h by auto
qed

text \<open>
  C36: a node that crashed between the application and the block store recovers. With blocks
  stored up to height \<open>k\<close>: an application at \<open>k + 1\<close> that can be rolled back to \<open>k\<close> is, and
  starting once more then finds nothing to do; one at \<open>k\<close> is left alone, and with one that is
  further ahead or behind the node refuses to start; in no case does the block store or the
  Ethereum state change.
\<close>

theorem start_recovers_from_a_crash:
  fixes n :: "('s, 'a, 'd) node"
  assumes k: "DB_Height (nd_db N) (n_blocks n) = Ok k" "k \<noteq> 0"
    and info: "app_LastBlockHeight (nd_app N) (n_app n) = (Ok ah, n_app n)"
    and roll: "word_of_int ah = k + 1 \<Longrightarrow> app_RollbackToHeight (nd_app N) k (n_app n) = (Ok (), a) \<and>
      app_LastBlockHeight (nd_app N) a = (Ok (uint k), a)"
  shows "\<exists>r n'. prepareBlockStoreAndApp N g n = (r, n') \<and> n_blocks n' = n_blocks n \<and> n_eth n' = n_eth n \<and>
    (if word_of_int ah = k + 1 then r = Ok () \<and> n_app n' = a \<and> prepareBlockStoreAndApp N g n' = (Ok (), n')
     else n' = n \<and> (if word_of_int ah = k then r = Ok () else \<exists>e. r = Err e))"
proof -
  have "storeHeight (nd_db N) (n_blocks n) = Ok k" using k by (simp add: storeHeight_def)
  then show ?thesis using k(2) info roll
    by (cases "(word_of_int ah :: u64) = k + 1"; cases "(word_of_int ah :: u64) > k"; cases "(word_of_int ah :: u64) < k")
       (auto simp: prepareBlockStoreAndApp_def scheck_def Let_def)
qed

section \<open>A node in memory\<close>

definition mem_start_app :: "u64 start_app" where
  "mem_start_app = \<lparr>app_Info = (\<lambda>s. (Ok [], s)),
     app_FinalizeBlock = (\<lambda>rq s. (Ok \<lparr>rs_AppHash = [], rs_TxResults = [], rs_Events = []\<rparr>, s)),
     app_Commit = (\<lambda>s. (Ok (), s + 1)), app_RollbackToHeight = (\<lambda>h s. (Ok (), h)),
     app_InitChain = (\<lambda>rq s. (Ok (), 0)), app_LastBlockHeight = (\<lambda>s. (Ok (uint s), s))\<rparr>"

definition mem_node :: "(kv, u64, unit, bool \<times> bytes, eth_header, toy_state, toy_state, unit) node_env" where
  "mem_node = \<lparr>nd_db = mem_env, nd_app = mem_start_app, nd_eth = toy_eth, nd_evm = toy_evm, nd_CometHash = (\<lambda>h. []),
     nd_EmptyRootHash = 5, nd_MarshalJSON = (\<lambda>j. Ok [])\<rparr>"

definition genesis7 :: "unit genesis" where
  "genesis7 = \<lparr>g_Time = 7, g_ChainID = 42, g_AppState = ()\<rparr>"

definition node0 :: "(kv, u64, toy_state) node" where
  "node0 = \<lparr>n_blocks = [], n_app = 0, n_eth = []\<rparr>"

lemma mem_genesis_runs: "\<exists>block. genesis_runs mem_node genesis7 node0 block"
proof -
  obtain block where "MakeBlock toy_eth ((genesisHeader genesis7)\<lparr>h_StateRoot := 0\<rparr>) (Some []) = Ok block"
    by (auto simp: MakeBlock_def SetHeader_def Block_ToEth_def AdaptCosmosTxsToEthTxs_def)
  then show ?thesis
    by (intro exI [of _ block]) (simp add: genesis_runs_def mem_node_def mem_start_app_def node0_def genesis7_def
        genesisEthState_def toy_evm_def Predeploy_def predeploys_def scheck_def)
qed

theorem genesis_is_the_first_block_witness:
  "\<exists>block n'. Genesis_Commit mem_node genesis7 node0 = (Ok (), n') \<and> BlockByHeight mem_env 1 (n_blocks n') = Ok block \<and>
     h_ChainID (b_Header block) = 42 \<and> h_Time (b_Header block) = 7 \<and> b_Txs block = []"
proof -
  obtain block where runs: "genesis_runs mem_node genesis7 node0 block" using mem_genesis_runs by blast
  have "rep (nd_db mem_node) map_of (n_blocks node0) empty_store" using mem_rep_empty by (simp add: mem_node_def node0_def)
  from genesis_is_the_first_block [OF this runs, of "ldb_Unsafe (nd_db mem_node)"]
  show ?thesis by (auto simp: mem_node_def genesis7_def)
qed

theorem start_recovers_from_a_crash_witness:
  "\<exists>s n'. store_reach mem_env [] s \<and>
     prepareBlockStoreAndApp mem_node genesis7 (node0\<lparr>n_blocks := s, n_app := 2\<rparr>) = (Ok (), n') \<and>
     n_blocks n' = s \<and> n_app n' = 1 \<and> prepareBlockStoreAndApp mem_node genesis7 n' = (Ok (), n')"
proof -
  obtain s1 where app: "AppendBlock mem_env blk1 [] = (Ok (), s1)"
    and rep: "rep mem_env map_of s1 (a_append (ldb_TxHash mem_env) blk1 empty_store)"
    using AppendBlock_refines [OF mem_rep_empty, of blk1] by blast
  have none: "is_NotFound (DB_Height mem_env [])" using DB_Height_finds [OF mem_rep_empty] by (simp add: empty_store_def)
  have reach: "store_reach mem_env [] s1"
    by (rule store_reach.first [OF store_reach.start none _ _ app]) (simp_all add: blk1_def hdr1_def)
  have k: "DB_Height (nd_db mem_node) (n_blocks (node0\<lparr>n_blocks := s1, n_app := 2\<rparr>)) = Ok 1"
    using DB_Height_finds [OF rep] by (simp add: mem_node_def blk1_def hdr1_def)
  have info: "app_LastBlockHeight (nd_app mem_node) (n_app (node0\<lparr>n_blocks := s1, n_app := 2\<rparr>)) =
      (Ok 2, n_app (node0\<lparr>n_blocks := s1, n_app := 2\<rparr>))"
    by (simp add: mem_node_def mem_start_app_def)
  have roll: "app_RollbackToHeight (nd_app mem_node) 1 (n_app (node0\<lparr>n_blocks := s1, n_app := 2\<rparr>)) = (Ok (), 1) \<and>
      app_LastBlockHeight (nd_app mem_node) 1 = (Ok (uint (1 :: u64)), 1)"
    by (simp add: mem_node_def mem_start_app_def)
  from start_recovers_from_a_crash [OF k _ info roll, of genesis7] reach show ?thesis by (auto simp: mem_node_def)
qed

end
