(* ===== verification/NodeRun.thy ===== *)
theory NodeRun
  imports Process NodeStart CometProps
begin

text \<open>
  Running a node (\<^verbatim>\<open>node/node.go\<close>, \<^verbatim>\<open>node/prometheus.go\<close>): the order in which it prepares its
  stores, starts its event bus, metrics and servers, and what it leaves to the environment to
  stop. Each server is recorded with what it serves.
\<close>

section \<open>Servers\<close>

datatype comet_handler =
    EchoFn | HealthFn | StatusFn status_api
  | ABCIQueryFn | ABCIInfoFn
  | BroadcastTxFn
  | TxByHashFn | TxSearchFn
  | SubscribeFn | UnsubscribeFn | UnsubscribeAllFn
  | BlockByHeightFn | BlockByHashFn

type_synonym route = "string \<times> comet_handler \<times> string"

text \<open>An Ethereum RPC namespace with the service behind it.\<close>

datatype eth_service =
    EngineService u64 metrics
  | EthService nat nat metrics

datatype server =
    PrometheusServer int
  | EngineServer "(string \<times> eth_service) list"
  | CometServer "route list"

record ('s, 'a, 'd) running =
  rn_node :: "('s, 'a, 'd) node"
  rn_servers :: "server list"

text \<open>
  CometBFT's instrumentation configuration by what the source asks of it, and the outcome of
  registering a namespace with go-ethereum's RPC server.
\<close>

record node_cfg =
  pc_IsPrometheusEnabled :: bool
  pc_ValidateBasic :: "unit res"
  pc_MaxOpenConnections :: int
  pc_PrometheusListenAddr :: string
  pc_Namespace :: string
  nc_RegisterName :: "string \<Rightarrow> goerr option"

type_synonym ('s, 'a, 'd) node_process = "('s, 'a, 'd) running process"

definition onRunning :: "(('s, 'a, 'd) node, 'x) op \<Rightarrow> (('s, 'a, 'd) node_process, 'x) op" where
  "onRunning f = onNode (\<lambda>n. case f (rn_node n) of (r, n') \<Rightarrow> (r, n\<lparr>rn_node := n'\<rparr>))"

text \<open>\<^verbatim>\<open>env.Go\<close> of a server: the goroutine is counted, and the server is up.\<close>

definition goServe :: "server \<Rightarrow> (('s, 'a, 'd) node_process, unit) op" where
  "goServe v = scheck env_Go pass (\<lambda>_. onNode (\<lambda>n. (Ok (), n\<lparr>rn_servers := rn_servers n @ [v]\<rparr>)))"

section \<open>Prometheus (prometheus.go)\<close>

definition startPrometheusServer :: "os \<Rightarrow> node_cfg \<Rightarrow> (('s, 'a, 'd) node_process, unit) op" where
  "startPrometheusServer S cfg =
     (if pc_IsPrometheusEnabled cfg then
        scheck (slift (\<lambda>_. pc_ValidateBasic cfg)) (Errorf_v ''validate prometheus instrumentation config'') (\<lambda>_.
        scheck (acquire S (PrometheusListener (pc_PrometheusListenAddr cfg))) (Errorf_v ''set up monomer prometheus metrics listener'') (\<lambda>_.
        goServe (PrometheusServer (pc_MaxOpenConnections cfg))))
      else sret ())"

definition registerMetrics :: "node_cfg \<Rightarrow> (('s, 'a, 'd) node_process, metrics \<times> metrics) op" where
  "registerMetrics cfg =
     (if pc_IsPrometheusEnabled cfg then
        scheck (onMetrics (eth_NewMetrics (pc_Namespace cfg))) pass (\<lambda>ethMetrics.
        scheck (onMetrics (engine_NewMetrics (pc_Namespace cfg))) pass (\<lambda>engineMetrics.
        sret (ethMetrics, engineMetrics)))
      else sret (NoopMetrics, NoopMetrics))"

section \<open>Running (node.go)\<close>

fun registerAPIs :: "node_cfg \<Rightarrow> (string \<times> eth_service) list \<Rightarrow> (('s, 'a, 'd) node_process, unit) op" where
  "registerAPIs cfg [] = sret ()"
| "registerAPIs cfg ((namespace, service) # apis) =
     (case nc_RegisterName cfg namespace of
        Some e \<Rightarrow> sfail (Errorf_v (''register '' @ namespace @ '' API'') e)
      | None \<Rightarrow> registerAPIs cfg apis)"

definition routes :: "comet_block \<Rightarrow> route list" where
  "routes startBlock =
     [(''echo'', EchoFn, ''msg''),
      (''health'', HealthFn, ''''),
      (''status'', StatusFn (NewStatusAPI startBlock), ''''),
      (''abci_query'', ABCIQueryFn, ''path,data,height,prove''),
      (''abci_info'', ABCIInfoFn, ''''),
      (''broadcast_tx_sync'', BroadcastTxFn, ''tx''),
      (''broadcast_tx_async'', BroadcastTxFn, ''tx''),
      (''tx'', TxByHashFn, ''hash,prove''),
      (''tx_search'', TxSearchFn, ''query,prove,page,per_page,order_by''),
      (''subscribe'', SubscribeFn, ''query''),
      (''unsubscribe'', UnsubscribeFn, ''query''),
      (''unsubscribe_all'', UnsubscribeAllFn, ''''),
      (''block'', BlockByHeightFn, ''height''),
      (''block_by_hash'', BlockByHashFn, ''hash'')]"

definition ethAPIs :: "u64 \<Rightarrow> metrics \<Rightarrow> metrics \<Rightarrow> (string \<times> eth_service) list" where
  "ethAPIs chainID ethMetrics engineMetrics =
     [(''engine'', EngineService chainID engineMetrics),
      (''eth'', EthService (ChainID_HexBig chainID) (ChainID_Big chainID) ethMetrics)]"

definition Node_Run ::
    "('s, 'a, 'j, 'tx, 'blk, 'es, 'd, 'abi) node_env \<Rightarrow> os \<Rightarrow> node_cfg \<Rightarrow> 'j genesis \<Rightarrow>
     (('s, 'a, 'd) node_process, unit) op" where
  "Node_Run N S cfg g =
     scheck (onRunning (prepareBlockStoreAndApp N g)) pass (\<lambda>_.
     scheck (own S EventBus (Errorf_v ''start event bus'') ''stop event bus'') pass (\<lambda>_.
     scheck (startPrometheusServer S cfg) pass (\<lambda>_.
     scheck (registerMetrics cfg) pass (\<lambda>(ethMetrics, engineMetrics).
     let apis = ethAPIs (g_ChainID g) ethMetrics engineMetrics in
     scheck (registerAPIs cfg apis) pass (\<lambda>_.
     scheck (goServe (EngineServer apis)) pass (\<lambda>_.
     scheck (env_Defer waitSubscribers) pass (\<lambda>_.
     scheck (onRunning (nodeBlocks (slift (BlockByHeight (nd_db N) 1)))) (Errorf_v ''get start block'') (\<lambda>startBlock.
     goServe (CometServer (routes (Block_ToCometLikeBlock startBlock)))))))))))"

section \<open>What a run keeps\<close>

lemma keeps_goServe [keeps_intros]: "keeps (goServe v)"
  unfolding goServe_def by (intro keeps_intros)

lemma keeps_onRunning [keeps_intros]: "keeps (onRunning f)"
  unfolding onRunning_def by (intro keeps_intros)

lemma keeps_registerAPIs [keeps_intros]: "keeps (registerAPIs cfg apis)"
  by (induction cfg apis rule: registerAPIs.induct) (auto simp: keeps_def split: option.splits)

lemma keeps_Node_Run [keeps_intros]: "keeps (Node_Run N S cfg g)"
  unfolding Node_Run_def startPrometheusServer_def registerMetrics_def
  by (intro keeps_intros cleanup_intros) simp

section \<open>A new node\<close>

lemma onRunning_eq [simp]:
  "onRunning f p = (fst (f (rn_node (w_node (p_world p)))),
     p\<lparr>p_world := (p_world p)\<lparr>w_node := (w_node (p_world p))\<lparr>rn_node := snd (f (rn_node (w_node (p_world p))))\<rparr>\<rparr>\<rparr>)"
  by (simp add: onRunning_def onNode_def split: prod.splits)

lemma goServe_eq [simp]:
  "goServe v p = (Ok (), p\<lparr>p_env := Env_Go (p_env p),
     p_world := (p_world p)\<lparr>w_node := (w_node (p_world p))\<lparr>rn_servers := rn_servers (w_node (p_world p)) @ [v]\<rparr>\<rparr>\<rparr>)"
  by (simp add: goServe_def scheck_def env_Go_def onNode_def)

text \<open>The calls of a start that are not on the node's own stores succeed.\<close>

definition start_allowed :: "os \<Rightarrow> node_cfg \<Rightarrow> registry \<Rightarrow> bool" where
  "start_allowed S cfg reg \<longleftrightarrow> os_Open S EventBus = None \<and> (\<forall>n. nc_RegisterName cfg n = None) \<and>
     (pc_IsPrometheusEnabled cfg \<longrightarrow> pc_ValidateBasic cfg = Ok () \<and> os_Open S (PrometheusListener (pc_PrometheusListenAddr cfg)) = None \<and>
       (\<forall>h \<in> set reg. hi_Namespace h \<noteq> pc_Namespace cfg))"

definition prometheusServers :: "node_cfg \<Rightarrow> server list" where
  "prometheusServers cfg = (if pc_IsPrometheusEnabled cfg then [PrometheusServer (pc_MaxOpenConnections cfg)] else [])"

definition metricsFor :: "node_cfg \<Rightarrow> string \<Rightarrow> metrics" where
  "metricsFor cfg sub = (if pc_IsPrometheusEnabled cfg then RPCMetrics (pc_Namespace cfg, sub, ''method_call'') else NoopMetrics)"

lemma startPrometheus_runs:
  assumes "start_allowed S cfg reg"
  shows "\<exists>p'. startPrometheusServer S cfg p = (Ok (), p') \<and>
    w_node (p_world p') = (w_node (p_world p))\<lparr>rn_servers := rn_servers (w_node (p_world p)) @ prometheusServers cfg\<rparr> \<and>
    w_metrics (p_world p') = w_metrics (p_world p) \<and> env_deferFns (p_env p') = env_deferFns (p_env p) \<and>
    set (w_open (p_world p)) \<subseteq> set (w_open (p_world p')) \<and>
    env_wg (p_env p') = env_wg (p_env p) @ map (\<lambda>_. Running) (prometheusServers cfg)"
  using assms by (auto simp: startPrometheusServer_def start_allowed_def scheck_def acquire_def prometheusServers_def Env_Go_def)

lemma registerMetrics_runs:
  assumes "start_allowed S cfg (w_metrics (p_world p))"
  shows "\<exists>reg. registerMetrics cfg p = (Ok (metricsFor cfg ''eth'', metricsFor cfg ''engine''),
    p\<lparr>p_world := (p_world p)\<lparr>w_metrics := reg\<rparr>\<rparr>)"
proof (cases "pc_IsPrometheusEnabled cfg")
  case True
  then have "(pc_Namespace cfg, x) \<notin> fqName ` set (w_metrics (p_world p))" for x
    using assms by (auto simp: start_allowed_def fqName_def)
  then show ?thesis using True
    by (simp add: registerMetrics_def scheck_def onMetrics_def eth_NewMetrics_def engine_NewMetrics_def NewRPCMetrics_def
        metricsFor_def fqName_def) blast
next
  case False
  then show ?thesis by (auto simp: registerMetrics_def metricsFor_def intro!: exI [of _ "w_metrics (p_world p)"])
qed

lemma registerAPIs_runs: "(\<forall>n. nc_RegisterName cfg n = None) \<Longrightarrow> registerAPIs cfg apis p = (Ok (), p)"
  by (induction cfg apis rule: registerAPIs.induct) simp_all

lemma scheck_step: "m p = (Ok x, p1) \<Longrightarrow> k x p1 = r \<Longrightarrow> scheck m w k p = r"
  by simp

text \<open>Everything after the stores are prepared, when nothing outside refuses.\<close>

lemma Node_Run_serves:
  fixes p :: "('s, 'a, 'd) node_process"
  assumes prep: "prepareBlockStoreAndApp N g (rn_node (w_node (p_world p))) = (Ok (), n1)"
    and blk: "BlockByHeight (nd_db N) 1 (n_blocks n1) = Ok block"
    and allowed: "start_allowed S cfg (w_metrics (p_world p))"
  shows "\<exists>p'. Node_Run N S cfg g p = (Ok (), p') \<and> rn_node (w_node (p_world p')) = n1 \<and>
    rn_servers (w_node (p_world p')) = rn_servers (w_node (p_world p)) @ prometheusServers cfg @
      [EngineServer (ethAPIs (g_ChainID g) (metricsFor cfg ''eth'') (metricsFor cfg ''engine'')),
       CometServer (routes (Block_ToCometLikeBlock block))] \<and>
    env_wg (p_env p') = env_wg (p_env p) @ replicate (length (prometheusServers cfg) + 2) Running \<and>
    EventBus \<in> set (w_open (p_world p')) \<and>
    (\<exists>d \<in> set (env_deferFns (p_env p')). covers (df_fn d) EventBus)"
proof -
  have prep': "onRunning (prepareBlockStoreAndApp N g) p =
      (Ok (), p\<lparr>p_world := (p_world p)\<lparr>w_node := (w_node (p_world p))\<lparr>rn_node := n1\<rparr>\<rparr>\<rparr>)" (is "_ = (_, ?p1)")
    using prep by simp
  obtain p2 where bus: "own S EventBus (Errorf_v ''start event bus'') ''stop event bus'' ?p1 = (Ok (), p2)"
    and p2: "w_node (p_world p2) = (w_node (p_world p))\<lparr>rn_node := n1\<rparr>" "w_metrics (p_world p2) = w_metrics (p_world p)"
      "env_wg (p_env p2) = env_wg (p_env p)" "EventBus \<in> set (w_open (p_world p2))"
      "\<lparr>df_errMsg = ''stop event bus'', df_fn = closeResource S EventBus\<rparr> \<in> set (env_deferFns (p_env p2))"
    using allowed by (simp add: start_allowed_def own_def scheck_def acquire_def env_DeferErr_def DeferErr_def)
  obtain p3 where prom: "startPrometheusServer S cfg p2 = (Ok (), p3)"
    and p3: "w_node (p_world p3) = (w_node (p_world p2))\<lparr>rn_servers := rn_servers (w_node (p_world p2)) @ prometheusServers cfg\<rparr>"
      "w_metrics (p_world p3) = w_metrics (p_world p2)" "env_deferFns (p_env p3) = env_deferFns (p_env p2)"
      "set (w_open (p_world p2)) \<subseteq> set (w_open (p_world p3))"
      "env_wg (p_env p3) = env_wg (p_env p2) @ map (\<lambda>_. Running) (prometheusServers cfg)"
    using startPrometheus_runs [OF allowed] by blast
  obtain reg where metrics: "registerMetrics cfg p3 = (Ok (metricsFor cfg ''eth'', metricsFor cfg ''engine''),
      p3\<lparr>p_world := (p_world p3)\<lparr>w_metrics := reg\<rparr>\<rparr>)" (is "_ = (_, ?p4)")
    using registerMetrics_runs [of S cfg p3] allowed p3(2) p2(2) by auto
  have reg: "registerAPIs cfg apis p = (Ok (), p)" for apis and p :: "('s, 'a, 'd) node_process"
    by (intro registerAPIs_runs) (use allowed in \<open>simp add: start_allowed_def\<close>)
  let ?E = "EngineServer (ethAPIs (g_ChainID g) (metricsFor cfg ''eth'') (metricsFor cfg ''engine''))"
  let ?p5 = "?p4\<lparr>p_env := Env_Go (Defer waitSubscribers (Env_Go (p_env ?p4))),
      p_world := (p_world ?p4)\<lparr>w_node := (w_node (p_world ?p4))\<lparr>rn_servers := rn_servers (w_node (p_world ?p4)) @
        [?E, CometServer (routes (Block_ToCometLikeBlock block))]\<rparr>\<rparr>\<rparr>"
  have run: "Node_Run N S cfg g p = (Ok (), ?p5)"
    unfolding Node_Run_def
    by (rule scheck_step, rule prep', rule scheck_step, rule bus, rule scheck_step, rule prom, rule scheck_step, rule metrics)
       (use blk p3(1) p2(1) in \<open>simp add: Let_def reg scheck_def env_Defer_def\<close>)
  have "env_wg (p_env ?p5) = env_wg (p_env p) @ replicate (length (prometheusServers cfg) + 2) Running"
    using p3(5) p2(3) by (simp add: Env_Go_def Defer_def DeferErr_def map_replicate_const replicate_append_same [symmetric])
  moreover have "\<exists>d \<in> set (env_deferFns (p_env ?p5)). covers (df_fn d) EventBus"
    using p2(5) p3(3) closeResource_covers [of S EventBus] by (force simp: Env_Go_def Defer_fn)
  ultimately show ?thesis using run p2 p3 by (intro exI [of _ ?p5]) auto
qed

text \<open>
  C33: a new node serves its genesis. With an empty block store and an application at height
  zero that accepts the genesis, and nothing outside refusing, \<^verbatim>\<open>Run\<close> succeeds: the store holds
  the genesis block at height 1; the servers are, in this order, prometheus (when it is
  enabled), the engine server with the engine and the eth namespace for the genesis chain, and
  the CometBFT server with its fourteen routes, each with its goroutine; the service behind the
  status route answers that block 1 is both the first and the latest block of the genesis
  chain; and the event bus runs and is stopped when the environment closes.
\<close>

theorem new_node_serves_its_genesis:
  fixes p :: "('s, 'a, 'd) node_process"
  assumes n: "rn_node (w_node (p_world p)) = n" and fresh: "app_LastBlockHeight (nd_app N) (n_app n) = (Ok 0, n_app n)"
    and rep: "rep (nd_db N) view (n_blocks n) empty_store" and runs: "genesis_runs N g n block"
    and allowed: "start_allowed S cfg (w_metrics (p_world p))"
  shows "\<exists>p' status rs api engineMetrics ethMetrics. Node_Run N S cfg g p = (Ok (), p') \<and>
    BlockByHeight (nd_db N) 1 (n_blocks (rn_node (w_node (p_world p')))) = Ok block \<and>
    rn_servers (w_node (p_world p')) = rn_servers (w_node (p_world p)) @
      (if pc_IsPrometheusEnabled cfg then [PrometheusServer (pc_MaxOpenConnections cfg)] else []) @
      [EngineServer [(''engine'', EngineService (g_ChainID g) engineMetrics),
         (''eth'', EthService (unat (g_ChainID g)) (unat (g_ChainID g)) ethMetrics)],
       CometServer rs] \<and>
    (pc_IsPrometheusEnabled cfg \<longrightarrow> engineMetrics = RPCMetrics (pc_Namespace cfg, ''engine'', ''method_call'') \<and>
       ethMetrics = RPCMetrics (pc_Namespace cfg, ''eth'', ''method_call'')) \<and>
    map fst rs = [''echo'', ''health'', ''status'', ''abci_query'', ''abci_info'', ''broadcast_tx_sync'', ''broadcast_tx_async'',
      ''tx'', ''tx_search'', ''subscribe'', ''unsubscribe'', ''unsubscribe_all'', ''block'', ''block_by_hash''] \<and>
    {(''broadcast_tx_sync'', BroadcastTxFn, ''tx''), (''broadcast_tx_async'', BroadcastTxFn, ''tx''), (''status'', StatusFn api, ''''),
      (''block'', BlockByHeightFn, ''height''), (''block_by_hash'', BlockByHashFn, ''hash'')} \<subseteq> set rs \<and>
    env_wg (p_env p') = env_wg (p_env p) @ replicate (if pc_IsPrometheusEnabled cfg then 3 else 2) Running \<and>
    StatusAPI_Status C (nd_db N) api (n_blocks (rn_node (w_node (p_world p')))) = Ok status \<and>
    si_EarliestBlockHeight (st_SyncInfo status) = 1 \<and> si_LatestBlockHeight (st_SyncInfo status) = 1 \<and>
    ni_Network (st_NodeInfo status) = ChainID_String (g_ChainID g) \<and>
    EventBus \<in> set (w_open (p_world p')) \<and>
    (\<exists>d \<in> set (env_deferFns (p_env p')). covers (df_fn d) EventBus)"
proof -
  let ?B = "Block_ToCometLikeBlock block"
  have noHeight: "storeHeight (nd_db N) (n_blocks n) = Ok 0"
    using DB_Height_finds [OF rep] by (auto simp: storeHeight_def empty_store_def is_NotFound_def split: res.splits)
  obtain n1 where gen: "Genesis_Commit N g n = (Ok (), n1)" and blk: "BlockByHeight (nd_db N) 1 (n_blocks n1) = Ok block"
    and head: "HeadHeader (nd_db N) (n_blocks n1) = Ok (b_Header block)"
    and hd: "h_Height (b_Header block) = 1" "h_ChainID (b_Header block) = g_ChainID g"
    using genesis_is_the_first_block [OF rep runs, of "ldb_Unsafe (nd_db N)"] by blast
  have prep': "prepareBlockStoreAndApp N g (rn_node (w_node (p_world p))) = (Ok (), n1)"
    using noHeight fresh gen n by (simp add: prepareBlockStoreAndApp_def scheck_def Let_def)
  have status: "\<exists>st. StatusAPI_Status C (nd_db N) (NewStatusAPI ?B) (n_blocks n1) = Ok st \<and>
      si_EarliestBlockHeight (st_SyncInfo st) = 1 \<and> si_LatestBlockHeight (st_SyncInfo st) = 1 \<and>
      ni_Network (st_NodeInfo st) = ChainID_String (g_ChainID g)"
    using head hd by (simp add: StatusAPI_Status_def NewStatusAPI_def Block_ToCometLikeBlock_def Header_ToComet_def Let_def)
  obtain st where st: "StatusAPI_Status C (nd_db N) (NewStatusAPI ?B) (n_blocks n1) = Ok st"
      "si_EarliestBlockHeight (st_SyncInfo st) = 1" "si_LatestBlockHeight (st_SyncInfo st) = 1"
      "ni_Network (st_NodeInfo st) = ChainID_String (g_ChainID g)" using status by blast
  obtain p' where p': "Node_Run N S cfg g p = (Ok (), p')" "rn_node (w_node (p_world p')) = n1"
      "rn_servers (w_node (p_world p')) = rn_servers (w_node (p_world p)) @ prometheusServers cfg @
        [EngineServer (ethAPIs (g_ChainID g) (metricsFor cfg ''eth'') (metricsFor cfg ''engine'')), CometServer (routes ?B)]"
      "env_wg (p_env p') = env_wg (p_env p) @ replicate (length (prometheusServers cfg) + 2) Running"
      "EventBus \<in> set (w_open (p_world p'))" "\<exists>d \<in> set (env_deferFns (p_env p')). covers (df_fn d) EventBus"
    using Node_Run_serves [OF prep' blk allowed] by blast
  show ?thesis
    by (rule exI [of _ p'], rule exI [of _ st], rule exI [of _ "routes ?B"], rule exI [of _ "NewStatusAPI ?B"],
        rule exI [of _ "metricsFor cfg ''engine''"], rule exI [of _ "metricsFor cfg ''eth''"], intro conjI)
       (use p' blk st in \<open>simp_all add: prometheusServers_def ethAPIs_def metricsFor_def routes_def ChainID_HexBig_def ChainID_Big_def
        numeral_3_eq_3 numeral_2_eq_2\<close>)
qed

definition open_os :: os where
  "open_os = \<lparr>os_Open = (\<lambda>_. None), os_Close = (\<lambda>_. None)\<rparr>"

definition prom_cfg :: node_cfg where
  "prom_cfg = \<lparr>pc_IsPrometheusEnabled = True, pc_ValidateBasic = Ok (), pc_MaxOpenConnections = 3, pc_PrometheusListenAddr = '':26660'',
     pc_Namespace = ''monomer'', nc_RegisterName = (\<lambda>_. None)\<rparr>"

definition new_process :: "'n \<Rightarrow> 'n process" where
  "new_process n = \<lparr>p_world = \<lparr>w_node = n, w_open = [], w_subscribers = [], w_group = [], w_groupErr = None, w_metrics = [],
       w_services = []\<rparr>,
     p_env = Env_New\<rparr>"

theorem new_node_serves_its_genesis_witness:
  "\<exists>p' rs api. Node_Run mem_node open_os prom_cfg genesis7 (new_process \<lparr>rn_node = node0, rn_servers = []\<rparr>) = (Ok (), p') \<and>
     rn_servers (w_node (p_world p')) = [PrometheusServer 3,
       EngineServer [(''engine'', EngineService 42 (RPCMetrics (''monomer'', ''engine'', ''method_call''))),
         (''eth'', EthService 42 42 (RPCMetrics (''monomer'', ''eth'', ''method_call'')))],
       CometServer rs] \<and> (''status'', StatusFn api, '''') \<in> set rs"
proof -
  let ?p = "new_process \<lparr>rn_node = node0, rn_servers = []\<rparr> :: (kv, u64, toy_state) node_process"
  obtain block where runs: "genesis_runs mem_node genesis7 node0 block" using mem_genesis_runs by blast
  have n: "rn_node (w_node (p_world ?p)) = node0" by (simp add: new_process_def)
  have fresh: "app_LastBlockHeight (nd_app mem_node) (n_app node0) = (Ok 0, n_app node0)"
    by (simp add: mem_node_def mem_start_app_def node0_def)
  have rep: "rep (nd_db mem_node) map_of (n_blocks node0) empty_store" using mem_rep_empty by (simp add: mem_node_def node0_def)
  have allowed: "start_allowed open_os prom_cfg (w_metrics (p_world ?p))"
    by (simp add: start_allowed_def open_os_def prom_cfg_def new_process_def)
  have cfg: "pc_IsPrometheusEnabled prom_cfg" "pc_MaxOpenConnections prom_cfg = 3" "pc_Namespace prom_cfg = ''monomer''"
    by (simp_all add: prom_cfg_def)
  from new_node_serves_its_genesis [OF n fresh rep runs allowed, where C = toy_comet]
  obtain p' rs api where "Node_Run mem_node open_os prom_cfg genesis7 ?p = (Ok (), p')"
    and "rn_servers (w_node (p_world p')) = rn_servers (w_node (p_world ?p)) @ [PrometheusServer 3] @
      [EngineServer [(''engine'', EngineService (g_ChainID genesis7) (RPCMetrics (''monomer'', ''engine'', ''method_call''))),
         (''eth'', EthService (unat (g_ChainID genesis7)) (unat (g_ChainID genesis7)) (RPCMetrics (''monomer'', ''eth'', ''method_call'')))],
       CometServer rs]" and "(''status'', StatusFn api, '''') \<in> set rs"
    unfolding cfg by (elim exE conjE) (use cfg in auto)
  then show ?thesis by (auto simp: new_process_def genesis7_def)
qed

end
