(* ===== verification/Url.thy ===== *)
theory Url
  imports TxStore
begin

text \<open>
  Endpoint addresses (\<^verbatim>\<open>e2e/url/url.go\<close>): absolute URLs whose port is always written out. The
  parts of \<^verbatim>\<open>net/url\<close> and \<^verbatim>\<open>net\<close> that split and join hosts and ports are modelled; parsing the
  text of a URL and looking up the port of a service by name are parameters.
\<close>

section \<open>Hosts and ports\<close>

definition isDigit :: "char \<Rightarrow> bool" where
  "isDigit c \<longleftrightarrow> 48 \<le> (of_char c :: nat) \<and> of_char c \<le> (57 :: nat)"

text \<open>The parts before and after the last colon.\<close>

definition splitLastColon :: "string \<Rightarrow> (string \<times> string) option" where
  "splitLastColon s = (case dropWhile (\<lambda>c. c \<noteq> CHR '':'') (rev s) of
       [] \<Rightarrow> None
     | _ # pre \<Rightarrow> Some (rev pre, rev (takeWhile (\<lambda>c. c \<noteq> CHR '':'') (rev s))))"

definition bracketed :: "string \<Rightarrow> bool" where
  "bracketed h \<longleftrightarrow> h \<noteq> [] \<and> hd h = CHR ''['' \<and> last h = CHR '']''"

definition splitHostPort :: "string \<Rightarrow> string \<times> string" where
  "splitHostPort hostPort =
     (let (host, port) = (case splitLastColon hostPort of
            Some (h, p) \<Rightarrow> if list_all isDigit p then (h, p) else (hostPort, '''')
          | None \<Rightarrow> (hostPort, ''''))
      in (if bracketed host then butlast (tl host) else host, port))"

definition JoinHostPort :: "string \<Rightarrow> string \<Rightarrow> string" where
  "JoinHostPort host port =
     (if CHR '':'' \<in> set host then CHR ''['' # host @ '']:'' @ port else host @ '':'' @ port)"

text \<open>\<^verbatim>\<open>strconv.ParseUint(s, 10, bitSize)\<close>.\<close>

definition ParseUint :: "nat \<Rightarrow> string \<Rightarrow> nat res" where
  "ParseUint bitSize s =
     (if s = [] \<or> \<not> list_all isDigit s then Err (External ''invalid syntax'')
      else if dec_value s < 2 ^ bitSize then Ok (dec_value s) else Err (External ''value out of range''))"

section \<open>URLs (url.go)\<close>

text \<open>\<^verbatim>\<open>url.URL\<close>: the fields the source reads, and the others.\<close>

record ('u, 'r) stdurl =
  su_Scheme :: string
  su_Host :: string
  su_User :: "'u option"
  su_Rest :: 'r

definition stdHostname :: "('u, 'r) stdurl \<Rightarrow> string" where
  "stdHostname u = fst (splitHostPort (su_Host u))"

definition stdPort :: "('u, 'r) stdurl \<Rightarrow> string" where
  "stdPort u = snd (splitHostPort (su_Host u))"

record ('u, 'r) URL =
  ur_url :: "('u, 'r) stdurl"
  ur_port :: u16

definition URL_Parse :: "(string \<Rightarrow> nat res) \<Rightarrow> ('u, 'r) stdurl option \<Rightarrow> ('u, 'r) URL res" where
  "URL_Parse LookupPort stdURL = (case stdURL of
       None \<Rightarrow> Err (ErrorNew ''url is nil'')
     | Some stdURL \<Rightarrow>
         if su_Scheme stdURL = '''' then Err (ErrorNew ''url is not absolute (does not contain scheme)'')
         else
         check (if stdPort stdURL = '''' then
             check (LookupPort (su_Scheme stdURL)) (Errorf_v ''lookup port'')
               (\<lambda>portInt. Ok (of_nat portInt, dec_string portInt))
           else
             check (ParseUint 16 (stdPort stdURL)) (Errorf_v ''parse port string'')
               (\<lambda>portU64. Ok (of_nat portU64, stdPort stdURL))) pass (\<lambda>(portU16, portString).
         Ok \<lparr>ur_url = stdURL\<lparr>su_Host := JoinHostPort (stdHostname stdURL) portString\<rparr>, ur_port = portU16\<rparr>))"

definition ParseString ::
    "(string \<Rightarrow> ('u, 'r) stdurl res) \<Rightarrow> (string \<Rightarrow> nat res) \<Rightarrow> string \<Rightarrow> ('u, 'r) URL res" where
  "ParseString parse LookupPort address =
     check (parse address) pass (\<lambda>stdURL. check (URL_Parse LookupPort (Some stdURL)) pass Ok)"

definition URL_Host :: "('u, 'r) URL \<Rightarrow> string" where "URL_Host u = su_Host (ur_url u)"
definition URL_Hostname :: "('u, 'r) URL \<Rightarrow> string" where "URL_Hostname u = stdHostname (ur_url u)"
definition URL_PortU16 :: "('u, 'r) URL \<Rightarrow> u16" where "URL_PortU16 u = ur_port u"
definition URL_Port :: "('u, 'r) URL \<Rightarrow> string" where "URL_Port u = stdPort (ur_url u)"
definition URL_Scheme :: "('u, 'r) URL \<Rightarrow> string" where "URL_Scheme u = su_Scheme (ur_url u)"

text \<open>
  The loop of \<^verbatim>\<open>IsReachable\<close> over its attempts: whether the context has ended before the attempt,
  and whether the dial succeeds. With no attempt left it is still trying.
\<close>

fun IsReachable :: "(bool \<times> bool) list \<Rightarrow> bool option" where
  "IsReachable [] = None"
| "IsReachable ((ctxErr, dialed) # attempts) =
     (if ctxErr then Some False else if dialed then Some True else IsReachable attempts)"

section \<open>Splitting what was joined\<close>

lemma splitLastColon_last: "CHR '':'' \<notin> set p \<Longrightarrow> splitLastColon (h @ '':'' @ p) = Some (h, p)"
proof -
  assume p: "CHR '':'' \<notin> set p"
  then have np: "\<forall>c \<in> set (rev p). c \<noteq> CHR '':''" by auto
  have "dropWhile (\<lambda>c. c \<noteq> CHR '':'') (rev p @ CHR '':'' # rev h) = CHR '':'' # rev h"
    using np by (subst dropWhile_append2) auto
  moreover have "takeWhile (\<lambda>c. c \<noteq> CHR '':'') (rev p @ CHR '':'' # rev h) = rev p"
    using np by (subst takeWhile_append2) auto
  ultimately show ?thesis by (simp add: splitLastColon_def)
qed

lemma digits_no_colon: "list_all isDigit p \<Longrightarrow> CHR '':'' \<notin> set p"
  by (auto simp: list_all_iff isDigit_def)

lemma split_joined:
  assumes "list_all isDigit p" and "CHR '':'' \<in> set h \<or> \<not> bracketed h"
  shows "splitHostPort (JoinHostPort h p) = (h, p)"
proof (cases "CHR '':'' \<in> set h")
  case True
  then have "splitLastColon (JoinHostPort h p) = Some (CHR ''['' # h @ '']'', p)"
    using splitLastColon_last [OF digits_no_colon [OF assms(1)], of "CHR ''['' # h @ '']''"]
    by (simp add: JoinHostPort_def)
  then show ?thesis using assms(1) by (simp add: splitHostPort_def bracketed_def)
next
  case False
  then have "splitLastColon (JoinHostPort h p) = Some (h, p)"
    using splitLastColon_last [OF digits_no_colon [OF assms(1)], of h] by (simp add: JoinHostPort_def)
  then show ?thesis using assms False by (simp add: splitHostPort_def)
qed

lemma port_digits: "list_all isDigit (snd (splitHostPort s))"
  by (simp add: splitHostPort_def split: option.splits prod.splits if_splits)

lemma dec_string_ports: "list_all isDigit (dec_string n)" "dec_string n \<noteq> ''''"
proof -
  show "list_all isDigit (dec_string n)" using dec_string_digits by (auto simp: list_all_iff isDigit_def)
  show "dec_string n \<noteq> ''''" by (subst dec_string.simps) simp
qed

text \<open>
  A parsed endpoint has a port. Whatever URL is accepted, with or without a port of its
  own, the result has a port string that is not empty and whose value is its port number;
  scheme, host name and a port that was given are kept; and parsing the result again
  returns it unchanged. A relative URL is never accepted.
\<close>

theorem parsed_url_has_a_port:
  assumes host: "CHR '':'' \<in> set (stdHostname u) \<or> \<not> bracketed (stdHostname u)"
    and services: "\<And>s n. LookupPort s = Ok n \<Longrightarrow> n < 2 ^ 16"
  shows "case URL_Parse LookupPort (Some u) of
      Ok r \<Rightarrow> su_Scheme u \<noteq> '''' \<and> URL_Port r \<noteq> '''' \<and> dec_value (URL_Port r) = unat (URL_PortU16 r) \<and>
        URL_Hostname r = stdHostname u \<and> URL_Scheme r = su_Scheme u \<and> (stdPort u \<noteq> '''' \<longrightarrow> URL_Port r = stdPort u) \<and>
        URL_Parse LookupPort (Some (ur_url r)) = Ok r
    | _ \<Rightarrow> True"
proof -
  have "su_Scheme u \<noteq> '''' \<and> URL_Port r \<noteq> '''' \<and> dec_value (URL_Port r) = unat (URL_PortU16 r) \<and>
      URL_Hostname r = stdHostname u \<and> URL_Scheme r = su_Scheme u \<and> (stdPort u \<noteq> '''' \<longrightarrow> URL_Port r = stdPort u) \<and>
      URL_Parse LookupPort (Some (ur_url r)) = Ok r" if run: "URL_Parse LookupPort (Some u) = Ok r" for r
  proof -
    from run obtain n p where sch: "su_Scheme u \<noteq> ''''"
      and r: "r = \<lparr>ur_url = u\<lparr>su_Host := JoinHostPort (stdHostname u) p\<rparr>, ur_port = of_nat n\<rparr>"
      and p: "list_all isDigit p" "p \<noteq> ''''" "dec_value p = n" "n < 2 ^ 16" "stdPort u \<noteq> '''' \<longrightarrow> p = stdPort u"
      using services dec_string_ports dec_value_string
      by (auto simp: URL_Parse_def ParseUint_def elim!: check_OkE split: if_splits)
    have sp: "splitHostPort (JoinHostPort (stdHostname u) p) = (stdHostname u, p)" by (rule split_joined [OF p(1) host])
    then have hp: "stdHostname (ur_url r) = stdHostname u" "stdPort (ur_url r) = p" "su_Scheme (ur_url r) = su_Scheme u"
      "ur_port r = of_nat n"
      using r by (simp_all add: stdHostname_def stdPort_def)
    have "ParseUint 16 p = Ok n" using p by (simp add: ParseUint_def)
    then have "URL_Parse LookupPort (Some (ur_url r)) = Ok r" using sch hp p(2) r by (simp add: URL_Parse_def)
    then show ?thesis
      using hp p(2-5) sch by (simp add: URL_Port_def URL_PortU16_def URL_Hostname_def URL_Scheme_def unat_of_nat)
  qed
  then show ?thesis by (cases "URL_Parse LookupPort (Some u)") simp_all
qed

definition example_url :: "(unit, unit) stdurl" where
  "example_url = \<lparr>su_Scheme = ''ws'', su_Host = ''[::1]'', su_User = None, su_Rest = ()\<rparr>"

theorem parsed_url_has_a_port_witness:
  "\<exists>r. URL_Parse (\<lambda>s. Ok 80) (Some example_url) = Ok r \<and> URL_Host r = ''[::1]:80'' \<and> URL_Hostname r = ''::1'' \<and>
     dec_value (URL_Port r) = unat (URL_PortU16 r)"
proof -
  have h: "stdHostname example_url = ''::1''" "stdPort example_url = ''''"
    by (simp_all add: stdHostname_def stdPort_def example_url_def splitHostPort_def splitLastColon_def bracketed_def isDigit_def)
  have "dec_string 80 = ''80''" by (simp add: dec_string.simps char_of_eq_iff)
  then obtain r where r: "URL_Parse (\<lambda>s. Ok 80) (Some example_url) = Ok r" "URL_Host r = ''[::1]:80''"
    using h by (simp add: URL_Parse_def URL_Host_def JoinHostPort_def example_url_def)
  moreover have "CHR '':'' \<in> set (stdHostname example_url) \<or> \<not> bracketed (stdHostname example_url)" using h by simp
  ultimately show ?thesis
    using parsed_url_has_a_port [where u = example_url and LookupPort = "\<lambda>s. Ok 80"] h by simp
qed

end
