(* ===== verification/OpDevnet.thy ===== *)
theory OpDevnet
  imports Process Url Withdrawals
begin

text \<open>
  The devnet (\<^verbatim>\<open>opdevnet\<close>): its secrets, defaults, and the configurations and start of an L1 chain
  and of the OP stack's node, proposer and batcher. The OP stack, go-ethereum and the wallet
  are parameters; what is handed to them is modelled field by field. Durations are in
  milliseconds.
\<close>

section \<open>Secrets (secrets.go)\<close>

record MnemonicConfig =
  mc_Mnemonic :: string
  mc_CliqueSigner :: string
  mc_Deployer :: string
  mc_SysCfgOwner :: string
  mc_Proposer :: string
  mc_Batcher :: string
  mc_SequencerP2P :: string
  mc_Alice :: string
  mc_Bob :: string
  mc_Mallory :: string

definition DefaultMnemonicConfig :: MnemonicConfig where
  "DefaultMnemonicConfig = \<lparr>
     mc_Mnemonic = ''test test test test test test test test test test test junk'',
     mc_CliqueSigner = ''m/44'/60'/0'/0/0'', mc_Deployer = ''m/44'/60'/0'/0/3'',
     mc_SysCfgOwner = ''m/44'/60'/0'/0/9'', mc_Proposer = ''m/44'/60'/0'/0/1'',
     mc_Batcher = ''m/44'/60'/0'/0/2'', mc_SequencerP2P = ''m/44'/60'/0'/0/5'',
     mc_Alice = ''m/44'/60'/0'/0/4'', mc_Bob = ''m/44'/60'/0'/0/7'',
     mc_Mallory = ''m/44'/60'/0'/0/8''\<rparr>"

text \<open>Secrets and their addresses have a key or an address for each actor.\<close>

record 'k actors =
  ac_Deployer :: 'k
  ac_CliqueSigner :: 'k
  ac_SysCfgOwner :: 'k
  ac_Proposer :: 'k
  ac_Batcher :: 'k
  ac_SequencerP2P :: 'k
  ac_Alice :: 'k
  ac_Bob :: 'k
  ac_Mallory :: 'k

record ('w, 'k) Secrets = "'k actors" +
  se_Wallet :: 'w

text \<open>The wallet and the keys: \<open>kl_D\<close> is the secret number of a private key.\<close>

record ('w, 'k) keylib =
  kl_NewFromMnemonic :: "string \<Rightarrow> 'w res"
  kl_PrivateKey :: "'w \<Rightarrow> string \<Rightarrow> 'k res"
  kl_D :: "'k \<Rightarrow> nat"
  kl_PubkeyToAddress :: "'k \<Rightarrow> address"

definition MnemonicConfig_Secrets :: "('w, 'k) keylib \<Rightarrow> MnemonicConfig \<Rightarrow> ('w, 'k) Secrets res" where
  "MnemonicConfig_Secrets L m =
     check (kl_NewFromMnemonic L (mc_Mnemonic m)) (Errorf_w ''failed to create wallet'') (\<lambda>wallet.
     check (kl_PrivateKey L wallet (mc_Deployer m)) pass (\<lambda>deployer.
     check (kl_PrivateKey L wallet (mc_CliqueSigner m)) pass (\<lambda>cliqueSigner.
     check (kl_PrivateKey L wallet (mc_SysCfgOwner m)) pass (\<lambda>sysCfgOwner.
     check (kl_PrivateKey L wallet (mc_Proposer m)) pass (\<lambda>proposer.
     check (kl_PrivateKey L wallet (mc_Batcher m)) pass (\<lambda>batcher.
     check (kl_PrivateKey L wallet (mc_SequencerP2P m)) pass (\<lambda>sequencerP2P.
     check (kl_PrivateKey L wallet (mc_Alice m)) pass (\<lambda>alice.
     check (kl_PrivateKey L wallet (mc_Bob m)) pass (\<lambda>bob.
     check (kl_PrivateKey L wallet (mc_Mallory m)) pass (\<lambda>mallory.
     Ok \<lparr>ac_Deployer = deployer, ac_CliqueSigner = cliqueSigner, ac_SysCfgOwner = sysCfgOwner, ac_Proposer = proposer,
       ac_Batcher = batcher, ac_SequencerP2P = sequencerP2P, ac_Alice = alice, ac_Bob = bob, ac_Mallory = mallory,
       se_Wallet = wallet\<rparr>))))))))))"

text \<open>The copy into the 32 byte slice panics when the number has more than 32 bytes.\<close>

definition EncodePrivKey :: "('w, 'k) keylib \<Rightarrow> 'k \<Rightarrow> bytes res" where
  "EncodePrivKey L priv =
     (let blob = big_Bytes (kl_D L priv)
      in if length blob > 32 then Panic (External ''slice bounds out of range'')
         else Ok (replicate (32 - length blob) 0 @ blob))"

definition EncodePrivKeyToString :: "hexlib \<Rightarrow> ('w, 'k) keylib \<Rightarrow> 'k \<Rightarrow> string res" where
  "EncodePrivKeyToString X L priv = check (EncodePrivKey L priv) pass (\<lambda>bz. Ok (hx_Encode X bz))"

definition Secrets_Addresses :: "('w, 'k) keylib \<Rightarrow> ('w, 'k) Secrets \<Rightarrow> address actors" where
  "Secrets_Addresses L s =
     (let a = kl_PubkeyToAddress L in
      \<lparr>ac_Deployer = a (ac_Deployer s), ac_CliqueSigner = a (ac_CliqueSigner s), ac_SysCfgOwner = a (ac_SysCfgOwner s),
       ac_Proposer = a (ac_Proposer s), ac_Batcher = a (ac_Batcher s), ac_SequencerP2P = a (ac_SequencerP2P s),
       ac_Alice = a (ac_Alice s), ac_Bob = a (ac_Bob s), ac_Mallory = a (ac_Mallory s)\<rparr>)"

definition Addresses_All :: "address actors \<Rightarrow> address list" where
  "Addresses_All a = [ac_Deployer a, ac_CliqueSigner a, ac_SysCfgOwner a, ac_Proposer a, ac_Batcher a,
     ac_SequencerP2P a, ac_Alice a, ac_Bob a, ac_Mallory a]"

section \<open>Defaults (defaults.go)\<close>

text \<open>The deploy configuration by the fields the source sets or reads.\<close>

record 'c deploy_config =
  dc_L1UseClique :: bool
  dc_L1GenesisBlockTimestamp :: u64
  dc_FundDevAccounts :: bool
  dc_L1BlockTime :: u64
  dc_L2BlockTime :: u64
  dc_SequencerWindowSize :: u64
  dc_L2ChainID :: u64
  dc_Rest :: 'c

record l1_account =
  la_Code :: bytes
  la_Balance :: nat
  la_Nonce :: u64

type_synonym allocs = "address \<rightharpoonup> l1_account"

text \<open>The embedded files as they unmarshal, and the OP stack's \<^verbatim>\<open>SetDeployments\<close>.\<close>

record ('c, 'dep) defaults =
  df_L1Deployments :: "'dep res"
  df_DeployConfig :: "'c deploy_config res"
  df_L1Allocs :: "allocs res"
  df_L2Allocs :: "allocs res"
  df_SetDeployments :: "'dep \<Rightarrow> 'c deploy_config \<Rightarrow> 'c deploy_config"

definition DefaultL1Deployments :: "('c, 'dep) defaults \<Rightarrow> 'dep res" where
  "DefaultL1Deployments D = check (df_L1Deployments D) (Errorf_v ''unmarshal l1 deployments'') Ok"

text \<open>\<open>now\<close> is \<^verbatim>\<open>time.Now().Unix()\<close>.\<close>

definition DefaultDeployConfig :: "('c, 'dep) defaults \<Rightarrow> int \<Rightarrow> 'dep \<Rightarrow> 'c deploy_config res" where
  "DefaultDeployConfig D now l1Deployments =
     check (df_DeployConfig D) (Errorf_v ''unmarshal deploy config'') (\<lambda>deployConfig.
     let deployConfig = deployConfig\<lparr>dc_L1UseClique := False, dc_L1GenesisBlockTimestamp := word_of_int now,
       dc_FundDevAccounts := True, dc_L1BlockTime := 2, dc_L2BlockTime := 1\<rparr>;
       deployConfig = df_SetDeployments D l1Deployments deployConfig
     in Ok (deployConfig\<lparr>dc_SequencerWindowSize := 4\<rparr>))"

definition DefaultL1Allocs :: "('c, 'dep) defaults \<Rightarrow> allocs res" where
  "DefaultL1Allocs D = check (df_L1Allocs D) (Errorf_w ''cannot unmarshal dump'') Ok"

definition DefaultL2Allocs :: "('c, 'dep) defaults \<Rightarrow> allocs res" where
  "DefaultL2Allocs D = check (df_L2Allocs D) (Errorf_v ''unmarshal l2 allocs'') Ok"

section \<open>L1 (l1.go)\<close>

record ('g, 'u, 'r) L1Config =
  lc_Genesis :: 'g
  lc_BlobsDirPath :: string
  lc_BlockTime :: u64
  lc_URL :: "('u, 'r) URL"
  lc_BeaconURL :: "('u, 'r) URL"

record geth_cfg =
  gc_WSHost :: string
  gc_WSPort :: int
  gc_HTTPHost :: string
  gc_HTTPPort :: int
  gc_WSOrigins :: "string list"

record 'ru rollup_config =
  ro_SeqWindowSize :: u64
  ro_Rest :: 'ru

text \<open>\<^verbatim>\<open>opnode.Config\<close>, and the command line configurations of the proposer and the batcher.\<close>

record 'ru opnode_cfg =
  oc_L1NodeAddr :: string
  oc_BatchSize :: nat
  oc_MaxConcurrency :: nat
  oc_L2EngineAddr :: string
  oc_L2EngineJWTSecret :: bytes
  oc_BeaconAddr :: string
  oc_SequencerEnabled :: bool
  oc_Rollup :: "'ru rollup_config"
  oc_ListenAddr :: string
  oc_ListenPort :: int

record txmgr_cfg =
  tm_L1RPCURL :: string
  tm_PrivateKey :: string
  tm_NumConfirmations :: u64
  tm_SafeAbortNonceTooLowCount :: u64
  tm_FeeLimitMultiplier :: u64
  tm_ResubmissionTimeout :: nat
  tm_ReceiptQueryInterval :: nat
  tm_NetworkTimeout :: nat
  tm_TxNotInMempoolTimeout :: nat

record proposer_cfg =
  pr_L1EthRpc :: string
  pr_RollupRpc :: string
  pr_L2OOAddress :: string
  pr_PollInterval :: nat
  pr_AllowNonFinalized :: bool
  pr_TxMgrConfig :: txmgr_cfg
  pr_ListenAddr :: string

text \<open>The ratio is in tenths.\<close>

record batcher_cfg =
  ba_L1EthRpc :: string
  ba_L2EthRpc :: string
  ba_RollupRpc :: string
  ba_SubSafetyMargin :: u64
  ba_PollInterval :: nat
  ba_MaxPendingTransactions :: u64
  ba_ApproxComprRatio :: nat
  ba_MaxL1TxSize :: u64
  ba_TxMgrConfig :: txmgr_cfg
  ba_ListenAddr :: string
  ba_TargetNumFrames :: int

record 'ru OPConfig =
  op_Proposer :: proposer_cfg
  op_Batcher :: batcher_cfg
  op_Node :: "'ru opnode_cfg"

text \<open>What the devnet calls of the OP stack and go-ethereum.\<close>

record ('c, 'dep, 'g, 'h, 'ru, 'u, 'r) devlib =
  dl_BuildL1DeveloperGenesis :: "'c deploy_config \<Rightarrow> allocs \<Rightarrow> 'dep \<Rightarrow> 'g res"
  dl_InitL1 :: "u64 \<Rightarrow> u64 \<Rightarrow> 'g \<Rightarrow> string \<Rightarrow> geth_cfg \<Rightarrow> unit res"
  dl_GenesisHeader :: "'g \<Rightarrow> 'h"
  dl_L2OutputOracleProxy :: "'dep \<Rightarrow> address"
  dl_RollupConfig :: "'c deploy_config \<Rightarrow> 'h \<Rightarrow> hash \<Rightarrow> u64 \<Rightarrow> 'ru rollup_config res"
  dl_URLString :: "('u, 'r) stdurl \<Rightarrow> string"
  dl_NewOpNode :: "'ru opnode_cfg \<Rightarrow> unit res"
  dl_NewProposer :: "proposer_cfg \<Rightarrow> unit res"
  dl_NewBatcher :: "batcher_cfg \<Rightarrow> unit res"

definition URL_String :: "(('u, 'r) stdurl \<Rightarrow> string) \<Rightarrow> ('u, 'r) URL \<Rightarrow> string" where
  "URL_String string u = string (ur_url u)"

definition BuildL1Config ::
    "('c, 'dep, 'g, 'h, 'ru, 'u, 'r) devlib \<Rightarrow> 'c deploy_config \<Rightarrow> 'dep \<Rightarrow> allocs \<Rightarrow> ('u, 'r) URL \<Rightarrow> ('u, 'r) URL \<Rightarrow>
     string \<Rightarrow> ('g, 'u, 'r) L1Config res" where
  "BuildL1Config V deployConfig l1Deployments l1Allocs url beaconURL blobsDirPath =
     check (dl_BuildL1DeveloperGenesis V deployConfig l1Allocs l1Deployments) (Errorf_v ''build l1 developer genesis'') (\<lambda>l1Genesis.
     let scheme = URL_Scheme url in
     if scheme \<noteq> ''ws'' \<and> scheme \<noteq> ''wss'' then Err (ErrorNew ''l1 url scheme must be ws or wss'')
     else Ok \<lparr>lc_Genesis = l1Genesis, lc_BlobsDirPath = blobsDirPath, lc_BlockTime = dc_L1BlockTime deployConfig,
       lc_URL = url, lc_BeaconURL = beaconURL\<rparr>)"

definition gethConfig :: "('g, 'u, 'r) L1Config \<Rightarrow> geth_cfg" where
  "gethConfig cfg = \<lparr>gc_WSHost = URL_Hostname (lc_URL cfg), gc_WSPort = uint (URL_PortU16 (lc_URL cfg)),
     gc_HTTPHost = URL_Hostname (lc_URL cfg), gc_HTTPPort = uint (URL_PortU16 (lc_URL cfg)), gc_WSOrigins = [''*'']\<rparr>"

definition L1Config_Run ::
    "('c, 'dep, 'g, 'h, 'ru, 'u, 'r) devlib \<Rightarrow> os \<Rightarrow> ('g, 'u, 'r) L1Config \<Rightarrow> ('n process, unit) op" where
  "L1Config_Run V S cfg =
     scheck (ownQuietly S Beacon (Errorf_v ''start beacon'')) pass (\<lambda>_.
     scheck (slift (\<lambda>_. dl_InitL1 V (lc_BlockTime cfg) 8 (lc_Genesis cfg) (lc_BlobsDirPath cfg) (gethConfig cfg)))
       (Errorf_w ''init geth L1'') (\<lambda>_.
     own S GethNode (Errorf_w ''start geth L1'') ''close geth node''))"

section \<open>The OP stack (op.go)\<close>

definition newTxManagerCLIConfig ::
    "hexlib \<Rightarrow> ('w, 'k) keylib \<Rightarrow> ('c, 'dep, 'g, 'h, 'ru, 'u, 'r) devlib \<Rightarrow> ('u, 'r) URL \<Rightarrow> 'k \<Rightarrow> txmgr_cfg res" where
  "newTxManagerCLIConfig X L V l1URL key =
     check (EncodePrivKeyToString X L key) pass (\<lambda>privateKey.
     Ok \<lparr>tm_L1RPCURL = URL_String (dl_URLString V) l1URL, tm_PrivateKey = privateKey, tm_NumConfirmations = 1,
       tm_SafeAbortNonceTooLowCount = 3, tm_FeeLimitMultiplier = 5, tm_ResubmissionTimeout = 3000,
       tm_ReceiptQueryInterval = 50, tm_NetworkTimeout = 2000, tm_TxNotInMempoolTimeout = 120000\<rparr>)"

definition BuildOPConfig ::
    "hexlib \<Rightarrow> ('w, 'k) keylib \<Rightarrow> ('c, 'dep, 'g, 'h, 'ru, 'u, 'r) devlib \<Rightarrow> 'c deploy_config \<Rightarrow> 'k \<Rightarrow> 'k \<Rightarrow> 'h \<Rightarrow> address \<Rightarrow>
     hash \<times> u64 \<Rightarrow> ('u, 'r) URL \<Rightarrow> ('u, 'r) URL \<Rightarrow> ('u, 'r) URL \<Rightarrow> ('u, 'r) URL \<Rightarrow> ('u, 'r) URL \<Rightarrow> bytes \<Rightarrow> 'ru OPConfig res" where
  "BuildOPConfig X L V deployConfig batcherPrivKey proposerPrivKey l1Header l2OutputOracleAddr l2Genesis
       l1URL opNodeURL l2EngineURL l2EthURL beaconURL jwtSecret =
     check (dl_RollupConfig V deployConfig l1Header (fst l2Genesis) (snd l2Genesis)) (Errorf_v ''new rollup config'') (\<lambda>rollupConfig.
     check (newTxManagerCLIConfig X L V l1URL proposerPrivKey) pass (\<lambda>proposerTxMgr.
     check (newTxManagerCLIConfig X L V l1URL batcherPrivKey) pass (\<lambda>batcherTxMgr.
     let String = URL_String (dl_URLString V) in
     Ok \<lparr>
       op_Proposer = \<lparr>pr_L1EthRpc = String l1URL, pr_RollupRpc = String opNodeURL,
         pr_L2OOAddress = hx_AddressHex X l2OutputOracleAddr, pr_PollInterval = 50, pr_AllowNonFinalized = True,
         pr_TxMgrConfig = proposerTxMgr, pr_ListenAddr = ''127.0.0.1''\<rparr>,
       op_Batcher = \<lparr>ba_L1EthRpc = String l1URL, ba_L2EthRpc = String l2EthURL, ba_RollupRpc = String opNodeURL,
         ba_SubSafetyMargin = ro_SeqWindowSize rollupConfig div 2, ba_PollInterval = 50, ba_MaxPendingTransactions = 1,
         ba_ApproxComprRatio = 4, ba_MaxL1TxSize = 120000, ba_TxMgrConfig = batcherTxMgr, ba_ListenAddr = ''127.0.0.1'',
         ba_TargetNumFrames = 1\<rparr>,
       op_Node = \<lparr>oc_L1NodeAddr = String l1URL, oc_BatchSize = 10, oc_MaxConcurrency = 10,
         oc_L2EngineAddr = String l2EngineURL, oc_L2EngineJWTSecret = jwtSecret, oc_BeaconAddr = String beaconURL,
         oc_SequencerEnabled = True, oc_Rollup = rollupConfig, oc_ListenAddr = URL_Hostname opNodeURL,
         oc_ListenPort = uint (URL_PortU16 opNodeURL)\<rparr>\<rparr>)))"

definition OPConfig_Run ::
    "('c, 'dep, 'g, 'h, 'ru, 'u, 'r) devlib \<Rightarrow> os \<Rightarrow> 'ru OPConfig \<Rightarrow> ('n process, unit) op" where
  "OPConfig_Run V S cfg =
     scheck (slift (\<lambda>_. dl_NewOpNode V (op_Node cfg))) (Errorf_v ''new node'') (\<lambda>_.
     scheck (own S OpNode (Errorf_v ''start node'') ''stop node'') pass (\<lambda>_.
     if \<not> oc_SequencerEnabled (op_Node cfg) then sret ()
     else
     scheck (slift (\<lambda>_. dl_NewProposer V (op_Proposer cfg))) (Errorf_v ''proposer service from CLI config'') (\<lambda>_.
     scheck (own S Proposer (Errorf_v ''start proposer service'') ''stop proposer'') pass (\<lambda>_.
     scheck (slift (\<lambda>_. dl_NewBatcher V (op_Batcher cfg))) (Errorf_v ''batcher service from CLI config'') (\<lambda>_.
     own S Batcher (Errorf_v ''start batcher service'') ''stop batcher service'')))))"

section \<open>Clean-up\<close>

lemma keeps_L1Config_Run [keeps_intros]: "keeps (L1Config_Run V S cfg)"
  unfolding L1Config_Run_def by (intro keeps_intros)

lemma keeps_OPConfig_Run [keeps_intros]: "keeps (OPConfig_Run V S cfg)"
  unfolding OPConfig_Run_def by (intro keeps_intros)

section \<open>Keys\<close>

lemma be_enc_zeros: "be_dec (replicate k 0 @ bs) = be_dec bs"
  by (induction k) simp_all

lemma length_big_Bytes: "n < 256 ^ k \<Longrightarrow> length (big_Bytes n) \<le> k"
proof (induction k arbitrary: n)
  case (Suc k)
  then have "n div 256 < 256 ^ k" by (simp add: less_mult_imp_div_less mult.commute)
  then show ?case using Suc.IH [of "n div 256"] by (subst big_Bytes.simps) simp
qed (simp add: big_Bytes.simps)

lemma be_dec_snoc: "be_dec (bs @ [b]) = 256 * be_dec bs + unat b"
  by (induction bs) (simp_all add: algebra_simps)

lemma be_dec_big_Bytes: "be_dec (big_Bytes n) = n"
proof (induction n rule: big_Bytes.induct)
  case (1 n)
  show ?case
  proof (cases "n = 0")
    case False
    then show ?thesis using 1 by (subst big_Bytes.simps) (simp add: be_dec_snoc unat_byte_of_nat)
  qed (simp add: big_Bytes.simps)
qed

lemma EncodePrivKey_value: "EncodePrivKey L k = Ok bz \<Longrightarrow> length bz = 32 \<and> be_dec bz = kl_D L k"
  by (auto simp: EncodePrivKey_def Let_def be_enc_zeros be_dec_big_Bytes split: if_splits)

lemma EncodePrivKey_succeeds: "kl_D L k < 2 ^ 256 \<Longrightarrow> \<exists>bz. EncodePrivKey L k = Ok bz"
  using length_big_Bytes [of "kl_D L k" 32] by (simp add: EncodePrivKey_def Let_def)

text \<open>The string is the key of the path, as 32 bytes in hex.\<close>

definition signsWith :: "hexlib \<Rightarrow> ('w, 'k) keylib \<Rightarrow> string \<Rightarrow> string \<Rightarrow> string \<Rightarrow> bool" where
  "signsWith X L mnemonic path s \<longleftrightarrow> (\<exists>wallet key bz. kl_NewFromMnemonic L mnemonic = Ok wallet \<and>
     kl_PrivateKey L wallet path = Ok key \<and> hx_Decode X s = Ok bz \<and> length bz = 32 \<and> be_dec bz = kl_D L key)"

lemma newTxManager_key:
  assumes "hexlib_ok X" and "newTxManagerCLIConfig X L V l1URL key = Ok tm"
  shows "\<exists>bz. hx_Decode X (tm_PrivateKey tm) = Ok bz \<and> length bz = 32 \<and> be_dec bz = kl_D L key"
proof -
  obtain bz where bz: "EncodePrivKey L key = Ok bz" "tm_PrivateKey tm = hx_Encode X bz"
    using assms(2) by (auto simp: newTxManagerCLIConfig_def EncodePrivKeyToString_def elim!: check_OkE)
  moreover have "hx_Decode X (hx_Encode X bz) = Ok bz" using assms(1) by (simp add: hexlib_ok_def)
  ultimately show ?thesis using EncodePrivKey_value [OF bz(1)] by simp
qed

lemma BuildOPConfig_succeeds:
  assumes "dl_RollupConfig V dc l1h (fst l2g) (snd l2g) = Ok ru"
    and "EncodePrivKey L proposer = Ok b1" and "EncodePrivKey L batcher = Ok b2"
  shows "\<exists>cfg. BuildOPConfig X L V dc batcher proposer l1h oracle l2g l1URL opNodeURL engineURL ethURL beaconURL jwt = Ok cfg"
  using assms by (simp add: BuildOPConfig_def newTxManagerCLIConfig_def EncodePrivKeyToString_def Let_def)

text \<open>
  The devnet's actors sign with their own keys. Whatever mnemonic configuration yields
  secrets, and whatever OP configuration is built with them: the proposer and the batcher get,
  in hex and as exactly 32 bytes, the private key the wallet derives at their own path of the
  mnemonic; both post to the same L1, and both and the node read the rollup through the
  node's address, whose port is the one the node listens on.
\<close>

theorem devnet_actors_sign_with_their_keys:
  assumes hx: "hexlib_ok X" and secrets: "MnemonicConfig_Secrets L m = Ok s"
    and build: "BuildOPConfig X L V dc (ac_Batcher s) (ac_Proposer s) l1h oracle l2g l1URL opNodeURL engineURL ethURL beaconURL jwt = Ok cfg"
  shows "signsWith X L (mc_Mnemonic m) (mc_Proposer m) (tm_PrivateKey (pr_TxMgrConfig (op_Proposer cfg))) \<and>
    signsWith X L (mc_Mnemonic m) (mc_Batcher m) (tm_PrivateKey (ba_TxMgrConfig (op_Batcher cfg))) \<and>
    tm_L1RPCURL (pr_TxMgrConfig (op_Proposer cfg)) = oc_L1NodeAddr (op_Node cfg) \<and>
    tm_L1RPCURL (ba_TxMgrConfig (op_Batcher cfg)) = oc_L1NodeAddr (op_Node cfg) \<and>
    pr_RollupRpc (op_Proposer cfg) = ba_RollupRpc (op_Batcher cfg) \<and>
    oc_ListenAddr (op_Node cfg) = URL_Hostname opNodeURL \<and> oc_ListenPort (op_Node cfg) = uint (URL_PortU16 opNodeURL)"
proof -
  obtain w where w: "kl_NewFromMnemonic L (mc_Mnemonic m) = Ok w" "kl_PrivateKey L w (mc_Proposer m) = Ok (ac_Proposer s)"
    "kl_PrivateKey L w (mc_Batcher m) = Ok (ac_Batcher s)"
    using secrets by (auto simp: MnemonicConfig_Secrets_def elim!: check_OkE)
  obtain pm bm where tm: "newTxManagerCLIConfig X L V l1URL (ac_Proposer s) = Ok pm"
      "newTxManagerCLIConfig X L V l1URL (ac_Batcher s) = Ok bm"
    and cfg: "pr_TxMgrConfig (op_Proposer cfg) = pm" "ba_TxMgrConfig (op_Batcher cfg) = bm"
      "pr_RollupRpc (op_Proposer cfg) = ba_RollupRpc (op_Batcher cfg)"
      "oc_L1NodeAddr (op_Node cfg) = URL_String (dl_URLString V) l1URL"
      "oc_ListenAddr (op_Node cfg) = URL_Hostname opNodeURL" "oc_ListenPort (op_Node cfg) = uint (URL_PortU16 opNodeURL)"
    using build by (auto simp: BuildOPConfig_def Let_def elim!: check_OkE)
  have "tm_L1RPCURL pm = URL_String (dl_URLString V) l1URL" "tm_L1RPCURL bm = URL_String (dl_URLString V) l1URL"
    using tm by (auto simp: newTxManagerCLIConfig_def elim!: check_OkE)
  moreover have "signsWith X L (mc_Mnemonic m) (mc_Proposer m) (tm_PrivateKey pm)"
    using w newTxManager_key [OF hx tm(1)] unfolding signsWith_def by blast
  moreover have "signsWith X L (mc_Mnemonic m) (mc_Batcher m) (tm_PrivateKey bm)"
    using w newTxManager_key [OF hx tm(2)] unfolding signsWith_def by blast
  ultimately show ?thesis using cfg by simp
qed

definition toy_keys :: "(unit, nat) keylib" where
  "toy_keys = \<lparr>kl_NewFromMnemonic = (\<lambda>s. Ok ()), kl_PrivateKey = (\<lambda>w path. Ok (if last path = CHR ''1'' then 258 else 7)),
     kl_D = (\<lambda>k. k), kl_PubkeyToAddress = of_nat\<rparr>"

definition toy_dev :: "(unit, unit, unit, unit, unit, unit, unit) devlib" where
  "toy_dev = \<lparr>dl_BuildL1DeveloperGenesis = (\<lambda>c a d. Ok ()), dl_InitL1 = (\<lambda>t f g b c. Ok ()), dl_GenesisHeader = (\<lambda>g. ()),
     dl_L2OutputOracleProxy = (\<lambda>d. 9), dl_RollupConfig = (\<lambda>c h x n. Ok \<lparr>ro_SeqWindowSize = 4, ro_Rest = ()\<rparr>),
     dl_URLString = su_Host, dl_NewOpNode = (\<lambda>c. Ok ()), dl_NewProposer = (\<lambda>c. Ok ()), dl_NewBatcher = (\<lambda>c. Ok ())\<rparr>"

definition toy_url :: "(unit, unit) URL" where
  "toy_url = \<lparr>ur_url = \<lparr>su_Scheme = ''ws'', su_Host = ''h:9000'', su_User = None, su_Rest = ()\<rparr>, ur_port = 9000\<rparr>"

definition toy_deploy :: "unit deploy_config" where
  "toy_deploy = \<lparr>dc_L1UseClique = False, dc_L1GenesisBlockTimestamp = 0, dc_FundDevAccounts = True, dc_L1BlockTime = 2,
     dc_L2BlockTime = 1, dc_SequencerWindowSize = 4, dc_L2ChainID = 0, dc_Rest = ()\<rparr>"

theorem devnet_actors_sign_with_their_keys_witness:
  "\<exists>s cfg. MnemonicConfig_Secrets toy_keys DefaultMnemonicConfig = Ok s \<and>
     BuildOPConfig toy_hex toy_keys toy_dev toy_deploy (ac_Batcher s) (ac_Proposer s) () 9 (0, 1)
       toy_url toy_url toy_url toy_url toy_url [] = Ok cfg \<and>
     signsWith toy_hex toy_keys (mc_Mnemonic DefaultMnemonicConfig) (mc_Proposer DefaultMnemonicConfig)
       (tm_PrivateKey (pr_TxMgrConfig (op_Proposer cfg)))"
proof -
  obtain s where s: "MnemonicConfig_Secrets toy_keys DefaultMnemonicConfig = Ok s"
    by (simp add: MnemonicConfig_Secrets_def toy_keys_def)
  have small: "kl_D toy_keys k < 2 ^ 256" if "kl_PrivateKey toy_keys w path = Ok k" for w path k
    using that by (auto simp: toy_keys_def)
  obtain w where "kl_PrivateKey toy_keys w (mc_Proposer DefaultMnemonicConfig) = Ok (ac_Proposer s)"
    "kl_PrivateKey toy_keys w (mc_Batcher DefaultMnemonicConfig) = Ok (ac_Batcher s)"
    using s unfolding MnemonicConfig_Secrets_def by (auto elim!: check_OkE)
  then obtain b1 b2 where keys: "EncodePrivKey toy_keys (ac_Proposer s) = Ok b1" "EncodePrivKey toy_keys (ac_Batcher s) = Ok b2"
    by (metis EncodePrivKey_succeeds small)
  have "dl_RollupConfig toy_dev toy_deploy () (fst (0, 1)) (snd (0, 1)) = Ok \<lparr>ro_SeqWindowSize = 4, ro_Rest = ()\<rparr>"
    by (simp add: toy_dev_def)
  from BuildOPConfig_succeeds [OF this keys]
  obtain cfg where cfg: "BuildOPConfig toy_hex toy_keys toy_dev toy_deploy (ac_Batcher s) (ac_Proposer s) () 9 (0, 1)
       toy_url toy_url toy_url toy_url toy_url [] = Ok cfg" by (rule exE)
  from devnet_actors_sign_with_their_keys [OF toy_hex_ok s cfg] show ?thesis using s cfg by blast
qed

end
