(* ===== verification/AppWrapper.thy ===== *)
theory AppWrapper
  imports NodeStart
begin

text \<open>
  Wrapping a Cosmos SDK application for the node (\<^verbatim>\<open>integrations/wrapper.go\<close>): the calls of the
  node and the builder are passed on, heights as signed versions.
\<close>

section \<open>The wrapper\<close>

text \<open>The SDK's application: versions of its store are signed.\<close>

record ('a, 'cq, 'cr, 'qq, 'qr) sdk_app =
  sa_RollbackToVersion :: "int \<Rightarrow> ('a, unit) op"
  sa_Info :: "('a, bytes) op"
  sa_LastBlockHeight :: "('a, int) op"
  sa_CheckTx :: "'cq \<Rightarrow> ('a, 'cr) op"
  sa_Commit :: "('a, unit) op"
  sa_FinalizeBlock :: "finalize_request \<Rightarrow> ('a, finalize_response) op"
  sa_InitChain :: "init_request \<Rightarrow> ('a, unit) op"
  sa_Query :: "'qq \<Rightarrow> ('a, 'qr) op"

definition WrappedApplication_RollbackToHeight :: "('a, 'cq, 'cr, 'qq, 'qr) sdk_app \<Rightarrow> u64 \<Rightarrow> ('a, unit) op" where
  "WrappedApplication_RollbackToHeight A targetHeight = sa_RollbackToVersion A (sint targetHeight)"

definition WrappedApplication_CheckTx :: "('a, 'cq, 'cr, 'qq, 'qr) sdk_app \<Rightarrow> 'cq \<Rightarrow> ('a, 'cr) op" where
  "WrappedApplication_CheckTx A req = sa_CheckTx A req"

definition WrappedApplication_Query :: "('a, 'cq, 'cr, 'qq, 'qr) sdk_app \<Rightarrow> 'qq \<Rightarrow> ('a, 'qr) op" where
  "WrappedApplication_Query A req = sa_Query A req"

text \<open>The calls of the node and the builder; \<^verbatim>\<open>Info\<close> answers the application hash and the height.\<close>

definition WrappedApplication :: "('a, 'cq, 'cr, 'qq, 'qr) sdk_app \<Rightarrow> 'a start_app" where
  "WrappedApplication A = \<lparr>app_Info = sa_Info A, app_FinalizeBlock = sa_FinalizeBlock A, app_Commit = sa_Commit A,
     app_RollbackToHeight = WrappedApplication_RollbackToHeight A, app_InitChain = sa_InitChain A,
     app_LastBlockHeight = sa_LastBlockHeight A\<rparr>"

end
