(* ===== verification/Integrations.thy ===== *)
theory Integrations
  imports NodeRun OpDevnet AppWrapper
begin

text \<open>
  The start command (\<^verbatim>\<open>integrations\<close>): adapting the SDK's logger for the application, and
  starting the application, the node, the optional servers and the optional devnet in one
  process, whose environment is closed when the command ends. Configuration, files, the SDK's
  servers and the operating system are parameters.
\<close>

section \<open>The logger (logger.go)\<close>

datatype cosmos_level = LogDebug | LogInfo | LogWarn | LogError

text \<open>A logger is the key-value pairs it adds; a log is the list of what was written.\<close>

record 'v log_entry =
  le_Level :: cosmos_level
  le_Msg :: string
  le_KVs :: "'v list"

type_synonym 'v logger = "'v list"

definition cosmosLog :: "cosmos_level \<Rightarrow> 'v logger \<Rightarrow> string \<Rightarrow> 'v list \<Rightarrow> ('v log_entry list, unit) op" where
  "cosmosLog lvl l msg kvs log = (Ok (), log @ [\<lparr>le_Level = lvl, le_Msg = msg, le_KVs = l @ kvs\<rparr>])"

definition logger_With :: "'v logger \<Rightarrow> 'v list \<Rightarrow> 'v logger" where
  "logger_With l kvs = l @ kvs"

definition logger_New :: "'v logger \<Rightarrow> 'v list \<Rightarrow> 'v logger" where
  "logger_New l kvs = logger_With l kvs"

text \<open>The numbers of \<^verbatim>\<open>log/slog\<close>'s levels; go-ethereum adds Trace and Crit.\<close>

definition slogDebug :: int where "slogDebug = -4"
definition slogInfo :: int where "slogInfo = 0"
definition slogWarn :: int where "slogWarn = 4"
definition slogError :: int where "slogError = 8"
definition gethTrace :: int where "gethTrace = -8"
definition gethCrit :: int where "gethCrit = 12"

lemmas level_defs = slogDebug_def slogInfo_def slogWarn_def slogError_def gethTrace_def gethCrit_def

definition logger_Write :: "'v logger \<Rightarrow> int \<Rightarrow> string \<Rightarrow> 'v list \<Rightarrow> ('v log_entry list, unit) op" where
  "logger_Write l level msg kvs =
     (if level = slogDebug then cosmosLog LogDebug l msg kvs
      else if level = slogInfo then cosmosLog LogInfo l msg kvs
      else if level = slogWarn then cosmosLog LogWarn l msg kvs
      else if level = slogError then cosmosLog LogError l msg kvs
      else (\<lambda>log. (Panic (ErrorNew ''unknown slog level''), log)))"

definition logger_Log :: "'v logger \<Rightarrow> int \<Rightarrow> string \<Rightarrow> 'v list \<Rightarrow> ('v log_entry list, unit) op" where
  "logger_Log l level msg kvs = logger_Write l level msg kvs"

definition logger_Trace :: "'v logger \<Rightarrow> string \<Rightarrow> 'v list \<Rightarrow> ('v log_entry list, unit) op" where
  "logger_Trace = cosmosLog LogDebug"
definition logger_Debug :: "'v logger \<Rightarrow> string \<Rightarrow> 'v list \<Rightarrow> ('v log_entry list, unit) op" where
  "logger_Debug = cosmosLog LogDebug"
definition logger_Info :: "'v logger \<Rightarrow> string \<Rightarrow> 'v list \<Rightarrow> ('v log_entry list, unit) op" where
  "logger_Info = cosmosLog LogInfo"
definition logger_Warn :: "'v logger \<Rightarrow> string \<Rightarrow> 'v list \<Rightarrow> ('v log_entry list, unit) op" where
  "logger_Warn = cosmosLog LogWarn"
definition logger_Error :: "'v logger \<Rightarrow> string \<Rightarrow> 'v list \<Rightarrow> ('v log_entry list, unit) op" where
  "logger_Error = cosmosLog LogError"

definition logger_Crit :: "'v logger \<Rightarrow> string \<Rightarrow> 'v list \<Rightarrow> ('v log_entry list, unit) op" where
  "logger_Crit l msg kvs = scheck (cosmosLog LogError l msg kvs) pass (\<lambda>_ log. (Panic (ErrorNew msg), log))"

definition logger_Enabled :: "int \<Rightarrow> bool" where
  "logger_Enabled level = True"

text \<open>
  Whatever the logger is asked for is either written or panics; \<^verbatim>\<open>Enabled\<close> claims every level, but
  \<^verbatim>\<open>Log\<close> panics at go-ethereum's Trace level, which \<^verbatim>\<open>Trace\<close> writes.
\<close>

lemma logger_trace_panics:
  "\<exists>e. logger_Log l gethTrace msg kvs log = (Panic e, log)" "logger_Enabled gethTrace"
  "\<exists>log'. logger_Trace l msg kvs log = (Ok (), log')"
  by (simp_all add: logger_Log_def logger_Write_def level_defs logger_Enabled_def logger_Trace_def cosmosLog_def)

section \<open>The flags of the command\<close>

datatype flag_default = StringFlag string | BoolFlag bool

definition monomerFlags :: "(string \<times> flag_default) list" where
  "monomerFlags =
     [(''monomer.engine-url'', StringFlag ''ws://127.0.0.1:9000''),
      (''monomer.sequencer'', BoolFlag False),
      (''monomer.dev-start'', BoolFlag False),
      (''monomer.dev.l1-url'', StringFlag ''ws://127.0.0.1:9001''),
      (''monomer.dev.op-node-url'', StringFlag ''http://127.0.0.1:9002''),
      (''monomer.dev.beacon-url'', StringFlag ''http://127.0.0.1:9003''),
      (''monomer.dev.l1-deployments'', StringFlag ''''),
      (''monomer.dev.deploy-config'', StringFlag ''''),
      (''monomer.dev.l1-allocs'', StringFlag ''''),
      (''monomer.dev.mneumonics'', StringFlag ''''),
      (''monomer.dev.l1-user-address'', StringFlag '''')]"

text \<open>Defining a flag twice panics: the names are distinct.\<close>

lemma monomerFlags_distinct: "distinct (map fst monomerFlags)"
  by (simp add: monomerFlags_def)

section \<open>The environment of the command\<close>

definition readFromFileOrGetDefault ::
    "(string \<Rightarrow> bytes res) \<Rightarrow> (bytes \<Rightarrow> 't res) \<Rightarrow> string \<Rightarrow> 't res \<Rightarrow> 't res" where
  "readFromFileOrGetDefault ReadFile Unmarshal path getDefault =
     (if path = '''' then check getDefault (Errorf_v ''get default'') Ok
      else check (ReadFile path) (Errorf_v ''read file'') (\<lambda>data.
        check (Unmarshal data) (Errorf_v ''unmarshal json'') Ok))"

text \<open>
  The devnet's flags and files, and what it asks of the chains: the engine's block (hash,
  number and time) at a height, and whether the L1 can be dialled.
\<close>

record ('c, 'dep, 'g, 'h, 'ru, 'u, 'r, 'w, 'k) dev_env =
  dv_os :: os
  dv_lib :: "('c, 'dep, 'g, 'h, 'ru, 'u, 'r) devlib"
  dv_keys :: "('w, 'k) keylib"
  dv_hex :: hexlib
  dv_defaults :: "('c, 'dep) defaults"
  dv_now :: int
  dv_parse :: "string \<Rightarrow> ('u, 'r) stdurl res"
  dv_LookupPort :: "string \<Rightarrow> nat res"
  dv_ReadFile :: "string \<Rightarrow> bytes res"
  dv_UnmarshalL1Deployments :: "bytes \<Rightarrow> 'dep res"
  dv_UnmarshalDeployConfig :: "bytes \<Rightarrow> 'c deploy_config res"
  dv_UnmarshalL1Allocs :: "bytes \<Rightarrow> allocs res"
  dv_UnmarshalMnemonics :: "bytes \<Rightarrow> MnemonicConfig res"
  dv_BlockByNumber :: "u64 \<Rightarrow> (hash \<times> u64 \<times> u64) res"
  dv_L1Up :: bool
  dv_TempDir :: string
  dv_flagL1DeploymentsPath :: string
  dv_flagDeployConfigPath :: string
  dv_flagL1AllocsPath :: string
  dv_flagMneumonicsPath :: string
  dv_flagL1URL :: string
  dv_flagOPNodeURL :: string
  dv_flagBeaconURL :: string
  dv_flagL1UserAddress :: string
  dv_flagSequencerMode :: bool

text \<open>100,000 ETH for the user's L1 account.\<close>

definition l1UserBalance :: nat where "l1UserBalance = 0x152D02C7E14AF6800000"

definition fundL1User :: "hexlib \<Rightarrow> string \<Rightarrow> allocs \<Rightarrow> allocs res" where
  "fundL1User X l1UserAddressStr l1Allocs =
     (if l1UserAddressStr \<noteq> '''' then
        (if \<not> hx_IsHexAddress X l1UserAddressStr then Err (ErrorNew ''l1 user address is not a valid hex address'')
         else Ok (l1Allocs(hx_HexToAddress X l1UserAddressStr \<mapsto> \<lparr>la_Code = [], la_Balance = l1UserBalance, la_Nonce = 0\<rparr>)))
      else Ok l1Allocs)"

definition startOPDevnet ::
    "('c, 'dep, 'g, 'h, 'ru, 'u, 'r, 'w, 'k, 'z) dev_env_scheme \<Rightarrow> ('u, 'r) URL \<Rightarrow> u64 \<Rightarrow> ('n process, unit) op" where
  "startOPDevnet I engineURL l2ChainID =
     (let V = dv_lib I; S = dv_os I; D = dv_defaults I;
        ParseURL = ParseString (dv_parse I) (dv_LookupPort I) in
      scheck (acquire S (EngineClient (URL_String (dl_URLString V) engineURL))) (Errorf_v ''dial engine'') (\<lambda>_.
      scheck (slift (\<lambda>_. dv_BlockByNumber I 1)) (Errorf_v ''get l2 genesis block'') (\<lambda>(l2Hash, l2Number, l2Time).
      scheck (slift (\<lambda>_. readFromFileOrGetDefault (dv_ReadFile I) (dv_UnmarshalL1Deployments I)
          (dv_flagL1DeploymentsPath I) (DefaultL1Deployments D))) (Errorf_v ''get l1 deployments'') (\<lambda>l1Deployments.
      scheck (slift (\<lambda>_. readFromFileOrGetDefault (dv_ReadFile I) (dv_UnmarshalDeployConfig I)
          (dv_flagDeployConfigPath I) (DefaultDeployConfig D (dv_now I) l1Deployments))) (Errorf_v ''get deploy config'') (\<lambda>deployConfig.
      if l2Time = 0 then sfail (ErrorNew ''l2 genesis timestamp must be non-zero'')
      else
      let deployConfig = deployConfig\<lparr>dc_L2ChainID := l2ChainID, dc_L1GenesisBlockTimestamp := l2Time\<rparr> in
      scheck (slift (\<lambda>_. readFromFileOrGetDefault (dv_ReadFile I) (dv_UnmarshalL1Allocs I)
          (dv_flagL1AllocsPath I) (DefaultL1Allocs D))) (Errorf_v ''get l1 allocs'') (\<lambda>l1Allocs.
      scheck (slift (\<lambda>_. readFromFileOrGetDefault (dv_ReadFile I) (dv_UnmarshalMnemonics I)
          (dv_flagMneumonicsPath I) (Ok DefaultMnemonicConfig))) (Errorf_v ''get mneumonic config'') (\<lambda>mneumonics.
      scheck (slift (\<lambda>_. MnemonicConfig_Secrets (dv_keys I) mneumonics)) (Errorf_v ''derive secrets from mneumonics'') (\<lambda>secrets.
      scheck (slift (\<lambda>_. ParseURL (dv_flagL1URL I))) (Errorf_v ''parse l1 url'') (\<lambda>l1URL.
      scheck (slift (\<lambda>_. ParseURL (dv_flagOPNodeURL I))) (Errorf_v ''parse op node url'') (\<lambda>opNodeURL.
      scheck (slift (\<lambda>_. fundL1User (dv_hex I) (dv_flagL1UserAddress I) l1Allocs)) pass (\<lambda>l1Allocs.
      scheck (slift (\<lambda>_. ParseURL (dv_flagBeaconURL I))) (Errorf_v ''parse beacon url'') (\<lambda>beaconURL.
      scheck (slift (\<lambda>_. BuildL1Config V deployConfig l1Deployments l1Allocs l1URL beaconURL (dv_TempDir I)))
        (Errorf_v ''build l1 config'') (\<lambda>l1Config.
      scheck (if dv_L1Up I then sret () else scheck (L1Config_Run V S l1Config) (Errorf_v ''run l1'') sret) pass (\<lambda>_.
      scheck (slift (\<lambda>_. BuildOPConfig (dv_hex I) (dv_keys I) V deployConfig (ac_Batcher secrets) (ac_Proposer secrets)
          (dl_GenesisHeader V (lc_Genesis l1Config)) (dl_L2OutputOracleProxy V l1Deployments) (l2Hash, l2Number)
          l1URL opNodeURL engineURL engineURL beaconURL (replicate 32 0))) (Errorf_v ''build op config'') (\<lambda>opConfig.
      let opConfig = opConfig\<lparr>op_Node := (op_Node opConfig)\<lparr>oc_SequencerEnabled := dv_flagSequencerMode I\<rparr>\<rparr> in
      scheck (OPConfig_Run V S opConfig) (Errorf_v ''run op'') sret)))))))))))))))"

section \<open>Starting the parts\<close>

record grpc_cfg =
  gr_Enable :: bool
  gr_Address :: string
  gr_MaxSendMsgSize :: int
  gr_MaxRecvMsgSize :: int

record svr_cfg =
  vc_API_Enable :: bool
  vc_GRPC :: grpc_cfg

record app_genesis =
  ag_ChainID :: string
  ag_AppState :: bytes
  ag_GenesisTime :: int

text \<open>The client context by what the source sets: RPC client, chain, gRPC client and its sizes, home.\<close>

record client_ctx =
  cc_Client :: "string option"
  cc_ChainID :: string
  cc_GRPC :: "(string \<times> int \<times> int) option"
  cc_HomeDir :: string

text \<open>
  What the command is given: the server's configuration and files as they read, the outcome of
  creating the application (which may panic), and what the SDK's constructors answer. A
  post-setup hook adds tasks to the error group and then succeeds or fails.
\<close>

record ('c, 'dep, 'g, 'h, 'ru, 'u, 'r, 'w, 'k, 'j) start_env = "('c, 'dep, 'g, 'h, 'ru, 'u, 'r, 'w, 'k) dev_env" +
  st_inProcessConsensus :: bool
  st_GetConfig :: "svr_cfg res"
  st_ValidateBasic :: "svr_cfg \<Rightarrow> unit res"
  st_flagDev :: bool
  st_flagEngineURL :: string
  st_AppGenesisFromFile :: "app_genesis res"
  st_AppDBBackend :: string
  st_appCreator :: "unit res"
  st_RootDir :: string
  st_DBBackend :: string
  st_RPCListenAddress :: string
  st_NewRPCClient :: "string \<Rightarrow> unit res"
  st_NewSnapshot :: "unit res"
  st_UnmarshalAppState :: "bytes \<Rightarrow> 'j res"
  st_node_cfg :: node_cfg
  st_SplitHostPort :: "string \<Rightarrow> unit res"
  st_NewGRPCServer :: "unit res"
  st_DefaultGRPCMaxSendMsgSize :: int
  st_DefaultGRPCMaxRecvMsgSize :: int
  st_PostSetup :: "(nat \<times> unit res) option"

definition MemDBBackend :: string where "MemDBBackend = ''memdb''"
definition PebbleDBBackend :: string where "PebbleDBBackend = ''pebbledb''"

definition startApp ::
    "('c, 'dep, 'g, 'h, 'ru, 'u, 'r, 'w, 'k, 'j) start_env \<Rightarrow> bool \<Rightarrow> ('n process, unit) op" where
  "startApp I devnet =
     (let backendType = if devnet then MemDBBackend else st_AppDBBackend I in
      scheck (acquire (dv_os I) (AppDB backendType)) (Errorf_v ''open db'') (\<lambda>_.
      scheck (slift (\<lambda>_. st_appCreator I)) pass (\<lambda>_.
      env_DeferErr ''close app'' (closeResource (dv_os I) (AppDB backendType)))))"

definition TrimPrefix :: "string \<Rightarrow> string \<Rightarrow> string" where
  "TrimPrefix s pre = (if take (length pre) s = pre then drop (length pre) s else s)"

definition startMonomerNode ::
    "('s, 'a, 'j, 'tx, 'blk, 'es, 'd, 'abi) node_env \<Rightarrow> ('c, 'dep, 'g, 'h, 'ru, 'u, 'r, 'w, 'k, 'j) start_env \<Rightarrow>
     client_ctx \<Rightarrow> ('u, 'r) URL \<Rightarrow> u64 \<Rightarrow> bytes \<Rightarrow> u64 \<Rightarrow> bool \<Rightarrow> (('s, 'a, 'd) node_process, client_ctx) op" where
  "startMonomerNode N I clientCtx engineURL l2ChainID appStateJSON genesisTime devnet =
     (let S = dv_os I in
      scheck (acquire S (CometListener (TrimPrefix (st_RPCListenAddress I) ''tcp://'')))
        (Errorf_v ''create CometBFT listener'') (\<lambda>_.
      scheck (slift (\<lambda>_. st_NewRPCClient I (st_RPCListenAddress I))) pass (\<lambda>_.
      let clientCtx = clientCtx\<lparr>cc_Client := Some (st_RPCListenAddress I), cc_ChainID := dec_string (unat l2ChainID)\<rparr>;
        backendType = if devnet then MemDBBackend else st_DBBackend I;
        pebbleBackend = if backendType = MemDBBackend then MemDBBackend else PebbleDBBackend in
      scheck (own S (BlockDB pebbleBackend) (Errorf_v ''open blockstore'') ''close block db'') pass (\<lambda>_.
      scheck (own S (TxDB backendType) (Errorf_v ''create tx db'') ''close tx db'') pass (\<lambda>_.
      scheck (own S (MempoolDB backendType) (Errorf_v ''create mempool db'') ''close mempool db'') pass (\<lambda>_.
      scheck (if backendType = MemDBBackend
          then scheck (acquireAlways (RawDB MemDBBackend)) pass (\<lambda>_. env_DeferErr ''close raw db'' (closeResource S (RawDB MemDBBackend)))
          else own S (RawDB PebbleDBBackend) (Errorf_v ''create raw db'') ''close raw db'') pass (\<lambda>_.
      scheck (scheck (acquireAlways TrieDB) pass (\<lambda>_. env_DeferErr ''close trieDB'' (closeResource S TrieDB))) pass (\<lambda>_.
      scheck (slift (\<lambda>_. st_NewSnapshot I)) (Errorf_v ''new snapshot tree'') (\<lambda>_.
      scheck (slift (\<lambda>_. st_UnmarshalAppState I appStateJSON)) (Errorf_v ''unmarshal app state'') (\<lambda>appState.
      scheck (acquire S (EngineListener (URL_Host engineURL))) (Errorf_v ''create engine listener'') (\<lambda>_.
      scheck (Node_Run N S (st_node_cfg I) \<lparr>g_Time = genesisTime, g_ChainID = l2ChainID, g_AppState = appState\<rparr>)
        (Errorf_v ''run Monomer node'') (\<lambda>_.
      sret clientCtx))))))))))))"

definition startGrpcServer ::
    "('c, 'dep, 'g, 'h, 'ru, 'u, 'r, 'w, 'k, 'j) start_env \<Rightarrow> grpc_cfg \<Rightarrow> client_ctx \<Rightarrow> ('n process, client_ctx) op" where
  "startGrpcServer I config clientCtx =
     scheck (slift (\<lambda>_. st_SplitHostPort I (gr_Address config))) (Errorf_v ''invalid gRPC server address'') (\<lambda>_.
     let maxSendMsgSize = if gr_MaxSendMsgSize config = 0 then st_DefaultGRPCMaxSendMsgSize I else gr_MaxSendMsgSize config;
       maxRecvMsgSize = if gr_MaxRecvMsgSize config = 0 then st_DefaultGRPCMaxRecvMsgSize I else gr_MaxRecvMsgSize config in
     scheck (acquire (dv_os I) (GrpcClient (gr_Address config))) (Errorf_v ''failed to dial gRPC server'') (\<lambda>_.
     let clientCtx = clientCtx\<lparr>cc_GRPC := Some (gr_Address config, maxRecvMsgSize, maxSendMsgSize)\<rparr> in
     scheck (slift (\<lambda>_. st_NewGRPCServer I)) (Errorf_v ''failed to create gRPC server'') (\<lambda>_.
     scheck (group_Go GrpcTask) pass (\<lambda>_. sret clientCtx))))"

text \<open>The API server gets a client context with the home directory; it is not handed back.\<close>

definition startAPIServer :: "('n process, unit) op" where
  "startAPIServer = scheck (registerServices [''api routes'']) pass (\<lambda>_. group_Go ApiTask)"

fun groupGoN :: "nat \<Rightarrow> ('n process, unit) op" where
  "groupGoN 0 = sret ()"
| "groupGoN (Suc n) = scheck (group_Go PostTask) pass (\<lambda>_. groupGoN n)"

definition startInProcess ::
    "('s, 'a, 'j, 'tx, 'blk, 'es, 'd, 'abi) node_env \<Rightarrow> ('c, 'dep, 'g, 'h, 'ru, 'u, 'r, 'w, 'k, 'j) start_env \<Rightarrow>
     svr_cfg \<Rightarrow> client_ctx \<Rightarrow> ('u, 'r) URL \<Rightarrow> u64 \<Rightarrow> bytes \<Rightarrow> u64 \<Rightarrow> bool \<Rightarrow> (('s, 'a, 'd) node_process, unit) op" where
  "startInProcess N I svrCfg clientCtx engineWS l2ChainID appState genesisTime isDevnet =
     scheck (startMonomerNode N I clientCtx engineWS l2ChainID appState genesisTime isDevnet)
       (Errorf_v ''start Monomer node'') (\<lambda>clientCtx.
     scheck (if vc_API_Enable svrCfg \<or> gr_Enable (vc_GRPC svrCfg)
         then registerServices [''tx'', ''tendermint'', ''node''] else sret ()) pass (\<lambda>_.
     scheck (if gr_Enable (vc_GRPC svrCfg)
         then scheck (startGrpcServer I (vc_GRPC svrCfg) clientCtx) (Errorf_v ''start gRPC server'') sret
         else sret clientCtx) pass (\<lambda>clientCtx.
     scheck (if vc_API_Enable svrCfg then startAPIServer else sret ()) pass (\<lambda>_.
     case st_PostSetup I of
       None \<Rightarrow> sret ()
     | Some (tasks, outcome) \<Rightarrow>
         scheck (groupGoN tasks) pass (\<lambda>_.
         scheck (slift (\<lambda>_. outcome)) (Errorf_v ''run post setup'') sret)))))"

section \<open>The command (integrations.go)\<close>

definition getCtx :: "('n process, unit) op" where
  "getCtx = group_Go SignalTask"

text \<open>Everything of \<^verbatim>\<open>startCommandHandler\<close> up to its wait for the error group.\<close>

definition startCommand ::
    "('s, 'a, 'j, 'tx, 'blk, 'es, 'd, 'abi) node_env \<Rightarrow> ('c, 'dep, 'g, 'h, 'ru, 'u, 'r, 'w, 'k, 'j) start_env \<Rightarrow>
     client_ctx \<Rightarrow> (('s, 'a, 'd) node_process, unit) op" where
  "startCommand N I clientCtx =
     (if \<not> st_inProcessConsensus I then sfail (ErrorNew ''in-process consensus must be enabled'')
      else
      scheck (slift (\<lambda>_. st_GetConfig I)) (Errorf_v ''get server config'') (\<lambda>svrCfg.
      scheck (slift (\<lambda>_. st_ValidateBasic I svrCfg)) (Errorf_v ''validate server config'') (\<lambda>_.
      let isDevnet = st_flagDev I in
      scheck (startApp I isDevnet) (Errorf_v ''start application'') (\<lambda>_.
      scheck (slift (\<lambda>_. ParseString (dv_parse I) (dv_LookupPort I) (st_flagEngineURL I))) (Errorf_v ''parse engine url'') (\<lambda>engineURL.
      let scheme = URL_Scheme engineURL in
      if scheme \<noteq> ''ws'' \<and> scheme \<noteq> ''wss'' then sfail (ErrorNew ''engine url needs to have scheme ws or wss'')
      else
      scheck (slift (\<lambda>_. st_AppGenesisFromFile I)) (Errorf_v ''load application genesis file'') (\<lambda>appGenesis.
      scheck (slift (\<lambda>_. ParseUint 64 (ag_ChainID appGenesis))) (Errorf_v ''parse chain ID'') (\<lambda>chainID.
      let l2ChainID = of_nat chainID in
      scheck (scheck getCtx pass (\<lambda>_. env_DeferErr ''unexpected error in errgroup'' group_Wait)) pass (\<lambda>_.
      scheck (startInProcess N I svrCfg clientCtx engineURL l2ChainID (ag_AppState appGenesis)
          (word_of_int (ag_GenesisTime appGenesis)) isDevnet) (Errorf_v ''start Monomer node in-process'') (\<lambda>_.
      if isDevnet then startOPDevnet I engineURL l2ChainID else sret ())))))))))"

text \<open>
  The handler: \<open>run\<close> is what the goroutines do from the end of the start until nothing moves any
  more. A start that succeeded waits for the error group; then, and also after a failed start
  or a panic, the deferred \<^verbatim>\<open>env.Close\<close> runs, whose error is only logged.
\<close>

definition startCommandHandler ::
    "('s, 'a, 'j, 'tx, 'blk, 'es, 'd, 'abi) node_env \<Rightarrow> ('c, 'dep, 'g, 'h, 'ru, 'u, 'r, 'w, 'k, 'j) start_env \<Rightarrow>
     client_ctx \<Rightarrow> (('s, 'a, 'd) node_process \<Rightarrow> ('s, 'a, 'd) node_process) \<Rightarrow> (('s, 'a, 'd) node_process, unit) pop" where
  "startCommandHandler N I clientCtx run p =
     (case startCommand N I clientCtx p of
        (r, p1) \<Rightarrow>
          let p2 = run p1 in
          case (case r of Ok _ \<Rightarrow> map_option fst (group_Wait (p_world p2)) | _ \<Rightarrow> Some r) of
            None \<Rightarrow> None
          | Some waited \<Rightarrow>
              let r' = (case r of Ok _ \<Rightarrow> check waited (Errorf_v ''unexpected error in errgroup'') Ok | _ \<Rightarrow> r) in
              case env_Close p2 of
                None \<Rightarrow> None
              | Some (Panic e, p3) \<Rightarrow> Some (Panic e, p3)
              | Some (_, p3) \<Rightarrow> Some (r', p3))"

section \<open>Everything that is started is owned\<close>

lemma keeps_startApp [keeps_intros]: "st_appCreator I = Ok () \<Longrightarrow> keeps (startApp I devnet)"
  unfolding keeps_def
proof (intro allI impI)
  fix p
  assume "st_appCreator I = Ok ()" "owned p"
  then show "owned (snd (startApp I devnet p))"
    using closeResource_covers [of "dv_os I"] closeResource_good [of "dv_os I"]
    by (auto simp: startApp_def Let_def scheck_def acquire_def env_DeferErr_def DeferErr_def owned_def split: option.splits)
qed

lemma keeps_getCtx [keeps_intros]: "keeps (scheck getCtx w (\<lambda>_. env_DeferErr msg group_Wait))"
  unfolding keeps_def
proof (intro allI impI)
  fix p
  assume "owned p"
  then show "owned (snd (scheck getCtx w (\<lambda>_. env_DeferErr msg group_Wait) p))"
    using group_Wait_good
    by (fastforce simp: getCtx_def scheck_def group_Go_def env_DeferErr_def DeferErr_def owned_def)
qed

lemma keeps_groupGoN [keeps_intros]: "keeps (groupGoN n)"
proof (induction n)
  case 0
  show ?case by (simp only: groupGoN.simps) (rule keeps_intros)
next
  case (Suc n)
  then show ?case by (simp only: groupGoN.simps) (intro keeps_intros; simp)
qed

lemma keeps_startMonomerNode [keeps_intros]: "keeps (startMonomerNode N I cc url chain js t devnet)"
  unfolding startMonomerNode_def Let_def by (intro keeps_intros) simp_all

lemma keeps_startGrpcServer [keeps_intros]: "keeps (startGrpcServer I cfg cc)"
  unfolding startGrpcServer_def Let_def by (intro keeps_intros) simp_all

lemma keeps_startAPIServer [keeps_intros]: "keeps startAPIServer"
  unfolding startAPIServer_def by (intro keeps_intros) simp_all

lemma keeps_startInProcess [keeps_intros]: "keeps (startInProcess N I cfg cc url chain js t devnet)"
  unfolding startInProcess_def by (intro keeps_intros)

lemma keeps_startOPDevnet [keeps_intros]: "keeps (startOPDevnet I url chain)"
  unfolding startOPDevnet_def Let_def by (intro keeps_intros) simp_all

lemma keeps_startCommand: "st_appCreator I = Ok () \<Longrightarrow> keeps (startCommand N I cc)"
  unfolding startCommand_def Let_def by (intro keeps_intros)

lemma owned_new_process: "owned (new_process n)"
  by (simp add: owned_def new_process_def Env_New_def)

section \<open>The command cleans up\<close>

text \<open>
  From the end of a start on, goroutines and tasks run and end and the stores change; nothing
  registers clean-up and nothing opens or closes what the command opened.
\<close>

definition settles :: "'n process \<Rightarrow> 'n process \<Rightarrow> bool" where
  "settles p p' \<longleftrightarrow> env_deferFns (p_env p') = env_deferFns (p_env p) \<and> w_open (p_world p') = w_open (p_world p) \<and>
     set (w_group (p_world p')) \<subseteq> set (w_group (p_world p))"

definition idle :: "'n process \<Rightarrow> bool" where
  "idle p \<longleftrightarrow> wg_Wait (env_wg (p_env p)) = Some (Ok ()) \<and> w_group (p_world p) = [] \<and>
     wg_Wait (w_subscribers (p_world p)) = Some (Ok ())"

lemma owned_settles: "owned p \<Longrightarrow> settles p p' \<Longrightarrow> owned p'"
  by (auto simp: owned_def settles_def)

text \<open>
  C34: the start command closes what it opened. However far a start got, whatever failed on the
  way: once every goroutine and task has ended, the command returns the error of the start
  (or, when it succeeded, that of the error group), and every database, bus and service it
  opened is closed; only listeners and clients that nothing closes are left. But as long as
  the task that waits for a signal runs, the command does not return, not even when the start
  has failed.
\<close>

theorem start_command_cleans_up:
  assumes creator: "st_appCreator I = Ok ()" and start: "startCommand N I cc (new_process n) = (r, p1)"
    and run: "settles p1 (run p1)"
  shows "(idle (run p1) \<longrightarrow>
      (\<exists>p'. startCommandHandler N I cc run (new_process n) =
         Some (case r of Ok _ \<Rightarrow> check (nilOr (w_groupErr (p_world (run p1)))) (Errorf_v ''unexpected error in errgroup'') Ok | _ \<Rightarrow> r, p') \<and>
       (\<forall>x \<in> set (w_open (p_world p')). isUnowned x))) \<and>
    (SignalTask \<in> set (w_group (p_world (run p1))) \<longrightarrow>
      (\<forall>r' p'. startCommandHandler N I cc run (new_process n) = Some (r', p') \<longrightarrow> (\<exists>e. r' = Panic e)))"
proof -
  have "owned p1" by (rule keepsD [OF keeps_startCommand [OF creator] owned_new_process start])
  then have own: "owned (run p1)" using run by (rule owned_settles)
  have closes: "\<exists>p'. startCommandHandler N I cc run (new_process n) =
      Some (case r of Ok _ \<Rightarrow> check (nilOr (w_groupErr (p_world (run p1)))) (Errorf_v ''unexpected error in errgroup'') Ok | _ \<Rightarrow> r, p') \<and>
      (\<forall>x \<in> set (w_open (p_world p')). isUnowned x)" if "idle (run p1)"
  proof -
    from that have i: "wg_Wait (env_wg (p_env (run p1))) = Some (Ok ())" "w_group (p_world (run p1)) = []"
      "wg_Wait (w_subscribers (p_world (run p1))) = Some (Ok ())" by (simp_all add: idle_def)
    from owned_closes [OF own i] obtain err p' where "env_Close (run p1) = Some (Ok err, p')"
      "set (w_open (p_world p')) \<subseteq> unowned" by blast
    then show ?thesis using start i(2)
      by (cases r) (auto simp: startCommandHandler_def Let_def group_Wait_def)
  qed
  have blocks: "\<exists>e. r' = Panic e" if busy: "SignalTask \<in> set (w_group (p_world (run p1)))"
      and ret: "startCommandHandler N I cc run (new_process n) = Some (r', p')" for r' p'
  proof (cases "env_Close (run p1)")
    case None
    then show ?thesis using ret start by (auto simp: startCommandHandler_def Let_def split: option.splits)
  next
    case (Some xp)
    then obtain e p3 where "env_Close (run p1) = Some (Panic e, p3)"
      using closing_blocks [OF own busy] by (metis surj_pair)
    then show ?thesis using ret start by (auto simp: startCommandHandler_def Let_def split: option.splits)
  qed
  show ?thesis using closes blocks by blast
qed

section \<open>A devnet is in memory\<close>

fun onDisk :: "resource \<Rightarrow> bool" where
  "onDisk (AppDB b) = (b \<noteq> MemDBBackend)"
| "onDisk (BlockDB b) = (b \<noteq> MemDBBackend)"
| "onDisk (TxDB b) = (b \<noteq> MemDBBackend)"
| "onDisk (MempoolDB b) = (b \<noteq> MemDBBackend)"
| "onDisk (RawDB b) = (b \<noteq> MemDBBackend)"
| "onDisk _ = False"

abbreviation in_memory :: "resource set" where "in_memory \<equiv> {r. \<not> onDisk r}"

lemma opens_registerAPIs [opens_intros]: "opens P (registerAPIs cfg apis)"
  by (induction cfg apis rule: registerAPIs.induct) (auto simp: opens_def split: option.splits)

lemma opens_groupGoN [opens_intros]: "opens P (groupGoN n)"
proof (induction n)
  case 0
  show ?case by (simp only: groupGoN.simps) (rule opens_intros)
next
  case (Suc n)
  then show ?case by (simp only: groupGoN.simps) (intro opens_intros; simp)
qed

lemma opens_Node_Run [opens_intros]: "opens in_memory (Node_Run N S cfg g)"
  unfolding Node_Run_def startPrometheusServer_def registerMetrics_def goServe_def onRunning_def
  by (intro opens_intros) simp_all

lemma opens_devnet_runs [opens_intros]: "opens in_memory (L1Config_Run V S l1)" "opens in_memory (OPConfig_Run V S op)"
  unfolding L1Config_Run_def OPConfig_Run_def by (intro opens_intros; simp)+

lemma opens_startInProcess [opens_intros]: "opens in_memory (startInProcess N I cfg cc url chain js t True)"
  unfolding startInProcess_def startMonomerNode_def startGrpcServer_def startAPIServer_def Let_def
  by (intro opens_intros) simp_all

lemma opens_startOPDevnet [opens_intros]: "opens in_memory (startOPDevnet I url chain)"
  unfolding startOPDevnet_def Let_def by (intro opens_intros) simp_all

lemma opens_startApp [opens_intros]: "opens in_memory (startApp I True)"
  unfolding startApp_def Let_def by (intro opens_intros) simp_all

text \<open>
  A devnet leaves nothing on disk. With the devnet flag set, whatever backend the
  configuration names for the application and for the node, and however far the start gets,
  every database it opens is in memory.
\<close>

theorem devnet_is_in_memory:
  assumes "st_flagDev I" and "startCommand N I cc (new_process n) = (r, p1)"
  shows "\<forall>x \<in> set (w_open (p_world p1)). \<not> onDisk x"
proof -
  have dev: "st_flagDev I = True" using assms(1) by simp
  have "opens in_memory (startCommand N I cc)"
    unfolding startCommand_def Let_def getCtx_def dev by (intro opens_intros)
  then have "set (w_open (p_world (snd (startCommand N I cc (new_process n))))) \<subseteq> in_memory"
    unfolding opens_def by (fastforce simp: new_process_def)
  then show ?thesis using assms(2) by auto
qed

section \<open>A start that fails half way\<close>

text \<open>The pool's database cannot be opened.\<close>

definition failing_os :: os where
  "failing_os = \<lparr>os_Open = (\<lambda>r. if r = MempoolDB MemDBBackend then Some (External ''locked'') else None), os_Close = (\<lambda>_. None)\<rparr>"

definition toy_defaults :: "(unit, unit) defaults" where
  "toy_defaults = \<lparr>df_L1Deployments = Ok (), df_DeployConfig = Ok toy_deploy, df_L1Allocs = Ok (\<lambda>_. None),
     df_L2Allocs = Ok (\<lambda>_. None), df_SetDeployments = (\<lambda>d c. c)\<rparr>"

definition toy_start :: "(unit, unit, unit, unit, unit, unit, unit, unit, nat, unit) start_env" where
  "toy_start = \<lparr>dv_os = failing_os, dv_lib = toy_dev, dv_keys = toy_keys, dv_hex = toy_hex, dv_defaults = toy_defaults,
     dv_now = 0, dv_parse = (\<lambda>s. Ok (ur_url toy_url)), dv_LookupPort = (\<lambda>s. Ok 80), dv_ReadFile = (\<lambda>s. Ok []),
     dv_UnmarshalL1Deployments = (\<lambda>b. Ok ()), dv_UnmarshalDeployConfig = (\<lambda>b. Ok toy_deploy),
     dv_UnmarshalL1Allocs = (\<lambda>b. Ok (\<lambda>_. None)), dv_UnmarshalMnemonics = (\<lambda>b. Ok DefaultMnemonicConfig),
     dv_BlockByNumber = (\<lambda>n. Ok (0, 1, 7)), dv_L1Up = False, dv_TempDir = ''/tmp'', dv_flagL1DeploymentsPath = '''',
     dv_flagDeployConfigPath = '''', dv_flagL1AllocsPath = '''', dv_flagMneumonicsPath = '''', dv_flagL1URL = ''ws://h'',
     dv_flagOPNodeURL = ''http://h'', dv_flagBeaconURL = ''http://h'', dv_flagL1UserAddress = '''', dv_flagSequencerMode = True,
     st_inProcessConsensus = True,
     st_GetConfig = Ok \<lparr>vc_API_Enable = False, vc_GRPC = \<lparr>gr_Enable = False, gr_Address = '''', gr_MaxSendMsgSize = 0, gr_MaxRecvMsgSize = 0\<rparr>\<rparr>,
     st_ValidateBasic = (\<lambda>c. Ok ()), st_flagDev = True, st_flagEngineURL = ''ws://h'',
     st_AppGenesisFromFile = Ok \<lparr>ag_ChainID = ''7'', ag_AppState = [], ag_GenesisTime = 7\<rparr>, st_AppDBBackend = ''goleveldb'',
     st_appCreator = Ok (), st_RootDir = ''/home'', st_DBBackend = ''goleveldb'', st_RPCListenAddress = ''tcp://h:1'',
     st_NewRPCClient = (\<lambda>a. Ok ()), st_NewSnapshot = Ok (), st_UnmarshalAppState = (\<lambda>b. Ok ()), st_node_cfg = prom_cfg,
     st_SplitHostPort = (\<lambda>a. Ok ()), st_NewGRPCServer = Ok (), st_DefaultGRPCMaxSendMsgSize = 0,
     st_DefaultGRPCMaxRecvMsgSize = 0, st_PostSetup = None\<rparr>"

definition toy_client :: client_ctx where
  "toy_client = \<lparr>cc_Client = None, cc_ChainID = '''', cc_GRPC = None, cc_HomeDir = ''''\<rparr>"

lemma toy_parse: "\<exists>u. ParseString (dv_parse toy_start) (dv_LookupPort toy_start) a = Ok u \<and> URL_Scheme u = ''ws''"
  by (simp add: toy_start_def ParseString_def URL_Parse_def toy_url_def stdPort_def stdHostname_def splitHostPort_def
      splitLastColon_def bracketed_def isDigit_def ParseUint_def dec_value_def URL_Scheme_def JoinHostPort_def)

lemma toy_start_fails:
  "\<exists>e p1. startCommand mem_node toy_start toy_client (new_process n) = (Err e, p1) \<and>
     w_open (p_world p1) = [TxDB MemDBBackend, BlockDB MemDBBackend, CometListener ''h:1'', AppDB MemDBBackend] \<and>
     w_group (p_world p1) = [SignalTask] \<and> env_wg (p_env p1) = [] \<and> w_subscribers (p_world p1) = []"
proof -
  obtain u where u: "ParseString (dv_parse toy_start) (dv_LookupPort toy_start) (st_flagEngineURL toy_start) = Ok u"
    "URL_Scheme u = ''ws''" using toy_parse by blast
  have c: "ParseUint 64 ''7'' = Ok 7" by (simp add: ParseUint_def isDigit_def dec_value_def)
  have sel: "st_inProcessConsensus toy_start" "st_flagDev toy_start" "st_ValidateBasic toy_start x = Ok ()"
    "st_AppGenesisFromFile toy_start = Ok \<lparr>ag_ChainID = ''7'', ag_AppState = [], ag_GenesisTime = 7\<rparr>"
    "st_appCreator toy_start = Ok ()" "dv_os toy_start = failing_os" "st_RPCListenAddress toy_start = ''tcp://h:1''"
    "st_NewRPCClient toy_start y = Ok ()" "\<exists>svr. st_GetConfig toy_start = Ok svr" for x y
    by (simp_all add: toy_start_def)
  then show ?thesis
    using u c
    by (auto simp: startCommand_def startApp_def scheck_def acquire_def failing_os_def env_DeferErr_def getCtx_def group_Go_def
        startInProcess_def startMonomerNode_def Let_def own_def TrimPrefix_def MemDBBackend_def new_process_def
        Env_New_def DeferErr_def)
qed

definition signalled :: "'n process \<Rightarrow> 'n process" where
  "signalled p = p\<lparr>p_world := (p_world p)\<lparr>w_group := []\<rparr>\<rparr>"

theorem start_command_cleans_up_witness:
  "\<exists>e p1 p'. startCommand mem_node toy_start toy_client (new_process \<lparr>rn_node = node0, rn_servers = []\<rparr>) = (Err e, p1) \<and>
     BlockDB MemDBBackend \<in> set (w_open (p_world p1)) \<and>
     startCommandHandler mem_node toy_start toy_client signalled (new_process \<lparr>rn_node = node0, rn_servers = []\<rparr>) = Some (Err e, p') \<and>
     BlockDB MemDBBackend \<notin> set (w_open (p_world p')) \<and>
     (\<forall>r q. startCommandHandler mem_node toy_start toy_client (\<lambda>p. p) (new_process \<lparr>rn_node = node0, rn_servers = []\<rparr>) = Some (r, q) \<longrightarrow>
       (\<exists>x. r = Panic x))"
proof -
  let ?n = "\<lparr>rn_node = node0, rn_servers = []\<rparr> :: (kv, u64, toy_state) running"
  obtain e p1 where st: "startCommand mem_node toy_start toy_client (new_process ?n) = (Err e, p1)"
    and p1: "w_open (p_world p1) = [TxDB MemDBBackend, BlockDB MemDBBackend, CometListener ''h:1'', AppDB MemDBBackend]"
      "w_group (p_world p1) = [SignalTask]" "env_wg (p_env p1) = []" "w_subscribers (p_world p1) = []"
    using toy_start_fails by blast
  have cr: "st_appCreator toy_start = Ok ()" by (simp add: toy_start_def)
  have s1: "settles p1 (signalled p1)" "settles p1 ((\<lambda>p. p) p1)" by (simp_all add: settles_def signalled_def)
  have idle: "idle (signalled p1)" using p1 by (simp add: idle_def signalled_def wg_Wait_def)
  obtain p' where "startCommandHandler mem_node toy_start toy_client signalled (new_process ?n) = Some (Err e, p')"
    "\<forall>x \<in> set (w_open (p_world p')). isUnowned x"
    using start_command_cleans_up [OF cr st, where run = signalled, OF s1(1)] idle by auto
  moreover have "\<forall>r q. startCommandHandler mem_node toy_start toy_client (\<lambda>p. p) (new_process ?n) = Some (r, q) \<longrightarrow> (\<exists>x. r = Panic x)"
    using start_command_cleans_up [OF cr st, where run = "\<lambda>p. p", OF s1(2)] p1(2) by auto
  ultimately show ?thesis using st p1(1) by (intro exI [of _ e] exI [of _ p1] exI [of _ p']) auto
qed

theorem devnet_is_in_memory_witness:
  "\<exists>e p1. startCommand mem_node toy_start toy_client (new_process \<lparr>rn_node = node0, rn_servers = []\<rparr>) = (Err e, p1) \<and>
     length (w_open (p_world p1)) = 4 \<and> (\<forall>x \<in> set (w_open (p_world p1)). \<not> onDisk x)"
proof -
  let ?n = "\<lparr>rn_node = node0, rn_servers = []\<rparr> :: (kv, u64, toy_state) running"
  obtain e p1 where st: "startCommand mem_node toy_start toy_client (new_process ?n) = (Err e, p1)"
    and p1: "length (w_open (p_world p1)) = 4" using toy_start_fails by fastforce
  have "st_flagDev toy_start" by (simp add: toy_start_def)
  from devnet_is_in_memory [OF this st] st p1 show ?thesis by blast
qed

end
