(* ===== verification/Monogen.thy ===== *)
theory Monogen
  imports Stores "HOL-Library.AList" "HOL-Library.Char_ord"
begin

text \<open>
  The project generator (\<^verbatim>\<open>cmd/monogen/monogen.go\<close>): it unpacks an archive of a sample application
  into a new directory and rewrites names in every file. Paths are lists of components; the file
  system is a list of paths with what they hold. The archive, failures of the file system and
  the \<^verbatim>\<open>go.mod\<close> parser are parameters.
\<close>

section \<open>Strings and paths\<close>

text \<open>\<^verbatim>\<open>strings.ReplaceAll\<close> and \<^verbatim>\<open>strings.Replace(s, old, new, 1)\<close> for a non-empty \<open>old\<close>.\<close>

fun ReplaceAll :: "string \<Rightarrow> string \<Rightarrow> string \<Rightarrow> string" where
  "ReplaceAll old new [] = []"
| "ReplaceAll old new (c # cs) =
     (if old \<noteq> [] \<and> take (length old) (c # cs) = old
      then new @ ReplaceAll old new (drop (length old) (c # cs))
      else c # ReplaceAll old new cs)"

fun ReplaceFirst :: "string \<Rightarrow> string \<Rightarrow> string \<Rightarrow> string" where
  "ReplaceFirst old new [] = []"
| "ReplaceFirst old new (c # cs) =
     (if old \<noteq> [] \<and> take (length old) (c # cs) = old then new @ drop (length old) (c # cs)
      else c # ReplaceFirst old new cs)"

type_synonym path = "string list"

fun splitSlash :: "string \<Rightarrow> string list" where
  "splitSlash [] = [[]]"
| "splitSlash (c # cs) = (if c = CHR ''/'' then [] # splitSlash cs
     else case splitSlash cs of [] \<Rightarrow> [[c]] | w # ws \<Rightarrow> (c # w) # ws)"

text \<open>\<^verbatim>\<open>filepath.Join(dir, name)\<close> for a name without dots as components.\<close>

definition joinPath :: "path \<Rightarrow> string \<Rightarrow> path" where
  "joinPath dir name = dir @ filter (\<lambda>c. c \<noteq> []) (splitSlash name)"

text \<open>\<^verbatim>\<open>%q\<close> of printable text.\<close>

definition goQuote :: "string \<Rightarrow> string" where
  "goQuote s = [CHR 0x22] @ concat (map (\<lambda>c. if c = CHR 0x22 \<or> c = CHR 0x5C then [CHR 0x5C, c] else [c]) s) @ [CHR 0x22]"

section \<open>The file system\<close>

datatype entry = Dir | File string

type_synonym fs = "(path \<times> entry) list"

definition ErrNotExist :: goerr where "ErrNotExist = External ''file does not exist''"

lemma ErrNotExist_Is: "errors_Is ErrNotExist ErrNotExist"
  by (simp add: ErrNotExist_def)

record fs_env =
  fe_Stat :: "path \<Rightarrow> goerr option"
  fe_MkdirAll :: "path \<Rightarrow> goerr option"
  fe_OpenFile :: "path \<Rightarrow> goerr option"
  fe_Close :: "path \<Rightarrow> goerr option"
  fe_ReadFile :: "path \<Rightarrow> goerr option"
  fe_WriteFile :: "path \<Rightarrow> goerr option"

definition failOr :: "goerr option \<Rightarrow> (fs, 'x) op \<Rightarrow> (fs, 'x) op" where
  "failOr e k = (case e of Some x \<Rightarrow> sfail x | None \<Rightarrow> k)"

definition os_Stat :: "fs_env \<Rightarrow> path \<Rightarrow> fs \<Rightarrow> unit res" where
  "os_Stat F p fs = (case fe_Stat F p of
       Some e \<Rightarrow> Err e
     | None \<Rightarrow> (case map_of fs p of None \<Rightarrow> Err ErrNotExist | Some _ \<Rightarrow> Ok ()))"

definition os_MkdirAll :: "fs_env \<Rightarrow> path \<Rightarrow> (fs, unit) op" where
  "os_MkdirAll F p = failOr (fe_MkdirAll F p) (\<lambda>fs.
     (Ok (), fold (\<lambda>n fs. if map_of fs (take n p) = None then AList.update (take n p) Dir fs else fs) [0..<Suc (length p)] fs))"

text \<open>Opening creates or truncates; the directory has to be there.\<close>

definition os_OpenFile :: "fs_env \<Rightarrow> path \<Rightarrow> (fs, unit) op" where
  "os_OpenFile F p = failOr (fe_OpenFile F p) (\<lambda>fs.
     if map_of fs (butlast p) \<noteq> Some Dir then (Err ErrNotExist, fs)
     else if map_of fs p = Some Dir then (Err (External ''is a directory''), fs)
     else (Ok (), AList.update p (File '''') fs))"

definition os_ReadFile :: "fs_env \<Rightarrow> path \<Rightarrow> fs \<Rightarrow> string res" where
  "os_ReadFile F p fs = (case fe_ReadFile F p of
       Some e \<Rightarrow> Err e
     | None \<Rightarrow> (case map_of fs p of Some (File c) \<Rightarrow> Ok c | _ \<Rightarrow> Err ErrNotExist))"

definition os_WriteFile :: "fs_env \<Rightarrow> path \<Rightarrow> string \<Rightarrow> (fs, unit) op" where
  "os_WriteFile F p c = failOr (fe_WriteFile F p) (\<lambda>fs. (Ok (), AList.update p (File c) fs))"

section \<open>Generating (monogen.go)\<close>

text \<open>A file of the archive: its name, its content, and whether opening, copying and closing fail.\<close>

record zfile =
  zf_Name :: string
  zf_IsDir :: bool
  zf_Content :: string
  zf_Open :: "goerr option"
  zf_Copy :: "goerr option"
  zf_Close :: "goerr option"

record 'm gomod =
  gm_Parse :: "string \<Rightarrow> 'm res"
  gm_AddReplace :: "'m \<Rightarrow> string \<Rightarrow> string \<Rightarrow> 'm res"
  gm_Format :: "'m \<Rightarrow> string res"
  gm_Abs :: "string \<Rightarrow> string res"

definition wrapCloseErr :: "goerr option \<Rightarrow> goerr option \<Rightarrow> goerr option" where
  "wrapCloseErr err closeRes =
     (let closeErr = map_option (Errorf_v ''close'') closeRes
      in if err \<noteq> None \<or> closeErr \<noteq> None then Some (multierror_Append err closeErr) else None)"

text \<open>A deferred \<^verbatim>\<open>err = wrapCloseErr(err, closer)\<close>.\<close>

definition closing :: "goerr option \<Rightarrow> (fs, unit) op \<Rightarrow> (fs, unit) op" where
  "closing c m fs = (case m fs of
       (Ok _, fs') \<Rightarrow> (case wrapCloseErr None c of None \<Rightarrow> (Ok (), fs') | Some e \<Rightarrow> (Err e, fs'))
     | (Err x, fs') \<Rightarrow> (case wrapCloseErr (Some x) c of None \<Rightarrow> (Err x, fs') | Some e \<Rightarrow> (Err e, fs'))
     | (Panic x, fs') \<Rightarrow> (Panic x, fs'))"

definition writeFile :: "fs_env \<Rightarrow> zfile \<Rightarrow> path \<Rightarrow> (fs, unit) op" where
  "writeFile F file outPath =
     scheck (os_OpenFile F outPath) (Errorf_v ''open file'') (\<lambda>_.
     closing (fe_Close F outPath)
       (case zf_Open file of
          Some e \<Rightarrow> sfail (Errorf_v ''open file in zip'' e)
        | None \<Rightarrow> closing (zf_Close file)
            (case zf_Copy file of
               Some e \<Rightarrow> sfail (Errorf_v ''copy file content'' e)
             | None \<Rightarrow> (\<lambda>fs. (Ok (), AList.update outPath (File (zf_Content file)) fs)))))"

fun unzip :: "fs_env \<Rightarrow> path \<Rightarrow> string \<Rightarrow> zfile list \<Rightarrow> (fs, unit) op" where
  "unzip F appRoot appName [] = sret ()"
| "unzip F appRoot appName (file # files) =
     (let filePath = joinPath appRoot (ReplaceAll ''testapp'' appName (zf_Name file)) in
      scheck (if zf_IsDir file then scheck (os_MkdirAll F filePath) (Errorf_v ''create directory'') sret
              else writeFile F file filePath) pass (\<lambda>_.
      unzip F appRoot appName files))"

definition monogenModule :: string where
  "monogenModule = ''github.com/polymerdao/monomer/cmd/monogen/testapp''"

definition rewrite :: "string \<Rightarrow> string \<Rightarrow> string \<Rightarrow> string" where
  "rewrite modulePath appName content = ReplaceAll ''testapp'' appName (ReplaceAll monogenModule modulePath content)"

definition replaceModulePath :: "fs_env \<Rightarrow> string \<Rightarrow> string \<Rightarrow> path \<times> entry \<Rightarrow> (fs, unit) op" where
  "replaceModulePath F modulePath appName pe = (case snd pe of
       Dir \<Rightarrow> sret ()
     | File _ \<Rightarrow>
         scheck (slift (os_ReadFile F (fst pe))) (Errorf_v ''read file'') (\<lambda>content.
         scheck (os_WriteFile F (fst pe) (rewrite modulePath appName content)) (Errorf_v ''write file'') sret))"

fun walkAll :: "fs_env \<Rightarrow> string \<Rightarrow> string \<Rightarrow> (path \<times> entry) list \<Rightarrow> (fs, unit) op" where
  "walkAll F modulePath appName [] = sret ()"
| "walkAll F modulePath appName (pe # pes) =
     scheck (replaceModulePath F modulePath appName pe) pass (\<lambda>_. walkAll F modulePath appName pes)"

text \<open>\<^verbatim>\<open>filepath.Walk\<close>: the tree in lexical order, parents first. It fails when the root is not there.\<close>

definition below :: "path \<Rightarrow> path \<Rightarrow> bool" where
  "below root p \<longleftrightarrow> take (length root) p = root"

definition walk :: "fs_env \<Rightarrow> string \<Rightarrow> string \<Rightarrow> path \<Rightarrow> (fs, unit) op" where
  "walk F modulePath appName root fs =
     (if map_of fs root = None then (Err ErrNotExist, fs)
      else walkAll F modulePath appName (sort_key fst (filter (\<lambda>pe. below root (fst pe)) (AList.clearjunk fs))) fs)"

text \<open>Everything after the check that the directory is new.\<close>

definition generateInto ::
    "fs_env \<Rightarrow> 'm gomod \<Rightarrow> zfile list res \<Rightarrow> path \<Rightarrow> string \<Rightarrow> string \<Rightarrow> string \<Rightarrow> (fs, unit) op" where
  "generateInto F M appZip appDirPath goModulePath addressPrefix monomerPath =
     (let appName = last appDirPath; appRoot = butlast appDirPath;
        appGoPath = appDirPath @ [''app'', ''app.go'']; goModPath = appDirPath @ [''go.mod''] in
      scheck (slift (\<lambda>_. appZip)) (Errorf_v ''create zip reader'') (\<lambda>files.
      scheck (unzip F appRoot appName files) pass (\<lambda>_.
      scheck (walk F goModulePath appName appDirPath) (Errorf_v ''replace module path everywhere'') (\<lambda>_.
      scheck (slift (os_ReadFile F appGoPath)) (Errorf_v ''read file'') (\<lambda>appGo.
      scheck (os_WriteFile F appGoPath (ReplaceFirst (''AccountAddressPrefix = '' @ goQuote ''cosmos'')
          (''AccountAddressPrefix = '' @ goQuote addressPrefix) appGo)) (Errorf_v ''write file'') (\<lambda>_.
      if monomerPath = '''' then sret ()
      else
      scheck (slift (os_ReadFile F goModPath)) (Errorf_v ''read file'') (\<lambda>goModBytes.
      scheck (slift (\<lambda>_. gm_Parse M goModBytes)) (Errorf_v ''parse'') (\<lambda>goMod.
      scheck (slift (\<lambda>_. gm_Abs M monomerPath)) (Errorf_v ''absolute monomer path'') (\<lambda>monomerPathAbs.
      scheck (slift (\<lambda>_. gm_AddReplace M goMod ''github.com/polymerdao/monomer'' monomerPathAbs)) (Errorf_v ''add replace'') (\<lambda>goMod.
      scheck (slift (\<lambda>_. gm_Format M goMod)) (Errorf_v ''format'') (\<lambda>goModBytes.
      scheck (os_WriteFile F goModPath goModBytes) (Errorf_v ''write file'') sret)))))))))))"

definition Generate ::
    "fs_env \<Rightarrow> 'm gomod \<Rightarrow> zfile list res \<Rightarrow> path \<Rightarrow> string \<Rightarrow> string \<Rightarrow> string \<Rightarrow> (fs, unit) op" where
  "Generate F M appZip appDirPath goModulePath addressPrefix monomerPath fs =
     (case os_Stat F appDirPath fs of
        Ok _ \<Rightarrow> (Err (ErrorNew ''refusing to overwrite''), fs)
      | Panic x \<Rightarrow> (Panic x, fs)
      | Err e \<Rightarrow>
          if \<not> errors_Is e ErrNotExist then (Err (Errorf_v ''stat'' e), fs)
          else generateInto F M appZip appDirPath goModulePath addressPrefix monomerPath fs)"

section \<open>Nothing that was there is touched\<close>

text \<open>\<open>spares Q m\<close>: however \<open>m\<close> ends, entries that exist outside \<open>Q\<close> are as before.\<close>

definition spares :: "(path \<Rightarrow> bool) \<Rightarrow> (fs, 'x) op \<Rightarrow> bool" where
  "spares Q m \<longleftrightarrow> (\<forall>fs p e. \<not> Q p \<and> map_of fs p = Some e \<longrightarrow> map_of (snd (m fs)) p = Some e)"

named_theorems spares_intros \<open>steps that leave existing entries alone\<close>

lemma sparesD: "spares Q m \<Longrightarrow> \<not> Q p \<Longrightarrow> map_of fs p = Some e \<Longrightarrow> map_of (snd (m fs)) p = Some e"
  by (simp add: spares_def)

lemma spares_scheck [spares_intros]:
  assumes "spares Q m" and "\<And>x. spares Q (k x)"
  shows "spares Q (scheck m w k)"
  unfolding spares_def
proof (intro allI impI, elim conjE)
  fix fs :: fs and p e assume p: "\<not> Q p" "map_of fs p = Some e"
  obtain r fs1 where m: "m fs = (r, fs1)" by (cases "m fs")
  then have "map_of fs1 p = Some e" using sparesD [OF assms(1) p] by simp
  then show "map_of (snd (scheck m w k fs)) p = Some e"
    using m sparesD [OF assms(2) p(1)] by (cases r) (auto simp: scheck_def)
qed

lemma spares_pure [spares_intros]: "spares Q (slift f)" "spares Q (sret x)" "spares Q (sfail e)"
  by (simp_all add: spares_def)

lemma spares_given: "(\<And>x. v = Ok x \<Longrightarrow> spares Q (k x)) \<Longrightarrow> spares Q (scheck (slift (\<lambda>_. v)) w k)"
  by (cases v) (simp_all add: spares_def scheck_def)

lemma spares_control [spares_intros]:
  "(b \<Longrightarrow> spares Q m) \<Longrightarrow> (\<not> b \<Longrightarrow> spares Q m') \<Longrightarrow> spares Q (if b then m else m')"
  "spares Q m \<Longrightarrow> (\<And>x. spares Q (k x)) \<Longrightarrow> spares Q (case v of None \<Rightarrow> m | Some x \<Rightarrow> k x)"
  "(\<And>x. spares Q (k x)) \<Longrightarrow> spares Q (let x = u in k x)"
  "spares Q m \<Longrightarrow> spares Q (failOr y m)"
  by (simp_all add: failOr_def split: option.splits) (simp_all add: spares_def)

lemma spares_update [spares_intros]: "Q p \<Longrightarrow> spares Q (\<lambda>fs. (Ok (), AList.update p c fs))"
  by (auto simp: spares_def AList.update_conv')

lemma spares_closing [spares_intros]: "spares Q m \<Longrightarrow> spares Q (closing c m)"
  unfolding spares_def closing_def by (fastforce split: prod.splits res.splits option.splits)

lemma mkdir_spares:
  "map_of fs p = Some e \<Longrightarrow>
   map_of (fold (\<lambda>n fs. if map_of fs (take n q) = None then AList.update (take n q) Dir fs else fs) ns fs) p = Some e"
proof (induction ns arbitrary: fs)
  case (Cons n ns)
  then have "map_of (if map_of fs (take n q) = None then AList.update (take n q) Dir fs else fs) p = Some e"
    by (auto simp: AList.update_conv')
  then show ?case using Cons.IH by simp
qed simp

lemma spares_MkdirAll [spares_intros]: "spares Q (os_MkdirAll F p)"
  unfolding os_MkdirAll_def by (intro spares_intros) (unfold spares_def snd_conv, blast intro: mkdir_spares)

lemma spares_OpenFile [spares_intros]: "Q p \<Longrightarrow> spares Q (os_OpenFile F p)"
  unfolding os_OpenFile_def by (intro spares_intros) (auto simp: spares_def AList.update_conv')

lemma spares_WriteFile [spares_intros]: "Q p \<Longrightarrow> spares Q (os_WriteFile F p c)"
  unfolding os_WriteFile_def by (intro spares_intros) simp

lemma spares_writeFile [spares_intros]: "Q p \<Longrightarrow> spares Q (writeFile F file p)"
  unfolding writeFile_def by (intro spares_intros) simp_all

lemma spares_replaceModulePath: "Q (fst pe) \<Longrightarrow> spares Q (replaceModulePath F m a pe)"
  unfolding replaceModulePath_def by (cases "snd pe") (auto intro!: spares_intros)

lemma spares_walkAll: "\<forall>pe \<in> set pes. Q (fst pe) \<Longrightarrow> spares Q (walkAll F m a pes)"
  by (induction pes) (auto intro!: spares_intros spares_replaceModulePath simp del: sret_eq)

lemma spares_walk [spares_intros]: "spares (below root) (walk F m a root)"
  unfolding spares_def
proof (intro allI impI, elim conjE)
  fix fs :: fs and p e assume p: "\<not> below root p" "map_of fs p = Some e"
  show "map_of (snd (walk F m a root fs)) p = Some e"
  proof (cases "map_of fs root")
    case (Some x)
    have "spares (below root) (walkAll F m a (sort_key fst (filter (\<lambda>pe. below root (fst pe)) (AList.clearjunk fs))))"
      by (rule spares_walkAll) simp
    from sparesD [OF this p] show ?thesis using Some by (simp add: walk_def)
  qed (use p in \<open>simp add: walk_def\<close>)
qed

text \<open>Every name of the archive is below the sample application.\<close>

definition archive_ok :: "zfile list \<Rightarrow> bool" where
  "archive_ok files \<longleftrightarrow> list_all (\<lambda>f. take 8 (zf_Name f) = ''testapp/'') files"

lemma splitSlash_first: "CHR ''/'' \<notin> set a \<Longrightarrow> splitSlash (a @ CHR ''/'' # x) = a # splitSlash x"
  by (induction a) auto

lemma unzipped_below:
  assumes "take 8 name = ''testapp/''" and "CHR ''/'' \<notin> set a" and "a \<noteq> []"
  shows "below (root @ [a]) (joinPath root (ReplaceAll ''testapp'' a name))"
proof -
  obtain x where name: "name = ''testapp/'' @ x" using assms(1) by (metis append_take_drop_id)
  have "ReplaceAll ''testapp'' a name = a @ CHR ''/'' # ReplaceAll ''testapp'' a x" by (simp add: name)
  then show ?thesis using splitSlash_first [OF assms(2)] assms(3) by (simp add: joinPath_def below_def)
qed

lemma spares_unzip:
  assumes "archive_ok files" and "CHR ''/'' \<notin> set a" and "a \<noteq> []"
  shows "spares (below (root @ [a])) (unzip F root a files)"
  using assms(1)
proof (induction files)
  case (Cons f files)
  then have "below (root @ [a]) (joinPath root (ReplaceAll ''testapp'' a (zf_Name f)))"
    using unzipped_below [OF _ assms(2,3)] by (simp add: archive_ok_def)
  moreover have "spares (below (root @ [a])) (unzip F root a files)" using Cons by (simp add: archive_ok_def)
  ultimately show ?case unfolding unzip.simps Let_def by (intro spares_intros)
qed (simp only: unzip.simps spares_intros)

text \<open>A tree: what holds an entry is in a directory.\<close>

definition tree :: "fs \<Rightarrow> bool" where
  "tree fs \<longleftrightarrow> (\<forall>p q. map_of fs (p @ q) \<noteq> None \<longrightarrow> map_of fs p \<noteq> None)"

text \<open>
  Generating a project never touches what is there. Whatever fails on the way, every file
  and directory that existed before is as it was: an existing project is refused, and all
  that is written is below the new directory.
\<close>

theorem generate_keeps_existing_files:
  assumes zip: "\<And>files. appZip = Ok files \<Longrightarrow> archive_ok files" and fs: "tree fs" "map_of fs p = Some e"
    and dir: "appDirPath \<noteq> []" "last appDirPath \<noteq> []" "CHR ''/'' \<notin> set (last appDirPath)"
    and stat: "\<And>x. fe_Stat F appDirPath = Some x \<Longrightarrow> \<not> errors_Is x ErrNotExist"
  shows "map_of (snd (Generate F M appZip appDirPath goModulePath addressPrefix monomerPath fs)) p = Some e"
proof (cases "os_Stat F appDirPath fs = Err ErrNotExist")
  case True
  then have new: "map_of fs appDirPath = None"
    using stat by (auto simp: os_Stat_def ErrNotExist_def split: option.splits)
  have out: "\<not> below appDirPath p"
  proof
    assume "below appDirPath p"
    then have "p = appDirPath @ drop (length appDirPath) p" unfolding below_def by (metis append_take_drop_id)
    then show False using fs new unfolding tree_def by (metis option.distinct(1))
  qed
  have d: "butlast appDirPath @ [last appDirPath] = appDirPath" using dir(1) by simp
  have unzips: "spares (below appDirPath) (unzip F (butlast appDirPath) (last appDirPath) files)" if "appZip = Ok files" for files
    using spares_unzip [OF zip [OF that] dir(3,2), of "butlast appDirPath" F] d by simp
  have "below appDirPath (appDirPath @ q)" for q by (simp add: below_def)
  then have "spares (below appDirPath) (generateInto F M appZip appDirPath goModulePath addressPrefix monomerPath)"
    unfolding generateInto_def Let_def by (intro spares_given spares_intros unzips)
  from sparesD [OF this out fs(2)] show ?thesis using True by (simp add: Generate_def ErrNotExist_Is)
next
  case False
  then show ?thesis using fs(2) stat
    by (auto simp: Generate_def os_Stat_def split: option.splits)
qed

section \<open>Names are rewritten one after the other\<close>

lemma ReplaceAll_self: "old \<noteq> [] \<Longrightarrow> ReplaceAll old new old = new"
  by (cases old) simp_all

text \<open>
  The import path of the sample becomes the module path, in which the name of the sample is then
  replaced too: a module path that contains that name is not the one that was asked for.
\<close>

lemma rewrite_module_path: "rewrite modulePath appName monogenModule = ReplaceAll ''testapp'' appName modulePath"
  by (simp add: rewrite_def ReplaceAll_self monogenModule_def)

lemma module_path_is_mangled:
  "rewrite ''example.com/my-testapp'' ''shop'' monogenModule = ''example.com/my-shop''"
  by (simp add: rewrite_module_path)

section \<open>A small archive\<close>

definition good_fs :: fs_env where
  "good_fs = \<lparr>fe_Stat = (\<lambda>_. None), fe_MkdirAll = (\<lambda>_. None), fe_OpenFile = (\<lambda>_. None), fe_Close = (\<lambda>_. None),
     fe_ReadFile = (\<lambda>_. None), fe_WriteFile = (\<lambda>_. None)\<rparr>"

definition toy_mod :: "string gomod" where
  "toy_mod = \<lparr>gm_Parse = Ok, gm_AddReplace = (\<lambda>m a b. Ok m), gm_Format = Ok, gm_Abs = Ok\<rparr>"

definition zdir :: "string \<Rightarrow> zfile" where
  "zdir n = \<lparr>zf_Name = n, zf_IsDir = True, zf_Content = '''', zf_Open = None, zf_Copy = None, zf_Close = None\<rparr>"

definition zcontent :: "string \<Rightarrow> string \<Rightarrow> zfile" where
  "zcontent n c = \<lparr>zf_Name = n, zf_IsDir = False, zf_Content = c, zf_Open = None, zf_Copy = None, zf_Close = None\<rparr>"

definition toy_archive :: "zfile list" where
  "toy_archive = [zdir ''testapp/'', zdir ''testapp/app/'', zcontent ''testapp/app/app.go'' (''AccountAddressPrefix = '' @ goQuote ''cosmos''),
     zcontent ''testapp/testapp.go'' (''import '' @ monogenModule @ ''/x of testapp'')]"

lemma toy_generate:
  "let r = Generate good_fs toy_mod (Ok toy_archive) [''home'', ''shop''] ''me/shop'' ''wei'' '''' [([], Dir), ([''home''], Dir)] in
   fst r = Ok () \<and>
   map_of (snd r) [''home'', ''shop'', ''shop.go''] = Some (File ''import me/shop/x of shop'') \<and>
   map_of (snd r) [''home'', ''shop'', ''app'', ''app.go''] = Some (File (''AccountAddressPrefix = '' @ goQuote ''wei''))"
  by code_simp

theorem generate_keeps_existing_files_witness:
  "map_of (snd (Generate good_fs toy_mod (Ok toy_archive) [''home'', ''shop''] ''me/shop'' ''wei'' ''''
     [([], Dir), ([''home''], Dir), ([''home'', ''notes''], File ''x'')])) [''home'', ''notes''] = Some (File ''x'')"
proof (rule generate_keeps_existing_files)
  show "tree [([], Dir), ([''home''], Dir), ([''home'', ''notes''], File ''x'')]"
    by (auto simp: tree_def append_eq_Cons_conv split: if_splits)
qed (auto simp: archive_ok_def toy_archive_def zdir_def zcontent_def good_fs_def)

end
