(* ===== verification/TestApp.thy ===== *)
theory TestApp
  imports RollupWire AppWrapper "HOL-Library.Multiset"
begin

text \<open>
  The sample application (\<^verbatim>\<open>testapp\<close>) that the node is exercised with: a module that stores strings
  under keys (\<^verbatim>\<open>x/testmodule\<close>), its messages on the wire, the application around it, and the
  helpers that build its genesis and transactions and look at its state. The SDK's store,
  JSON and transaction encoding are parameters; a failed requirement is an error.
\<close>

section \<open>Messages on the wire\<close>

record MsgSetValue =
  sv_FromAddress :: string
  sv_Key :: string
  sv_Value :: string

definition zero_MsgSetValue :: MsgSetValue where
  "zero_MsgSetValue = \<lparr>sv_FromAddress = [], sv_Key = [], sv_Value = []\<rparr>"

definition MsgSetValue_MarshalToSizedBuffer :: "MsgSetValue \<Rightarrow> bytes" where
  "MsgSetValue_MarshalToSizedBuffer m =
     putBytesField 0x0a (str (sv_FromAddress m)) (putBytesField 0x12 (str (sv_Key m))
       (putBytesField 0x1a (str (sv_Value m)) []))"

definition MsgSetValue_Size :: "MsgSetValue \<Rightarrow> nat" where
  "MsgSetValue_Size m = sizeBytesField (length (sv_FromAddress m)) + sizeBytesField (length (sv_Key m)) +
     sizeBytesField (length (sv_Value m))"

fun MsgSetValue_fields :: "nat \<Rightarrow> MsgSetValue fld option" where
  "MsgSetValue_fields n =
     (if n = 1 then Some (FString (\<lambda>s m. m\<lparr>sv_FromAddress := s\<rparr>))
      else if n = 2 then Some (FString (\<lambda>s m. m\<lparr>sv_Key := s\<rparr>))
      else if n = 3 then Some (FString (\<lambda>s m. m\<lparr>sv_Value := s\<rparr>))
      else None)"

definition MsgSetValue_Unmarshal :: "bytes \<Rightarrow> MsgSetValue \<Rightarrow> MsgSetValue res" where
  "MsgSetValue_Unmarshal dAtA m = unmarshalFrom MsgSetValue_fields dAtA 0 m"

record QueryValueRequest =
  qv_Key :: string

definition QueryValueRequest_MarshalToSizedBuffer :: "QueryValueRequest \<Rightarrow> bytes" where
  "QueryValueRequest_MarshalToSizedBuffer m = putBytesField 0x0a (str (qv_Key m)) []"

definition QueryValueRequest_Size :: "QueryValueRequest \<Rightarrow> nat" where
  "QueryValueRequest_Size m = sizeBytesField (length (qv_Key m))"

definition QueryValueRequest_Marshal :: "QueryValueRequest \<Rightarrow> bytes res" where
  "QueryValueRequest_Marshal m = marshalSized (QueryValueRequest_Size m) (QueryValueRequest_MarshalToSizedBuffer m)"

fun QueryValueRequest_fields :: "nat \<Rightarrow> QueryValueRequest fld option" where
  "QueryValueRequest_fields n = (if n = 1 then Some (FString (\<lambda>s m. m\<lparr>qv_Key := s\<rparr>)) else None)"

definition QueryValueRequest_Unmarshal :: "bytes \<Rightarrow> QueryValueRequest \<Rightarrow> QueryValueRequest res" where
  "QueryValueRequest_Unmarshal dAtA m = unmarshalFrom QueryValueRequest_fields dAtA 0 m"

text \<open>The value of a response is its second field.\<close>

record QueryValueResponse =
  qr_Value :: string

definition QueryValueResponse_MarshalToSizedBuffer :: "QueryValueResponse \<Rightarrow> bytes" where
  "QueryValueResponse_MarshalToSizedBuffer m = putBytesField 0x12 (str (qr_Value m)) []"

definition QueryValueResponse_Size :: "QueryValueResponse \<Rightarrow> nat" where
  "QueryValueResponse_Size m = sizeBytesField (length (qr_Value m))"

fun QueryValueResponse_fields :: "nat \<Rightarrow> QueryValueResponse fld option" where
  "QueryValueResponse_fields n = (if n = 2 then Some (FString (\<lambda>s m. m\<lparr>qr_Value := s\<rparr>)) else None)"

definition QueryValueResponse_Unmarshal :: "bytes \<Rightarrow> QueryValueResponse \<Rightarrow> QueryValueResponse res" where
  "QueryValueResponse_Unmarshal dAtA m = unmarshalFrom QueryValueResponse_fields dAtA 0 m"

section \<open>The keeper (testmodule/keeper)\<close>

record 's kv_service =
  kv_Get :: "'s \<Rightarrow> bytes \<Rightarrow> bytes option res"
  kv_Set :: "bytes \<Rightarrow> bytes \<Rightarrow> ('s, unit) op"

text \<open>A Go map is iterated in no fixed order: the pairs are given in the order of the iteration.\<close>

fun TestKeeper_InitGenesis :: "'s kv_service \<Rightarrow> (string \<times> string) list \<Rightarrow> ('s, unit) op" where
  "TestKeeper_InitGenesis S [] = sret ()"
| "TestKeeper_InitGenesis S ((k, v) # kvs) =
     scheck (kv_Set S (str k) (str v)) (Errorf_v ''set'') (\<lambda>_. TestKeeper_InitGenesis S kvs)"

definition Keeper_Value :: "'s kv_service \<Rightarrow> QueryValueRequest \<Rightarrow> ('s, QueryValueResponse) op" where
  "Keeper_Value S req =
     (let key = qv_Key req in
      if key = [] then sfail (ErrorNew ''empty key'')
      else scheck (slift (\<lambda>s. kv_Get S s (str key))) (Errorf_v ''get'') (\<lambda>valueBytes.
        sret \<lparr>qr_Value = (case valueBytes of None \<Rightarrow> [] | Some b \<Rightarrow> unstr b)\<rparr>))"

definition Keeper_SetValue :: "'s kv_service \<Rightarrow> MsgSetValue \<Rightarrow> ('s, unit) op" where
  "Keeper_SetValue S req = scheck (kv_Set S (str (sv_Key req)) (str (sv_Value req))) (Errorf_v ''set'') sret"

section \<open>The module (testmodule/module.go)\<close>

definition testModuleName :: string where "testModuleName = ''testmodule''"

text \<open>\<^verbatim>\<open>encoding/json\<close> on maps of strings, reading into a map; and the order of an iteration.\<close>

record json_lib =
  js_Unmarshal :: "bytes \<Rightarrow> (string \<rightharpoonup> string) \<Rightarrow> (string \<rightharpoonup> string) res"
  js_Marshal :: "(string \<rightharpoonup> string) \<Rightarrow> bytes res"
  js_Range :: "(string \<rightharpoonup> string) \<Rightarrow> (string \<times> string) list"

record validator_update =
  vu_PubKey :: bytes
  vu_Power :: int

definition TestModule_InitGenesis ::
    "json_lib \<Rightarrow> int \<Rightarrow> 's kv_service \<Rightarrow> bytes \<Rightarrow> ('s, validator_update list) op" where
  "TestModule_InitGenesis J pw S data =
     (case js_Unmarshal J data Map.empty of
        Err e \<Rightarrow> \<lambda>s. (Panic (Errorf_v ''unmarshal genesis data'' e), s)
      | Panic e \<Rightarrow> \<lambda>s. (Panic e, s)
      | Ok genesis \<Rightarrow> \<lambda>s. (case TestKeeper_InitGenesis S (js_Range J genesis) s of
          (Ok _, s') \<Rightarrow> (Ok [\<lparr>vu_PubKey = [], vu_Power = pw\<rparr>], s')
        | (Err e, s') \<Rightarrow> (Panic e, s')
        | (Panic e, s') \<Rightarrow> (Panic e, s')))"

definition TestModule_ExportGenesis :: bytes where "TestModule_ExportGenesis = str ''{}''"
definition TestModule_DefaultGenesis :: bytes where "TestModule_DefaultGenesis = str ''{}''"

definition TestModule_ValidateGenesis :: "json_lib \<Rightarrow> bytes \<Rightarrow> unit res" where
  "TestModule_ValidateGenesis J data =
     check (js_Unmarshal J data Map.empty) (Errorf_v ''unmarshal genesis data'') (\<lambda>_. Ok ())"

section \<open>The application (testapp.go)\<close>

record abci_query =
  rq_Path :: string
  rq_Data :: bytes
  rq_Height :: int

text \<open>The SDK's application answers a query with the bytes of its value.\<close>

record ('a, 'cq, 'cr) App =
  ta_app :: "('a, 'cq, 'cr, abci_query, bytes) sdk_app"
  ta_defaultGenesis :: "string \<rightharpoonup> bytes"

definition App_Info :: "('a, 'cq, 'cr) App \<Rightarrow> ('a, bytes) op" where "App_Info A = sa_Info (ta_app A)"
definition App_Query :: "('a, 'cq, 'cr) App \<Rightarrow> abci_query \<Rightarrow> ('a, bytes) op" where "App_Query A r = sa_Query (ta_app A) r"
definition App_CheckTx :: "('a, 'cq, 'cr) App \<Rightarrow> 'cq \<Rightarrow> ('a, 'cr) op" where "App_CheckTx A r = sa_CheckTx (ta_app A) r"
definition App_InitChain :: "('a, 'cq, 'cr) App \<Rightarrow> init_request \<Rightarrow> ('a, unit) op" where
  "App_InitChain A r = sa_InitChain (ta_app A) r"
definition App_FinalizeBlock :: "('a, 'cq, 'cr) App \<Rightarrow> finalize_request \<Rightarrow> ('a, finalize_response) op" where
  "App_FinalizeBlock A r = sa_FinalizeBlock (ta_app A) r"
definition App_Commit :: "('a, 'cq, 'cr) App \<Rightarrow> ('a, unit) op" where "App_Commit A = sa_Commit (ta_app A)"
definition App_RollbackToHeight :: "('a, 'cq, 'cr) App \<Rightarrow> u64 \<Rightarrow> ('a, unit) op" where
  "App_RollbackToHeight A targetHeight = sa_RollbackToVersion (ta_app A) (sint targetHeight)"

text \<open>The modules, in the order in which they are called.\<close>

definition modules :: "string list" where
  "modules = [''auth'', ''bank'', ''gov'', testModuleName, ModuleName]"

text \<open>The chain is initialised from the JSON of all modules' genesis states.\<close>

definition initChainer ::
    "(bytes \<Rightarrow> 'g res) \<Rightarrow> ('g \<Rightarrow> ('a, 'r) op) \<Rightarrow> bytes \<Rightarrow> ('a, 'r) op" where
  "initChainer unmarshal managerInitGenesis appStateBytes =
     scheck (\<lambda>s. (unmarshal appStateBytes, s)) (Errorf_v ''unmarshal genesis state'') managerInitGenesis"

section \<open>Helpers (testapp/helpers.go)\<close>

definition requires :: "bool \<Rightarrow> unit res" where
  "requires b = (if b then Ok () else Err (External ''requirement failed''))"

fun addPairs :: "string list \<Rightarrow> (string \<rightharpoonup> string) \<Rightarrow> (string \<rightharpoonup> string)" where
  "addPairs (k # v # kvs) m = addPairs kvs (m(k \<mapsto> v))"
| "addPairs _ m = m"

text \<open>
  The genesis is the application's own map, which is changed in place: the call returns it and
  leaves the application with it.
\<close>

definition MakeGenesisAppState ::
    "json_lib \<Rightarrow> ('a, 'cq, 'cr) App \<Rightarrow> string list \<Rightarrow> ((string \<rightharpoonup> bytes) \<times> ('a, 'cq, 'cr) App) res" where
  "MakeGenesisAppState J app kvs =
     check (requires (length kvs mod 2 = 0)) pass (\<lambda>_.
     let defaultGenesis = ta_defaultGenesis app in
     check (js_Unmarshal J (case defaultGenesis testModuleName of None \<Rightarrow> [] | Some b \<Rightarrow> b) Map.empty) pass (\<lambda>kvsMap.
     check (js_Marshal J (addPairs kvs kvsMap)) pass (\<lambda>kvsMapBytes.
     let defaultGenesis = defaultGenesis(testModuleName \<mapsto> kvsMapBytes) in
     Ok (defaultGenesis, app\<lparr>ta_defaultGenesis := defaultGenesis\<rparr>))))"

text \<open>\<open>tx_bytes\<close> packs a message and marshals a transaction that holds only it.\<close>

definition ToTestTx :: "(MsgSetValue \<Rightarrow> bytes res) \<Rightarrow> string \<Rightarrow> string \<Rightarrow> bytes res" where
  "ToTestTx tx_bytes k v = tx_bytes
     \<lparr>sv_FromAddress = ''cosmos1fl48vsnmsdzcv85q5d2q4z5ajdha8yu34mf0eh'', sv_Key = k, sv_Value = v\<rparr>"

fun toTestTxs :: "(MsgSetValue \<Rightarrow> bytes res) \<Rightarrow> (string \<times> string) list \<Rightarrow> bytes list res" where
  "toTestTxs tx_bytes [] = Ok []"
| "toTestTxs tx_bytes ((k, v) # kvs) =
     check (ToTestTx tx_bytes k v) pass (\<lambda>tx. check (toTestTxs tx_bytes kvs) pass (\<lambda>txs. Ok (tx # txs)))"

definition ToTxs :: "(MsgSetValue \<Rightarrow> bytes res) \<Rightarrow> (string \<times> string) list \<Rightarrow> bytes list res" where
  "ToTxs tx_bytes kvs = check (toTestTxs tx_bytes kvs) pass (\<lambda>txs. Ok (sort txs))"

definition QueryPath :: string where "QueryPath = ''/testapp.v1.Query/Value''"

definition queryValue :: "('a, 'cq, 'cr) App \<Rightarrow> u64 \<Rightarrow> string \<Rightarrow> ('a, string) op" where
  "queryValue A height k =
     scheck (\<lambda>s. (QueryValueRequest_Marshal \<lparr>qv_Key = k\<rparr>, s)) pass (\<lambda>requestBytes.
     scheck (App_Query A \<lparr>rq_Path = QueryPath, rq_Data = requestBytes, rq_Height = sint height\<rparr>) pass (\<lambda>resp.
     scheck (\<lambda>s. (QueryValueResponse_Unmarshal resp \<lparr>qr_Value = []\<rparr>, s)) pass (\<lambda>val. sret (qr_Value val))))"

fun gotState :: "('a, 'cq, 'cr) App \<Rightarrow> u64 \<Rightarrow> string list \<Rightarrow> (string \<rightharpoonup> string) \<Rightarrow> ('a, string \<rightharpoonup> string) op" where
  "gotState A height [] got = sret got"
| "gotState A height (k # ks) got =
     scheck (queryValue A height k) pass (\<lambda>v. gotState A height ks (got(k \<mapsto> v)))"

definition StateContains :: "('a, 'cq, 'cr) App \<Rightarrow> u64 \<Rightarrow> (string \<times> string) list \<Rightarrow> ('a, unit) op" where
  "StateContains A height kvs =
     (if kvs = [] then sret ()
      else scheck (gotState A height (map fst kvs) Map.empty) pass (\<lambda>got s. (requires (map_of kvs = got), s)))"

fun StateDoesNotContain :: "('a, 'cq, 'cr) App \<Rightarrow> u64 \<Rightarrow> (string \<times> string) list \<Rightarrow> ('a, unit) op" where
  "StateDoesNotContain A height [] = sret ()"
| "StateDoesNotContain A height ((k, v) # kvs) =
     scheck (queryValue A height k) pass (\<lambda>val.
     scheck (\<lambda>s. (requires (val = []), s)) pass (\<lambda>_. StateDoesNotContain A height kvs))"

section \<open>Lemmas\<close>

lemma MsgSetValue_decodes: "decodes MsgSetValue_fields (MsgSetValue_MarshalToSizedBuffer m) zero_MsgSetValue m"
  unfolding MsgSetValue_MarshalToSizedBuffer_def
  by (rule decodes_putString [OF tags(7), where put = "\<lambda>s m. m\<lparr>sv_FromAddress := s\<rparr>"], simp, simp add: zero_MsgSetValue_def,
      rule decodes_putString [OF tags(8), where put = "\<lambda>s m. m\<lparr>sv_Key := s\<rparr>"], simp, simp add: zero_MsgSetValue_def,
      rule decodes_putString [OF tags(9), where put = "\<lambda>s m. m\<lparr>sv_Value := s\<rparr>"], simp, simp add: zero_MsgSetValue_def)
     (cases m, simp add: zero_MsgSetValue_def decodes_Nil)

interpretation wSetValue: wire_message MsgSetValue_Size "\<lambda>m. Ok (MsgSetValue_MarshalToSizedBuffer m)" MsgSetValue_Unmarshal
  zero_MsgSetValue "\<lambda>m. True"
  by (rule wire_messageI [where fs = MsgSetValue_fields])
     (simp_all add: MsgSetValue_Unmarshal_def MsgSetValue_decodes, simp add: MsgSetValue_MarshalToSizedBuffer_def MsgSetValue_Size_def)

lemma query_decodes:
  "decodes QueryValueRequest_fields (QueryValueRequest_MarshalToSizedBuffer q) \<lparr>qv_Key = []\<rparr> q"
  "decodes QueryValueResponse_fields (QueryValueResponse_MarshalToSizedBuffer r) \<lparr>qr_Value = []\<rparr> r"
  unfolding QueryValueRequest_MarshalToSizedBuffer_def QueryValueResponse_MarshalToSizedBuffer_def
  by (rule decodes_putString [OF tags(7), where put = "\<lambda>s m. m\<lparr>qv_Key := s\<rparr>"], simp_all, cases q, simp add: decodes_Nil)
     (rule decodes_putString [OF tags(8), where put = "\<lambda>s m. m\<lparr>qr_Value := s\<rparr>"], simp_all, cases r, simp add: decodes_Nil)

interpretation wQueryValueRequest: wire_message QueryValueRequest_Size "\<lambda>m. Ok (QueryValueRequest_MarshalToSizedBuffer m)"
  QueryValueRequest_Unmarshal "\<lparr>qv_Key = []\<rparr>" "\<lambda>m. True"
  by (rule wire_messageI [where fs = QueryValueRequest_fields])
     (simp_all add: QueryValueRequest_Unmarshal_def query_decodes, simp add: QueryValueRequest_MarshalToSizedBuffer_def QueryValueRequest_Size_def)

interpretation wQueryValueResponse: wire_message QueryValueResponse_Size "\<lambda>m. Ok (QueryValueResponse_MarshalToSizedBuffer m)"
  QueryValueResponse_Unmarshal "\<lparr>qr_Value = []\<rparr>" "\<lambda>m. True"
  by (rule wire_messageI [where fs = QueryValueResponse_fields])
     (simp_all add: QueryValueResponse_Unmarshal_def query_decodes, simp add: QueryValueResponse_MarshalToSizedBuffer_def QueryValueResponse_Size_def)

text \<open>The store of the module: a map that accepts every key that is not empty.\<close>

definition kv_service_ok :: "'s kv_service \<Rightarrow> ('s \<Rightarrow> bytes \<rightharpoonup> bytes) \<Rightarrow> bool" where
  "kv_service_ok S view \<longleftrightarrow> (\<forall>s k. kv_Get S s k = Ok (view s k)) \<and>
     (\<forall>s k v. k \<noteq> [] \<longrightarrow> (\<exists>s'. kv_Set S k v s = (Ok (), s') \<and> view s' = (view s)(k \<mapsto> v)))"

text \<open>What the store holds for a key, as the keeper answers it.\<close>

definition valueOf :: "(bytes \<rightharpoonup> bytes) \<Rightarrow> string \<Rightarrow> string" where
  "valueOf m k = (case m (str k) of None \<Rightarrow> [] | Some b \<Rightarrow> unstr b)"

lemma Keeper_Value_ok:
  assumes "kv_service_ok S view" "k \<noteq> []"
  shows "Keeper_Value S \<lparr>qv_Key = k\<rparr> s = (Ok \<lparr>qr_Value = valueOf (view s) k\<rparr>, s)"
  using assms by (simp add: Keeper_Value_def kv_service_ok_def valueOf_def)

lemma InitGenesis_ok:
  assumes "kv_service_ok S view" "\<forall>k \<in> fst ` set kvs. k \<noteq> []" "distinct (map fst kvs)"
  shows "\<exists>s'. TestKeeper_InitGenesis S kvs s = (Ok (), s') \<and>
    (\<forall>k. valueOf (view s') k = (case map_of kvs k of Some v \<Rightarrow> v | None \<Rightarrow> valueOf (view s) k))"
  using assms(2,3)
proof (induction kvs arbitrary: s)
  case (Cons kv kvs)
  obtain k v where kv: "kv = (k, v)" by (cases kv)
  then have "str k \<noteq> []" using Cons.prems by simp
  then obtain s1 where s1: "kv_Set S (str k) (str v) s = (Ok (), s1)" "view s1 = (view s)(str k \<mapsto> str v)"
    using assms(1) unfolding kv_service_ok_def by blast
  obtain s' where s': "TestKeeper_InitGenesis S kvs s1 = (Ok (), s')"
    "\<forall>k. valueOf (view s') k = (case map_of kvs k of Some v \<Rightarrow> v | None \<Rightarrow> valueOf (view s1) k)"
    using Cons.IH [of s1] Cons.prems by auto
  have "map_of kvs k = None" using Cons.prems kv by (simp add: map_of_eq_None_iff)
  then have "\<forall>k'. valueOf (view s') k' = (case map_of (kv # kvs) k' of Some v \<Rightarrow> v | None \<Rightarrow> valueOf (view s) k')"
    using s'(2) s1(2) kv by (auto simp: valueOf_def unstr_str split: option.splits)
  with s1(1) s'(1) kv show ?case by (auto simp: scheck_def)
qed simp

section \<open>Properties\<close>

text \<open>
  The module's genesis is what its queries answer: initialised from the JSON of a map without
  the empty key, in whatever order the map is iterated, the module reports one validator, and
  the keeper answers the map's value for every key of it and the old value for every other.
\<close>

theorem test_genesis_is_queried:
  assumes S: "kv_service_ok S view" and J: "js_Unmarshal J data Map.empty = Ok m"
    and m: "map_of (js_Range J m) = m" "distinct (map fst (js_Range J m))" "m [] = None"
  shows "\<exists>s'. TestModule_InitGenesis J pw S data s = (Ok [\<lparr>vu_PubKey = [], vu_Power = pw\<rparr>], s') \<and>
    (\<forall>k. k \<noteq> [] \<longrightarrow> Keeper_Value S \<lparr>qv_Key = k\<rparr> s' =
      (Ok \<lparr>qr_Value = (case m k of Some v \<Rightarrow> v | None \<Rightarrow> valueOf (view s) k)\<rparr>, s'))"
proof -
  have "\<forall>k \<in> fst ` set (js_Range J m). k \<noteq> []" using m(1,3) by (metis map_of_eq_None_iff)
  then obtain s' where "TestKeeper_InitGenesis S (js_Range J m) s = (Ok (), s')"
    "\<forall>k. valueOf (view s') k = (case m k of Some v \<Rightarrow> v | None \<Rightarrow> valueOf (view s) k)"
    using InitGenesis_ok [OF S _ m(2)] m(1) by metis
  then show ?thesis using J Keeper_Value_ok [OF S] by (simp add: TestModule_InitGenesis_def)
qed

text \<open>
  The application answers the queries of a state at a height when it routes them to the
  keeper: the request is decoded, and the response is encoded.
\<close>

definition answers :: "('a, 'cq, 'cr) App \<Rightarrow> u64 \<Rightarrow> (string \<Rightarrow> string) \<Rightarrow> 'a \<Rightarrow> bool" where
  "answers A height val a \<longleftrightarrow> (\<forall>k. k \<noteq> [] \<longrightarrow> length (val k) < 2 ^ 62 \<and>
     sa_Query (ta_app A) \<lparr>rq_Path = QueryPath, rq_Data = QueryValueRequest_MarshalToSizedBuffer \<lparr>qv_Key = k\<rparr>,
       rq_Height = sint height\<rparr> a = (Ok (QueryValueResponse_MarshalToSizedBuffer \<lparr>qr_Value = val k\<rparr>), a))"

lemma queryValue_ok:
  assumes "answers A height val a" "k \<noteq> []"
  shows "queryValue A height k a = (Ok (val k), a)"
proof -
  have "QueryValueResponse_Size \<lparr>qr_Value = val k\<rparr> \<le> 11 + length (val k)"
    using sizeField_le(3) [of "length (val k)"] by (simp add: QueryValueResponse_Size_def)
  also have "\<dots> < 2 ^ 63" using assms by (fastforce simp: answers_def)
  finally have "QueryValueResponse_Unmarshal (QueryValueResponse_MarshalToSizedBuffer \<lparr>qr_Value = val k\<rparr>) \<lparr>qr_Value = []\<rparr> =
      Ok \<lparr>qr_Value = val k\<rparr>" by (intro wQueryValueResponse.read_back) simp_all
  moreover have "QueryValueRequest_Marshal q = Ok (QueryValueRequest_MarshalToSizedBuffer q)" for q
    using wQueryValueRequest.marshalled [of q] by (simp add: QueryValueRequest_Marshal_def)
  ultimately show ?thesis using assms by (simp add: queryValue_def answers_def App_Query_def scheck_def)
qed

lemma gotState_ok:
  assumes "answers A height val a" "\<forall>k \<in> set ks. k \<noteq> []"
  shows "gotState A height ks got a = (Ok (\<lambda>k. if k \<in> set ks then Some (val k) else got k), a)"
  using assms(2)
proof (induction ks arbitrary: got)
  case (Cons k ks)
  then show ?case using queryValue_ok [OF assms(1), of k] by (auto simp: scheck_def fun_eq_iff)
qed simp

text \<open>
  The state checks mean what they say: over an application that answers queries from a state,
  the check that pairs are contained passes exactly when every key has its value, and the
  check that they are not passes exactly when no key has a value at all.
\<close>

theorem state_checks_are_exact:
  assumes A: "answers A height val a" and k: "\<forall>k \<in> fst ` set kvs. k \<noteq> []" "distinct (map fst kvs)"
  shows "StateContains A height kvs a = (requires (\<forall>(k, v) \<in> set kvs. val k = v), a)"
    and "StateDoesNotContain A height kvs a = (requires (\<forall>(k, v) \<in> set kvs. val k = []), a)"
proof -
  have "(map_of kvs = (\<lambda>k. if k \<in> fst ` set kvs then Some (val k) else None)) = (\<forall>(k, v) \<in> set kvs. val k = v)"
  proof
    assume eq: "map_of kvs = (\<lambda>k. if k \<in> fst ` set kvs then Some (val k) else None)"
    show "\<forall>(k, v) \<in> set kvs. val k = v"
    proof safe
      fix k v assume "(k, v) \<in> set kvs"
      then show "val k = v" using fun_cong [OF eq, of k] map_of_is_SomeI [OF k(2)] by (force split: if_splits)
    qed
  next
    assume all: "\<forall>(k, v) \<in> set kvs. val k = v"
    show "map_of kvs = (\<lambda>k. if k \<in> fst ` set kvs then Some (val k) else None)"
    proof
      fix x
      show "map_of kvs x = (if x \<in> fst ` set kvs then Some (val x) else None)"
        using all by (cases "map_of kvs x") (auto simp: map_of_eq_None_iff dest!: map_of_SomeD intro: rev_image_eqI)
    qed
  qed
  then show "StateContains A height kvs a = (requires (\<forall>(k, v) \<in> set kvs. val k = v), a)"
    using gotState_ok [OF A, of "map fst kvs" Map.empty] k(1) by (simp add: StateContains_def scheck_def requires_def)
  show "StateDoesNotContain A height kvs a = (requires (\<forall>(k, v) \<in> set kvs. val k = []), a)"
    using k(1) by (induction kvs) (auto simp: scheck_def requires_def queryValue_ok [OF A])
qed

fun the_ok :: "'x res \<Rightarrow> 'x" where
  "the_ok (Ok x) = x"
| "the_ok _ = undefined"

text \<open>
  The transactions of a map do not depend on the order in which the map is iterated.
\<close>

lemma toTestTxs_ok:
  assumes "\<forall>m. \<exists>b. tx_bytes m = Ok b"
  shows "toTestTxs tx_bytes kvs = Ok (map (\<lambda>(k, v). the_ok (ToTestTx tx_bytes k v)) kvs)"
proof (induction kvs)
  case (Cons kv kvs)
  obtain k v where "kv = (k, v)" by (cases kv)
  moreover obtain b where "ToTestTx tx_bytes k v = Ok b" using assms by (auto simp: ToTestTx_def)
  ultimately show ?case using Cons.IH by simp
qed simp

theorem test_txs_are_ordered:
  assumes "\<forall>m. \<exists>b. tx_bytes m = Ok b" "set kvs = set kvs'" "distinct kvs" "distinct kvs'"
  shows "\<exists>txs. ToTxs tx_bytes kvs = Ok txs \<and> ToTxs tx_bytes kvs' = Ok txs \<and> sorted txs \<and> length txs = length kvs"
proof -
  let ?f = "\<lambda>(k, v). the_ok (ToTestTx tx_bytes k v)"
  have "mset kvs = mset kvs'" using assms(2-4) by (simp add: set_eq_iff_mset_eq_distinct)
  then have "mset (map ?f kvs) = mset (map ?f kvs')" by simp
  then have "sort (map ?f kvs') = sort (map ?f kvs)" by (intro properties_for_sort) simp_all
  then show ?thesis using toTestTxs_ok [OF assms(1)] by (simp add: ToTxs_def)
qed

text \<open>
  The application documents that its default genesis must be cloned before it is changed;
  \<^verbatim>\<open>MakeGenesisAppState\<close> changes it in place. The pairs of one call are part of the default of
  the next: a second genesis for the same application also has the keys of the first.
\<close>

theorem genesis_leaks_into_the_next:
  assumes J: "\<forall>m b. js_Marshal J m = Ok b \<longrightarrow> js_Unmarshal J b Map.empty = Ok m"
    and first: "MakeGenesisAppState J app [k, v] = Ok (g, app')"
    and second: "MakeGenesisAppState J app' kvs = Ok (g', app'')" and k: "k \<notin> set kvs"
  shows "\<exists>b m. g' testModuleName = Some b \<and> js_Unmarshal J b Map.empty = Ok m \<and> m k = Some v"
proof -
  have keep: "addPairs kvs m k = m k" for m using k by (induction kvs m rule: addPairs.induct) auto
  obtain m0 b where b: "js_Marshal J (m0(k \<mapsto> v)) = Ok b" "app' = app\<lparr>ta_defaultGenesis := (ta_defaultGenesis app)(testModuleName \<mapsto> b)\<rparr>"
    using first by (auto simp: MakeGenesisAppState_def requires_def Let_def check_Ok_iff)
  have "js_Unmarshal J b Map.empty = Ok (m0(k \<mapsto> v))" using J b(1) by blast
  then obtain b' where "js_Marshal J (addPairs kvs (m0(k \<mapsto> v))) = Ok b'" "g' testModuleName = Some b'"
    using second b(2) by (auto simp: MakeGenesisAppState_def requires_def Let_def check_Ok_iff split: if_splits)
  then show ?thesis using J keep by auto
qed

section \<open>A concrete application\<close>

definition map_service :: "(bytes \<rightharpoonup> bytes) kv_service" where
  "map_service = \<lparr>kv_Get = (\<lambda>s k. Ok (s k)), kv_Set = (\<lambda>k v s. (Ok (), s(k \<mapsto> v)))\<rparr>"

lemma map_service_ok: "kv_service_ok map_service (\<lambda>s. s)"
  by (simp add: kv_service_ok_def map_service_def)

text \<open>JSON of three maps.\<close>

definition toy_maps :: "(bytes \<times> (string \<times> string) list) list" where
  "toy_maps = [(str ''{}'', []), ([1], [(''a'', ''b'')]), ([2], [(''a'', ''b''), (''c'', ''d'')])]"

definition toy_json :: json_lib where
  "toy_json = \<lparr>
     js_Unmarshal = (\<lambda>b m. case map_of toy_maps b of None \<Rightarrow> Err (External ''json'') | Some kvs \<Rightarrow> Ok (m ++ map_of kvs)),
     js_Marshal = (\<lambda>m. case find (\<lambda>(b, kvs). map_of kvs = m) toy_maps of None \<Rightarrow> Err (External ''json'') | Some (b, kvs) \<Rightarrow> Ok b),
     js_Range = (\<lambda>m. case find (\<lambda>(b, kvs). map_of kvs = m) toy_maps of None \<Rightarrow> [] | Some (b, kvs) \<Rightarrow> kvs)\<rparr>"

lemma toy_json_reads_back: "js_Marshal toy_json m = Ok b \<Longrightarrow> js_Unmarshal toy_json b Map.empty = Ok m"
  by (auto simp: toy_json_def toy_maps_def str_def split: if_splits)

lemma empty_neq_upd [simp]: "Map.empty \<noteq> t(k \<mapsto> x)"
  using map_upd_nonempty [of t k x] by metis

lemma toy_map_neq: "map_of [(''a'', ''b'')] \<noteq> Map.empty" "map_of [(''a'', ''b''), (''c'', ''d'')] \<noteq> Map.empty"
  "map_of [(''a'', ''b''), (''c'', ''d'')] \<noteq> map_of [(''a'', ''b'')]"
  by (auto simp: fun_eq_iff)

theorem test_genesis_is_queried_witness:
  "\<exists>s'. TestModule_InitGenesis toy_json 1000000 map_service [1] Map.empty = (Ok [\<lparr>vu_PubKey = [], vu_Power = 1000000\<rparr>], s') \<and>
     Keeper_Value map_service \<lparr>qv_Key = ''a''\<rparr> s' = (Ok \<lparr>qr_Value = ''b''\<rparr>, s')"
proof -
  have r: "js_Range toy_json (map_of [(''a'', ''b'')]) = [(''a'', ''b'')]"
    using toy_map_neq by (simp add: toy_json_def toy_maps_def)
  have u: "js_Unmarshal toy_json [1] Map.empty = Ok (map_of [(''a'', ''b'')])"
    by (simp add: toy_json_def toy_maps_def str_def)
  from test_genesis_is_queried [OF map_service_ok u, where pw = 1000000 and s = Map.empty] r
  obtain s' where "TestModule_InitGenesis toy_json 1000000 map_service [1] Map.empty = (Ok [\<lparr>vu_PubKey = [], vu_Power = 1000000\<rparr>], s')"
    "\<forall>k. k \<noteq> [] \<longrightarrow> Keeper_Value map_service \<lparr>qv_Key = k\<rparr> s' =
      (Ok \<lparr>qr_Value = (case map_of [(''a'', ''b'')] k of Some v \<Rightarrow> v | None \<Rightarrow> valueOf Map.empty k)\<rparr>, s')" by auto
  then show ?thesis by (intro exI [of _ s']) simp
qed

definition toy_App :: "(unit, unit, unit) App" where
  "toy_App = \<lparr>ta_app = \<lparr>sa_RollbackToVersion = (\<lambda>v. sret ()), sa_Info = sret [], sa_LastBlockHeight = sret 0,
     sa_CheckTx = (\<lambda>q. sret ()), sa_Commit = sret (), sa_FinalizeBlock = (\<lambda>r s. (Err (External ''no block''), s)),
     sa_InitChain = (\<lambda>r. sret ()), sa_Query = (\<lambda>q. sret [])\<rparr>, ta_defaultGenesis = [testModuleName \<mapsto> str ''{}'']\<rparr>"

theorem genesis_leaks_into_the_next_witness:
  "\<exists>g app' g' app'' b m. MakeGenesisAppState toy_json toy_App [''a'', ''b''] = Ok (g, app') \<and>
     MakeGenesisAppState toy_json app' [''c'', ''d''] = Ok (g', app'') \<and>
     g' testModuleName = Some b \<and> js_Unmarshal toy_json b Map.empty = Ok m \<and> m ''a'' = Some ''b''"
proof -
  have m: "js_Marshal toy_json [''a'' \<mapsto> ''b''] = Ok [1]" "js_Marshal toy_json [''a'' \<mapsto> ''b'', ''c'' \<mapsto> ''d''] = Ok [2]"
    using toy_map_neq by (auto simp: toy_json_def toy_maps_def fun_upd_twist)
  have u: "js_Unmarshal toy_json (str ''{}'') Map.empty = Ok Map.empty" "js_Unmarshal toy_json [1] Map.empty = Ok [''a'' \<mapsto> ''b'']"
    by (simp_all add: toy_json_def toy_maps_def str_def)
  have 1: "MakeGenesisAppState toy_json toy_App [''a'', ''b''] = Ok ([testModuleName \<mapsto> [1]], toy_App\<lparr>ta_defaultGenesis := [testModuleName \<mapsto> [1]]\<rparr>)"
    using m u by (simp add: MakeGenesisAppState_def requires_def toy_App_def Let_def)
  have 2: "MakeGenesisAppState toy_json (toy_App\<lparr>ta_defaultGenesis := [testModuleName \<mapsto> [1]]\<rparr>) [''c'', ''d''] =
      Ok ([testModuleName \<mapsto> [2]], toy_App\<lparr>ta_defaultGenesis := [testModuleName \<mapsto> [2]]\<rparr>)"
    using m u by (simp add: MakeGenesisAppState_def requires_def Let_def)
  have "''a'' \<notin> set [''c'', ''d'']" by simp
  from genesis_leaks_into_the_next [OF _ 1 2 this] toy_json_reads_back 1 2 show ?thesis by blast
qed

end
