(* ===== verification/TestHelpers.thy ===== *)
theory TestHelpers
  imports EthProof NodeStart TestApp
begin

text \<open>
  The helpers that exercise a node: generated blocks and transactions (\<^verbatim>\<open>testutils/utils.go\<close>), the
  client of a node's Ethereum endpoints (\<^verbatim>\<open>e2e/clients.go\<close>) and what L1 needs to prove a
  withdrawal (\<^verbatim>\<open>e2e/withdrawal_helper.go\<close>). Contract encodings, random addresses, the RPC clients
  and signatures are parameters; a failed requirement is an error.
\<close>

section \<open>Generated transactions and blocks (testutils/utils.go)\<close>

datatype abi_value = AbiAddress address | AbiUint nat | AbiBytes bytes

record deposit_tx =
  dx_From :: address
  dx_To :: "address option"
  dx_Mint :: "nat option"
  dx_Value :: "nat option"
  dx_Data :: bytes

text \<open>
  \<open>tl_Pack\<close> encodes a call of a method of a contract, \<open>tl_Random\<close> is the n-th address of a fresh
  generator with the fixed seed, and \<open>tl_L1Info\<close> the attributes deposit of the generated L1 block.
\<close>

record 'tx testlib =
  tl_L1Info :: "deposit_tx res"
  tl_Deposit :: deposit_tx
  tl_NewTx :: "deposit_tx \<Rightarrow> 'tx"
  tl_ABI :: "string \<Rightarrow> unit res"
  tl_Pack :: "string \<Rightarrow> string \<Rightarrow> abi_value list \<Rightarrow> bytes res"
  tl_Random :: "nat \<Rightarrow> address"
  tl_Alias :: "address \<Rightarrow> address"
  tl_Messenger :: address

definition GenerateEthTxs :: "'tx testlib \<Rightarrow> ('tx, 'blk) ethlib \<Rightarrow> ('tx \<times> 'tx \<times> 'tx) res" where
  "GenerateEthTxs T L =
     check (tl_L1Info T) pass (\<lambda>l1InfoRawTx.
     let l1InfoTx = tl_NewTx T l1InfoRawTx;
         depositRawTx = (tl_Deposit T)\<lparr>dx_Mint := Some 100, dx_Value := Some 50\<rparr>;
         depositTx = tl_NewTx T depositRawTx;
         cosmosEthTx = AdaptNonDepositCosmosTxToEthTx L [1] in
     Ok (l1InfoTx, depositTx, cosmosEthTx))"

definition generateCrossDomainDepositTx :: "'tx testlib \<Rightarrow> bytes \<Rightarrow> 'tx res" where
  "generateCrossDomainDepositTx T crossDomainMessageBz =
     check (tl_ABI T ''L2CrossDomainMessenger'') pass (\<lambda>_.
     check (tl_Pack T ''L2CrossDomainMessenger'' ''relayMessage'' [AbiUint 0, AbiAddress (tl_Random T 0),
       AbiAddress (tl_Random T 1), AbiUint 0, AbiUint 0, AbiBytes crossDomainMessageBz]) pass (\<lambda>relayMessageBz.
     Ok (tl_NewTx T \<lparr>dx_From = tl_Alias T (tl_Messenger T), dx_To = Some (tl_Random T 2), dx_Mint = None, dx_Value = None,
       dx_Data = relayMessageBz\<rparr>)))"

definition GenerateEthBridgeDepositTx :: "'tx testlib \<Rightarrow> address \<Rightarrow> nat \<Rightarrow> 'tx res" where
  "GenerateEthBridgeDepositTx T userAddr amount =
     check (tl_ABI T ''L1StandardBridge'') pass (\<lambda>_.
     check (tl_Pack T ''L1StandardBridge'' ''finalizeBridgeETH'' [AbiAddress (tl_Random T 0), AbiAddress userAddr,
       AbiUint amount, AbiBytes []]) pass (\<lambda>finalizeBridgeETHBz.
     generateCrossDomainDepositTx T finalizeBridgeETHBz))"

definition GenerateERC20DepositTx :: "'tx testlib \<Rightarrow> address \<Rightarrow> address \<Rightarrow> nat \<Rightarrow> 'tx res" where
  "GenerateERC20DepositTx T tokenAddr userAddr amount =
     check (tl_ABI T ''L1StandardBridge'') pass (\<lambda>_.
     check (tl_Pack T ''L1StandardBridge'' ''finalizeBridgeERC20'' [AbiAddress tokenAddr, AbiAddress (tl_Random T 0),
       AbiAddress (tl_Random T 1), AbiAddress userAddr, AbiUint amount, AbiBytes []]) pass (\<lambda>finalizeBridgeERC20Bz.
     generateCrossDomainDepositTx T finalizeBridgeERC20Bz))"

definition cosmosTxsFromEthTxs :: "('tx, 'blk) ethlib \<Rightarrow> u64 \<Rightarrow> 'tx \<Rightarrow> 'tx list \<Rightarrow> 'tx list \<Rightarrow> bytes list res" where
  "cosmosTxsFromEthTxs L now l1InfoTx depositTxs cosmosEthTxs =
     check (marshalTxs L pass ([l1InfoTx] @ depositTxs @ cosmosEthTxs)) pass (AdaptPayloadTxsToCosmosTxs L now)"

definition GenerateBlockFromEthTxs :: "('tx, 'blk) ethlib \<Rightarrow> u64 \<Rightarrow> 'tx \<Rightarrow> 'tx list \<Rightarrow> 'tx list \<Rightarrow> block res" where
  "GenerateBlockFromEthTxs L now l1InfoTx depositTxs cosmosEthTxs =
     check (cosmosTxsFromEthTxs L now l1InfoTx depositTxs cosmosEthTxs) pass (\<lambda>cosmosTxs.
     MakeBlock L zero_header (Some cosmosTxs))"

definition GenerateBlock :: "'tx testlib \<Rightarrow> ('tx, 'blk) ethlib \<Rightarrow> u64 \<Rightarrow> block res" where
  "GenerateBlock T L now =
     check (GenerateEthTxs T L) pass (\<lambda>(l1InfoTx, depositTx, cosmosEthTx).
     GenerateBlockFromEthTxs L now l1InfoTx [depositTx] [cosmosEthTx])"

definition GenerateBlockWithParentAndTxs ::
    "'tx testlib \<Rightarrow> ('tx, 'blk) ethlib \<Rightarrow> u64 \<Rightarrow> header option \<Rightarrow> bytes list \<Rightarrow> block res" where
  "GenerateBlockWithParentAndTxs T L now parent cosmosTxs =
     check (GenerateEthTxs T L) pass (\<lambda>(l1InfoTx, _, _).
     let h = (case parent of None \<Rightarrow> zero_header
                | Some p \<Rightarrow> zero_header\<lparr>h_ParentHash := h_Hash p, h_Height := h_Height p + 1\<rparr>) in
     check (cosmosTxsFromEthTxs L now l1InfoTx [] []) pass (\<lambda>txs.
     MakeBlock L h (Some (txs @ cosmosTxs))))"

section \<open>Signed transactions (testutils/utils.go)\<close>

text \<open>
  \<open>order\<close> is the order of the curve: \<^verbatim>\<open>SetByteSlice\<close> reports a number that is not below it, and
  stores it reduced.
\<close>

definition convertPrivKey :: "nat \<Rightarrow> nat \<Rightarrow> nat res" where
  "convertPrivKey order d =
     (if d \<ge> 256 ^ 32 \<or> d \<ge> order then Panic (ErrorNew ''overflow'')
      else if d = 0 then Panic (ErrorNew ''private keys must not be 0'')
      else Ok d)"

record signer_info =
  si_PublicKey :: bytes
  si_Mode :: string
  si_Sequence :: u64

record sdk_fee =
  sf_Amount :: "(string \<times> nat) list"
  sf_GasLimit :: u64

record built_tx =
  bt_Messages :: "bytes list"
  bt_SignerInfos :: "signer_info list"
  bt_Fee :: sdk_fee
  bt_Signatures :: "bytes list"

record 'm signlib =
  sl_Order :: nat
  sl_Any :: "'m \<Rightarrow> bytes res"
  sl_PubKeyAny :: "nat \<Rightarrow> bytes res"
  sl_MaxGasWanted :: u64
  sl_Body :: "bytes list \<Rightarrow> bytes res"
  sl_AuthInfo :: "signer_info list \<Rightarrow> sdk_fee \<Rightarrow> bytes res"
  sl_SignDoc :: "bytes \<Rightarrow> bytes \<Rightarrow> string \<Rightarrow> u64 \<Rightarrow> bytes res"
  sl_Sign :: "nat \<Rightarrow> bytes \<Rightarrow> bytes res"

fun packAll :: "('m \<Rightarrow> bytes res) \<Rightarrow> 'm list \<Rightarrow> bytes list res" where
  "packAll any [] = Ok []"
| "packAll any (m # ms) = check (any m) pass (\<lambda>a. check (packAll any ms) pass (\<lambda>as. Ok (a # as)))"

definition BuildSDKTx :: "'m signlib \<Rightarrow> string \<Rightarrow> u64 \<Rightarrow> u64 \<Rightarrow> nat \<Rightarrow> 'm list \<Rightarrow> built_tx res" where
  "BuildSDKTx G chainID seqNum accNum ethPrivKey msgs =
     check (convertPrivKey (sl_Order G) ethPrivKey) pass (\<lambda>cosmosPrivKey.
     check (packAll (sl_Any G) msgs) pass (\<lambda>msgAnys.
     check (sl_PubKeyAny G cosmosPrivKey) pass (\<lambda>pubKeyAny.
     let infos = [\<lparr>si_PublicKey = pubKeyAny, si_Mode = ''SIGN_MODE_DIRECT'', si_Sequence = seqNum\<rparr>];
         fee = \<lparr>sf_Amount = [(WEI, 1000000000000000000)], sf_GasLimit = sl_MaxGasWanted G - 1\<rparr> in
     check (sl_Body G msgAnys) pass (\<lambda>bodyBytes.
     check (sl_AuthInfo G infos fee) pass (\<lambda>authInfoBytes.
     check (sl_SignDoc G bodyBytes authInfoBytes chainID accNum) pass (\<lambda>signBytes.
     check (sl_Sign G cosmosPrivKey signBytes) pass (\<lambda>signature.
     Ok \<lparr>bt_Messages = msgAnys, bt_SignerInfos = infos, bt_Fee = fee, bt_Signatures = [signature]\<rparr>)))))))"

section \<open>Clients (e2e/clients.go)\<close>

record storage_answer =
  sx_Proof :: "string list"

record account_answer =
  ac_StorageHash :: hash
  ac_StorageProof :: "storage_answer list"

text \<open>go-ethereum's clients over one connection.\<close>

record 'blk rpc_client =
  rc_HashOfBlockNumber :: "string \<Rightarrow> hash res"
  rc_BlockByNumber :: "nat option \<Rightarrow> 'blk res"
  rc_BlockByHash :: "hash \<Rightarrow> 'blk res"
  rc_ChainID :: "nat res"
  rc_GetProof :: "address \<Rightarrow> string list \<Rightarrow> nat option \<Rightarrow> account_answer res"

text \<open>The genesis block of a chain has number 1.\<close>

definition MonomerClient_GenesisHash :: "'blk rpc_client \<Rightarrow> hash res" where
  "MonomerClient_GenesisHash c =
     check (rc_HashOfBlockNumber c ''0x1'') (Errorf_v ''eth_getBlockByNumber'') Ok"

definition MonomerClient_BlockByNumber :: "'blk rpc_client \<Rightarrow> nat option \<Rightarrow> 'blk res" where
  "MonomerClient_BlockByNumber c number = check (rc_BlockByNumber c number) (Errorf_v ''block by number'') Ok"

definition MonomerClient_BlockByHash :: "'blk rpc_client \<Rightarrow> hash \<Rightarrow> 'blk res" where
  "MonomerClient_BlockByHash c hash = check (rc_BlockByHash c hash) (Errorf_v ''block by hash'') Ok"

definition MonomerClient_ChainID :: "'blk rpc_client \<Rightarrow> nat res" where
  "MonomerClient_ChainID c = rc_ChainID c"

definition MonomerClient_GetProof ::
    "'blk rpc_client \<Rightarrow> address \<Rightarrow> string list \<Rightarrow> nat option \<Rightarrow> account_answer res" where
  "MonomerClient_GetProof c account keys blockNumber =
     check (rc_GetProof c account keys blockNumber) (Errorf_v ''get proof'') Ok"

section \<open>Proving a withdrawal (e2e/withdrawal_helper.go)\<close>

record 'w prover =
  pv_OutputIndexAfter :: "nat \<Rightarrow> nat res"
  pv_WithdrawalHash :: "'w \<Rightarrow> hash res"
  pv_MessagePasser :: address
  pv_HashString :: "hash \<Rightarrow> string"
  pv_Keccak256Hash :: "bytes \<Rightarrow> hash"
  pv_VerifyProof :: "hash \<Rightarrow> account_answer \<Rightarrow> unit res"
  pv_FromHex :: "string \<Rightarrow> bytes"

text \<open>What the helper reads of a go-ethereum block.\<close>

record 'blk eth_block_view =
  bw_Number :: "'blk \<Rightarrow> nat"
  bw_Root :: "'blk \<Rightarrow> hash"
  bw_Hash :: "'blk \<Rightarrow> hash"

record output_root_proof =
  or_Version :: hash
  or_StateRoot :: hash
  or_MessagePasserStorageRoot :: hash
  or_LatestBlockhash :: hash

record proven_withdrawal =
  pw_L2OutputIndex :: nat
  pw_OutputRootProof :: output_root_proof
  pw_WithdrawalProof :: "bytes list"

text \<open>The key of the mapping at slot 0: the hash, and 32 zero bytes behind it.\<close>

definition slotBuffer :: "hash \<Rightarrow> bytes" where
  "slotBuffer h = copyTo (replicate 64 0) (hash_Bytes h)"

definition storageSlotOfWithdrawalHash :: "'w prover \<Rightarrow> hash \<Rightarrow> hash" where
  "storageSlotOfWithdrawalHash P h = pv_Keccak256Hash P (slotBuffer h)"

definition ProveWithdrawalParameters ::
    "'w prover \<Rightarrow> 'blk eth_block_view \<Rightarrow> 'blk rpc_client \<Rightarrow> 'w \<Rightarrow> nat \<Rightarrow> proven_withdrawal res" where
  "ProveWithdrawalParameters P V c withdrawalTx l2BlockNumber =
     check (pv_OutputIndexAfter P l2BlockNumber) (Errorf_w ''failed to get l2OutputIndex'') (\<lambda>l2OutputIndex.
     check (pv_WithdrawalHash P withdrawalTx) pass (\<lambda>withdrawalHash.
     check (MonomerClient_BlockByNumber c (Some l2BlockNumber)) (Errorf_w ''failed to fetch block from the monomer client'') (\<lambda>l2Block.
     check (MonomerClient_GetProof c (pv_MessagePasser P) [pv_HashString P (storageSlotOfWithdrawalHash P withdrawalHash)]
       (Some (bw_Number V l2Block))) pass (\<lambda>proof.
     case ac_StorageProof proof of
       [storage] \<Rightarrow>
         check (pv_VerifyProof P (bw_Root V l2Block) proof) pass (\<lambda>_.
         Ok \<lparr>pw_L2OutputIndex = l2OutputIndex,
           pw_OutputRootProof = \<lparr>or_Version = 0, or_StateRoot = bw_Root V l2Block,
             or_MessagePasserStorageRoot = ac_StorageHash proof, or_LatestBlockhash = bw_Hash V l2Block\<rparr>,
           pw_WithdrawalProof = map (pv_FromHex P) (sx_Proof storage)\<rparr>)
     | _ \<Rightarrow> Err (ErrorNew ''invalid amount of storage proofs'')))))"

section \<open>Properties\<close>

text \<open>
  A generated block is the parent's child: it names the parent's hash and the next height, and
  its transactions are the deposits transaction of the L1 attributes, then the given ones.
  Without a parent it is the zero header's block.
\<close>

theorem generated_block_extends_the_parent:
  assumes "GenerateBlockWithParentAndTxs T L now (Some p) cosmosTxs = Ok blk"
  shows "h_ParentHash (b_Header blk) = h_Hash p \<and> h_Height (b_Header blk) = h_Height p + 1 \<and>
    (\<exists>raw txs. tl_L1Info T = Ok raw \<and>
      AdaptPayloadTxsToCosmosTxs L now [el_MarshalBinary L (tl_NewTx T raw)] = Ok txs \<and> b_Txs blk = txs @ cosmosTxs)"
  using assms MakeBlock_fields
  by (fastforce simp: GenerateBlockWithParentAndTxs_def GenerateEthTxs_def cosmosTxsFromEthTxs_def Let_def
      elim!: check_OkE split: option.splits)

text \<open>
  What L1 is given to prove a withdrawal is all of one block, the one at the requested number:
  its state root, its hash and the storage proof that was verified against that root.
\<close>

theorem proven_withdrawal_is_of_one_block:
  assumes "ProveWithdrawalParameters P V c w n = Ok r"
  shows "\<exists>x b proof storage. pv_WithdrawalHash P w = Ok x \<and> rc_BlockByNumber c (Some n) = Ok b \<and>
    rc_GetProof c (pv_MessagePasser P) [pv_HashString P (pv_Keccak256Hash P (hash_Bytes x @ replicate 32 0))] (Some (bw_Number V b)) = Ok proof \<and>
    pv_VerifyProof P (bw_Root V b) proof = Ok () \<and> ac_StorageProof proof = [storage] \<and>
    or_StateRoot (pw_OutputRootProof r) = bw_Root V b \<and> or_LatestBlockhash (pw_OutputRootProof r) = bw_Hash V b \<and>
    or_MessagePasserStorageRoot (pw_OutputRootProof r) = ac_StorageHash proof \<and>
    pw_WithdrawalProof r = map (pv_FromHex P) (sx_Proof storage)"
proof -
  have slot: "storageSlotOfWithdrawalHash P x = pv_Keccak256Hash P (hash_Bytes x @ replicate 32 0)" for x
    by (simp add: storageSlotOfWithdrawalHash_def slotBuffer_def copyTo_def hash_Bytes_def)
  show ?thesis using assms
    by (fastforce simp: ProveWithdrawalParameters_def MonomerClient_BlockByNumber_def MonomerClient_GetProof_def slot
        elim!: check_OkE split: list.splits)
qed

text \<open>
  A transaction is signed with the converted key over the body, the signer and the fee, for one
  chain and account; a key that is zero or not below the order of the curve panics.
\<close>

theorem built_tx_is_signed:
  assumes "BuildSDKTx G chainID seqNum accNum key msgs = Ok tx"
  shows "0 < key \<and> key < sl_Order G \<and>
    (\<exists>body auth doc sig. sl_Body G (bt_Messages tx) = Ok body \<and> sl_AuthInfo G (bt_SignerInfos tx) (bt_Fee tx) = Ok auth \<and>
      sl_SignDoc G body auth chainID accNum = Ok doc \<and> sl_Sign G key doc = Ok sig \<and> bt_Signatures tx = [sig]) \<and>
    length (bt_Messages tx) = length msgs \<and> map si_Sequence (bt_SignerInfos tx) = [seqNum]"
proof -
  have pack: "packAll any ms = Ok as \<Longrightarrow> length as = length ms" for any ms as
    by (induction ms arbitrary: as) (auto elim!: check_OkE)
  show ?thesis using assms pack
    by (fastforce simp: BuildSDKTx_def convertPrivKey_def Let_def elim!: check_OkE split: if_splits)
qed

end
