(* ===== verification/TestService.thy ===== *)
theory TestService
  imports TestApp RollupTx Service
begin

text \<open>
  The services of the sample application's module (\<^verbatim>\<open>testmodule/types/*.pb.go\<close>), their
  registration (\<^verbatim>\<open>testmodule/module.go\<close>) and how the application is put together
  (\<^verbatim>\<open>testapp.New\<close>): its modules with their configuration, the chain initialiser and the decoder
  of transactions that accepts deposits.
\<close>

section \<open>The message service\<close>

text \<open>A request is the module's message or a message of another type.\<close>

datatype test_msg = SetValueMsg MsgSetValue | ForeignMsg string

record 'c TestMsgServer =
  tm_SetValue :: "MsgSetValue \<Rightarrow> ('c, unit) op"

definition TestUnimplementedMsgServer :: "'c TestMsgServer" where
  "TestUnimplementedMsgServer = \<lparr>tm_SetValue = (\<lambda>req. unimplemented ''SetValue'')\<rparr>"

definition call_SetValue :: "'c TestMsgServer \<Rightarrow> test_msg \<Rightarrow> ('c, unit) op" where
  "call_SetValue srv req = (case req of SetValueMsg m \<Rightarrow> tm_SetValue srv m | _ \<Rightarrow> notThisType)"

definition Msg_SetValue_Handler :: "('c, 'c TestMsgServer, test_msg, unit) handler" where
  "Msg_SetValue_Handler = unaryHandler ''/testapp.v1.Msg/SetValue'' (SetValueMsg zero_MsgSetValue) call_SetValue"

definition TestMsg_serviceDesc :: "('c, 'c TestMsgServer, test_msg, unit) ServiceDesc" where
  "TestMsg_serviceDesc = \<lparr>sd_ServiceName = ''testapp.v1.Msg'',
     sd_Methods = [\<lparr>md_MethodName = ''SetValue'', md_Handler = Msg_SetValue_Handler\<rparr>]\<rparr>"

definition msgClient_SetValue :: "(string \<Rightarrow> test_msg \<Rightarrow> ('c, unit) op) \<Rightarrow> MsgSetValue \<Rightarrow> ('c, unit) op" where
  "msgClient_SetValue Invoke req = scheck (Invoke ''/testapp.v1.Msg/SetValue'' (SetValueMsg req)) pass sret"

definition MsgSetValue_ValidateBasic :: "MsgSetValue \<Rightarrow> unit res" where
  "MsgSetValue_ValidateBasic m = Ok ()"

section \<open>The query service\<close>

datatype test_query = ValueRequest QueryValueRequest | ForeignRequest string

record 'c TestQueryServer =
  tq_Value :: "QueryValueRequest \<Rightarrow> ('c, QueryValueResponse) op"

definition TestUnimplementedQueryServer :: "'c TestQueryServer" where
  "TestUnimplementedQueryServer = \<lparr>tq_Value = (\<lambda>req. unimplemented ''Value'')\<rparr>"

definition call_Value :: "'c TestQueryServer \<Rightarrow> test_query \<Rightarrow> ('c, QueryValueResponse) op" where
  "call_Value srv req = (case req of ValueRequest r \<Rightarrow> tq_Value srv r | _ \<Rightarrow> notThisType)"

definition Query_Value_Handler :: "('c, 'c TestQueryServer, test_query, QueryValueResponse) handler" where
  "Query_Value_Handler = unaryHandler ''/testapp.v1.Query/Value'' (ValueRequest \<lparr>qv_Key = []\<rparr>) call_Value"

definition TestQuery_serviceDesc :: "('c, 'c TestQueryServer, test_query, QueryValueResponse) ServiceDesc" where
  "TestQuery_serviceDesc = \<lparr>sd_ServiceName = ''testapp.v1.Query'',
     sd_Methods = [\<lparr>md_MethodName = ''Value'', md_Handler = Query_Value_Handler\<rparr>]\<rparr>"

definition queryClient_Value ::
    "(string \<Rightarrow> test_query \<Rightarrow> ('c, QueryValueResponse) op) \<Rightarrow> QueryValueRequest \<Rightarrow> ('c, QueryValueResponse) op" where
  "queryClient_Value Invoke req = scheck (Invoke ''/testapp.v1.Query/Value'' (ValueRequest req)) pass sret"

section \<open>The module\<close>

record 'k TestModule =
  tmod_keeper :: 'k

definition TestModule_New :: "'k \<Rightarrow> 'k TestModule" where
  "TestModule_New k = \<lparr>tmod_keeper = k\<rparr>"

definition TestProvideModule :: "'s kv_service \<Rightarrow> 's kv_service \<times> 's kv_service TestModule" where
  "TestProvideModule storeService = (let k = storeService in (k, TestModule_New k))"

definition TestRegisterMsgServer ::
    "('m \<Rightarrow> ('c, 'c TestMsgServer, test_msg, unit) ServiceDesc \<Rightarrow> 'c TestMsgServer \<Rightarrow> 'm) \<Rightarrow> 'm \<Rightarrow> 'c TestMsgServer \<Rightarrow> 'm" where
  "TestRegisterMsgServer RegisterService s srv = RegisterService s TestMsg_serviceDesc srv"

definition TestRegisterQueryServer ::
    "('q \<Rightarrow> ('c, 'c TestQueryServer, test_query, QueryValueResponse) ServiceDesc \<Rightarrow> 'c TestQueryServer \<Rightarrow> 'q) \<Rightarrow>
     'q \<Rightarrow> 'c TestQueryServer \<Rightarrow> 'q" where
  "TestRegisterQueryServer RegisterService s srv = RegisterService s TestQuery_serviceDesc srv"

definition TestRegisterServices ::
    "('m, 's, 's TestMsgServer, test_msg, unit) msg_router \<Rightarrow>
     ('q, 's, 's TestQueryServer, test_query, QueryValueResponse) grpc_server \<Rightarrow>
     's kv_service TestModule \<Rightarrow> 'm \<times> 'q \<Rightarrow> 'm \<times> 'q" where
  "TestRegisterServices R S m cfg =
     (TestRegisterMsgServer (mr_RegisterService R) (fst cfg) \<lparr>tm_SetValue = Keeper_SetValue (tmod_keeper m)\<rparr>,
      TestRegisterQueryServer (gs_RegisterService S) (snd cfg) \<lparr>tq_Value = Keeper_Value (tmod_keeper m)\<rparr>)"

definition TestRegisterInterfaces ::
    "('reg \<Rightarrow> ('c, 'c TestMsgServer, test_msg, unit) ServiceDesc \<Rightarrow> 'reg) \<Rightarrow> 'reg \<Rightarrow> 'reg" where
  "TestRegisterInterfaces RegisterMsgServiceDesc registry = RegisterMsgServiceDesc registry TestMsg_serviceDesc"

section \<open>The application (testapp.New)\<close>

text \<open>The configuration of each module, in the order of the list.\<close>

record permission =
  pm_Account :: string
  pm_Permissions :: "string list"

datatype module_config =
    RuntimeModule string "string list" "string list" "string list" "string list"
  | AuthModule string "permission list"
  | BankModule
  | TxConfig bool
  | TestModuleConfig
  | RollupModuleConfig

definition testConfig :: "(string \<times> module_config) list" where
  "testConfig = [
     (''runtime'', RuntimeModule ''TestApp'' modules modules modules modules),
     (''auth'', AuthModule ''cosmos'' [
        \<lparr>pm_Account = ''fee_collector'', pm_Permissions = []\<rparr>,
        \<lparr>pm_Account = ModuleName, pm_Permissions = [''minter'', ''burner'']\<rparr>]),
     (''bank'', BankModule),
     (''tx'', TxConfig True),
     (testModuleName, TestModuleConfig),
     (ModuleName, RollupModuleConfig)]"

text \<open>
  What the SDK's builder does: the injected components, the application on a database, and the
  hooks that are set on it.
\<close>

record ('i, 'db, 'rt, 'a, 'cq, 'cr, 'g, 'x, 't) app_lib =
  al_Inject :: "(string \<times> module_config) list \<Rightarrow> 'i res"
  al_Build :: "'i \<Rightarrow> 'db \<Rightarrow> string \<Rightarrow> 'rt"
  al_Unmarshal :: "bytes \<Rightarrow> 'g res"
  al_InitGenesis :: "'rt \<Rightarrow> 'i \<Rightarrow> 'g \<Rightarrow> ('a, 'x) op"
  al_SetInitChainer :: "'rt \<Rightarrow> (bytes \<Rightarrow> ('a, 'x) op) \<Rightarrow> 'rt"
  al_AuthTxDecoder :: "'i \<Rightarrow> bytes \<Rightarrow> 't sdk_tx res"
  al_SetTxDecoder :: "'rt \<Rightarrow> (bytes \<Rightarrow> 't sdk_tx res) \<Rightarrow> 'rt"
  al_LoadLatestVersion :: "'rt \<Rightarrow> 'rt res"
  al_App :: "'rt \<Rightarrow> ('a, 'cq, 'cr, abci_query, bytes) sdk_app"
  al_DefaultGenesis :: "'i \<Rightarrow> string \<rightharpoonup> bytes"

definition testapp_New ::
    "('i, 'db, 'rt, 'a, 'cq, 'cr, 'g, 'x, 't) app_lib \<Rightarrow> 'db \<Rightarrow> string \<Rightarrow> ('a, 'cq, 'cr) App res" where
  "testapp_New L appdb chainID =
     check (al_Inject L testConfig) (Errorf_v ''inject config'') (\<lambda>i.
     let runtimeApp = al_Build L i appdb chainID;
         runtimeApp = al_SetInitChainer L runtimeApp (initChainer (al_Unmarshal L) (al_InitGenesis L runtimeApp i));
         runtimeApp = al_SetTxDecoder L runtimeApp (TxDecoder_Decode (al_AuthTxDecoder L i)) in
     check (al_LoadLatestVersion L runtimeApp) (Errorf_v ''load latest version'') (\<lambda>runtimeApp.
     Ok \<lparr>ta_app = al_App L runtimeApp, ta_defaultGenesis = al_DefaultGenesis L i\<rparr>))"

definition DefaultGenesis :: "('a, 'cq, 'cr) App \<Rightarrow> string \<rightharpoonup> bytes" where
  "DefaultGenesis a = ta_defaultGenesis a"

text \<open>
  A transaction of the helpers holds one message, packed with its type, and an empty fee; nobody
  signs it.
\<close>

record packed_msg =
  pk_TypeUrl :: string
  pk_Value :: bytes

record test_tx =
  tt_Messages :: "packed_msg list"
  tt_SignerInfos :: "bytes list"
  tt_FeeAmount :: "(string \<times> int) list"
  tt_GasLimit :: u64

definition ToTx :: "('m \<Rightarrow> packed_msg res) \<Rightarrow> (test_tx \<Rightarrow> bytes res) \<Rightarrow> 'm \<Rightarrow> bytes res" where
  "ToTx NewAnyWithValue marshal msg =
     check (NewAnyWithValue msg) pass (\<lambda>msgAny.
     marshal \<lparr>tt_Messages = [msgAny], tt_SignerInfos = [], tt_FeeAmount = [], tt_GasLimit = 0\<rparr>)"

section \<open>The services have the generated shape\<close>

fun test_msg_url :: "test_msg \<Rightarrow> string option" where
  "test_msg_url (SetValueMsg m) = Some ''/testapp.v1.MsgSetValue''"
| "test_msg_url (ForeignMsg s) = Some s"

fun test_query_url :: "test_query \<Rightarrow> string option" where
  "test_query_url (ValueRequest r) = Some ''/testapp.v1.QueryValueRequest''"
| "test_query_url (ForeignRequest s) = Some s"

interpretation testMsg: unary_service TestMsg_serviceDesc test_msg_url
  "[(''SetValue'', SetValueMsg zero_MsgSetValue, call_SetValue)]"
  by unfold_locales (auto simp: TestMsg_serviceDesc_def Msg_SetValue_Handler_def fullName_def)

interpretation testQuery: unary_service TestQuery_serviceDesc test_query_url
  "[(''Value'', ValueRequest \<lparr>qv_Key = []\<rparr>, call_Value)]"
  by unfold_locales (auto simp: TestQuery_serviceDesc_def Query_Value_Handler_def fullName_def)

text \<open>What the router validates; the context here is the store alone, without events.\<close>

fun test_ValidateBasic :: "test_msg \<Rightarrow> unit res" where
  "test_ValidateBasic (SetValueMsg m) = MsgSetValue_ValidateBasic m"
| "test_ValidateBasic (ForeignMsg s) = Ok ()"

text \<open>What the wire does to a query and its response.\<close>

fun test_query_encode :: "test_query \<Rightarrow> bytes res" where
  "test_query_encode (ValueRequest r) = QueryValueRequest_Marshal r"
| "test_query_encode (ForeignRequest s) = Err (External s)"

fun test_query_decode :: "bytes \<Rightarrow> test_query \<Rightarrow> test_query res" where
  "test_query_decode bz (ValueRequest r) = check (QueryValueRequest_Unmarshal bz r) pass (\<lambda>r. Ok (ValueRequest r))"
| "test_query_decode bz (ForeignRequest s) = Err (External s)"

definition test_reread :: "QueryValueResponse \<Rightarrow> QueryValueResponse res" where
  "test_reread r = QueryValueResponse_Unmarshal (QueryValueResponse_MarshalToSizedBuffer r) \<lparr>qr_Value = []\<rparr>"

lemma test_query_on_the_wire:
  assumes "length k < 2 ^ 62"
  shows "\<exists>bz. test_query_encode (ValueRequest \<lparr>qv_Key = k\<rparr>) = Ok bz \<and>
    test_query_decode bz (ValueRequest \<lparr>qv_Key = []\<rparr>) = Ok (ValueRequest \<lparr>qv_Key = k\<rparr>)"
proof -
  have "QueryValueRequest_Size \<lparr>qv_Key = k\<rparr> < 2 ^ 63"
    using sizeField_le(3) [of "length k"] assms by (simp add: QueryValueRequest_Size_def)
  from wQueryValueRequest.round_trip [OF TrueI this] show ?thesis by (auto simp: QueryValueRequest_Marshal_def)
qed

lemma test_reread_same:
  assumes "length v < 2 ^ 62"
  shows "test_reread \<lparr>qr_Value = v\<rparr> = Ok \<lparr>qr_Value = v\<rparr>"
proof -
  have "QueryValueResponse_Size \<lparr>qr_Value = v\<rparr> < 2 ^ 63"
    using sizeField_le(3) [of "length v"] assms by (simp add: QueryValueResponse_Size_def)
  from wQueryValueResponse.round_trip [OF TrueI this] wQueryValueResponse.marshalled [of "\<lparr>qr_Value = v\<rparr>"]
  show ?thesis by (auto simp: test_reread_def)
qed

section \<open>Properties\<close>

lemma Keeper_SetValue_ok:
  assumes "kv_service_ok S view" "sv_Key m \<noteq> []"
  shows "\<exists>s'. Keeper_SetValue S m s = (Ok (), s') \<and> view s' = (view s)(str (sv_Key m) \<mapsto> str (sv_Value m))"
proof -
  have "str (sv_Key m) \<noteq> []" using assms(2) by simp
  then obtain s' where "kv_Set S (str (sv_Key m)) (str (sv_Value m)) s = (Ok (), s')"
    "view s' = (view s)(str (sv_Key m) \<mapsto> str (sv_Value m))" using assms(1) unfolding kv_service_ok_def by blast
  then show ?thesis by (auto simp: Keeper_SetValue_def scheck_def sret_def)
qed

text \<open>
  A value that is set is queried. With the module's services registered, a message that sets a
  value succeeds on the application's router, and a client of the query service then reads that
  value under its key and what was there before under every other.
\<close>

theorem set_value_is_queried:
  assumes kv: "kv_service_ok K view" and R: "router_ok test_msg_url test_ValidateBasic id R" and S: "grpc_ok test_query_decode S"
    and free: "\<not> mr_Has R (fst cfg) ''/testapp.v1.MsgSetValue''" "\<not> gs_Has S (snd cfg) ''testapp.v1.Query''"
    and cfg: "TestRegisterServices R S (snd (TestProvideModule K)) cfg = (router, queries)"
    and cc: "connected test_query_encode test_reread S queries Invoke"
    and m: "sv_Key m \<noteq> []" "length (sv_Value m) < 2 ^ 62"
    and small: "\<forall>k. length (valueOf (view s) k) < 2 ^ 62"
  shows "\<exists>s'. mr_Handler R router (SetValueMsg m) s = (Ok (), s') \<and>
    (\<forall>k. k \<noteq> [] \<and> length k < 2 ^ 62 \<longrightarrow> queryClient_Value Invoke \<lparr>qv_Key = k\<rparr> s' =
      (Ok \<lparr>qr_Value = (if k = sv_Key m then sv_Value m else valueOf (view s) k)\<rparr>, s'))"
proof -
  have r: "router = mr_RegisterService R (fst cfg) TestMsg_serviceDesc \<lparr>tm_SetValue = Keeper_SetValue K\<rparr>"
    and q: "queries = gs_RegisterService S (snd cfg) TestQuery_serviceDesc \<lparr>tq_Value = Keeper_Value K\<rparr>"
    using cfg by (auto simp: TestRegisterServices_def TestProvideModule_def TestModule_New_def
        TestRegisterMsgServer_def TestRegisterQueryServer_def)
  obtain s' where set: "Keeper_SetValue K m s = (Ok (), s')" "view s' = (view s)(str (sv_Key m) \<mapsto> str (sv_Value m))"
    using Keeper_SetValue_ok [OF kv m(1)] by blast
  have "mr_Handler R router (SetValueMsg m) s = (Ok (), s')"
    using testMsg.routed [OF R list.set_intros(1), of "SetValueMsg m" "fst cfg" "\<lparr>tm_SetValue = Keeper_SetValue K\<rparr>" s] set(1) free(1)
    by (simp add: r call_SetValue_def slift_def scheck_def MsgSetValue_ValidateBasic_def)
  moreover have "queryClient_Value Invoke \<lparr>qv_Key = k\<rparr> s' =
      (Ok \<lparr>qr_Value = (if k = sv_Key m then sv_Value m else valueOf (view s) k)\<rparr>, s')"
    if k: "k \<noteq> []" "length k < 2 ^ 62" for k
  proof -
    let ?v = "if k = sv_Key m then sv_Value m else valueOf (view s) k"
    obtain bz where bz: "test_query_encode (ValueRequest \<lparr>qv_Key = k\<rparr>) = Ok bz"
      "test_query_decode bz (ValueRequest \<lparr>qv_Key = []\<rparr>) = Ok (ValueRequest \<lparr>qv_Key = k\<rparr>)"
      using test_query_on_the_wire [OF k(2)] by blast
    have "valueOf (view s') k = ?v" by (auto simp: set(2) valueOf_def unstr_str)
    then have "call_Value \<lparr>tq_Value = Keeper_Value K\<rparr> (ValueRequest \<lparr>qv_Key = k\<rparr>) s' = (Ok \<lparr>qr_Value = ?v\<rparr>, s')"
      using Keeper_Value_ok [OF kv k(1), of s'] by (simp add: call_Value_def)
    moreover have "test_reread \<lparr>qr_Value = ?v\<rparr> = Ok \<lparr>qr_Value = ?v\<rparr>" using m(2) small by (intro test_reread_same) simp
    ultimately show ?thesis
      using testQuery.invoked [OF S _ cc [unfolded q] list.set_intros(1) bz, of s'] free(2)
      by (simp add: queryClient_Value_def fullName_def TestQuery_serviceDesc_def slift_def sret_def)
  qed
  ultimately show ?thesis by blast
qed

theorem set_value_is_queried_witness:
  "\<exists>router queries s'. TestRegisterServices (list_router test_msg_url test_ValidateBasic id) (list_grpc test_query_decode)
       (snd (TestProvideModule map_service)) ([], []) = (router, queries) \<and>
     mr_Handler (list_router test_msg_url test_ValidateBasic id) router
       (SetValueMsg \<lparr>sv_FromAddress = ''me'', sv_Key = ''k'', sv_Value = ''v''\<rparr>) Map.empty = (Ok (), s') \<and>
     queryClient_Value (direct test_query_encode test_reread (list_grpc test_query_decode) queries) \<lparr>qv_Key = ''k''\<rparr> s' =
       (Ok \<lparr>qr_Value = ''v''\<rparr>, s')"
proof -
  obtain router queries where cfg: "TestRegisterServices (list_router test_msg_url test_ValidateBasic id) (list_grpc test_query_decode)
      (snd (TestProvideModule map_service)) ([], []) = (router, queries)" by fastforce
  have "\<forall>k. length (valueOf Map.empty k) < 2 ^ 62" by (simp add: valueOf_def)
  moreover have "\<not> mr_Has (list_router test_msg_url test_ValidateBasic id) [] ''/testapp.v1.MsgSetValue''"
    "\<not> gs_Has (list_grpc test_query_decode) [] ''testapp.v1.Query''" by (simp_all add: list_router_def list_grpc_def)
  ultimately show ?thesis
    using set_value_is_queried [OF map_service_ok list_router_ok list_grpc_ok _ _ cfg direct_connected,
      of "\<lparr>sv_FromAddress = ''me'', sv_Key = ''k'', sv_Value = ''v''\<rparr>" Map.empty] cfg
    by fastforce
qed

text \<open>
  Two transactions of the helpers are equal only when they set the same value under the same key,
  as long as packing and marshalling tell messages and transactions apart.
\<close>

lemma test_txs_differ:
  assumes "inj_on pack UNIV" "inj_on marshal UNIV"
    and "ToTestTx (ToTx (\<lambda>m. Ok (pack m)) (\<lambda>t. Ok (marshal t))) k v = ToTestTx (ToTx (\<lambda>m. Ok (pack m)) (\<lambda>t. Ok (marshal t))) k' v'"
  shows "k = k' \<and> v = v'"
  using assms(3) injD [OF assms(1)] injD [OF assms(2)] by (fastforce simp: ToTestTx_def ToTx_def)

text \<open>
  The application's configuration fits its modules: every configured module that has a genesis is
  in the order in which modules are called, each one once, the rollup module last, and the
  rollup module is the only account that may mint and burn.
\<close>

lemma test_config_is_complete:
  "set (map fst testConfig) - {''runtime'', ''tx''} \<subseteq> set modules"
  "distinct modules" "last modules = ModuleName"
  "AuthModule prefix ps \<in> set (map snd testConfig) \<Longrightarrow>
     map pm_Account (filter (\<lambda>p. list_ex (\<lambda>r. r \<in> {''minter'', ''burner''}) (pm_Permissions p)) ps) = [ModuleName]"
  by (auto simp: testConfig_def modules_def testModuleName_def ModuleName_def)

end
