(* ===== verification/E2E.thy ===== *)
theory E2E
  imports Environment Url
begin

text \<open>
  How the end-to-end tests start their stack (\<^verbatim>\<open>e2e/e2e.go\<close>): a project is generated and set up,
  a sequencer process is started, and a verifier once the sequencer's L1 accepts connections.
  Waiting for each process is deferred to the environment. Running a command, the paths and
  the address parser are parameters.
\<close>

section \<open>Commands\<close>

text \<open>A command is interrupted with a signal when its context ends (\<^verbatim>\<open>setupCmd\<close>).\<close>

datatype signal = SIGKILL | SIGTERM

record cmd =
  cm_Path :: string
  cm_Args :: "string list"
  cm_Dir :: string
  cm_Env :: "string list"
  cm_Cancel :: signal
  cm_Inherits :: bool

text \<open>\<^verbatim>\<open>exec.CommandContext\<close>: the process's own directory and environment, killed at the end.\<close>

definition CommandContext :: "string \<Rightarrow> string list \<Rightarrow> cmd" where
  "CommandContext name args = \<lparr>cm_Path = name, cm_Args = args, cm_Dir = '''', cm_Env = [], cm_Cancel = SIGKILL, cm_Inherits = False\<rparr>"

definition setupCmd :: "cmd \<Rightarrow> cmd" where
  "setupCmd c = c\<lparr>cm_Cancel := SIGTERM, cm_Inherits := True\<rparr>"

text \<open>
  The children that were started and not waited for. \<open>ex_Wait\<close> is what waiting for a child
  gives, \<open>None\<close> while it runs; \<open>ex_Canceled\<close> is \<^verbatim>\<open>context.Canceled\<close>.
\<close>

record children =
  ch_running :: "cmd list"

record exec_lib =
  ex_Abs :: "string \<Rightarrow> string res"
  ex_Join :: "string list \<Rightarrow> string"
  ex_Environ :: "string list"
  ex_Run :: "cmd \<Rightarrow> unit res"
  ex_Start :: "cmd \<Rightarrow> unit res"
  ex_Wait :: "cmd \<Rightarrow> unit res option"
  ex_Canceled :: goerr

record stack =
  st_children :: children
  st_env :: "children Env"

definition startCmd :: "exec_lib \<Rightarrow> cmd \<Rightarrow> (stack, unit) op" where
  "startCmd X c s = (case ex_Start X c of
       Ok _ \<Rightarrow> (Ok (), s\<lparr>st_children := (st_children s)\<lparr>ch_running := c # ch_running (st_children s)\<rparr>\<rparr>)
     | r \<Rightarrow> (r, s))"

definition waitCmd :: "exec_lib \<Rightarrow> cmd \<Rightarrow> children cleanup" where
  "waitCmd X c w = map_option (\<lambda>r.
      (case r of Err e \<Rightarrow> if errors_Is e (ex_Canceled X) then Ok () else Err e | r \<Rightarrow> r,
       w\<lparr>ch_running := removeAll c (ch_running w)\<rparr>)) (ex_Wait X c)"

definition deferWait :: "exec_lib \<Rightarrow> string \<Rightarrow> cmd \<Rightarrow> (stack, unit) op" where
  "deferWait X msg c s = (Ok (), s\<lparr>st_env := DeferErr msg (waitCmd X c) (st_env s)\<rparr>)"

section \<open>Starting the stack (Run)\<close>

definition appName :: string where "appName = ''e2eapp''"

definition monogenCmd :: "exec_lib \<Rightarrow> string \<Rightarrow> string \<Rightarrow> cmd" where
  "monogenCmd X appDirPath monomerPath = setupCmd (CommandContext (ex_Join X [''..'', ''scripts'', ''go-wrapper.sh''])
     [''run'', ex_Join X [''..'', ''cmd'', ''monogen''],
      ''--app-dir-path'', appDirPath,
      ''--gomod-path'', ''github.com/e2e/'' @ appName,
      ''--address-prefix'', ''e2e'',
      ''--monomer-path'', monomerPath])"

text \<open>The other commands run in the project's directory with its home in the output directory.\<close>

definition inProject :: "exec_lib \<Rightarrow> string \<Rightarrow> string \<Rightarrow> cmd \<Rightarrow> cmd" where
  "inProject X outDir appDirPath c = c\<lparr>cm_Dir := appDirPath, cm_Env := ex_Environ X @ [''e2eapp_HOME='' @ outDir]\<rparr>"

definition setupHelperCmd :: "exec_lib \<Rightarrow> string \<Rightarrow> string \<Rightarrow> cmd" where
  "setupHelperCmd X outDir appDirPath =
     inProject X outDir appDirPath (setupCmd (CommandContext (ex_Join X [appDirPath, ''setup-helper.sh'']) []))"

definition sequencerAppCmd :: "exec_lib \<Rightarrow> string \<Rightarrow> string \<Rightarrow> cmd" where
  "sequencerAppCmd X outDir appDirPath =
     inProject X outDir appDirPath (setupCmd (CommandContext (ex_Join X [appDirPath, appName @ ''d''])
       [''monomer'', ''start'', ''--minimum-gas-prices'', ''0.001wei'', ''--log_no_color'',
        ''--monomer.dev-start'', ''--monomer.sequencer'']))"

definition verifierAppCmd :: "exec_lib \<Rightarrow> string \<Rightarrow> string \<Rightarrow> cmd" where
  "verifierAppCmd X outDir appDirPath =
     inProject X outDir appDirPath (setupCmd (CommandContext (ex_Join X [appDirPath, appName @ ''d''])
       [''monomer'', ''start'', ''--minimum-gas-prices'', ''0.001wei'', ''--log_no_color'',
        ''--grpc.enable=false'', ''--rpc.laddr'', ''tcp://127.0.0.1:26667'', ''--monomer.dev-start'',
        ''--monomer.engine-url'', ''ws://127.0.0.1:9010'', ''--monomer.dev.op-node-url'', ''http://127.0.0.1:9012'']))"

text \<open>
  The attempts to reach L1 are given by whether the context has ended, which the background
  context never does, and whether the dial succeeds; while they last nothing is returned.
\<close>

definition background :: "bool list \<Rightarrow> (bool \<times> bool) list" where
  "background dials = map (Pair False) dials"

definition e2e_Run ::
    "exec_lib \<Rightarrow> (string \<Rightarrow> ('u, 'r) URL res) \<Rightarrow> bool list \<Rightarrow> string \<Rightarrow> (stack, unit) pop" where
  "e2e_Run X parse dials outDir =
     pcheck (total (slift (\<lambda>_. ex_Abs X ''..''))) (Errorf_v ''absolute path to local monomer directory'') (\<lambda>monomerPath.
     let appDirPath = ex_Join X [outDir, appName];
         sequencer = sequencerAppCmd X outDir appDirPath; verifier = verifierAppCmd X outDir appDirPath in
     pcheck (total (slift (\<lambda>_. ex_Run X (monogenCmd X appDirPath monomerPath)))) (Errorf_v ''run monogen'') (\<lambda>_.
     pcheck (total (slift (\<lambda>_. ex_Run X (setupHelperCmd X outDir appDirPath)))) (Errorf_v ''run setup helper'') (\<lambda>_.
     pcheck (total (startCmd X sequencer)) (Errorf_v ''run sequencer app'') (\<lambda>_.
     pcheck (total (deferWait X ''wait for sequencer app'' sequencer)) pass (\<lambda>_.
     pcheck (total (slift (\<lambda>_. parse ''ws://127.0.0.1:9001''))) (Errorf_v ''parse L1 URL'') (\<lambda>l1URL s.
     case IsReachable (background dials) of
       None \<Rightarrow> None
     | Some reachable \<Rightarrow>
         (if \<not> reachable then Some (Err (ErrorNew ''l1 instance is not reachable''), s)
          else pcheck (total (startCmd X verifier)) (Errorf_v ''run verifier app'') (\<lambda>_.
               total (deferWait X ''wait for verifier app'' verifier)) s)))))))"

section \<open>Properties\<close>

lemma reachable_background: "IsReachable (background dials) = (if True \<in> set dials then Some True else None)"
  by (induction dials) (auto simp: background_def)

definition waits :: "exec_lib \<Rightarrow> (string \<times> cmd) list \<Rightarrow> children deferFn list" where
  "waits X = map (\<lambda>(msg, c). \<lparr>df_errMsg = msg, df_fn = waitCmd X c\<rparr>)"

definition fresh :: stack where
  "fresh = \<lparr>st_children = \<lparr>ch_running = []\<rparr>, st_env = Env_New\<rparr>"

text \<open>A child that is started is waited for, and nothing else changes.\<close>

definition started :: "exec_lib \<Rightarrow> string \<times> cmd \<Rightarrow> stack \<Rightarrow> stack" where
  "started X mc s = s\<lparr>
     st_children := (st_children s)\<lparr>ch_running := snd mc # ch_running (st_children s)\<rparr>,
     st_env := DeferErr (fst mc) (waitCmd X (snd mc)) (st_env s)\<rparr>"

lemma start_then_defer:
  "pcheck (total (startCmd X c)) w (\<lambda>_. pcheck (total (deferWait X msg c)) pass k) s =
     (case ex_Start X c of Ok _ \<Rightarrow> k () (started X (msg, c) s) | Err e \<Rightarrow> Some (Err (w e), s) | Panic e \<Rightarrow> Some (Panic e, s))"
  by (simp add: pcheck_def startCmd_def deferWait_def started_def split: res.splits)

lemma start_then_defer_last:
  "pcheck (total (startCmd X c)) w (\<lambda>_. total (deferWait X msg c)) s =
     (case ex_Start X c of Ok _ \<Rightarrow> Some (Ok (), started X (msg, c) s) | Err e \<Rightarrow> Some (Err (w e), s) | Panic e \<Rightarrow> Some (Panic e, s))"
  by (simp add: pcheck_def startCmd_def deferWait_def started_def split: res.splits)

lemma pcheck_pure: "pcheck (total (slift (\<lambda>_. r))) w k s =
    (case r of Ok x \<Rightarrow> k x s | Err e \<Rightarrow> Some (Err (w e), s) | Panic e \<Rightarrow> Some (Panic e, s))"
  by (simp add: pcheck_def slift_def split: res.splits)

lemma run_starts:
  assumes "e2e_Run X parse dials outDir s = Some (r, s')"
  shows "\<exists>mcs. s' = fold (started X) mcs s"
proof -
  let ?q = "(''wait for sequencer app'', sequencerAppCmd X outDir (ex_Join X [outDir, appName]))"
  let ?v = "(''wait for verifier app'', verifierAppCmd X outDir (ex_Join X [outDir, appName]))"
  have "s' = fold (started X) [] s \<or> s' = fold (started X) [?q] s \<or> s' = fold (started X) [?q, ?v] s"
    using assms
    by (simp add: e2e_Run_def Let_def start_then_defer start_then_defer_last pcheck_pure split: res.splits option.splits if_splits)
  then show ?thesis by blast
qed

lemma fold_started:
  "env_deferFns (st_env (fold (started X) mcs s)) = env_deferFns (st_env s) @ waits X mcs"
  "env_wg (st_env (fold (started X) mcs s)) = env_wg (st_env s)"
  "set (ch_running (st_children (fold (started X) mcs s))) = set (ch_running (st_children s)) \<union> set (map snd mcs)"
  by (induction mcs arbitrary: s) (auto simp: started_def DeferErr_def waits_def)

lemma waitCmd_ended:
  assumes "ex_Wait X c = Some x" "\<And>e. x \<noteq> Panic e"
  shows "\<exists>y. waitCmd X c w = Some (y, w\<lparr>ch_running := removeAll c (ch_running w)\<rparr>) \<and> (\<forall>e. y \<noteq> Panic e)"
  using assms by (cases x) (simp_all add: waitCmd_def)

lemma runAll_waits:
  assumes "\<And>c. \<exists>x. ex_Wait X c = Some x \<and> (\<forall>e. x \<noteq> Panic e)"
  shows "\<exists>es w'. runAll (waits X mcs) w = Some (Ok es, w') \<and>
    set (ch_running w') = set (ch_running w) - set (map snd mcs)"
proof (induction mcs arbitrary: w)
  case (Cons mc mcs)
  obtain msg c where mc: "mc = (msg, c)" by (cases mc)
  obtain y where y: "waitCmd X c w = Some (y, w\<lparr>ch_running := removeAll c (ch_running w)\<rparr>)" "\<forall>e. y \<noteq> Panic e"
    using waitCmd_ended assms by blast
  obtain es w' where ih: "runAll (waits X mcs) (w\<lparr>ch_running := removeAll c (ch_running w)\<rparr>) = Some (Ok es, w')"
    "set (ch_running w') = set (removeAll c (ch_running w)) - set (map snd mcs)"
    using Cons [of "w\<lparr>ch_running := removeAll c (ch_running w)\<rparr>"] by auto
  have "\<exists>es'. runAll (waits X (mc # mcs)) w = Some (Ok es', w')"
    using y ih(1) by (cases y) (simp_all add: waits_def mc pcheck_def)
  then show ?case using ih(2) mc by auto
qed (simp add: waits_def)

text \<open>
  The stack leaves no child behind. However far a start gets, once the children it has started
  have ended, closing the environment returns and no child is left.
\<close>

theorem run_leaves_no_child:
  assumes run: "e2e_Run X parse dials outDir fresh = Some (r, s')"
    and ended: "\<And>c. \<exists>x. ex_Wait X c = Some x \<and> (\<forall>e. x \<noteq> Panic e)"
  shows "\<exists>err w'. Env_Close (st_env s') (st_children s') = Some (Ok err, w') \<and> ch_running w' = []"
proof -
  obtain mcs where "s' = fold (started X) mcs fresh" using run_starts [OF run] by blast
  then have mcs: "env_deferFns (st_env s') = waits X mcs" "env_wg (st_env s') = []"
    "set (ch_running (st_children s')) = set (map snd mcs)" by (simp_all add: fold_started fresh_def Env_New_def)
  obtain es w' where "runAll (waits X (rev mcs)) (st_children s') = Some (Ok es, w')" "set (ch_running w') = {}"
    using runAll_waits [OF ended, of "rev mcs" "st_children s'"] mcs(3) by auto
  moreover have "rev (env_deferFns (st_env s')) = waits X (rev mcs)" by (simp add: mcs(1) waits_def rev_map)
  ultimately show ?thesis
    using Env_Close_eq [of "st_env s'" "st_children s'"] mcs(2) by (simp add: wg_Wait_def pcheck_def)
qed

text \<open>
  The start has no time limit. The context of the attempts never ends, so that the branch for
  an L1 that cannot be reached is never taken: while no dial succeeds, for instance because
  the sequencer process has failed, the start does not return.
\<close>

theorem run_waits_for_l1_without_limit:
  "e2e_Run X parse dials outDir s \<noteq> Some (Err (ErrorNew ''l1 instance is not reachable''), s')"
  "True \<notin> set dials \<Longrightarrow> ex_Abs X ''..'' = Ok p \<Longrightarrow> \<forall>c. ex_Run X c = Ok () \<and> ex_Start X c = Ok () \<Longrightarrow>
     parse ''ws://127.0.0.1:9001'' = Ok u \<Longrightarrow> e2e_Run X parse dials outDir s = None"
  by (auto simp: e2e_Run_def Let_def start_then_defer start_then_defer_last pcheck_pure reachable_background
      split: res.splits if_splits)

end
