(* ===== verification/Spec2Isabelle.thy ===== *)
theory Spec2Isabelle
  imports EngineConcurrent EndToEnd RollupService CometProps EthProof Integrations Monogen TestHelpers TestService E2E
begin

text \<open>
  A verification development for Monomer, a rollup node that runs Cosmos SDK applications
  behind the Ethereum engine API. All paths below are relative to \<^verbatim>\<open>src/\<close>.

  \<^bold>\<open>The program.\<close> An OP-stack rollup node calls the engine API (\<^verbatim>\<open>engine/engine.go\<close>) to choose the
  head of the chain and to have blocks built. The engine turns payload transactions into
  Cosmos transactions (\<^verbatim>\<open>adapters.go\<close>), all L1 deposits of a block into one deposits transaction
  (\<^verbatim>\<open>x/rollup/types/tx.pb.go\<close>), and asks the builder (\<^verbatim>\<open>builder/builder.go\<close>) for a block. The builder
  drains the mempool (\<^verbatim>\<open>mempool/mempool.go\<close>) behind the injected transactions, runs the
  application, records its hash and its withdrawals in an EVM state (\<^verbatim>\<open>evm\<close>, \<^verbatim>\<open>bindings\<close>,
  \<^verbatim>\<open>contracts\<close>), stores the block (\<^verbatim>\<open>monomerdb/localdb\<close>) and indexes its transactions
  (\<^verbatim>\<open>app/peptide/txstore\<close>). Inside the application the rollup module (\<^verbatim>\<open>x/rollup\<close>) decodes and admits
  transactions, mints what L1 deposits, burns what is withdrawn, and emits the events from
  which the builder initiates withdrawals. Users read the chain and submit transactions
  through CometBFT's endpoints (\<^verbatim>\<open>comet/comet.go\<close>) and Ethereum's (\<^verbatim>\<open>eth\<close>). A node commits its
  genesis or recovers from a crash when it starts (\<^verbatim>\<open>genesis\<close>, \<^verbatim>\<open>node\<close>), serves its endpoints
  (\<^verbatim>\<open>node/http.go\<close>), and closes what it opened through an environment (\<^verbatim>\<open>environment\<close>). A command
  starts an application, the node and, for development, a whole OP stack in one process
  (\<^verbatim>\<open>integrations\<close>, \<^verbatim>\<open>opdevnet\<close>). \<^verbatim>\<open>cmd/monogen\<close> generates a project that does so, and \<^verbatim>\<open>testapp\<close>,
  \<^verbatim>\<open>testutils\<close> and \<^verbatim>\<open>e2e\<close> exercise it.

  \<^bold>\<open>Conventions.\<close> A Go call is a value of \<open>res\<close>: a result, an error or a panic; one that changes a
  state is an \<open>op\<close>, from a state to an outcome and the state it leaves, also when it fails
  (\<open>Prelude\<close>). An operation that may not return is a \<open>pop\<close>, \<open>None\<close> where it does not. Integers
  have the width of the source (\<open>u64\<close>, bytes); \<^verbatim>\<open>big.Int\<close> is \<open>int\<close> or \<open>nat\<close>, a nil pointer \<open>None\<close>.
  An error keeps its text prefix and its sentinel, so that \<^verbatim>\<open>errors.Is\<close> is a function. Text that
  the source only prints (the cause behind \<^verbatim>\<open>%v\<close>, numbers in messages) is left out. Packages
  outside \<^verbatim>\<open>src/\<close> are records of the functions the source calls; what it relies on is a named
  predicate (\<open>pebble_ok\<close>, \<open>dbm_ok\<close>, \<open>env_ok\<close>, \<open>hexlib_ok\<close>, \<open>bank_ok\<close>, \<open>kv_ok\<close>, \<open>sdk_ok\<close>, \<open>sort_ok\<close>,
  \<open>blocklib_ok\<close>, \<open>mathint_ok\<close>, \<open>router_ok\<close>, \<open>grpc_ok\<close>). Every property that has one has a witness at
  a concrete instance. The bank's list of accounts that may not receive coins is a parameter: an
  application configures it, and \<open>bank_ok\<close> says nothing about who is on it. The SDK's router
  (\<open>router_ok\<close>) runs a message's \<^verbatim>\<open>ValidateBasic\<close> first and gives its handler fresh events.

  \<^bold>\<open>Theories and what they show.\<close>

  \<^item> \<open>Prelude\<close>, \<open>Stores\<close>: outcomes and errors, big-endian encodings and their order, pebble and
    cosmos-db as parameters, \<^verbatim>\<open>utils.WrapCloseErr\<close>.
  \<^item> \<open>Chain\<close> (\<^verbatim>\<open>monomer.go\<close>): headers, blocks, payload attributes and their identifier.
  \<^item> \<open>LocalDB\<close> (\<^verbatim>\<open>monomerdb/localdb\<close>): the byte-level store. \<open>BlockStore\<close> is the abstract store of
    tables; \<open>LocalDBCorrect\<close> and \<open>LocalDBRollback\<close> prove that every operation refines it, and
    \<open>ChainStore\<close> states this as the locale \<open>block_store\<close>, whose lemmas every client uses
    through its interpretation \<open>ldb\<close>. \<open>BlockStoreProps\<close> shows the refinement, round trips, the
    chain invariant of every reachable state (\<open>store_reach\<close>) and the type of every row in it,
    and what a rollback forgets and wrongly keeps.
  \<^item> \<open>Mempool\<close>: the linked list in a key-value store implements a queue (locale \<open>fifo\<close>,
    interpretation \<open>pool\<close>); a repeated transaction breaks it.
  \<^item> \<open>ProtoWire\<close>, \<open>RollupProto\<close>, \<open>RollupWire\<close>: the generated protobuf codecs of the rollup module. A
    message that reads back is the interface \<open>wire_message\<close>, interpreted for every message;
    all of them survive the wire, and no two of one type are written alike.
  \<^item> \<open>Adapters\<close>: both directions between payload and Cosmos transactions, inverse to each other.
  \<^item> \<open>TxStore\<close>: the transaction index; rolling back deletes exactly the rows above the target.
  \<^item> \<open>Evm\<close>, \<open>Withdrawals\<close>: contract calls, and withdrawals initiated from events.
  \<^item> \<open>Builder\<close>: \<^verbatim>\<open>Build\<close> and \<^verbatim>\<open>Rollback\<close>; a build returns and extends the chain, a rollback keeps the
    three stores together.
  \<^item> \<open>Engine\<close>, \<open>EngineProps\<close>: each API call is one step of \<open>engine_reach\<close>; the store stays a chain
    while the one block that a call seals has a hash of its own (\<open>fresh_block\<close>), the payload that
    was started becomes the head, a fork choice moves the head or is refused. \<open>RWLock\<close>: calls
    that run in steps under a readers-writer lock (locale \<open>locked_calls\<close>): a writer is alone,
    readers do not hold each other up, every schedule can be continued to the end, and what
    readers and writers do can be put in an order. \<open>EngineConcurrent\<close> (interpretation \<open>eng\<close>): the
    engine's calls under its lock, which only \<^verbatim>\<open>GetPayloadV3\<close> takes for reading. With at most one
    of these among them, calls are as if made one after the other; two build two blocks from one
    payload.
  \<^item> \<open>RollupTypes\<close>, \<open>RollupKeeper\<close>, \<open>RollupProps\<close>, \<open>RollupExamples\<close>: the rollup module's messages and
    keeper. A deposit credits exactly the mint, a withdrawal burns what the builder will read,
    the module account loses nothing and, where it may not receive coins, keeps nothing, parameters are guarded, fees leave completely, tokens
    go out the way they came in. What the module stores is the interface \<open>stored_value\<close>
    (interpretations \<open>params\<close>, \<open>l1info\<close>, and \<open>module_store\<close> for the two together).
  \<^item> \<open>RollupTx\<close>: decoding, the ante handlers, the free gas meter and the L1 data price, which
    equals the Ecotone formula. \<open>RollupModule\<close>: the module's genesis.
  \<^item> \<open>Service\<close>: what a service generated by protoc does behind the SDK's router and behind gRPC
    (locale \<open>unary_service\<close>). \<open>RollupService\<close>: the rollup module's message and query services and
    their registration; every valid message and every query reaches its keeper method.
  \<^item> \<open>Comet\<close>, \<open>CometProps\<close>: CometBFT's endpoints; search pages partition the results, a broadcast
    transaction reaches the next block, the endpoints agree on the head.
  \<^item> \<open>EthApi\<close>, \<open>EthProof\<close>: Ethereum's endpoints serve the stored chain, its headers' fields and every
    transaction at its own index, and prove its state.
  \<^item> \<open>EndToEnd\<close>: lemmas on the way of a deposit and of a withdrawal through all components; the
    two properties are below.
  \<^item> \<open>NodeStart\<close>: the genesis block, and recovery of an application that is one block ahead.
    \<open>NodeServers\<close>: the HTTP service as an interleaving of its two threads and its connections,
    which ends, waits for an active connection or, when serving failed, hangs; and the listeners. \<open>Metrics\<close>: histograms of calls.
  \<^item> \<open>Environment\<close>: goroutines, and closing, which runs everything that was deferred. \<open>Process\<close>:
    what a process holds open, and the contract of a step that leaves nothing unowned.
    \<open>NodeRun\<close>: the whole start of a node, which on empty stores serves its genesis.
  \<^item> \<open>OpDevnet\<close>, \<open>AppWrapper\<close>, \<open>Integrations\<close>: the devnet's secrets and configurations, the wrapped
    application, and the start command, which closes what it opened however far it got.
    \<open>Url\<close>: endpoint addresses.
  \<^item> \<open>Monogen\<close>: the project generator on an explicit file system; it overwrites nothing that was
    there. \<open>TestApp\<close>, \<open>TestService\<close>, \<open>TestHelpers\<close>: the sample application answers its genesis and
    what was set since, generated blocks extend their parent, and a withdrawal proof is of one
    block. \<open>E2E\<close>: the start of the end-to-end stack leaves no child process behind, and waits for
    L1 without a limit.

  \<^bold>\<open>Loops and bounds.\<close> Loops over slices and iterators are structural recursion. The loops that
  may not end, draining the pool and rolling the index back, are partial functions to \<open>option\<close>;
  that they return is proved (\<open>build_returns\<close>, \<open>builder_rollback_is_consistent\<close>,
  \<open>txstore_rollback_exact\<close>), under the bounds that are needed: a pool that holds a queue, and a
  height below the largest 64-bit number. The codecs are proved for encodings shorter than
  \<open>2 ^ 63\<close> bytes, which is the range of Go's \<^verbatim>\<open>int\<close>. No definition uses fuel.

  \<^bold>\<open>Not modelled.\<close> An API call is one atomic step, except where its threads matter: the HTTP
  service, the environment's goroutines, and the engine's calls, which run in steps under the
  engine's lock; a build and a rollback are one step each, and that a waiting writer holds back
  later readers is left out. A connection that a handler takes over leaves the count of those that
  \<^verbatim>\<open>Shutdown\<close> waits for like one that ends. The check of the SDK's circuit breaker in its router is
  left out: no application here installs one. Log lines are left out, and so is what has no behaviour of its own:
  interfaces, constructors that only fill a struct, the getters and descriptors of protoc, and
  the SDK's dependency injection and command line. \<^verbatim>\<open>gen\<close> and \<^verbatim>\<open>bindings/generated\<close> hold descriptors
  and contract bindings, and \<^verbatim>\<open>cmd/monogen/testapp\<close> is the scaffold that \<^verbatim>\<open>monogen\<close> unpacks.

  \<^bold>\<open>Plan.\<close> What could follow: \<^verbatim>\<open>Build\<close> in steps that the endpoints can read between, and a bank
  interface as a locale that the keeper's properties share.
\<close>

section \<open>Deposits and withdrawals end to end\<close>

text \<open>
  C1: an L1 deposit reaches its account. Take a payload of an L1 attributes transaction, user
  deposits and ordinary transactions, as the rollup node derives it. The engine's adapter
  packs the deposits into the first Cosmos transaction; the application's decoder reads that
  transaction back, the ante handler lets it pass, and delivering its messages stores the L1
  block info of the attributes and credits every deposit, in order: the value to the
  recipient and the rest of the mint to the sender, and nothing to anyone else.
\<close>

theorem deposit_end_to_end:
  fixes c :: "('s, 'b, 'g) ante_ctx"
  assumes ok: "bank_ok K V" "sdk_ok K" "kv_ok K view"
    and adapt: "AdaptPayloadTxsToCosmosTxs (ke_eth K) now (attrs # deps @ rest) = Ok cs"
    and info: "el_UnmarshalBinary (ke_eth K) attrs = Ok t" "el_L1BlockInfoFromBytes (ke_eth K) now (el_Data (ke_eth K) t) = Ok i"
      "sa_L1BlockInfo (l1AttributesMsg i attrs) = Some info"
    and deps: "list_all2 (userDeposit K V info p) deps ds"
    and rest: "\<forall>b \<in> set rest. \<forall>t. el_UnmarshalBinary (ke_eth K) b = Ok t \<longrightarrow> \<not> el_IsDepositTx (ke_eth K) t"
    and params: "GetParams K (ac_rollup c) = (Ok p, ac_rollup c)"
    and auth: "authTxDecoder (hd cs) = Err e" and small: "length (hd cs) < 2 ^ 63"
  shows "\<exists>tx m c1 c2. cs \<noteq> [] \<and> TxDecoder_Decode authTxDecoder (hd cs) = Ok tx \<and> tx = DepositsTxPtr m \<and>
    AnteHandle A tx simulate c = (Ok (), c1) \<and> deliverMsgs K (GetMsgs m) (ac_rollup c1) = (Ok (), c2) \<and>
    bv_bal V (rc_bank c2) = creditDeposits ds (bv_bal V (rc_bank (ac_rollup c))) \<and>
    GetL1BlockInfo K c2 = (Ok info, c2) \<and> GetParams K c2 = (Ok p, c2)"
proof -
  obtain us d cs' where us: "userDeposits (ke_eth K) (deps @ rest) = Ok us"
    and d: "DepositsTx_Marshal \<lparr>dt_L1Attributes = Some (l1AttributesMsg i attrs), dt_UserDeposits = us\<rparr> = Ok d"
    and cs: "cs = d # cs'"
    using info by (auto intro: AdaptPayload_Ok [OF adapt])
  let ?m = "\<lparr>dt_L1Attributes = Some (l1AttributesMsg i attrs), dt_UserDeposits = us\<rparr>"
  have tx: "map ud_Tx us = deps" by (rule userDeposits_prefix [OF userDeposit_is_deposit [OF deps] rest us])
  have d': "d = DepositsTx_MarshalToSizedBuffer ?m" using d by (simp add: DepositsTx_Marshal_def)
  then have sz: "DepositsTx_Size ?m < 2 ^ 63" using small cs by simp
  have dec: "TxDecoder_Decode authTxDecoder (hd cs) = Ok (DepositsTxPtr ?m)"
    using DepositsTx_round_trip(2) [OF sz] auth cs d' by (simp add: TxDecoder_Decode_def DepositDecoder_def)
  obtain c2 where c2: "deliverMsgs K (GetMsgs ?m) (ac_rollup c) = (Ok (), c2)" "GetL1BlockInfo K c2 = (Ok info, c2)"
      "GetParams K c2 = (Ok p, c2)" "bv_bal V (rc_bank c2) = creditDeposits ds (bv_bal V (rc_bank (ac_rollup c)))"
    using deliver_deposits_tx [OF ok sz _ info(3) params] deps tx by auto
  have "AnteHandle A (DepositsTxPtr ?m) simulate c = (Ok (), c\<lparr>ac_meter := NewFreeInfiniteGasMeter\<rparr>)" by simp
  then show ?thesis using dec c2 cs by (intro exI [of _ "DepositsTxPtr ?m"] exI [of _ ?m] exI) auto
qed

text \<open>
  C2: a withdrawal reaches the message passer. When the keeper has handled a withdrawal
  message its sender can afford, the sender's coins are burned, and from the transaction's
  result, where the SDK puts the message's events behind those of the ante handler, the
  builder initiates in the EVM exactly the withdrawal that the message asked for: its
  sender, target, value, gas limit and data.
\<close>

theorem withdrawal_end_to_end:
  fixes c :: "('s, 'b) rollup_ctx"
  assumes ok: "bank_ok K V" "hexlib_ok (ke_hex K)"
    and a: "hx_AccAddressFromBech32 (ke_hex K) (iw_Sender msg) = Ok a" "\<not> hx_IsHexAddress (ke_hex K) (iw_Sender msg)"
    and v: "iw_Value msg = Some (int v)" "v < 2 ^ 256" "v \<le> bv_spendable V (rc_bank c) a WEI"
    and g: "be_dec (iw_GasLimit msg) < 2 ^ 256"
    and tx: "hx_TxMessageTypes (ke_hex K) tx = Ok [ty]" "ty \<in> set withdrawalMsgTypes"
    and pre: "\<forall>e \<in> set pre. e_Type e \<noteq> EventTypeWithdrawalInitiated"
    and evm: "NewEVM L h = Ok ev" "NewL2ToL1MessagePasserExecuter E ev = Ok ex" "GetMessageNonce E ex s = (Ok n, s1)"
      "InitiateWithdrawal E ex \<lparr>wd_Sender = Some (hx_BytesToAddress (ke_hex K) a),
         wd_Target = Some (hx_HexToAddress (ke_hex K) (iw_Target msg)), wd_Value = Some v,
         wd_GasLimit = Some (be_dec (iw_GasLimit msg)), wd_Data = iw_Data msg\<rparr> s1 = (Ok (), s2)"
  shows "\<exists>c' es. deliverMsgs K [InitiateWithdrawalMsg msg] c = (Ok (), c') \<and> rc_events c' = rc_events c @ es \<and>
    bv_bal V (rc_bank c') = takeWei a v (bv_bal V (rc_bank c)) \<and>
    (\<forall>r post. IsOK r \<and> x_Events r = pre @ map (markEvent ix) es @ post \<longrightarrow>
      (\<exists>r'. parseWithdrawalMessages L E (ke_hex K) h tx r s = (Ok r', s2)))"
proof -
  obtain c' es where c': "Keeper_InitiateWithdrawal K msg c = (Ok (), c')" "rc_events c' = rc_events c @ es"
      "bv_bal V (rc_bank c') = takeWei a v (bv_bal V (rc_bank c))"
    and ev: "findWithdrawalEvent 0 es = Some 1" "parseWithdrawalEventAttributes (ke_hex K) (es ! 1) =
      Ok \<lparr>wd_Sender = Some (hx_BytesToAddress (ke_hex K) a), wd_Target = Some (hx_HexToAddress (ke_hex K) (iw_Target msg)),
        wd_Value = Some v, wd_GasLimit = Some (be_dec (iw_GasLimit msg)), wd_Data = iw_Data msg\<rparr>"
    using withdrawal_burns_and_announces [OF ok a v g] by blast
  have "\<exists>r'. parseWithdrawalMessages L E (ke_hex K) h tx r s = (Ok r', s2)"
    if r: "IsOK r" "x_Events r = pre @ map (markEvent ix) es @ post" for r post
    using withdrawal_initiated_from_event [OF tx(2) r(1) tx(1) evm(1-3) result_event(1) [OF r(2) pre ev(1)] _ evm(4)]
      result_event(2) [OF r(2) pre ev(1)] ev(2) by auto
  moreover have "deliverMsgs K [InitiateWithdrawalMsg msg] c = (Ok (), c')" using c'(1) by simp
  ultimately show ?thesis using c'(2,3) by blast
qed

theorem deposit_end_to_end_witness:
  "\<exists>c'. deliverMsgs mem_keeper (GetMsgs example_payload_tx) (ac_rollup ante0) = (Ok (), c') \<and>
     rc_bank c' (address_Bytes 7) WEI = 103 \<and> rc_bank c' (address_Bytes 9) WEI = 102"
proof -
  let ?auth = "\<lambda>b. Err (External ''no tx'') :: msg list sdk_tx res"
  have t: "el_UnmarshalBinary (ke_eth mem_keeper) [0x7e, 1] = Ok (True, [1])"
    "el_L1BlockInfoFromBytes (ke_eth mem_keeper) 0 (el_Data (ke_eth mem_keeper) (True, [1])) = Ok toy_info"
    by (simp_all add: toy_eth_def)
  obtain info where info: "sa_L1BlockInfo (l1AttributesMsg toy_info [0x7e, 1]) = Some info" by (simp add: l1AttributesMsg_def)
  have deps: "list_all2 (userDeposit mem_keeper mem_bank info zero_Params) [[0x7e, 5, 3]] [example_deposit]"
    by (simp add: example_userDeposit)
  have rest: "\<forall>b \<in> set [[2, 9]]. \<forall>t. el_UnmarshalBinary (ke_eth mem_keeper) b = Ok t \<longrightarrow> \<not> el_IsDepositTx (ke_eth mem_keeper) t"
    by (simp add: toy_eth_def)
  have adapt: "AdaptPayloadTxsToCosmosTxs (ke_eth mem_keeper) 0 ([0x7e, 1] # [[0x7e, 5, 3]] @ [[2, 9]]) =
      Ok [DepositsTx_MarshalToSizedBuffer example_payload_tx, [9]]" by (simp only: mem_keeper_sel example_adapt)
  have small: "length (hd [DepositsTx_MarshalToSizedBuffer example_payload_tx, [9]]) < 2 ^ 63"
    using example_payload_size by simp
  have "\<exists>c1. AnteHandle mem_ante (DepositsTxPtr example_payload_tx) False ante0 = (Ok (), c1)" by simp
  from deposit_end_to_end [OF mem_bank_ok mem_sdk_ok mem_kv_ok adapt t info deps rest ante0_params _ small,
      where authTxDecoder = ?auth and e = "External ''no tx''" and A = mem_ante and simulate = False]
  obtain m c1 c2 where r: "TxDecoder_Decode ?auth (DepositsTx_MarshalToSizedBuffer example_payload_tx) = Ok (DepositsTxPtr m)"
    "AnteHandle mem_ante (DepositsTxPtr m) False ante0 = (Ok (), c1)"
    "deliverMsgs mem_keeper (GetMsgs m) (ac_rollup c1) = (Ok (), c2)"
    "bv_bal mem_bank (rc_bank c2) = creditDeposits [example_deposit] (bv_bal mem_bank (rc_bank (ac_rollup ante0)))" by auto
  have "m = example_payload_tx" using r(1) DepositsTx_round_trip(2) [OF example_payload_size]
    by (simp add: TxDecoder_Decode_def DepositDecoder_def)
  moreover have "ac_rollup c1 = ac_rollup ante0" using r(2) by auto
  moreover have "address_Bytes 7 \<noteq> address_Bytes 9" by (simp add: address_Bytes_def)
  ultimately show ?thesis using r(3,4)
    by (intro exI [of _ c2]) (simp add: creditDeposits_def creditDeposit_def example_deposit_def addWei_def ante0_def)
qed

theorem withdrawal_end_to_end_witness:
  "\<exists>c' es. deliverMsgs mem_keeper [InitiateWithdrawalMsg (withdrawal_msg 30 [0x52, 0x08])] ctx0 = (Ok (), c') \<and>
     rc_bank c' (str ''bob'') WEI = 70 \<and>
     (\<exists>r r'. x_Events r = map (markEvent ''0'') es \<and> parseWithdrawalMessages toy_eth toy_evm toy_hex zero_header [0] r [] =
       (Ok r', [(hx_BytesToAddress toy_hex (str ''bob''), 30, [0, 1, 2])]))"
proof -
  obtain e where e: "NewEVM toy_eth zero_header = Ok e"
    "NewL2ToL1MessagePasserExecuter toy_evm e = Ok (toy_executer zero_header)"
    using toy_evm_facts(1) by blast
  have hx: "hexlib_ok (ke_hex mem_keeper)" by (simp add: toy_hex_ok)
  have a: "hx_AccAddressFromBech32 (ke_hex mem_keeper) (iw_Sender (withdrawal_msg 30 [0x52, 0x08])) = Ok (str ''bob'')"
    "\<not> hx_IsHexAddress (ke_hex mem_keeper) (iw_Sender (withdrawal_msg 30 [0x52, 0x08]))"
    by (simp_all add: toy_hex_bob)
  have tx: "hx_TxMessageTypes (ke_hex mem_keeper) [0] = Ok [''/rollup.v1.MsgInitiateWithdrawal'']" by (simp add: toy_hex_def)
  have ty: "''/rollup.v1.MsgInitiateWithdrawal'' \<in> set withdrawalMsgTypes" by (simp add: withdrawalMsgTypes_def)
  have v: "iw_Value (withdrawal_msg 30 [0x52, 0x08]) = Some (int 30)" "(30 :: nat) < 2 ^ 256"
    "30 \<le> bv_spendable mem_bank (rc_bank ctx0) (str ''bob'') WEI"
    "be_dec (iw_GasLimit (withdrawal_msg 30 [0x52, 0x08])) < 2 ^ 256" by simp_all
  from withdrawal_end_to_end [OF mem_bank_ok hx a v tx ty _ e toy_evm_facts(2) [of zero_header "[]"] example_evm, where pre = "[]" and ix = "''0''"]
  obtain c' es where c': "deliverMsgs mem_keeper [InitiateWithdrawalMsg (withdrawal_msg 30 [0x52, 0x08])] ctx0 = (Ok (), c')"
    "bv_bal mem_bank (rc_bank c') = takeWei (str ''bob'') 30 (bv_bal mem_bank (rc_bank ctx0))"
    and all: "\<forall>r post. IsOK r \<and> x_Events r = [] @ map (markEvent ''0'') es @ post \<longrightarrow>
      (\<exists>r'. parseWithdrawalMessages toy_eth toy_evm (ke_hex mem_keeper) zero_header [0] r [] =
        (Ok r', [] @ [(hx_BytesToAddress (ke_hex mem_keeper) (str ''bob''), 30, 0 # iw_Data (withdrawal_msg 30 [0x52, 0x08]))]))"
    by auto
  let ?r = "example_result\<lparr>x_Events := map (markEvent ''0'') es\<rparr>"
  have "IsOK ?r" "x_Events ?r = [] @ map (markEvent ''0'') es @ []" by (simp_all add: IsOK_def example_result_def)
  with all have "\<exists>r'. parseWithdrawalMessages toy_eth toy_evm (ke_hex mem_keeper) zero_header [0] ?r [] =
      (Ok r', [] @ [(hx_BytesToAddress (ke_hex mem_keeper) (str ''bob''), 30, 0 # iw_Data (withdrawal_msg 30 [0x52, 0x08]))])"
    by blast
  then have "\<exists>r'. parseWithdrawalMessages toy_eth toy_evm toy_hex zero_header [0] ?r [] =
      (Ok r', [(hx_BytesToAddress toy_hex (str ''bob''), 30, [0, 1, 2])])"
    by (simp only: mem_keeper_sel withdrawal_msg_sel append_Nil)
  moreover have "x_Events ?r = map (markEvent ''0'') es" by simp
  moreover have "rc_bank c' (str ''bob'') WEI = 70" using c'(2) by (simp add: takeWei_def)
  ultimately show ?thesis using c'(1)
    by blast
qed

end
